(* ===== verification/Prelude.thy ===== *)
theory Prelude
  imports Main "HOL-Library.Word" "HOL-Library.Monad_Syntax"
begin

text \<open>
  Shared vocabulary of the development: the C integer types of \<^verbatim>\<open>include/x86emu.h\<close>
  as machine words, the two C shift operators at 32 bits, the collections of
  rewrite rules the component proofs use, and generic facts about words and bits.

  The C types \<^verbatim>\<open>unsigned\<close> and \<^verbatim>\<open>u32\<close> are both 32 bits wide on the
  hosts the library is built for. A C expression over \<^verbatim>\<open>u8\<close> and \<^verbatim>\<open>u16\<close>
  operands is computed at 32 bits after the integer promotions, so the
  definitions of the other theories widen with \<open>ucast\<close> (or \<open>scast\<close> for a signed
  operand), compute at \<open>32 word\<close>, and narrow with \<open>ucast\<close> where the C value is
  stored in a narrower object.
\<close>

unbundle bit_operations_syntax

type_synonym u8 = "8 word"
type_synonym u16 = "16 word"
type_synonym u32 = "32 word"
type_synonym u64 = "64 word"

named_theorems flag_simps \<open>rules that evaluate flag reads after flag writes\<close>
named_theorems mask_simps \<open>tests of a single-bit mask as bit tests\<close>
named_theorems alu_defs \<open>definitions of the arithmetic primitives\<close>

section \<open>C shifts at 32 bits\<close>

text \<open>
  A C shift of a 32 bit value by a count of 32 or more is undefined. The compiler
  for the library's hosts (i386, x86_64) emits the machine's own shift for a
  variable count, which takes the count modulo 32; the two operators follow it.
  For counts below 32 they are the C operators.
\<close>

definition c_shl :: "u32 \<Rightarrow> nat \<Rightarrow> u32" where
  "c_shl x n = push_bit (n mod 32) x"

definition c_shr :: "u32 \<Rightarrow> nat \<Rightarrow> u32" where
  "c_shr x n = drop_bit (n mod 32) x"

lemma c_shl_less [simp]: "n < 32 \<Longrightarrow> c_shl x n = push_bit n x"
  by (simp add: c_shl_def)

lemma c_shr_less [simp]: "n < 32 \<Longrightarrow> c_shr x n = drop_bit n x"
  by (simp add: c_shr_def)

section \<open>Single-bit masks\<close>

lemma and_exp_neq_0_iff: "(x AND 2 ^ n \<noteq> 0) = bit x n" for x :: "'a::len word"
  by (simp add: and_exp_eq_0_iff_not_bit)

lemma and_mask_bit [mask_simps]:
  "(x AND 0x8 \<noteq> 0) = bit x 3"
  "(x AND 0x80 \<noteq> 0) = bit x 7"
  "(x AND 0x100 \<noteq> 0) = bit x 8"
  "(x AND 0x8000 \<noteq> 0) = bit x 15"
  "(x AND 0x10000 \<noteq> 0) = bit x 16"
  "(x AND 0x80000000 \<noteq> 0) = bit x 31"
  for x :: "'a::len word"
  using and_exp_neq_0_iff[of x 3] and_exp_neq_0_iff[of x 7] and_exp_neq_0_iff[of x 8]
    and_exp_neq_0_iff[of x 15] and_exp_neq_0_iff[of x 16] and_exp_neq_0_iff[of x 31]
  by simp_all

lemma not_and_disjoint: "G AND F = 0 \<Longrightarrow> NOT G AND F = F" for F G :: "'a::len word"
proof (rule bit_word_eqI)
  fix i assume "G AND F = 0" and i: "i < LENGTH('a)"
  then have "\<not> (bit G i \<and> bit F i)" by (metis bit_and_iff bit_0_eq bot_apply bot_bool_def)
  with i show "bit (NOT G AND F) i = bit F i" by (auto simp: bit_simps)
qed

lemma word_of_nat_unat: "word_of_nat (unat w) = w" for w :: "'a::len word"
  by simp

lemma and_one_bit [mask_simps]: "(x AND 1 \<noteq> 0) = bit x 0" for x :: "'a::len word"
  using and_exp_neq_0_iff[of x 0] by simp

lemma ucast_up_down [simp]:
  "LENGTH('a) \<le> LENGTH('b) \<Longrightarrow> (ucast (ucast w :: 'b::len word) :: 'a word) = w" for w :: "'a::len word"
  by (rule bit_word_eqI) (auto simp: bit_simps)

lemma unat_up [simp]: "LENGTH('a) \<le> LENGTH('b) \<Longrightarrow> unat (ucast w :: 'b::len word) = unat w"
  for w :: "'a::len word"
  by (rule bit_eqI) (auto simp: bit_simps dest: bit_imp_le_length)

end
