(* ===== verification/Flags.thy ===== *)
theory Flags
  imports Prelude
begin

text \<open>
  The flags register: the flag bits and the access macros of
  \<^verbatim>\<open>include/x86emu.h\<close> and \<^verbatim>\<open>include/x86emu_int.h\<close>, the parity table of
  \<^verbatim>\<open>prim_ops.c\<close>, and the abstract view of the six arithmetic flags in which
  the arithmetic primitives are specified.
\<close>

section \<open>Flag bits and macros\<close>

abbreviation (input) F_CF :: u32 where "F_CF \<equiv> 0x0001"
abbreviation (input) F_PF :: u32 where "F_PF \<equiv> 0x0004"
abbreviation (input) F_AF :: u32 where "F_AF \<equiv> 0x0010"
abbreviation (input) F_ZF :: u32 where "F_ZF \<equiv> 0x0040"
abbreviation (input) F_SF :: u32 where "F_SF \<equiv> 0x0080"
abbreviation (input) F_TF :: u32 where "F_TF \<equiv> 0x0100"
abbreviation (input) F_IF :: u32 where "F_IF \<equiv> 0x0200"
abbreviation (input) F_DF :: u32 where "F_DF \<equiv> 0x0400"
abbreviation (input) F_OF :: u32 where "F_OF \<equiv> 0x0800"

definition TOGGLE_FLAG :: "u32 \<Rightarrow> u32 \<Rightarrow> u32" where
  "TOGGLE_FLAG flag f = f XOR flag"

definition SET_FLAG :: "u32 \<Rightarrow> u32 \<Rightarrow> u32" where
  "SET_FLAG flag f = f OR flag"

definition CLEAR_FLAG :: "u32 \<Rightarrow> u32 \<Rightarrow> u32" where
  "CLEAR_FLAG flag f = f AND NOT flag"

definition ACCESS_FLAG :: "u32 \<Rightarrow> u32 \<Rightarrow> bool" where
  "ACCESS_FLAG flag f \<longleftrightarrow> f AND flag \<noteq> 0"

definition CONDITIONAL_SET_FLAG :: "bool \<Rightarrow> u32 \<Rightarrow> u32 \<Rightarrow> u32" where
  "CONDITIONAL_SET_FLAG c flag f = (if c then SET_FLAG flag f else CLEAR_FLAG flag f)"

definition x86emu_parity_tab :: "u32 list" where
  "x86emu_parity_tab =
    [0x96696996, 0x69969669, 0x69969669, 0x96696996,
     0x69969669, 0x96696996, 0x96696996, 0x69969669]"

definition PARITY :: "u32 \<Rightarrow> bool" where
  "PARITY x \<longleftrightarrow> drop_bit (unat (x mod 32)) (x86emu_parity_tab ! unat (x div 32)) AND 1 = 0"

definition XOR2 :: "u32 \<Rightarrow> bool" where
  "XOR2 x \<longleftrightarrow> (x XOR drop_bit 1 x) AND 0x1 \<noteq> 0"

section \<open>Reading a flag after a write\<close>

lemma ACCESS_SET_same [flag_simps]: "F \<noteq> 0 \<Longrightarrow> ACCESS_FLAG F (SET_FLAG F f)"
  by (simp add: ACCESS_FLAG_def SET_FLAG_def bit.conj_disj_distrib2)

lemma ACCESS_CLEAR_same [flag_simps]: "\<not> ACCESS_FLAG F (CLEAR_FLAG F f)"
  by (simp add: ACCESS_FLAG_def CLEAR_FLAG_def and.assoc)

lemma ACCESS_SET_other [flag_simps]:
  "G AND F = 0 \<Longrightarrow> ACCESS_FLAG F (SET_FLAG G f) = ACCESS_FLAG F f"
  by (simp add: ACCESS_FLAG_def SET_FLAG_def bit.conj_disj_distrib2)

lemma ACCESS_CLEAR_other [flag_simps]:
  "G AND F = 0 \<Longrightarrow> ACCESS_FLAG F (CLEAR_FLAG G f) = ACCESS_FLAG F f"
  by (simp add: ACCESS_FLAG_def CLEAR_FLAG_def and.assoc not_and_disjoint)

lemma ACCESS_COND_same [flag_simps]:
  "F \<noteq> 0 \<Longrightarrow> ACCESS_FLAG F (CONDITIONAL_SET_FLAG c F f) = c"
  by (simp add: CONDITIONAL_SET_FLAG_def flag_simps)

lemma ACCESS_COND_other [flag_simps]:
  "G AND F = 0 \<Longrightarrow> ACCESS_FLAG F (CONDITIONAL_SET_FLAG c G f) = ACCESS_FLAG F f"
  by (simp add: CONDITIONAL_SET_FLAG_def flag_simps)

section \<open>The arithmetic flags as an abstract record\<close>

record aflags =
  a_cf :: bool
  a_pf :: bool
  a_af :: bool
  a_zf :: bool
  a_sf :: bool
  a_of :: bool

definition aflags_of :: "u32 \<Rightarrow> aflags" where
  "aflags_of f = \<lparr>a_cf = ACCESS_FLAG F_CF f, a_pf = ACCESS_FLAG F_PF f, a_af = ACCESS_FLAG F_AF f,
     a_zf = ACCESS_FLAG F_ZF f, a_sf = ACCESS_FLAG F_SF f, a_of = ACCESS_FLAG F_OF f\<rparr>"

text \<open>All bits of the register other than the six arithmetic flags.\<close>

definition other_flags :: "u32 \<Rightarrow> u32" where
  "other_flags f = f AND NOT 0x8D5"

lemma other_SET [flag_simps]: "F AND NOT 0x8D5 = 0 \<Longrightarrow> other_flags (SET_FLAG F f) = other_flags f"
  by (simp add: other_flags_def SET_FLAG_def bit.conj_disj_distrib2)

lemma other_CLEAR [flag_simps]:
  "F AND NOT 0x8D5 = 0 \<Longrightarrow> other_flags (CLEAR_FLAG F f) = other_flags f"
  by (simp only: other_flags_def CLEAR_FLAG_def and.assoc not_and_disjoint)

lemma other_COND [flag_simps]:
  "F AND NOT 0x8D5 = 0 \<Longrightarrow> other_flags (CONDITIONAL_SET_FLAG c F f) = other_flags f"
  by (simp add: CONDITIONAL_SET_FLAG_def flag_simps)

lemma XOR2_bits [mask_simps]: "XOR2 (drop_bit n x) = (bit x n \<noteq> bit x (Suc n))"
  by (simp add: XOR2_def mask_simps bit_simps)

section \<open>The parity table\<close>

text \<open>Even parity of the low byte, the meaning of PF.\<close>

fun bit_count :: "nat \<Rightarrow> 'a::semiring_bits \<Rightarrow> nat" where
  "bit_count 0 w = 0"
| "bit_count (Suc k) w = bit_count k w + of_bool (bit w k)"

definition even_parity :: "'a::len word \<Rightarrow> bool" where
  "even_parity w \<longleftrightarrow> even (bit_count 8 w)"

lemma bit_count_cong: "(\<And>i. i < k \<Longrightarrow> bit v i = bit w i) \<Longrightarrow> bit_count k v = bit_count k w"
  for v :: "'a::semiring_bits" and w :: "'b::semiring_bits"
  by (induction k) auto

lemma bit_count_3: "bit_count 3 w = of_bool (bit w 0) + of_bool (bit w 1) + of_bool (bit w 2)"
  by (simp add: eval_nat_numeral)

lemma bit_count_5: "bit_count 5 w = bit_count 3 w + of_bool (bit w 3) + of_bool (bit w 4)"
  by (simp add: eval_nat_numeral)

lemma bit_count_8:
  "bit_count 8 w = bit_count 5 w + of_bool (bit w 5) + of_bool (bit w 6) + of_bool (bit w 7)"
  by (simp add: eval_nat_numeral)

text \<open>
  A table index splits into its row (the upper three bits) and its column (the lower
  five): a row holds the parities of the columns, inverted when the row number
  itself has odd parity.
\<close>

lemma bit_count_split: "bit_count 8 n = bit_count 5 (n mod 32) + bit_count 3 (n div 32)" for n :: nat
proof -
  have m: "bit (n mod 32) i = bit n i" if "i < 5" for i
    using that by (simp add: bit_take_bit_iff flip: take_bit_eq_mod[of 5 n, simplified])
  have d: "bit (n div 32) i = bit n (i + 5)" for i
    by (simp add: bit_drop_bit_eq ac_simps flip: drop_bit_eq_div[of 5 n, simplified])
  show ?thesis
    by (simp add: bit_count_8 bit_count_3[of "n div 32"] bit_count_5 bit_count_3[of "n mod 32"]
        bit_count_3[of n] m[of 0] m[of "Suc 0"] m[of 2] m[of 3] m[of 4] d)
qed

lemma parity_row_all:
  "list_all (\<lambda>m. bit (0x96696996 :: u32) m = odd (bit_count 5 m) \<and>
      bit (0x69969669 :: u32) m = even (bit_count 5 m)) [0..<32]"
proof -
  have "[0..<32] = [0, 1, 2, 3, 4, 5, 6, 7, 8, 9, 10, 11, 12, 13, 14, 15,
      16, 17, 18, 19, 20, 21, 22, 23, 24, 25, 26, 27, 28, 29, 30, 31]"
    by (simp add: upt_rec)
  then show ?thesis by (simp only:) (simp add: bit_count_5 bit_count_3 bit_0)
qed

lemma parity_row:
  "m < 32 \<Longrightarrow> bit (0x96696996 :: u32) m = odd (bit_count 5 m) \<and>
     bit (0x69969669 :: u32) m = even (bit_count 5 m)"
  by (rule bspec[OF parity_row_all[unfolded list_all_iff set_upt]]) simp

lemma parity_col_all:
  "list_all (\<lambda>j. x86emu_parity_tab ! j = (if odd (bit_count 3 j) then 0x69969669 else 0x96696996)) [0..<8]"
proof -
  have "[0..<8] = [0, 1, 2, 3, 4, 5, 6, 7]" by (simp add: upt_rec)
  then show ?thesis by (simp only:) (simp add: x86emu_parity_tab_def bit_count_3 bit_0)
qed

lemma parity_col:
  "j < 8 \<Longrightarrow> x86emu_parity_tab ! j = (if odd (bit_count 3 j) then 0x69969669 else 0x96696996)"
  by (rule bspec[OF parity_col_all[unfolded list_all_iff set_upt]]) simp

lemma parity_tab: "n < 256 \<Longrightarrow> bit (x86emu_parity_tab ! (n div 32)) (n mod 32) = odd (bit_count 8 n)"
  using parity_row[of "n mod 32"] by (simp add: parity_col bit_count_split)

lemma PARITY_bit: "PARITY x = (\<not> bit (x86emu_parity_tab ! unat (x div 32)) (unat (x mod 32)))"
proof -
  have "(drop_bit n w AND 1 \<noteq> 0) = bit w n" for n and w :: u32
    using and_one_bit[of "drop_bit n w"] by (simp add: bit_simps)
  then show ?thesis unfolding PARITY_def by blast
qed

lemma bit_count_and_ff: "bit_count 8 (x AND 0xff) = bit_count 8 x" for x :: "'a::len word"
proof (rule bit_count_cong)
  fix i :: nat assume "i < 8"
  then have "bit (x AND mask 8) i = bit x i" by (auto simp: bit_simps dest: bit_imp_le_length)
  then show "bit (x AND 0xff) i = bit x i" by (simp add: mask_eq_exp_minus_1)
qed

lemma PARITY_and_ff [flag_simps]: "PARITY (x AND 0xff) = even_parity x"
proof -
  have "unat (x AND 0xff) < 256"
    using word_and_le1[of x "0xff"] by (simp add: word_le_nat_alt)
  then have "PARITY (x AND 0xff) = even (bit_count 8 (unat (x AND 0xff)))"
    by (simp add: PARITY_bit unat_div unat_mod parity_tab)
  moreover have "bit_count 8 (unat (x AND 0xff)) = bit_count 8 (x AND 0xff)"
    by (rule bit_count_cong) (simp add: bit_simps)
  ultimately show ?thesis by (simp only: even_parity_def bit_count_and_ff)
qed

end
