(* ===== verification/Paging.thy ===== *)
theory Paging
  imports Prelude
begin

text \<open>
  The paged memory of \<^verbatim>\<open>mem.c\<close>: the two-level page table, its lazily created pages,
  and the operations of the client interface on it (\<open>x86emu_set_perm\<close>, \<open>x86emu_set_page\<close>,
  \<open>x86emu_reset_access_stats\<close>, \<open>emu_mem_new\<close>). The specification is a
  flat memory: an attribute per address, a cell per address (several addresses can share
  the cell of a client's buffer), and a byte per cell.
\<close>

section \<open>Pages and tables\<close>

abbreviation (input) X86EMU_PERM_R :: u8 where "X86EMU_PERM_R \<equiv> 0x01"
abbreviation (input) X86EMU_PERM_W :: u8 where "X86EMU_PERM_W \<equiv> 0x02"
abbreviation (input) X86EMU_PERM_X :: u8 where "X86EMU_PERM_X \<equiv> 0x04"
abbreviation (input) X86EMU_PERM_VALID :: u8 where "X86EMU_PERM_VALID \<equiv> 0x08"
abbreviation (input) X86EMU_ACC_R :: u8 where "X86EMU_ACC_R \<equiv> 0x10"
abbreviation (input) X86EMU_ACC_W :: u8 where "X86EMU_ACC_W \<equiv> 0x20"
abbreviation (input) X86EMU_ACC_X :: u8 where "X86EMU_ACC_X \<equiv> 0x40"
abbreviation (input) X86EMU_ACC_INVALID :: u8 where "X86EMU_ACC_INVALID \<equiv> 0x80"
abbreviation (input) X86EMU_PERM_RWX :: u8 where "X86EMU_PERM_RWX \<equiv> 0x07"

abbreviation (input) X86EMU_PAGE_SIZE :: nat where "X86EMU_PAGE_SIZE \<equiv> 4096"

text \<open>
  A page's data pointer is null before the page is created, points to the second half
  of the page's own allocation, or to a client's buffer at some host address.
\<close>

datatype data_ptr = Null | Own_buf | Ext nat

record mem2_page =
  pg_attr :: "(nat \<Rightarrow> u8) option"
  pg_own :: "nat \<Rightarrow> u8"
  pg_data :: data_ptr
  pg_def_attr :: u8

type_synonym mem2_ptable = "nat \<Rightarrow> mem2_page"
type_synonym mem2_pdir = "nat \<Rightarrow> mem2_ptable option"

record x86emu_mem =
  mem_pdir :: "mem2_pdir option"
  mem_invalid :: bool
  mem_def_attr :: u8
  host_mem :: "nat \<Rightarrow> u8"

text \<open>A pointer to a page is its directory and its table index.\<close>

type_synonym page_ptr = "nat \<times> nat"

definition pdir_idx :: "u32 \<Rightarrow> nat" where
  "pdir_idx addr = unat (drop_bit 22 addr)"

definition ptable_idx :: "u32 \<Rightarrow> nat" where
  "ptable_idx addr = unat (drop_bit 12 addr AND 0x3ff)"

definition page_idx :: "u32 \<Rightarrow> nat" where
  "page_idx addr = unat (addr AND 0xfff)"

definition null_page :: "u8 \<Rightarrow> mem2_page" where
  "null_page d = \<lparr>pg_attr = None, pg_own = (\<lambda>_. 0), pg_data = Null, pg_def_attr = d\<rparr>"

text \<open>Reading and writing through a page pointer.\<close>

definition get_page :: "x86emu_mem \<Rightarrow> page_ptr \<Rightarrow> mem2_page" where
  "get_page mem p = (case mem_pdir mem of None \<Rightarrow> null_page (mem_def_attr mem)
     | Some pd \<Rightarrow> (case pd (fst p) of None \<Rightarrow> null_page (mem_def_attr mem) | Some pt \<Rightarrow> pt (snd p)))"

definition put_page :: "x86emu_mem \<Rightarrow> page_ptr \<Rightarrow> mem2_page \<Rightarrow> x86emu_mem" where
  "put_page mem p pg = mem\<lparr>mem_pdir := map_option
     (\<lambda>pd. pd(fst p := map_option (\<lambda>pt. pt(snd p := pg)) (pd (fst p)))) (mem_pdir mem)\<rparr>"

definition vm_get_page :: "x86emu_mem \<Rightarrow> u32 \<Rightarrow> bool \<Rightarrow> page_ptr \<times> x86emu_mem" where
  "vm_get_page mem addr create =
     (let i = pdir_idx addr; j = ptable_idx addr;
          pd = (case mem_pdir mem of None \<Rightarrow> (\<lambda>_. None) | Some pd \<Rightarrow> pd);
          pt = (case pd i of None \<Rightarrow> (\<lambda>_. null_page (mem_def_attr mem)) | Some pt \<Rightarrow> pt);
          mem = mem\<lparr>mem_pdir := Some (pd(i := Some pt))\<rparr>;
          page = get_page mem (i, j);
          mem = (if create \<and> pg_attr page = None then
              put_page mem (i, j) (page\<lparr>pg_attr := Some (\<lambda>_. pg_def_attr page),
                pg_own := (\<lambda>_. 0), pg_data := Own_buf\<rparr>)
            else mem)
      in ((i, j), mem))"

text \<open>The bytes a page pointer's attribute and data pointers lead to.\<close>

definition get_attr :: "x86emu_mem \<Rightarrow> page_ptr \<Rightarrow> nat \<Rightarrow> u8" where
  "get_attr mem p k = (case pg_attr (get_page mem p) of None \<Rightarrow> 0 | Some a \<Rightarrow> a k)"

definition put_attr :: "x86emu_mem \<Rightarrow> page_ptr \<Rightarrow> nat \<Rightarrow> u8 \<Rightarrow> x86emu_mem" where
  "put_attr mem p k v = (let pg = get_page mem p
     in put_page mem p (pg\<lparr>pg_attr := map_option (\<lambda>a. a(k := v)) (pg_attr pg)\<rparr>))"

definition get_data :: "x86emu_mem \<Rightarrow> page_ptr \<Rightarrow> nat \<Rightarrow> u8" where
  "get_data mem p k = (let pg = get_page mem p
     in case pg_data pg of Null \<Rightarrow> 0 | Own_buf \<Rightarrow> pg_own pg k | Ext b \<Rightarrow> host_mem mem (b + k))"

definition put_data :: "x86emu_mem \<Rightarrow> page_ptr \<Rightarrow> nat \<Rightarrow> u8 \<Rightarrow> x86emu_mem" where
  "put_data mem p k v = (let pg = get_page mem p
     in case pg_data pg of Null \<Rightarrow> mem
       | Own_buf \<Rightarrow> put_page mem p (pg\<lparr>pg_own := (pg_own pg)(k := v)\<rparr>)
       | Ext b \<Rightarrow> mem\<lparr>host_mem := (host_mem mem)(b + k := v)\<rparr>)"

section \<open>The client's operations\<close>

definition emu_mem_new :: "u32 \<Rightarrow> (nat \<Rightarrow> u8) \<Rightarrow> x86emu_mem" where
  "emu_mem_new perm host = \<lparr>mem_pdir = None, mem_invalid = False, mem_def_attr = ucast perm, host_mem = host\<rparr>"

text \<open>
  Setting permissions: the rest of the first page when the range starts inside it, then
  whole pages by their default, then the beginning of the last page.
\<close>

function set_perm_head :: "x86emu_mem \<Rightarrow> page_ptr \<Rightarrow> nat \<Rightarrow> u32 \<Rightarrow> u32 \<Rightarrow> u8 \<Rightarrow> u32 \<times> x86emu_mem" where
  "set_perm_head mem page idx start end' perm =
     (if idx < X86EMU_PAGE_SIZE \<and> start \<le> end' then
        set_perm_head (put_attr mem page idx perm) page (idx + 1) (start + 1) end' perm
      else (start, mem))"
  by pat_completeness auto
termination by (relation "measure (\<lambda>(mem, page, idx, _). X86EMU_PAGE_SIZE - idx)") auto

declare set_perm_head.simps [simp del]

definition fill_page :: "x86emu_mem \<Rightarrow> page_ptr \<Rightarrow> u8 \<Rightarrow> x86emu_mem" where
  "fill_page mem p perm = (let pg = get_page mem p
     in put_page mem p (pg\<lparr>pg_def_attr := perm, pg_attr := map_option (\<lambda>_ _. perm) (pg_attr pg)\<rparr>))"

text \<open>The loop over whole pages returns its next start, or nothing where the C code returns.\<close>

function set_perm_pages :: "x86emu_mem \<Rightarrow> u32 \<Rightarrow> u32 \<Rightarrow> u8 \<Rightarrow> u32 option \<times> x86emu_mem" where
  "set_perm_pages mem start end' perm =
     (if end' - start \<ge> 0xfff then
        let (page, mem) = vm_get_page mem start False;
            mem = fill_page mem page perm
        in if start = 0 then (None, mem)
           else if end' - start = 0xfff then (Some (start + 0x1000), mem)
           else set_perm_pages mem (start + 0x1000) end' perm
      else (Some start, mem))"
  by pat_completeness auto
termination
proof (relation "measure (\<lambda>(mem, start, end', perm). unat (end' - start))")
  have less: "unat (end' - (start + 0x1000)) < unat (end' - start)"
    if "0xfff \<le> end' - start" "end' - start \<noteq> 0xfff" for start end' :: u32
  proof -
    have "unat (end' - start) \<noteq> 0xfff" using that(2) by (simp add: word_unat_eq_iff)
    moreover have "0xfff \<le> unat (end' - start)" using that(1) by (simp add: word_le_nat_alt)
    ultimately have "unat (0x1000 :: u32) \<le> unat (end' - start)" by simp
    then have "unat (end' - start - 0x1000) = unat (end' - start) - 0x1000"
      by (simp add: unat_sub word_le_nat_alt)
    then show ?thesis using \<open>0xfff \<le> unat (end' - start)\<close> by (simp add: diff_diff_eq)
  qed
  show "((mem', start + 0x1000, end', perm), mem, start, end', perm) \<in>
      measure (\<lambda>(mem, start, end', perm). unat (end' - start))"
    if "0xfff \<le> end' - start" "\<not> end' - start = 0xfff" for mem' mem :: x86emu_mem and start end' :: u32 and perm :: u8
    using less that by simp
qed simp

declare set_perm_pages.simps [simp del]

fun set_perm_tail :: "x86emu_mem \<Rightarrow> page_ptr \<Rightarrow> nat \<Rightarrow> nat \<Rightarrow> u8 \<Rightarrow> x86emu_mem" where
  "set_perm_tail mem page idx 0 perm = mem"
| "set_perm_tail mem page idx (Suc n) perm = set_perm_tail (put_attr mem page idx perm) page (idx + 1) n perm"

definition set_perm_rest :: "x86emu_mem \<Rightarrow> u32 \<Rightarrow> u32 \<Rightarrow> u8 \<Rightarrow> x86emu_mem" where
  "set_perm_rest mem start end' perm =
     (case set_perm_pages mem start end' perm of
        (None, mem) \<Rightarrow> mem
      | (Some start, mem) \<Rightarrow>
          if start > end' then mem
          else let (page, mem) = vm_get_page mem start True
               in set_perm_tail mem page 0 (unat (end' - start + 1)) perm)"

definition x86emu_set_perm :: "x86emu_mem \<Rightarrow> u32 \<Rightarrow> u32 \<Rightarrow> u32 \<Rightarrow> x86emu_mem" where
  "x86emu_set_perm mem start end' perm =
     (if start > end' then mem
      else
        let idx = page_idx start
        in if idx \<noteq> 0 then
             let (page, mem) = vm_get_page mem start True;
                 (start, mem) = set_perm_head mem page idx start end' (ucast perm)
             in if start = 0 \<or> start > end' then mem else set_perm_rest mem start end' (ucast perm)
           else set_perm_rest mem start end' (ucast perm))"

definition x86emu_set_page :: "x86emu_mem \<Rightarrow> u32 \<Rightarrow> nat option \<Rightarrow> x86emu_mem" where
  "x86emu_set_page mem page address =
     (let (p, mem) = vm_get_page mem page True; pg = get_page mem p
      in case address of
           Some b \<Rightarrow> put_page mem p (pg\<lparr>pg_data := Ext b,
             pg_attr := map_option (\<lambda>a k. a k OR X86EMU_PERM_VALID) (pg_attr pg)\<rparr>)
         | None \<Rightarrow> put_page mem p (pg\<lparr>pg_data := Own_buf\<rparr>))"

definition x86emu_reset_access_stats :: "x86emu_mem \<Rightarrow> x86emu_mem" where
  "x86emu_reset_access_stats mem = mem\<lparr>mem_pdir := map_option (\<lambda>pd. map_option (\<lambda>pt j.
      let page = pt j in page\<lparr>pg_attr := map_option
        (\<lambda>a k. a k AND (X86EMU_PERM_RWX OR X86EMU_PERM_VALID)) (pg_attr page)\<rparr>) \<circ> pd) (mem_pdir mem)\<rparr>"

section \<open>The view through page pointers\<close>

definition ptr_of :: "u32 \<Rightarrow> page_ptr" where
  "ptr_of a = (pdir_idx a, ptable_idx a)"

definition present :: "x86emu_mem \<Rightarrow> page_ptr \<Rightarrow> bool" where
  "present mem p = (case mem_pdir mem of None \<Rightarrow> False | Some pd \<Rightarrow> pd (fst p) \<noteq> None)"

definition live :: "x86emu_mem \<Rightarrow> page_ptr \<Rightarrow> bool" where
  "live mem p \<longleftrightarrow> present mem p \<and> pg_attr (get_page mem p) \<noteq> None"

definition create_page :: "mem2_page \<Rightarrow> mem2_page" where
  "create_page pg = pg\<lparr>pg_attr := Some (\<lambda>_. pg_def_attr pg), pg_own := (\<lambda>_. 0), pg_data := Own_buf\<rparr>"

named_theorems page_simps \<open>reads of the memory after an operation on it\<close>

lemma get_page_put_page [page_simps]:
  "present mem p \<Longrightarrow> get_page (put_page mem p pg) q = (if q = p then pg else get_page mem q)"
  by (cases p; cases q) (auto simp: present_def get_page_def put_page_def split: option.splits)

lemma put_page_simps [page_simps, simp]:
  "present (put_page mem p pg) q = present mem q"
  "host_mem (put_page mem p pg) = host_mem mem"
  "mem_invalid (put_page mem p pg) = mem_invalid mem"
  "mem_def_attr (put_page mem p pg) = mem_def_attr mem"
  by (auto simp: put_page_def present_def split: option.splits)

lemma get_page_update [page_simps, simp]:
  "get_page (mem\<lparr>mem_invalid := i\<rparr>) p = get_page mem p"
  "get_page (mem\<lparr>host_mem := h\<rparr>) p = get_page mem p"
  "present (mem\<lparr>mem_invalid := i\<rparr>) p = present mem p"
  "present (mem\<lparr>host_mem := h\<rparr>) p = present mem p"
  by (simp_all add: get_page_def present_def split: option.split)

lemma live_update [page_simps, simp]:
  "live (mem\<lparr>mem_invalid := i\<rparr>) p = live mem p"
  "live (mem\<lparr>host_mem := h\<rparr>) p = live mem p"
  by (simp_all add: live_def)

lemma vm_get_page_simps [page_simps]:
  "fst (vm_get_page mem a c) = ptr_of a"
  "host_mem (snd (vm_get_page mem a c)) = host_mem mem"
  "mem_invalid (snd (vm_get_page mem a c)) = mem_invalid mem"
  "mem_def_attr (snd (vm_get_page mem a c)) = mem_def_attr mem"
  by (simp_all add: vm_get_page_def Let_def ptr_of_def)

lemma present_vm_get_page [page_simps]:
  "present (snd (vm_get_page mem a c)) q = (present mem q \<or> fst q = pdir_idx a)"
  by (auto simp: vm_get_page_def Let_def present_def put_page_def split: option.splits)

lemma get_page_vm_get_page [page_simps]:
  "get_page (snd (vm_get_page mem a c)) q =
     (if c \<and> q = ptr_of a \<and> pg_attr (get_page mem q) = None then create_page (get_page mem q)
      else get_page mem q)"
proof -
  define mem1 where "mem1 = mem\<lparr>mem_pdir :=
    Some ((case mem_pdir mem of None \<Rightarrow> (\<lambda>_. None) | Some pd \<Rightarrow> pd)(pdir_idx a :=
      Some (case (case mem_pdir mem of None \<Rightarrow> (\<lambda>_. None) | Some pd \<Rightarrow> pd) (pdir_idx a) of
        None \<Rightarrow> (\<lambda>_. null_page (mem_def_attr mem)) | Some pt \<Rightarrow> pt)))\<rparr>"
  have 1: "get_page mem1 q = get_page mem q" for q
    by (cases q) (auto simp: get_page_def mem1_def split: option.splits)
  have 2: "present mem1 (ptr_of a)" by (simp add: present_def mem1_def ptr_of_def)
  have "snd (vm_get_page mem a c) = (if c \<and> pg_attr (get_page mem1 (ptr_of a)) = None then
      put_page mem1 (ptr_of a) (create_page (get_page mem1 (ptr_of a))) else mem1)"
    by (simp add: vm_get_page_def Let_def mem1_def[symmetric] ptr_of_def create_page_def)
  then show ?thesis by (auto simp: 1 get_page_put_page[OF 2])
qed

lemma live_vm_get_page [page_simps]: "live (snd (vm_get_page mem a True)) (ptr_of a)"
  by (simp add: live_def page_simps create_page_def) (simp add: ptr_of_def)

text \<open>An address is its page and its index in the page.\<close>

lemma addr_eqI: "ptr_of a = ptr_of b \<Longrightarrow> page_idx a = page_idx b \<Longrightarrow> a = b"
proof -
  have m: "(0xfff :: u32) = mask 12" "(0x3ff :: u32) = mask 10" by (simp_all add: mask_eq_exp_minus_1)
  assume "ptr_of a = ptr_of b" "page_idx a = page_idx b"
  then have hi: "drop_bit 22 a = drop_bit 22 b" and mid: "drop_bit 12 a AND mask 10 = drop_bit 12 b AND mask 10"
    and lo: "a AND mask 12 = b AND mask 12"
    by (simp_all add: ptr_of_def pdir_idx_def ptable_idx_def page_idx_def m word_unat_eq_iff)
  show "a = b"
  proof (rule bit_word_eqI)
    fix n assume "n < LENGTH(32)"
    then have n: "n < 32" by simp
    have "bit (drop_bit 22 a) (n - 22) = bit (drop_bit 22 b) (n - 22)"
      "bit (drop_bit 12 a AND mask 10) (n - 12) = bit (drop_bit 12 b AND mask 10) (n - 12)"
      "bit (a AND mask 12) n = bit (b AND mask 12) n"
      by (simp_all only: hi mid lo)
    then show "bit a n = bit b n" using n
      by (cases "n < 12"; cases "n < 22") (auto simp: bit_simps)
  qed
qed

lemma page_idx_less [simp]: "page_idx a < 4096"
proof -
  have "a AND 0xfff \<le> 0xfff" by (rule word_and_le1)
  then show ?thesis by (simp add: page_idx_def word_le_nat_alt)
qed

section \<open>The flat memory\<close>

datatype cell = Own_cell u32 | Host_cell nat

record flat_mem =
  f_attr :: "u32 \<Rightarrow> u8"
  f_cell :: "u32 \<Rightarrow> cell"
  f_store :: "cell \<Rightarrow> u8"
  f_invalid :: bool

definition page_attr_at :: "mem2_page \<Rightarrow> nat \<Rightarrow> u8" where
  "page_attr_at pg k = (case pg_attr pg of None \<Rightarrow> pg_def_attr pg | Some f \<Rightarrow> f k)"

definition page_cell_at :: "mem2_page \<Rightarrow> u32 \<Rightarrow> cell" where
  "page_cell_at pg a = (case pg_data pg of Ext b \<Rightarrow> Host_cell (b + page_idx a) | _ \<Rightarrow> Own_cell a)"

definition page_own_at :: "mem2_page \<Rightarrow> nat \<Rightarrow> u8" where
  "page_own_at pg k = (if pg_attr pg = None then 0 else pg_own pg k)"

definition abs_mem :: "x86emu_mem \<Rightarrow> flat_mem" where
  "abs_mem mem = \<lparr>f_attr = (\<lambda>a. page_attr_at (get_page mem (ptr_of a)) (page_idx a)),
     f_cell = (\<lambda>a. page_cell_at (get_page mem (ptr_of a)) a),
     f_store = (\<lambda>c. case c of Own_cell a \<Rightarrow> page_own_at (get_page mem (ptr_of a)) (page_idx a)
       | Host_cell n \<Rightarrow> host_mem mem n),
     f_invalid = mem_invalid mem\<rparr>"

text \<open>A page's data pointer is null exactly as long as the page has not been created.\<close>

definition mem_ok :: "x86emu_mem \<Rightarrow> bool" where
  "mem_ok mem \<longleftrightarrow> (\<forall>p. (pg_attr (get_page mem p) = None) = (pg_data (get_page mem p) = Null))"

lemma mem_okD: "mem_ok mem \<Longrightarrow> (pg_attr (get_page mem p) = None) = (pg_data (get_page mem p) = Null)"
  unfolding mem_ok_def by blast

lemma mem_ok_vm_get_page [simp]: "mem_ok mem \<Longrightarrow> mem_ok (snd (vm_get_page mem a c))"
  by (auto simp: mem_ok_def page_simps create_page_def)

lemma addr_eq_iff: "(ptr_of b = ptr_of a \<and> page_idx b = page_idx a) = (b = a)"
  using addr_eqI by blast

lemma create_page_at:
  "pg_attr pg = None \<Longrightarrow> page_attr_at (create_page pg) k = page_attr_at pg k"
  "pg_attr pg = None \<Longrightarrow> page_own_at (create_page pg) k = page_own_at pg k"
  "pg_data pg = Null \<Longrightarrow> page_cell_at (create_page pg) a = page_cell_at pg a"
  by (simp_all add: create_page_def page_attr_at_def page_own_at_def page_cell_at_def)

lemma page_at_vm_get_page:
  assumes "mem_ok mem"
  shows "page_attr_at (get_page (snd (vm_get_page mem a c)) q) k = page_attr_at (get_page mem q) k"
    and "page_own_at (get_page (snd (vm_get_page mem a c)) q) k = page_own_at (get_page mem q) k"
    and "page_cell_at (get_page (snd (vm_get_page mem a c)) q) b = page_cell_at (get_page mem q) b"
proof -
  have "pg_data (get_page mem q) = Null" if "pg_attr (get_page mem q) = None" using mem_okD[OF assms, of q] that by simp
  then show "page_attr_at (get_page (snd (vm_get_page mem a c)) q) k = page_attr_at (get_page mem q) k"
    "page_own_at (get_page (snd (vm_get_page mem a c)) q) k = page_own_at (get_page mem q) k"
    "page_cell_at (get_page (snd (vm_get_page mem a c)) q) b = page_cell_at (get_page mem q) b"
    unfolding get_page_vm_get_page by (auto simp: create_page_at)
qed

lemma abs_vm_get_page [simp]: "mem_ok mem \<Longrightarrow> abs_mem (snd (vm_get_page mem a c)) = abs_mem mem"
  by (simp add: abs_mem_def page_at_vm_get_page vm_get_page_simps fun_eq_iff split: cell.split)

lemma abs_invalid [simp]: "abs_mem (mem\<lparr>mem_invalid := i\<rparr>) = (abs_mem mem)\<lparr>f_invalid := i\<rparr>"
  by (simp add: abs_mem_def fun_eq_iff split: cell.split)

lemma mem_ok_invalid [simp]: "mem_ok (mem\<lparr>mem_invalid := i\<rparr>) = mem_ok mem"
  by (simp add: mem_ok_def)

subsection \<open>Single bytes\<close>

lemma get_attr_abs: "live mem (ptr_of a) \<Longrightarrow> get_attr mem (ptr_of a) (page_idx a) = f_attr (abs_mem mem) a"
  by (auto simp: get_attr_def abs_mem_def live_def page_attr_at_def)

lemma get_data_abs:
  "live mem (ptr_of a) \<Longrightarrow> mem_ok mem \<Longrightarrow>
   get_data mem (ptr_of a) (page_idx a) = f_store (abs_mem mem) (f_cell (abs_mem mem) a)"
  using mem_okD[of mem "ptr_of a"]
  by (auto simp: get_data_def abs_mem_def live_def page_cell_at_def page_own_at_def Let_def split: data_ptr.splits)

lemma put_attr_simps [simp]:
  "live (put_attr mem p k v) q = live mem q"
  "live mem p \<Longrightarrow> mem_ok (put_attr mem p k v) = mem_ok mem"
  "host_mem (put_attr mem p k v) = host_mem mem"
  "mem_invalid (put_attr mem p k v) = mem_invalid mem"
proof -
  show "host_mem (put_attr mem p k v) = host_mem mem" "mem_invalid (put_attr mem p k v) = mem_invalid mem"
    by (simp_all add: put_attr_def Let_def)
  show "live (put_attr mem p k v) q = live mem q"
    by (cases "present mem p") (auto simp: live_def put_attr_def Let_def page_simps get_page_def put_page_def present_def split: option.splits)
  show "live mem p \<Longrightarrow> mem_ok (put_attr mem p k v) = mem_ok mem"
    by (auto simp: mem_ok_def put_attr_def Let_def page_simps live_def)
qed

lemma put_data_simps [simp]:
  "live mem p \<Longrightarrow> live (put_data mem p k v) q = live mem q"
  "live mem p \<Longrightarrow> mem_ok (put_data mem p k v) = mem_ok mem"
  "mem_invalid (put_data mem p k v) = mem_invalid mem"
proof -
  show "live mem p \<Longrightarrow> live (put_data mem p k v) q = live mem q"
    by (auto simp: put_data_def Let_def live_def page_simps split: data_ptr.splits)
  show "live mem p \<Longrightarrow> mem_ok (put_data mem p k v) = mem_ok mem"
    unfolding mem_ok_def
    by (intro all_cong1) (auto simp: put_data_def Let_def live_def page_simps split: data_ptr.splits)
  show "mem_invalid (put_data mem p k v) = mem_invalid mem"
    by (simp add: put_data_def Let_def split: data_ptr.splits)
qed

lemma get_page_put_attr:
  "live mem p \<Longrightarrow> get_page (put_attr mem p k v) q = (if q = p
     then (get_page mem p)\<lparr>pg_attr := map_option (\<lambda>a. a(k := v)) (pg_attr (get_page mem p))\<rparr> else get_page mem q)"
  by (simp add: put_attr_def Let_def live_def page_simps)

lemma page_at_put_attr:
  assumes "live mem p"
  shows "page_attr_at (get_page (put_attr mem p k v) q) j = (if q = p \<and> j = k then v else page_attr_at (get_page mem q) j)"
    and "page_own_at (get_page (put_attr mem p k v) q) j = page_own_at (get_page mem q) j"
    and "page_cell_at (get_page (put_attr mem p k v) q) b = page_cell_at (get_page mem q) b"
  using assms
  by (auto simp: get_page_put_attr[OF assms] live_def page_attr_at_def page_own_at_def page_cell_at_def)

lemma abs_put_attr:
  assumes "live mem (ptr_of a)"
  shows "abs_mem (put_attr mem (ptr_of a) (page_idx a) v) = (abs_mem mem)\<lparr>f_attr := (f_attr (abs_mem mem))(a := v)\<rparr>"
  using assms by (simp add: abs_mem_def page_at_put_attr addr_eq_iff fun_upd_def fun_eq_iff split: cell.split)

lemma page_at_put_data:
  assumes "live mem p"
  shows "page_attr_at (get_page (put_data mem p k v) q) j = page_attr_at (get_page mem q) j"
    and "page_own_at (get_page (put_data mem p k v) q) j =
      (if q = p \<and> j = k \<and> pg_data (get_page mem p) = Own_buf then v else page_own_at (get_page mem q) j)"
    and "page_cell_at (get_page (put_data mem p k v) q) b = page_cell_at (get_page mem q) b"
    and "host_mem (put_data mem p k v) n =
      (case pg_data (get_page mem p) of Ext b \<Rightarrow> (if n = b + k then v else host_mem mem n) | _ \<Rightarrow> host_mem mem n)"
  using assms
  by (cases "pg_data (get_page mem p)";
      auto simp: put_data_def Let_def page_simps live_def page_attr_at_def page_own_at_def page_cell_at_def)+

lemma abs_put_data:
  assumes "live mem (ptr_of a)" "mem_ok mem"
  shows "abs_mem (put_data mem (ptr_of a) (page_idx a) v) =
    (abs_mem mem)\<lparr>f_store := (f_store (abs_mem mem))(f_cell (abs_mem mem) a := v)\<rparr>"
proof -
  have "pg_data (get_page mem (ptr_of a)) \<noteq> Null" using assms mem_okD[of mem "ptr_of a"] by (simp add: live_def)
  then have "(case c of Own_cell b \<Rightarrow> page_own_at (get_page (put_data mem (ptr_of a) (page_idx a) v) (ptr_of b)) (page_idx b)
      | Host_cell n \<Rightarrow> host_mem (put_data mem (ptr_of a) (page_idx a) v) n) =
    (if c = page_cell_at (get_page mem (ptr_of a)) a then v else
      (case c of Own_cell b \<Rightarrow> page_own_at (get_page mem (ptr_of b)) (page_idx b) | Host_cell n \<Rightarrow> host_mem mem n))" for c
    by (cases c; cases "pg_data (get_page mem (ptr_of a))")
       (auto simp: page_at_put_data[OF assms(1)] page_cell_at_def addr_eqI)
  then show ?thesis by (simp add: abs_mem_def page_at_put_data[OF assms(1)] fun_eq_iff)
qed

section \<open>Addresses as numbers\<close>

lemma page_idx_nat: "page_idx a = unat a mod 4096"
proof -
  have m: "(0xfff :: u32) = mask 12" by (simp add: mask_eq_exp_minus_1)
  have "page_idx a = unat (take_bit 12 a)" unfolding page_idx_def m by (simp only: take_bit_eq_mask)
  also have "\<dots> = take_bit 12 (unat a)" by (rule unsigned_take_bit_eq)
  finally show ?thesis by (simp add: take_bit_eq_mod)
qed

lemma ptr_of_nat: "ptr_of a = (unat a div 4096 div 1024, unat a div 4096 mod 1024)"
proof -
  have m: "(0x3ff :: u32) = mask 10" by (simp add: mask_eq_exp_minus_1)
  have "ptable_idx a = unat (take_bit 10 (drop_bit 12 a))"
    unfolding ptable_idx_def m by (simp only: take_bit_eq_mask)
  also have "\<dots> = take_bit 10 (unat (drop_bit 12 a))" by (rule unsigned_take_bit_eq)
  also have "\<dots> = unat a div 4096 mod 1024"
    by (simp add: take_bit_eq_mod drop_bit_eq_div unat_div)
  finally show ?thesis
    by (simp add: ptr_of_def pdir_idx_def drop_bit_eq_div unat_div div_mult2_eq[symmetric])
qed

lemma ptr_of_eq_iff: "(ptr_of a = ptr_of b) = (unat a div 4096 = unat b div 4096)"
  unfolding ptr_of_nat by (metis Pair_inject div_mult_mod_eq)

lemma unat_lt_32: "unat (a :: u32) < 4294967296"
  using unsigned_less[of a] by simp

lemma unat_add_small: "unat a + n < 4294967296 \<Longrightarrow> unat (a + word_of_nat n) = unat a + n" for a :: u32
  by (simp add: unat_word_ariths unat_of_nat)

text \<open>Moving inside a page.\<close>

lemma page_step:
  assumes "page_idx s + n < 4096"
  shows "unat (s + word_of_nat n) = unat s + n" "ptr_of (s + word_of_nat n) = ptr_of s"
    "page_idx (s + word_of_nat n) = page_idx s + n"
proof -
  obtain q r where q: "unat s div 4096 = q" and r1: "page_idx s = r" by blast
  have s: "unat s = 4096 * q + r" unfolding q[symmetric] r1[symmetric] page_idx_nat by simp
  have r: "r = page_idx s" "r + n < 4096" using assms r1 by simp_all
  have "q < 1048576" using unat_lt_32[of s] s by linarith
  then have "unat s + n < 4294967296" using s r by linarith
  then show u: "unat (s + word_of_nat n) = unat s + n" by (rule unat_add_small)
  have "unat s + n = 4096 * q + (r + n)" using s by linarith
  then have "(unat s + n) div 4096 = q" "(unat s + n) mod 4096 = r + n"
    using r(2) by (simp_all only: div_mult_self4 mod_mult_self4) simp_all
  then show "ptr_of (s + word_of_nat n) = ptr_of s" "page_idx (s + word_of_nat n) = page_idx s + n"
    unfolding ptr_of_eq_iff u q r(1)[symmetric] by (simp_all add: page_idx_nat u)
qed

lemma page_step1:
  assumes "page_idx s + 1 < 4096"
  shows "unat (s + 1) = unat s + 1" "ptr_of (s + 1) = ptr_of s" "page_idx (s + 1) = page_idx s + 1"
  using page_step[of s 1] assms by simp_all

lemma in_page_iff:
  assumes "page_idx s = 0"
  shows "(ptr_of a = ptr_of s) = (unat s \<le> unat a \<and> unat a < unat s + 4096)"
proof -
  obtain q where q: "unat s = 4096 * q"
    using assms mult_div_mod_eq[of 4096 "unat s"] by (metis page_idx_nat add_0_right)
  show ?thesis unfolding ptr_of_eq_iff q by auto
qed

section \<open>The ranges of permissions\<close>

definition set_range :: "(u32 \<Rightarrow> u8) \<Rightarrow> nat \<Rightarrow> nat \<Rightarrow> u8 \<Rightarrow> u32 \<Rightarrow> u8" where
  "set_range f lo hi v a = (if lo \<le> unat a \<and> unat a < hi then v else f a)"

lemma set_range_empty [simp]: "hi \<le> lo \<Longrightarrow> set_range f lo hi v = f"
  by (auto simp: set_range_def fun_eq_iff)

lemma set_range_join: "lo \<le> mid \<Longrightarrow> mid \<le> hi \<Longrightarrow> set_range (set_range f lo mid v) mid hi v = set_range f lo hi v"
  by (auto simp: set_range_def fun_eq_iff)

lemma set_range_first: "set_range (f(a := v)) (unat a + 1) hi v = set_range f (unat a) (max (unat a + 1) hi) v"
  by (auto simp: set_range_def fun_eq_iff word_unat_eq_iff)

text \<open>A memory in which only a range of attributes has changed.\<close>

definition perm_set :: "x86emu_mem \<Rightarrow> nat \<Rightarrow> nat \<Rightarrow> u8 \<Rightarrow> x86emu_mem \<Rightarrow> bool" where
  "perm_set mem lo hi v mem' \<longleftrightarrow> mem_ok mem' \<and>
     abs_mem mem' = (abs_mem mem)\<lparr>f_attr := set_range (f_attr (abs_mem mem)) lo hi v\<rparr>"

lemma perm_set_empty: "mem_ok mem' \<Longrightarrow> abs_mem mem' = abs_mem mem \<Longrightarrow> hi \<le> lo \<Longrightarrow> perm_set mem lo hi v mem'"
  by (simp add: perm_set_def)

lemma perm_set_join:
  "perm_set mem lo mid v mem1 \<Longrightarrow> perm_set mem1 mid hi v mem2 \<Longrightarrow> lo \<le> mid \<Longrightarrow> mid \<le> hi \<Longrightarrow> perm_set mem lo hi v mem2"
  by (simp add: perm_set_def set_range_join)

lemma perm_set_start: "abs_mem mem0 = abs_mem mem \<Longrightarrow> perm_set mem0 lo hi v mem' = perm_set mem lo hi v mem'"
  by (simp add: perm_set_def)

lemma perm_set_put_attr:
  "live mem (ptr_of a) \<Longrightarrow> mem_ok mem \<Longrightarrow>
   perm_set mem (unat a) (unat a + 1) v (put_attr mem (ptr_of a) (page_idx a) v)"
  by (auto simp: perm_set_def abs_put_attr set_range_def fun_eq_iff word_unat_eq_iff)

lemma head_count:
  assumes "idx < 4096" "s \<le> e"
  shows "min (4096 - idx) (unat e + 1 - unat s) = min (4096 - (idx + 1)) (unat e + 1 - (unat s + 1)) + 1"
  using assms by (simp add: word_le_nat_alt)

lemma set_perm_head_step:
  "idx < 4096 \<and> s \<le> e \<Longrightarrow> set_perm_head mem p idx s e v = set_perm_head (put_attr mem p idx v) p (idx + 1) (s + 1) e v"
  "\<not> (idx < 4096 \<and> s \<le> e) \<Longrightarrow> set_perm_head mem p idx s e v = (s, mem)"
  by (subst set_perm_head.simps; simp)+

lemma set_perm_head_correct:
  "live mem p \<Longrightarrow> mem_ok mem \<Longrightarrow> (idx < 4096 \<longrightarrow> ptr_of s = p \<and> page_idx s = idx) \<Longrightarrow>
   fst (set_perm_head mem p idx s e v) = s + word_of_nat (min (4096 - idx) (unat e + 1 - unat s)) \<and>
   perm_set mem (unat s) (unat s + min (4096 - idx) (unat e + 1 - unat s)) v (snd (set_perm_head mem p idx s e v))"
proof (induction "4096 - idx" arbitrary: mem idx s)
  case 0
  then have "\<not> idx < 4096" by simp
  then show ?case using 0 by (simp add: set_perm_head_step perm_set_empty)
next
  case (Suc k)
  show ?case
  proof (cases "s \<le> e")
    case False
    then have "unat e + 1 - unat s = 0" by (simp add: word_le_nat_alt)
    then show ?thesis using False Suc.prems by (simp add: set_perm_head_step perm_set_empty)
  next
    case True
    let ?mem = "put_attr mem p idx v" and ?n1 = "min (4096 - (idx + 1)) (unat e + 1 - unat (s + 1))"
    have idx: "idx < 4096" and s: "ptr_of s = p" "page_idx s = idx" using Suc.hyps(2) Suc.prems(3) by auto
    have put: "perm_set mem (unat s) (unat s + 1) v ?mem"
      using perm_set_put_attr[of mem s v] Suc.prems(1,2) s by simp
    have IH: "fst (set_perm_head ?mem p (idx + 1) (s + 1) e v) = s + 1 + word_of_nat ?n1 \<and>
      perm_set ?mem (unat (s + 1)) (unat (s + 1) + ?n1) v (snd (set_perm_head ?mem p (idx + 1) (s + 1) e v))"
    proof (rule Suc.hyps(1))
      show "k = 4096 - (idx + 1)" using Suc.hyps(2) by simp
      show "live ?mem p" "mem_ok ?mem" using Suc.prems(1,2) by simp_all
      show "idx + 1 < 4096 \<longrightarrow> ptr_of (s + 1) = p \<and> page_idx (s + 1) = idx + 1"
        using page_step1[of s] s by simp
    qed
    have eq: "set_perm_head mem p idx s e v = set_perm_head ?mem p (idx + 1) (s + 1) e v"
      using idx True by (simp add: set_perm_head_step)
    show ?thesis
    proof (cases "idx + 1 < 4096")
      case less: True
      then have u: "unat (s + 1) = unat s + 1" using page_step1(1)[of s] s by simp
      have "perm_set mem (unat s) (unat s + (?n1 + 1)) v (snd (set_perm_head ?mem p (idx + 1) (s + 1) e v))"
        using perm_set_join[OF put] IH unfolding u by (simp add: ac_simps)
      moreover have "s + 1 + word_of_nat ?n1 = s + word_of_nat (?n1 + 1)" by simp
      ultimately show ?thesis unfolding eq head_count[OF idx True] u[symmetric] using IH by simp
    next
      case False
      then have n: "4096 - idx = 1" "4096 - (idx + 1) = 0" using idx by simp_all
      have "set_perm_head ?mem p (idx + 1) (s + 1) e v = (s + 1, ?mem)"
        using False by (simp add: set_perm_head_step)
      then show ?thesis using put True unfolding eq n by (simp add: word_le_nat_alt min_def)
    qed
  qed
qed

lemma set_perm_tail_correct:
  "live mem (ptr_of s) \<Longrightarrow> mem_ok mem \<Longrightarrow> page_idx s + i + n \<le> 4096 \<Longrightarrow>
   perm_set mem (unat s + i) (unat s + i + n) v (set_perm_tail mem (ptr_of s) (page_idx s + i) n v)"
proof (induction n arbitrary: mem i)
  case 0
  then show ?case by (simp add: perm_set_empty)
next
  case (Suc n)
  let ?a = "s + word_of_nat i" and ?mem = "put_attr mem (ptr_of s) (page_idx s + i) v"
  have a: "unat ?a = unat s + i" "ptr_of ?a = ptr_of s" "page_idx ?a = page_idx s + i"
    using page_step[of s i] Suc.prems(3) by simp_all
  have "perm_set mem (unat s + i) (unat s + i + 1) v ?mem"
    using perm_set_put_attr[of mem ?a v] Suc.prems unfolding a by simp
  moreover have "perm_set ?mem (unat s + (i + 1)) (unat s + (i + 1) + n) v
      (set_perm_tail ?mem (ptr_of s) (page_idx s + (i + 1)) n v)"
    using Suc.prems by (intro Suc.IH) simp_all
  ultimately show ?case using perm_set_join by (simp add: ac_simps)
qed

text \<open>Whole pages.\<close>

lemma page_at_fill_page:
  assumes "present mem p"
  shows "page_attr_at (get_page (fill_page mem p v) q) j = (if q = p then v else page_attr_at (get_page mem q) j)"
    and "page_own_at (get_page (fill_page mem p v) q) j = page_own_at (get_page mem q) j"
    and "page_cell_at (get_page (fill_page mem p v) q) b = page_cell_at (get_page mem q) b"
  using assms
  by (cases "pg_attr (get_page mem p)";
      auto simp: fill_page_def Let_def page_simps page_attr_at_def page_own_at_def page_cell_at_def)+

lemma mem_ok_fill_page: "mem_ok mem \<Longrightarrow> present mem p \<Longrightarrow> mem_ok (fill_page mem p v)"
  by (auto simp: mem_ok_def fill_page_def Let_def page_simps)

lemma fill_page_simps [simp]:
  "host_mem (fill_page mem p v) = host_mem mem" "mem_invalid (fill_page mem p v) = mem_invalid mem"
  by (simp_all add: fill_page_def Let_def)

lemma perm_set_fill_page:
  assumes "mem_ok mem" "page_idx s = 0"
  shows "perm_set mem (unat s) (unat s + 4096) v (fill_page (snd (vm_get_page mem s False)) (ptr_of s) v)"
proof -
  let ?mem = "snd (vm_get_page mem s False)"
  have p: "present ?mem (ptr_of s)" by (simp add: page_simps) (simp add: ptr_of_def)
  have "abs_mem (fill_page ?mem (ptr_of s) v) =
      (abs_mem ?mem)\<lparr>f_attr := set_range (f_attr (abs_mem ?mem)) (unat s) (unat s + 4096) v\<rparr>"
    using in_page_iff[OF assms(2)]
    by (simp add: abs_mem_def page_at_fill_page[OF p] set_range_def fun_eq_iff split: cell.split)
  then show ?thesis using assms(1) by (simp add: perm_set_def mem_ok_fill_page p)
qed

lemma set_perm_pages_step:
  "end' - start < 0xfff \<Longrightarrow> set_perm_pages mem start end' v = (Some start, mem)"
  "start \<noteq> 0 \<Longrightarrow> end' - start = 0xfff \<Longrightarrow> set_perm_pages mem start end' v =
     (Some (start + 0x1000), fill_page (snd (vm_get_page mem start False)) (ptr_of start) v)"
  "start \<noteq> 0 \<Longrightarrow> end' - start > 0xfff \<Longrightarrow> set_perm_pages mem start end' v =
     set_perm_pages (fill_page (snd (vm_get_page mem start False)) (ptr_of start) v) (start + 0x1000) end' v"
  "start = 0 \<Longrightarrow> end' \<ge> 0xfff \<Longrightarrow> set_perm_pages mem start end' v =
     (None, fill_page (snd (vm_get_page mem 0 False)) (ptr_of 0) v)"
  by (subst set_perm_pages.simps, auto simp: case_prod_beta Let_def vm_get_page_simps)+

lemma set_perm_pages_correct:
  fixes s e :: u32
  assumes "mem_ok mem" "page_idx s = 0" "s \<noteq> 0" "s \<le> e"
  shows "\<exists>mem'. set_perm_pages mem s e v = (Some (s + word_of_nat (4096 * ((unat e + 1 - unat s) div 4096))), mem') \<and>
    perm_set mem (unat s) (unat s + 4096 * ((unat e + 1 - unat s) div 4096)) v mem'"
  using assms
proof (induction "unat e - unat s" arbitrary: mem s rule: less_induct)
  case less
  have sub: "unat (e - s) = unat e - unat s" using less.prems(4) by (simp add: unat_sub)
  have le: "unat s \<le> unat e" using less.prems(4) by (simp add: word_le_nat_alt)
  let ?mem = "fill_page (snd (vm_get_page mem s False)) (ptr_of s) v"
  have fill: "perm_set mem (unat s) (unat s + 4096) v ?mem"
    using perm_set_fill_page less.prems(1,2) .
  consider (small) "unat e - unat s < 0xfff" | (one) "unat e - unat s = 0xfff" | (big) "unat e - unat s > 0xfff"
    by linarith
  then show ?case
  proof cases
    case small
    then have "e - s < 0xfff" "(unat e + 1 - unat s) div 4096 = 0" using le by (simp_all add: word_less_nat_alt sub)
    then show ?thesis using less.prems by (simp add: set_perm_pages_step perm_set_empty)
  next
    case one
    then have "e - s = 0xfff" "(unat e + 1 - unat s) div 4096 = 1" using le by (simp_all add: word_unat_eq_iff sub)
    then show ?thesis using less.prems fill by (simp add: set_perm_pages_step)
  next
    case big
    let ?s = "s + 0x1000"
    have "unat s + 4096 < 4294967296" using big unat_lt_32[of e] by linarith
    then have u: "unat ?s = unat s + 4096" using unat_add_small[of s 4096] by simp
    have n: "(unat e + 1 - unat s) div 4096 = (unat e + 1 - unat ?s) div 4096 + 1"
    proof -
      have "unat e + 1 - unat s = (unat e + 1 - unat ?s) + 4096" unfolding u using big by linarith
      then show ?thesis by simp
    qed
    obtain mem' where IH: "set_perm_pages ?mem ?s e v = (Some (?s + word_of_nat (4096 * ((unat e + 1 - unat ?s) div 4096))), mem')"
      "perm_set ?mem (unat ?s) (unat ?s + 4096 * ((unat e + 1 - unat ?s) div 4096)) v mem'"
    proof (rule exE[OF less.hyps])
      show "unat e - unat ?s < unat e - unat s" unfolding u using big by linarith
      show "mem_ok ?mem" using fill by (simp add: perm_set_def)
      show "page_idx ?s = 0" using less.prems(2) by (simp add: page_idx_nat u)
      show "?s \<noteq> 0" using u by (auto simp: word_unat_eq_iff)
      show "?s \<le> e" using big by (simp add: word_le_nat_alt u)
    qed blast
    have "e - s > 0xfff" using big by (simp add: word_less_nat_alt sub)
    then have "set_perm_pages mem s e v = (Some (s + word_of_nat (4096 * ((unat e + 1 - unat s) div 4096))), mem')"
      using less.prems(3) IH(1) unfolding n by (simp add: set_perm_pages_step ac_simps distrib_left)
    moreover have "perm_set mem (unat s) (unat s + 4096 * ((unat e + 1 - unat s) div 4096)) v mem'"
      using perm_set_join[OF fill] IH(2) unfolding n u by (simp add: ac_simps)
    ultimately show ?thesis by blast
  qed
qed

text \<open>The partial page at the end.\<close>

lemma set_perm_last:
  assumes "mem_ok mem" "page_idx s = 0" "unat s + n \<le> unat s + 4096"
  shows "perm_set mem (unat s) (unat s + n) v
    (set_perm_tail (snd (vm_get_page mem s True)) (ptr_of s) 0 n v)"
  using set_perm_tail_correct[of "snd (vm_get_page mem s True)" s 0 n v] assms
  by (simp add: page_simps perm_set_def)

lemma set_perm_rest_correct:
  assumes "mem_ok mem" "page_idx s = 0" "s \<noteq> 0" "s \<le> e"
  shows "perm_set mem (unat s) (unat e + 1) v (set_perm_rest mem s e v)"
proof -
  define k where "k = (unat e + 1 - unat s) div 4096"
  have le: "unat s \<le> unat e" using assms(4) by (simp add: word_le_nat_alt)
  have k: "unat s + 4096 * k \<le> unat e + 1" "unat e + 1 < unat s + 4096 * k + 4096"
    using le div_mult_mod_eq[of "unat e + 1 - unat s" 4096] mod_less_divisor[of 4096 "unat e + 1 - unat s"]
    unfolding k_def by linarith+
  define s1 where "s1 = s + word_of_nat (4096 * k)"
  obtain mem' where pages: "set_perm_pages mem s e v = (Some s1, mem')"
    and set: "perm_set mem (unat s) (unat s + 4096 * k) v mem'"
    using set_perm_pages_correct[OF assms] unfolding k_def s1_def by blast
  show ?thesis
  proof (cases "unat s + 4096 * k = unat e + 1")
    case True
    show ?thesis
    proof (cases "s1 > e")
      case gt: True
      then show ?thesis using set unfolding True by (simp add: set_perm_rest_def pages)
    next
      case False
      have "\<not> unat s + 4096 * k < 4294967296"
      proof
        assume "unat s + 4096 * k < 4294967296"
        then have "unat s1 = unat s + 4096 * k" unfolding s1_def by (rule unat_add_small)
        then have "e < s1" unfolding word_less_nat_alt using True by simp
        with False show False by contradiction
      qed
      then have e: "unat e = 4294967295" using True unat_lt_32[of e] by linarith
      have "s1 = word_of_nat (unat s + 4096 * k)" by (simp add: s1_def)
      also have "\<dots> = 0" unfolding True e by simp
      finally have s0: "s1 = 0" .
      have "e + 1 = 0" using e by (simp add: word_unat_eq_iff unat_word_ariths)
      then have "set_perm_rest mem s e v = snd (vm_get_page mem' 0 True)"
        by (simp add: set_perm_rest_def pages s0 case_prod_beta Let_def)
      then show ?thesis using set unfolding True by (simp add: perm_set_def)
    qed
  next
    case False
    then have "unat s + 4096 * k \<le> unat e" using k by simp
    then have u: "unat s1 = unat s + 4096 * k" using unat_add_small[of s "4096 * k"] unat_lt_32[of e] unfolding s1_def by simp
    have s': "page_idx s1 = 0" using assms(2) unfolding page_idx_nat u by simp
    have "\<not> s1 > e" using \<open>unat s + 4096 * k \<le> unat e\<close> by (simp add: word_less_nat_alt u)
    then have rest: "set_perm_rest mem s e v =
        set_perm_tail (snd (vm_get_page mem' s1 True)) (ptr_of s1) 0 (unat (e - s1 + 1)) v"
      by (simp add: set_perm_rest_def pages case_prod_beta Let_def vm_get_page_simps)
    have sub: "unat (e - s1) = unat e - unat s1"
      using \<open>\<not> s1 > e\<close> by (simp add: unat_sub not_less)
    have n: "unat (e - s1 + 1) = unat e - unat s1 + 1"
      using k(2) u unat_add_small[of "e - s1" 1] unfolding sub by simp
    have "perm_set mem' (unat s1) (unat s1 + unat (e - s1 + 1)) v (set_perm_rest mem s e v)"
      unfolding rest using set s' k(2) n u by (intro set_perm_last) (simp_all add: perm_set_def)
    moreover have "unat s1 + unat (e - s1 + 1) = unat e + 1"
      unfolding n u using \<open>unat s + 4096 * k \<le> unat e\<close> by simp
    ultimately show ?thesis using perm_set_join[OF set] le unfolding u by simp
  qed
qed

lemma set_perm_zero:
  assumes "mem_ok mem" "e \<le> 0xfff"
  shows "perm_set mem 0 (unat e + 1) v (set_perm_rest mem 0 e v)"
proof (cases "e = 0xfff")
  case True
  then show ?thesis using perm_set_fill_page[OF assms(1), of 0 v]
    by (simp add: set_perm_rest_def set_perm_pages_step page_idx_def)
next
  case False
  then have "e < 0xfff" using assms(2) by simp
  moreover from this have "unat (e + 1) = unat e + 1" "unat e + 1 \<le> 4096"
    using unat_add_small[of e 1] by (simp_all add: word_less_nat_alt)
  ultimately show ?thesis using set_perm_last[OF assms(1), of 0 "unat e + 1" v]
    by (simp add: set_perm_rest_def set_perm_pages_step case_prod_beta Let_def vm_get_page_simps page_idx_def)
qed

lemma set_perm_offset:
  assumes "mem_ok mem" "page_idx start \<noteq> 0" "start \<le> e"
  shows "perm_set mem (unat start) (unat e + 1) (ucast perm) (x86emu_set_perm mem start e perm)"
proof -
  have le: "unat start \<le> unat e" using assms(3) by (simp add: word_le_nat_alt)
  define mem1 where "mem1 = snd (vm_get_page mem start True)"
  define n where "n = min (4096 - page_idx start) (unat e + 1 - unat start)"
  define p where "p = set_perm_head mem1 (ptr_of start) (page_idx start) start e (ucast perm)"
  have abs1: "abs_mem mem1 = abs_mem mem" and ok1: "mem_ok mem1" and live1: "live mem1 (ptr_of start)"
    using assms(1) by (simp_all add: mem1_def page_simps)
  have "fst p = start + word_of_nat n \<and> perm_set mem1 (unat start) (unat start + n) (ucast perm) (snd p)"
    unfolding p_def n_def by (rule set_perm_head_correct[OF live1 ok1]) simp
  then have start': "fst p = start + word_of_nat n"
    and set: "perm_set mem (unat start) (unat start + n) (ucast perm) (snd p)"
    by (simp_all add: perm_set_start[OF abs1])
  have eq: "x86emu_set_perm mem start e perm =
      (if fst p = 0 \<or> fst p > e then snd p else set_perm_rest (snd p) (fst p) e (ucast perm))"
    using assms(2,3) by (simp add: leD x86emu_set_perm_def p_def mem1_def case_prod_beta Let_def vm_get_page_simps)
  have n: "unat start + n \<le> unat e + 1" using le by (simp add: n_def)
  show ?thesis
  proof (cases "unat start + n = unat e + 1")
    case True
    have "fst p = 0 \<or> fst p > e"
    proof (cases "unat start + n < 4294967296")
      case less: True
      then show ?thesis using True unat_add_small[OF less] by (simp add: start' word_less_nat_alt)
    next
      case False
      then have "unat start + n = 4294967296" using True unat_lt_32[of e] by linarith
      then have "start + word_of_nat n = 0"
      proof -
        have "start + word_of_nat n = word_of_nat (unat start + n)" by simp
        also have "\<dots> = 0" unfolding \<open>unat start + n = 4294967296\<close> by simp
        finally show ?thesis .
      qed
      then show ?thesis by (simp add: start')
    qed
    then show ?thesis using set unfolding eq True by simp
  next
    case neq: False
    then have less: "unat start + n < unat e + 1" using n by simp
    then have nn: "n = 4096 - page_idx start" by (auto simp: n_def)
    have u: "unat (fst p) = unat start + n"
      unfolding start' using less unat_lt_32[of e] by (intro unat_add_small) simp
    have "n + page_idx start = 4096" unfolding nn by (rule le_add_diff_inverse2[OF less_imp_le[OF page_idx_less]])
    then have r: "n + unat start mod 4096 = 4096" unfolding page_idx_nat .
    have "unat start + n = 4096 * (unat start div 4096) + (n + unat start mod 4096)" by simp
    then have "unat start + n = 4096 * (unat start div 4096 + 1)" unfolding r by simp
    then have "page_idx (fst p) = 0" unfolding page_idx_nat u by simp
    moreover have "0 < n" unfolding nn by simp
    then have "fst p \<noteq> 0" using u by (auto simp: word_unat_eq_iff)
    moreover have "fst p \<le> e" using u less by (simp add: word_le_nat_alt)
    moreover have "mem_ok (snd p)" using set by (simp add: perm_set_def)
    ultimately have "perm_set (snd p) (unat (fst p)) (unat e + 1) (ucast perm)
        (set_perm_rest (snd p) (fst p) e (ucast perm))" by (intro set_perm_rest_correct)
    then have "perm_set mem (unat start) (unat e + 1) (ucast perm) (set_perm_rest (snd p) (fst p) e (ucast perm))"
      using perm_set_join[OF set] less unfolding u by simp
    then show ?thesis using \<open>fst p \<noteq> 0\<close> \<open>fst p \<le> e\<close> unfolding eq by (simp add: leD)
  qed
qed

lemma set_perm_range:
  assumes "mem_ok mem" "start \<noteq> 0 \<or> e \<le> 0xfff"
  shows "perm_set mem (unat start) (unat e + 1) (ucast perm) (x86emu_set_perm mem start e perm)"
proof (cases "start > e")
  case True
  then show ?thesis using assms(1)
    by (simp add: x86emu_set_perm_def perm_set_empty word_less_nat_alt)
next
  case le: False
  show ?thesis
  proof (cases "page_idx start = 0")
    case True
    show ?thesis
    proof (cases "start = 0")
      case start0: True
      then show ?thesis using set_perm_zero[of mem e "ucast perm"] assms True
        by (simp add: x86emu_set_perm_def)
    next
      case False
      then show ?thesis using set_perm_rest_correct[of mem start e "ucast perm"] assms(1) True le
        by (simp add: x86emu_set_perm_def leI)
    qed
  next
    case False
    then show ?thesis using set_perm_offset assms(1) le by (simp add: not_less)
  qed
qed

text \<open>
  C35. For a range that starts above zero, or ends in the first page,
  \<open>x86emu_set_perm\<close> gives every address from the first to the last the permissions, and
  changes neither another address's attributes nor any cell or byte; an inverted range
  changes nothing.
\<close>

theorem set_perm_correct:
  assumes "mem_ok mem" "start \<noteq> 0 \<or> e \<le> 0xfff"
  shows "perm_set mem (unat start) (unat e + 1) (ucast perm) (x86emu_set_perm mem start e perm)"
  using assms by (rule set_perm_range)

lemma set_perm_correct_witness:
  "perm_set (emu_mem_new 0 (\<lambda>_. 0)) 0x1ffe (0x5001 + 1) 7 (x86emu_set_perm (emu_mem_new 0 (\<lambda>_. 0)) 0x1ffe 0x5001 7)"
  using set_perm_correct[of "emu_mem_new 0 (\<lambda>_. 0)" "0x1ffe" "0x5001" 7]
  by (simp add: mem_ok_def emu_mem_new_def get_page_def null_page_def)

lemma set_perm_first_page:
  assumes "mem_ok mem" "0x1000 \<le> e"
  shows "perm_set mem 0 0x1000 (ucast perm) (x86emu_set_perm mem 0 e perm)"
proof -
  have "0xfff \<le> e" using assms(2) by (rule order_trans[rotated]) simp
  moreover have "\<not> 0 > e" by simp
  ultimately show ?thesis using perm_set_fill_page[OF assms(1), of 0 "ucast perm"]
    by (simp add: x86emu_set_perm_def set_perm_rest_def set_perm_pages_step page_idx_def)
qed

lemma mem_ok_set_perm: "mem_ok mem \<Longrightarrow> mem_ok (x86emu_set_perm mem start e perm)"
proof -
  assume ok: "mem_ok mem"
  have "4096 \<le> e" if "\<not> e \<le> 0xfff" using that by unat_arith
  then show ?thesis
    using set_perm_range[OF ok, of start e perm] set_perm_first_page[OF ok, of e perm]
    by (cases "start = 0"; cases "e \<le> 0xfff") (auto simp: perm_set_def)
qed

text \<open>
  C39. A range that starts at address zero and reaches beyond the first page, which a
  client uses to open the whole address space, only changes the first page: the loop
  over whole pages returns where its start is still zero, before it is advanced.
\<close>

theorem set_perm_from_zero:
  assumes "mem_ok mem" "0x1000 \<le> e"
  shows "perm_set mem 0 0x1000 (ucast perm) (x86emu_set_perm mem 0 e perm)"
  using assms by (rule set_perm_first_page)

lemma set_perm_from_zero_witness:
  "perm_set (emu_mem_new 0 (\<lambda>_. 0)) 0 0x1000 7 (x86emu_set_perm (emu_mem_new 0 (\<lambda>_. 0)) 0 0xffffffff 7)"
  using set_perm_from_zero[of "emu_mem_new 0 (\<lambda>_. 0)" "0xffffffff" 7]
  by (simp add: mem_ok_def emu_mem_new_def get_page_def null_page_def)

section \<open>Mapping a client's buffer\<close>

lemma present_ptr_of [simp]: "present (snd (vm_get_page mem a c)) (ptr_of a)"
  by (simp add: page_simps) (simp add: ptr_of_def)

lemma get_page_set_page:
  "get_page (x86emu_set_page mem a address) q =
     (if q = ptr_of a then
        (let pg = get_page (snd (vm_get_page mem a True)) (ptr_of a)
         in case address of
              Some b \<Rightarrow> pg\<lparr>pg_data := Ext b, pg_attr := map_option (\<lambda>f k. f k OR X86EMU_PERM_VALID) (pg_attr pg)\<rparr>
            | None \<Rightarrow> pg\<lparr>pg_data := Own_buf\<rparr>)
      else get_page mem q)"
  by (cases address) (simp_all add: x86emu_set_page_def case_prod_beta Let_def vm_get_page_simps
      get_page_put_page get_page_vm_get_page)

lemma set_page_simps [simp]:
  "host_mem (x86emu_set_page mem a address) = host_mem mem"
  "mem_invalid (x86emu_set_page mem a address) = mem_invalid mem"
  by (cases address; simp add: x86emu_set_page_def case_prod_beta Let_def vm_get_page_simps)+

lemma mem_ok_set_page: "mem_ok mem \<Longrightarrow> mem_ok (x86emu_set_page mem a address)"
  using live_vm_get_page[of mem a]
  by (cases address) (auto simp: mem_ok_def get_page_set_page Let_def live_def)

definition flat_set_page :: "flat_mem \<Rightarrow> u32 \<Rightarrow> nat option \<Rightarrow> flat_mem" where
  "flat_set_page s a address = (case address of
     None \<Rightarrow> s\<lparr>f_cell := (\<lambda>x. if ptr_of x = ptr_of a then Own_cell x else f_cell s x)\<rparr>
   | Some b \<Rightarrow> s\<lparr>f_cell := (\<lambda>x. if ptr_of x = ptr_of a then Host_cell (b + page_idx x) else f_cell s x),
       f_attr := (\<lambda>x. if ptr_of x = ptr_of a then f_attr s x OR X86EMU_PERM_VALID else f_attr s x)\<rparr>)"

lemma page_at_set_page:
  assumes "mem_ok mem"
  shows "page_attr_at (get_page (x86emu_set_page mem a address) q) k =
      (if q = ptr_of a \<and> address \<noteq> None then page_attr_at (get_page mem q) k OR X86EMU_PERM_VALID
       else page_attr_at (get_page mem q) k)"
    and "page_own_at (get_page (x86emu_set_page mem a address) q) k = page_own_at (get_page mem q) k"
    and "page_cell_at (get_page (x86emu_set_page mem a address) q) x = (if q = ptr_of a
      then (case address of None \<Rightarrow> Own_cell x | Some b \<Rightarrow> Host_cell (b + page_idx x))
      else page_cell_at (get_page mem q) x)"
proof -
  let ?pg = "get_page (snd (vm_get_page mem a True)) (ptr_of a)"
  have attr: "pg_attr ?pg \<noteq> None" using live_vm_get_page[of mem a] by (simp add: live_def)
  have at: "page_attr_at ?pg k = page_attr_at (get_page mem (ptr_of a)) k"
    "page_own_at ?pg k = page_own_at (get_page mem (ptr_of a)) k"
    by (rule page_at_vm_get_page[OF assms])+
  show "page_attr_at (get_page (x86emu_set_page mem a address) q) k =
      (if q = ptr_of a \<and> address \<noteq> None then page_attr_at (get_page mem q) k OR X86EMU_PERM_VALID
       else page_attr_at (get_page mem q) k)"
    using attr at(1) by (cases address) (auto simp: get_page_set_page Let_def page_attr_at_def)
  show "page_own_at (get_page (x86emu_set_page mem a address) q) k = page_own_at (get_page mem q) k"
    using attr at(2) by (cases address) (auto simp: get_page_set_page Let_def page_own_at_def)
  show "page_cell_at (get_page (x86emu_set_page mem a address) q) x = (if q = ptr_of a
      then (case address of None \<Rightarrow> Own_cell x | Some b \<Rightarrow> Host_cell (b + page_idx x))
      else page_cell_at (get_page mem q) x)"
    by (cases address) (simp_all add: get_page_set_page Let_def page_cell_at_def)
qed

text \<open>
  C34. \<open>x86emu_set_page\<close> redirects exactly the 4096 addresses of the page to the client's
  buffer (marking them initialised) or back to the page's own store, whose bytes were
  kept; no byte, no other address and no other attribute bit changes, and the
  well-formedness of the page table is kept.
\<close>

theorem set_page_correct:
  assumes "mem_ok mem"
  shows "mem_ok (x86emu_set_page mem a address) \<and>
    abs_mem (x86emu_set_page mem a address) = flat_set_page (abs_mem mem) a address"
proof
  show "mem_ok (x86emu_set_page mem a address)" using assms by (rule mem_ok_set_page)
  show "abs_mem (x86emu_set_page mem a address) = flat_set_page (abs_mem mem) a address"
    by (cases address)
       (auto simp: abs_mem_def flat_set_page_def page_at_set_page[OF assms] fun_eq_iff split: cell.split)
qed

lemma set_page_correct_witness:
  "abs_mem (x86emu_set_page (emu_mem_new 0 (\<lambda>_. 0)) 0xa0000 (Some 77)) =
     flat_set_page (abs_mem (emu_mem_new 0 (\<lambda>_. 0))) 0xa0000 (Some 77)"
  using set_page_correct[of "emu_mem_new 0 (\<lambda>_. 0)" "0xa0000" "Some 77"]
  by (simp add: mem_ok_def emu_mem_new_def get_page_def null_page_def)

section \<open>A fresh memory, and forgetting the accesses\<close>

lemma abs_emu_mem_new:
  "mem_ok (emu_mem_new perm h)"
  "abs_mem (emu_mem_new perm h) = \<lparr>f_attr = (\<lambda>_. ucast perm), f_cell = Own_cell,
     f_store = (\<lambda>c. case c of Own_cell _ \<Rightarrow> 0 | Host_cell n \<Rightarrow> h n), f_invalid = False\<rparr>"
  by (simp_all add: mem_ok_def abs_mem_def emu_mem_new_def get_page_def null_page_def page_attr_at_def
      page_cell_at_def page_own_at_def fun_eq_iff split: cell.split)

lemma get_page_reset:
  "get_page (x86emu_reset_access_stats mem) p =
     (get_page mem p)\<lparr>pg_attr := map_option (\<lambda>f k. f k AND (X86EMU_PERM_RWX OR X86EMU_PERM_VALID)) (pg_attr (get_page mem p))\<rparr>"
  by (auto simp: get_page_def x86emu_reset_access_stats_def null_page_def Let_def split: option.splits)

lemma reset_simps [simp]:
  "host_mem (x86emu_reset_access_stats mem) = host_mem mem"
  "mem_invalid (x86emu_reset_access_stats mem) = mem_invalid mem"
  by (simp_all add: x86emu_reset_access_stats_def)

lemma reset_access_stats_abs:
  "mem_ok mem \<Longrightarrow> mem_ok (x86emu_reset_access_stats mem)"
  "abs_mem (x86emu_reset_access_stats mem) = (abs_mem mem)\<lparr>f_attr := (\<lambda>a.
     if pg_attr (get_page mem (ptr_of a)) = None then f_attr (abs_mem mem) a
     else f_attr (abs_mem mem) a AND 0x0f)\<rparr>"
  by (auto simp: mem_ok_def abs_mem_def get_page_reset page_attr_at_def page_cell_at_def page_own_at_def fun_eq_iff
      split: cell.split option.split)

end
