(* ===== verification/Machine.thy ===== *)
theory Machine
  imports Flags Paging
begin

text \<open>
  The machine state of \<^verbatim>\<open>include/x86emu.h\<close>: the registers (\<open>x86emu_regs_t\<close>), the
  emulator around them (\<open>x86emu_t\<close>: memory, ports, handlers, log), and the
  surroundings the library relies on (\<open>host\<close>): the client's handlers, the host's
  clocks and its input ports.
\<close>

section \<open>Segment registers\<close>

record sel_t =
  sel_base :: u32
  sel_limit :: u32
  sel_sel :: u16
  sel_acc :: u16

definition ACC_G :: "u16 \<Rightarrow> bool" where "ACC_G a = bit a 11"
definition ACC_D :: "u16 \<Rightarrow> bool" where "ACC_D a = bit a 10"
definition ACC_P :: "u16 \<Rightarrow> bool" where "ACC_P a = bit a 7"
definition ACC_DPL :: "u16 \<Rightarrow> u16" where "ACC_DPL a = drop_bit 5 a AND 3"
definition ACC_S :: "u16 \<Rightarrow> bool" where "ACC_S a = bit a 4"
definition ACC_E :: "u16 \<Rightarrow> bool" where "ACC_E a = bit a 3"
definition ACC_ED :: "u16 \<Rightarrow> bool" where "ACC_ED a = bit a 2"
definition ACC_C :: "u16 \<Rightarrow> bool" where "ACC_C a = bit a 2"
definition ACC_W :: "u16 \<Rightarrow> bool" where "ACC_W a = bit a 1"
definition ACC_R :: "u16 \<Rightarrow> bool" where "ACC_R a = bit a 1"
definition ACC_A :: "u16 \<Rightarrow> bool" where "ACC_A a = bit a 0"
definition ACC_TYPE :: "u16 \<Rightarrow> u16" where "ACC_TYPE a = a AND 0xf"

abbreviation (input) R_ES_INDEX :: nat where "R_ES_INDEX \<equiv> 0"
abbreviation (input) R_CS_INDEX :: nat where "R_CS_INDEX \<equiv> 1"
abbreviation (input) R_SS_INDEX :: nat where "R_SS_INDEX \<equiv> 2"
abbreviation (input) R_DS_INDEX :: nat where "R_DS_INDEX \<equiv> 3"
abbreviation (input) R_FS_INDEX :: nat where "R_FS_INDEX \<equiv> 4"
abbreviation (input) R_GS_INDEX :: nat where "R_GS_INDEX \<equiv> 5"
abbreviation (input) R_NOSEG_INDEX :: nat where "R_NOSEG_INDEX \<equiv> 6"

section \<open>The registers\<close>

text \<open>
  The C code reaches the 8, 16 and 32 bit registers through unions; here a register is
  its 32 bit value and the narrow ones are views of it (below). A pointer to a segment
  register is its index, a null pointer \<open>None\<close>. The text of the disassembly is the list
  of characters written so far.
\<close>

record x86emu_regs =
  R_EAX :: u32
  R_EBX :: u32
  R_ECX :: u32
  R_EDX :: u32
  R_ESP :: u32
  R_EBP :: u32
  R_ESI :: u32
  R_EDI :: u32
  R_EIP :: u32
  R_FLG :: u32
  xmm :: "nat \<Rightarrow> nat \<Rightarrow> u8"
  seg :: "nat \<Rightarrow> sel_t"
  ldt :: sel_t
  tr :: sel_t
  crx :: "nat \<Rightarrow> u32"
  drx :: "nat \<Rightarrow> u32"
  R_GDT_BASE :: u32
  R_GDT_LIMIT :: u32
  R_IDT_BASE :: u32
  R_IDT_LIMIT :: u32
  msr :: "nat \<Rightarrow> u64"
  msr_perm :: "nat \<Rightarrow> u8"
  mode :: u32
  default_seg :: "nat option"
  saved_eip :: u32
  saved_cs :: u16
  decode_seg :: string
  instr_buf :: "nat \<Rightarrow> u8"
  instr_len :: u32
  disasm_buf :: string
  intr_nr :: u8
  intr_type :: u32
  intr_errcode :: u32
  intr_stats :: "nat \<Rightarrow> u32"
  debug_start :: u32
  debug_len :: u32

abbreviation (input) MODE_SEG_DS_SS_flag :: u32 where "MODE_SEG_DS_SS_flag \<equiv> 0x01"
abbreviation (input) MODE_REPE_flag :: u32 where "MODE_REPE_flag \<equiv> 0x02"
abbreviation (input) MODE_REPNE_flag :: u32 where "MODE_REPNE_flag \<equiv> 0x04"
abbreviation (input) MODE_DATA32_flag :: u32 where "MODE_DATA32_flag \<equiv> 0x08"
abbreviation (input) MODE_ADDR32_flag :: u32 where "MODE_ADDR32_flag \<equiv> 0x10"
abbreviation (input) MODE_STACK32_flag :: u32 where "MODE_STACK32_flag \<equiv> 0x20"
abbreviation (input) MODE_CODE32_flag :: u32 where "MODE_CODE32_flag \<equiv> 0x40"
abbreviation (input) MODE_HALTED_flag :: u32 where "MODE_HALTED_flag \<equiv> 0x80"

section \<open>The emulator\<close>

text \<open>
  The log buffer is its size and the text written to it, \<open>None\<close> when there is no
  buffer. The C code writes the text through a pointer into the buffer; a text of
  \<open>log_size\<close> characters or more (the terminating zero counts) is a write past its end.

  \<open>host_trap\<close> is set when the C code executes a division that traps on the host or calls
  a memory handler that is a null pointer, which ends the process; nothing that comes
  after it has a meaning.

  Accesses to the host's ports are recorded, the latest first; the value of an input
  may depend on the accesses before it.
\<close>

datatype io_event =
    Inb u16 | Inw u16 | Inl u16
  | Outb u16 u8 | Outw u16 u16 | Outl u16 u32

text \<open>A pointer to a segment register, to the LDT or to the task register.\<close>

datatype sel_ref = Seg nat | Ldt | Tr

text \<open>The memory and i/o handler: none, the library's own or one of the client's.\<close>

datatype memio_handler = No_memio | Vm_memio | User_memio nat

text \<open>The MSR handlers are the library's own, a client's, or not set.\<close>

datatype msr_handler = Default_msr | User_msr nat | No_msr

record x86emu = x86emu_regs +
  memio :: memio_handler
  intr :: "nat option"
  code_check :: "nat option"
  cpuid :: "nat option"
  rdmsr :: msr_handler
  wrmsr :: msr_handler
  mem :: x86emu_mem
  io_map :: "nat \<Rightarrow> u8"
  io_stats_i :: "nat \<Rightarrow> u32"
  io_stats_o :: "nat \<Rightarrow> u32"
  iopl_needed :: bool
  iopl_ok :: bool
  log_trace :: u32
  log_size :: u32
  log_text :: "string option"
  log_flush :: "nat option"
  timeout :: u32
  max_instr :: u64
  io_trace :: "io_event list"
  clock_reads :: nat
  host_trap :: bool

text \<open>
  The surroundings: the client's handlers by number (each gets and returns the whole
  state, as the C functions get a pointer to it), the host's input ports, its I/O
  privilege level, and its clocks as functions of how often they were read. The last
  is the C library's \<^verbatim>\<open>%.2f\<close> of the quotient of two counters.
\<close>

record host =
  user_memio :: "nat \<Rightarrow> x86emu \<Rightarrow> u32 \<Rightarrow> u32 \<Rightarrow> u32 \<Rightarrow> u32 \<times> u32 \<times> x86emu"
  user_intr :: "nat \<Rightarrow> x86emu \<Rightarrow> u8 \<Rightarrow> u32 \<Rightarrow> bool \<times> x86emu"
  user_code :: "nat \<Rightarrow> x86emu \<Rightarrow> bool \<times> x86emu"
  user_cpuid :: "nat \<Rightarrow> x86emu \<Rightarrow> x86emu"
  user_msr :: "nat \<Rightarrow> x86emu \<Rightarrow> x86emu"
  host_in :: "io_event list \<Rightarrow> io_event \<Rightarrow> u32"
  user_flush :: "nat \<Rightarrow> x86emu \<Rightarrow> string \<Rightarrow> x86emu"
  host_iopl :: u32
  host_time :: "nat \<Rightarrow> u64"
  host_tsc :: "nat \<Rightarrow> u64"
  host_ratio :: "u64 \<Rightarrow> u64 \<Rightarrow> string"

text \<open>Surroundings without any effect, for the examples.\<close>

definition idle_host :: host where
  "idle_host = \<lparr>user_memio = (\<lambda>n s addr v type. (0, v, s)), user_intr = (\<lambda>n s nr type. (False, s)),
     user_code = (\<lambda>n s. (False, s)), user_cpuid = (\<lambda>n s. s), user_msr = (\<lambda>n s. s), host_in = (\<lambda>es e. 0),
     user_flush = (\<lambda>n s t. s), host_iopl = 0, host_time = (\<lambda>n. 0), host_tsc = (\<lambda>n. 0), host_ratio = (\<lambda>a b. [])\<rparr>"

section \<open>The narrow registers\<close>

text \<open>Reading and writing the low byte, the second byte and the low word of a register.\<close>

definition lo8 :: "u32 \<Rightarrow> u8" where "lo8 r = ucast r"
definition hi8 :: "u32 \<Rightarrow> u8" where "hi8 r = ucast (drop_bit 8 r)"
definition lo16 :: "u32 \<Rightarrow> u16" where "lo16 r = ucast r"

definition set_lo8 :: "u8 \<Rightarrow> u32 \<Rightarrow> u32" where
  "set_lo8 v r = (r AND NOT 0xff) OR ucast v"

definition set_hi8 :: "u8 \<Rightarrow> u32 \<Rightarrow> u32" where
  "set_hi8 v r = (r AND NOT 0xff00) OR push_bit 8 (ucast v)"

definition set_lo16 :: "u16 \<Rightarrow> u32 \<Rightarrow> u32" where
  "set_lo16 v r = (r AND NOT 0xffff) OR ucast v"

abbreviation R_AL :: "x86emu \<Rightarrow> u8" where "R_AL s \<equiv> lo8 (R_EAX s)"
abbreviation R_AH :: "x86emu \<Rightarrow> u8" where "R_AH s \<equiv> hi8 (R_EAX s)"
abbreviation R_BL :: "x86emu \<Rightarrow> u8" where "R_BL s \<equiv> lo8 (R_EBX s)"
abbreviation R_BH :: "x86emu \<Rightarrow> u8" where "R_BH s \<equiv> hi8 (R_EBX s)"
abbreviation R_CL :: "x86emu \<Rightarrow> u8" where "R_CL s \<equiv> lo8 (R_ECX s)"
abbreviation R_CH :: "x86emu \<Rightarrow> u8" where "R_CH s \<equiv> hi8 (R_ECX s)"
abbreviation R_DL :: "x86emu \<Rightarrow> u8" where "R_DL s \<equiv> lo8 (R_EDX s)"
abbreviation R_DH :: "x86emu \<Rightarrow> u8" where "R_DH s \<equiv> hi8 (R_EDX s)"
abbreviation R_AX :: "x86emu \<Rightarrow> u16" where "R_AX s \<equiv> lo16 (R_EAX s)"
abbreviation R_BX :: "x86emu \<Rightarrow> u16" where "R_BX s \<equiv> lo16 (R_EBX s)"
abbreviation R_CX :: "x86emu \<Rightarrow> u16" where "R_CX s \<equiv> lo16 (R_ECX s)"
abbreviation R_DX :: "x86emu \<Rightarrow> u16" where "R_DX s \<equiv> lo16 (R_EDX s)"
abbreviation R_SP :: "x86emu \<Rightarrow> u16" where "R_SP s \<equiv> lo16 (R_ESP s)"
abbreviation R_BP :: "x86emu \<Rightarrow> u16" where "R_BP s \<equiv> lo16 (R_EBP s)"
abbreviation R_SI :: "x86emu \<Rightarrow> u16" where "R_SI s \<equiv> lo16 (R_ESI s)"
abbreviation R_DI :: "x86emu \<Rightarrow> u16" where "R_DI s \<equiv> lo16 (R_EDI s)"
abbreviation R_IP :: "x86emu \<Rightarrow> u16" where "R_IP s \<equiv> lo16 (R_EIP s)"
abbreviation R_CS :: "x86emu \<Rightarrow> u16" where "R_CS s \<equiv> sel_sel (seg s R_CS_INDEX)"
abbreviation R_CS_ACC :: "x86emu \<Rightarrow> u16" where "R_CS_ACC s \<equiv> sel_acc (seg s R_CS_INDEX)"
abbreviation R_SS_ACC :: "x86emu \<Rightarrow> u16" where "R_SS_ACC s \<equiv> sel_acc (seg s R_SS_INDEX)"
abbreviation R_TSC :: "x86emu \<Rightarrow> u64" where "R_TSC s \<equiv> msr s 0x10"
abbreviation R_LAST_REAL_TSC :: "x86emu \<Rightarrow> u64" where "R_LAST_REAL_TSC s \<equiv> msr s 0x11"
abbreviation R_REAL_TSC :: "x86emu \<Rightarrow> u64" where "R_REAL_TSC s \<equiv> msr s 0x12"

definition MODE_REPE :: "x86emu \<Rightarrow> bool" where "MODE_REPE s \<longleftrightarrow> mode s AND MODE_REPE_flag \<noteq> 0"
definition MODE_REPNE :: "x86emu \<Rightarrow> bool" where "MODE_REPNE s \<longleftrightarrow> mode s AND MODE_REPNE_flag \<noteq> 0"
definition MODE_REP :: "x86emu \<Rightarrow> bool" where "MODE_REP s \<longleftrightarrow> mode s AND (MODE_REPE_flag OR MODE_REPNE_flag) \<noteq> 0"
definition MODE_DATA32 :: "x86emu \<Rightarrow> bool" where "MODE_DATA32 s \<longleftrightarrow> mode s AND MODE_DATA32_flag \<noteq> 0"
definition MODE_ADDR32 :: "x86emu \<Rightarrow> bool" where "MODE_ADDR32 s \<longleftrightarrow> mode s AND MODE_ADDR32_flag \<noteq> 0"
definition MODE_STACK32 :: "x86emu \<Rightarrow> bool" where "MODE_STACK32 s \<longleftrightarrow> mode s AND MODE_STACK32_flag \<noteq> 0"
definition MODE_CODE32 :: "x86emu \<Rightarrow> bool" where "MODE_CODE32 s \<longleftrightarrow> mode s AND MODE_CODE32_flag \<noteq> 0"
definition MODE_HALTED :: "x86emu \<Rightarrow> bool" where "MODE_HALTED s \<longleftrightarrow> mode s AND MODE_HALTED_flag \<noteq> 0"
definition MODE_PROTECTED :: "x86emu \<Rightarrow> bool" where "MODE_PROTECTED s \<longleftrightarrow> bit (crx s 0) 0"
abbreviation MODE_REAL :: "x86emu \<Rightarrow> bool" where "MODE_REAL s \<equiv> \<not> MODE_PROTECTED s"

subsection \<open>Laws of the narrow registers\<close>

lemma bit_set_lo8: "bit (set_lo8 v r) i = (if i < 8 then bit v i else bit r i)"
proof -
  have m: "(0xff :: u32) = mask 8" by (simp add: mask_eq_exp_minus_1)
  show ?thesis unfolding set_lo8_def m by (auto simp: bit_simps dest: bit_imp_le_length)
qed

lemma bit_set_hi8: "bit (set_hi8 v r) i = (if 8 \<le> i \<and> i < 16 then bit v (i - 8) else bit r i)"
proof -
  have m: "(0xff00 :: u32) = push_bit 8 (mask 8)" by (simp add: mask_eq_exp_minus_1)
  show ?thesis unfolding set_hi8_def m by (auto simp: bit_simps dest: bit_imp_le_length)
qed

lemma bit_set_lo16: "bit (set_lo16 v r) i = (if i < 16 then bit v i else bit r i)"
proof -
  have m: "(0xffff :: u32) = mask 16" by (simp add: mask_eq_exp_minus_1)
  show ?thesis unfolding set_lo16_def m by (auto simp: bit_simps dest: bit_imp_le_length)
qed

named_theorems reg_simps \<open>reads of a narrow register after a write\<close>

lemma narrow_reads [reg_simps, simp]:
  "lo8 (set_lo8 v r) = v" "hi8 (set_lo8 v r) = hi8 r" "lo8 (set_hi8 v r) = lo8 r" "hi8 (set_hi8 v r) = v"
  "lo16 (set_lo16 w r) = w" "lo8 (set_lo16 w r) = ucast w" "hi8 (set_lo16 w r) = ucast (drop_bit 8 w)"
  by (rule bit_word_eqI; simp add: lo8_def hi8_def lo16_def bit_simps bit_set_lo8 bit_set_hi8 bit_set_lo16)+

lemma narrow_writes [reg_simps, simp]:
  "set_lo8 v (set_lo8 v' r) = set_lo8 v r" "set_hi8 v (set_hi8 v' r) = set_hi8 v r"
  "set_lo16 w (set_lo16 w' r) = set_lo16 w r" "set_lo16 w (set_lo8 v r) = set_lo16 w r"
  "set_lo16 w (set_hi8 v r) = set_lo16 w r" "set_lo8 (lo8 r) r = r" "set_hi8 (hi8 r) r = r" "set_lo16 (lo16 r) r = r"
  by (rule bit_word_eqI; auto simp: lo8_def hi8_def lo16_def bit_simps bit_set_lo8 bit_set_hi8 bit_set_lo16)+

lemma narrow_commute: "set_hi8 v (set_lo8 w r) = set_lo8 w (set_hi8 v r)"
  by (rule bit_word_eqI) (simp add: bit_set_lo8 bit_set_hi8)

end
