(* ===== verification/Vm_Access.thy ===== *)
theory Vm_Access
  imports Paging
begin

text \<open>
  The accesses of \<^verbatim>\<open>mem.c\<close> to the paged memory at 8, 16 and 32 bits: reading,
  executing and writing with permission checks and access statistics, with the fast
  paths for wide accesses inside one page. The specification is the flat memory's
  byte access, repeated.
\<close>

section \<open>Unaligned 16 and 32 bit cells\<close>

text \<open>
  The code reads and writes attributes and data of neighbouring bytes through
  \<^verbatim>\<open>u16\<close> and \<^verbatim>\<open>u32\<close> pointers; the host is little endian.
\<close>

definition le16 :: "u8 \<Rightarrow> u8 \<Rightarrow> u16" where
  "le16 a b = ucast a OR push_bit 8 (ucast b)"

definition le32 :: "u8 \<Rightarrow> u8 \<Rightarrow> u8 \<Rightarrow> u8 \<Rightarrow> u32" where
  "le32 a b c d = ucast a OR push_bit 8 (ucast b) OR push_bit 16 (ucast c) OR push_bit 24 (ucast d)"

definition byte_at :: "nat \<Rightarrow> 'a::len word \<Rightarrow> u8" where
  "byte_at k w = ucast (drop_bit (8 * k) w)"

definition PERM16 :: "u8 \<Rightarrow> u16" where
  "PERM16 a = ucast a + push_bit 8 (ucast a)"

definition PERM32 :: "u8 \<Rightarrow> u32" where
  "PERM32 a = ucast (PERM16 a) + push_bit 16 (ucast (PERM16 a))"

definition get_attr16 :: "x86emu_mem \<Rightarrow> page_ptr \<Rightarrow> nat \<Rightarrow> u16" where
  "get_attr16 mem p k = le16 (get_attr mem p k) (get_attr mem p (k + 1))"

definition put_attr16 :: "x86emu_mem \<Rightarrow> page_ptr \<Rightarrow> nat \<Rightarrow> u16 \<Rightarrow> x86emu_mem" where
  "put_attr16 mem p k w = put_attr (put_attr mem p k (byte_at 0 w)) p (k + 1) (byte_at 1 w)"

definition get_attr32 :: "x86emu_mem \<Rightarrow> page_ptr \<Rightarrow> nat \<Rightarrow> u32" where
  "get_attr32 mem p k = le32 (get_attr mem p k) (get_attr mem p (k + 1)) (get_attr mem p (k + 2)) (get_attr mem p (k + 3))"

definition put_attr32 :: "x86emu_mem \<Rightarrow> page_ptr \<Rightarrow> nat \<Rightarrow> u32 \<Rightarrow> x86emu_mem" where
  "put_attr32 mem p k w = put_attr (put_attr (put_attr (put_attr mem p k (byte_at 0 w)) p (k + 1) (byte_at 1 w))
     p (k + 2) (byte_at 2 w)) p (k + 3) (byte_at 3 w)"

definition get_data16 :: "x86emu_mem \<Rightarrow> page_ptr \<Rightarrow> nat \<Rightarrow> u16" where
  "get_data16 mem p k = le16 (get_data mem p k) (get_data mem p (k + 1))"

definition put_data16 :: "x86emu_mem \<Rightarrow> page_ptr \<Rightarrow> nat \<Rightarrow> u16 \<Rightarrow> x86emu_mem" where
  "put_data16 mem p k w = put_data (put_data mem p k (byte_at 0 w)) p (k + 1) (byte_at 1 w)"

definition get_data32 :: "x86emu_mem \<Rightarrow> page_ptr \<Rightarrow> nat \<Rightarrow> u32" where
  "get_data32 mem p k = le32 (get_data mem p k) (get_data mem p (k + 1)) (get_data mem p (k + 2)) (get_data mem p (k + 3))"

definition put_data32 :: "x86emu_mem \<Rightarrow> page_ptr \<Rightarrow> nat \<Rightarrow> u32 \<Rightarrow> x86emu_mem" where
  "put_data32 mem p k w = put_data (put_data (put_data (put_data mem p k (byte_at 0 w)) p (k + 1) (byte_at 1 w))
     p (k + 2) (byte_at 2 w)) p (k + 3) (byte_at 3 w)"

section \<open>Reading\<close>

definition vm_r_byte :: "x86emu_mem \<Rightarrow> u32 \<Rightarrow> u32 \<times> x86emu_mem" where
  "vm_r_byte mem addr =
     (let idx = page_idx addr;
          (page, mem) = vm_get_page mem addr True
      in if get_attr mem page idx AND X86EMU_PERM_R \<noteq> 0 then
           let mem = put_attr mem page idx (get_attr mem page idx OR X86EMU_ACC_R);
               mem = (if get_attr mem page idx AND X86EMU_PERM_VALID = 0 then
                   (put_attr mem page idx (get_attr mem page idx OR X86EMU_ACC_INVALID))\<lparr>mem_invalid := True\<rparr>
                 else mem)
           in (ucast (get_data mem page idx), mem)
         else (0xff, mem\<lparr>mem_invalid := True\<rparr>))"

definition vm_r_byte_noperm :: "x86emu_mem \<Rightarrow> u32 \<Rightarrow> u32 \<times> x86emu_mem" where
  "vm_r_byte_noperm mem addr =
     (let idx = page_idx addr;
          (page, mem) = vm_get_page mem addr True
      in (ucast (get_data mem page idx), mem))"

definition vm_r_word :: "x86emu_mem \<Rightarrow> u32 \<Rightarrow> u32 \<times> x86emu_mem" where
  "vm_r_word mem addr =
     (let idx = page_idx addr;
          (page, mem) = vm_get_page mem addr True
      in if idx \<ge> X86EMU_PAGE_SIZE - 1 \<or>
            get_attr16 mem page idx AND PERM16 (X86EMU_PERM_R OR X86EMU_PERM_VALID)
              \<noteq> PERM16 (X86EMU_PERM_R OR X86EMU_PERM_VALID) then
           let (b0, mem) = vm_r_byte mem addr;
               (b1, mem) = vm_r_byte mem (addr + 1)
           in (b0 + push_bit 8 b1, mem)
         else
           let mem = put_attr16 mem page idx (get_attr16 mem page idx OR PERM16 X86EMU_ACC_R)
           in (ucast (get_data16 mem page idx), mem))"

definition vm_r_dword :: "x86emu_mem \<Rightarrow> u32 \<Rightarrow> u32 \<times> x86emu_mem" where
  "vm_r_dword mem addr =
     (let idx = page_idx addr;
          (page, mem) = vm_get_page mem addr True
      in if idx \<ge> X86EMU_PAGE_SIZE - 3 \<or>
            get_attr32 mem page idx AND PERM32 (X86EMU_PERM_R OR X86EMU_PERM_VALID)
              \<noteq> PERM32 (X86EMU_PERM_R OR X86EMU_PERM_VALID) then
           let (b0, mem) = vm_r_byte mem addr;
               (b1, mem) = vm_r_byte mem (addr + 1);
               (b2, mem) = vm_r_byte mem (addr + 2);
               (b3, mem) = vm_r_byte mem (addr + 3)
           in (b0 + push_bit 8 b1 + push_bit 16 b2 + push_bit 24 b3, mem)
         else
           let mem = put_attr32 mem page idx (get_attr32 mem page idx OR PERM32 X86EMU_ACC_R)
           in (get_data32 mem page idx, mem))"

section \<open>Executing\<close>

definition vm_x_byte :: "x86emu_mem \<Rightarrow> u32 \<Rightarrow> u32 \<times> x86emu_mem" where
  "vm_x_byte mem addr =
     (let idx = page_idx addr;
          (page, mem) = vm_get_page mem addr True
      in if get_attr mem page idx AND X86EMU_PERM_X \<noteq> 0 then
           let mem = put_attr mem page idx (get_attr mem page idx OR X86EMU_ACC_X);
               mem = (if get_attr mem page idx AND X86EMU_PERM_VALID = 0 then
                   (put_attr mem page idx (get_attr mem page idx OR X86EMU_ACC_INVALID))\<lparr>mem_invalid := True\<rparr>
                 else mem)
           in (ucast (get_data mem page idx), mem)
         else (0xff, mem\<lparr>mem_invalid := True\<rparr>))"

text \<open>
  C leaves open in which order the operands of the sums below are computed; the model
  takes them from left to right.
\<close>

definition vm_x_word :: "x86emu_mem \<Rightarrow> u32 \<Rightarrow> u32 \<times> x86emu_mem" where
  "vm_x_word mem addr =
     (let (b0, mem) = vm_x_byte mem addr;
          (b1, mem) = vm_x_byte mem (addr + 1)
      in (b0 + push_bit 8 b1, mem))"

definition vm_x_dword :: "x86emu_mem \<Rightarrow> u32 \<Rightarrow> u32 \<times> x86emu_mem" where
  "vm_x_dword mem addr =
     (let (w0, mem) = vm_x_word mem addr;
          (w1, mem) = vm_x_word mem (addr + 2)
      in (w0 + push_bit 16 w1, mem))"

section \<open>Writing\<close>

definition vm_w_byte :: "x86emu_mem \<Rightarrow> u32 \<Rightarrow> u32 \<Rightarrow> x86emu_mem" where
  "vm_w_byte mem addr val =
     (let idx = page_idx addr;
          (page, mem) = vm_get_page mem addr True
      in if get_attr mem page idx AND X86EMU_PERM_W \<noteq> 0 then
           put_data (put_attr mem page idx (get_attr mem page idx OR (X86EMU_PERM_VALID OR X86EMU_ACC_W))) page idx (ucast val)
         else
           (put_attr mem page idx (get_attr mem page idx OR X86EMU_ACC_INVALID))\<lparr>mem_invalid := True\<rparr>)"

definition vm_w_byte_noperm :: "x86emu_mem \<Rightarrow> u32 \<Rightarrow> u32 \<Rightarrow> x86emu_mem" where
  "vm_w_byte_noperm mem addr val =
     (let idx = page_idx addr;
          (page, mem) = vm_get_page mem addr True
      in put_data (put_attr mem page idx (get_attr mem page idx OR (X86EMU_PERM_VALID OR X86EMU_ACC_W))) page idx (ucast val))"

definition vm_w_word :: "x86emu_mem \<Rightarrow> u32 \<Rightarrow> u32 \<Rightarrow> x86emu_mem" where
  "vm_w_word mem addr val =
     (let idx = page_idx addr;
          (page, mem) = vm_get_page mem addr True
      in if idx \<ge> X86EMU_PAGE_SIZE - 1 \<or>
            get_attr16 mem page idx AND PERM16 X86EMU_PERM_W \<noteq> PERM16 X86EMU_PERM_W then
           vm_w_byte (vm_w_byte mem addr val) (addr + 1) (drop_bit 8 val)
         else
           put_data16 (put_attr16 mem page idx (get_attr16 mem page idx OR PERM16 (X86EMU_PERM_VALID OR X86EMU_ACC_W)))
             page idx (ucast val))"

definition vm_w_dword :: "x86emu_mem \<Rightarrow> u32 \<Rightarrow> u32 \<Rightarrow> x86emu_mem" where
  "vm_w_dword mem addr val =
     (let idx = page_idx addr;
          (page, mem) = vm_get_page mem addr True
      in if idx \<ge> X86EMU_PAGE_SIZE - 3 \<or>
            get_attr32 mem page idx AND PERM32 X86EMU_PERM_W \<noteq> PERM32 X86EMU_PERM_W then
           vm_w_byte (vm_w_byte (vm_w_byte (vm_w_byte mem addr val) (addr + 1) (drop_bit 8 val))
             (addr + 2) (drop_bit 16 val)) (addr + 3) (drop_bit 24 val)
         else
           put_data32 (put_attr32 mem page idx (get_attr32 mem page idx OR PERM32 (X86EMU_PERM_VALID OR X86EMU_ACC_W)))
             page idx val)"

section \<open>The flat accesses\<close>

definition flat_load :: "u8 \<Rightarrow> u8 \<Rightarrow> flat_mem \<Rightarrow> u32 \<Rightarrow> u32 \<times> flat_mem" where
  "flat_load perm acc s a =
     (if f_attr s a AND perm \<noteq> 0 then
        (ucast (f_store s (f_cell s a)),
         if f_attr s a AND X86EMU_PERM_VALID = 0 then
           s\<lparr>f_attr := (f_attr s)(a := (f_attr s a OR acc) OR X86EMU_ACC_INVALID), f_invalid := True\<rparr>
         else s\<lparr>f_attr := (f_attr s)(a := f_attr s a OR acc)\<rparr>)
      else (0xff, s\<lparr>f_invalid := True\<rparr>))"

abbreviation flat_r_byte :: "flat_mem \<Rightarrow> u32 \<Rightarrow> u32 \<times> flat_mem" where "flat_r_byte \<equiv> flat_load X86EMU_PERM_R X86EMU_ACC_R"
abbreviation flat_x_byte :: "flat_mem \<Rightarrow> u32 \<Rightarrow> u32 \<times> flat_mem" where "flat_x_byte \<equiv> flat_load X86EMU_PERM_X X86EMU_ACC_X"

definition flat_w_byte :: "flat_mem \<Rightarrow> u32 \<Rightarrow> u32 \<Rightarrow> flat_mem" where
  "flat_w_byte s a val =
     (if f_attr s a AND X86EMU_PERM_W \<noteq> 0 then
        s\<lparr>f_attr := (f_attr s)(a := f_attr s a OR (X86EMU_PERM_VALID OR X86EMU_ACC_W)),
          f_store := (f_store s)(f_cell s a := ucast val)\<rparr>
      else s\<lparr>f_attr := (f_attr s)(a := f_attr s a OR X86EMU_ACC_INVALID), f_invalid := True\<rparr>)"

text \<open>Little-endian words of \<open>n\<close> bytes, one byte after the other.\<close>

fun flat_loads :: "(flat_mem \<Rightarrow> u32 \<Rightarrow> u32 \<times> flat_mem) \<Rightarrow> nat \<Rightarrow> flat_mem \<Rightarrow> u32 \<Rightarrow> u32 \<times> flat_mem" where
  "flat_loads ld 0 s a = (0, s)"
| "flat_loads ld (Suc n) s a =
     (let (b, s) = ld s a; (r, s) = flat_loads ld n s (a + 1) in (b + push_bit 8 r, s))"

fun flat_stores :: "nat \<Rightarrow> flat_mem \<Rightarrow> u32 \<Rightarrow> u32 \<Rightarrow> flat_mem" where
  "flat_stores 0 s a val = s"
| "flat_stores (Suc n) s a val = flat_stores n (flat_w_byte s a val) (a + 1) (drop_bit 8 val)"

section \<open>Little-endian words\<close>

lemma bit_le16: "bit (le16 a b) i = (if i < 8 then bit a i else bit b (i - 8))"
  by (auto simp: le16_def bit_simps dest: bit_imp_le_length)

lemma bit_le32: "bit (le32 a b c d) i = (if i < 8 then bit a i else if i < 16 then bit b (i - 8)
    else if i < 24 then bit c (i - 16) else bit d (i - 24))"
  by (auto simp: le32_def bit_simps dest: bit_imp_le_length)

lemma byte_at_le16 [simp]: "byte_at 0 (le16 a b) = a" "byte_at (Suc 0) (le16 a b) = b"
  by (rule bit_word_eqI, simp add: byte_at_def bit_simps bit_le16)+

lemma byte_at_le32 [simp]:
  "byte_at 0 (le32 a b c d) = a" "byte_at (Suc 0) (le32 a b c d) = b"
  "byte_at 2 (le32 a b c d) = c" "byte_at 3 (le32 a b c d) = d"
  by (rule bit_word_eqI, simp add: byte_at_def bit_simps bit_le32)+

lemma le16_ops:
  "le16 a b AND le16 c d = le16 (a AND c) (b AND d)" "le16 a b OR le16 c d = le16 (a OR c) (b OR d)"
  by (rule bit_word_eqI, simp add: bit_le16 bit_simps)+

lemma le32_ops:
  "le32 a b c d AND le32 a' b' c' d' = le32 (a AND a') (b AND b') (c AND c') (d AND d')"
  "le32 a b c d OR le32 a' b' c' d' = le32 (a OR a') (b OR b') (c OR c') (d OR d')"
  by (rule bit_word_eqI, simp add: bit_le32 bit_simps)+

lemma le16_eq_iff: "(le16 a b = le16 c d) = (a = c \<and> b = d)"
  by (metis byte_at_le16)

lemma le32_eq_iff: "(le32 a b c d = le32 a' b' c' d') = (a = a' \<and> b = b' \<and> c = c' \<and> d = d')"
  by (metis byte_at_le32)

lemma PERM16_le16: "PERM16 a = le16 a a"
proof -
  have "(ucast a AND push_bit 8 (ucast a) :: u16) = 0"
    by (rule bit_word_eqI) (auto simp: bit_simps dest: bit_imp_le_length)
  then show ?thesis unfolding PERM16_def le16_def by (rule disjunctive_add_eq_or)
qed

lemma PERM32_le32: "PERM32 a = le32 a a a a"
proof -
  have "(ucast (PERM16 a) AND push_bit 16 (ucast (PERM16 a)) :: u32) = 0"
    by (rule bit_word_eqI) (auto simp: bit_simps dest: bit_imp_le_length)
  then have "PERM32 a = ucast (PERM16 a) OR push_bit 16 (ucast (PERM16 a))"
    unfolding PERM32_def by (rule disjunctive_add_eq_or)
  then show ?thesis unfolding PERM16_le16
    by (simp only:) (rule bit_word_eqI, auto simp: bit_simps bit_le16 bit_le32 dest: bit_imp_le_length)
qed

lemma ucast_le16: "(ucast (le16 a b) :: u32) = ucast a + push_bit 8 (ucast b)"
proof -
  have "(ucast a AND push_bit 8 (ucast b) :: u32) = 0"
    by (rule bit_word_eqI) (auto simp: bit_simps dest: bit_imp_le_length)
  then have "(ucast a + push_bit 8 (ucast b) :: u32) = ucast a OR push_bit 8 (ucast b)"
    by (rule disjunctive_add_eq_or)
  then show ?thesis
    by (simp only:) (rule bit_word_eqI, auto simp: bit_simps bit_le16 dest: bit_imp_le_length)
qed

lemma le32_sum: "le32 a b c d = ucast a + push_bit 8 (ucast b) + push_bit 16 (ucast c) + push_bit 24 (ucast d)"
proof -
  have "(ucast (le16 a b) AND push_bit 16 (ucast (le16 c d)) :: u32) = 0"
    by (rule bit_word_eqI) (auto simp: bit_simps dest: bit_imp_le_length)
  then have "(ucast (le16 a b) + push_bit 16 (ucast (le16 c d)) :: u32) = ucast (le16 a b) OR push_bit 16 (ucast (le16 c d))"
    by (rule disjunctive_add_eq_or)
  also have "\<dots> = le32 a b c d"
    by (rule bit_word_eqI) (auto simp: bit_simps bit_le16 bit_le32 dest: bit_imp_le_length)
  finally show ?thesis unfolding ucast_le16 by (simp add: push_bit_add push_bit_push_bit ac_simps)
qed

lemma byte_at_simps [simp]:
  "byte_at 0 (ucast w :: u16) = ucast w" "byte_at (Suc 0) (ucast w :: u16) = ucast (drop_bit 8 w)"
  "byte_at 0 w = ucast w" "byte_at (Suc 0) w = ucast (drop_bit 8 w)"
  "byte_at 2 w = ucast (drop_bit 16 w)" "byte_at 3 w = ucast (drop_bit 24 w)" for w :: u32
  by (rule bit_word_eqI, auto simp: byte_at_def bit_simps)+

lemma ucast_le32 [simp]:
  "ucast (le32 a b c d) = a" "ucast (drop_bit 8 (le32 a b c d)) = b"
  "ucast (drop_bit 16 (le32 a b c d)) = c" "ucast (drop_bit 24 (le32 a b c d)) = d"
  using byte_at_le32[of a b c d] by simp_all

text \<open>A byte that contains all bits of a mask.\<close>

lemma and_or_eq: "(x AND (p OR q) = p OR q) = (x AND p = p \<and> x AND q = q)" for x p q :: "'a::len word"
  unfolding bit_eq_iff bit_and_iff bit_or_iff by auto

lemma and_bit_eq: "(x AND 0x01 = 0x01) = (x AND 0x01 \<noteq> 0)" "(x AND 0x02 = 0x02) = (x AND 0x02 \<noteq> 0)"
  "(x AND 0x08 = 0x08) = (x AND 0x08 \<noteq> 0)" for x :: u8
proof -
  have "(x AND 2 ^ n = 2 ^ n) = (x AND 2 ^ n \<noteq> 0)" if "n < 8" for n
  proof -
    have "x AND 2 ^ n = (if bit x n then 2 ^ n else 0)" by (rule bit_word_eqI) (auto simp: bit_simps)
    moreover have "(2 ^ n :: u8) \<noteq> 0" using that by (simp add: exp_eq_zero_iff)
    ultimately show ?thesis by auto
  qed
  from this[of 0] this[of 1] this[of 3]
  show "(x AND 0x01 = 0x01) = (x AND 0x01 \<noteq> 0)" "(x AND 0x02 = 0x02) = (x AND 0x02 \<noteq> 0)"
    "(x AND 0x08 = 0x08) = (x AND 0x08 \<noteq> 0)" by simp_all
qed

lemma and_9_eq: "(x AND 9 = 9) = (x AND 0x01 \<noteq> 0 \<and> x AND 0x08 \<noteq> 0)" for x :: u8
  using and_or_eq[of x 1 8] by (simp add: and_bit_eq)

lemma or_and_other: "q AND m = 0 \<Longrightarrow> (x OR q) AND m = x AND m" for x q m :: u8
  by (simp add: bit.conj_disj_distrib2)

section \<open>Byte accesses refine the flat memory\<close>

text \<open>An operation that keeps the page table well-formed and acts on the flat memory as \<open>p\<close>.\<close>

definition refines :: "'a \<times> x86emu_mem \<Rightarrow> 'a \<times> flat_mem \<Rightarrow> bool" where
  "refines r p \<longleftrightarrow> mem_ok (snd r) \<and> p = (fst r, abs_mem (snd r))"

lemma vm_load_byte:
  assumes "mem_ok mem"
  shows "refines (vm_r_byte mem a) (flat_r_byte (abs_mem mem) a)"
    and "refines (vm_x_byte mem a) (flat_x_byte (abs_mem mem) a)"
proof -
  let ?m = "snd (vm_get_page mem a True)"
  have ok: "mem_ok ?m" and live: "live ?m (ptr_of a)" and abs: "abs_mem ?m = abs_mem mem"
    using assms by (simp_all add: live_vm_get_page)
  note simps = refines_def flat_load_def case_prod_beta Let_def vm_get_page_simps live ok abs
    get_attr_abs get_data_abs abs_put_attr or_and_other
  show "refines (vm_r_byte mem a) (flat_r_byte (abs_mem mem) a)"
    unfolding vm_r_byte_def by (simp add: simps)
  show "refines (vm_x_byte mem a) (flat_x_byte (abs_mem mem) a)"
    unfolding vm_x_byte_def by (simp add: simps)
qed

lemma vm_store_byte:
  assumes "mem_ok mem"
  shows "mem_ok (vm_w_byte mem a val) \<and> abs_mem (vm_w_byte mem a val) = flat_w_byte (abs_mem mem) a val"
proof -
  let ?m = "snd (vm_get_page mem a True)"
  have ok: "mem_ok ?m" and live: "live ?m (ptr_of a)" and abs: "abs_mem ?m = abs_mem mem"
    using assms by (simp_all add: live_vm_get_page)
  show ?thesis
    unfolding vm_w_byte_def by (simp add: flat_w_byte_def case_prod_beta Let_def vm_get_page_simps live ok abs
      get_attr_abs abs_put_attr abs_put_data)
qed

lemma vm_byte_noperm:
  assumes "mem_ok mem"
  shows "refines (vm_r_byte_noperm mem a) (ucast (f_store (abs_mem mem) (f_cell (abs_mem mem) a)), abs_mem mem)"
    and "mem_ok (vm_w_byte_noperm mem a val)"
    and "abs_mem (vm_w_byte_noperm mem a val) = (abs_mem mem)
      \<lparr>f_attr := (f_attr (abs_mem mem))(a := f_attr (abs_mem mem) a OR 0x28),
       f_store := (f_store (abs_mem mem))(f_cell (abs_mem mem) a := ucast val)\<rparr>"
proof -
  let ?m = "snd (vm_get_page mem a True)"
  have ok: "mem_ok ?m" and live: "live ?m (ptr_of a)" and abs: "abs_mem ?m = abs_mem mem"
    using assms by (simp_all add: live_vm_get_page)
  note simps = refines_def case_prod_beta Let_def vm_get_page_simps live ok abs
    get_attr_abs get_data_abs abs_put_attr abs_put_data
  show "refines (vm_r_byte_noperm mem a) (ucast (f_store (abs_mem mem) (f_cell (abs_mem mem) a)), abs_mem mem)"
    unfolding vm_r_byte_noperm_def by (simp add: simps)
  show "mem_ok (vm_w_byte_noperm mem a val)"
    "abs_mem (vm_w_byte_noperm mem a val) = (abs_mem mem)
      \<lparr>f_attr := (f_attr (abs_mem mem))(a := f_attr (abs_mem mem) a OR 0x28),
       f_store := (f_store (abs_mem mem))(f_cell (abs_mem mem) a := ucast val)\<rparr>"
    unfolding vm_w_byte_noperm_def by (simp_all add: simps)
qed

section \<open>Wide accesses are the byte accesses in sequence\<close>

lemma page_idx_le: "page_idx a < 4096 - n \<Longrightarrow> n \<le> 4095 \<Longrightarrow> page_idx a + n < 4096"
  by simp

lemma in_page:
  assumes "page_idx a + 3 < 4096"
  shows "ptr_of (a + 1) = ptr_of a" "page_idx (a + 1) = page_idx a + 1"
    "ptr_of (a + 2) = ptr_of a" "page_idx (a + 2) = page_idx a + 2"
    "ptr_of (a + 3) = ptr_of a" "page_idx (a + 3) = page_idx a + 3"
  using page_step[of a 1] page_step[of a 2] page_step[of a 3] assms by simp_all

text \<open>The byte accessors of the page at a neighbouring address.\<close>

lemma flat_load_hit:
  "f_attr s a AND perm \<noteq> 0 \<Longrightarrow> f_attr s a AND X86EMU_PERM_VALID \<noteq> 0 \<Longrightarrow>
   flat_load perm acc s a = (ucast (f_store s (f_cell s a)), s\<lparr>f_attr := (f_attr s)(a := f_attr s a OR acc)\<rparr>)"
  by (simp add: flat_load_def)

lemma flat_loads_word:
  assumes "\<And>x m. mem_ok m \<Longrightarrow> refines (ld m x) (fl (abs_mem m) x)" "mem_ok mem"
  shows "refines (let (b0, m) = ld mem a; (b1, m) = ld m (a + 1) in (b0 + push_bit 8 b1, m)) (flat_loads fl 2 (abs_mem mem) a)"
proof -
  have 0: "refines (ld mem a) (fl (abs_mem mem) a)" by (rule assms)+
  then have "refines (ld (snd (ld mem a)) (a + 1)) (fl (abs_mem (snd (ld mem a))) (a + 1))"
    by (intro assms(1)) (simp add: refines_def)
  then show ?thesis using 0
    by (simp add: refines_def case_prod_beta Let_def numeral_2_eq_2)
qed

lemma flat_loads_4:
  "flat_loads fl 4 s a = (let (b0, s) = fl s a; (b1, s) = fl s (a + 1);
      (b2, s) = fl s (a + 2); (b3, s) = fl s (a + 3)
    in (b0 + push_bit 8 b1 + push_bit 16 b2 + push_bit 24 b3, s))"
  by (simp add: eval_nat_numeral case_prod_beta Let_def add.assoc add.commute[of 2 a] add.commute[of 3 a]
      push_bit_add push_bit_push_bit)

lemma flat_loads_dword:
  assumes "\<And>x m. mem_ok m \<Longrightarrow> refines (ld m x) (fl (abs_mem m) x)" "mem_ok mem"
  shows "refines (let (b0, m) = ld mem a; (b1, m) = ld m (a + 1); (b2, m) = ld m (a + 2); (b3, m) = ld m (a + 3)
      in (b0 + push_bit 8 b1 + push_bit 16 b2 + push_bit 24 b3, m)) (flat_loads fl 4 (abs_mem mem) a)"
proof -
  let ?m1 = "snd (ld mem a)"
  let ?m2 = "snd (ld ?m1 (a + 1))"
  let ?m3 = "snd (ld ?m2 (a + 2))"
  have 0: "refines (ld mem a) (fl (abs_mem mem) a)" by (rule assms)+
  have 1: "refines (ld ?m1 (a + 1)) (fl (abs_mem ?m1) (a + 1))" using 0 by (intro assms(1)) (simp add: refines_def)
  have 2: "refines (ld ?m2 (a + 2)) (fl (abs_mem ?m2) (a + 2))" using 1 by (intro assms(1)) (simp add: refines_def)
  have 3: "refines (ld ?m3 (a + 3)) (fl (abs_mem ?m3) (a + 3))" using 2 by (intro assms(1)) (simp add: refines_def)
  show ?thesis using 0 1 2 3 unfolding flat_loads_4
    by (simp add: refines_def case_prod_beta Let_def push_bit_add push_bit_push_bit add.assoc)
qed

lemma neighbours [simp]: "a \<noteq> a + 1" "a \<noteq> a + 2" "a \<noteq> a + 3" "a + 1 \<noteq> a + 2" "a + 1 \<noteq> a + 3" "a + 2 \<noteq> a + 3"
  "a + 1 \<noteq> a" "a + 2 \<noteq> a" "a + 3 \<noteq> a" "a + 2 \<noteq> a + 1" "a + 3 \<noteq> a + 1" "a + 3 \<noteq> a + 2" for a :: u32
  by simp_all

lemma page_put_attr:
  assumes "live m (ptr_of a)" "page_idx a + n < 4096"
  shows "abs_mem (put_attr m (ptr_of a) (page_idx a + n) v) =
      (abs_mem m)\<lparr>f_attr := (f_attr (abs_mem m))(a + word_of_nat n := v)\<rparr>"
    and "get_attr m (ptr_of a) (page_idx a + n) = f_attr (abs_mem m) (a + word_of_nat n)"
  using abs_put_attr[of m "a + word_of_nat n" v] get_attr_abs[of m "a + word_of_nat n"]
    page_step[OF assms(2)] assms(1) by simp_all

lemma page_put_data:
  assumes "live m (ptr_of a)" "mem_ok m" "page_idx a + n < 4096"
  shows "abs_mem (put_data m (ptr_of a) (page_idx a + n) v) =
      (abs_mem m)\<lparr>f_store := (f_store (abs_mem m))(f_cell (abs_mem m) (a + word_of_nat n) := v)\<rparr>"
    and "get_data m (ptr_of a) (page_idx a + n) = f_store (abs_mem m) (f_cell (abs_mem m) (a + word_of_nat n))"
  using abs_put_data[of m "a + word_of_nat n" v] get_data_abs[of m "a + word_of_nat n"]
    page_step[OF assms(3)] assms(1,2) by simp_all

lemma page16:
  assumes "live m (ptr_of a)" "mem_ok m" "page_idx a + 1 < 4096"
  shows "get_attr16 m (ptr_of a) (page_idx a) = le16 (f_attr (abs_mem m) a) (f_attr (abs_mem m) (a + 1))"
    and "get_data16 m (ptr_of a) (page_idx a) =
      le16 (f_store (abs_mem m) (f_cell (abs_mem m) a)) (f_store (abs_mem m) (f_cell (abs_mem m) (a + 1)))"
    and "abs_mem (put_attr16 m (ptr_of a) (page_idx a) w) =
      (abs_mem m)\<lparr>f_attr := (f_attr (abs_mem m))(a := byte_at 0 w, a + 1 := byte_at 1 w)\<rparr>"
    and "abs_mem (put_data16 m (ptr_of a) (page_idx a) w) =
      (abs_mem m)\<lparr>f_store := (f_store (abs_mem m))(f_cell (abs_mem m) a := byte_at 0 w, f_cell (abs_mem m) (a + 1) := byte_at 1 w)\<rparr>"
    and "live (put_attr16 m (ptr_of a) (page_idx a) w) (ptr_of a)" "mem_ok (put_attr16 m (ptr_of a) (page_idx a) w)"
    and "mem_ok (put_data16 m (ptr_of a) (page_idx a) w)"
  using assms page_put_attr[of _ a 0] page_put_attr[of _ a 1] page_put_data[of _ a 0] page_put_data[of _ a 1]
  by (simp_all add: get_attr16_def get_data16_def put_attr16_def put_data16_def)

lemma page32:
  assumes "live m (ptr_of a)" "mem_ok m" "page_idx a + 3 < 4096"
  shows "get_attr32 m (ptr_of a) (page_idx a) = le32 (f_attr (abs_mem m) a) (f_attr (abs_mem m) (a + 1))
      (f_attr (abs_mem m) (a + 2)) (f_attr (abs_mem m) (a + 3))"
    and "get_data32 m (ptr_of a) (page_idx a) =
      le32 (f_store (abs_mem m) (f_cell (abs_mem m) a)) (f_store (abs_mem m) (f_cell (abs_mem m) (a + 1)))
        (f_store (abs_mem m) (f_cell (abs_mem m) (a + 2))) (f_store (abs_mem m) (f_cell (abs_mem m) (a + 3)))"
    and "abs_mem (put_attr32 m (ptr_of a) (page_idx a) w) = (abs_mem m)\<lparr>f_attr := (f_attr (abs_mem m))
      (a := byte_at 0 w, a + 1 := byte_at 1 w, a + 2 := byte_at 2 w, a + 3 := byte_at 3 w)\<rparr>"
    and "abs_mem (put_data32 m (ptr_of a) (page_idx a) w) = (abs_mem m)\<lparr>f_store := (f_store (abs_mem m))
      (f_cell (abs_mem m) a := byte_at 0 w, f_cell (abs_mem m) (a + 1) := byte_at 1 w,
       f_cell (abs_mem m) (a + 2) := byte_at 2 w, f_cell (abs_mem m) (a + 3) := byte_at 3 w)\<rparr>"
    and "live (put_attr32 m (ptr_of a) (page_idx a) w) (ptr_of a)" "mem_ok (put_attr32 m (ptr_of a) (page_idx a) w)"
    and "mem_ok (put_data32 m (ptr_of a) (page_idx a) w)"
  using assms page_put_attr[of _ a 0] page_put_attr[of _ a 1] page_put_attr[of _ a 2] page_put_attr[of _ a 3]
    page_put_data[of _ a 0] page_put_data[of _ a 1] page_put_data[of _ a 2] page_put_data[of _ a 3]
  by (simp_all add: get_attr32_def get_data32_def put_attr32_def put_data32_def)

lemma vm_r_word_refines:
  assumes "mem_ok mem"
  shows "refines (vm_r_word mem a) (flat_loads flat_r_byte 2 (abs_mem mem) a)"
proof -
  let ?m = "snd (vm_get_page mem a True)"
  have ok: "mem_ok ?m" and live: "live ?m (ptr_of a)" and abs: "abs_mem ?m = abs_mem mem"
    using assms by (simp_all add: live_vm_get_page)
  let ?fast = "page_idx a + 1 < 4096 \<and> get_attr16 ?m (ptr_of a) (page_idx a) AND PERM16 (0x01 OR 0x08) = PERM16 (0x01 OR 0x08)"
  show ?thesis
  proof (cases ?fast)
    case False
    then have "vm_r_word mem a = (let (b0, m) = vm_r_byte ?m a; (b1, m) = vm_r_byte m (a + 1) in (b0 + push_bit 8 b1, m))"
      by (auto simp: vm_r_word_def case_prod_beta Let_def vm_get_page_simps)
    then show ?thesis using flat_loads_word[of vm_r_byte flat_r_byte, OF vm_load_byte(1) ok, of a] abs by simp
  next
    case True
    note pg = page16[OF live ok conjunct1[OF True], unfolded abs]
    have hit: "f_attr (abs_mem mem) a AND 0x01 \<noteq> 0" "f_attr (abs_mem mem) a AND 0x08 \<noteq> 0"
      "f_attr (abs_mem mem) (a + 1) AND 0x01 \<noteq> 0" "f_attr (abs_mem mem) (a + 1) AND 0x08 \<noteq> 0"
      using True unfolding PERM16_le16 by (simp_all add: pg le16_ops le16_eq_iff and_9_eq)
    have "vm_r_word mem a = (let m = put_attr16 ?m (ptr_of a) (page_idx a)
        (get_attr16 ?m (ptr_of a) (page_idx a) OR PERM16 0x10) in (ucast (get_data16 m (ptr_of a) (page_idx a)), m))"
      using True by (auto simp: vm_r_word_def case_prod_beta Let_def vm_get_page_simps)
    then show ?thesis using True hit
      by (simp add: refines_def Let_def page16[OF pg(5,6)] pg PERM16_le16 le16_ops ucast_le16
          numeral_2_eq_2 flat_load_hit)
  qed
qed

lemma flat_r_hit4:
  assumes "f_attr s a AND 9 = 9" "f_attr s (a + 1) AND 9 = 9" "f_attr s (a + 2) AND 9 = 9" "f_attr s (a + 3) AND 9 = 9"
  shows "flat_loads flat_r_byte 4 s a =
    (le32 (f_store s (f_cell s a)) (f_store s (f_cell s (a + 1))) (f_store s (f_cell s (a + 2))) (f_store s (f_cell s (a + 3))),
     s\<lparr>f_attr := (f_attr s)(a := f_attr s a OR 0x10, a + 1 := f_attr s (a + 1) OR 0x10,
       a + 2 := f_attr s (a + 2) OR 0x10, a + 3 := f_attr s (a + 3) OR 0x10)\<rparr>)"
proof -
  let ?s1 = "s\<lparr>f_attr := (f_attr s)(a := f_attr s a OR 0x10)\<rparr>"
  let ?s2 = "s\<lparr>f_attr := (f_attr s)(a := f_attr s a OR 0x10, a + 1 := f_attr s (a + 1) OR 0x10)\<rparr>"
  let ?s3 = "s\<lparr>f_attr := (f_attr s)(a := f_attr s a OR 0x10, a + 1 := f_attr s (a + 1) OR 0x10,
    a + 2 := f_attr s (a + 2) OR 0x10)\<rparr>"
  have "flat_r_byte s a = (ucast (f_store s (f_cell s a)), ?s1)"
    "flat_r_byte ?s1 (a + 1) = (ucast (f_store s (f_cell s (a + 1))), ?s2)"
    "flat_r_byte ?s2 (a + 2) = (ucast (f_store s (f_cell s (a + 2))), ?s3)"
    using assms(1,2,3) unfolding and_9_eq by (simp_all add: flat_load_hit)
  moreover have "flat_r_byte ?s3 (a + 3) = (ucast (f_store s (f_cell s (a + 3))),
     s\<lparr>f_attr := (f_attr s)(a := f_attr s a OR 0x10, a + 1 := f_attr s (a + 1) OR 0x10,
       a + 2 := f_attr s (a + 2) OR 0x10, a + 3 := f_attr s (a + 3) OR 0x10)\<rparr>)"
    using assms(4) unfolding and_9_eq by (simp add: flat_load_hit)
  ultimately show ?thesis unfolding flat_loads_4 le32_sum by simp
qed

lemma vm_r_dword_refines:
  assumes "mem_ok mem"
  shows "refines (vm_r_dword mem a) (flat_loads flat_r_byte 4 (abs_mem mem) a)"
proof -
  let ?m = "snd (vm_get_page mem a True)"
  have ok: "mem_ok ?m" and live: "live ?m (ptr_of a)" and abs: "abs_mem ?m = abs_mem mem"
    using assms by (simp_all add: live_vm_get_page)
  let ?fast = "page_idx a + 3 < 4096 \<and> get_attr32 ?m (ptr_of a) (page_idx a) AND PERM32 (0x01 OR 0x08) = PERM32 (0x01 OR 0x08)"
  show ?thesis
  proof (cases ?fast)
    case False
    then have "vm_r_dword mem a = (let (b0, m) = vm_r_byte ?m a; (b1, m) = vm_r_byte m (a + 1);
        (b2, m) = vm_r_byte m (a + 2); (b3, m) = vm_r_byte m (a + 3)
      in (b0 + push_bit 8 b1 + push_bit 16 b2 + push_bit 24 b3, m))"
      by (auto simp: vm_r_dword_def case_prod_beta Let_def vm_get_page_simps)
    then show ?thesis using flat_loads_dword[of vm_r_byte flat_r_byte, OF vm_load_byte(1) ok, of a] abs by simp
  next
    case True
    note pg = page32[OF live ok conjunct1[OF True], unfolded abs]
    have eq: "get_attr32 ?m (ptr_of a) (page_idx a) AND le32 9 9 9 9 = le32 9 9 9 9"
      using conjunct2[OF True] unfolding PERM32_le32 by simp
    have hit: "f_attr (abs_mem mem) a AND 9 = 9" "f_attr (abs_mem mem) (a + 1) AND 9 = 9"
      "f_attr (abs_mem mem) (a + 2) AND 9 = 9" "f_attr (abs_mem mem) (a + 3) AND 9 = 9"
      using eq unfolding pg le32_ops le32_eq_iff by simp_all
    have "vm_r_dword mem a = (let m = put_attr32 ?m (ptr_of a) (page_idx a)
        (get_attr32 ?m (ptr_of a) (page_idx a) OR PERM32 0x10) in (get_data32 m (ptr_of a) (page_idx a), m))"
      using True by (auto simp: vm_r_dword_def case_prod_beta Let_def vm_get_page_simps)
    then show ?thesis unfolding flat_r_hit4[OF hit] Let_def
      by (simp add: refines_def page32[OF pg(5,6) conjunct1[OF True]] pg PERM32_le32 le32_ops del: fun_upd_apply)
  qed
qed

lemma vm_x_word_refines:
  "mem_ok mem \<Longrightarrow> refines (vm_x_word mem a) (flat_loads flat_x_byte 2 (abs_mem mem) a)"
  unfolding vm_x_word_def using flat_loads_word[of vm_x_byte flat_x_byte mem a] vm_load_byte(2) by blast

lemma vm_x_dword_refines:
  assumes "mem_ok mem"
  shows "refines (vm_x_dword mem a) (flat_loads flat_x_byte 4 (abs_mem mem) a)"
proof -
  have "vm_x_dword mem a = (let (b0, m) = vm_x_byte mem a; (b1, m) = vm_x_byte m (a + 1);
        (b2, m) = vm_x_byte m (a + 2); (b3, m) = vm_x_byte m (a + 3)
      in (b0 + push_bit 8 b1 + push_bit 16 b2 + push_bit 24 b3, m))"
    by (simp add: vm_x_dword_def vm_x_word_def case_prod_beta Let_def push_bit_add push_bit_push_bit add.assoc)
  then show ?thesis using flat_loads_dword[of vm_x_byte flat_x_byte, OF vm_load_byte(2) assms, of a] by simp
qed

text \<open>Writes.\<close>

lemma flat_w_hit:
  "f_attr s a AND X86EMU_PERM_W \<noteq> 0 \<Longrightarrow> flat_w_byte s a val =
   s\<lparr>f_attr := (f_attr s)(a := f_attr s a OR 0x28), f_store := (f_store s)(f_cell s a := ucast val)\<rparr>"
  by (simp add: flat_w_byte_def)

lemma vm_store_bytes:
  "mem_ok mem \<Longrightarrow> mem_ok (vm_w_byte (vm_w_byte mem a v0) (a + 1) v1) \<and>
     abs_mem (vm_w_byte (vm_w_byte mem a v0) (a + 1) v1) = flat_w_byte (flat_w_byte (abs_mem mem) a v0) (a + 1) v1"
  by (simp add: vm_store_byte)

lemma flat_stores_2: "flat_stores 2 s a val = flat_w_byte (flat_w_byte s a val) (a + 1) (drop_bit 8 val)"
  by (simp add: numeral_2_eq_2)

lemma flat_stores_4:
  "flat_stores 4 s a val = flat_w_byte (flat_w_byte (flat_w_byte (flat_w_byte s a val) (a + 1) (drop_bit 8 val))
     (a + 2) (drop_bit 16 val)) (a + 3) (drop_bit 24 val)"
  by (simp add: eval_nat_numeral add.assoc add.commute[of 2 a] add.commute[of 3 a] drop_bit_drop_bit)

lemma vm_w_word_refines:
  assumes "mem_ok mem"
  shows "mem_ok (vm_w_word mem a val) \<and> abs_mem (vm_w_word mem a val) = flat_stores 2 (abs_mem mem) a val"
proof -
  let ?m = "snd (vm_get_page mem a True)"
  have ok: "mem_ok ?m" and live: "live ?m (ptr_of a)" and abs: "abs_mem ?m = abs_mem mem"
    using assms by (simp_all add: live_vm_get_page)
  let ?fast = "page_idx a + 1 < 4096 \<and> get_attr16 ?m (ptr_of a) (page_idx a) AND PERM16 0x02 = PERM16 0x02"
  show ?thesis
  proof (cases ?fast)
    case False
    then have "vm_w_word mem a val = vm_w_byte (vm_w_byte ?m a val) (a + 1) (drop_bit 8 val)"
      by (auto simp: vm_w_word_def case_prod_beta Let_def vm_get_page_simps)
    then show ?thesis using ok abs by (simp add: vm_store_byte flat_stores_2)
  next
    case True
    note pg = page16[OF live ok conjunct1[OF True], unfolded abs]
    have hit: "f_attr (abs_mem mem) a AND 0x02 \<noteq> 0" "f_attr (abs_mem mem) (a + 1) AND 0x02 \<noteq> 0"
      using True unfolding PERM16_le16 by (simp_all add: pg le16_ops le16_eq_iff and_bit_eq)
    have "vm_w_word mem a val = put_data16 (put_attr16 ?m (ptr_of a) (page_idx a)
        (get_attr16 ?m (ptr_of a) (page_idx a) OR PERM16 0x28)) (ptr_of a) (page_idx a) (ucast val)"
      using True by (auto simp: vm_w_word_def case_prod_beta Let_def vm_get_page_simps)
    then show ?thesis unfolding flat_stores_2
      using hit by (simp add: page16[OF pg(5,6) conjunct1[OF True]] pg PERM16_le16 le16_ops flat_w_hit)
  qed
qed

lemma flat_w_hit4:
  assumes "f_attr s a AND 2 \<noteq> 0" "f_attr s (a + 1) AND 2 \<noteq> 0" "f_attr s (a + 2) AND 2 \<noteq> 0" "f_attr s (a + 3) AND 2 \<noteq> 0"
  shows "flat_stores 4 s a val =
     s\<lparr>f_attr := (f_attr s)(a := f_attr s a OR 0x28, a + 1 := f_attr s (a + 1) OR 0x28,
       a + 2 := f_attr s (a + 2) OR 0x28, a + 3 := f_attr s (a + 3) OR 0x28),
       f_store := (f_store s)(f_cell s a := ucast val, f_cell s (a + 1) := ucast (drop_bit 8 val),
         f_cell s (a + 2) := ucast (drop_bit 16 val), f_cell s (a + 3) := ucast (drop_bit 24 val))\<rparr>"
  unfolding flat_stores_4 using assms by (simp add: flat_w_hit)

lemma vm_w_dword_refines:
  assumes "mem_ok mem"
  shows "mem_ok (vm_w_dword mem a val) \<and> abs_mem (vm_w_dword mem a val) = flat_stores 4 (abs_mem mem) a val"
proof -
  let ?m = "snd (vm_get_page mem a True)"
  have ok: "mem_ok ?m" and live: "live ?m (ptr_of a)" and abs: "abs_mem ?m = abs_mem mem"
    using assms by (simp_all add: live_vm_get_page)
  let ?fast = "page_idx a + 3 < 4096 \<and> get_attr32 ?m (ptr_of a) (page_idx a) AND PERM32 0x02 = PERM32 0x02"
  show ?thesis
  proof (cases ?fast)
    case False
    then have "vm_w_dword mem a val = vm_w_byte (vm_w_byte (vm_w_byte (vm_w_byte ?m a val) (a + 1) (drop_bit 8 val))
        (a + 2) (drop_bit 16 val)) (a + 3) (drop_bit 24 val)"
      by (auto simp: vm_w_dword_def case_prod_beta Let_def vm_get_page_simps)
    then show ?thesis using ok abs by (simp add: vm_store_byte flat_stores_4)
  next
    case True
    note pg = page32[OF live ok conjunct1[OF True], unfolded abs]
    have hit: "f_attr (abs_mem mem) a AND 2 \<noteq> 0" "f_attr (abs_mem mem) (a + 1) AND 2 \<noteq> 0"
      "f_attr (abs_mem mem) (a + 2) AND 2 \<noteq> 0" "f_attr (abs_mem mem) (a + 3) AND 2 \<noteq> 0"
      using True unfolding PERM32_le32 by (simp_all add: pg le32_ops le32_eq_iff and_bit_eq)
    have "vm_w_dword mem a val = put_data32 (put_attr32 ?m (ptr_of a) (page_idx a)
        (get_attr32 ?m (ptr_of a) (page_idx a) OR PERM32 0x28)) (ptr_of a) (page_idx a) val"
      using True by (auto simp: vm_w_dword_def case_prod_beta Let_def vm_get_page_simps)
    then show ?thesis unfolding flat_w_hit4[OF hit]
      by (simp add: page32[OF pg(5,6) conjunct1[OF True]] pg PERM32_le32 le32_ops del: fun_upd_apply)
  qed
qed

section \<open>The laws of a byte store with aliases\<close>

text \<open>
  What the emulator's wide writes need from a memory of bytes: every address has a cell,
  and a byte written at an address is read at all addresses of the same cell and at no
  other.
\<close>

locale byte_store =
  fixes ok :: "'s \<Rightarrow> bool" and cell :: "'s \<Rightarrow> u32 \<Rightarrow> 'c"
    and get :: "'s \<Rightarrow> u32 \<Rightarrow> u8" and put :: "'s \<Rightarrow> u32 \<Rightarrow> u8 \<Rightarrow> 's"
  assumes ok_put [simp]: "ok s \<Longrightarrow> ok (put s a v)"
    and cell_put [simp]: "ok s \<Longrightarrow> cell (put s a v) = cell s"
    and get_put: "ok s \<Longrightarrow> get (put s a v) b = (if cell s b = cell s a then v else get s b)"
begin

lemma get_put_same: "ok s \<Longrightarrow> get (put s a v) a = v"
  by (simp add: get_put)

lemma get_puts_frame:
  assumes "ok s" "cell s b \<notin> cell s ` {a, a + 1}"
  shows "get (put (put s a v0) (a + 1) v1) b = get s b"
  using assms by (auto simp: get_put)

lemma get_puts:
  assumes "ok s" "cell s a \<noteq> cell s (a + 1)"
  shows "get (put (put s a v0) (a + 1) v1) a = v0" "get (put (put s a v0) (a + 1) v1) (a + 1) = v1"
  using assms by (auto simp: get_put)

lemma put_overwrite:
  assumes "ok s" shows "get (put (put s a v) a w) b = get (put s a w) b"
  using assms by (simp add: get_put)

end

definition mem_byte :: "x86emu_mem \<Rightarrow> u32 \<Rightarrow> u8" where
  "mem_byte mem a = f_store (abs_mem mem) (f_cell (abs_mem mem) a)"

interpretation vm: byte_store mem_ok "\<lambda>mem. f_cell (abs_mem mem)" mem_byte
  "\<lambda>mem a v. vm_w_byte_noperm mem a (ucast v)"
  by unfold_locales (simp_all add: mem_byte_def vm_byte_noperm)

section \<open>Write protection\<close>

lemma flat_w_byte_keeps:
  "f_cell (flat_w_byte s a val) = f_cell s" "f_attr (flat_w_byte s a val) x AND 2 = f_attr s x AND 2"
  "f_invalid (flat_w_byte s a val) = (f_invalid s \<or> f_attr s a AND 2 = 0)"
  by (simp_all add: flat_w_byte_def or_and_other)

lemma flat_w_byte_store:
  "f_store (flat_w_byte s a val) c =
     (if c = f_cell s a \<and> f_attr s a AND 2 \<noteq> 0 then ucast val else f_store s c)"
  by (simp add: flat_w_byte_def)

lemma flat_stores_keeps:
  "f_cell (flat_stores n s a val) = f_cell s \<and> f_attr (flat_stores n s a val) x AND 2 = f_attr s x AND 2"
  by (induction n arbitrary: s a val) (simp_all add: flat_w_byte_keeps)

lemma flat_stores_invalid:
  "f_invalid (flat_stores n s a val) = (f_invalid s \<or> (\<exists>i<n. f_attr s (a + word_of_nat i) AND 2 = 0))"
proof (induction n arbitrary: s a val)
  case (Suc n)
  have "(\<exists>i<Suc n. f_attr s (a + word_of_nat i) AND 2 = 0) =
      (f_attr s a AND 2 = 0 \<or> (\<exists>i<n. f_attr s (a + 1 + word_of_nat i) AND 2 = 0))"
    by (simp add: Ex_less_Suc2 add.assoc)
  then show ?case using Suc.IH by (auto simp: flat_w_byte_keeps)
qed simp

lemma flat_stores_other:
  "\<forall>i<n. c \<noteq> f_cell s (a + word_of_nat i) \<or> f_attr s (a + word_of_nat i) AND 2 = 0 \<Longrightarrow>
   f_store (flat_stores n s a val) c = f_store s c"
proof (induction n arbitrary: s a val)
  case (Suc n)
  have 0: "c \<noteq> f_cell s a \<or> f_attr s a AND 2 = 0" using Suc.prems by force
  have "\<forall>i<n. c \<noteq> f_cell s (a + 1 + word_of_nat i) \<or> f_attr s (a + 1 + word_of_nat i) AND 2 = 0"
  proof (intro allI impI)
    fix i assume "i < n"
    then show "c \<noteq> f_cell s (a + 1 + word_of_nat i) \<or> f_attr s (a + 1 + word_of_nat i) AND 2 = 0"
      using Suc.prems[rule_format, of "Suc i"] by (simp add: ac_simps)
  qed
  then have "f_store (flat_stores n (flat_w_byte s a val) (a + 1) (drop_bit 8 val)) c = f_store (flat_w_byte s a val) c"
    by (intro Suc.IH) (simp add: flat_w_byte_keeps)
  then show ?case using 0 by (auto simp: flat_w_byte_store)
qed simp

section \<open>The properties of the accesses\<close>

text \<open>
  C8. Reading and executing at 8, 16 and 32 bits, fast path or not, inside a page or
  across pages, and with pages created on the way, equals reading the bytes of the flat
  memory one after the other, lowest address first: the same little-endian value, the
  same permission checks, access statistics and invalid flag.
\<close>

theorem vm_reads_refine:
  assumes "mem_ok mem"
  shows "refines (vm_r_byte mem a) (flat_r_byte (abs_mem mem) a) \<and>
    refines (vm_r_word mem a) (flat_loads flat_r_byte 2 (abs_mem mem) a) \<and>
    refines (vm_r_dword mem a) (flat_loads flat_r_byte 4 (abs_mem mem) a) \<and>
    refines (vm_x_byte mem a) (flat_x_byte (abs_mem mem) a) \<and>
    refines (vm_x_word mem a) (flat_loads flat_x_byte 2 (abs_mem mem) a) \<and>
    refines (vm_x_dword mem a) (flat_loads flat_x_byte 4 (abs_mem mem) a)"
  using assms by (intro conjI vm_load_byte vm_r_word_refines vm_r_dword_refines vm_x_word_refines vm_x_dword_refines)

lemma vm_reads_refine_witness:
  "refines (vm_r_dword (emu_mem_new 9 (\<lambda>_. 0)) 0x1ffe) (flat_loads flat_r_byte 4 (abs_mem (emu_mem_new 9 (\<lambda>_. 0))) 0x1ffe)"
  using vm_reads_refine[OF abs_emu_mem_new(1)[of 9 "\<lambda>_. 0"], of "0x1ffe"] by blast

text \<open>
  C4. Writing at 8, 16 and 32 bits equals writing the bytes of the flat memory one after
  the other, lowest address first, each with its own permission check; the page table
  stays well-formed.
\<close>

theorem vm_writes_refine:
  assumes "mem_ok mem"
  shows "(mem_ok (vm_w_byte mem a val) \<and> abs_mem (vm_w_byte mem a val) = flat_w_byte (abs_mem mem) a val) \<and>
    (mem_ok (vm_w_word mem a val) \<and> abs_mem (vm_w_word mem a val) = flat_stores 2 (abs_mem mem) a val) \<and>
    (mem_ok (vm_w_dword mem a val) \<and> abs_mem (vm_w_dword mem a val) = flat_stores 4 (abs_mem mem) a val)"
  using assms vm_store_byte vm_w_word_refines vm_w_dword_refines by blast

lemma vm_writes_refine_witness:
  "abs_mem (vm_w_dword (emu_mem_new 2 (\<lambda>_. 0)) 0x2fff 0x12345678) =
     flat_stores 4 (abs_mem (emu_mem_new 2 (\<lambda>_. 0))) 0x2fff 0x12345678"
  using vm_writes_refine[OF abs_emu_mem_new(1)[of 2 "\<lambda>_. 0"], of "0x2fff" "0x12345678"] by blast

lemma dword_read_back:
  assumes "mem_ok mem" "\<forall>i\<in>{0, 1, 2, 3}. f_attr (abs_mem mem) (a + i) AND 3 = 3"
    and "inj_on (f_cell (abs_mem mem)) {a, a + 1, a + 2, a + 3}"
  shows "fst (vm_r_dword (vm_w_dword mem a val) a) = val \<and>
    mem_invalid (snd (vm_r_dword (vm_w_dword mem a val) a)) = mem_invalid mem"
proof -
  let ?s = "abs_mem mem" and ?m = "vm_w_dword mem a val"
  have eq3: "(x AND 3 = 3) = (x AND 1 \<noteq> 0 \<and> x AND 2 \<noteq> 0)" for x :: u8
    using and_or_eq[of x 1 2] by (simp add: and_bit_eq)
  have rw: "f_attr ?s a AND 1 \<noteq> 0" "f_attr ?s (a + 1) AND 1 \<noteq> 0" "f_attr ?s (a + 2) AND 1 \<noteq> 0" "f_attr ?s (a + 3) AND 1 \<noteq> 0"
    "f_attr ?s a AND 2 \<noteq> 0" "f_attr ?s (a + 1) AND 2 \<noteq> 0" "f_attr ?s (a + 2) AND 2 \<noteq> 0" "f_attr ?s (a + 3) AND 2 \<noteq> 0"
    using assms(2) unfolding eq3 by auto
  have ok: "mem_ok ?m" and abs: "abs_mem ?m = flat_stores 4 ?s a val"
    using vm_w_dword_refines[OF assms(1)] by blast+
  have val9: "(x OR 0x28) AND 9 = 9" if "x AND 1 \<noteq> 0" for x :: u8
    using that unfolding and_9_eq by (simp add: bit.conj_disj_distrib2)
  have "f_cell ?s a \<noteq> f_cell ?s (a + 1)" "f_cell ?s a \<noteq> f_cell ?s (a + 2)" "f_cell ?s a \<noteq> f_cell ?s (a + 3)"
    "f_cell ?s (a + 1) \<noteq> f_cell ?s (a + 2)" "f_cell ?s (a + 1) \<noteq> f_cell ?s (a + 3)" "f_cell ?s (a + 2) \<noteq> f_cell ?s (a + 3)"
    using assms(3) by (auto dest: inj_onD)
  moreover have "le32 (ucast val) (ucast (drop_bit 8 val)) (ucast (drop_bit 16 val)) (ucast (drop_bit 24 val)) = val"
    by (rule bit_word_eqI) (auto simp: bit_le32 bit_simps)
  ultimately have "flat_loads flat_r_byte 4 (abs_mem ?m) a = (val, snd (flat_loads flat_r_byte 4 (abs_mem ?m) a))"
    "f_invalid (snd (flat_loads flat_r_byte 4 (abs_mem ?m) a)) = f_invalid ?s"
    unfolding abs flat_w_hit4[OF rw(5-8)]
    by (subst (1) flat_r_hit4 | simp add: val9 rw)+
  then show ?thesis using vm_r_dword_refines[OF ok, of a] by (simp add: refines_def abs_mem_def)
qed

text \<open>
  A 32 bit write to readable and writable addresses that lie in four different
  cells is read back, and the read is a valid one: writing has marked the bytes as
  initialised.
\<close>

lemma vm_read_after_write:
  assumes "mem_ok mem" "\<forall>i\<in>{0, 1, 2, 3}. f_attr (abs_mem mem) (a + i) AND 3 = 3"
    and "inj_on (f_cell (abs_mem mem)) {a, a + 1, a + 2, a + 3}"
  shows "fst (vm_r_dword (vm_w_dword mem a val) a) = val \<and>
    mem_invalid (snd (vm_r_dword (vm_w_dword mem a val) a)) = mem_invalid mem"
  by (rule dword_read_back[OF assms])

lemma vm_read_after_write_witness:
  "fst (vm_r_dword (vm_w_dword (emu_mem_new 3 (\<lambda>_. 0)) 0x1fff 0xcafe1234) 0x1fff) = 0xcafe1234"
  using vm_read_after_write[of "emu_mem_new 3 (\<lambda>_. 0)" "0x1fff" "0xcafe1234"]
  by (simp add: abs_emu_mem_new inj_on_def)

text \<open>
  Write protection: a 32 bit write changes only cells of writable addresses among
  its four, and raises the invalid flag exactly when one of the four is not writable.
\<close>

lemma vm_write_protected:
  assumes "mem_ok mem"
  shows "(\<forall>c. f_store (abs_mem (vm_w_dword mem a val)) c \<noteq> f_store (abs_mem mem) c \<longrightarrow>
      (\<exists>i<4. c = f_cell (abs_mem mem) (a + word_of_nat i) \<and> f_attr (abs_mem mem) (a + word_of_nat i) AND X86EMU_PERM_W \<noteq> 0)) \<and>
    mem_invalid (vm_w_dword mem a val) =
      (mem_invalid mem \<or> (\<exists>i<4. f_attr (abs_mem mem) (a + word_of_nat i) AND X86EMU_PERM_W = 0))"
proof -
  have "mem_invalid m = f_invalid (abs_mem m)" for m by (simp add: abs_mem_def)
  moreover have "abs_mem (vm_w_dword mem a val) = flat_stores 4 (abs_mem mem) a val"
    using vm_w_dword_refines[OF assms] by blast
  ultimately show ?thesis using flat_stores_other[of 4 _ "abs_mem mem" a val]
      flat_stores_invalid[of 4 "abs_mem mem" a val] by metis
qed

lemma vm_write_protected_witness:
  "mem_invalid (vm_w_dword (emu_mem_new 1 (\<lambda>_. 0)) 0x1000 7)"
proof -
  have "\<exists>i<4. f_attr (abs_mem (emu_mem_new 1 (\<lambda>_. 0))) (0x1000 + word_of_nat i) AND X86EMU_PERM_W = 0"
    by (intro exI[of _ 0]) (simp add: abs_emu_mem_new)
  then show ?thesis using vm_write_protected[OF abs_emu_mem_new(1)[of 1 "\<lambda>_. 0"], of "0x1000" 7] by blast
qed

end
