(* ===== verification/Io.thy ===== *)
theory Io
  imports Machine Vm_Access
begin

text \<open>
  The port accesses of \<^verbatim>\<open>mem.c\<close> with their permission map and statistics, the
  library's memory and i/o handler \<open>vm_memio\<close>, and the client's functions that use the
  installed handler (\<open>x86emu_read_byte\<close> and its siblings of \<^verbatim>\<open>api.c\<close>). Input and
  output reach the host's ports only through the permission map.
\<close>

section \<open>Permissions of the ports\<close>

abbreviation (input) X86EMU_IO_PORTS :: nat where "X86EMU_IO_PORTS \<equiv> 0x10000"

function io_map_fill :: "(nat \<Rightarrow> u8) \<Rightarrow> nat \<Rightarrow> nat \<Rightarrow> u8 \<Rightarrow> nat \<Rightarrow> u8" where
  "io_map_fill m start end' perm =
     (if start \<le> end' then io_map_fill (m(start := perm)) (start + 1) end' perm else m)"
  by pat_completeness auto
termination by (relation "measure (\<lambda>(m, start, end', perm). Suc end' - start)") auto

declare io_map_fill.simps [simp del]

definition io_map_or :: "(nat \<Rightarrow> u8) \<Rightarrow> u32" where
  "io_map_or m = foldl (\<lambda>perm start. perm OR ucast (m start)) 0 [0..<X86EMU_IO_PORTS]"

definition x86emu_set_io_perm :: "host \<Rightarrow> x86emu \<Rightarrow> u32 \<Rightarrow> u32 \<Rightarrow> u32 \<Rightarrow> x86emu" where
  "x86emu_set_io_perm h s start end' perm =
     (let end' = (if end' > 0xffff then 0xffff else end');
          m = io_map_fill (io_map s) (unat start) (unat end') (ucast perm);
          perm = io_map_or m;
          needed = (perm AND ucast (X86EMU_PERM_R OR X86EMU_PERM_W) \<noteq> 0)
      in s\<lparr>io_map := m, iopl_needed := needed, iopl_ok := \<not> (needed \<and> host_iopl h \<noteq> 3)\<rparr>)"

section \<open>Input\<close>

definition invalidate :: "x86emu \<Rightarrow> x86emu" where
  "invalidate s = s\<lparr>mem := (mem s)\<lparr>mem_invalid := True\<rparr>\<rparr>"

text \<open>\<^verbatim>\<open>perm[i] |= acc\<close> and \<^verbatim>\<open>stats[i]++\<close> for one port.\<close>

definition io_note :: "u8 \<Rightarrow> nat \<Rightarrow> x86emu \<Rightarrow> x86emu" where
  "io_note acc p s = s\<lparr>io_map := (io_map s)(p := io_map s p OR acc)\<rparr>"

definition io_count_i :: "nat \<Rightarrow> x86emu \<Rightarrow> x86emu" where
  "io_count_i p s = s\<lparr>io_stats_i := (io_stats_i s)(p := io_stats_i s p + 1)\<rparr>"

definition io_count_o :: "nat \<Rightarrow> x86emu \<Rightarrow> x86emu" where
  "io_count_o p s = s\<lparr>io_stats_o := (io_stats_o s)(p := io_stats_o s p + 1)\<rparr>"

text \<open>The host's port instructions.\<close>

definition inb :: "host \<Rightarrow> x86emu \<Rightarrow> u32 \<Rightarrow> u32 \<times> x86emu" where
  "inb h s addr = (ucast (ucast (host_in h (io_trace s) (Inb (ucast addr))) :: u8),
     s\<lparr>io_trace := Inb (ucast addr) # io_trace s\<rparr>)"

definition inw :: "host \<Rightarrow> x86emu \<Rightarrow> u32 \<Rightarrow> u32 \<times> x86emu" where
  "inw h s addr = (ucast (ucast (host_in h (io_trace s) (Inw (ucast addr))) :: u16),
     s\<lparr>io_trace := Inw (ucast addr) # io_trace s\<rparr>)"

definition inl :: "host \<Rightarrow> x86emu \<Rightarrow> u32 \<Rightarrow> u32 \<times> x86emu" where
  "inl h s addr = (host_in h (io_trace s) (Inl (ucast addr)), s\<lparr>io_trace := Inl (ucast addr) # io_trace s\<rparr>)"

definition vm_i_byte :: "host \<Rightarrow> x86emu \<Rightarrow> u32 \<Rightarrow> u32 \<times> x86emu" where
  "vm_i_byte h s addr =
     (let addr = addr AND 0xffff; p = unat addr
      in if iopl_ok s \<and> io_map s p AND X86EMU_PERM_R \<noteq> 0 then
           inb h (io_count_i p (io_note X86EMU_ACC_R p s)) addr
         else (0xff, invalidate (io_note X86EMU_ACC_INVALID p s)))"

definition vm_i_word :: "host \<Rightarrow> x86emu \<Rightarrow> u32 \<Rightarrow> u32 \<times> x86emu" where
  "vm_i_word h s addr =
     (let addr = addr AND 0xffff; p = unat addr
      in if \<not> iopl_ok s \<or> addr = 0xffff \<or> io_map s p AND X86EMU_PERM_R = 0 \<or>
            io_map s (p + 1) AND X86EMU_PERM_R = 0 then
           let (b0, s) = vm_i_byte h s addr;
               (b1, s) = vm_i_byte h s (addr + 1)
           in (b0 + push_bit 8 b1, s)
         else
           let s = io_note X86EMU_ACC_R p s; s = io_note X86EMU_ACC_R (p + 1) s;
               s = io_count_i p s; s = io_count_i (p + 1) s
           in inw h s addr)"

definition vm_i_dword :: "host \<Rightarrow> x86emu \<Rightarrow> u32 \<Rightarrow> u32 \<times> x86emu" where
  "vm_i_dword h s addr =
     (let addr = addr AND 0xffff; p = unat addr
      in if \<not> iopl_ok s \<or> addr \<ge> 0xfffd \<or> io_map s p AND X86EMU_PERM_R = 0 \<or>
            io_map s (p + 1) AND X86EMU_PERM_R = 0 \<or> io_map s (p + 2) AND X86EMU_PERM_R = 0 \<or>
            io_map s (p + 3) AND X86EMU_PERM_R = 0 then
           let (b0, s) = vm_i_byte h s addr;
               (b1, s) = vm_i_byte h s (addr + 1);
               (b2, s) = vm_i_byte h s (addr + 2);
               (b3, s) = vm_i_byte h s (addr + 3)
           in (b0 + push_bit 8 b1 + push_bit 16 b2 + push_bit 24 b3, s)
         else
           let s = io_note X86EMU_ACC_R p s; s = io_note X86EMU_ACC_R (p + 1) s;
               s = io_note X86EMU_ACC_R (p + 2) s; s = io_note X86EMU_ACC_R (p + 3) s;
               s = io_count_i p s; s = io_count_i (p + 1) s;
               s = io_count_i (p + 2) s; s = io_count_i (p + 3) s
           in inl h s addr)"

section \<open>Output\<close>

definition outb :: "x86emu \<Rightarrow> u32 \<Rightarrow> u32 \<Rightarrow> x86emu" where
  "outb s val addr = s\<lparr>io_trace := Outb (ucast addr) (ucast val) # io_trace s\<rparr>"

definition outw :: "x86emu \<Rightarrow> u32 \<Rightarrow> u32 \<Rightarrow> x86emu" where
  "outw s val addr = s\<lparr>io_trace := Outw (ucast addr) (ucast val) # io_trace s\<rparr>"

definition outl :: "x86emu \<Rightarrow> u32 \<Rightarrow> u32 \<Rightarrow> x86emu" where
  "outl s val addr = s\<lparr>io_trace := Outl (ucast addr) val # io_trace s\<rparr>"

definition vm_o_byte :: "x86emu \<Rightarrow> u32 \<Rightarrow> u32 \<Rightarrow> x86emu" where
  "vm_o_byte s addr val =
     (let addr = addr AND 0xffff; p = unat addr
      in if iopl_ok s \<and> io_map s p AND X86EMU_PERM_W \<noteq> 0 then
           outb (io_count_o p (io_note X86EMU_ACC_W p s)) val addr
         else invalidate (io_note X86EMU_ACC_INVALID p s))"

definition vm_o_word :: "x86emu \<Rightarrow> u32 \<Rightarrow> u32 \<Rightarrow> x86emu" where
  "vm_o_word s addr val =
     (let addr = addr AND 0xffff; p = unat addr
      in if \<not> iopl_ok s \<or> addr = 0xffff \<or> io_map s p AND X86EMU_PERM_W = 0 \<or>
            io_map s (p + 1) AND X86EMU_PERM_W = 0 then
           let s = vm_o_byte s addr val in vm_o_byte s (addr + 1) val
         else
           let s = io_note X86EMU_ACC_W p s; s = io_note X86EMU_ACC_W (p + 1) s;
               s = io_count_o p s; s = io_count_o (p + 1) s
           in outw s val addr)"

definition vm_o_dword :: "x86emu \<Rightarrow> u32 \<Rightarrow> u32 \<Rightarrow> x86emu" where
  "vm_o_dword s addr val =
     (let addr = addr AND 0xffff; p = unat addr
      in if \<not> iopl_ok s \<or> addr \<ge> 0xfffd \<or> io_map s p AND X86EMU_PERM_W = 0 \<or>
            io_map s (p + 1) AND X86EMU_PERM_W = 0 \<or> io_map s (p + 2) AND X86EMU_PERM_W = 0 \<or>
            io_map s (p + 3) AND X86EMU_PERM_W = 0 then
           let s = vm_o_byte s addr val; s = vm_o_byte s (addr + 1) val; s = vm_o_byte s (addr + 2) val
           in vm_o_byte s (addr + 3) val
         else
           let s = io_note X86EMU_ACC_W p s; s = io_note X86EMU_ACC_W (p + 1) s;
               s = io_note X86EMU_ACC_W (p + 2) s; s = io_note X86EMU_ACC_W (p + 3) s;
               s = io_count_o p s; s = io_count_o (p + 1) s;
               s = io_count_o (p + 2) s; s = io_count_o (p + 3) s
           in outl s val addr)"

section \<open>The handler\<close>

abbreviation (input) X86EMU_MEMIO_8 :: u32 where "X86EMU_MEMIO_8 \<equiv> 0"
abbreviation (input) X86EMU_MEMIO_16 :: u32 where "X86EMU_MEMIO_16 \<equiv> 1"
abbreviation (input) X86EMU_MEMIO_32 :: u32 where "X86EMU_MEMIO_32 \<equiv> 2"
abbreviation (input) X86EMU_MEMIO_8_NOPERM :: u32 where "X86EMU_MEMIO_8_NOPERM \<equiv> 3"
abbreviation (input) X86EMU_MEMIO_R :: u32 where "X86EMU_MEMIO_R \<equiv> 0x000"
abbreviation (input) X86EMU_MEMIO_W :: u32 where "X86EMU_MEMIO_W \<equiv> 0x100"
abbreviation (input) X86EMU_MEMIO_X :: u32 where "X86EMU_MEMIO_X \<equiv> 0x200"
abbreviation (input) X86EMU_MEMIO_I :: u32 where "X86EMU_MEMIO_I \<equiv> 0x300"
abbreviation (input) X86EMU_MEMIO_O :: u32 where "X86EMU_MEMIO_O \<equiv> 0x400"

text \<open>A memory access on the emulator's memory.\<close>

definition on_mem :: "(x86emu_mem \<Rightarrow> u32 \<times> x86emu_mem) \<Rightarrow> x86emu \<Rightarrow> u32 \<times> x86emu" where
  "on_mem f s = (let (v, m) = f (mem s) in (v, s\<lparr>mem := m\<rparr>))"

text \<open>
  The handler gets the value to write, or the caller's variable for the value read,
  which an unknown access leaves alone.
\<close>

definition vm_memio :: "host \<Rightarrow> x86emu \<Rightarrow> u32 \<Rightarrow> u32 \<Rightarrow> u32 \<Rightarrow> u32 \<times> u32 \<times> x86emu" where
  "vm_memio h s addr val type =
     (let bits = type AND 0xff; type = type AND NOT 0xff;
          s = s\<lparr>mem := (mem s)\<lparr>mem_invalid := False\<rparr>\<rparr>;
          (val, s) =
            (if type = X86EMU_MEMIO_R then
               if bits = X86EMU_MEMIO_8 then on_mem (\<lambda>m. vm_r_byte m addr) s
               else if bits = X86EMU_MEMIO_16 then on_mem (\<lambda>m. vm_r_word m addr) s
               else if bits = X86EMU_MEMIO_32 then on_mem (\<lambda>m. vm_r_dword m addr) s
               else if bits = X86EMU_MEMIO_8_NOPERM then on_mem (\<lambda>m. vm_r_byte_noperm m addr) s
               else (val, s)
             else if type = X86EMU_MEMIO_W then
               (val,
                if bits = X86EMU_MEMIO_8 then s\<lparr>mem := vm_w_byte (mem s) addr val\<rparr>
                else if bits = X86EMU_MEMIO_16 then s\<lparr>mem := vm_w_word (mem s) addr val\<rparr>
                else if bits = X86EMU_MEMIO_32 then s\<lparr>mem := vm_w_dword (mem s) addr val\<rparr>
                else if bits = X86EMU_MEMIO_8_NOPERM then s\<lparr>mem := vm_w_byte_noperm (mem s) addr val\<rparr>
                else s)
             else if type = X86EMU_MEMIO_X then
               if bits = X86EMU_MEMIO_8 then on_mem (\<lambda>m. vm_x_byte m addr) s
               else if bits = X86EMU_MEMIO_16 then on_mem (\<lambda>m. vm_x_word m addr) s
               else if bits = X86EMU_MEMIO_32 then on_mem (\<lambda>m. vm_x_dword m addr) s
               else (val, s)
             else if type = X86EMU_MEMIO_I then
               if bits = X86EMU_MEMIO_8 then vm_i_byte h s addr
               else if bits = X86EMU_MEMIO_16 then vm_i_word h s addr
               else if bits = X86EMU_MEMIO_32 then vm_i_dword h s addr
               else (val, s)
             else if type = X86EMU_MEMIO_O then
               (val,
                if bits = X86EMU_MEMIO_8 then vm_o_byte s addr val
                else if bits = X86EMU_MEMIO_16 then vm_o_word s addr val
                else if bits = X86EMU_MEMIO_32 then vm_o_dword s addr val
                else s)
             else (val, s))
      in (of_bool (mem_invalid (mem s)), val, s))"

text \<open>The installed handler. The pointer is called without a test.\<close>

definition call_memio :: "host \<Rightarrow> x86emu \<Rightarrow> u32 \<Rightarrow> u32 \<Rightarrow> u32 \<Rightarrow> u32 \<times> u32 \<times> x86emu" where
  "call_memio h s addr val type =
     (case memio s of No_memio \<Rightarrow> (0, val, s\<lparr>host_trap := True\<rparr>)
      | Vm_memio \<Rightarrow> vm_memio h s addr val type
      | User_memio n \<Rightarrow> user_memio h n s addr val type)"

section \<open>The client's accesses\<close>

definition x86emu_read_byte :: "host \<Rightarrow> x86emu \<Rightarrow> u32 \<Rightarrow> u32 \<times> x86emu" where
  "x86emu_read_byte h s addr = snd (call_memio h s addr 0xff (X86EMU_MEMIO_R OR X86EMU_MEMIO_8))"

definition x86emu_read_byte_noperm :: "host \<Rightarrow> x86emu \<Rightarrow> u32 \<Rightarrow> u32 \<times> x86emu" where
  "x86emu_read_byte_noperm h s addr = snd (call_memio h s addr 0xff (X86EMU_MEMIO_R OR X86EMU_MEMIO_8_NOPERM))"

definition x86emu_read_word :: "host \<Rightarrow> x86emu \<Rightarrow> u32 \<Rightarrow> u32 \<times> x86emu" where
  "x86emu_read_word h s addr = snd (call_memio h s addr 0xffff (X86EMU_MEMIO_R OR X86EMU_MEMIO_16))"

definition x86emu_read_dword :: "host \<Rightarrow> x86emu \<Rightarrow> u32 \<Rightarrow> u32 \<times> x86emu" where
  "x86emu_read_dword h s addr = snd (call_memio h s addr 0xffffffff (X86EMU_MEMIO_R OR X86EMU_MEMIO_32))"

definition x86emu_write_byte :: "host \<Rightarrow> x86emu \<Rightarrow> u32 \<Rightarrow> u32 \<Rightarrow> x86emu" where
  "x86emu_write_byte h s addr val = snd (snd (call_memio h s addr val (X86EMU_MEMIO_W OR X86EMU_MEMIO_8)))"

definition x86emu_write_byte_noperm :: "host \<Rightarrow> x86emu \<Rightarrow> u32 \<Rightarrow> u32 \<Rightarrow> x86emu" where
  "x86emu_write_byte_noperm h s addr val = snd (snd (call_memio h s addr val (X86EMU_MEMIO_W OR X86EMU_MEMIO_8_NOPERM)))"

definition x86emu_write_word :: "host \<Rightarrow> x86emu \<Rightarrow> u32 \<Rightarrow> u32 \<Rightarrow> x86emu" where
  "x86emu_write_word h s addr val = snd (snd (call_memio h s addr val (X86EMU_MEMIO_W OR X86EMU_MEMIO_16)))"

definition x86emu_write_dword :: "host \<Rightarrow> x86emu \<Rightarrow> u32 \<Rightarrow> u32 \<Rightarrow> x86emu" where
  "x86emu_write_dword h s addr val = snd (snd (call_memio h s addr val (X86EMU_MEMIO_W OR X86EMU_MEMIO_32)))"

section \<open>Ports are reached only through the permission map\<close>

fun event_ports :: "io_event \<Rightarrow> nat set" where
  "event_ports (Inb p) = {unat p}"
| "event_ports (Inw p) = {unat p, unat p + 1}"
| "event_ports (Inl p) = {unat p, unat p + 1, unat p + 2, unat p + 3}"
| "event_ports (Outb p v) = {unat p}"
| "event_ports (Outw p v) = {unat p, unat p + 1}"
| "event_ports (Outl p v) = {unat p, unat p + 1, unat p + 2, unat p + 3}"

text \<open>The permission an access needs at every port it touches.\<close>

fun event_perm :: "io_event \<Rightarrow> u8" where
  "event_perm (Inb p) = X86EMU_PERM_R"
| "event_perm (Inw p) = X86EMU_PERM_R"
| "event_perm (Inl p) = X86EMU_PERM_R"
| "event_perm (Outb p v) = X86EMU_PERM_W"
| "event_perm (Outw p v) = X86EMU_PERM_W"
| "event_perm (Outl p v) = X86EMU_PERM_W"

definition io_allowed :: "x86emu \<Rightarrow> u8 \<Rightarrow> io_event \<Rightarrow> bool" where
  "io_allowed s perm e \<longleftrightarrow> iopl_ok s \<and> event_perm e = perm \<and> (\<forall>p\<in>event_ports e. io_map s p AND perm \<noteq> 0)"

text \<open>The new accesses are allowed, and the permissions themselves have not changed.\<close>

definition io_safe :: "u8 \<Rightarrow> x86emu \<Rightarrow> x86emu \<Rightarrow> bool" where
  "io_safe perm s s' \<longleftrightarrow> iopl_ok s' = iopl_ok s \<and> (\<forall>p. io_map s' p AND 3 = io_map s p AND 3) \<and>
     (\<exists>es. io_trace s' = es @ io_trace s \<and> (\<forall>e\<in>set es. io_allowed s perm e))"

lemma and_3_sub: "x AND 3 = y AND 3 \<Longrightarrow> x AND 1 = y AND 1" "x AND 3 = y AND 3 \<Longrightarrow> x AND 2 = y AND 2" for x y :: u8
proof -
  have 1: "(1 :: u8) = 3 AND 1" and 2: "(2 :: u8) = 3 AND 2" by simp_all
  show "x AND 3 = y AND 3 \<Longrightarrow> x AND 1 = y AND 1"
    by (subst (1 2) 1) (simp only: and.assoc[symmetric])
  show "x AND 3 = y AND 3 \<Longrightarrow> x AND 2 = y AND 2"
    by (subst (1 2) 2) (simp only: and.assoc[symmetric])
qed

lemma io_safe_refl: "io_safe perm s s"
  by (simp add: io_safe_def)

lemma io_safe_trans:
  assumes "io_safe perm s s'" "io_safe perm s' s''" "perm = 1 \<or> perm = 2"
  shows "io_safe perm s s''"
proof -
  have eq: "iopl_ok s' = iopl_ok s" "\<And>p. io_map s' p AND 3 = io_map s p AND 3"
    using assms(1) by (simp_all add: io_safe_def)
  have "io_map s' p AND perm = io_map s p AND perm" for p
    using assms(3) and_3_sub[OF eq(2)[of p]] by auto
  then have allowed: "io_allowed s' perm e = io_allowed s perm e" for e
    by (simp add: io_allowed_def eq(1))
  obtain es es' where es: "io_trace s' = es @ io_trace s" "\<forall>e\<in>set es. io_allowed s perm e"
    "io_trace s'' = es' @ io_trace s'" "\<forall>e\<in>set es'. io_allowed s' perm e"
    using assms(1,2) by (auto simp: io_safe_def)
  show ?thesis unfolding io_safe_def
  proof (intro conjI exI[of _ "es' @ es"])
    show "iopl_ok s'' = iopl_ok s" "\<forall>p. io_map s'' p AND 3 = io_map s p AND 3"
      using assms(1,2) by (auto simp: io_safe_def)
    show "io_trace s'' = (es' @ es) @ io_trace s" "\<forall>e\<in>set (es' @ es). io_allowed s perm e"
      using es allowed by auto
  qed
qed

lemma note_keeps:
  "acc AND 3 = 0 \<Longrightarrow> io_map (io_note acc p s) q AND 3 = io_map s q AND 3"
  "io_trace (io_note acc p s) = io_trace s" "iopl_ok (io_note acc p s) = iopl_ok s"
  "io_map (io_count_i p s) = io_map s" "io_trace (io_count_i p s) = io_trace s" "iopl_ok (io_count_i p s) = iopl_ok s"
  "io_map (io_count_o p s) = io_map s" "io_trace (io_count_o p s) = io_trace s" "iopl_ok (io_count_o p s) = iopl_ok s"
  "io_map (invalidate s) = io_map s" "io_trace (invalidate s) = io_trace s" "iopl_ok (invalidate s) = iopl_ok s"
  by (simp_all add: io_note_def io_count_i_def io_count_o_def invalidate_def bit.conj_disj_distrib2)

text \<open>A port number as the host sees it.\<close>

lemma port_mask: "unat (ucast (addr AND 0xffff) :: u16) = unat (addr AND 0xffff)" for addr :: u32
proof -
  have "addr AND mask 16 = ucast (ucast addr :: u16)" by (rule bit_word_eqI) (auto simp: bit_simps)
  then have m: "addr AND 0xffff = ucast (ucast addr :: u16)" by (simp add: mask_eq_exp_minus_1)
  have "(ucast (addr AND 0xffff) :: u16) = ucast addr" unfolding m by (rule ucast_up_down) simp
  moreover have "unat (addr AND 0xffff) = unat (ucast addr :: u16)" unfolding m by (rule unat_up) simp
  ultimately show ?thesis by simp
qed

lemma safe_notes:
  assumes "\<forall>e\<in>set es. io_allowed s perm e" "io_trace s' = es @ io_trace s" "iopl_ok s' = iopl_ok s"
    "\<And>p. io_map s' p AND 3 = io_map s p AND 3"
  shows "io_safe perm s s'"
  using assms by (auto simp: io_safe_def)

lemma vm_i_byte_safe: "io_safe 1 s (snd (vm_i_byte h s addr))"
proof (cases "iopl_ok s \<and> io_map s (unat (addr AND 0xffff)) AND 1 \<noteq> 0")
  case True
  then show ?thesis
    by (intro safe_notes[of "[Inb (ucast (addr AND 0xffff))]"])
       (simp_all add: vm_i_byte_def Let_def inb_def note_keeps io_allowed_def port_mask)
next
  case False
  then show ?thesis
    by (intro safe_notes[of "[]"]) (auto simp: vm_i_byte_def Let_def note_keeps)
qed

lemma vm_o_byte_safe: "io_safe 2 s (vm_o_byte s addr val)"
proof (cases "iopl_ok s \<and> io_map s (unat (addr AND 0xffff)) AND 2 \<noteq> 0")
  case True
  then show ?thesis
    by (intro safe_notes[of "[Outb (ucast (addr AND 0xffff)) (ucast val)]"])
       (simp_all add: vm_o_byte_def Let_def outb_def note_keeps io_allowed_def port_mask)
next
  case False
  then show ?thesis
    by (intro safe_notes[of "[]"]) (auto simp: vm_o_byte_def Let_def note_keeps)
qed

lemmas io_safe_i = io_safe_trans[where perm = 1, simplified]
lemmas io_safe_o = io_safe_trans[where perm = 2, simplified]

lemma vm_i_word_safe: "io_safe 1 s (snd (vm_i_word h s addr))"
proof -
  let ?a = "addr AND 0xffff"
  let ?slow = "\<not> iopl_ok s \<or> ?a = 0xffff \<or> io_map s (unat ?a) AND 1 = 0 \<or> io_map s (unat ?a + 1) AND 1 = 0"
  show ?thesis
  proof (cases ?slow)
    case True
    then show ?thesis
      using io_safe_i[OF vm_i_byte_safe vm_i_byte_safe] by (simp add: vm_i_word_def Let_def case_prod_beta)
  next
    case False
    then show ?thesis
      by (intro safe_notes[of "[Inw (ucast ?a)]"])
         (simp_all add: vm_i_word_def Let_def inw_def note_keeps io_allowed_def port_mask)
  qed
qed

lemma vm_o_word_safe: "io_safe 2 s (vm_o_word s addr val)"
proof -
  let ?a = "addr AND 0xffff"
  let ?slow = "\<not> iopl_ok s \<or> ?a = 0xffff \<or> io_map s (unat ?a) AND 2 = 0 \<or> io_map s (unat ?a + 1) AND 2 = 0"
  show ?thesis
  proof (cases ?slow)
    case True
    then show ?thesis
      using io_safe_o[OF vm_o_byte_safe vm_o_byte_safe] by (simp add: vm_o_word_def Let_def)
  next
    case False
    then show ?thesis
      by (intro safe_notes[of "[Outw (ucast ?a) (ucast val)]"])
         (simp_all add: vm_o_word_def Let_def outw_def note_keeps io_allowed_def port_mask)
  qed
qed

lemma vm_i_dword_safe: "io_safe 1 s (snd (vm_i_dword h s addr))"
proof -
  let ?a = "addr AND 0xffff"
  let ?slow = "\<not> iopl_ok s \<or> ?a \<ge> 0xfffd \<or> io_map s (unat ?a) AND 1 = 0 \<or> io_map s (unat ?a + 1) AND 1 = 0 \<or>
    io_map s (unat ?a + 2) AND 1 = 0 \<or> io_map s (unat ?a + 3) AND 1 = 0"
  show ?thesis
  proof (cases ?slow)
    case True
    then show ?thesis
      using io_safe_i[OF io_safe_i[OF io_safe_i[OF vm_i_byte_safe vm_i_byte_safe] vm_i_byte_safe] vm_i_byte_safe]
      by (simp add: vm_i_dword_def Let_def case_prod_beta)
  next
    case False
    then show ?thesis
      by (intro safe_notes[of "[Inl (ucast ?a)]"])
         (simp_all add: vm_i_dword_def Let_def inl_def note_keeps io_allowed_def port_mask)
  qed
qed

lemma vm_o_dword_safe: "io_safe 2 s (vm_o_dword s addr val)"
proof -
  let ?a = "addr AND 0xffff"
  let ?slow = "\<not> iopl_ok s \<or> ?a \<ge> 0xfffd \<or> io_map s (unat ?a) AND 2 = 0 \<or> io_map s (unat ?a + 1) AND 2 = 0 \<or>
    io_map s (unat ?a + 2) AND 2 = 0 \<or> io_map s (unat ?a + 3) AND 2 = 0"
  show ?thesis
  proof (cases ?slow)
    case True
    then show ?thesis
      using io_safe_o[OF io_safe_o[OF io_safe_o[OF vm_o_byte_safe vm_o_byte_safe] vm_o_byte_safe] vm_o_byte_safe]
      by (simp add: vm_o_dword_def Let_def)
  next
    case False
    then show ?thesis
      by (intro safe_notes[of "[Outl (ucast ?a) val]"])
         (simp_all add: vm_o_dword_def Let_def outl_def note_keeps io_allowed_def port_mask)
  qed
qed

text \<open>
  C33. The emulated program reaches a port of the host only when the library has the
  i/o privilege and the port has the permission: every access the six port routines
  make is allowed at all its ports (the readers only input, the writers only output),
  and they change no permission.
\<close>

theorem vm_io_safe:
  "io_safe X86EMU_PERM_R s (snd (vm_i_byte h s addr)) \<and> io_safe X86EMU_PERM_R s (snd (vm_i_word h s addr)) \<and>
   io_safe X86EMU_PERM_R s (snd (vm_i_dword h s addr)) \<and> io_safe X86EMU_PERM_W s (vm_o_byte s addr val) \<and>
   io_safe X86EMU_PERM_W s (vm_o_word s addr val) \<and> io_safe X86EMU_PERM_W s (vm_o_dword s addr val)"
  by (intro conjI vm_i_byte_safe vm_i_word_safe vm_i_dword_safe vm_o_byte_safe vm_o_word_safe vm_o_dword_safe)

section \<open>The permission map\<close>

lemma io_map_fill_at: "io_map_fill m a b v p = (if a \<le> p \<and> p \<le> b then v else m p)"
proof (induction m a b v rule: io_map_fill.induct)
  case (1 m a b v)
  show ?case
  proof (cases "a \<le> b")
    case True
    then have "io_map_fill m a b v p = io_map_fill (m(a := v)) (a + 1) b v p" by (subst io_map_fill.simps) simp
    also have "\<dots> = (if a + 1 \<le> p \<and> p \<le> b then v else (m(a := v)) p)" by (rule "1.IH"[OF True])
    finally show ?thesis using True by auto
  next
    case False
    then show ?thesis by (subst io_map_fill.simps) auto
  qed
qed

lemma or_neq_0: "(x OR y) AND k \<noteq> 0 \<longleftrightarrow> x AND k \<noteq> 0 \<or> y AND k \<noteq> 0" for x y k :: "'a::len word"
  by (auto simp: bit_eq_iff bit_simps)

lemma foldl_or: "(foldl (\<lambda>acc p. acc OR f p) acc ps AND k \<noteq> 0) = (acc AND k \<noteq> 0 \<or> (\<exists>p\<in>set ps. f p AND k \<noteq> 0))"
  for acc k :: "'a::len word"
proof (induction ps arbitrary: acc)
  case (Cons a ps)
  show ?case using Cons.IH[of "acc OR f a"] unfolding or_neq_0 by auto
qed simp

lemma ucast_and_3: "(ucast b AND 3 :: u32) \<noteq> 0 \<longleftrightarrow> b AND 3 \<noteq> 0" for b :: u8
proof -
  have "(ucast b AND 3 :: u32) = ucast (b AND 3)" by (simp add: unsigned_and_eq)
  moreover have "(ucast c = (0 :: u32)) = (c = 0)" for c :: u8
    using unat_eq_zero[of "ucast c :: u32"] unat_eq_zero[of c] by (simp del: unat_eq_zero)
  ultimately show ?thesis by simp
qed

lemma foldl_ports: "(foldl (\<lambda>perm p. perm OR ucast (m p)) 0 [0..<n] AND (3 :: u32) \<noteq> 0) = (\<exists>p < n. m p AND (3 :: u8) \<noteq> 0)"
  unfolding foldl_or ucast_and_3 by auto

lemma io_map_or_iff: "(io_map_or m AND 3 \<noteq> 0) = (\<exists>p < X86EMU_IO_PORTS. m p AND 3 \<noteq> 0)"
  unfolding io_map_or_def by (rule foldl_ports)

text \<open>
  \<open>x86emu_set_io_perm\<close> sets the permissions of exactly the ports from \<open>start\<close> to
  \<open>end\<close> (cut at the last port), recomputes over all ports whether the i/o privilege is
  needed, allows port accesses iff it is not needed or is there, and changes nothing
  else.
\<close>

lemma set_io_perm_correct:
  "\<exists>m needed. x86emu_set_io_perm h s start e perm = s\<lparr>io_map := m, iopl_needed := needed,
      iopl_ok := (if needed then host_iopl h = 3 else True)\<rparr> \<and>
    (\<forall>p. m p = (if unat start \<le> p \<and> p \<le> unat e \<and> p < X86EMU_IO_PORTS then ucast perm else io_map s p)) \<and>
    needed = (\<exists>p < X86EMU_IO_PORTS. m p AND (X86EMU_PERM_R OR X86EMU_PERM_W) \<noteq> 0)"
proof -
  let ?e = "if e > 0xffff then 0xffff else e"
  let ?m = "io_map_fill (io_map s) (unat start) (unat ?e) (ucast perm)"
  have e: "(p \<le> unat ?e) = (p \<le> unat e \<and> p < X86EMU_IO_PORTS)" for p
    by (auto simp: word_less_nat_alt)
  have "x86emu_set_io_perm h s start e perm = s\<lparr>io_map := ?m, iopl_needed := (io_map_or ?m AND 3 \<noteq> 0),
      iopl_ok := (if io_map_or ?m AND 3 \<noteq> 0 then host_iopl h = 3 else True)\<rparr>"
    by (simp add: x86emu_set_io_perm_def Let_def)
  moreover have "\<forall>p. ?m p = (if unat start \<le> p \<and> p \<le> unat e \<and> p < X86EMU_IO_PORTS then ucast perm else io_map s p)"
    unfolding io_map_fill_at e by blast
  moreover have "(io_map_or ?m AND 3 \<noteq> 0) = (\<exists>p < X86EMU_IO_PORTS. ?m p AND (X86EMU_PERM_R OR X86EMU_PERM_W) \<noteq> 0)"
    unfolding io_map_or_iff by simp
  ultimately show ?thesis by blast
qed

text \<open>
  A 16 bit output to two ports of which only the upper one is writable sends the low
  byte to it, where the processor would send the high byte.
\<close>

lemma vm_o_word_divergence:
  assumes "iopl_ok s" "io_map s 0x80 AND 2 = 0" "io_map s 0x81 AND 2 \<noteq> 0"
  shows "io_trace (vm_o_word s 0x80 val) = Outb 0x81 (ucast val) # io_trace s"
  using assms by (simp add: vm_o_word_def vm_o_byte_def Let_def outb_def note_keeps io_note_def invalidate_def io_count_o_def)

section \<open>The library's handler\<close>

lemma vm_memio_read:
  "vm_memio h s a v X86EMU_MEMIO_8 = (let r = vm_r_byte ((mem s)\<lparr>mem_invalid := False\<rparr>) a
     in (of_bool (mem_invalid (snd r)), fst r, s\<lparr>mem := snd r\<rparr>))"
  "vm_memio h s a v X86EMU_MEMIO_16 = (let r = vm_r_word ((mem s)\<lparr>mem_invalid := False\<rparr>) a
     in (of_bool (mem_invalid (snd r)), fst r, s\<lparr>mem := snd r\<rparr>))"
  "vm_memio h s a v X86EMU_MEMIO_32 = (let r = vm_r_dword ((mem s)\<lparr>mem_invalid := False\<rparr>) a
     in (of_bool (mem_invalid (snd r)), fst r, s\<lparr>mem := snd r\<rparr>))"
  "vm_memio h s a v X86EMU_MEMIO_8_NOPERM = (let r = vm_r_byte_noperm ((mem s)\<lparr>mem_invalid := False\<rparr>) a
     in (of_bool (mem_invalid (snd r)), fst r, s\<lparr>mem := snd r\<rparr>))"
  by (simp_all add: vm_memio_def Let_def on_mem_def case_prod_beta)

lemma vm_memio_write:
  "vm_memio h s a v 0x100 = (let m = vm_w_byte ((mem s)\<lparr>mem_invalid := False\<rparr>) a v
     in (of_bool (mem_invalid m), v, s\<lparr>mem := m\<rparr>))"
  "vm_memio h s a v 0x101 = (let m = vm_w_word ((mem s)\<lparr>mem_invalid := False\<rparr>) a v
     in (of_bool (mem_invalid m), v, s\<lparr>mem := m\<rparr>))"
  "vm_memio h s a v 0x102 = (let m = vm_w_dword ((mem s)\<lparr>mem_invalid := False\<rparr>) a v
     in (of_bool (mem_invalid m), v, s\<lparr>mem := m\<rparr>))"
  "vm_memio h s a v 0x103 = (let m = vm_w_byte_noperm ((mem s)\<lparr>mem_invalid := False\<rparr>) a v
     in (of_bool (mem_invalid m), v, s\<lparr>mem := m\<rparr>))"
  by (simp_all add: vm_memio_def Let_def)

lemma vm_memio_exec:
  "vm_memio h s a v 0x200 = (let r = vm_x_byte ((mem s)\<lparr>mem_invalid := False\<rparr>) a
     in (of_bool (mem_invalid (snd r)), fst r, s\<lparr>mem := snd r\<rparr>))"
  "vm_memio h s a v 0x201 = (let r = vm_x_word ((mem s)\<lparr>mem_invalid := False\<rparr>) a
     in (of_bool (mem_invalid (snd r)), fst r, s\<lparr>mem := snd r\<rparr>))"
  "vm_memio h s a v 0x202 = (let r = vm_x_dword ((mem s)\<lparr>mem_invalid := False\<rparr>) a
     in (of_bool (mem_invalid (snd r)), fst r, s\<lparr>mem := snd r\<rparr>))"
  by (simp_all add: vm_memio_def Let_def on_mem_def case_prod_beta)

end
