(* ===== verification/Emu.thy ===== *)
theory Emu
  imports Io "HOL-Library.State_Monad"
begin

text \<open>
  The emulator's C functions take a pointer to the state and change it in place; from
  here on they are programs of the state monad over \<open>x86emu\<close>. This theory holds the few
  combinators they are written with, the rules that execute them, and the locale
  \<open>discipline\<close>: what a relation between a state and a later one has to satisfy so that
  every program of the emulator respects it when the client has installed no handler.
  Each component proves in the locale that its operations respect the relation.
\<close>

section \<open>Programs\<close>

type_synonym 'a emu = "(x86emu, 'a) state"

abbreviation return :: "'a \<Rightarrow> 'a emu" where "return \<equiv> State_Monad.return"

definition gets :: "(x86emu \<Rightarrow> 'a) \<Rightarrow> 'a emu" where
  "gets f = State (\<lambda>s. (f s, s))"

definition modify :: "(x86emu \<Rightarrow> x86emu) \<Rightarrow> unit emu" where
  "modify f = State (\<lambda>s. ((), f s))"

definition skip :: "unit emu" where
  "skip = return ()"

definition if_then :: "bool \<Rightarrow> unit emu \<Rightarrow> unit emu" where
  "if_then b m = (if b then m else skip)"

text \<open>\<^verbatim>\<open>while(n--) m\<close>\<close>

primrec repeat :: "nat \<Rightarrow> unit emu \<Rightarrow> unit emu" where
  "repeat 0 m = skip"
| "repeat (Suc n) m = do { m; repeat n m }"

text \<open>At most \<open>n\<close> rounds of \<open>m\<close>, which says whether there is another one.\<close>

primrec repeat_while :: "nat \<Rightarrow> bool emu \<Rightarrow> unit emu" where
  "repeat_while 0 m = skip"
| "repeat_while (Suc n) m = do { more \<leftarrow> m; if more then repeat_while n m else skip }"

text \<open>One program after the other for the elements of a list.\<close>

primrec for_each :: "'a list \<Rightarrow> ('a \<Rightarrow> unit emu) \<Rightarrow> unit emu" where
  "for_each [] f = skip"
| "for_each (x # xs) f = do { f x; for_each xs f }"

named_theorems emu_run \<open>rules that execute a program\<close>

lemma run_gets [emu_run, simp]: "run_state (gets f) s = (f s, s)"
  by (simp add: gets_def)

lemma run_modify [emu_run, simp]: "run_state (modify f) s = ((), f s)"
  by (simp add: modify_def)

lemma run_skip [emu_run, simp]: "run_state skip s = ((), s)"
  by (simp add: skip_def)

lemma run_if_then [emu_run, simp]: "run_state (if_then b m) s = (if b then run_state m s else ((), s))"
  by (simp add: if_then_def)

lemmas run_bind [emu_run] = run_state_bind run_state_return

section \<open>Disciplines\<close>

text \<open>No handler of the client is installed.\<close>

definition sandboxed :: "x86emu \<Rightarrow> bool" where
  "sandboxed s \<longleftrightarrow> memio s = Vm_memio \<and> intr s = None \<and> code_check s = None \<and> cpuid s = None \<and>
     (\<forall>n. rdmsr s \<noteq> User_msr n) \<and> (\<forall>n. wrmsr s \<noteq> User_msr n) \<and> log_flush s = None"

text \<open>The handlers of a state.\<close>

definition handlers :: "x86emu \<Rightarrow> memio_handler \<times> nat option \<times> nat option \<times> nat option \<times> msr_handler \<times> msr_handler \<times> nat option" where
  "handlers s = (memio s, intr s, code_check s, cpuid s, rdmsr s, wrmsr s, log_flush s)"

lemma sandboxed_handlers: "handlers s' = handlers s \<Longrightarrow> sandboxed s' = sandboxed s"
  by (simp add: handlers_def sandboxed_def)

text \<open>What the memory handler leaves alone, and what most operations leave alone.\<close>

definition control where
  "control s = (handlers s, msr s, instr_len s, (intr_nr s, intr_type s, intr_errcode s), max_instr s, timeout s, log_size s)"

definition kept where
  "kept s = (control s, mem s, io_map s, iopl_ok s, io_trace s)"

lemma control_handlers: "control t = control s \<Longrightarrow> handlers t = handlers s"
  by (simp add: control_def)

lemma control_mem [simp]: "control (s\<lparr>mem := m\<rparr>) = control s"
  by (simp add: control_def handlers_def)

lemma control_on_mem [simp]: "control (snd (on_mem f s)) = control s"
  by (simp add: on_mem_def case_prod_beta Let_def)

lemmas port_step_defs = inb_def inw_def inl_def outb_def outw_def outl_def io_note_def io_count_i_def io_count_o_def invalidate_def

lemma control_port_bytes [simp]: "control (snd (vm_i_byte h s a)) = control s" "control (vm_o_byte s a v) = control s"
  by (simp_all add: control_def handlers_def vm_i_byte_def vm_o_byte_def Let_def port_step_defs)

lemma control_port_words [simp]: "control (snd (vm_i_word h s a)) = control s" "control (vm_o_word s a v) = control s"
  by (auto simp: vm_i_word_def vm_o_word_def Let_def case_prod_beta) (simp_all add: control_def handlers_def port_step_defs)

lemma control_port_dwords [simp]: "control (snd (vm_i_dword h s a)) = control s" "control (vm_o_dword s a v) = control s"
  by (auto simp: vm_i_dword_def vm_o_dword_def Let_def case_prod_beta) (simp_all add: control_def handlers_def port_step_defs)

lemma control_vm_memio [simp]: "control (snd (snd (vm_memio h s addr val type))) = control s"
  by (simp add: vm_memio_def Let_def case_prod_beta)

lemmas handlers_vm_memio = control_handlers[OF control_vm_memio]

text \<open>
  A program that, without handlers of the client, installs none and takes its states
  into states related by \<open>R\<close>.
\<close>

definition preserves :: "(x86emu \<Rightarrow> x86emu \<Rightarrow> bool) \<Rightarrow> 'a emu \<Rightarrow> bool" where
  "preserves R m \<longleftrightarrow> (\<forall>s. sandboxed s \<longrightarrow> handlers (snd (run_state m s)) = handlers s \<and> R s (snd (run_state m s)))"

lemma preservesD:
  "preserves R m \<Longrightarrow> sandboxed s \<Longrightarrow> sandboxed (snd (run_state m s)) \<and> R s (snd (run_state m s))"
  unfolding preserves_def using sandboxed_handlers by blast

named_theorems emu_oks \<open>programs that respect the discipline\<close>

text \<open>
  The steps an instruction consists of: changes that keep \<open>kept\<close>, accesses through the
  library's memory handler, a write to an MSR, recording the bytes of the instruction,
  and raising an interrupt when none is raised yet.
\<close>

locale discipline =
  fixes R :: "x86emu \<Rightarrow> x86emu \<Rightarrow> bool"
  assumes R_kept: "kept t = kept s \<Longrightarrow> R s t"
    and R_trans: "R s t \<Longrightarrow> R t u \<Longrightarrow> R s u"
    and R_memio: "type \<noteq> 0x103 \<Longrightarrow> R s (snd (snd (vm_memio h s addr val type)))"
    and R_msr: "wrmsr s \<noteq> No_msr \<Longrightarrow> R s (s\<lparr>msr := ms, msr_perm := ps\<rparr>)"
    and R_instr: "(instr_len s \<le> 32 \<Longrightarrow> n \<le> 32) \<Longrightarrow> R s (s\<lparr>instr_buf := bs, instr_len := n\<rparr>)"
    and R_raise: "intr_type s = 0 \<Longrightarrow> R s (s\<lparr>intr_nr := nr, intr_type := ty, intr_errcode := ec\<rparr>)"
begin

abbreviation emu_ok :: "'a emu \<Rightarrow> bool" where
  "emu_ok m \<equiv> preserves R m"

lemma emu_ok_step:
  "(\<And>s. sandboxed s \<Longrightarrow> handlers (snd (run_state m s)) = handlers s \<and> R s (snd (run_state m s))) \<Longrightarrow> emu_ok m"
  by (simp add: preserves_def)

lemma emu_ok_return [emu_oks]: "emu_ok (return x)"
  by (simp add: preserves_def R_kept)

lemma emu_ok_gets [emu_oks]: "emu_ok (gets f)"
  by (simp add: preserves_def R_kept)

lemma emu_ok_skip [emu_oks]: "emu_ok skip"
  by (simp add: preserves_def R_kept)

lemma emu_ok_bind [emu_oks]:
  assumes "emu_ok m" "\<And>x. emu_ok (f x)"
  shows "emu_ok (m \<bind> f)"
proof (rule emu_ok_step)
  fix s assume s: "sandboxed s"
  obtain x t where m: "run_state m s = (x, t)" by force
  have t: "handlers t = handlers s" "R s t" using assms(1) s m by (auto simp: preserves_def)
  then have "handlers (snd (run_state (f x) t)) = handlers t \<and> R t (snd (run_state (f x) t))"
    using assms(2)[of x] s sandboxed_handlers[of t s] by (auto simp: preserves_def)
  with t show "handlers (snd (run_state (m \<bind> f) s)) = handlers s \<and> R s (snd (run_state (m \<bind> f) s))"
    using R_trans by (auto simp: run_bind m)
qed

lemma emu_ok_if [emu_oks]: "emu_ok m \<Longrightarrow> emu_ok n \<Longrightarrow> emu_ok (if b then m else n)"
  by simp

lemma emu_ok_if_then [emu_oks]: "emu_ok m \<Longrightarrow> emu_ok (if_then b m)"
  by (simp add: if_then_def emu_ok_skip)

lemma emu_ok_Let [emu_oks]: "(\<And>x. emu_ok (f x)) \<Longrightarrow> emu_ok (Let v f)"
  by simp

lemma emu_ok_prod [emu_oks]: "(\<And>a b. emu_ok (f a b)) \<Longrightarrow> emu_ok (case_prod f p)"
  by (simp add: case_prod_beta)

lemma emu_ok_option [emu_oks]: "emu_ok m \<Longrightarrow> (\<And>x. emu_ok (f x)) \<Longrightarrow> emu_ok (case_option m f v)"
  by (simp split: option.split)

lemma emu_ok_kept: "(\<And>s. sandboxed s \<Longrightarrow> kept (snd (run_state m s)) = kept s) \<Longrightarrow> emu_ok m"
  using R_kept by (simp add: preserves_def kept_def control_def)

lemma emu_ok_modify: "(\<And>s. kept (f s) = kept s) \<Longrightarrow> emu_ok (modify f)"
  by (rule emu_ok_kept) simp

lemma emu_ok_memio:
  "type \<noteq> 0x103 \<Longrightarrow> emu_ok (State (\<lambda>s. let (err, val, s) = call_memio h s addr val type in ((err, val), s)))"
  by (rule emu_ok_step) (simp add: call_memio_def sandboxed_def case_prod_beta R_memio handlers_vm_memio)

lemma emu_ok_repeat [emu_oks]: "emu_ok m \<Longrightarrow> emu_ok (repeat n m)"
  by (induction n) (simp_all add: emu_oks)

lemma emu_ok_repeat_while [emu_oks]: "emu_ok m \<Longrightarrow> emu_ok (repeat_while n m)"
  by (induction n) (auto intro!: emu_oks)

lemma emu_ok_for_each [emu_oks]: "(\<And>x. emu_ok (f x)) \<Longrightarrow> emu_ok (for_each xs f)"
  by (induction xs) (auto intro!: emu_oks)

end

end
