(* ===== verification/Api.thy ===== *)
theory Api
  imports Emu
begin

text \<open>
  Creating and resetting an emulator, its default MSR handlers and the installation of
  the client's handlers (\<^verbatim>\<open>api.c\<close>).
\<close>

section \<open>The processor after a reset\<close>

definition null_sel :: sel_t where
  "null_sel = \<lparr>sel_base = 0, sel_limit = 0, sel_sel = 0, sel_acc = 0\<rparr>"

text \<open>\<^verbatim>\<open>memset(x86, 0, sizeof *x86)\<close>\<close>

definition zero_regs :: x86emu_regs where
  "zero_regs = \<lparr>R_EAX = 0, R_EBX = 0, R_ECX = 0, R_EDX = 0, R_ESP = 0, R_EBP = 0, R_ESI = 0, R_EDI = 0,
     R_EIP = 0, R_FLG = 0, xmm = (\<lambda>_ _. 0), seg = (\<lambda>_. null_sel), ldt = null_sel, tr = null_sel,
     crx = (\<lambda>_. 0), drx = (\<lambda>_. 0), R_GDT_BASE = 0, R_GDT_LIMIT = 0, R_IDT_BASE = 0, R_IDT_LIMIT = 0,
     msr = (\<lambda>_. 0), msr_perm = (\<lambda>_. 0), mode = 0, default_seg = None, saved_eip = 0, saved_cs = 0,
     decode_seg = replicate 4 (CHR 0x00), instr_buf = (\<lambda>_. 0), instr_len = 0, disasm_buf = [],
     intr_nr = 0, intr_type = 0, intr_errcode = 0, intr_stats = (\<lambda>_. 0), debug_start = 0, debug_len = 0\<rparr>"

definition reset_seg :: "nat \<Rightarrow> sel_t" where
  "reset_seg i =
     (if i = R_CS_INDEX then \<lparr>sel_base = 0xf0000, sel_limit = 0xffff, sel_sel = 0xf000, sel_acc = 0x9b\<rparr>
      else if i \<le> R_GS_INDEX then \<lparr>sel_base = 0, sel_limit = 0xffff, sel_sel = 0, sel_acc = 0x93\<rparr>
      else null_sel)"

definition x86emu_reset :: "x86emu \<Rightarrow> x86emu" where
  "x86emu_reset s =
     x86emu_regs.extend
       (zero_regs\<lparr>R_FLG := 2, seg := reset_seg, R_EIP := 0xfff0, R_GDT_LIMIT := 0xffff, R_IDT_LIMIT := 0xffff,
          msr_perm := (\<lambda>_. 0)(0x10 := X86EMU_ACC_X, 0x11 := X86EMU_ACC_X, 0x12 := X86EMU_ACC_X)\<rparr>)
       (x86emu_regs.more s)"

section \<open>MSRs\<close>

definition x86emu_rdmsr :: "x86emu \<Rightarrow> x86emu" where
  "x86emu_rdmsr s =
     (let u = unat (R_ECX s)
      in s\<lparr>R_EDX := ucast (drop_bit 32 (msr s u)), R_EAX := ucast (msr s u),
           msr_perm := (msr_perm s)(u := msr_perm s u OR X86EMU_ACC_R)\<rparr>)"

definition x86emu_wrmsr :: "x86emu \<Rightarrow> x86emu" where
  "x86emu_wrmsr s =
     (let u = unat (R_ECX s)
      in s\<lparr>msr := (msr s)(u := push_bit 32 (ucast (R_EDX s)) + ucast (R_EAX s)),
           msr_perm := (msr_perm s)(u := msr_perm s u OR X86EMU_ACC_W)\<rparr>)"

section \<open>Handlers\<close>

definition x86emu_set_memio_handler :: "memio_handler \<Rightarrow> x86emu \<Rightarrow> memio_handler \<times> x86emu" where
  "x86emu_set_memio_handler handler s = (memio s, s\<lparr>memio := handler\<rparr>)"

definition x86emu_set_intr_handler :: "nat option \<Rightarrow> x86emu \<Rightarrow> nat option \<times> x86emu" where
  "x86emu_set_intr_handler handler s = (intr s, s\<lparr>intr := handler\<rparr>)"

definition x86emu_set_code_handler :: "nat option \<Rightarrow> x86emu \<Rightarrow> nat option \<times> x86emu" where
  "x86emu_set_code_handler handler s = (code_check s, s\<lparr>code_check := handler\<rparr>)"

definition x86emu_set_cpuid_handler :: "nat option \<Rightarrow> x86emu \<Rightarrow> nat option \<times> x86emu" where
  "x86emu_set_cpuid_handler handler s = (cpuid s, s\<lparr>cpuid := handler\<rparr>)"

definition x86emu_set_wrmsr_handler :: "msr_handler \<Rightarrow> x86emu \<Rightarrow> msr_handler \<times> x86emu" where
  "x86emu_set_wrmsr_handler handler s = (wrmsr s, s\<lparr>wrmsr := handler\<rparr>)"

definition x86emu_set_rdmsr_handler :: "msr_handler \<Rightarrow> x86emu \<Rightarrow> msr_handler \<times> x86emu" where
  "x86emu_set_rdmsr_handler handler s = (rdmsr s, s\<lparr>rdmsr := handler\<rparr>)"

section \<open>A new emulator\<close>

text \<open>
  \<^verbatim>\<open>calloc(1, sizeof *emu)\<close> with the memory and the arrays of the ports, which are
  allocated after it: no handler is installed yet. \<open>hm\<close> is the memory of the host the
  client's buffers live in.
\<close>

definition calloc_emu :: "(nat \<Rightarrow> u8) \<Rightarrow> u32 \<Rightarrow> x86emu" where
  "calloc_emu hm perm = x86emu_regs.extend zero_regs
     (x86emu.fields No_memio None None None No_msr No_msr (emu_mem_new perm hm) (\<lambda>_. 0) (\<lambda>_. 0) (\<lambda>_. 0)
        False False 0 0 None None 0 0 [] 0 False)"

definition x86emu_new :: "host \<Rightarrow> (nat \<Rightarrow> u8) \<Rightarrow> u32 \<Rightarrow> u32 \<Rightarrow> x86emu" where
  "x86emu_new h hm def_mem_perm def_io_perm =
     (let s = calloc_emu hm def_mem_perm;
          s = (if def_io_perm \<noteq> 0 then x86emu_set_io_perm h s 0 (of_nat X86EMU_IO_PORTS - 1) def_io_perm else s);
          s = snd (x86emu_set_memio_handler Vm_memio s);
          s = snd (x86emu_set_rdmsr_handler Default_msr s);
          s = snd (x86emu_set_wrmsr_handler Default_msr s)
      in x86emu_reset s)"

section \<open>Properties\<close>

text \<open>A reset leaves everything but the registers alone.\<close>

lemma x86emu_reset_keeps:
  "handlers (x86emu_reset s) = handlers s" "mem (x86emu_reset s) = mem s" "io_map (x86emu_reset s) = io_map s"
  "iopl_ok (x86emu_reset s) = iopl_ok s" "io_trace (x86emu_reset s) = io_trace s" "log_text (x86emu_reset s) = log_text s"
  by (cases s, simp add: x86emu_reset_def handlers_def zero_regs_def x86emu_regs.defs)+

lemma x86emu_reset_regs:
  "seg (x86emu_reset s) = reset_seg" "R_EIP (x86emu_reset s) = 0xfff0" "crx (x86emu_reset s) = (\<lambda>_. 0)"
  "R_FLG (x86emu_reset s) = 2" "mode (x86emu_reset s) = 0" "intr_type (x86emu_reset s) = 0" "debug_len (x86emu_reset s) = 0"
  "instr_len (x86emu_reset s) = 0"
  by (cases s, simp add: x86emu_reset_def zero_regs_def x86emu_regs.defs)+

lemma set_io_perm_frame [simp]:
  "memio (x86emu_set_io_perm h s a b p) = memio s" "intr (x86emu_set_io_perm h s a b p) = intr s"
  "code_check (x86emu_set_io_perm h s a b p) = code_check s" "cpuid (x86emu_set_io_perm h s a b p) = cpuid s"
  "rdmsr (x86emu_set_io_perm h s a b p) = rdmsr s" "wrmsr (x86emu_set_io_perm h s a b p) = wrmsr s"
  "log_flush (x86emu_set_io_perm h s a b p) = log_flush s" "mem (x86emu_set_io_perm h s a b p) = mem s"
  "log_text (x86emu_set_io_perm h s a b p) = log_text s" "io_trace (x86emu_set_io_perm h s a b p) = io_trace s"
  by (simp_all add: x86emu_set_io_perm_def Let_def)

lemma calloc_emu_frame [simp]:
  "memio (calloc_emu hm p) = No_memio" "rdmsr (calloc_emu hm p) = No_msr" "wrmsr (calloc_emu hm p) = No_msr" "intr (calloc_emu hm p) = None" "code_check (calloc_emu hm p) = None"
  "cpuid (calloc_emu hm p) = None" "log_flush (calloc_emu hm p) = None" "mem (calloc_emu hm p) = emu_mem_new p hm"
  "log_text (calloc_emu hm p) = None" "io_trace (calloc_emu hm p) = []"
  by (simp_all add: calloc_emu_def zero_regs_def x86emu_regs.defs x86emu.defs)

lemma x86emu_new_state:
  "\<exists>s. x86emu_new h hm p q = x86emu_reset s \<and> sandboxed s \<and> log_text s = None \<and> io_trace s = [] \<and> mem s = emu_mem_new p hm"
proof -
  define s where "s = (let s = calloc_emu hm p; s = (if q \<noteq> 0 then x86emu_set_io_perm h s 0 0xffff q else s)
    in s\<lparr>memio := Vm_memio, rdmsr := Default_msr, wrmsr := Default_msr\<rparr>)"
  have "x86emu_new h hm p q = x86emu_reset s"
    by (simp add: x86emu_new_def s_def Let_def x86emu_set_memio_handler_def x86emu_set_rdmsr_handler_def x86emu_set_wrmsr_handler_def)
  moreover have "sandboxed s" "log_text s = None" "io_trace s = []" "mem s = emu_mem_new p hm"
    by (auto simp: s_def Let_def sandboxed_def)
  ultimately show ?thesis by blast
qed

lemma x86emu_new_simps [simp]:
  "sandboxed (x86emu_new h hm p q)" "mem (x86emu_new h hm p q) = emu_mem_new p hm" "log_text (x86emu_new h hm p q) = None"
proof -
  obtain s where s: "x86emu_new h hm p q = x86emu_reset s" "sandboxed s" "log_text s = None" "mem s = emu_mem_new p hm"
    using x86emu_new_state by blast
  show "sandboxed (x86emu_new h hm p q)" using s(2) by (simp only: s(1) sandboxed_handlers[OF x86emu_reset_keeps(1)])
  show "mem (x86emu_new h hm p q) = emu_mem_new p hm" by (simp only: s x86emu_reset_keeps)
  show "log_text (x86emu_new h hm p q) = None" by (simp only: s x86emu_reset_keeps)
qed

lemma x86emu_new_regs [simp]:
  "seg (x86emu_new h hm p q) = reset_seg" "R_EIP (x86emu_new h hm p q) = 0xfff0" "mode (x86emu_new h hm p q) = 0"
  "intr_type (x86emu_new h hm p q) = 0" "debug_len (x86emu_new h hm p q) = 0" "instr_len (x86emu_new h hm p q) = 0"
  using x86emu_new_state[of h hm p q] x86emu_reset_regs by metis+

end
