(* ===== verification/Log.thy ===== *)
theory Log
  imports Api
begin

text \<open>
  The log buffer (\<^verbatim>\<open>x86emu_set_log\<close>, \<^verbatim>\<open>x86emu_clear_log\<close>, \<^verbatim>\<open>x86emu_log\<close> of
  \<^verbatim>\<open>api.c\<close>), the hexadecimal conversions of \<^verbatim>\<open>decode.c\<close>, and the text the run loop
  writes for every instruction (\<^verbatim>\<open>log_regs\<close>, \<^verbatim>\<open>log_code\<close>). The conversions of the
  C code write through a pointer and advance it; here they are the characters written,
  which the caller appends to the log or to the disassembly.

  The properties: the conversions read back as the number they print, and the log
  buffer is not overrun.
\<close>

abbreviation (input) X86EMU_TRACE_REGS :: u32 where "X86EMU_TRACE_REGS \<equiv> 0x01"
abbreviation (input) X86EMU_TRACE_CODE :: u32 where "X86EMU_TRACE_CODE \<equiv> 0x02"
abbreviation (input) X86EMU_TRACE_DATA :: u32 where "X86EMU_TRACE_DATA \<equiv> 0x04"
abbreviation (input) X86EMU_TRACE_ACC :: u32 where "X86EMU_TRACE_ACC \<equiv> 0x08"
abbreviation (input) X86EMU_TRACE_IO :: u32 where "X86EMU_TRACE_IO \<equiv> 0x10"
abbreviation (input) X86EMU_TRACE_INTS :: u32 where "X86EMU_TRACE_INTS \<equiv> 0x20"
abbreviation (input) X86EMU_TRACE_TIME :: u32 where "X86EMU_TRACE_TIME \<equiv> 0x40"
abbreviation (input) CR4_OSFXSR :: u32 where "CR4_OSFXSR \<equiv> 0x200"
abbreviation (input) X86EMU_TRACE_DEBUG :: u32 where "X86EMU_TRACE_DEBUG \<equiv> 0x80"

section \<open>Hexadecimal conversions\<close>

definition hexdigit :: "u32 \<Rightarrow> char" where
  "hexdigit n = ''0123456789abcdef'' ! unat (n AND 0xf)"

text \<open>
  The two loops of \<^verbatim>\<open>decode_hex\<close>: the number is shifted until its top digit is not
  zero, then its remaining digits are written. The first loop runs only for a number
  other than zero.
\<close>

lemma unat_shl4: "unat (push_bit 4 ofs) = unat ofs mod 2 ^ 28 * 16" for ofs :: u32
  by (simp add: push_bit_eq_mult unat_word_ariths mult.commute mod_mult_mult2[of _ 16 "2 ^ 28 :: nat", simplified])

lemma shift_digit:
  fixes ofs :: u32
  assumes "ofs AND 0xf0000000 = 0"
  shows "unat ofs < 2 ^ 28" and "unat (push_bit 4 ofs) = unat ofs * 16"
proof -
  have m: "(0xf0000000 :: u32) = push_bit 28 (mask 4)" by (simp add: mask_eq_exp_minus_1)
  have "ofs = take_bit 28 ofs"
  proof (rule bit_word_eqI)
    fix i assume i: "i < LENGTH(32)"
    have "ofs AND push_bit 28 (mask 4) = 0" using assms unfolding m .
    then have "\<not> bit (ofs AND push_bit 28 (mask 4)) i" by (simp only: bit_0_eq bot_apply bot_bool_def) simp
    then show "bit ofs i = bit (take_bit 28 ofs) i" using i by (auto simp: bit_simps)
  qed
  then have "unat ofs = take_bit 28 (unat ofs)" by (metis unsigned_take_bit_eq)
  then show less: "unat ofs < 2 ^ 28" by (metis take_bit_nat_less_exp)
  show "unat (push_bit 4 ofs) = unat ofs * 16" unfolding unat_shl4 using less by simp
qed

lemma shift_digit_less: "ofs \<noteq> 0 \<Longrightarrow> ofs AND 0xf0000000 = 0 \<Longrightarrow> unat ofs < unat (push_bit 4 ofs)" for ofs :: u32
  using shift_digit[of ofs] by (simp add: unat_gt_0)

function hex_strip :: "u32 \<Rightarrow> nat \<Rightarrow> u32 \<times> nat" where
  "hex_strip ofs u = (if ofs = 0 \<or> ofs AND 0xf0000000 \<noteq> 0 then (ofs, u) else hex_strip (push_bit 4 ofs) (u - 1))"
  by pat_completeness auto
termination
proof (relation "measure (\<lambda>(ofs, u). 2 ^ 32 - unat ofs)")
  fix ofs :: u32 and u :: nat
  assume "\<not> (ofs = 0 \<or> ofs AND 0xf0000000 \<noteq> 0)"
  then have "unat ofs < unat (push_bit 4 ofs)" using shift_digit_less by blast
  moreover have "unat (push_bit 4 ofs) < 2 ^ 32" using unsigned_less[of "push_bit 4 ofs"] by simp
  ultimately show "((push_bit 4 ofs, u - 1), (ofs, u)) \<in> measure (\<lambda>(ofs, u). 2 ^ 32 - unat ofs)"
    by simp
qed simp

declare hex_strip.simps [simp del]

primrec hex_digits :: "nat \<Rightarrow> u32 \<Rightarrow> string" where
  "hex_digits 0 ofs = []"
| "hex_digits (Suc u) ofs = hexdigit (drop_bit 28 ofs) # hex_digits u (push_bit 4 ofs)"

definition decode_hex :: "u32 \<Rightarrow> string" where
  "decode_hex ofs = (if ofs \<noteq> 0 then let (ofs, u) = hex_strip ofs 8 in hex_digits u ofs else ''0'')"

definition decode_hex1 :: "u32 \<Rightarrow> string" where
  "decode_hex1 ofs = [hexdigit ofs]"

definition decode_hex2 :: "u32 \<Rightarrow> string" where
  "decode_hex2 ofs = [hexdigit (drop_bit 4 ofs), hexdigit ofs]"

definition decode_hex4 :: "u32 \<Rightarrow> string" where
  "decode_hex4 ofs = [hexdigit (drop_bit 12 ofs), hexdigit (drop_bit 8 ofs), hexdigit (drop_bit 4 ofs), hexdigit ofs]"

definition decode_hex8 :: "u32 \<Rightarrow> string" where
  "decode_hex8 ofs = decode_hex4 (drop_bit 16 ofs) @ decode_hex4 (ofs AND 0xffff)"

definition decode_hex32 :: "(nat \<Rightarrow> u8) \<Rightarrow> string" where
  "decode_hex32 reg = concat (map (\<lambda>i. decode_hex2 (ucast (reg i))) (rev [0..<16]))"

definition decode_hex_addr :: "x86emu \<Rightarrow> u32 \<Rightarrow> string" where
  "decode_hex_addr s ofs =
     (if MODE_CODE32 s then decode_hex4 (drop_bit 16 ofs) @ decode_hex4 (ofs AND 0xffff)
      else decode_hex4 (ofs AND 0xffff))"

text \<open>The signed conversions get a signed number and write its sign first.\<close>

definition decode_hex2s :: "u32 \<Rightarrow> string" where
  "decode_hex2s ofs = (if 0 \<le> sint ofs then CHR ''+'' # decode_hex2 ofs else CHR ''-'' # decode_hex2 (- ofs))"

definition decode_hex4s :: "u32 \<Rightarrow> string" where
  "decode_hex4s ofs = (if 0 \<le> sint ofs then CHR ''+'' # decode_hex4 ofs else CHR ''-'' # decode_hex4 (- ofs))"

definition decode_hex8s :: "u32 \<Rightarrow> string" where
  "decode_hex8s ofs = (if 0 \<le> sint ofs then CHR ''+'' # decode_hex8 ofs else CHR ''-'' # decode_hex8 (- ofs))"

section \<open>The log buffer\<close>

definition LOG_STR :: "string \<Rightarrow> unit emu" where
  "LOG_STR a = modify (\<lambda>s. s\<lparr>log_text := map_option (\<lambda>t. t @ a) (log_text s)\<rparr>)"

definition LOG_FREE :: "x86emu \<Rightarrow> u32" where
  "LOG_FREE s = log_size s - word_of_nat (case log_text s of None \<Rightarrow> 0 | Some t \<Rightarrow> length t)"

text \<open>Whether the log pointer is set.\<close>

definition log_on :: "x86emu \<Rightarrow> bool" where
  "log_on s \<longleftrightarrow> log_text s \<noteq> None"

definition x86emu_set_log :: "u32 \<Rightarrow> nat option \<Rightarrow> unit emu" where
  "x86emu_set_log buffer_size flush = modify (\<lambda>s. s\<lparr>log_size := buffer_size,
     log_text := (if buffer_size \<noteq> 0 then Some [] else None), log_flush := flush\<rparr>)"

definition flush_log :: "host \<Rightarrow> x86emu \<Rightarrow> x86emu" where
  "flush_log h s = (case log_flush s of None \<Rightarrow> s
     | Some n \<Rightarrow> (case log_text s of None \<Rightarrow> s | Some t \<Rightarrow> if t = [] then s else user_flush h n s t))"

definition x86emu_clear_log :: "host \<Rightarrow> bool \<Rightarrow> u32 emu" where
  "x86emu_clear_log h flush = do {
     if_then flush (modify (flush_log h));
     modify (\<lambda>s. s\<lparr>log_text := map_option (\<lambda>_. []) (log_text s)\<rparr>);
     gets (\<lambda>s. if log_on s then LOG_FREE s else 0)
   }"

text \<open>
  \<^verbatim>\<open>x86emu_log\<close> formats with \<^verbatim>\<open>vsnprintf\<close>, which returns the length of the whole
  text; here it gets the formatted text. A text that does not fit into the cleared
  buffer either is dropped.
\<close>

definition x86emu_log :: "host \<Rightarrow> string \<Rightarrow> unit emu" where
  "x86emu_log h text = do {
     on \<leftarrow> gets log_on;
     if_then on (do {
       let size = int (length text);
       log_free \<leftarrow> gets LOG_FREE;
       log_free \<leftarrow> (if size \<ge> sint log_free then x86emu_clear_log h True else return log_free);
       if_then (size < sint log_free) (LOG_STR text)
     })
   }"

text \<open>\<^verbatim>\<open>lf = LOG_FREE(emu); if(lf < n) lf = x86emu_clear_log(emu, 1);\<close>\<close>

definition log_room :: "host \<Rightarrow> u32 \<Rightarrow> u32 emu" where
  "log_room h n = do {
     lf \<leftarrow> gets LOG_FREE;
     if lf < n then x86emu_clear_log h True else return lf
   }"

text \<open>
  A line of the trace: when the log has room for \<open>n\<close> characters, if need be after it has
  been flushed, the line is written; else it is left out.
\<close>

definition log_line :: "host \<Rightarrow> u32 \<Rightarrow> (x86emu \<Rightarrow> string) \<Rightarrow> unit emu" where
  "log_line h n text = do {
     lf \<leftarrow> log_room h n;
     if_then (\<not> lf < n) (do { s \<leftarrow> gets id; LOG_STR (text s) })
   }"

section \<open>The trace of an instruction\<close>

definition code_text :: "x86emu \<Rightarrow> string" where
  "code_text s =
     decode_hex (ucast (R_TSC s)) @
     (if log_trace s AND X86EMU_TRACE_TIME \<noteq> 0 then '' +'' @ decode_hex (ucast (R_REAL_TSC s - R_LAST_REAL_TSC s)) else []) @
     '' '' @ decode_hex4 (ucast (saved_cs s)) @ '':'' @
     (if MODE_CODE32 s then decode_hex8 (saved_eip s) else decode_hex4 (saved_eip s)) @ '' '' @
     concat (map (\<lambda>u. decode_hex2 (ucast (instr_buf s u))) [0..<unat (instr_len s)]) @
     concat (replicate (12 - unat (instr_len s)) ''  '') @ '' '' @
     disasm_buf s @ [CHR 0x0A]"

definition log_code :: "host \<Rightarrow> unit emu" where
  "log_code h = do {
     s \<leftarrow> gets id;
     if_then (log_trace s AND X86EMU_TRACE_CODE \<noteq> 0 \<and> log_on s) (log_line h 512 code_text)
   }"

definition xmm_text :: "x86emu \<Rightarrow> string" where
  "xmm_text s =
     [CHR 0x0A] @ ''xmm0 '' @ decode_hex32 (xmm s 0) @ [CHR 0x0A] @ ''xmm1 '' @ decode_hex32 (xmm s 1) @
     [CHR 0x0A] @ ''xmm2 '' @ decode_hex32 (xmm s 2) @ [CHR 0x0A] @ ''xmm3 '' @ decode_hex32 (xmm s 3) @
     [CHR 0x0A] @ ''xmm4 '' @ decode_hex32 (xmm s 4) @ [CHR 0x0A] @ ''xmm5 '' @ decode_hex32 (xmm s 5) @
     [CHR 0x0A] @ ''xmm6 '' @ decode_hex32 (xmm s 6) @ [CHR 0x0A] @ ''xmm7 '' @ decode_hex32 (xmm s 7) @ [CHR 0x0A]"

definition flags_text :: "u32 \<Rightarrow> string" where
  "flags_text f =
     (if ACCESS_FLAG F_OF f then '' of'' else []) @ (if ACCESS_FLAG F_DF f then '' df'' else []) @
     (if ACCESS_FLAG F_IF f then '' if'' else []) @ (if ACCESS_FLAG F_SF f then '' sf'' else []) @
     (if ACCESS_FLAG F_ZF f then '' zf'' else []) @ (if ACCESS_FLAG F_AF f then '' af'' else []) @
     (if ACCESS_FLAG F_PF f then '' pf'' else []) @ (if ACCESS_FLAG F_CF f then '' cf'' else [])"

definition regs_text :: "x86emu \<Rightarrow> string" where
  "regs_text s =
     [CHR 0x0A] @ ''eax '' @ decode_hex8 (R_EAX s) @ '', ebx '' @ decode_hex8 (R_EBX s) @
     '', ecx '' @ decode_hex8 (R_ECX s) @ '', edx '' @ decode_hex8 (R_EDX s) @
     [CHR 0x0A] @ ''esi '' @ decode_hex8 (R_ESI s) @ '', edi '' @ decode_hex8 (R_EDI s) @
     '', ebp '' @ decode_hex8 (R_EBP s) @ '', esp '' @ decode_hex8 (R_ESP s) @
     [CHR 0x0A] @ ''cs '' @ decode_hex4 (ucast (R_CS s)) @ '', ss '' @ decode_hex4 (ucast (sel_sel (seg s R_SS_INDEX))) @
     '', ds '' @ decode_hex4 (ucast (sel_sel (seg s R_DS_INDEX))) @ '', es '' @ decode_hex4 (ucast (sel_sel (seg s R_ES_INDEX))) @
     '', fs '' @ decode_hex4 (ucast (sel_sel (seg s R_FS_INDEX))) @ '', gs '' @ decode_hex4 (ucast (sel_sel (seg s R_GS_INDEX))) @
     [CHR 0x0A] @ ''eip '' @ decode_hex8 (R_EIP s) @ '', eflags '' @ decode_hex8 (R_FLG s) @ flags_text (R_FLG s) @
     (if crx s 4 AND CR4_OSFXSR \<noteq> 0 then xmm_text s else []) @ [CHR 0x0A]"

definition log_regs :: "host \<Rightarrow> unit emu" where
  "log_regs h = do {
     s \<leftarrow> gets id;
     if_then (log_trace s AND X86EMU_TRACE_REGS \<noteq> 0 \<and> log_on s) (log_line h 512 regs_text)
   }"

section \<open>The conversions read back\<close>

definition digit_val :: "char \<Rightarrow> nat" where
  "digit_val c = (if of_char c < (58 :: nat) then of_char c - 48 else of_char c - 87)"

definition hex_val :: "string \<Rightarrow> nat" where
  "hex_val = foldl (\<lambda>n c. 16 * n + digit_val c) 0"

lemma digit_val_hexdigit: "digit_val (hexdigit n) = unat (n AND 0xf)"
proof -
  have "n AND 0xf = take_bit 4 n" by (simp add: take_bit_eq_mask mask_eq_exp_minus_1)
  then have less: "unat (n AND 0xf) < 16" by (simp add: take_bit_eq_mod unat_mod)
  have "\<forall>k\<in>set [0..<16]. digit_val (''0123456789abcdef'' ! k) = k" by code_simp
  then show ?thesis unfolding hexdigit_def using less by simp
qed

lemma hex_val_foldl: "foldl (\<lambda>n c. 16 * n + digit_val c) m cs = m * 16 ^ length cs + hex_val cs"
proof (induction cs arbitrary: m)
  case (Cons c cs)
  show ?case
    using Cons.IH[of "16 * m + digit_val c"] Cons.IH[of "digit_val c"]
    by (simp add: hex_val_def algebra_simps)
qed (simp add: hex_val_def)

lemma hex_val_Cons: "hex_val (c # cs) = digit_val c * 16 ^ length cs + hex_val cs"
  using hex_val_foldl[of "digit_val c" cs] by (simp add: hex_val_def)

lemma hex_val_Nil [simp]: "hex_val [] = 0"
  by (simp add: hex_val_def)

lemma hex_val_append: "hex_val (as @ bs) = hex_val as * 16 ^ length bs + hex_val bs"
  by (induction as) (simp_all add: hex_val_Cons power_add algebra_simps)

lemma length_hex_digits [simp]: "length (hex_digits u ofs) = u"
  by (induction u arbitrary: ofs) simp_all

lemma top_digit: "digit_val (hexdigit (drop_bit 28 ofs)) = unat ofs div 2 ^ 28" for ofs :: u32
proof -
  have "drop_bit 28 ofs AND 0xf = drop_bit 28 ofs"
  proof (rule bit_word_eqI)
    have m: "(0xf :: u32) = mask 4" by (simp add: mask_eq_exp_minus_1)
    fix i
    show "bit (drop_bit 28 ofs AND 0xf) i = bit (drop_bit 28 ofs) i"
      unfolding m by (auto simp: bit_simps dest: bit_imp_le_length)
  qed
  then have "digit_val (hexdigit (drop_bit 28 ofs)) = unat (ofs div 2 ^ 28)"
    by (simp only: digit_val_hexdigit drop_bit_eq_div)
  then show ?thesis by (simp only: unat_div) simp
qed

text \<open>The digits written are the top \<open>u\<close> of the eight.\<close>

lemma hex_val_digits: "u \<le> 8 \<Longrightarrow> hex_val (hex_digits u ofs) = unat ofs div 16 ^ (8 - u)"
proof (induction u arbitrary: ofs)
  case 0
  have "unat ofs < 16 ^ 8" using unsigned_less[of ofs] by simp
  then show ?case by simp
next
  case (Suc u)
  let ?q = "unat ofs div 2 ^ 28" and ?r = "unat ofs mod 2 ^ 28" and ?k = "7 - u"
  have k: "8 - u = Suc ?k" "8 - Suc u = ?k" using Suc.prems by simp_all
  have "u + ?k = 7" using Suc.prems by simp
  then have p: "(16 :: nat) ^ u * 16 ^ ?k = 2 ^ 28" by (simp flip: power_add)
  have "hex_val (hex_digits (Suc u) ofs) = ?q * 16 ^ u + ?r * 16 div 16 ^ Suc ?k"
    using Suc.prems by (simp only: hex_digits.simps hex_val_Cons length_hex_digits top_digit Suc.IH unat_shl4 k(1) Suc_leD)
  also have "?r * 16 div 16 ^ Suc ?k = ?r div 16 ^ ?k" by (simp add: mult.commute)
  also have "?q * 16 ^ u + ?r div 16 ^ ?k = (?r + ?q * 16 ^ u * 16 ^ ?k) div 16 ^ ?k"
    by simp
  also have "?r + ?q * 16 ^ u * 16 ^ ?k = unat ofs"
    by (simp only: mult.assoc p mod_div_mult_eq)
  finally show ?case by (simp only: k(2))
qed

lemma hex_strip_spec:
  assumes "ofs \<noteq> 0" "u \<le> 8" "16 ^ (8 - u) \<le> unat ofs" "hex_strip ofs u = (ofs', u')"
  shows "0 < u' \<and> u' \<le> u \<and> ofs' AND 0xf0000000 \<noteq> 0 \<and> unat ofs' = unat ofs * 16 ^ (u - u')"
  using assms
proof (induction ofs u rule: hex_strip.induct)
  case (1 ofs u)
  have "unat ofs < 16 ^ 8" using unsigned_less[of ofs] by simp
  then have u: "u \<noteq> 0" using 1(4) by (metis diff_zero leD)
  show ?case
  proof (cases "ofs AND 0xf0000000 = 0")
    case True
    note shift = shift_digit[OF True]
    have nz: "push_bit 4 ofs \<noteq> 0" using shift_digit_less[OF 1(2) True] by (metis less_nat_zero_code unat_0)
    have step: "hex_strip (push_bit 4 ofs) (u - 1) = (ofs', u')"
      using 1(2,5) True by (simp add: hex_strip.simps[of ofs])
    have "8 - (u - 1) = Suc (8 - u)" using u 1(3) by simp
    then have le: "16 ^ (8 - (u - 1)) \<le> unat (push_bit 4 ofs)" using 1(4) unfolding shift by simp
    have "\<not> (ofs = 0 \<or> ofs AND 0xf0000000 \<noteq> 0)" using 1(2) True by simp
    then have ih: "0 < u' \<and> u' \<le> u - 1 \<and> ofs' AND 0xf0000000 \<noteq> 0 \<and> unat ofs' = unat (push_bit 4 ofs) * 16 ^ (u - 1 - u')"
      using 1(3) by (intro 1(1)[OF _ nz _ le step]) simp_all
    then have "Suc (u - 1 - u') = u - u'" using u by arith
    then have "(16 :: nat) * 16 ^ (u - 1 - u') = 16 ^ (u - u')" by (metis power_Suc)
    then show ?thesis using ih unfolding shift mult.assoc by auto
  next
    case False
    then have "ofs' = ofs" "u' = u" using "1.prems" by (simp_all add: hex_strip.simps[of ofs])
    then show ?thesis using False u by simp
  qed
qed

lemma decode_hex_nonzero:
  assumes "ofs \<noteq> 0"
  shows "hex_val (decode_hex ofs) = unat ofs \<and> length (decode_hex ofs) \<le> 8 \<and> digit_val (hd (decode_hex ofs)) \<noteq> 0"
proof -
  obtain ofs' u where s: "hex_strip ofs 8 = (ofs', u)" by force
  have "16 ^ (8 - 8) \<le> unat ofs" using assms by (simp add: unat_gt_0 Suc_leI)
  from hex_strip_spec[OF assms _ this s]
  have u: "0 < u" "u \<le> 8" and top: "ofs' AND 0xf0000000 \<noteq> 0" and val: "unat ofs' = unat ofs * 16 ^ (8 - u)" by auto
  have eq: "decode_hex ofs = hex_digits u ofs'" using assms by (simp add: decode_hex_def s)
  have "hex_val (hex_digits u ofs') = unat ofs" unfolding hex_val_digits[OF u(2)] val by simp
  moreover obtain v where v: "u = Suc v" using u(1) by (cases u) simp_all
  have "unat ofs' div 2 ^ 28 \<noteq> 0"
  proof
    assume "unat ofs' div 2 ^ 28 = 0"
    then have less: "unat ofs' < 2 ^ 28" by (simp add: div_eq_0_iff)
    have "ofs' AND 0xf0000000 = 0"
    proof (rule bit_word_eqI)
      have m: "(0xf0000000 :: u32) = push_bit 28 (mask 4)" by (simp add: mask_eq_exp_minus_1)
      have "take_bit 28 (unat ofs') = unat ofs'" using less by (simp add: take_bit_nat_eq_self_iff)
      then have "take_bit 28 ofs' = ofs'" by (metis unsigned_take_bit_eq unsigned_word_eqI)
      then have no: "28 \<le> i \<Longrightarrow> \<not> bit ofs' i" for i by (metis bit_take_bit_iff leD)
      fix i show "bit (ofs' AND 0xf0000000) i = bit 0 i" unfolding m using no[of i] by (auto simp: bit_simps)
    qed
    then show False using top by simp
  qed
  then have "digit_val (hd (hex_digits u ofs')) \<noteq> 0" unfolding v hex_digits.simps list.sel top_digit .
  ultimately show ?thesis unfolding eq using u by simp
qed

lemma digit_val_mod: "digit_val (hexdigit n) = unat n mod 16"
proof -
  have "n AND 0xf = take_bit 4 n" by (simp add: take_bit_eq_mask mask_eq_exp_minus_1)
  then show ?thesis unfolding digit_val_hexdigit by (simp only: unsigned_take_bit_eq) (simp add: take_bit_eq_mod)
qed

lemma hex_value_mod: "x div 16 mod 16 * 16 + x mod 16 = x mod 256" for x :: nat
  using mod_mult2_eq[of x 16 16] by simp

lemma hex_val_fixed:
  "hex_val (decode_hex2 v) = unat v mod 2 ^ 8" "hex_val (decode_hex4 v) = unat v mod 2 ^ 16"
proof -
  have h2: "hex_val (decode_hex2 v) = unat v mod 256" for v
    by (simp add: decode_hex2_def hex_val_Cons digit_val_mod unat_div drop_bit_eq_div hex_value_mod)
  then show "hex_val (decode_hex2 v) = unat v mod 2 ^ 8" by simp
  have "decode_hex4 v = decode_hex2 (drop_bit 8 v) @ decode_hex2 v"
    by (simp add: decode_hex4_def decode_hex2_def)
  then have "hex_val (decode_hex4 v) = unat (drop_bit 8 v) mod 256 * 256 + unat v mod 256"
    by (simp add: hex_val_append h2) (simp add: decode_hex2_def)
  then show "hex_val (decode_hex4 v) = unat v mod 2 ^ 16"
    using mod_mult2_eq[of "unat v" 256 256] by (simp add: unat_div drop_bit_eq_div)
qed

lemma hex_length [simp]: "length (decode_hex2 v) = 2" "length (decode_hex4 v) = 4" "length (decode_hex8 v) = 8"
  by (simp_all add: decode_hex2_def decode_hex4_def decode_hex8_def)

lemma hex_val_hex8: "hex_val (decode_hex8 v) = unat v"
proof -
  have "v AND 0xffff = take_bit 16 v" by (simp add: take_bit_eq_mask mask_eq_exp_minus_1)
  then have lo: "unat (v AND 0xffff) mod 2 ^ 16 = unat v mod 2 ^ 16"
    by (simp only: unsigned_take_bit_eq) (simp add: take_bit_eq_mod)
  have "unat v < 2 ^ 16 * 2 ^ 16" using unsigned_less[of v] by simp
  then have "unat v div 2 ^ 16 < 2 ^ 16" by (rule less_mult_imp_div_less)
  then have hi: "unat (drop_bit 16 v) mod 2 ^ 16 = unat v div 2 ^ 16" by (simp add: unat_div drop_bit_eq_div)
  show ?thesis unfolding decode_hex8_def hex_val_append hex_val_fixed hi lo
    using div_mult_mod_eq[of "unat v" "2 ^ 16"] by simp
qed

text \<open>
  \<open>decode_hex\<close> prints a number without leading zeros, the fixed width conversions
  print its low 8, 16 and all 32 bits, and all of them read back as the number printed.
\<close>

lemma decode_hex_roundtrip:
  "hex_val (decode_hex v) = unat v \<and> length (decode_hex v) \<le> 8 \<and> (if v = 0 then decode_hex v = ''0'' else digit_val (hd (decode_hex v)) \<noteq> 0) \<and>
   hex_val (decode_hex2 v) = unat v mod 2 ^ 8 \<and> hex_val (decode_hex4 v) = unat v mod 2 ^ 16 \<and>
   hex_val (decode_hex8 v) = unat v \<and>
   length (decode_hex2 v) = 2 \<and> length (decode_hex4 v) = 4 \<and> length (decode_hex8 v) = 8"
  using decode_hex_nonzero[of v] by (cases "v = 0") (simp_all add: hex_val_fixed hex_val_hex8 decode_hex_def hex_val_Cons digit_val_def)

section \<open>The buffer is not overrun\<close>

text \<open>The text and its terminating zero lie in the buffer.\<close>

definition log_fits :: "x86emu \<Rightarrow> bool" where
  "log_fits s \<longleftrightarrow> (case log_text s of None \<Rightarrow> True | Some t \<Rightarrow> length t < unat (log_size s))"

text \<open>
  What is relied on of a client's flush function: it leaves a usable log behind and does
  not touch the instruction being traced.
\<close>

definition flush_ok :: "host \<Rightarrow> bool" where
  "flush_ok h \<longleftrightarrow> (\<forall>n s t. (log_fits s \<longrightarrow> log_fits (user_flush h n s t)) \<and>
     instr_len (user_flush h n s t) = instr_len s \<and> disasm_buf (user_flush h n s t) = disasm_buf s \<and>
     crx (user_flush h n s t) = crx s)"

definition same_trace :: "x86emu \<Rightarrow> x86emu \<Rightarrow> bool" where
  "same_trace s s' \<longleftrightarrow> instr_len s' = instr_len s \<and> disasm_buf s' = disasm_buf s \<and> crx s' = crx s"

lemma flush_log_ok:
  "flush_ok h \<Longrightarrow> log_fits s \<Longrightarrow> log_fits (flush_log h s) \<and> same_trace s (flush_log h s)"
  by (auto simp: flush_ok_def flush_log_def same_trace_def split: option.split)

definition cleared :: "x86emu \<Rightarrow> x86emu" where
  "cleared s = s\<lparr>log_text := map_option (\<lambda>_. []) (log_text s)\<rparr>"

lemma run_clear_log:
  "run_state (x86emu_clear_log h True) s =
     (let s' = cleared (flush_log h s) in (if log_on s' then LOG_FREE s' else 0, s'))"
  by (simp add: x86emu_clear_log_def cleared_def Let_def)

lemma cleared_ok: "log_fits s \<Longrightarrow> log_fits (cleared s)" "same_trace s (cleared s)"
  by (auto simp: log_fits_def cleared_def same_trace_def split: option.splits)

lemma same_trace_trans: "same_trace s s' \<Longrightarrow> same_trace s' s'' \<Longrightarrow> same_trace s s''"
  by (simp add: same_trace_def)

lemma clear_log_ok:
  assumes "flush_ok h" "log_fits s" "run_state (x86emu_clear_log h True) s = (lf, s')"
  shows "log_fits s' \<and> same_trace s s' \<and> (if log_on s' then lf = LOG_FREE s' else lf = 0)"
proof -
  have "s' = cleared (flush_log h s)" "(if log_on s' then lf = LOG_FREE s' else lf = 0)"
    using assms(3) by (auto simp: run_clear_log Let_def)
  then show ?thesis
    using flush_log_ok[OF assms(1,2)] cleared_ok[of "flush_log h s"] same_trace_trans by blast
qed

lemma unat_LOG_FREE:
  assumes "log_fits s" "log_text s = Some t"
  shows "unat (LOG_FREE s) = unat (log_size s) - length t"
proof -
  have less: "length t < unat (log_size s)" using assms by (simp add: log_fits_def)
  have "unat (log_size s) < 2 ^ 32" using unsigned_less[of "log_size s"] by simp
  then have "unat (word_of_nat (length t) :: u32) = length t"
    using less by (simp add: unat_of_nat take_bit_nat_eq_self_iff flip: take_bit_eq_mod)
  then show ?thesis using less assms(2) by (simp add: LOG_FREE_def unat_sub word_le_nat_alt)
qed

lemma LOG_STR_fits:
  assumes "log_fits s" "log_on s \<Longrightarrow> length t < unat (LOG_FREE s)"
  shows "log_fits (snd (run_state (LOG_STR t) s))"
proof (cases "log_text s")
  case (Some u)
  then show ?thesis
    using assms unat_LOG_FREE[OF assms(1) Some] by (simp add: LOG_STR_def log_fits_def log_on_def)
qed (simp add: LOG_STR_def log_fits_def)

lemma log_line_fits:
  assumes "flush_ok h" "log_fits s" "\<And>s'. same_trace s s' \<Longrightarrow> length (text s') < unat n"
  shows "log_fits (snd (run_state (log_line h n text) s))"
proof -
  obtain lf s' where r: "run_state (log_room h n) s = (lf, s')" by force
  have "log_fits s' \<and> same_trace s s' \<and> (log_on s' \<longrightarrow> lf = LOG_FREE s')"
  proof (cases "LOG_FREE s < n")
    case True
    then show ?thesis using r clear_log_ok[OF assms(1,2)] by (auto simp: log_room_def split: if_splits)
  next
    case False
    then show ?thesis using r assms(2) by (auto simp: log_room_def same_trace_def)
  qed
  then have fit: "log_fits s'" and len: "length (text s') < unat n" and free: "log_on s' \<Longrightarrow> lf = LOG_FREE s'"
    using assms(3) by auto
  have "log_fits (snd (run_state (LOG_STR (text s')) s'))" if "\<not> lf < n"
    by (rule LOG_STR_fits[OF fit]) (use that len free in \<open>auto simp: word_less_nat_alt\<close>)
  then show ?thesis using fit by (simp add: log_line_def r)
qed

lemma sint_le_unat: "sint w \<le> int (unat w)" for w :: u32
proof -
  have "sint w = take_bit 32 (uint w) - 2 ^ 32 * of_bool (bit (uint w) 31)"
    by (simp add: sint_uint signed_take_bit_eq_take_bit_minus)
  moreover have "take_bit 32 (uint w) = uint w" by (rule bit_eqI) (auto simp: bit_simps dest: bit_imp_le_length)
  ultimately show ?thesis by simp
qed

lemma LOG_STR_sint_fits:
  "log_fits s \<Longrightarrow> int (length t) < sint (LOG_FREE s) \<Longrightarrow> log_fits (snd (run_state (LOG_STR t) s))"
  by (rule LOG_STR_fits) (use sint_le_unat[of "LOG_FREE s"] in linarith)+

lemma x86emu_log_fits:
  assumes "flush_ok h" "log_fits s"
  shows "log_fits (snd (run_state (x86emu_log h t) s))"
proof (cases "log_on s")
  case on: True
  show ?thesis
  proof (cases "sint (LOG_FREE s) \<le> int (length t)")
    case True
    obtain lf s' where r: "run_state (x86emu_clear_log h True) s = (lf, s')" by force
    note ok = clear_log_ok[OF assms r]
    have "log_fits (snd (run_state (LOG_STR t) s'))" if "int (length t) < sint lf"
      using ok that LOG_STR_sint_fits[of s' t] by (auto split: if_splits)
    then show ?thesis using True on ok by (simp add: x86emu_log_def r Let_def)
  next
    case False
    then show ?thesis using on LOG_STR_sint_fits[OF assms(2), of t] by (simp add: x86emu_log_def Let_def)
  qed
qed (simp add: x86emu_log_def assms(2))

lemma length_decode_hex: "length (decode_hex v) \<le> 8"
  using decode_hex_nonzero[of v] by (cases "v = 0") (simp_all add: decode_hex_def)

lemma length_concat_const: "(\<And>x. x \<in> set xs \<Longrightarrow> length (f x) = k) \<Longrightarrow> length (concat (map f xs)) = k * length xs"
  by (induction xs) simp_all

lemma length_hex32 [simp]: "length (decode_hex32 r) = 32"
  unfolding decode_hex32_def by (subst length_concat_const[where k = 2]) simp_all

lemma length_code_text:
  assumes "unat (instr_len s) \<le> 32" "length (disasm_buf s) \<le> 255"
  shows "length (code_text s) < 512"
proof -
  let ?n = "unat (instr_len s)"
  have bytes: "length (concat (map (\<lambda>u. decode_hex2 (ucast (instr_buf s u))) [0..<?n])) = 2 * ?n"
    by (subst length_concat_const[where k = 2]) simp_all
  have pad: "length (concat (replicate (12 - ?n) ''  '')) = 2 * (12 - ?n)"
    by (simp add: length_concat sum_list_replicate)
  have "length (decode_hex (ucast (R_TSC s))) \<le> 8" "length (decode_hex (ucast (R_REAL_TSC s - R_LAST_REAL_TSC s))) \<le> 8"
    by (rule length_decode_hex)+
  moreover have "2 * ?n + 2 * (12 - ?n) \<le> 88" using assms(1) by arith
  ultimately show ?thesis using assms(2) unfolding code_text_def by (auto simp: bytes pad)
qed

definition flag_count :: "u32 \<Rightarrow> nat" where
  "flag_count f = length (filter (\<lambda>F. ACCESS_FLAG F f) [F_OF, F_DF, F_IF, F_SF, F_ZF, F_AF, F_PF, F_CF])"

lemma length_flags_text: "length (flags_text f) = 3 * flag_count f"
  by (simp add: flags_text_def flag_count_def)

lemma flag_count_le: "flag_count f \<le> 8"
  unfolding flag_count_def by (rule order_trans[OF length_filter_le]) simp

lemma length_regs_text:
  "length (regs_text s) = 194 + 3 * flag_count (R_FLG s) + (if crx s 4 AND CR4_OSFXSR \<noteq> 0 then 305 else 0)"
  by (simp add: regs_text_def xmm_text_def length_flags_text)

text \<open>
  C37. The log buffer is not overrun: the trace of an instruction, at most 32 bytes long
  and with a disassembly of at most 255 characters, the register dump of a processor
  without SSE enabled, and any text logged with \<open>x86emu_log\<close> stay, with the terminating
  zero, inside the buffer, whether they are written, written after a flush, or dropped.
\<close>

theorem log_trace_fits:
  assumes "flush_ok h" "log_fits s"
  shows "(unat (instr_len s) \<le> 32 \<and> length (disasm_buf s) \<le> 255 \<longrightarrow> log_fits (snd (run_state (log_code h) s))) \<and>
    (crx s 4 AND CR4_OSFXSR = 0 \<longrightarrow> log_fits (snd (run_state (log_regs h) s))) \<and>
    log_fits (snd (run_state (x86emu_log h t) s))"
proof (intro conjI impI)
  assume "unat (instr_len s) \<le> 32 \<and> length (disasm_buf s) \<le> 255"
  then have "log_fits (snd (run_state (log_line h 512 code_text) s))"
    by (intro log_line_fits[OF assms]) (simp add: same_trace_def length_code_text)
  then show "log_fits (snd (run_state (log_code h) s))" using assms(2) by (simp add: log_code_def)
next
  assume "crx s 4 AND CR4_OSFXSR = 0"
  moreover have "3 * flag_count f < 318" for f using flag_count_le[of f] by simp
  ultimately have "log_fits (snd (run_state (log_line h 512 regs_text) s))"
    by (intro log_line_fits[OF assms]) (simp add: same_trace_def length_regs_text)
  then show "log_fits (snd (run_state (log_regs h) s))" using assms(2) by (simp add: log_regs_def)
next
  show "log_fits (snd (run_state (x86emu_log h t) s))" by (rule x86emu_log_fits[OF assms])
qed

definition log_example :: "u32 \<Rightarrow> x86emu" where
  "log_example n = snd (run_state (x86emu_set_log n None) (x86emu_new idle_host (\<lambda>_. 0) 0 0))"

lemma flush_ok_idle: "flush_ok idle_host"
  by (simp add: flush_ok_def idle_host_def)

lemma log_fits_example: "n \<noteq> 0 \<Longrightarrow> log_fits (log_example n)"
  by (simp add: log_example_def x86emu_set_log_def log_fits_def unat_gt_0)

lemma log_trace_fits_witness: "log_fits (snd (run_state (x86emu_log idle_host ''text'') (log_example 1024)))"
  using log_trace_fits[OF flush_ok_idle log_fits_example[of 1024], of "''text''"] by simp

text \<open>
  C40. With SSE enabled and at least five flags set the register dump does not fit into
  the 512 characters the code makes sure of: with exactly that much room in the buffer
  it writes past its end.
\<close>

theorem log_regs_overflow:
  assumes "log_text s = Some t" "length t + 512 = unat (log_size s)"
    and "log_trace s AND X86EMU_TRACE_REGS \<noteq> 0" "crx s 4 AND CR4_OSFXSR \<noteq> 0" "5 \<le> flag_count (R_FLG s)"
  shows "log_fits s \<and> \<not> log_fits (snd (run_state (log_regs h) s))"
proof -
  have fits: "log_fits s" using assms(1,2) by (simp add: log_fits_def)
  have "unat (LOG_FREE s) = 512" using unat_LOG_FREE[OF fits assms(1)] assms(2) by simp
  then have "\<not> LOG_FREE s < 512" by (simp add: word_less_nat_alt)
  then have "snd (run_state (log_regs h) s) = snd (run_state (LOG_STR (regs_text s)) s)"
    using assms(1,3) by (simp add: log_regs_def log_line_def log_room_def log_on_def)
  moreover have "512 \<le> length (regs_text s)" using assms(4,5) by (simp add: length_regs_text)
  ultimately show ?thesis using assms(1,2) fits by (simp add: LOG_STR_def log_fits_def)
qed

lemma log_regs_overflow_witness:
  "\<not> log_fits (snd (run_state (log_regs idle_host)
     ((log_example 512)\<lparr>R_FLG := 0x2d5, log_trace := 1, crx := (\<lambda>_. 0x200)\<rparr>)))"
proof -
  have "5 \<le> flag_count 0x2d5" by code_simp
  moreover have "log_text (log_example 512) = Some []" "log_size (log_example 512) = 512"
    by (simp_all add: log_example_def x86emu_set_log_def)
  ultimately show ?thesis
    using log_regs_overflow[of "(log_example 512)\<lparr>R_FLG := 0x2d5, log_trace := 1, crx := (\<lambda>_. 0x200)\<rparr>" "[]" idle_host]
    by simp
qed

section \<open>Logging respects a discipline\<close>

context discipline
begin

lemma emu_ok_LOG_STR [emu_oks]: "emu_ok (LOG_STR t)"
  unfolding LOG_STR_def by (rule emu_ok_modify) (simp add: kept_def control_def handlers_def)

lemma emu_ok_flush_log: "emu_ok (modify (flush_log h))"
  by (rule emu_ok_kept) (auto simp: flush_log_def sandboxed_def split: option.split)

lemma emu_ok_clear_log [emu_oks]: "emu_ok (x86emu_clear_log h b)"
  unfolding x86emu_clear_log_def
  by (intro emu_oks emu_ok_flush_log emu_ok_modify) (simp add: kept_def control_def handlers_def)

lemma emu_ok_log_room [emu_oks]: "emu_ok (log_room h n)"
  unfolding log_room_def by (intro emu_oks)

lemma emu_ok_log_line [emu_oks]: "emu_ok (log_line h n t)"
  unfolding log_line_def by (intro emu_oks)

lemma emu_ok_x86emu_log [emu_oks]: "emu_ok (x86emu_log h t)"
  unfolding x86emu_log_def by (intro emu_oks)

lemma emu_ok_log_code [emu_oks]: "emu_ok (log_code h)"
  unfolding log_code_def by (intro emu_oks)

lemma emu_ok_log_regs [emu_oks]: "emu_ok (log_regs h)"
  unfolding log_regs_def by (intro emu_oks)

end

end
