(* ===== verification/Access.thy ===== *)
theory Access
  imports Log
begin

text \<open>
  How an instruction reaches its bytes, its data and the ports (\<^verbatim>\<open>decode.c\<close>): the
  traced calls of the memory handler, instruction fetch, segment limits and the accesses
  through a segment register, and the raising of interrupts.
\<close>

section \<open>Stopping and raising interrupts\<close>

abbreviation (input) INTR_TYPE_SOFT :: u32 where "INTR_TYPE_SOFT \<equiv> 1"
abbreviation (input) INTR_TYPE_FAULT :: u32 where "INTR_TYPE_FAULT \<equiv> 2"
abbreviation (input) INTR_MODE_RESTART :: u32 where "INTR_MODE_RESTART \<equiv> 0x100"
abbreviation (input) INTR_MODE_ERRCODE :: u32 where "INTR_MODE_ERRCODE \<equiv> 0x200"

definition x86emu_stop :: "unit emu" where
  "x86emu_stop = modify (\<lambda>s. s\<lparr>mode := mode s OR MODE_HALTED_flag\<rparr>)"

definition x86emu_intr_raise :: "u8 \<Rightarrow> u32 \<Rightarrow> u32 \<Rightarrow> unit emu" where
  "x86emu_intr_raise nr type err = modify (\<lambda>s.
     if intr_type s = 0 then s\<lparr>intr_nr := nr, intr_type := type, intr_errcode := err\<rparr> else s)"

definition INTR_RAISE_DIV0 :: "unit emu" where
  "INTR_RAISE_DIV0 = x86emu_intr_raise 0 (INTR_TYPE_SOFT OR INTR_MODE_RESTART) 0"

definition INTR_RAISE_SOFT :: "u8 \<Rightarrow> unit emu" where
  "INTR_RAISE_SOFT n = x86emu_intr_raise n INTR_TYPE_SOFT 0"

definition INTR_RAISE_GP :: "u32 \<Rightarrow> unit emu" where
  "INTR_RAISE_GP err = x86emu_intr_raise 0x0d (INTR_TYPE_FAULT OR INTR_MODE_RESTART OR INTR_MODE_ERRCODE) err"

definition INTR_RAISE_UD :: "unit emu" where
  "INTR_RAISE_UD = x86emu_intr_raise 0x06 (INTR_TYPE_FAULT OR INTR_MODE_RESTART) 0"

section \<open>Traced accesses\<close>

definition memio_traced :: "x86emu \<Rightarrow> u32 \<Rightarrow> bool" where
  "memio_traced s type \<longleftrightarrow> log_on s \<and>
     (log_trace s AND X86EMU_TRACE_IO \<noteq> 0 \<and> (type = X86EMU_MEMIO_I \<or> type = X86EMU_MEMIO_O) \<or>
      log_trace s AND X86EMU_TRACE_DATA \<noteq> 0 \<and> (type = X86EMU_MEMIO_R \<or> type = X86EMU_MEMIO_W \<or> type = X86EMU_MEMIO_X))"

definition memio_text :: "u32 \<Rightarrow> u32 \<Rightarrow> u32 \<Rightarrow> u32 \<Rightarrow> u32 \<Rightarrow> string" where
  "memio_text err addr val type bits =
     (if type = X86EMU_MEMIO_R then ''r ['' else if type = X86EMU_MEMIO_W then ''w [''
      else if type = X86EMU_MEMIO_X then ''x ['' else if type = X86EMU_MEMIO_I then ''i [''
      else if type = X86EMU_MEMIO_O then ''o ['' else []) @
     decode_hex8 addr @ ''] = '' @
     (if bits = X86EMU_MEMIO_8 then if err \<noteq> 0 then ''??'' else decode_hex2 val
      else if bits = X86EMU_MEMIO_16 then if err \<noteq> 0 then ''????'' else decode_hex4 val
      else if bits = X86EMU_MEMIO_32 then if err \<noteq> 0 then ''????????'' else decode_hex8 val
      else []) @ [CHR 0x0A]"

text \<open>
  The two functions have the same body in the C code. They return the handler's error
  and the value read; a read gets a variable without a value, which is 0 here.
\<close>

definition decode_memio :: "host \<Rightarrow> u32 \<Rightarrow> u32 \<Rightarrow> u32 \<Rightarrow> (u32 \<times> u32) emu" where
  "decode_memio h addr val type = do {
     (err, val) \<leftarrow> State (\<lambda>s. let (err, val, s) = call_memio h s addr val type in ((err, val), s));
     s \<leftarrow> gets id;
     if_then (memio_traced s (type AND NOT 0xff))
       (log_line h 1024 (\<lambda>_. memio_text err addr val (type AND NOT 0xff) (type AND 0xff)));
     return (err, val)
   }"

definition emu_memio :: "host \<Rightarrow> u32 \<Rightarrow> u32 \<Rightarrow> u32 \<Rightarrow> (u32 \<times> u32) emu" where
  "emu_memio h addr val type = do {
     (err, val) \<leftarrow> State (\<lambda>s. let (err, val, s) = call_memio h s addr val type in ((err, val), s));
     s \<leftarrow> gets id;
     if_then (memio_traced s (type AND NOT 0xff))
       (log_line h 1024 (\<lambda>_. memio_text err addr val (type AND NOT 0xff) (type AND 0xff)));
     return (err, val)
   }"

section \<open>Instruction fetch\<close>

definition advance_ip :: "u32 \<Rightarrow> x86emu \<Rightarrow> x86emu" where
  "advance_ip n s = (if MODE_CODE32 s then s\<lparr>R_EIP := R_EIP s + n\<rparr>
     else s\<lparr>R_EIP := set_lo16 (R_IP s + ucast n) (R_EIP s)\<rparr>)"

text \<open>\<^verbatim>\<open>instr_buf[instr_len++] = val\<close>\<close>

definition put_instr :: "u8 \<Rightarrow> x86emu \<Rightarrow> x86emu" where
  "put_instr val s = s\<lparr>instr_buf := (instr_buf s)(unat (instr_len s) := val), instr_len := instr_len s + 1\<rparr>"

definition fetch_byte :: "host \<Rightarrow> u8 emu" where
  "fetch_byte h = do {
     s \<leftarrow> gets id;
     (err, val) \<leftarrow> decode_memio h (sel_base (seg s R_CS_INDEX) + R_EIP s) 0 (X86EMU_MEMIO_8 + X86EMU_MEMIO_X);
     if_then (err \<noteq> 0) x86emu_stop;
     modify (advance_ip 1);
     modify (\<lambda>s. if instr_len s < 32 then put_instr (ucast val) s else s);
     return (ucast val)
   }"

definition fetch_word :: "host \<Rightarrow> u16 emu" where
  "fetch_word h = do {
     s \<leftarrow> gets id;
     (err, val) \<leftarrow> decode_memio h (sel_base (seg s R_CS_INDEX) + R_EIP s) 0 (X86EMU_MEMIO_16 + X86EMU_MEMIO_X);
     if_then (err \<noteq> 0) x86emu_stop;
     modify (advance_ip 2);
     modify (\<lambda>s. if instr_len s + 1 < 32 then put_instr (ucast (drop_bit 8 val)) (put_instr (ucast val) s) else s);
     return (ucast val)
   }"

definition fetch_long :: "host \<Rightarrow> u32 emu" where
  "fetch_long h = do {
     s \<leftarrow> gets id;
     (err, val) \<leftarrow> decode_memio h (sel_base (seg s R_CS_INDEX) + R_EIP s) 0 (X86EMU_MEMIO_32 + X86EMU_MEMIO_X);
     if_then (err \<noteq> 0) x86emu_stop;
     modify (advance_ip 4);
     modify (\<lambda>s. if instr_len s + 3 < 32 then
       put_instr (ucast (drop_bit 24 val)) (put_instr (ucast (drop_bit 16 val))
         (put_instr (ucast (drop_bit 8 val)) (put_instr (ucast val) s))) else s);
     return val
   }"

definition fetch_decode_modrm :: "host \<Rightarrow> (nat \<times> nat \<times> nat) emu" where
  "fetch_decode_modrm h = do {
     fetched \<leftarrow> fetch_byte h;
     return (unat (drop_bit 6 fetched AND 3), unat (drop_bit 3 fetched AND 7), unat (fetched AND 7))
   }"

section \<open>Data through a segment\<close>

definition access_text :: "nat \<Rightarrow> u32 \<Rightarrow> u32 \<Rightarrow> string" where
  "access_text idx ofs n =
     ''a ['' @ (if n = 1 then ''byte '' else if n = 2 then ''word '' else if n = 4 then ''dword '' else []) @
     [''ecsdfg?'' ! (if idx > 6 then 6 else idx)] @ ''s:'' @ decode_hex8 ofs @ '']'' @ [CHR 0x0A]"

definition check_data_access :: "host \<Rightarrow> nat \<Rightarrow> u32 \<Rightarrow> u32 \<Rightarrow> unit emu" where
  "check_data_access h sg ofs n = do {
     s \<leftarrow> gets id;
     if_then (log_trace s AND X86EMU_TRACE_ACC \<noteq> 0 \<and> log_on s) (log_line h 512 (\<lambda>_. access_text sg ofs n));
     s \<leftarrow> gets id;
     if_then (ofs + n - 1 > sel_limit (seg s sg)) (INTR_RAISE_GP (ucast (sel_sel (seg s sg))))
   }"

definition get_data_segment :: "x86emu \<Rightarrow> nat" where
  "get_data_segment s = (case default_seg s of Some sg \<Rightarrow> sg
     | None \<Rightarrow> if mode s AND MODE_SEG_DS_SS_flag \<noteq> 0 then R_SS_INDEX else R_DS_INDEX)"

definition fetch_data_byte_abs :: "host \<Rightarrow> nat \<Rightarrow> u32 \<Rightarrow> u8 emu" where
  "fetch_data_byte_abs h sg ofs = do {
     check_data_access h sg ofs 1;
     s \<leftarrow> gets id;
     (err, val) \<leftarrow> decode_memio h (sel_base (seg s sg) + ofs) 0 (X86EMU_MEMIO_8 + X86EMU_MEMIO_R);
     return (ucast val)
   }"

definition fetch_data_word_abs :: "host \<Rightarrow> nat \<Rightarrow> u32 \<Rightarrow> u16 emu" where
  "fetch_data_word_abs h sg ofs = do {
     check_data_access h sg ofs 2;
     s \<leftarrow> gets id;
     (err, val) \<leftarrow> decode_memio h (sel_base (seg s sg) + ofs) 0 (X86EMU_MEMIO_16 + X86EMU_MEMIO_R);
     return (ucast val)
   }"

definition fetch_data_long_abs :: "host \<Rightarrow> nat \<Rightarrow> u32 \<Rightarrow> u32 emu" where
  "fetch_data_long_abs h sg ofs = do {
     check_data_access h sg ofs 4;
     s \<leftarrow> gets id;
     (err, val) \<leftarrow> decode_memio h (sel_base (seg s sg) + ofs) 0 (X86EMU_MEMIO_32 + X86EMU_MEMIO_R);
     return val
   }"

definition store_data_byte_abs :: "host \<Rightarrow> nat \<Rightarrow> u32 \<Rightarrow> u8 \<Rightarrow> unit emu" where
  "store_data_byte_abs h sg ofs val = do {
     check_data_access h sg ofs 1;
     s \<leftarrow> gets id;
     decode_memio h (sel_base (seg s sg) + ofs) (ucast val) (X86EMU_MEMIO_8 + X86EMU_MEMIO_W);
     skip
   }"

definition store_data_word_abs :: "host \<Rightarrow> nat \<Rightarrow> u32 \<Rightarrow> u16 \<Rightarrow> unit emu" where
  "store_data_word_abs h sg ofs val = do {
     check_data_access h sg ofs 2;
     s \<leftarrow> gets id;
     decode_memio h (sel_base (seg s sg) + ofs) (ucast val) (X86EMU_MEMIO_16 + X86EMU_MEMIO_W);
     skip
   }"

definition store_data_long_abs :: "host \<Rightarrow> nat \<Rightarrow> u32 \<Rightarrow> u32 \<Rightarrow> unit emu" where
  "store_data_long_abs h sg ofs val = do {
     check_data_access h sg ofs 4;
     s \<leftarrow> gets id;
     decode_memio h (sel_base (seg s sg) + ofs) val (X86EMU_MEMIO_32 + X86EMU_MEMIO_W);
     skip
   }"

definition fetch_data_byte :: "host \<Rightarrow> u32 \<Rightarrow> u8 emu" where
  "fetch_data_byte h ofs = do { sg \<leftarrow> gets get_data_segment; fetch_data_byte_abs h sg ofs }"

definition fetch_data_word :: "host \<Rightarrow> u32 \<Rightarrow> u16 emu" where
  "fetch_data_word h ofs = do { sg \<leftarrow> gets get_data_segment; fetch_data_word_abs h sg ofs }"

definition fetch_data_long :: "host \<Rightarrow> u32 \<Rightarrow> u32 emu" where
  "fetch_data_long h ofs = do { sg \<leftarrow> gets get_data_segment; fetch_data_long_abs h sg ofs }"

definition store_data_byte :: "host \<Rightarrow> u32 \<Rightarrow> u8 \<Rightarrow> unit emu" where
  "store_data_byte h ofs val = do { sg \<leftarrow> gets get_data_segment; store_data_byte_abs h sg ofs val }"

definition store_data_word :: "host \<Rightarrow> u32 \<Rightarrow> u16 \<Rightarrow> unit emu" where
  "store_data_word h ofs val = do { sg \<leftarrow> gets get_data_segment; store_data_word_abs h sg ofs val }"

definition store_data_long :: "host \<Rightarrow> u32 \<Rightarrow> u32 \<Rightarrow> unit emu" where
  "store_data_long h ofs val = do { sg \<leftarrow> gets get_data_segment; store_data_long_abs h sg ofs val }"

text \<open>The 16 bytes of an SSE register.\<close>

primrec fetch_qlong_bytes :: "host \<Rightarrow> u32 \<Rightarrow> nat \<Rightarrow> nat \<Rightarrow> (nat \<Rightarrow> u8) \<Rightarrow> (nat \<Rightarrow> u8) emu" where
  "fetch_qlong_bytes h ofs i 0 ret = return ret"
| "fetch_qlong_bytes h ofs i (Suc n) ret = do {
     b \<leftarrow> fetch_data_byte h (ofs + of_nat i);
     fetch_qlong_bytes h ofs (Suc i) n (ret(i := b))
   }"

definition fetch_data_qlong :: "host \<Rightarrow> u32 \<Rightarrow> (nat \<Rightarrow> u8) emu" where
  "fetch_data_qlong h ofs = fetch_qlong_bytes h ofs 0 16 (\<lambda>_. 0)"

definition store_data_qlong :: "host \<Rightarrow> u32 \<Rightarrow> (nat \<Rightarrow> u8) \<Rightarrow> unit emu" where
  "store_data_qlong h ofs val = for_each [0..<16] (\<lambda>i. do {
     sg \<leftarrow> gets get_data_segment;
     store_data_word_abs h sg ofs (ucast (val i))
   })"

section \<open>Ports\<close>

definition fetch_io_byte :: "host \<Rightarrow> u32 \<Rightarrow> u8 emu" where
  "fetch_io_byte h port = do {
     (err, val) \<leftarrow> decode_memio h port 0 (X86EMU_MEMIO_8 + X86EMU_MEMIO_I);
     return (ucast val)
   }"

definition fetch_io_word :: "host \<Rightarrow> u32 \<Rightarrow> u16 emu" where
  "fetch_io_word h port = do {
     (err, val) \<leftarrow> decode_memio h port 0 (X86EMU_MEMIO_16 + X86EMU_MEMIO_I);
     return (ucast val)
   }"

definition fetch_io_long :: "host \<Rightarrow> u32 \<Rightarrow> u32 emu" where
  "fetch_io_long h port = do {
     (err, val) \<leftarrow> decode_memio h port 0 (X86EMU_MEMIO_32 + X86EMU_MEMIO_I);
     return val
   }"

definition store_io_byte :: "host \<Rightarrow> u32 \<Rightarrow> u8 \<Rightarrow> unit emu" where
  "store_io_byte h port val = do { decode_memio h port (ucast val) (X86EMU_MEMIO_8 + X86EMU_MEMIO_O); skip }"

definition store_io_word :: "host \<Rightarrow> u32 \<Rightarrow> u16 \<Rightarrow> unit emu" where
  "store_io_word h port val = do { decode_memio h port (ucast val) (X86EMU_MEMIO_16 + X86EMU_MEMIO_O); skip }"

definition store_io_long :: "host \<Rightarrow> u32 \<Rightarrow> u32 \<Rightarrow> unit emu" where
  "store_io_long h port val = do { decode_memio h port val (X86EMU_MEMIO_32 + X86EMU_MEMIO_O); skip }"

section \<open>The accesses respect a discipline\<close>

lemma put_instr1: "put_instr v s = s\<lparr>instr_buf := (instr_buf s)(unat (instr_len s) := v), instr_len := instr_len s + 1\<rparr>"
  by (simp add: put_instr_def)

lemma put_instr2:
  "put_instr w (put_instr v s) =
    s\<lparr>instr_buf := (instr_buf s)(unat (instr_len s) := v, unat (instr_len s + 1) := w), instr_len := instr_len s + 2\<rparr>"
  by (simp add: put_instr_def)

lemma put_instr4:
  "put_instr y (put_instr x (put_instr w (put_instr v s))) =
    s\<lparr>instr_buf := (instr_buf s)(unat (instr_len s) := v, unat (instr_len s + 1) := w,
       unat (instr_len s + 2) := x, unat (instr_len s + 3) := y), instr_len := instr_len s + 4\<rparr>"
  by (simp add: put_instr_def add.commute)

lemma instr_room:
  "n < 32 \<Longrightarrow> n + 1 \<le> 32" "n \<le> 32 \<Longrightarrow> n + 1 < 32 \<Longrightarrow> n + 2 \<le> 32" "n \<le> 32 \<Longrightarrow> n + 3 < 32 \<Longrightarrow> n + 4 \<le> 32" for n :: u32
  by unat_arith+

context discipline
begin

lemma emu_ok_raise [emu_oks]:
  "emu_ok (x86emu_intr_raise nr ty e)" "emu_ok INTR_RAISE_DIV0" "emu_ok (INTR_RAISE_SOFT nr)" "emu_ok (INTR_RAISE_GP e)" "emu_ok INTR_RAISE_UD"
proof -
  show raise: "emu_ok (x86emu_intr_raise nr ty e)" for nr ty e
    unfolding x86emu_intr_raise_def by (rule emu_ok_step) (simp add: R_raise R_kept handlers_def)
  show "emu_ok INTR_RAISE_DIV0" "emu_ok (INTR_RAISE_SOFT nr)" "emu_ok (INTR_RAISE_GP e)" "emu_ok INTR_RAISE_UD"
    unfolding INTR_RAISE_DIV0_def INTR_RAISE_SOFT_def INTR_RAISE_GP_def INTR_RAISE_UD_def by (rule raise)+
qed

lemma emu_ok_ip [emu_oks]: "emu_ok x86emu_stop" "emu_ok (modify (advance_ip n))"
  unfolding x86emu_stop_def by (rule emu_ok_modify, simp add: kept_def control_def handlers_def advance_ip_def)+

lemma emu_ok_decode_memio: "type \<noteq> 0x103 \<Longrightarrow> emu_ok (decode_memio h addr val type)"
  unfolding decode_memio_def by (intro emu_oks emu_ok_memio)

lemma emu_ok_emu_memio: "type \<noteq> 0x103 \<Longrightarrow> emu_ok (emu_memio h addr val type)"
  unfolding emu_memio_def by (intro emu_oks emu_ok_memio)

lemma emu_ok_instr:
  assumes "\<And>s. instr_len s \<le> 32 \<Longrightarrow> b s \<Longrightarrow> n s \<le> 32"
  shows "emu_ok (modify (\<lambda>s. if b s then s\<lparr>instr_buf := bs s, instr_len := n s\<rparr> else s))"
proof (rule emu_ok_step)
  fix s
  show "handlers (snd (run_state (modify (\<lambda>s. if b s then s\<lparr>instr_buf := bs s, instr_len := n s\<rparr> else s)) s)) = handlers s \<and>
    R s (snd (run_state (modify (\<lambda>s. if b s then s\<lparr>instr_buf := bs s, instr_len := n s\<rparr> else s)) s))"
    using assms[of s] R_instr[of s "n s"] R_kept[OF refl, of s] by (auto simp: handlers_def)
qed

lemma emu_ok_put_instr:
  "emu_ok (modify (\<lambda>s. if instr_len s < 32 then put_instr v s else s))"
  "emu_ok (modify (\<lambda>s. if instr_len s + 1 < 32 then put_instr w (put_instr v s) else s))"
  "emu_ok (modify (\<lambda>s. if instr_len s + 3 < 32 then put_instr y (put_instr x (put_instr w (put_instr v s))) else s))"
proof -
  show "emu_ok (modify (\<lambda>s. if instr_len s < 32 then put_instr v s else s))"
    unfolding put_instr1 by (rule emu_ok_instr) (simp add: instr_room)
  show "emu_ok (modify (\<lambda>s. if instr_len s + 1 < 32 then put_instr w (put_instr v s) else s))"
    unfolding put_instr2 by (rule emu_ok_instr) (simp add: instr_room)
  show "emu_ok (modify (\<lambda>s. if instr_len s + 3 < 32 then put_instr y (put_instr x (put_instr w (put_instr v s))) else s))"
    unfolding put_instr4 by (rule emu_ok_instr) (simp add: instr_room)
qed

lemma emu_ok_fetch [emu_oks]: "emu_ok (fetch_byte h)" "emu_ok (fetch_word h)" "emu_ok (fetch_long h)"
  unfolding fetch_byte_def fetch_word_def fetch_long_def
  by (intro emu_oks emu_ok_decode_memio emu_ok_put_instr; simp)+

lemma emu_ok_modrm [emu_oks]: "emu_ok (fetch_decode_modrm h)"
  unfolding fetch_decode_modrm_def by (intro emu_oks)

lemma emu_ok_check_data_access [emu_oks]: "emu_ok (check_data_access h sg ofs n)"
  unfolding check_data_access_def by (intro emu_oks)

lemma emu_ok_data_abs [emu_oks]:
  "emu_ok (fetch_data_byte_abs h sg ofs)" "emu_ok (fetch_data_word_abs h sg ofs)" "emu_ok (fetch_data_long_abs h sg ofs)"
  "emu_ok (store_data_byte_abs h sg ofs b)" "emu_ok (store_data_word_abs h sg ofs w)" "emu_ok (store_data_long_abs h sg ofs l)"
  unfolding fetch_data_byte_abs_def fetch_data_word_abs_def fetch_data_long_abs_def
    store_data_byte_abs_def store_data_word_abs_def store_data_long_abs_def
  by (intro emu_oks emu_ok_decode_memio; simp)+

lemma emu_ok_data [emu_oks]:
  "emu_ok (fetch_data_byte h ofs)" "emu_ok (fetch_data_word h ofs)" "emu_ok (fetch_data_long h ofs)"
  "emu_ok (store_data_byte h ofs b)" "emu_ok (store_data_word h ofs w)" "emu_ok (store_data_long h ofs l)"
  unfolding fetch_data_byte_def fetch_data_word_def fetch_data_long_def store_data_byte_def store_data_word_def store_data_long_def
  by (intro emu_oks)+

lemma emu_ok_fetch_qlong [emu_oks]: "emu_ok (fetch_qlong_bytes h ofs i n r)"
  by (induction n arbitrary: i r) (auto intro!: emu_oks)

lemma emu_ok_qlong [emu_oks]: "emu_ok (fetch_data_qlong h ofs)" "emu_ok (store_data_qlong h ofs v)"
  unfolding fetch_data_qlong_def store_data_qlong_def by (intro emu_oks)+

lemma emu_ok_io [emu_oks]:
  "emu_ok (fetch_io_byte h p)" "emu_ok (fetch_io_word h p)" "emu_ok (fetch_io_long h p)"
  "emu_ok (store_io_byte h p b)" "emu_ok (store_io_word h p w)" "emu_ok (store_io_long h p l)"
  unfolding fetch_io_byte_def fetch_io_word_def fetch_io_long_def store_io_byte_def store_io_word_def store_io_long_def
  by (intro emu_oks emu_ok_decode_memio; simp)+

end

end
