(* ===== verification/Modrm.thy ===== *)
theory Modrm
  imports Access
begin

text \<open>
  The operands of an instruction (\<^verbatim>\<open>decode.c\<close>): the register or the memory address a
  mod r/m byte names, and the text it adds to the disassembly.

  The C functions return a pointer to the register. Here it is the register's number in
  the encoding, from 0 to 7, and \<open>get8\<close>, \<open>set8\<close> and their siblings read and write
  through it; the fields of the mod r/m byte have three bits, so no other number occurs
  (the C functions return a null pointer for one).
\<close>

section \<open>The text of the disassembly\<close>

definition OP_DECODE :: "string \<Rightarrow> unit emu" where
  "OP_DECODE a = modify (\<lambda>s. s\<lparr>disasm_buf := disasm_buf s @ a\<rparr>)"

definition SEGPREF_DECODE :: "unit emu" where
  "SEGPREF_DECODE = modify (\<lambda>s. s\<lparr>disasm_buf := disasm_buf s @
     take (if default_seg s = None then 1 else 4) (decode_seg s)\<rparr>)"

section \<open>Registers\<close>

definition get32 :: "nat \<Rightarrow> x86emu \<Rightarrow> u32" where
  "get32 r s = (if r = 0 then R_EAX s else if r = 1 then R_ECX s else if r = 2 then R_EDX s
     else if r = 3 then R_EBX s else if r = 4 then R_ESP s else if r = 5 then R_EBP s
     else if r = 6 then R_ESI s else R_EDI s)"

definition set32 :: "nat \<Rightarrow> u32 \<Rightarrow> x86emu \<Rightarrow> x86emu" where
  "set32 r v s = (if r = 0 then s\<lparr>R_EAX := v\<rparr> else if r = 1 then s\<lparr>R_ECX := v\<rparr> else if r = 2 then s\<lparr>R_EDX := v\<rparr>
     else if r = 3 then s\<lparr>R_EBX := v\<rparr> else if r = 4 then s\<lparr>R_ESP := v\<rparr> else if r = 5 then s\<lparr>R_EBP := v\<rparr>
     else if r = 6 then s\<lparr>R_ESI := v\<rparr> else s\<lparr>R_EDI := v\<rparr>)"

definition get16 :: "nat \<Rightarrow> x86emu \<Rightarrow> u16" where
  "get16 r s = lo16 (get32 r s)"

definition set16 :: "nat \<Rightarrow> u16 \<Rightarrow> x86emu \<Rightarrow> x86emu" where
  "set16 r v s = set32 r (set_lo16 v (get32 r s)) s"

definition get8 :: "nat \<Rightarrow> x86emu \<Rightarrow> u8" where
  "get8 r s = (if r < 4 then lo8 (get32 r s) else hi8 (get32 (r - 4) s))"

definition set8 :: "nat \<Rightarrow> u8 \<Rightarrow> x86emu \<Rightarrow> x86emu" where
  "set8 r v s = (if r < 4 then set32 r (set_lo8 v (get32 r s)) s
     else set32 (r - 4) (set_hi8 v (get32 (r - 4) s)) s)"

definition reg8_name :: "nat \<Rightarrow> string" where
  "reg8_name r = [''al'', ''cl'', ''dl'', ''bl'', ''ah'', ''ch'', ''dh'', ''bh''] ! r"

definition reg16_name :: "nat \<Rightarrow> string" where
  "reg16_name r = [''ax'', ''cx'', ''dx'', ''bx'', ''sp'', ''bp'', ''si'', ''di''] ! r"

definition reg32_name :: "nat \<Rightarrow> string" where
  "reg32_name r = [''eax'', ''ecx'', ''edx'', ''ebx'', ''esp'', ''ebp'', ''esi'', ''edi''] ! r"

definition sse_name :: "nat \<Rightarrow> string" where
  "sse_name r = [''xmm0'', ''xmm1'', ''xmm2'', ''xmm3'', ''xmm4'', ''xmm5'', ''xmm6'', ''xmm7''] ! r"

definition seg_reg_name :: "nat \<Rightarrow> string" where
  "seg_reg_name r = [''es'', ''cs'', ''ss'', ''ds'', ''fs'', ''gs''] ! r"

definition decode_rm_byte_register :: "nat \<Rightarrow> nat emu" where
  "decode_rm_byte_register reg = do { OP_DECODE (reg8_name reg); return reg }"

definition decode_rm_word_register :: "nat \<Rightarrow> nat emu" where
  "decode_rm_word_register reg = do { OP_DECODE (reg16_name reg); return reg }"

definition decode_rm_long_register :: "nat \<Rightarrow> nat emu" where
  "decode_rm_long_register reg = do { OP_DECODE (reg32_name reg); return reg }"

definition decode_rm_sse_register :: "nat \<Rightarrow> nat emu" where
  "decode_rm_sse_register reg = do { OP_DECODE (sse_name reg); return reg }"

definition decode_rm_seg_register :: "nat \<Rightarrow> nat emu" where
  "decode_rm_seg_register reg =
     (if reg < 6 then do { OP_DECODE (seg_reg_name reg); return reg }
      else do { INTR_RAISE_UD; return R_NOSEG_INDEX })"

section \<open>Addresses\<close>

definition use_stack_segment :: "unit emu" where
  "use_stack_segment = modify (\<lambda>s. s\<lparr>mode := mode s OR MODE_SEG_DS_SS_flag\<rparr>)"

text \<open>The registers of the 16 bit address forms, and their names.\<close>

definition base16 :: "nat \<Rightarrow> x86emu \<Rightarrow> u32" where
  "base16 rm s =
     (if rm = 0 then ucast (R_BX s) + ucast (R_SI s) else if rm = 1 then ucast (R_BX s) + ucast (R_DI s)
      else if rm = 2 then ucast (R_BP s) + ucast (R_SI s) else if rm = 3 then ucast (R_BP s) + ucast (R_DI s)
      else if rm = 4 then ucast (R_SI s) else if rm = 5 then ucast (R_DI s)
      else if rm = 6 then ucast (R_BP s) else ucast (R_BX s))"

definition base16_name :: "nat \<Rightarrow> string" where
  "base16_name rm = [''bx+si'', ''bx+di'', ''bp+si'', ''bp+di'', ''si'', ''di'', ''bp'', ''bx''] ! rm"

definition decode_sib_address :: "host \<Rightarrow> nat \<Rightarrow> nat \<Rightarrow> u32 emu" where
  "decode_sib_address h sib md = do {
     let b = sib mod 8;
     let x = sib div 8 mod 8;
     let scale = sib div 64 mod 4;
     SEGPREF_DECODE;
     base \<leftarrow>
       (if b = 5 \<and> md = 0 then do {
          base \<leftarrow> fetch_long h;
          OP_DECODE (decode_hex8 base);
          return base
        } else do {
          OP_DECODE (reg32_name b);
          base \<leftarrow> gets (get32 b);
          if_then (b = 4 \<or> b = 5) use_stack_segment;
          return base
        });
     i \<leftarrow>
       (if x = 4 then return 0 else do {
          OP_DECODE (CHR ''+'' # reg32_name x);
          gets (get32 x)
        });
     if_then (x \<noteq> 4 \<and> scale \<noteq> 0) (OP_DECODE [CHR ''*'', char_of (48 + 2 ^ scale :: nat)]);
     return (base + push_bit scale i)
   }"

definition decode_rm00_address :: "host \<Rightarrow> nat \<Rightarrow> u32 emu" where
  "decode_rm00_address h rm = do {
     addr32 \<leftarrow> gets MODE_ADDR32;
     if addr32 then
       if rm = 4 then do {
         sib \<leftarrow> fetch_byte h;
         base \<leftarrow> decode_sib_address h (unat sib) 0;
         OP_DECODE '']'';
         return base
       }
       else if rm = 5 then do {
         offset \<leftarrow> fetch_long h;
         SEGPREF_DECODE;
         OP_DECODE (decode_hex8 offset);
         OP_DECODE '']'';
         return offset
       }
       else do {
         SEGPREF_DECODE;
         OP_DECODE (reg32_name rm @ '']'');
         gets (get32 rm)
       }
     else
       if rm = 6 then do {
         offset \<leftarrow> fetch_word h;
         SEGPREF_DECODE;
         OP_DECODE (decode_hex4 (ucast offset));
         OP_DECODE '']'';
         return (ucast offset)
       }
       else do {
         SEGPREF_DECODE;
         OP_DECODE (base16_name rm @ '']'');
         if_then (rm = 2 \<or> rm = 3) use_stack_segment;
         base \<leftarrow> gets (base16 rm);
         return (base AND 0xffff)
       }
   }"

definition decode_rm01_address :: "host \<Rightarrow> nat \<Rightarrow> u32 emu" where
  "decode_rm01_address h rm = do {
     addr32 \<leftarrow> gets MODE_ADDR32;
     if addr32 then
       if rm = 4 then do {
         sib \<leftarrow> fetch_byte h;
         base \<leftarrow> decode_sib_address h (unat sib) 1;
         disp \<leftarrow> fetch_byte h;
         let displacement = (scast disp :: u32);
         OP_DECODE (decode_hex2s displacement);
         OP_DECODE '']'';
         return (base + displacement)
       }
       else do {
         disp \<leftarrow> fetch_byte h;
         let displacement = (scast disp :: u32);
         SEGPREF_DECODE;
         OP_DECODE (reg32_name rm);
         OP_DECODE (decode_hex2s displacement);
         OP_DECODE '']'';
         if_then (rm = 5) use_stack_segment;
         base \<leftarrow> gets (get32 rm);
         return (base + displacement)
       }
     else do {
       disp \<leftarrow> fetch_byte h;
       let displacement = (scast disp :: u32);
       SEGPREF_DECODE;
       OP_DECODE (base16_name rm);
       OP_DECODE (decode_hex2s displacement);
       OP_DECODE '']'';
       if_then (rm = 2 \<or> rm = 3 \<or> rm = 6) use_stack_segment;
       base \<leftarrow> gets (base16 rm);
       return ((base + displacement) AND 0xffff)
     }
   }"

definition decode_rm10_address :: "host \<Rightarrow> nat \<Rightarrow> u32 emu" where
  "decode_rm10_address h rm = do {
     addr32 \<leftarrow> gets MODE_ADDR32;
     if addr32 then
       if rm = 4 then do {
         sib \<leftarrow> fetch_byte h;
         base \<leftarrow> decode_sib_address h (unat sib) 2;
         displacement \<leftarrow> fetch_long h;
         OP_DECODE (decode_hex8s displacement);
         OP_DECODE '']'';
         return (base + displacement)
       }
       else do {
         displacement \<leftarrow> fetch_long h;
         SEGPREF_DECODE;
         OP_DECODE (reg32_name rm);
         OP_DECODE (decode_hex8s displacement);
         OP_DECODE '']'';
         if_then (rm = 5) use_stack_segment;
         base \<leftarrow> gets (get32 rm);
         return (base + displacement)
       }
     else do {
       disp \<leftarrow> fetch_word h;
       let displacement = (scast disp :: u32);
       SEGPREF_DECODE;
       OP_DECODE (base16_name rm);
       OP_DECODE (decode_hex4s displacement);
       OP_DECODE '']'';
       if_then (rm = 2 \<or> rm = 3 \<or> rm = 6) use_stack_segment;
       base \<leftarrow> gets (base16 rm);
       return ((base + displacement) AND 0xffff)
     }
   }"

definition decode_rm_address :: "host \<Rightarrow> nat \<Rightarrow> nat \<Rightarrow> u32 emu" where
  "decode_rm_address h md rl =
     (if md = 0 then decode_rm00_address h rl
      else if md = 1 then decode_rm01_address h rl
      else if md = 2 then decode_rm10_address h rl
      else do { INTR_RAISE_UD; return 0 })"

section \<open>The operations respect a discipline\<close>

lemma kept_set32 [simp]: "kept (set32 r v s) = kept s"
  by (simp add: kept_def control_def handlers_def set32_def)

lemma kept_set [simp]: "kept (set16 r w s) = kept s" "kept (set8 r b s) = kept s"
  by (simp_all add: set16_def set8_def)

context discipline
begin

lemma emu_ok_text [emu_oks]: "emu_ok (OP_DECODE t)" "emu_ok SEGPREF_DECODE" "emu_ok use_stack_segment"
  unfolding OP_DECODE_def SEGPREF_DECODE_def use_stack_segment_def
  by (rule emu_ok_modify, simp add: kept_def control_def handlers_def)+

lemma emu_ok_rm_register [emu_oks]:
  "emu_ok (decode_rm_byte_register r)" "emu_ok (decode_rm_word_register r)" "emu_ok (decode_rm_long_register r)"
  "emu_ok (decode_rm_sse_register r)" "emu_ok (decode_rm_seg_register r)"
  unfolding decode_rm_byte_register_def decode_rm_word_register_def decode_rm_long_register_def
    decode_rm_sse_register_def decode_rm_seg_register_def
  by (intro emu_oks)+

lemma emu_ok_sib [emu_oks]: "emu_ok (decode_sib_address h sib m)"
  unfolding decode_sib_address_def by (intro emu_oks)

lemma emu_ok_rm_address [emu_oks]: "emu_ok (decode_rm_address h m r)"
  unfolding decode_rm_address_def decode_rm00_address_def decode_rm01_address_def decode_rm10_address_def
  by (intro emu_oks)

end

end
