(* ===== verification/Stack_Io.thy ===== *)
theory Stack_Io
  imports Modrm
begin

text \<open>
  The rest of \<^verbatim>\<open>prim_ops.c\<close>: stack, string input and output, and the condition
  codes.
\<close>

section \<open>The stack\<close>

definition push_word :: "host \<Rightarrow> u16 \<Rightarrow> unit emu" where
  "push_word h w = do {
     stack32 \<leftarrow> gets MODE_STACK32;
     if stack32 then do {
       modify (\<lambda>s. s\<lparr>R_ESP := R_ESP s - 2\<rparr>);
       esp \<leftarrow> gets R_ESP;
       store_data_word_abs h R_SS_INDEX esp w
     } else do {
       modify (\<lambda>s. s\<lparr>R_ESP := set_lo16 (R_SP s - 2) (R_ESP s)\<rparr>);
       sp \<leftarrow> gets R_SP;
       store_data_word_abs h R_SS_INDEX (ucast sp) w
     }
   }"

definition push_long :: "host \<Rightarrow> u32 \<Rightarrow> unit emu" where
  "push_long h w = do {
     stack32 \<leftarrow> gets MODE_STACK32;
     if stack32 then do {
       modify (\<lambda>s. s\<lparr>R_ESP := R_ESP s - 4\<rparr>);
       esp \<leftarrow> gets R_ESP;
       store_data_long_abs h R_SS_INDEX esp w
     } else do {
       modify (\<lambda>s. s\<lparr>R_ESP := set_lo16 (R_SP s - 4) (R_ESP s)\<rparr>);
       sp \<leftarrow> gets R_SP;
       store_data_long_abs h R_SS_INDEX (ucast sp) w
     }
   }"

definition pop_word :: "host \<Rightarrow> u16 emu" where
  "pop_word h = do {
     stack32 \<leftarrow> gets MODE_STACK32;
     if stack32 then do {
       esp \<leftarrow> gets R_ESP;
       res \<leftarrow> fetch_data_word_abs h R_SS_INDEX esp;
       modify (\<lambda>s. s\<lparr>R_ESP := R_ESP s + 2\<rparr>);
       return res
     } else do {
       sp \<leftarrow> gets R_SP;
       res \<leftarrow> fetch_data_word_abs h R_SS_INDEX (ucast sp);
       modify (\<lambda>s. s\<lparr>R_ESP := set_lo16 (R_SP s + 2) (R_ESP s)\<rparr>);
       return res
     }
   }"

definition pop_long :: "host \<Rightarrow> u32 emu" where
  "pop_long h = do {
     stack32 \<leftarrow> gets MODE_STACK32;
     if stack32 then do {
       esp \<leftarrow> gets R_ESP;
       res \<leftarrow> fetch_data_long_abs h R_SS_INDEX esp;
       modify (\<lambda>s. s\<lparr>R_ESP := R_ESP s + 4\<rparr>);
       return res
     } else do {
       sp \<leftarrow> gets R_SP;
       res \<leftarrow> fetch_data_long_abs h R_SS_INDEX (ucast sp);
       modify (\<lambda>s. s\<lparr>R_ESP := set_lo16 (R_SP s + 4) (R_ESP s)\<rparr>);
       return res
     }
   }"

section \<open>String input and output\<close>

text \<open>
  Index registers are read and moved at the width of the address mode. They move by one
  whatever the size of the item, and the source segment of \<open>outs\<close> is always ES.
\<close>

definition string_inc :: "x86emu \<Rightarrow> u32" where
  "string_inc s = (if ACCESS_FLAG F_DF (R_FLG s) then -1 else 1)"

definition add_di :: "u32 \<Rightarrow> unit emu" where
  "add_di inc = modify (\<lambda>s. s\<lparr>R_EDI := set_lo16 (R_DI s + ucast inc) (R_EDI s)\<rparr>)"

definition add_edi :: "u32 \<Rightarrow> unit emu" where
  "add_edi inc = modify (\<lambda>s. s\<lparr>R_EDI := R_EDI s + inc\<rparr>)"

definition add_si :: "u32 \<Rightarrow> unit emu" where
  "add_si inc = modify (\<lambda>s. s\<lparr>R_ESI := set_lo16 (R_SI s + ucast inc) (R_ESI s)\<rparr>)"

definition add_esi :: "u32 \<Rightarrow> unit emu" where
  "add_esi inc = modify (\<lambda>s. s\<lparr>R_ESI := R_ESI s + inc\<rparr>)"

definition ins_item :: "host \<Rightarrow> nat \<Rightarrow> (x86emu \<Rightarrow> u32) \<Rightarrow> unit emu" where
  "ins_item h n ofs = do {
     dx \<leftarrow> gets R_DX;
     if n = 1 then do { v \<leftarrow> fetch_io_byte h (ucast dx); o' \<leftarrow> gets ofs; store_data_byte_abs h R_ES_INDEX o' v }
     else if n = 2 then do { v \<leftarrow> fetch_io_word h (ucast dx); o' \<leftarrow> gets ofs; store_data_word_abs h R_ES_INDEX o' v }
     else if n = 4 then do { v \<leftarrow> fetch_io_long h (ucast dx); o' \<leftarrow> gets ofs; store_data_long_abs h R_ES_INDEX o' v }
     else skip
   }"

definition ins :: "host \<Rightarrow> nat \<Rightarrow> unit emu" where
  "ins h n = do {
     s \<leftarrow> gets id;
     let inc = string_inc s;
     if MODE_ADDR32 s then
       if MODE_REP s then do {
         modify (\<lambda>s. s\<lparr>R_ECX := 0\<rparr>);
         repeat (unat (R_ECX s)) (do { ins_item h n R_EDI; add_edi inc })
       } else do { ins_item h n R_EDI; add_edi inc }
     else
       if MODE_REP s then do {
         modify (\<lambda>s. s\<lparr>R_ECX := set_lo16 0 (R_ECX s)\<rparr>);
         repeat (unat (R_CX s)) (do { ins_item h n (\<lambda>s. ucast (R_DI s)); add_di inc })
       } else do { ins_item h n (\<lambda>s. ucast (R_DI s)); add_di inc }
   }"

definition outs_item :: "host \<Rightarrow> nat \<Rightarrow> (x86emu \<Rightarrow> u32) \<Rightarrow> unit emu" where
  "outs_item h n ofs = do {
     o' \<leftarrow> gets ofs;
     if n = 1 then do { v \<leftarrow> fetch_data_byte_abs h R_ES_INDEX o'; dx \<leftarrow> gets R_DX; store_io_byte h (ucast dx) v }
     else if n = 2 then do { v \<leftarrow> fetch_data_word_abs h R_ES_INDEX o'; dx \<leftarrow> gets R_DX; store_io_word h (ucast dx) v }
     else if n = 4 then do { v \<leftarrow> fetch_data_long_abs h R_ES_INDEX o'; dx \<leftarrow> gets R_DX; store_io_long h (ucast dx) v }
     else skip
   }"

definition outs :: "host \<Rightarrow> nat \<Rightarrow> unit emu" where
  "outs h n = do {
     s \<leftarrow> gets id;
     let inc = string_inc s;
     if MODE_ADDR32 s then
       if MODE_REP s then do {
         modify (\<lambda>s. s\<lparr>R_ECX := 0\<rparr>);
         repeat (unat (R_ECX s)) (do { outs_item h n R_ESI; add_esi inc })
       } else do { outs_item h n R_ESI; add_si inc }
     else
       if MODE_REP s then do {
         modify (\<lambda>s. s\<lparr>R_ECX := set_lo16 0 (R_ECX s)\<rparr>);
         repeat (unat (R_CX s)) (do { outs_item h n (\<lambda>s. ucast (R_SI s)); add_si inc })
       } else do { outs_item h n (\<lambda>s. ucast (R_SI s)); add_si inc }
   }"

section \<open>Conditions\<close>

definition eval_condition :: "nat \<Rightarrow> x86emu \<Rightarrow> bool" where
  "eval_condition type s =
     (let flags = R_FLG s; t = type div 2;
          cond = (if t = 0 then ACCESS_FLAG F_OF flags
             else if t = 1 then ACCESS_FLAG F_CF flags
             else if t = 3 then ACCESS_FLAG F_CF flags \<or> ACCESS_FLAG F_ZF flags
             else if t = 2 then ACCESS_FLAG F_ZF flags
             else if t = 4 then ACCESS_FLAG F_SF flags
             else if t = 5 then ACCESS_FLAG F_PF flags
             else if t = 7 then ACCESS_FLAG F_ZF flags \<or> ACCESS_FLAG F_SF flags \<noteq> ACCESS_FLAG F_OF flags
             else if t = 6 then ACCESS_FLAG F_SF flags \<noteq> ACCESS_FLAG F_OF flags
             else False)
      in if odd type then \<not> cond else cond)"

section \<open>The operations respect a discipline\<close>

context discipline
begin

lemma emu_ok_stack [emu_oks]:
  "emu_ok (push_word h w)" "emu_ok (push_long h l)" "emu_ok (pop_word h)" "emu_ok (pop_long h)"
  unfolding push_word_def push_long_def pop_word_def pop_long_def
  by (intro emu_oks emu_ok_modify; simp add: kept_def control_def handlers_def)+

lemma emu_ok_index [emu_oks]: "emu_ok (add_di n)" "emu_ok (add_edi n)" "emu_ok (add_si n)" "emu_ok (add_esi n)"
  unfolding add_di_def add_edi_def add_si_def add_esi_def
  by (intro emu_ok_modify; simp add: kept_def control_def handlers_def)+

lemma emu_ok_ins_outs [emu_oks]: "emu_ok (ins h n)" "emu_ok (outs h n)"
  unfolding ins_def outs_def ins_item_def outs_item_def
  by (intro emu_oks emu_ok_modify; simp add: kept_def control_def handlers_def)+

end

end
