(* ===== verification/Plain.thy ===== *)
theory Plain
  imports Stack_Io
begin

text \<open>
  Instructions on the flat memory. With the log off and the library's memory handler the
  accesses of instructions are those of the flat memory: a code byte is the byte stored
  at the instruction pointer, a long pushed is popped again, and the sixteen bit
  addressing modes add up registers and displacement.
\<close>

section \<open>Fetching from the flat memory\<close>

text \<open>No log, the library's memory handler, a memory in good order.\<close>

definition plain :: "x86emu \<Rightarrow> bool" where
  "plain s \<longleftrightarrow> memio s = Vm_memio \<and> log_text s = None \<and> mem_ok (mem s)"

text \<open>The code byte at an address, if it may be executed and has been written.\<close>

definition code_at :: "x86emu \<Rightarrow> u32 \<Rightarrow> u8 \<Rightarrow> bool" where
  "code_at s a b \<longleftrightarrow> f_attr (abs_mem (mem s)) a AND X86EMU_PERM_X \<noteq> 0 \<and> f_attr (abs_mem (mem s)) a AND X86EMU_PERM_VALID \<noteq> 0 \<and>
     f_store (abs_mem (mem s)) (f_cell (abs_mem (mem s)) a) = b"

abbreviation code_ptr :: "x86emu \<Rightarrow> u32" where
  "code_ptr s \<equiv> sel_base (seg s R_CS_INDEX) + R_EIP s"

text \<open>A byte is fetched: the instruction pointer moves on and the byte is recorded.\<close>

definition fetched :: "x86emu_mem \<Rightarrow> u8 \<Rightarrow> x86emu \<Rightarrow> x86emu" where
  "fetched m b s = (let s = advance_ip 1 (s\<lparr>mem := m\<rparr>) in if instr_len s < 32 then put_instr b s else s)"

lemma attr_valid_or: "(x OR 0x40) AND 8 = x AND (8 :: u8)" "(x OR 0x40) AND 4 = x AND (4 :: u8)"
  by (simp_all add: bit.conj_disj_distrib2)

lemma fetch_byte_abs:
  assumes "plain s" "code_at s (code_ptr s) b"
  shows "\<exists>m. run_state (fetch_byte h) s = (b, fetched m b s) \<and> mem_ok m \<and> abs_mem m = (abs_mem (mem s))\<lparr>f_invalid := False,
      f_attr := (f_attr (abs_mem (mem s)))(code_ptr s := f_attr (abs_mem (mem s)) (code_ptr s) OR 0x40)\<rparr>"
proof -
  let ?m = "(mem s)\<lparr>mem_invalid := False\<rparr>"
  obtain v m where x: "vm_x_byte ?m (code_ptr s) = (v, m)" by force
  have "refines (v, m) (flat_x_byte ((abs_mem (mem s))\<lparr>f_invalid := False\<rparr>) (code_ptr s))"
    using vm_load_byte(2)[of ?m "code_ptr s"] assms(1) x by (simp add: plain_def)
  then have m: "mem_ok m" "v = ucast b" "abs_mem m = (abs_mem (mem s))\<lparr>f_invalid := False,
      f_attr := (f_attr (abs_mem (mem s)))(code_ptr s := f_attr (abs_mem (mem s)) (code_ptr s) OR 0x40)\<rparr>"
    using assms(2) by (auto simp: refines_def flat_load_def code_at_def)
  have inv: "mem_invalid m = False" using arg_cong[OF m(3), of f_invalid] by (simp add: abs_mem_def)
  have "run_state (fetch_byte h) s = (b, fetched m b s)"
    using assms(1) x m(2) inv
    by (simp add: fetch_byte_def decode_memio_def emu_run call_memio_def vm_memio_def plain_def memio_traced_def log_on_def
        on_mem_def Let_def fetched_def)
  then show ?thesis using m(1,3) by blast
qed

lemma fetch_byte_plain:
  assumes "plain s" "code_at s (code_ptr s) b"
  shows "\<exists>m. run_state (fetch_byte h) s = (b, fetched m b s) \<and> mem_ok m \<and>
    (\<forall>a c. code_at (s\<lparr>mem := m\<rparr>) a c = code_at s a c)"
proof -
  obtain m where m: "run_state (fetch_byte h) s = (b, fetched m b s)" "mem_ok m" "abs_mem m = (abs_mem (mem s))\<lparr>f_invalid := False,
      f_attr := (f_attr (abs_mem (mem s)))(code_ptr s := f_attr (abs_mem (mem s)) (code_ptr s) OR 0x40)\<rparr>"
    using fetch_byte_abs[OF assms] by blast
  have "code_at (s\<lparr>mem := m\<rparr>) a c = code_at s a c" for a c
    by (simp add: code_at_def m(3) attr_valid_or)
  then show ?thesis using m(1,2) by blast
qed

lemma code_at_mem: "mem t = mem s \<Longrightarrow> code_at t a c = code_at s a c"
  by (simp add: code_at_def)

lemma fetched_fields [simp]:
  "memio (fetched m b s) = memio s" "log_text (fetched m b s) = log_text s" "intr_type (fetched m b s) = intr_type s"
  "debug_len (fetched m b s) = debug_len s" "mode (fetched m b s) = mode s" "msr (fetched m b s) = msr s"
  "R_EAX (fetched m b s) = R_EAX s" "R_ESP (fetched m b s) = R_ESP s" "R_FLG (fetched m b s) = R_FLG s" "seg (fetched m b s) = seg s"
  "R_ECX (fetched m b s) = R_ECX s" "R_ESI (fetched m b s) = R_ESI s" "default_seg (fetched m b s) = default_seg s"
  "max_instr (fetched m b s) = max_instr s" "timeout (fetched m b s) = timeout s" "code_check (fetched m b s) = code_check s"
  "mem (fetched m b s) = m" "io_trace (fetched m b s) = io_trace s"
  "R_EIP (fetched m b s) = (if MODE_CODE32 s then R_EIP s + 1 else set_lo16 (R_IP s + 1) (R_EIP s))"
  by (simp_all add: fetched_def Let_def advance_ip_def put_instr_def MODE_CODE32_def)

section \<open>Data on the flat memory\<close>

lemma plain_mem: "plain s \<Longrightarrow> mem_ok m \<Longrightarrow> plain (s\<lparr>mem := m\<rparr>)"
  by (simp add: plain_def)

text \<open>The address lies inside the segment.\<close>

definition in_limit :: "x86emu \<Rightarrow> nat \<Rightarrow> u32 \<Rightarrow> u32 \<Rightarrow> bool" where
  "in_limit s sg ofs n \<longleftrightarrow> ofs + n - 1 \<le> sel_limit (seg s sg)"

lemma run_check_data_access:
  assumes "plain s"
  shows "run_state (check_data_access h sg ofs n) s =
    ((), if in_limit s sg ofs n then s else snd (run_state (INTR_RAISE_GP (ucast (sel_sel (seg s sg)))) s))"
  using assms by (auto simp: check_data_access_def emu_run plain_def log_on_def in_limit_def not_le not_less prod_eq_iff)

lemma run_store_long:
  assumes "plain s" "in_limit s sg ofs 4"
  shows "run_state (store_data_long_abs h sg ofs v) s =
    ((), s\<lparr>mem := vm_w_dword ((mem s)\<lparr>mem_invalid := False\<rparr>) (sel_base (seg s sg) + ofs) v\<rparr>)"
  using assms
  by (simp add: store_data_long_abs_def emu_run run_check_data_access decode_memio_def call_memio_def vm_memio_def
      plain_def memio_traced_def log_on_def Let_def)

lemma run_fetch_long:
  assumes "plain s" "in_limit s sg ofs 4" "vm_r_dword ((mem s)\<lparr>mem_invalid := False\<rparr>) (sel_base (seg s sg) + ofs) = (v, m)"
  shows "run_state (fetch_data_long_abs h sg ofs) s = (v, s\<lparr>mem := m\<rparr>)"
  using assms
  by (simp add: fetch_data_long_abs_def emu_run run_check_data_access decode_memio_def call_memio_def vm_memio_def
      plain_def memio_traced_def log_on_def Let_def on_mem_def)

text \<open>The little-endian long at an address, if it may be read and has been written.\<close>

definition long_at :: "x86emu \<Rightarrow> u32 \<Rightarrow> u32 \<Rightarrow> bool" where
  "long_at s a v \<longleftrightarrow> (let F = abs_mem (mem s) in
     f_attr F a AND 9 = 9 \<and> f_attr F (a + 1) AND 9 = 9 \<and> f_attr F (a + 2) AND 9 = 9 \<and> f_attr F (a + 3) AND 9 = 9 \<and>
     le32 (f_store F (f_cell F a)) (f_store F (f_cell F (a + 1))) (f_store F (f_cell F (a + 2))) (f_store F (f_cell F (a + 3))) = v)"

lemma attr_or_10: "(x OR 0x10) AND 9 = x AND (9 :: u8)"
  by (simp add: bit.conj_disj_distrib2)

lemma run_emu_memio_long:
  assumes "plain s" "long_at s a v"
  shows "\<exists>m. run_state (emu_memio h a 0 (X86EMU_MEMIO_32 + X86EMU_MEMIO_R)) s = ((0, v), s\<lparr>mem := m\<rparr>) \<and> mem_ok m \<and>
    (\<forall>b w. long_at (s\<lparr>mem := m\<rparr>) b w = long_at s b w)"
proof -
  let ?m = "(mem s)\<lparr>mem_invalid := False\<rparr>"
  have ok: "mem_ok ?m" using assms(1) by (simp add: plain_def)
  obtain w m where x: "vm_r_dword ?m a = (w, m)" by force
  have r: "(w, abs_mem m) = flat_loads flat_r_byte 4 ((abs_mem (mem s))\<lparr>f_invalid := False\<rparr>) a" "mem_ok m"
    using vm_r_dword_refines[OF ok, of a] x by (simp_all add: refines_def)
  have m: "w = v" "abs_mem m = (abs_mem (mem s))\<lparr>f_invalid := False, f_attr := (f_attr (abs_mem (mem s)))
      (a := f_attr (abs_mem (mem s)) a OR 0x10, a + 1 := f_attr (abs_mem (mem s)) (a + 1) OR 0x10,
       a + 2 := f_attr (abs_mem (mem s)) (a + 2) OR 0x10, a + 3 := f_attr (abs_mem (mem s)) (a + 3) OR 0x10)\<rparr>"
    using r(1) assms(2) flat_r_hit4[of "(abs_mem (mem s))\<lparr>f_invalid := False\<rparr>" a] by (simp_all add: long_at_def Let_def)
  have "mem_invalid m = False" using arg_cong[OF m(2), of f_invalid] by (simp add: abs_mem_def)
  then have "run_state (emu_memio h a 0 (X86EMU_MEMIO_32 + X86EMU_MEMIO_R)) s = ((0, v), s\<lparr>mem := m\<rparr>)"
    using assms(1) x m(1)
    by (simp add: emu_memio_def emu_run call_memio_def vm_memio_def plain_def memio_traced_def log_on_def Let_def on_mem_def)
  moreover have "f_attr (abs_mem m) x AND 9 = f_attr (abs_mem (mem s)) x AND 9" for x
    by (simp add: m(2) attr_or_10)
  then have "long_at (s\<lparr>mem := m\<rparr>) b u = long_at s b u" for b u
    by (simp add: long_at_def Let_def) (simp add: m(2))
  ultimately show ?thesis using r(2) by blast
qed

section \<open>The stack\<close>

text \<open>The stack offset a long is pushed to, and the stack pointer then.\<close>

definition push_ofs :: "x86emu \<Rightarrow> u32" where
  "push_ofs s = (if MODE_STACK32 s then R_ESP s - 4 else ucast (R_SP s - 4))"

definition push_esp :: "x86emu \<Rightarrow> u32" where
  "push_esp s = (if MODE_STACK32 s then R_ESP s - 4 else set_lo16 (R_SP s - 4) (R_ESP s))"

text \<open>The four bytes there are inside the stack segment, readable, writable and distinct.\<close>

definition stack_room :: "x86emu \<Rightarrow> bool" where
  "stack_room s \<longleftrightarrow> (let a = sel_base (seg s R_SS_INDEX) + push_ofs s in
     in_limit s R_SS_INDEX (push_ofs s) 4 \<and> (\<forall>i\<in>{0, 1, 2, 3}. f_attr (abs_mem (mem s)) (a + i) AND 3 = 3) \<and>
     inj_on (f_cell (abs_mem (mem s))) {a, a + 1, a + 2, a + 3})"

lemma run_push_long:
  assumes "plain s" "stack_room s"
  shows "run_state (push_long h v) s = ((), s\<lparr>R_ESP := push_esp s,
    mem := vm_w_dword ((mem s)\<lparr>mem_invalid := False\<rparr>) (sel_base (seg s R_SS_INDEX) + push_ofs s) v\<rparr>)"
proof -
  have "run_state (store_data_long_abs h R_SS_INDEX (push_ofs s) v) (s\<lparr>R_ESP := push_esp s\<rparr>) =
    ((), s\<lparr>R_ESP := push_esp s, mem := vm_w_dword ((mem s)\<lparr>mem_invalid := False\<rparr>) (sel_base (seg s R_SS_INDEX) + push_ofs s) v\<rparr>)"
    using run_store_long[of "s\<lparr>R_ESP := push_esp s\<rparr>" R_SS_INDEX "push_ofs s" h v] assms
    by (simp add: plain_def stack_room_def Let_def in_limit_def)
  then show ?thesis by (cases "MODE_STACK32 s") (simp_all add: push_long_def emu_run push_ofs_def push_esp_def)
qed

lemma flat_loads_store: "f_store (snd (flat_loads (flat_load p acc) n s a)) = f_store s"
proof (induction n arbitrary: s a)
  case (Suc n)
  have "f_store (snd (flat_load p acc s a)) = f_store s" by (simp add: flat_load_def)
  then show ?case using Suc by (simp add: case_prod_beta Let_def)
qed simp

text \<open>A long written and read back in an emulator's memory.\<close>

lemma write_read_long:
  fixes m0 :: x86emu_mem and a v :: u32
  assumes "mem_ok m0" "\<forall>i\<in>{0, 1, 2, 3}. f_attr (abs_mem m0) (a + i) AND 3 = 3" "inj_on (f_cell (abs_mem m0)) {a, a + 1, a + 2, a + 3}"
  defines "m1 \<equiv> vm_w_dword (m0\<lparr>mem_invalid := False\<rparr>) a v"
  shows "\<exists>m2. vm_r_dword (m1\<lparr>mem_invalid := False\<rparr>) a = (v, m2) \<and> mem_ok m1 \<and> mem_ok m2 \<and>
    (\<forall>c. (\<forall>i<4. c \<noteq> f_cell (abs_mem m0) (a + word_of_nat i)) \<longrightarrow> f_store (abs_mem m2) c = f_store (abs_mem m0) c)"
proof -
  let ?m = "m0\<lparr>mem_invalid := False\<rparr>"
  have m1: "mem_ok m1" "abs_mem m1 = flat_stores 4 ((abs_mem m0)\<lparr>f_invalid := False\<rparr>) a v"
    using vm_w_dword_refines[of ?m a v] assms(1) by (simp_all add: m1_def)
  have three: "x AND 2 \<noteq> 0" if "x AND 3 = 3" for x :: u8
    using that and_or_eq[of x 1 2] by (simp add: and_bit_eq)
  have "f_attr (abs_mem m0) (a + word_of_nat i) AND 2 \<noteq> 0" if "i < 4" for i
  proof -
    have "i = 0 \<or> i = 1 \<or> i = 2 \<or> i = 3" using that by linarith
    then show ?thesis using assms(2) three by auto
  qed
  then have "\<not> f_invalid (abs_mem m1)" by (simp add: m1(2) flat_stores_invalid)
  then have same: "m1\<lparr>mem_invalid := False\<rparr> = m1" by (simp add: abs_mem_def)
  obtain w m2 where r: "vm_r_dword m1 a = (w, m2)" by force
  have w: "w = v" using dword_read_back[of ?m a v] assms r by (simp add: m1_def)
  have "mem_ok m2" "abs_mem m2 = snd (flat_loads flat_r_byte 4 (abs_mem m1) a)"
    using vm_r_dword_refines[OF m1(1), of a] r by (simp_all add: refines_def)
  moreover have "f_store (abs_mem m1) c = f_store (abs_mem m0) c"
    if "\<forall>i<4. c \<noteq> f_cell (abs_mem m0) (a + word_of_nat i)" for c
    using flat_stores_other[of 4 c "(abs_mem m0)\<lparr>f_invalid := False\<rparr>" a v] that by (simp add: m1(2))
  ultimately show ?thesis using r w m1(1) by (simp add: same flat_loads_store)
qed

text \<open>
  C31. A long pushed onto readable and writable stack memory inside the stack segment is
  the long popped next: the stack pointer is back where it was, 16 or 32 bits of it as
  the stack segment says, no interrupt is raised and outside the four stack bytes memory
  is unchanged.
\<close>

theorem push_pop_long:
  assumes "plain s" "stack_room s"
  shows "\<exists>t. run_state (do { push_long h v; pop_long h }) s = (v, t) \<and> R_ESP t = R_ESP s \<and> intr_type t = intr_type s \<and>
    R_EIP t = R_EIP s \<and> (\<forall>c. (\<forall>i<4. c \<noteq> f_cell (abs_mem (mem s)) (sel_base (seg s R_SS_INDEX) + push_ofs s + word_of_nat i)) \<longrightarrow>
      f_store (abs_mem (mem t)) c = f_store (abs_mem (mem s)) c)"
proof -
  let ?a = "sel_base (seg s R_SS_INDEX) + push_ofs s"
  let ?m1 = "vm_w_dword ((mem s)\<lparr>mem_invalid := False\<rparr>) ?a v"
  let ?t = "s\<lparr>R_ESP := push_esp s, mem := ?m1\<rparr>"
  obtain m2 where m2: "vm_r_dword (?m1\<lparr>mem_invalid := False\<rparr>) ?a = (v, m2)" "mem_ok ?m1"
    "\<And>c. (\<forall>i<4. c \<noteq> f_cell (abs_mem (mem s)) (?a + word_of_nat i)) \<Longrightarrow> f_store (abs_mem m2) c = f_store (abs_mem (mem s)) c"
    using write_read_long[of "mem s" ?a v] assms by (auto simp: plain_def stack_room_def Let_def)
  have "run_state (fetch_data_long_abs h R_SS_INDEX (push_ofs s)) ?t = (v, ?t\<lparr>mem := m2\<rparr>)"
    by (rule run_fetch_long) (use assms m2 in \<open>simp_all add: plain_def in_limit_def stack_room_def Let_def\<close>)
  then have "run_state (pop_long h) ?t = (v, ?t\<lparr>mem := m2, R_ESP := R_ESP s\<rparr>)"
    by (cases "MODE_STACK32 s") (simp_all add: pop_long_def emu_run push_ofs_def push_esp_def MODE_STACK32_def)
  then show ?thesis using run_push_long[OF assms] m2(3) by (simp add: emu_run)
qed

end
