(* ===== verification/Bytes.thy ===== *)
theory Bytes
  imports Plain
begin

text \<open>
  Bytes and words on the flat memory: what a read leaves alone, what a write changes, and
  the accesses of instructions to bytes and words that are there and inside their segment.
\<close>

section \<open>Memory up to access statistics\<close>

abbreviation cell :: "x86emu_mem \<Rightarrow> u32 \<Rightarrow> cell" where
  "cell m a \<equiv> f_cell (abs_mem m) a"

abbreviation attr :: "x86emu_mem \<Rightarrow> u32 \<Rightarrow> u8" where
  "attr m a \<equiv> f_attr (abs_mem m) a"

text \<open>The byte may be read and is initialised; it may be written.\<close>

definition readable :: "x86emu_mem \<Rightarrow> u32 \<Rightarrow> bool" where
  "readable m a \<longleftrightarrow> attr m a AND 1 \<noteq> 0 \<and> attr m a AND 8 \<noteq> 0"

definition writable :: "x86emu_mem \<Rightarrow> u32 \<Rightarrow> bool" where
  "writable m a \<longleftrightarrow> attr m a AND 2 \<noteq> 0"

text \<open>Only access statistics differ; then, some bytes have been written to writable addresses as well.\<close>

definition same_bytes :: "x86emu_mem \<Rightarrow> x86emu_mem \<Rightarrow> bool" where
  "same_bytes m m' \<longleftrightarrow> mem_ok m' \<and> cell m' = cell m \<and> f_store (abs_mem m') = f_store (abs_mem m) \<and>
     (\<forall>a. attr m' a AND 0x0f = attr m a AND 0x0f)"

definition written :: "x86emu_mem \<Rightarrow> u32 \<Rightarrow> u8 \<Rightarrow> x86emu_mem \<Rightarrow> bool" where
  "written m a v m' \<longleftrightarrow> mem_ok m' \<and> cell m' = cell m \<and>
     f_store (abs_mem m') = (f_store (abs_mem m))(cell m a := v) \<and> writable m' = writable m \<and>
     (\<forall>b. attr m' b AND 1 = attr m b AND 1) \<and> (\<forall>b. readable m b \<longrightarrow> readable m' b) \<and>
     (attr m a AND 1 \<noteq> 0 \<longrightarrow> readable m' a)"

lemma same_bytes_refl [simp]: "mem_ok m \<Longrightarrow> same_bytes m m"
  by (simp add: same_bytes_def)

text \<open>The permissions and the mark of initialised bytes are the low four bits of the attributes.\<close>

lemma low_bits:
  fixes x y k :: u8
  assumes "x AND 0x0f = y AND 0x0f" "k AND 0x0f = k"
  shows "x AND k = y AND k"
proof -
  have low: "z AND k = (z AND 0x0f) AND k" for z :: u8
    by (subst assms(2)[symmetric]) (simp only: ac_simps)
  have "x AND k = (y AND 0x0f) AND k" unfolding low[of x] assms(1) by (rule refl)
  then show ?thesis unfolding low[of y, symmetric] .
qed

lemma same_bytes_iff:
  "same_bytes m m' \<longleftrightarrow> mem_ok m' \<and> cell m' = cell m \<and> f_store (abs_mem m') = f_store (abs_mem m) \<and>
     readable m' = readable m \<and> writable m' = writable m \<and> (\<forall>a. attr m' a AND 1 = attr m a AND 1) \<and> (\<forall>a. attr m' a AND 0x0f = attr m a AND 0x0f)"
proof (cases "\<forall>a. attr m' a AND 0x0f = attr m a AND 0x0f")
  case True
  have k: "attr m' a AND 1 = attr m a AND 1" "attr m' a AND 2 = attr m a AND 2" "attr m' a AND 8 = attr m a AND 8" for a
    by (rule low_bits[OF spec[OF True]], simp)+
  have "readable m' = readable m" "writable m' = writable m" by (intro ext, simp only: readable_def writable_def k)+
  then show ?thesis using True k(1) unfolding same_bytes_def by blast
next
  case False
  then show ?thesis unfolding same_bytes_def by blast
qed

lemma attr_acc: "(x OR 0x10) AND 1 = x AND 1" "(x OR 0x10) AND 2 = x AND 2" "(x OR 0x10) AND 8 = x AND (8 :: u8)"
  "(x OR 0x28) AND 1 = x AND 1" "(x OR 0x28) AND 2 = x AND 2" "(x OR 0x28) AND 8 = (8 :: u8)"
  and attr_acc15: "(x OR 0x10) AND 0x0f = x AND 0x0f" "(x OR 0x40) AND 0x0f = x AND (0x0f :: u8)" for x :: u8
  by (simp_all add: bit.conj_disj_distrib2)

lemma abs_invalid_only: "abs_mem (m\<lparr>mem_invalid := i\<rparr>) = (abs_mem m)\<lparr>f_invalid := i\<rparr>"
  by simp

lemma read_byte_same:
  assumes "mem_ok m" "readable m a"
  shows "\<exists>m'. vm_r_byte (m\<lparr>mem_invalid := False\<rparr>) a = (ucast (mem_byte m a), m') \<and> same_bytes m m'"
proof -
  obtain v m' where r: "vm_r_byte (m\<lparr>mem_invalid := False\<rparr>) a = (v, m')" by force
  have "refines (v, m') (flat_r_byte ((abs_mem m)\<lparr>f_invalid := False\<rparr>) a)"
    using vm_load_byte(1)[of "m\<lparr>mem_invalid := False\<rparr>" a] assms(1) r by simp
  then have "mem_ok m'" "v = ucast (mem_byte m a)"
    "abs_mem m' = (abs_mem m)\<lparr>f_invalid := False, f_attr := (f_attr (abs_mem m))(a := attr m a OR 0x10)\<rparr>"
    using assms(2) by (auto simp: refines_def flat_load_def readable_def mem_byte_def)
  then show ?thesis using r by (auto simp: same_bytes_def fun_eq_iff attr_acc15)
qed

lemma write_byte_written:
  assumes "mem_ok m" "writable m a"
  shows "written m a (ucast v) (vm_w_byte (m\<lparr>mem_invalid := False\<rparr>) a v)"
proof -
  let ?m = "vm_w_byte (m\<lparr>mem_invalid := False\<rparr>) a v"
  have "mem_ok ?m" "abs_mem ?m = (abs_mem m)\<lparr>f_invalid := False, f_attr := (f_attr (abs_mem m))(a := attr m a OR 0x28),
      f_store := (f_store (abs_mem m))(cell m a := ucast v)\<rparr>"
    using vm_store_byte[of "m\<lparr>mem_invalid := False\<rparr>" a v] assms by (simp_all add: flat_w_byte_def writable_def)
  then show ?thesis by (auto simp: written_def readable_def writable_def fun_eq_iff attr_acc)
qed

text \<open>A fetch leaves data and code as they are.\<close>

lemma fetch_byte_same:
  assumes "plain s" "code_at s (code_ptr s) b"
  shows "\<exists>m. run_state (fetch_byte h) s = (b, fetched m b s) \<and> same_bytes (mem s) m"
proof -
  obtain m where m: "run_state (fetch_byte h) s = (b, fetched m b s)" "mem_ok m" "abs_mem m = (abs_mem (mem s))\<lparr>f_invalid := False,
      f_attr := (f_attr (abs_mem (mem s)))(code_ptr s := f_attr (abs_mem (mem s)) (code_ptr s) OR 0x40)\<rparr>"
    using fetch_byte_abs[OF assms] by blast
  then show ?thesis by (intro exI[of _ m]) (simp add: same_bytes_def attr_acc15)
qed

lemma code_at_same:
  assumes "same_bytes (mem s) (mem t)"
  shows "code_at t a c = code_at s a c"
proof -
  have eq: "attr (mem t) a AND 0x0f = attr (mem s) a AND 0x0f" using assms by (simp add: same_bytes_def)
  have "attr (mem t) a AND 4 = attr (mem s) a AND 4" "attr (mem t) a AND 8 = attr (mem s) a AND 8"
    using low_bits[OF eq, of 4] low_bits[OF eq, of 8] by simp_all
  then show ?thesis using assms by (simp add: code_at_def same_bytes_def)
qed

section \<open>Words\<close>

text \<open>The word at an address; the memory after one has been written.\<close>

definition word_at :: "x86emu_mem \<Rightarrow> u32 \<Rightarrow> u16 \<Rightarrow> bool" where
  "word_at m a v \<longleftrightarrow> readable m a \<and> readable m (a + 1) \<and> v = le16 (mem_byte m a) (mem_byte m (a + 1))"

definition word_written :: "x86emu_mem \<Rightarrow> u32 \<Rightarrow> u16 \<Rightarrow> x86emu_mem \<Rightarrow> bool" where
  "word_written m a v m' \<longleftrightarrow> mem_ok m' \<and> cell m' = cell m \<and> writable m' = writable m \<and>
     (\<forall>b. attr m' b AND 1 = attr m b AND 1) \<and> word_at m' a v \<and>
     (\<forall>b w. word_at m b w \<longrightarrow> cell m ` {b, b + 1} \<inter> cell m ` {a, a + 1} = {} \<longrightarrow> word_at m' b w)"

lemma word_at_same: "same_bytes m m' \<Longrightarrow> word_at m' a v = word_at m a v"
  by (simp add: word_at_def same_bytes_iff mem_byte_def)

lemma read_word_same:
  assumes "mem_ok m" "word_at m a v"
  shows "\<exists>m'. vm_r_word (m\<lparr>mem_invalid := False\<rparr>) a = (ucast v, m') \<and> same_bytes m m'"
proof -
  let ?F = "(abs_mem m)\<lparr>f_invalid := False\<rparr>"
  obtain w m' where r: "vm_r_word (m\<lparr>mem_invalid := False\<rparr>) a = (w, m')" by force
  have "refines (w, m') (flat_loads flat_r_byte 2 ?F a)"
    using vm_r_word_refines[of "m\<lparr>mem_invalid := False\<rparr>" a] assms(1) r by simp
  then have m': "mem_ok m'" "(w, abs_mem m') = flat_loads flat_r_byte 2 ?F a" by (simp_all add: refines_def)
  have "flat_loads flat_r_byte 2 ?F a = (ucast v, ?F\<lparr>f_attr := (f_attr (abs_mem m))(a := attr m a OR 0x10, a + 1 := attr m (a + 1) OR 0x10)\<rparr>)"
    using assms(2) by (simp add: word_at_def readable_def mem_byte_def flat_load_hit numeral_2_eq_2 ucast_le16)
  then show ?thesis using r m' by (auto simp: same_bytes_def fun_eq_iff attr_acc15)
qed

lemma write_word_written:
  assumes "mem_ok m" "writable m a" "writable m (a + 1)" "attr m a AND 1 \<noteq> 0" "attr m (a + 1) AND 1 \<noteq> 0" "cell m a \<noteq> cell m (a + 1)"
  shows "word_written m a v (vm_w_word (m\<lparr>mem_invalid := False\<rparr>) a (ucast v))"
proof -
  let ?m = "vm_w_word (m\<lparr>mem_invalid := False\<rparr>) a (ucast v)" and ?F = "(abs_mem m)\<lparr>f_invalid := False\<rparr>"
  have low: "(ucast (ucast v :: u32) :: u8) = ucast v" "(ucast (drop_bit 8 (ucast v :: u32)) :: u8) = ucast (drop_bit 8 v)"
    by (rule bit_word_eqI, auto simp: bit_simps)+
  have F: "flat_stores 2 ?F a (ucast v) =
      ?F\<lparr>f_attr := (f_attr (abs_mem m))(a := attr m a OR 0x28, a + 1 := attr m (a + 1) OR 0x28),
        f_store := (f_store (abs_mem m))(cell m a := ucast v, cell m (a + 1) := ucast (drop_bit 8 v))\<rparr>"
    using assms(2,3) by (simp add: flat_stores_2 writable_def flat_w_hit low)
  have m: "mem_ok ?m" "abs_mem ?m = flat_stores 2 ?F a (ucast v)"
    using vm_w_word_refines[of "m\<lparr>mem_invalid := False\<rparr>" a "ucast v"] assms(1) by simp_all
  have le: "le16 (ucast v) (ucast (drop_bit 8 v)) = v" by (rule bit_word_eqI) (auto simp: bit_le16 bit_simps)
  show ?thesis unfolding word_written_def
  proof (intro conjI allI impI)
    show "word_at ?m a v" using assms(4-6) by (simp add: word_at_def readable_def mem_byte_def m(2) F attr_acc le)
    show "word_at ?m b w" if "word_at m b w" "cell m ` {b, b + 1} \<inter> cell m ` {a, a + 1} = {}" for b w
      using that by (auto simp: word_at_def readable_def mem_byte_def m(2) F attr_acc)
  qed (use m(1) in \<open>auto simp: m(2) F writable_def fun_eq_iff attr_acc\<close>)
qed

section \<open>Accesses of instructions\<close>

lemma run_fetch_byte_abs:
  assumes "plain s" "in_limit s sg ofs 1" "readable (mem s) (sel_base (seg s sg) + ofs)"
  shows "\<exists>m. run_state (fetch_data_byte_abs h sg ofs) s = (mem_byte (mem s) (sel_base (seg s sg) + ofs), s\<lparr>mem := m\<rparr>) \<and>
    same_bytes (mem s) m"
proof -
  obtain m where "vm_r_byte ((mem s)\<lparr>mem_invalid := False\<rparr>) (sel_base (seg s sg) + ofs) = (ucast (mem_byte (mem s) (sel_base (seg s sg) + ofs)), m)"
    "same_bytes (mem s) m"
    using read_byte_same assms(1,3) by (fastforce simp: plain_def)
  then show ?thesis using assms(1,2)
    by (auto simp: fetch_data_byte_abs_def emu_run run_check_data_access decode_memio_def call_memio_def vm_memio_def
        plain_def memio_traced_def log_on_def Let_def on_mem_def)
qed

lemma run_store_byte_abs:
  assumes "plain s" "in_limit s sg ofs 1" "writable (mem s) (sel_base (seg s sg) + ofs)"
  shows "\<exists>m. run_state (store_data_byte_abs h sg ofs v) s = ((), s\<lparr>mem := m\<rparr>) \<and> written (mem s) (sel_base (seg s sg) + ofs) v m"
proof -
  let ?m = "vm_w_byte ((mem s)\<lparr>mem_invalid := False\<rparr>) (sel_base (seg s sg) + ofs) (ucast v)"
  have "run_state (store_data_byte_abs h sg ofs v) s = ((), s\<lparr>mem := ?m\<rparr>)" using assms(1,2)
    by (simp add: store_data_byte_abs_def emu_run run_check_data_access decode_memio_def call_memio_def vm_memio_def
        plain_def memio_traced_def log_on_def Let_def)
  moreover have "written (mem s) (sel_base (seg s sg) + ofs) v ?m"
    using write_byte_written[of "mem s" "sel_base (seg s sg) + ofs" "ucast v"] assms(1,3) by (simp add: plain_def)
  ultimately show ?thesis by blast
qed

lemma run_fetch_word_abs:
  assumes "plain s" "in_limit s sg ofs 2" "word_at (mem s) (sel_base (seg s sg) + ofs) v"
  shows "\<exists>m. run_state (fetch_data_word_abs h sg ofs) s = (v, s\<lparr>mem := m\<rparr>) \<and> same_bytes (mem s) m"
proof -
  obtain m where "vm_r_word ((mem s)\<lparr>mem_invalid := False\<rparr>) (sel_base (seg s sg) + ofs) = (ucast v, m)" "same_bytes (mem s) m"
    using read_word_same assms(1,3) by (fastforce simp: plain_def)
  then show ?thesis using assms(1,2)
    by (auto simp: fetch_data_word_abs_def emu_run run_check_data_access decode_memio_def call_memio_def vm_memio_def
        plain_def memio_traced_def log_on_def Let_def on_mem_def)
qed

text \<open>Two bytes that may be read and written, each in a cell of its own.\<close>

definition word_room :: "x86emu_mem \<Rightarrow> u32 \<Rightarrow> bool" where
  "word_room m a \<longleftrightarrow> (\<forall>b\<in>{a, a + 1}. attr m b AND 1 \<noteq> 0 \<and> writable m b) \<and> cell m a \<noteq> cell m (a + 1)"

lemma run_store_word_abs:
  assumes "plain s" "in_limit s sg ofs 2" "word_room (mem s) (sel_base (seg s sg) + ofs)"
  shows "\<exists>m. run_state (store_data_word_abs h sg ofs v) s = ((), s\<lparr>mem := m\<rparr>) \<and>
    word_written (mem s) (sel_base (seg s sg) + ofs) v m"
proof -
  let ?m = "vm_w_word ((mem s)\<lparr>mem_invalid := False\<rparr>) (sel_base (seg s sg) + ofs) (ucast v)"
  have "run_state (store_data_word_abs h sg ofs v) s = ((), s\<lparr>mem := ?m\<rparr>)" using assms(1,2)
    by (simp add: store_data_word_abs_def emu_run run_check_data_access decode_memio_def call_memio_def vm_memio_def
        plain_def memio_traced_def log_on_def Let_def)
  moreover have "word_written (mem s) (sel_base (seg s sg) + ofs) v ?m"
    using write_word_written[of "mem s" "sel_base (seg s sg) + ofs" v] assms(1,3) by (simp add: plain_def word_room_def)
  ultimately show ?thesis by blast
qed

end
