(* ===== verification/Segments.thy ===== *)
theory Segments
  imports Stack_Io
begin

text \<open>
  Descriptors, the loading of segment registers, and interrupts (\<^verbatim>\<open>decode.c\<close>).
\<close>

section \<open>Descriptors\<close>

text \<open>
  \<^verbatim>\<open>descr_t\<close>: the offset of a gate shares its memory with the base, and the selector
  and the count of a gate are the halves of the limit.
\<close>

record descr =
  d_base :: u32
  d_limit :: u32
  d_acc :: u16
  d_invalid :: bool
  d_seg :: bool
  d_dpl :: u16
  d_r :: bool
  d_w :: bool
  d_x :: bool
  d_c :: bool
  d_a :: bool
  d_p :: bool
  d_g :: bool
  d_ed :: bool
  d_ldt :: bool
  d_c_gate :: bool
  d_i_gate :: bool
  d_t_gate :: bool
  d_tss :: bool
  d_busy :: bool
  d_trap :: bool
  d_is_i386 :: bool

definition d_sel :: "descr \<Rightarrow> u16" where
  "d_sel d = ucast (d_limit d)"

definition d_w_count :: "descr \<Rightarrow> u16" where
  "d_w_count d = ucast (drop_bit 16 (d_limit d))"

definition descr_of :: "u32 \<Rightarrow> u32 \<Rightarrow> descr" where
  "descr_of dl dh =
     (let acc32 = (drop_bit 8 dh AND 0xff) + (drop_bit 12 dh AND 0xf00);
          acc = (ucast acc32 :: u16);
          limit = (dl AND 0xffff) + (dh AND 0xf0000);
          d = \<lparr>d_base = (drop_bit 16 dl AND 0xffff) + push_bit 16 (dh AND 0xff) + (dh AND 0xff000000),
               d_limit = (if ACC_G acc then push_bit 12 limit + 0xfff else limit), d_acc = acc,
               d_invalid = False, d_seg = False, d_dpl = ACC_DPL acc, d_r = False, d_w = False, d_x = False,
               d_c = False, d_a = False, d_p = ACC_P acc, d_g = ACC_G acc, d_ed = False, d_ldt = False,
               d_c_gate = False, d_i_gate = False, d_t_gate = False, d_tss = False, d_busy = False,
               d_trap = False, d_is_i386 = False\<rparr>
      in if ACC_S acc then
           let d = d\<lparr>d_seg := True, d_is_i386 := ACC_D acc, d_a := ACC_A acc\<rparr>
           in if ACC_E acc then d\<lparr>d_x := True, d_c := ACC_C acc, d_r := ACC_R acc\<rparr>
              else d\<lparr>d_r := True, d_ed := ACC_ED acc, d_w := ACC_W acc\<rparr>
         else
           let d = d\<lparr>d_is_i386 := (acc AND 8 \<noteq> 0)\<rparr>;
               t = acc AND 7;
               d = (if t = 0 then d\<lparr>d_invalid := True\<rparr>
                    else if t = 3 then d\<lparr>d_busy := True, d_tss := True\<rparr>
                    else if t = 1 then d\<lparr>d_tss := True\<rparr>
                    else if t = 2 then d\<lparr>d_ldt := True\<rparr>
                    else if t = 4 then d\<lparr>d_c_gate := True\<rparr>
                    else if t = 5 then d\<lparr>d_t_gate := True\<rparr>
                    else if t = 7 then d\<lparr>d_trap := True, d_i_gate := True\<rparr>
                    else d\<lparr>d_i_gate := True\<rparr>)
           in if d_c_gate d \<or> d_i_gate d \<or> d_t_gate d then
                d\<lparr>d_base := (dl AND 0xffff) + (dh AND 0xffff0000),
                  d_limit := drop_bit 16 dl + push_bit 16 (dh AND 0x1f)\<rparr>
              else d)"

definition descr_text :: "u32 \<Rightarrow> u32 \<Rightarrow> descr \<Rightarrow> string" where
  "descr_text dl dh d =
     ''d ['' @ decode_hex8 dh @ '' '' @ decode_hex8 dl @ ''] ='' @
     (if d_seg d then '' base='' @ decode_hex8 (d_base d) @ '' limit='' @ decode_hex8 (d_limit d)
      else '' sel='' @ decode_hex4 (ucast (d_sel d)) @ '' ofs='' @ decode_hex8 (d_base d) @
        '' wcnt='' @ decode_hex2 (ucast (d_w_count d))) @
     '' dpl='' @ decode_hex1 (ucast (d_dpl d)) @
     (if d_p d then '' p'' else []) @ (if d_a d then '' a'' else []) @ (if d_r d then '' r'' else []) @
     (if d_w d then '' w'' else []) @ (if d_x d then '' x'' else []) @ (if d_c d then '' c'' else []) @
     (if d_ed d then '' ed'' else []) @ (if d_g d then '' g'' else []) @ (if d_is_i386 d then '' 32'' else []) @
     (if d_ldt d then '' ldt'' else []) @ (if d_tss d then '' tss'' else []) @ (if d_busy d then '' busy'' else []) @
     (if d_c_gate d then '' callgate'' else []) @ (if d_i_gate d then '' intgate'' else []) @
     (if d_t_gate d then '' taskgate'' else []) @ (if d_trap d then '' trap'' else []) @
     (if d_invalid d then '' invalid'' else []) @ [CHR 0x0A]"

definition decode_descriptor :: "host \<Rightarrow> u32 \<Rightarrow> u32 \<Rightarrow> descr emu" where
  "decode_descriptor h dl dh = do {
     let d = descr_of dl dh;
     s \<leftarrow> gets id;
     if_then (log_trace s AND X86EMU_TRACE_ACC \<noteq> 0 \<and> log_on s) (log_line h 512 (\<lambda>_. descr_text dl dh d));
     return d
   }"

section \<open>Segment registers\<close>

definition put_sel :: "sel_ref \<Rightarrow> (sel_t \<Rightarrow> sel_t) \<Rightarrow> x86emu \<Rightarrow> x86emu" where
  "put_sel r f s = (case r of Seg n \<Rightarrow> s\<lparr>seg := (seg s)(n := f (seg s n))\<rparr>
     | Ldt \<Rightarrow> s\<lparr>ldt := f (ldt s)\<rparr> | Tr \<Rightarrow> s\<lparr>tr := f (tr s)\<rparr>)"

definition x86emu_set_seg_register :: "host \<Rightarrow> sel_ref \<Rightarrow> u16 \<Rightarrow> unit emu" where
  "x86emu_set_seg_register h sg val = do {
     s \<leftarrow> gets id;
     err \<leftarrow>
       (if MODE_REAL s then do {
          modify (put_sel sg (\<lambda>e. e\<lparr>sel_sel := val, sel_base := push_bit 4 (ucast val)\<rparr>));
          return False
        } else do {
          let ofs = (ucast (val AND NOT 7) :: u32);
          let dt_base = (if val AND 4 \<noteq> 0 then sel_base (ldt s) else R_GDT_BASE s);
          let dt_limit = (if val AND 4 \<noteq> 0 then sel_limit (ldt s) else R_GDT_LIMIT s);
          if ofs = 0 then do {
            modify (put_sel sg (\<lambda>e. \<lparr>sel_base = 0, sel_limit = 0, sel_sel = 0, sel_acc = 0\<rparr>));
            return False
          } else if ofs + 7 \<le> dt_limit then do {
            (err1, dl) \<leftarrow> emu_memio h (dt_base + ofs) 0 (X86EMU_MEMIO_32 + X86EMU_MEMIO_R);
            (err2, dh) \<leftarrow> emu_memio h (dt_base + ofs + 4) 0 (X86EMU_MEMIO_32 + X86EMU_MEMIO_R);
            if err1 OR err2 = 0 then do {
              d \<leftarrow> decode_descriptor h dl dh;
              if \<not> d_invalid d \<and> d_p d \<and> d_seg d then do {
                modify (put_sel sg (\<lambda>e. \<lparr>sel_base = d_base d, sel_limit = d_limit d, sel_sel = val, sel_acc = d_acc d\<rparr>));
                return False
              } else return True
            } else return True
          } else return True
        });
     if_then err (INTR_RAISE_GP (ucast val))
   }"

section \<open>Interrupts\<close>

text \<open>
  The interrupt's code segment and offset; what cannot be looked up stays as the caller
  has set it.
\<close>

definition idt_lookup :: "host \<Rightarrow> u8 \<Rightarrow> u32 \<Rightarrow> u32 \<Rightarrow> (u32 \<times> u32) emu" where
  "idt_lookup h nr new_cs new_eip = do {
     s \<leftarrow> gets id;
     if MODE_REAL s then do {
       let ofs = push_bit 2 (ucast nr :: u32);
       (err1, new_eip) \<leftarrow> decode_memio h (R_IDT_BASE s + ofs) new_eip (X86EMU_MEMIO_16 + X86EMU_MEMIO_R);
       (err2, new_cs) \<leftarrow> decode_memio h (R_IDT_BASE s + ofs + 2) new_cs (X86EMU_MEMIO_16 + X86EMU_MEMIO_R);
       return (new_cs, new_eip)
     } else do {
       let ofs = push_bit 3 (ucast nr :: u32);
       if ofs + 7 \<le> R_IDT_LIMIT s then do {
         (err1, dl) \<leftarrow> decode_memio h (R_IDT_BASE s + ofs) 0 (X86EMU_MEMIO_32 + X86EMU_MEMIO_R);
         (err2, dh) \<leftarrow> decode_memio h (R_IDT_BASE s + ofs + 4) 0 (X86EMU_MEMIO_32 + X86EMU_MEMIO_R);
         if err1 OR err2 = 0 then do {
           d1 \<leftarrow> decode_descriptor h dl dh;
           if \<not> d_invalid d1 \<and> d_p d1 \<and> d_i_gate d1 then return (ucast (d_sel d1), d_base d1)
           else return (new_cs, new_eip)
         } else return (new_cs, new_eip)
       } else return (new_cs, new_eip)
     }
   }"

definition call_intr :: "host \<Rightarrow> u8 \<Rightarrow> u32 \<Rightarrow> bool emu" where
  "call_intr h nr type = State (\<lambda>s. case intr s of None \<Rightarrow> (False, s) | Some n \<Rightarrow> user_intr h n s nr type)"

definition generate_int :: "host \<Rightarrow> u8 \<Rightarrow> u32 \<Rightarrow> u32 \<Rightarrow> unit emu" where
  "generate_int h nr type errcode = do {
     modify (\<lambda>s. s\<lparr>intr_stats := (intr_stats s)(unat nr := intr_stats s (unat nr) + 1)\<rparr>);
     i \<leftarrow> call_intr h nr type;
     if_then (\<not> i) (do {
       s \<leftarrow> gets id;
       let eip = (if type AND INTR_MODE_RESTART \<noteq> 0 then saved_eip s else R_EIP s);
       let cs = (if type AND INTR_MODE_RESTART \<noteq> 0 then ucast (saved_cs s) else ucast (R_CS s) :: u32);
       (new_cs, new_eip) \<leftarrow> idt_lookup h nr cs eip;
       s \<leftarrow> gets id;
       (if MODE_PROTECTED s \<and> MODE_CODE32 s then do {
         push_long h (R_FLG s);
         push_long h cs;
         push_long h eip
       } else do {
         push_word h (ucast (R_FLG s));
         push_word h (ucast cs);
         push_word h (ucast eip)
       });
       if_then (type AND INTR_MODE_ERRCODE \<noteq> 0) (push_long h errcode);
       modify (\<lambda>s. s\<lparr>R_FLG := CLEAR_FLAG F_TF (CLEAR_FLAG F_IF (R_FLG s))\<rparr>);
       x86emu_set_seg_register h (Seg R_CS_INDEX) (ucast new_cs);
       modify (\<lambda>s. s\<lparr>R_EIP := new_eip\<rparr>)
     })
   }"

definition intr_text :: "x86emu \<Rightarrow> string" where
  "intr_text s = (if intr_type s AND 0xff = INTR_TYPE_FAULT then ''* fault '' else ''* int '') @
     decode_hex2 (ucast (intr_nr s) AND 0xff) @ [CHR 0x0A]"

definition handle_interrupt :: "host \<Rightarrow> unit emu" where
  "handle_interrupt h = do {
     s \<leftarrow> gets id;
     if_then (intr_type s \<noteq> 0) (do {
       if_then (log_trace s AND X86EMU_TRACE_INTS \<noteq> 0 \<and> log_on s) (log_line h 128 intr_text);
       s \<leftarrow> gets id;
       generate_int h (intr_nr s) (intr_type s) (intr_errcode s)
     });
     modify (\<lambda>s. s\<lparr>intr_type := 0\<rparr>)
   }"

section \<open>The operations respect a discipline\<close>

lemma kept_put_sel [simp]: "kept (put_sel r f s) = kept s"
  by (simp add: put_sel_def kept_def control_def handlers_def split: sel_ref.split)

context discipline
begin

lemma emu_ok_descriptor [emu_oks]: "emu_ok (decode_descriptor h dl dh)"
  unfolding decode_descriptor_def by (intro emu_oks)

lemma emu_ok_set_seg [emu_oks]: "emu_ok (x86emu_set_seg_register h sg v)"
  unfolding x86emu_set_seg_register_def
  by (intro emu_oks emu_ok_modify emu_ok_emu_memio) simp_all

lemma emu_ok_idt_lookup [emu_oks]: "emu_ok (idt_lookup h nr c e)"
  unfolding idt_lookup_def by (intro emu_oks emu_ok_decode_memio) simp_all

lemma emu_ok_call_intr [emu_oks]: "emu_ok (call_intr h nr t)"
  unfolding call_intr_def by (rule emu_ok_kept) (simp add: sandboxed_def)

lemma emu_ok_generate_int [emu_oks]: "emu_ok (generate_int h nr t e)"
  unfolding generate_int_def
  by (intro emu_oks emu_ok_modify) (simp_all add: kept_def control_def handlers_def)

end

end
