(* ===== verification/Mul_Div.thy ===== *)
theory Mul_Div
  imports Access "HOL-Library.Signed_Division"
begin

text \<open>
  The multiplications and divisions of \<^verbatim>\<open>prim_ops.c\<close>, which work on the accumulator
  registers. A product of two operands is computed at twice their width; the C division
  truncates towards zero. The C code divides before it tests whether the quotient fits,
  and the host's own division traps when the quotient does not fit its width.
\<close>

section \<open>Multiplication\<close>

definition SET_FLAGS_FOR_MUL :: "bool \<Rightarrow> bool \<Rightarrow> u32 \<Rightarrow> u32 \<Rightarrow> u32" where
  "SET_FLAGS_FOR_MUL res_zero sign res_lo f =
     (let f = CONDITIONAL_SET_FLAG res_zero F_ZF f;
          f = CONDITIONAL_SET_FLAG sign F_SF f;
          f = CONDITIONAL_SET_FLAG (PARITY (res_lo AND 0xff)) F_PF f
      in CLEAR_FLAG F_AF f)"

definition set_cf_of :: "bool \<Rightarrow> u32 \<Rightarrow> u32" where
  "set_cf_of c f = (if c then SET_FLAG F_OF (SET_FLAG F_CF f) else CLEAR_FLAG F_OF (CLEAR_FLAG F_CF f))"

definition imul_byte :: "u8 \<Rightarrow> unit emu" where
  "imul_byte s = modify (\<lambda>m.
     let res = (scast (R_AL m) * scast s :: u16);
         m = m\<lparr>R_EAX := set_lo16 res (R_EAX m)\<rparr>;
         f = set_cf_of (sint res div 2 ^ 7 \<noteq> 0 \<and> sint res div 2 ^ 7 \<noteq> -1) (R_FLG m)
     in m\<lparr>R_FLG := SET_FLAGS_FOR_MUL (res = 0) (R_AL m AND 0x80 \<noteq> 0) (ucast (R_AL m)) f\<rparr>)"

text \<open>Low half, high half, and whether the product overflows the low half.\<close>

definition imul_word_direct :: "u16 \<Rightarrow> u16 \<Rightarrow> u16 \<times> u16 \<times> bool" where
  "imul_word_direct d s =
     (let res = (scast d * scast s :: u32)
      in (ucast res, ucast (drop_bit 16 res), sint res div 2 ^ 15 \<noteq> 0 \<and> sint res div 2 ^ 15 \<noteq> -1))"

definition imul_long_direct :: "u32 \<Rightarrow> u32 \<Rightarrow> u32 \<times> u32 \<times> bool" where
  "imul_long_direct d s =
     (let res = (scast d * scast s :: u64)
      in (ucast res, ucast (drop_bit 32 res), sint res div 2 ^ 31 \<noteq> 0 \<and> sint res div 2 ^ 31 \<noteq> -1))"

definition imul_word :: "u16 \<Rightarrow> unit emu" where
  "imul_word s = modify (\<lambda>m.
     let (lo, hi, ov) = imul_word_direct (R_AX m) s;
         m = m\<lparr>R_EAX := set_lo16 lo (R_EAX m), R_EDX := set_lo16 hi (R_EDX m)\<rparr>;
         f = set_cf_of ov (R_FLG m)
     in m\<lparr>R_FLG := SET_FLAGS_FOR_MUL (R_AX m OR R_DX m = 0) (R_AX m AND 0x8000 \<noteq> 0) (ucast (R_AX m)) f\<rparr>)"

definition imul_long :: "u32 \<Rightarrow> unit emu" where
  "imul_long s = modify (\<lambda>m.
     let (lo, hi, ov) = imul_long_direct (R_EAX m) s;
         m = m\<lparr>R_EAX := lo, R_EDX := hi\<rparr>;
         f = set_cf_of ov (R_FLG m)
     in m\<lparr>R_FLG := SET_FLAGS_FOR_MUL (R_EAX m OR R_EDX m = 0) (R_EAX m AND 0x80000000 \<noteq> 0) (R_EAX m) f\<rparr>)"

definition mul_byte :: "u8 \<Rightarrow> unit emu" where
  "mul_byte s = modify (\<lambda>m.
     let res = (ucast (R_AL m) * ucast s :: u16);
         m = m\<lparr>R_EAX := set_lo16 res (R_EAX m)\<rparr>;
         f = set_cf_of (R_AH m \<noteq> 0) (R_FLG m)
     in m\<lparr>R_FLG := SET_FLAGS_FOR_MUL (res = 0) (R_AL m AND 0x80 \<noteq> 0) (ucast (R_AL m)) f\<rparr>)"

definition mul_word :: "u16 \<Rightarrow> unit emu" where
  "mul_word s = modify (\<lambda>m.
     let res = (ucast (R_AX m) * ucast s :: u32);
         m = m\<lparr>R_EAX := set_lo16 (ucast res) (R_EAX m), R_EDX := set_lo16 (ucast (drop_bit 16 res)) (R_EDX m)\<rparr>;
         f = set_cf_of (R_DX m \<noteq> 0) (R_FLG m)
     in m\<lparr>R_FLG := SET_FLAGS_FOR_MUL (res = 0) (R_AX m AND 0x8000 \<noteq> 0) (ucast (R_AX m)) f\<rparr>)"

definition mul_long :: "u32 \<Rightarrow> unit emu" where
  "mul_long s = modify (\<lambda>m.
     let res = (ucast (R_EAX m) * ucast s :: u64);
         m = m\<lparr>R_EAX := ucast res, R_EDX := ucast (drop_bit 32 res)\<rparr>;
         f = set_cf_of (R_EDX m \<noteq> 0) (R_FLG m)
     in m\<lparr>R_FLG := SET_FLAGS_FOR_MUL (res = 0) (R_EAX m AND 0x80000000 \<noteq> 0) (R_EAX m) f\<rparr>)"

section \<open>Division\<close>

text \<open>The process ends here.\<close>

definition host_divide_trap :: "unit emu" where
  "host_divide_trap = modify (\<lambda>m. m\<lparr>host_trap := True\<rparr>)"

definition idiv_byte :: "u8 \<Rightarrow> unit emu" where
  "idiv_byte s = do {
     ax \<leftarrow> gets R_AX;
     let dividend = sint ax;
     if s = 0 then INTR_RAISE_DIV0 else do {
       let dv = dividend sdiv sint s;
       let md = dividend smod sint s;
       if dv div 2 ^ 7 \<noteq> 0 \<and> dv div 2 ^ 7 \<noteq> -1 then INTR_RAISE_DIV0
       else modify (\<lambda>m. m\<lparr>R_EAX := set_hi8 (word_of_int md) (set_lo8 (word_of_int dv) (R_EAX m))\<rparr>)
     }
   }"

definition idiv_word :: "u16 \<Rightarrow> unit emu" where
  "idiv_word s = do {
     dividend \<leftarrow> gets (\<lambda>m. sint (push_bit 16 (ucast (R_DX m)) + ucast (R_AX m) :: u32));
     if s = 0 then INTR_RAISE_DIV0
     else if dividend = - (2 ^ 31) \<and> sint s = -1 then host_divide_trap
     else do {
       let dv = dividend sdiv sint s;
       let md = dividend smod sint s;
       if dv div 2 ^ 15 \<noteq> 0 \<and> dv div 2 ^ 15 \<noteq> -1 then INTR_RAISE_DIV0
       else modify (\<lambda>m. m\<lparr>R_EAX := set_lo16 (word_of_int dv) (R_EAX m), R_EDX := set_lo16 (word_of_int md) (R_EDX m)\<rparr>)
     }
   }"

definition idiv_long :: "u32 \<Rightarrow> unit emu" where
  "idiv_long s = do {
     dividend \<leftarrow> gets (\<lambda>m. sint (push_bit 32 (ucast (R_EDX m)) + ucast (R_EAX m) :: u64));
     if s = 0 then INTR_RAISE_DIV0
     else if dividend = - (2 ^ 63) \<and> sint s = -1 then host_divide_trap
     else do {
       let dv = dividend sdiv sint s;
       let md = dividend smod sint s;
       if dv div 2 ^ 31 \<noteq> 0 \<and> dv div 2 ^ 31 \<noteq> -1 then INTR_RAISE_DIV0
       else modify (\<lambda>m. m\<lparr>R_EAX := word_of_int dv, R_EDX := word_of_int md\<rparr>)
     }
   }"

definition div_byte :: "u8 \<Rightarrow> unit emu" where
  "div_byte s = do {
     dividend \<leftarrow> gets (\<lambda>m. ucast (R_AX m) :: u32);
     if s = 0 then INTR_RAISE_DIV0 else do {
       let dv = dividend div ucast s;
       let md = dividend mod ucast s;
       if dv > 0xff then INTR_RAISE_DIV0
       else modify (\<lambda>m. m\<lparr>R_EAX := set_hi8 (ucast md) (set_lo8 (ucast dv) (R_EAX m))\<rparr>)
     }
   }"

definition div_word :: "u16 \<Rightarrow> unit emu" where
  "div_word s = do {
     dividend \<leftarrow> gets (\<lambda>m. push_bit 16 (ucast (R_DX m)) + ucast (R_AX m) :: u32);
     if s = 0 then INTR_RAISE_DIV0 else do {
       let dv = dividend div ucast s;
       let md = dividend mod ucast s;
       if dv > 0xffff then INTR_RAISE_DIV0
       else modify (\<lambda>m. m\<lparr>R_EAX := set_lo16 (ucast dv) (R_EAX m), R_EDX := set_lo16 (ucast md) (R_EDX m)\<rparr>)
     }
   }"

definition div_long :: "u32 \<Rightarrow> unit emu" where
  "div_long s = do {
     dividend \<leftarrow> gets (\<lambda>m. push_bit 32 (ucast (R_EDX m)) + ucast (R_EAX m) :: u64);
     if s = 0 then INTR_RAISE_DIV0 else do {
       let dv = dividend div ucast s;
       let md = dividend mod ucast s;
       if dv > 0xffffffff then INTR_RAISE_DIV0
       else modify (\<lambda>m. m\<lparr>R_EAX := ucast dv, R_EDX := ucast md\<rparr>)
     }
   }"

section \<open>The operations respect a discipline\<close>

context discipline
begin

lemma emu_ok_mul [emu_oks]:
  "emu_ok (imul_byte b)" "emu_ok (imul_word w)" "emu_ok (imul_long l)"
  "emu_ok (mul_byte b)" "emu_ok (mul_word w)" "emu_ok (mul_long l)"
  unfolding imul_byte_def imul_word_def imul_long_def mul_byte_def mul_word_def mul_long_def
  by (rule emu_ok_modify, simp add: kept_def control_def handlers_def Let_def case_prod_beta)+

lemma emu_ok_divide_trap [emu_oks]: "emu_ok host_divide_trap"
  unfolding host_divide_trap_def by (rule emu_ok_modify) (simp add: kept_def control_def handlers_def)

lemma emu_ok_div [emu_oks]:
  "emu_ok (idiv_byte b)" "emu_ok (idiv_word w)" "emu_ok (idiv_long l)"
  "emu_ok (div_byte b)" "emu_ok (div_word w)" "emu_ok (div_long l)"
  unfolding idiv_byte_def idiv_word_def idiv_long_def div_byte_def div_word_def div_long_def
  by (intro emu_oks emu_ok_modify; simp add: kept_def control_def handlers_def)+

end

section \<open>Correctness\<close>

text \<open>The double width accumulators.\<close>

definition dx_ax :: "x86emu \<Rightarrow> u32" where
  "dx_ax m = push_bit 16 (ucast (R_DX m)) + ucast (R_AX m)"

definition edx_eax :: "x86emu \<Rightarrow> u64" where
  "edx_eax m = push_bit 32 (ucast (R_EDX m)) + ucast (R_EAX m)"

lemma join_halves:
  "push_bit 16 (ucast (ucast (drop_bit 16 w) :: u16)) + ucast (ucast w :: u16) = w"
  "push_bit 32 (ucast (ucast (drop_bit 32 v) :: u32)) + ucast (ucast v :: u32) = v"
  for w :: u32 and v :: u64
proof -
  have "push_bit 16 (ucast (ucast (drop_bit 16 w) :: u16)) AND (ucast (ucast w :: u16) :: u32) = 0"
    by (rule bit_word_eqI) (auto simp: bit_simps)
  then have "push_bit 16 (ucast (ucast (drop_bit 16 w) :: u16)) + (ucast (ucast w :: u16) :: u32)
      = push_bit 16 (ucast (ucast (drop_bit 16 w) :: u16)) OR ucast (ucast w :: u16)"
    by (rule disjunctive_add_eq_or)
  also have "\<dots> = w" by (rule bit_word_eqI) (auto simp: bit_simps)
  finally show "push_bit 16 (ucast (ucast (drop_bit 16 w) :: u16)) + ucast (ucast w :: u16) = w" .
  have "push_bit 32 (ucast (ucast (drop_bit 32 v) :: u32)) AND (ucast (ucast v :: u32) :: u64) = 0"
    by (rule bit_word_eqI) (auto simp: bit_simps)
  then have "push_bit 32 (ucast (ucast (drop_bit 32 v) :: u32)) + (ucast (ucast v :: u32) :: u64)
      = push_bit 32 (ucast (ucast (drop_bit 32 v) :: u32)) OR ucast (ucast v :: u32)"
    by (rule disjunctive_add_eq_or)
  also have "\<dots> = v" by (rule bit_word_eqI) (auto simp: bit_simps)
  finally show "push_bit 32 (ucast (ucast (drop_bit 32 v) :: u32)) + ucast (ucast v :: u32) = v" .
qed

lemma mul_flags [flag_simps]:
  "ACCESS_FLAG F_CF (SET_FLAGS_FOR_MUL z n lo f) = ACCESS_FLAG F_CF f"
  "ACCESS_FLAG F_OF (SET_FLAGS_FOR_MUL z n lo f) = ACCESS_FLAG F_OF f"
  "ACCESS_FLAG F_CF (set_cf_of c f) = c" "ACCESS_FLAG F_OF (set_cf_of c f) = c"
  by (simp_all add: SET_FLAGS_FOR_MUL_def set_cf_of_def Let_def flag_simps)

lemma unat_mul_widen:
  fixes a b :: "'a::len word"
  assumes "2 * LENGTH('a) = LENGTH('b::len)"
  shows "unat (ucast a * ucast b :: 'b word) = unat a * unat b"
proof -
  have "unat a * unat b < 2 ^ LENGTH('a) * 2 ^ LENGTH('a)"
    by (intro mult_strict_mono) (simp_all add: unsigned_less)
  then have "unat a * unat b < 2 ^ LENGTH('b)" by (simp flip: assms power_add add: mult_2)
  moreover have "LENGTH('a) \<le> LENGTH('b)" using assms by simp
  ultimately show ?thesis by (simp add: unat_word_ariths)
qed

lemma sint_bounds: "- (2 ^ (LENGTH('a) - 1)) \<le> sint a \<and> sint a < 2 ^ (LENGTH('a) - 1)" for a :: "'a::len word"
  using sint_greater_eq[of a] sint_less[of a] by simp

lemma abs_mul_le: "- k \<le> x \<and> x < k \<Longrightarrow> - k \<le> y \<and> y < k \<Longrightarrow> - (k * k) \<le> x * y \<and> x * y \<le> k * k" for k x y :: int
proof -
  assume "- k \<le> x \<and> x < k" "- k \<le> y \<and> y < k"
  then have "\<bar>x\<bar> \<le> k" "\<bar>y\<bar> \<le> k" by auto
  then have "\<bar>x * y\<bar> \<le> k * k" unfolding abs_mult by (intro mult_mono) auto
  then show ?thesis by (simp add: abs_le_iff)
qed

lemma sint_mul_widen:
  fixes a b :: "'a::len word"
  assumes "2 * LENGTH('a) = LENGTH('b::len)"
  shows "sint (scast a * scast b :: 'b word) = sint a * sint b"
proof -
  let ?k = "2 ^ (LENGTH('a) - 1) :: int"
  have "LENGTH('a) - 1 + (LENGTH('a) - 1) < LENGTH('b) - 1" using assms len_gt_0[where 'a='a] by arith
  then have "?k * ?k < 2 ^ (LENGTH('b) - 1)" by (simp flip: power_add)
  with abs_mul_le[OF sint_bounds[of a] sint_bounds[of b]]
  have "- (2 ^ (LENGTH('b) - 1)) \<le> sint a * sint b" "sint a * sint b < 2 ^ (LENGTH('b) - 1)" by auto
  moreover have "sint (scast a :: 'b word) = sint a" "sint (scast b :: 'b word) = sint b"
    using assms by (simp_all add: sint_up_scast is_up)
  ultimately show ?thesis
    by (simp add: sint_word_ariths signed_take_bit_int_eq_self_iff)
qed

lemma fits_signed: "(x div 2 ^ n \<noteq> 0 \<and> x div 2 ^ n \<noteq> -1) = (\<not> (- (2 ^ n) \<le> x \<and> x < 2 ^ n))" for x :: int
proof -
  let ?p = "2 ^ n :: int"
  have p: "0 < ?p" by simp
  have m: "0 \<le> x mod ?p" "x mod ?p < ?p" using p by simp_all
  have x: "?p * (x div ?p) + x mod ?p = x" by (rule mult_div_mod_eq)
  show ?thesis
  proof (cases "- ?p \<le> x \<and> x < ?p")
    case True
    then have "?p * (x div ?p) < ?p * 1" "?p * (- 2) < ?p * (x div ?p)" using x m by linarith+
    then have "x div ?p < 1" "- 2 < x div ?p" using p by (simp_all only: mult_less_cancel_left_pos)
    then show ?thesis using True by auto
  next
    case False
    have "x div ?p \<noteq> 0"
    proof
      assume "x div ?p = 0"
      then have "x = x mod ?p" using x by simp
      then show False using False m by linarith
    qed
    moreover have "x div ?p \<noteq> -1"
    proof
      assume "x div ?p = -1"
      then have "x = - ?p + x mod ?p" using x by simp
      then show False using False m by linarith
    qed
    ultimately show ?thesis using False by simp
  qed
qed

lemma high_half:
  fixes v :: "'b::len word"
  assumes "2 * LENGTH('a::len) = LENGTH('b)"
  shows "((ucast (drop_bit LENGTH('a) v) :: 'a word) \<noteq> 0) = (2 ^ LENGTH('a) \<le> unat v)"
proof -
  have "unat v < 2 ^ LENGTH('a) * 2 ^ LENGTH('a)" using unsigned_less[of v] assms by (simp flip: power_add add: mult_2)
  then have "unat v div 2 ^ LENGTH('a) < 2 ^ LENGTH('a)" by (rule less_mult_imp_div_less)
  then have "unat (ucast (drop_bit LENGTH('a) v) :: 'a word) = unat v div 2 ^ LENGTH('a)"
    unfolding unsigned_ucast_eq unat_drop_bit_eq by (simp only: drop_bit_eq_div take_bit_nat_eq_self)
  then have "((ucast (drop_bit LENGTH('a) v) :: 'a word) = 0) = (unat v div 2 ^ LENGTH('a) = 0)"
    by (metis unat_eq_zero)
  then show ?thesis by (simp add: div_eq_0_iff not_less)
qed

lemma sint_low_half:
  fixes v :: "'b::len word"
  assumes "2 * LENGTH('a::len) = LENGTH('b)"
  shows "(\<not> (- (2 ^ (LENGTH('a) - 1)) \<le> sint v \<and> sint v < 2 ^ (LENGTH('a) - 1))) = (sint v \<noteq> sint (ucast v :: 'a word))"
proof -
  have less: "LENGTH('a) < LENGTH('b)" using assms len_gt_0[where 'a='a] by arith
  have "sint (ucast v :: 'a word) = signed_take_bit (LENGTH('a) - 1) (sint v)"
    by (rule bit_eqI) (use less in \<open>auto simp: bit_simps min_def\<close>)
  then show ?thesis using signed_take_bit_int_eq_self_iff[of "LENGTH('a) - 1" "sint v"] by metis
qed

lemmas widen_8 = unat_mul_widen[where 'a=8 and 'b=16, simplified] sint_mul_widen[where 'a=8 and 'b=16, simplified]
lemmas widen_16 = unat_mul_widen[where 'a=16 and 'b=32, simplified] sint_mul_widen[where 'a=16 and 'b=32, simplified]
lemmas widen_32 = unat_mul_widen[where 'a=32 and 'b=64, simplified] sint_mul_widen[where 'a=32 and 'b=64, simplified]

lemma mul_overflow:
  "(ucast (drop_bit 8 (ucast b * ucast b' :: u16)) \<noteq> (0 :: u8)) = (256 \<le> unat b * unat b')"
  "(ucast (drop_bit 16 (ucast w * ucast w' :: u32)) \<noteq> (0 :: u16)) = (65536 \<le> unat w * unat w')"
  "(ucast (drop_bit 32 (ucast l * ucast l' :: u64)) \<noteq> (0 :: u32)) = (4294967296 \<le> unat l * unat l')"
  for b b' :: u8 and w w' :: u16 and l l' :: u32
  using high_half[where 'a=8, of "ucast b * ucast b' :: u16"] high_half[where 'a=16, of "ucast w * ucast w' :: u32"]
    high_half[where 'a=32, of "ucast l * ucast l' :: u64"]
  by (simp_all add: widen_8 widen_16 widen_32)

lemma imul_overflow:
  "(sint b * sint b' div 128 \<noteq> 0 \<and> sint b * sint b' div 128 \<noteq> -1) =
     (sint b * sint b' \<noteq> sint (ucast (scast b * scast b' :: u16) :: u8))"
  "(sint w * sint w' div 32768 \<noteq> 0 \<and> sint w * sint w' div 32768 \<noteq> -1) =
     (sint w * sint w' \<noteq> sint (ucast (scast w * scast w' :: u32) :: u16))"
  "(sint l * sint l' div 2147483648 \<noteq> 0 \<and> sint l * sint l' div 2147483648 \<noteq> -1) =
     (sint l * sint l' \<noteq> sint (ucast (scast l * scast l' :: u64) :: u32))"
  for b b' :: u8 and w w' :: u16 and l l' :: u32
  using sint_low_half[where 'a=8, of "scast b * scast b' :: u16"] fits_signed[of "sint b * sint b'" 7]
    sint_low_half[where 'a=16, of "scast w * scast w' :: u32"] fits_signed[of "sint w * sint w'" 15]
    sint_low_half[where 'a=32, of "scast l * scast l' :: u64"] fits_signed[of "sint l * sint l'" 31]
  by (simp_all add: widen_8 widen_16 widen_32)

text \<open>
  C21. Multiplication leaves the exact product in the accumulators, unsigned for MUL and
  signed for IMUL, and sets CF and OF iff it does not fit the lower half.
\<close>

theorem mul_imul_correct:
  "(let m' = snd (run_state (mul_byte b) m) in unat (R_AX m') = unat (R_AL m) * unat b \<and>
      ACCESS_FLAG F_CF (R_FLG m') = (2 ^ 8 \<le> unat (R_AL m) * unat b) \<and> ACCESS_FLAG F_OF (R_FLG m') = (2 ^ 8 \<le> unat (R_AL m) * unat b)) \<and>
   (let m' = snd (run_state (mul_word w) m) in unat (dx_ax m') = unat (R_AX m) * unat w \<and>
      ACCESS_FLAG F_CF (R_FLG m') = (2 ^ 16 \<le> unat (R_AX m) * unat w) \<and> ACCESS_FLAG F_OF (R_FLG m') = (2 ^ 16 \<le> unat (R_AX m) * unat w)) \<and>
   (let m' = snd (run_state (mul_long l) m) in unat (edx_eax m') = unat (R_EAX m) * unat l \<and>
      ACCESS_FLAG F_CF (R_FLG m') = (2 ^ 32 \<le> unat (R_EAX m) * unat l) \<and> ACCESS_FLAG F_OF (R_FLG m') = (2 ^ 32 \<le> unat (R_EAX m) * unat l)) \<and>
   (let m' = snd (run_state (imul_byte b) m) in sint (R_AX m') = sint (R_AL m) * sint b \<and>
      ACCESS_FLAG F_CF (R_FLG m') = (sint (R_AX m') \<noteq> sint (R_AL m')) \<and> ACCESS_FLAG F_OF (R_FLG m') = (sint (R_AX m') \<noteq> sint (R_AL m'))) \<and>
   (let m' = snd (run_state (imul_word w) m) in sint (dx_ax m') = sint (R_AX m) * sint w \<and>
      ACCESS_FLAG F_CF (R_FLG m') = (sint (dx_ax m') \<noteq> sint (R_AX m')) \<and> ACCESS_FLAG F_OF (R_FLG m') = (sint (dx_ax m') \<noteq> sint (R_AX m'))) \<and>
   (let m' = snd (run_state (imul_long l) m) in sint (edx_eax m') = sint (R_EAX m) * sint l \<and>
      ACCESS_FLAG F_CF (R_FLG m') = (sint (edx_eax m') \<noteq> sint (R_EAX m')) \<and> ACCESS_FLAG F_OF (R_FLG m') = (sint (edx_eax m') \<noteq> sint (R_EAX m')))"
  apply (intro conjI)
       apply (simp_all add: mul_byte_def mul_word_def mul_long_def imul_byte_def imul_word_def imul_long_def
      imul_word_direct_def imul_long_direct_def Let_def dx_ax_def edx_eax_def join_halves flag_simps
      widen_8 widen_16 widen_32 mul_overflow imul_overflow)
  done

lemma unat_down: "unat x < 2 ^ LENGTH('a) \<Longrightarrow> unat (ucast x :: 'a::len word) = unat x" for x :: "'b::len word"
  by (simp add: unsigned_ucast_eq take_bit_nat_eq_self_iff)

lemma unat_div_down:
  fixes n :: "'b::len word" and d :: "'a::len word"
  assumes "LENGTH('a) \<le> LENGTH('b)" "d \<noteq> 0"
  shows "unat n div unat d < 2 ^ LENGTH('a) \<Longrightarrow> unat (ucast (n div ucast d) :: 'a word) = unat n div unat d"
    and "unat (ucast (n mod ucast d) :: 'a word) = unat n mod unat d"
proof -
  have "unat n mod unat d < unat d" by (rule mod_less_divisor) (simp add: unat_gt_0 assms(2))
  then have "unat n mod unat d < 2 ^ LENGTH('a)" using unsigned_less[of d] by (rule less_trans)
  then show "unat (ucast (n mod ucast d) :: 'a word) = unat n mod unat d"
    by (subst unat_down) (simp_all add: unat_mod assms(1))
  assume "unat n div unat d < 2 ^ LENGTH('a)"
  then show "unat (ucast (n div ucast d) :: 'a word) = unat n div unat d"
    by (subst unat_down) (simp_all add: unat_div assms(1))
qed

text \<open>
  C20. Unsigned division leaves quotient and remainder in the accumulators when the
  divisor is not zero and the quotient fits; otherwise it raises the divide error and
  changes no register.
\<close>

theorem div_correct:
  "(let m' = snd (run_state (div_byte b) m); n = unat (R_AX m) in
      if b \<noteq> 0 \<and> n div unat b < 2 ^ 8 then unat (R_AL m') = n div unat b \<and> unat (R_AH m') = n mod unat b \<and> intr_type m' = intr_type m
      else m' = snd (run_state INTR_RAISE_DIV0 m)) \<and>
   (let m' = snd (run_state (div_word w) m); n = unat (dx_ax m) in
      if w \<noteq> 0 \<and> n div unat w < 2 ^ 16 then unat (R_AX m') = n div unat w \<and> unat (R_DX m') = n mod unat w \<and> intr_type m' = intr_type m
      else m' = snd (run_state INTR_RAISE_DIV0 m)) \<and>
   (let m' = snd (run_state (div_long l) m); n = unat (edx_eax m) in
      if l \<noteq> 0 \<and> n div unat l < 2 ^ 32 then unat (R_EAX m') = n div unat l \<and> unat (R_EDX m') = n mod unat l \<and> intr_type m' = intr_type m
      else m' = snd (run_state INTR_RAISE_DIV0 m))"
  apply (intro conjI)
    apply (auto simp: div_byte_def div_word_def div_long_def Let_def dx_ax_def[symmetric] edx_eax_def[symmetric] unat_div word_less_nat_alt unat_div_down
      unat_div_down[of b "ucast (R_AX m) :: u32", simplified])
  done

lemma sint_of_int: "-(2 ^ (LENGTH('a) - 1)) \<le> x \<Longrightarrow> x < 2 ^ (LENGTH('a) - 1) \<Longrightarrow> sint (word_of_int x :: 'a::len word) = x"
  by (simp add: signed_of_int signed_take_bit_int_eq_self)

lemma smod_less: "d \<noteq> 0 \<Longrightarrow> \<bar>n smod d\<bar> < \<bar>d\<bar>" for n d :: int
  by (simp add: signed_modulo_int_def abs_mult abs_sgn_eq)

lemma sint_eq_0: "(sint w = 0) = (w = 0)" for w :: "'a::len word"
  using signed_word_eqI[of w 0] by auto

lemma sint_smod: "d \<noteq> 0 \<Longrightarrow> sint (word_of_int (n smod sint d) :: 'a::len word) = n smod sint d" for d :: "'a::len word"
  using smod_less[of "sint d" n] sint_bounds[of d] unfolding sint_eq_0 by (intro sint_of_int) linarith+

text \<open>Truncating division: the sum and the size of the remainder.\<close>

lemma sdiv_smod: "n = n sdiv d * d + n smod d" for n d :: int
  by (simp add: sdiv_mult_smod_eq)

lemma idiv_byte_run:
  "let m' = snd (run_state (idiv_byte b) m); n = sint (R_AX m); q = n sdiv sint b; r = n smod sint b in
     if b \<noteq> 0 \<and> -(2 ^ 7) \<le> q \<and> q < 2 ^ 7 then sint (R_AL m') = q \<and> sint (R_AH m') = r \<and> n = q * sint b + r \<and> \<bar>r\<bar> < \<bar>sint b\<bar>
     else m' = snd (run_state INTR_RAISE_DIV0 m)"
proof (cases "b = 0")
  case False
  define n where "n = sint (R_AX m)"
  define q r where "q = n sdiv sint b" and "r = n smod sint b"
  note eqs = n_def[symmetric] q_def[symmetric] r_def[symmetric]
  have r: "sint (word_of_int r :: u8) = r" unfolding r_def by (rule sint_smod[OF False])
  have s: "n = q * sint b + r" "\<bar>r\<bar> < \<bar>sint b\<bar>"
    unfolding q_def r_def using smod_less[of _ n] False by (simp_all add: sint_eq_0 sdiv_mult_smod_eq)
  show ?thesis
  proof (cases "-(2 ^ 7) \<le> q \<and> q < 2 ^ 7")
    case True
    then have fit: "(q div 2 ^ 7 \<noteq> 0 \<and> q div 2 ^ 7 \<noteq> -1) = False" unfolding fits_signed by simp
    have q: "sint (word_of_int q :: u8) = q" by (rule sint_of_int) (use True in simp_all)
    have run: "snd (run_state (idiv_byte b) m) = m\<lparr>R_EAX := set_hi8 (word_of_int r) (set_lo8 (word_of_int q) (R_EAX m))\<rparr>"
      using fit False by (auto simp: idiv_byte_def Let_def eqs)
    show ?thesis unfolding Let_def run eqs using True False r q s by simp
  next
    case f: False
    then have "q div 2 ^ 7 \<noteq> 0 \<and> q div 2 ^ 7 \<noteq> -1" unfolding fits_signed by simp
    then show ?thesis using f \<open>b \<noteq> 0\<close> by (auto simp: idiv_byte_def host_divide_trap_def Let_def eqs)
  qed
qed (simp add: idiv_byte_def Let_def)

lemma idiv_word_run:
  "let m' = snd (run_state (idiv_word w) m); n = sint (dx_ax m); q = n sdiv sint w; r = n smod sint w in
     if w \<noteq> 0 \<and> -(2 ^ 15) \<le> q \<and> q < 2 ^ 15 then sint (R_AX m') = q \<and> sint (R_DX m') = r \<and> n = q * sint w + r \<and> \<bar>r\<bar> < \<bar>sint w\<bar>
     else if n = -(2 ^ 31) \<and> sint w = -1 then m' = m\<lparr>host_trap := True\<rparr>
     else m' = snd (run_state INTR_RAISE_DIV0 m)"
proof (cases "w = 0")
  case False
  define n where "n = sint (dx_ax m)"
  define q r where "q = n sdiv sint w" and "r = n smod sint w"
  note eqs = n_def[symmetric] q_def[symmetric] r_def[symmetric]
  have r: "sint (word_of_int r :: u16) = r" unfolding r_def by (rule sint_smod[OF False])
  have s: "n = q * sint w + r" "\<bar>r\<bar> < \<bar>sint w\<bar>"
    unfolding q_def r_def using smod_less[of _ n] False by (simp_all add: sint_eq_0 sdiv_mult_smod_eq)
  show ?thesis
  proof (cases "-(2 ^ 15) \<le> q \<and> q < 2 ^ 15")
    case True
    then have fit: "(q div 2 ^ 15 \<noteq> 0 \<and> q div 2 ^ 15 \<noteq> -1) = False" unfolding fits_signed by simp
    have q: "sint (word_of_int q :: u16) = q" by (rule sint_of_int) (use True in simp_all)
    have "n = -(2 ^ 31) \<and> sint w = -1 \<Longrightarrow> False" using True by (simp add: q_def)
    then have run: "snd (run_state (idiv_word w) m) = m\<lparr>R_EAX := set_lo16 (word_of_int q) (R_EAX m), R_EDX := set_lo16 (word_of_int r) (R_EDX m)\<rparr>"
      using fit False by (auto simp: idiv_word_def Let_def dx_ax_def[symmetric] eqs)
    show ?thesis unfolding Let_def run eqs using True False r q s by simp
  next
    case f: False
    then have "q div 2 ^ 15 \<noteq> 0 \<and> q div 2 ^ 15 \<noteq> -1" unfolding fits_signed by simp
    then show ?thesis using f \<open>w \<noteq> 0\<close> by (auto simp: idiv_word_def host_divide_trap_def Let_def dx_ax_def[symmetric] eqs)
  qed
qed (simp add: idiv_word_def Let_def)

lemma idiv_long_run:
  "let m' = snd (run_state (idiv_long l) m); n = sint (edx_eax m); q = n sdiv sint l; r = n smod sint l in
     if l \<noteq> 0 \<and> -(2 ^ 31) \<le> q \<and> q < 2 ^ 31 then sint (R_EAX m') = q \<and> sint (R_EDX m') = r \<and> n = q * sint l + r \<and> \<bar>r\<bar> < \<bar>sint l\<bar>
     else if n = -(2 ^ 63) \<and> sint l = -1 then m' = m\<lparr>host_trap := True\<rparr>
     else m' = snd (run_state INTR_RAISE_DIV0 m)"
proof (cases "l = 0")
  case False
  define n where "n = sint (edx_eax m)"
  define q r where "q = n sdiv sint l" and "r = n smod sint l"
  note eqs = n_def[symmetric] q_def[symmetric] r_def[symmetric]
  have r: "sint (word_of_int r :: u32) = r" unfolding r_def by (rule sint_smod[OF False])
  have s: "n = q * sint l + r" "\<bar>r\<bar> < \<bar>sint l\<bar>"
    unfolding q_def r_def using smod_less[of _ n] False by (simp_all add: sint_eq_0 sdiv_mult_smod_eq)
  show ?thesis
  proof (cases "-(2 ^ 31) \<le> q \<and> q < 2 ^ 31")
    case True
    then have fit: "(q div 2 ^ 31 \<noteq> 0 \<and> q div 2 ^ 31 \<noteq> -1) = False" unfolding fits_signed by simp
    have q: "sint (word_of_int q :: u32) = q" by (rule sint_of_int) (use True in simp_all)
    have "n = -(2 ^ 63) \<and> sint l = -1 \<Longrightarrow> False" using True by (simp add: q_def)
    then have run: "snd (run_state (idiv_long l) m) = m\<lparr>R_EAX := word_of_int q, R_EDX := word_of_int r\<rparr>"
      using fit False by (auto simp: idiv_long_def Let_def edx_eax_def[symmetric] eqs)
    show ?thesis unfolding Let_def run eqs using True False r q s by simp
  next
    case f: False
    then have "q div 2 ^ 31 \<noteq> 0 \<and> q div 2 ^ 31 \<noteq> -1" unfolding fits_signed by simp
    then show ?thesis using f \<open>l \<noteq> 0\<close> by (auto simp: idiv_long_def host_divide_trap_def Let_def edx_eax_def[symmetric] eqs)
  qed
qed (simp add: idiv_long_def Let_def)

text \<open>
  C19. Signed division truncates towards zero: when the divisor is not zero and the
  quotient fits, the dividend is quotient times divisor plus remainder, the remainder
  is smaller than the divisor and has the sign of the dividend; otherwise the divide
  error is raised. The one exception is the smallest dividend divided by -1, where the
  host's division traps before the test for a quotient that does not fit.
\<close>

theorem idiv_correct:
  "(let m' = snd (run_state (idiv_byte b) m); n = sint (R_AX m); q = n sdiv sint b; r = n smod sint b in
      if b \<noteq> 0 \<and> -(2 ^ 7) \<le> q \<and> q < 2 ^ 7 then sint (R_AL m') = q \<and> sint (R_AH m') = r \<and> n = q * sint b + r \<and> \<bar>r\<bar> < \<bar>sint b\<bar>
      else m' = snd (run_state INTR_RAISE_DIV0 m)) \<and>
   (let m' = snd (run_state (idiv_word w) m); n = sint (dx_ax m); q = n sdiv sint w; r = n smod sint w in
      if w \<noteq> 0 \<and> -(2 ^ 15) \<le> q \<and> q < 2 ^ 15 then sint (R_AX m') = q \<and> sint (R_DX m') = r \<and> n = q * sint w + r \<and> \<bar>r\<bar> < \<bar>sint w\<bar>
      else if n = -(2 ^ 31) \<and> sint w = -1 then m' = m\<lparr>host_trap := True\<rparr>
      else m' = snd (run_state INTR_RAISE_DIV0 m)) \<and>
   (let m' = snd (run_state (idiv_long l) m); n = sint (edx_eax m); q = n sdiv sint l; r = n smod sint l in
      if l \<noteq> 0 \<and> -(2 ^ 31) \<le> q \<and> q < 2 ^ 31 then sint (R_EAX m') = q \<and> sint (R_EDX m') = r \<and> n = q * sint l + r \<and> \<bar>r\<bar> < \<bar>sint l\<bar>
      else if n = -(2 ^ 63) \<and> sint l = -1 then m' = m\<lparr>host_trap := True\<rparr>
      else m' = snd (run_state INTR_RAISE_DIV0 m))"
  by (intro conjI idiv_byte_run idiv_word_run idiv_long_run)

end
