(* ===== verification/Carry_Chain.thy ===== *)
theory Carry_Chain
  imports Flags
begin

text \<open>
  The carry chain and the borrow chain of the comment at the top of
  \<^verbatim>\<open>prim_ops.c\<close>: the bit formulas the code evaluates compute, at every bit
  position, the carry (the borrow) out of that position, and the exclusive or of
  the last two is signed overflow. The abstract meaning of the arithmetic flags
  is stated here, on words of any width.
\<close>

section \<open>Carry into a bit position\<close>

lemma mod_sum3: "(x mod m + y mod m + z) mod m = (x + y + z) mod m" for x y z m :: nat
  by (metis mod_add_left_eq mod_add_eq)

definition carry_in :: "nat \<Rightarrow> nat \<Rightarrow> bool \<Rightarrow> nat \<Rightarrow> bool" where
  "carry_in x y c i \<longleftrightarrow> 2 ^ i \<le> take_bit i x + take_bit i y + of_bool c"

lemma carry_in_0 [simp]: "carry_in x y c 0 = c"
  by (simp add: carry_in_def)

lemma low_sum_div: "(take_bit i x + take_bit i y + of_bool c) div 2 ^ i = of_bool (carry_in x y c i)"
  for x y :: nat
proof -
  have "take_bit i x + take_bit i y + of_bool c < 2 * 2 ^ i"
    using take_bit_nat_less_exp[of i x] take_bit_nat_less_exp[of i y]
    by (cases c; simp only: of_bool_eq; linarith)
  then show ?thesis by (cases "carry_in x y c i") (auto simp: carry_in_def div_nat_eqI)
qed

lemma sum_div:
  "(x + y + of_bool c) div 2 ^ i = x div 2 ^ i + y div 2 ^ i + of_bool (carry_in x y c i)"
  for x y :: nat
proof -
  let ?lo = "take_bit i x + take_bit i y + of_bool c"
  have "x + y = (x div 2 ^ i + y div 2 ^ i) * 2 ^ i + (take_bit i x + take_bit i y)"
    by (simp add: algebra_simps take_bit_eq_mod)
  then have eq: "x + y + of_bool c = (x div 2 ^ i + y div 2 ^ i) * 2 ^ i + ?lo" by linarith
  have "(q * 2 ^ i + l) div 2 ^ i = q + l div 2 ^ i" for q l :: nat by simp
  then show ?thesis by (simp only: eq low_sum_div)
qed

lemma bit_sum: "bit (x + y + of_bool c) i = (bit x i \<noteq> (bit y i \<noteq> carry_in x y c i))" for x y :: nat
  by (auto simp: bit_iff_odd sum_div)

lemma carry_in_Suc:
  "carry_in x y c (Suc i) =
    (bit x i \<and> bit y i \<or> (bit x i \<or> bit y i) \<and> carry_in x y c i)"
proof -
  have "carry_in x y c (Suc i) \<longleftrightarrow> 2 * 2 ^ i \<le>
      2 ^ i * of_bool (bit x i) + take_bit i x + (2 ^ i * of_bool (bit y i) + take_bit i y) + of_bool c"
    by (simp add: carry_in_def take_bit_Suc_from_most ac_simps)
  then show ?thesis
    using take_bit_nat_less_exp[of i x] take_bit_nat_less_exp[of i y] unfolding carry_in_def
    by (cases "bit x i"; cases "bit y i"; cases c; simp only: of_bool_eq simp_thms; linarith)
qed

section \<open>The chains on words\<close>

lemma unat_of_bool: "unat (of_bool c :: 'a::len word) = of_bool c"
  by (cases c) simp_all

lemma bit_word_sum:
  fixes a b :: "'a::len word"
  assumes "i < LENGTH('a)"
  shows "bit (a + b + of_bool c) i =
    (bit a i \<noteq> (bit b i \<noteq> carry_in (unat a) (unat b) c i))"
proof -
  have "unat (a + b + of_bool c) = take_bit LENGTH('a) (unat a + unat b + of_bool c)"
    by (simp add: unat_word_ariths take_bit_eq_mod mod_simps unat_of_bool)
  then have "bit (unat (a + b + of_bool c)) i = bit (unat a + unat b + of_bool c) i"
    using assms by (simp add: bit_take_bit_iff)
  then show ?thesis using assms by (simp add: bit_sum bit_unsigned_iff)
qed

text \<open>The carry chain \<open>cc = ab + r'(a + b)\<close>.\<close>

lemma carry_chain:
  fixes a b :: "'a::len word"
  assumes "i < LENGTH('a)"
  shows "bit ((b AND a) OR (NOT (a + b + of_bool c) AND (b OR a))) i =
    carry_in (unat a) (unat b) c (Suc i)"
  using assms by (auto simp: bit_word_sum carry_in_Suc bit_unsigned_iff bit_simps)

text \<open>
  The borrow chain \<open>bc = a'b + r(a' + b)\<close>: the borrow of \<open>a - b - c\<close> is the carry of
  the addition \<open>r + b + c\<close> that gives \<open>a\<close> back.
\<close>

definition borrow_in :: "nat \<Rightarrow> nat \<Rightarrow> bool \<Rightarrow> nat \<Rightarrow> bool" where
  "borrow_in x y c i \<longleftrightarrow> take_bit i x < take_bit i y + of_bool c"

lemma carry_in_diff:
  fixes a b r :: "'a::len word"
  assumes "i \<le> LENGTH('a)" and r: "a = r + b + of_bool c"
  shows "carry_in (unat r) (unat b) c i = borrow_in (unat a) (unat b) c i"
proof -
  let ?lo = "take_bit i (unat r) + take_bit i (unat b) + of_bool c"
  have "unat a = take_bit LENGTH('a) (unat r + unat b + of_bool c)"
    by (simp add: r unat_word_ariths take_bit_eq_mod mod_simps unat_of_bool)
  then have "take_bit i (unat a) = take_bit i (unat r + unat b + of_bool c)"
    using assms(1) by (simp add: take_bit_take_bit min_def)
  also have "\<dots> = ?lo mod 2 ^ i"
    by (simp only: take_bit_eq_mod mod_sum3)
  finally have a: "take_bit i (unat a) = ?lo mod 2 ^ i" .
  have lt: "take_bit i (unat r) < 2 ^ i" "?lo < 2 * 2 ^ i"
    using take_bit_nat_less_exp[of i "unat r"] take_bit_nat_less_exp[of i "unat b"]
    by (cases c; simp only: of_bool_eq; linarith)+
  show ?thesis
  proof (cases "2 ^ i \<le> ?lo")
    case True
    then have "?lo mod 2 ^ i = ?lo - 2 ^ i" using lt by (simp add: mod_if)
    then show ?thesis using True lt unfolding carry_in_def borrow_in_def a
      by (cases c; simp only: of_bool_eq; linarith)
  next
    case False
    then show ?thesis by (simp add: carry_in_def borrow_in_def a)
  qed
qed

lemma borrow_chain:
  fixes a b r :: "'a::len word"
  assumes "i < LENGTH('a)" and r: "r = a - b - of_bool c"
  shows "bit ((r AND (NOT a OR b)) OR (NOT a AND b)) i =
    borrow_in (unat a) (unat b) c (Suc i)"
proof -
  have a: "a = r + b + of_bool c" by (simp add: r)
  have "bit a i = (bit r i \<noteq> (bit b i \<noteq> carry_in (unat r) (unat b) c i))"
    using assms(1) unfolding a by (rule bit_word_sum)
  then have "bit ((r AND (NOT a OR b)) OR (NOT a AND b)) i = carry_in (unat r) (unat b) c (Suc i)"
    using assms(1) by (auto simp: carry_in_Suc bit_unsigned_iff bit_simps)
  also have "\<dots> = borrow_in (unat a) (unat b) c (Suc i)"
    using assms(1) a by (intro carry_in_diff) simp_all
  finally show ?thesis .
qed

section \<open>Signed overflow\<close>

lemma sint_split:
  "sint w = int (take_bit (LENGTH('a) - 1) (unat w)) - 2 ^ (LENGTH('a) - 1) * of_bool (bit w (LENGTH('a) - 1))"
  for w :: "'a::len word"
proof -
  obtain n where n: "LENGTH('a) = Suc n" by (cases "LENGTH('a)") auto
  have "sint w = signed_take_bit n (uint w)" by (simp add: sint_uint n)
  also have "\<dots> = take_bit n (uint w) - 2 ^ n * of_bool (bit w n)"
    by (simp add: signed_take_bit_eq_take_bit_minus bit_uint_iff take_bit_Suc_from_most n)
  finally show ?thesis by (simp add: n of_nat_take_bit)
qed

lemma overflow_cases:
  fixes A B R Z k :: int
  assumes "R + Z * of_bool C = A + B + k" and "0 < Z"
  shows "(A - Z * of_bool p + (B - Z * of_bool q) + k \<noteq> R - Z * of_bool (p \<noteq> (q \<noteq> C))) =
    (C \<noteq> (p \<and> q \<or> (p \<or> q) \<and> C))"
  using assms by (cases p; cases q; cases C; simp only: of_bool_eq simp_thms; linarith)

lemma signed_overflow_add:
  "(sint a + sint b + of_bool c \<noteq> sint (a + b + of_bool c)) =
    (carry_in (unat a) (unat b) c (LENGTH('a) - 1) \<noteq> carry_in (unat a) (unat b) c LENGTH('a))"
  for a b :: "'a::len word"
proof -
  let ?n = "LENGTH('a) - 1"
  let ?C = "carry_in (unat a) (unat b) c ?n"
  let ?lo = "take_bit ?n (unat a) + take_bit ?n (unat b) + of_bool c"
  have n: "?n < LENGTH('a)" and Suc: "LENGTH('a) = Suc ?n" by simp_all
  have "unat (a + b + of_bool c) = take_bit LENGTH('a) (unat a + unat b + of_bool c)"
    by (simp add: unat_word_ariths take_bit_eq_mod mod_simps unat_of_bool)
  then have "take_bit ?n (unat (a + b + of_bool c)) = take_bit ?n (unat a + unat b + of_bool c)"
    by (simp add: min_def)
  also have "\<dots> = ?lo mod 2 ^ ?n" by (simp only: take_bit_eq_mod mod_sum3)
  finally have "take_bit ?n (unat (a + b + of_bool c)) = ?lo mod 2 ^ ?n" .
  also have "\<dots> = ?lo - 2 ^ ?n * of_bool ?C"
    by (simp only: minus_div_mult_eq_mod[symmetric] low_sum_div) (simp add: mult.commute)
  finally have lo: "take_bit ?n (unat (a + b + of_bool c)) + 2 ^ ?n * of_bool ?C = ?lo"
    by (auto simp: carry_in_def)
  have bits: "bit (a + b + of_bool c) ?n = (bit a ?n \<noteq> (bit b ?n \<noteq> ?C))"
    by (rule bit_word_sum[OF n])
  have CS: "carry_in (unat a) (unat b) c LENGTH('a) =
      (bit a ?n \<and> bit b ?n \<or> (bit a ?n \<or> bit b ?n) \<and> ?C)"
    using n by (subst Suc, subst carry_in_Suc) (simp add: bit_unsigned_iff)
  have "int (take_bit ?n (unat (a + b + of_bool c))) + 2 ^ ?n * of_bool ?C = int ?lo"
    using arg_cong[OF lo, of int] by simp
  then have "int (take_bit ?n (unat (a + b + of_bool c))) + 2 ^ ?n * of_bool ?C =
      int (take_bit ?n (unat a)) + int (take_bit ?n (unat b)) + of_bool c"
    by simp
  from overflow_cases[OF this, of "bit a ?n" "bit b ?n"] show ?thesis
    by (simp only: sint_split bits CS) simp
qed

lemma signed_overflow_sub:
  "(sint a - sint b - of_bool c \<noteq> sint (a - b - of_bool c)) =
    (borrow_in (unat a) (unat b) c (LENGTH('a) - 1) \<noteq> borrow_in (unat a) (unat b) c LENGTH('a))"
  for a b :: "'a::len word"
proof -
  let ?r = "a - b - of_bool c"
  have a: "a = ?r + b + of_bool c" by simp
  have "(sint a - sint b - of_bool c \<noteq> sint ?r) = (sint ?r + sint b + of_bool c \<noteq> sint a)" by auto
  also have "\<dots> = (carry_in (unat ?r) (unat b) c (LENGTH('a) - 1) \<noteq> carry_in (unat ?r) (unat b) c LENGTH('a))"
    using signed_overflow_add[of ?r b c] by simp
  finally show ?thesis by (simp only: carry_in_diff[OF _ a] le_refl diff_le_self)
qed

end
