(* ===== verification/Alu_Arith.thy ===== *)
theory Alu_Arith
  imports Carry_Chain
begin

text \<open>
  The two-operand arithmetic and logic primitives of \<^verbatim>\<open>prim_ops.c\<close> (ADC, ADD,
  AND, CMP, DEC, INC, OR, NEG, NOT, SBB, SUB, TEST, XOR at 8, 16 and 32 bits), and
  the proof that each computes the result and the six arithmetic flags of the
  abstract specification and leaves every other flag alone.

  A C primitive takes the emulator and reads and writes only its flags register, so
  the model takes the register \<open>f\<close> and returns it beside the result. Each
  \<open>CONDITIONAL_SET_FLAG\<close> of the source is one binding of \<open>f\<close>, in the source's order.
\<close>

section \<open>The primitives\<close>

subsection \<open>ADC and ADD\<close>

definition adc_byte :: "u32 \<Rightarrow> u8 \<Rightarrow> u8 \<Rightarrow> u8 \<times> u32" where
  "adc_byte f d s =
     (let d = (ucast d :: u32);
      s = (ucast s :: u32);
      res = (if ACCESS_FLAG F_CF f then 1 + d + s else d + s);
      f = CONDITIONAL_SET_FLAG (res AND 0x100 \<noteq> 0) F_CF f;
      f = CONDITIONAL_SET_FLAG (res AND 0xff = 0) F_ZF f;
      f = CONDITIONAL_SET_FLAG (res AND 0x80 \<noteq> 0) F_SF f;
      f = CONDITIONAL_SET_FLAG (PARITY (res AND 0xff)) F_PF f;
      cc = (s AND d) OR (NOT res AND (s OR d));
      f = CONDITIONAL_SET_FLAG (XOR2 (drop_bit 6 cc)) F_OF f;
      f = CONDITIONAL_SET_FLAG (cc AND 0x8 \<noteq> 0) F_AF f
      in (ucast res, f))"

definition adc_word :: "u32 \<Rightarrow> u16 \<Rightarrow> u16 \<Rightarrow> u16 \<times> u32" where
  "adc_word f d s =
     (let d = (ucast d :: u32);
      s = (ucast s :: u32);
      res = (if ACCESS_FLAG F_CF f then 1 + d + s else d + s);
      f = CONDITIONAL_SET_FLAG (res AND 0x10000 \<noteq> 0) F_CF f;
      f = CONDITIONAL_SET_FLAG (res AND 0xffff = 0) F_ZF f;
      f = CONDITIONAL_SET_FLAG (res AND 0x8000 \<noteq> 0) F_SF f;
      f = CONDITIONAL_SET_FLAG (PARITY (res AND 0xff)) F_PF f;
      cc = (s AND d) OR (NOT res AND (s OR d));
      f = CONDITIONAL_SET_FLAG (XOR2 (drop_bit 14 cc)) F_OF f;
      f = CONDITIONAL_SET_FLAG (cc AND 0x8 \<noteq> 0) F_AF f
      in (ucast res, f))"

definition adc_long :: "u32 \<Rightarrow> u32 \<Rightarrow> u32 \<Rightarrow> u32 \<times> u32" where
  "adc_long f d s =
     (let lo = (if ACCESS_FLAG F_CF f then 1 + (d AND 0xFFFF) + (s AND 0xFFFF)
            else (d AND 0xFFFF) + (s AND 0xFFFF));
      res = (if ACCESS_FLAG F_CF f then 1 + d + s else d + s);
      hi = drop_bit 16 lo + drop_bit 16 d + drop_bit 16 s;
      f = CONDITIONAL_SET_FLAG (hi AND 0x10000 \<noteq> 0) F_CF f;
      f = CONDITIONAL_SET_FLAG (res AND 0xffffffff = 0) F_ZF f;
      f = CONDITIONAL_SET_FLAG (res AND 0x80000000 \<noteq> 0) F_SF f;
      f = CONDITIONAL_SET_FLAG (PARITY (res AND 0xff)) F_PF f;
      cc = (s AND d) OR (NOT res AND (s OR d));
      f = CONDITIONAL_SET_FLAG (XOR2 (drop_bit 30 cc)) F_OF f;
      f = CONDITIONAL_SET_FLAG (cc AND 0x8 \<noteq> 0) F_AF f
      in (res, f))"

definition add_byte :: "u32 \<Rightarrow> u8 \<Rightarrow> u8 \<Rightarrow> u8 \<times> u32" where
  "add_byte f d s =
     (let d = (ucast d :: u32);
      s = (ucast s :: u32);
      res = d + s;
      f = CONDITIONAL_SET_FLAG (res AND 0x100 \<noteq> 0) F_CF f;
      f = CONDITIONAL_SET_FLAG (res AND 0xff = 0) F_ZF f;
      f = CONDITIONAL_SET_FLAG (res AND 0x80 \<noteq> 0) F_SF f;
      f = CONDITIONAL_SET_FLAG (PARITY (res AND 0xff)) F_PF f;
      cc = (s AND d) OR (NOT res AND (s OR d));
      f = CONDITIONAL_SET_FLAG (XOR2 (drop_bit 6 cc)) F_OF f;
      f = CONDITIONAL_SET_FLAG (cc AND 0x8 \<noteq> 0) F_AF f
      in (ucast res, f))"

definition add_word :: "u32 \<Rightarrow> u16 \<Rightarrow> u16 \<Rightarrow> u16 \<times> u32" where
  "add_word f d s =
     (let d = (ucast d :: u32);
      s = (ucast s :: u32);
      res = d + s;
      f = CONDITIONAL_SET_FLAG (res AND 0x10000 \<noteq> 0) F_CF f;
      f = CONDITIONAL_SET_FLAG (res AND 0xffff = 0) F_ZF f;
      f = CONDITIONAL_SET_FLAG (res AND 0x8000 \<noteq> 0) F_SF f;
      f = CONDITIONAL_SET_FLAG (PARITY (res AND 0xff)) F_PF f;
      cc = (s AND d) OR (NOT res AND (s OR d));
      f = CONDITIONAL_SET_FLAG (XOR2 (drop_bit 14 cc)) F_OF f;
      f = CONDITIONAL_SET_FLAG (cc AND 0x8 \<noteq> 0) F_AF f
      in (ucast res, f))"

definition add_long :: "u32 \<Rightarrow> u32 \<Rightarrow> u32 \<Rightarrow> u32 \<times> u32" where
  "add_long f d s =
     (let lo = (d AND 0xFFFF) + (s AND 0xFFFF);
      res = d + s;
      hi = drop_bit 16 lo + drop_bit 16 d + drop_bit 16 s;
      f = CONDITIONAL_SET_FLAG (hi AND 0x10000 \<noteq> 0) F_CF f;
      f = CONDITIONAL_SET_FLAG (res AND 0xffffffff = 0) F_ZF f;
      f = CONDITIONAL_SET_FLAG (res AND 0x80000000 \<noteq> 0) F_SF f;
      f = CONDITIONAL_SET_FLAG (PARITY (res AND 0xff)) F_PF f;
      cc = (s AND d) OR (NOT res AND (s OR d));
      f = CONDITIONAL_SET_FLAG (XOR2 (drop_bit 30 cc)) F_OF f;
      f = CONDITIONAL_SET_FLAG (cc AND 0x8 \<noteq> 0) F_AF f
      in (res, f))"

subsection \<open>AND, CMP, DEC, INC, OR\<close>

definition and_byte :: "u32 \<Rightarrow> u8 \<Rightarrow> u8 \<Rightarrow> u8 \<times> u32" where
  "and_byte f d s =
     (let res = d AND s;
      f = CLEAR_FLAG F_OF f;
      f = CLEAR_FLAG F_CF f;
      f = CLEAR_FLAG F_AF f;
      f = CONDITIONAL_SET_FLAG (res AND 0x80 \<noteq> 0) F_SF f;
      f = CONDITIONAL_SET_FLAG (res = 0) F_ZF f;
      f = CONDITIONAL_SET_FLAG (PARITY (ucast res)) F_PF f
      in (res, f))"

definition and_word :: "u32 \<Rightarrow> u16 \<Rightarrow> u16 \<Rightarrow> u16 \<times> u32" where
  "and_word f d s =
     (let res = d AND s;
      f = CLEAR_FLAG F_OF f;
      f = CLEAR_FLAG F_CF f;
      f = CLEAR_FLAG F_AF f;
      f = CONDITIONAL_SET_FLAG (res AND 0x8000 \<noteq> 0) F_SF f;
      f = CONDITIONAL_SET_FLAG (res = 0) F_ZF f;
      f = CONDITIONAL_SET_FLAG (PARITY (ucast res AND 0xff)) F_PF f
      in (res, f))"

definition and_long :: "u32 \<Rightarrow> u32 \<Rightarrow> u32 \<Rightarrow> u32 \<times> u32" where
  "and_long f d s =
     (let res = d AND s;
      f = CLEAR_FLAG F_OF f;
      f = CLEAR_FLAG F_CF f;
      f = CLEAR_FLAG F_AF f;
      f = CONDITIONAL_SET_FLAG (res AND 0x80000000 \<noteq> 0) F_SF f;
      f = CONDITIONAL_SET_FLAG (res = 0) F_ZF f;
      f = CONDITIONAL_SET_FLAG (PARITY (res AND 0xff)) F_PF f
      in (res, f))"

definition cmp_byte :: "u32 \<Rightarrow> u8 \<Rightarrow> u8 \<Rightarrow> u8 \<times> u32" where
  "cmp_byte f d s =
     (let d0 = d;
      d = (ucast d :: u32);
      s = (ucast s :: u32);
      res = d - s;
      f = CLEAR_FLAG F_CF f;
      f = CONDITIONAL_SET_FLAG (res AND 0x80 \<noteq> 0) F_SF f;
      f = CONDITIONAL_SET_FLAG (res AND 0xff = 0) F_ZF f;
      f = CONDITIONAL_SET_FLAG (PARITY (res AND 0xff)) F_PF f;
      bc = (res AND (NOT d OR s)) OR (NOT d AND s);
      f = CONDITIONAL_SET_FLAG (bc AND 0x80 \<noteq> 0) F_CF f;
      f = CONDITIONAL_SET_FLAG (XOR2 (drop_bit 6 bc)) F_OF f;
      f = CONDITIONAL_SET_FLAG (bc AND 0x8 \<noteq> 0) F_AF f
      in (d0, f))"

definition cmp_word :: "u32 \<Rightarrow> u16 \<Rightarrow> u16 \<Rightarrow> u16 \<times> u32" where
  "cmp_word f d s =
     (let d0 = d;
      d = (ucast d :: u32);
      s = (ucast s :: u32);
      res = d - s;
      f = CONDITIONAL_SET_FLAG (res AND 0x8000 \<noteq> 0) F_SF f;
      f = CONDITIONAL_SET_FLAG (res AND 0xffff = 0) F_ZF f;
      f = CONDITIONAL_SET_FLAG (PARITY (res AND 0xff)) F_PF f;
      bc = (res AND (NOT d OR s)) OR (NOT d AND s);
      f = CONDITIONAL_SET_FLAG (bc AND 0x8000 \<noteq> 0) F_CF f;
      f = CONDITIONAL_SET_FLAG (XOR2 (drop_bit 14 bc)) F_OF f;
      f = CONDITIONAL_SET_FLAG (bc AND 0x8 \<noteq> 0) F_AF f
      in (d0, f))"

definition cmp_long :: "u32 \<Rightarrow> u32 \<Rightarrow> u32 \<Rightarrow> u32 \<times> u32" where
  "cmp_long f d s =
     (let d0 = d;
      res = d - s;
      f = CONDITIONAL_SET_FLAG (res AND 0x80000000 \<noteq> 0) F_SF f;
      f = CONDITIONAL_SET_FLAG (res AND 0xffffffff = 0) F_ZF f;
      f = CONDITIONAL_SET_FLAG (PARITY (res AND 0xff)) F_PF f;
      bc = (res AND (NOT d OR s)) OR (NOT d AND s);
      f = CONDITIONAL_SET_FLAG (bc AND 0x80000000 \<noteq> 0) F_CF f;
      f = CONDITIONAL_SET_FLAG (XOR2 (drop_bit 30 bc)) F_OF f;
      f = CONDITIONAL_SET_FLAG (bc AND 0x8 \<noteq> 0) F_AF f
      in (d0, f))"

definition dec_byte :: "u32 \<Rightarrow> u8 \<Rightarrow> u8 \<times> u32" where
  "dec_byte f d =
     (let d = (ucast d :: u32);
      res = d - 1;
      f = CONDITIONAL_SET_FLAG (res AND 0x80 \<noteq> 0) F_SF f;
      f = CONDITIONAL_SET_FLAG (res AND 0xff = 0) F_ZF f;
      f = CONDITIONAL_SET_FLAG (PARITY (res AND 0xff)) F_PF f;
      bc = (res AND (NOT d OR 1)) OR (NOT d AND 1);
      f = CONDITIONAL_SET_FLAG (XOR2 (drop_bit 6 bc)) F_OF f;
      f = CONDITIONAL_SET_FLAG (bc AND 0x8 \<noteq> 0) F_AF f
      in (ucast res, f))"

definition dec_word :: "u32 \<Rightarrow> u16 \<Rightarrow> u16 \<times> u32" where
  "dec_word f d =
     (let d = (ucast d :: u32);
      res = d - 1;
      f = CONDITIONAL_SET_FLAG (res AND 0x8000 \<noteq> 0) F_SF f;
      f = CONDITIONAL_SET_FLAG (res AND 0xffff = 0) F_ZF f;
      f = CONDITIONAL_SET_FLAG (PARITY (res AND 0xff)) F_PF f;
      bc = (res AND (NOT d OR 1)) OR (NOT d AND 1);
      f = CONDITIONAL_SET_FLAG (XOR2 (drop_bit 14 bc)) F_OF f;
      f = CONDITIONAL_SET_FLAG (bc AND 0x8 \<noteq> 0) F_AF f
      in (ucast res, f))"

definition dec_long :: "u32 \<Rightarrow> u32 \<Rightarrow> u32 \<times> u32" where
  "dec_long f d =
     (let res = d - 1;
      f = CONDITIONAL_SET_FLAG (res AND 0x80000000 \<noteq> 0) F_SF f;
      f = CONDITIONAL_SET_FLAG (res AND 0xffffffff = 0) F_ZF f;
      f = CONDITIONAL_SET_FLAG (PARITY (res AND 0xff)) F_PF f;
      bc = (res AND (NOT d OR 1)) OR (NOT d AND 1);
      f = CONDITIONAL_SET_FLAG (XOR2 (drop_bit 30 bc)) F_OF f;
      f = CONDITIONAL_SET_FLAG (bc AND 0x8 \<noteq> 0) F_AF f
      in (res, f))"

definition inc_byte :: "u32 \<Rightarrow> u8 \<Rightarrow> u8 \<times> u32" where
  "inc_byte f d =
     (let d = (ucast d :: u32);
      res = d + 1;
      f = CONDITIONAL_SET_FLAG (res AND 0xff = 0) F_ZF f;
      f = CONDITIONAL_SET_FLAG (res AND 0x80 \<noteq> 0) F_SF f;
      f = CONDITIONAL_SET_FLAG (PARITY (res AND 0xff)) F_PF f;
      cc = ((1 AND d) OR NOT res) AND (1 OR d);
      f = CONDITIONAL_SET_FLAG (XOR2 (drop_bit 6 cc)) F_OF f;
      f = CONDITIONAL_SET_FLAG (cc AND 0x8 \<noteq> 0) F_AF f
      in (ucast res, f))"

definition inc_word :: "u32 \<Rightarrow> u16 \<Rightarrow> u16 \<times> u32" where
  "inc_word f d =
     (let d = (ucast d :: u32);
      res = d + 1;
      f = CONDITIONAL_SET_FLAG (res AND 0xffff = 0) F_ZF f;
      f = CONDITIONAL_SET_FLAG (res AND 0x8000 \<noteq> 0) F_SF f;
      f = CONDITIONAL_SET_FLAG (PARITY (res AND 0xff)) F_PF f;
      cc = (1 AND d) OR (NOT res AND (1 OR d));
      f = CONDITIONAL_SET_FLAG (XOR2 (drop_bit 14 cc)) F_OF f;
      f = CONDITIONAL_SET_FLAG (cc AND 0x8 \<noteq> 0) F_AF f
      in (ucast res, f))"

definition inc_long :: "u32 \<Rightarrow> u32 \<Rightarrow> u32 \<times> u32" where
  "inc_long f d =
     (let res = d + 1;
      f = CONDITIONAL_SET_FLAG (res AND 0xffffffff = 0) F_ZF f;
      f = CONDITIONAL_SET_FLAG (res AND 0x80000000 \<noteq> 0) F_SF f;
      f = CONDITIONAL_SET_FLAG (PARITY (res AND 0xff)) F_PF f;
      cc = (1 AND d) OR (NOT res AND (1 OR d));
      f = CONDITIONAL_SET_FLAG (XOR2 (drop_bit 30 cc)) F_OF f;
      f = CONDITIONAL_SET_FLAG (cc AND 0x8 \<noteq> 0) F_AF f
      in (res, f))"

definition or_byte :: "u32 \<Rightarrow> u8 \<Rightarrow> u8 \<Rightarrow> u8 \<times> u32" where
  "or_byte f d s =
     (let res = d OR s;
      f = CLEAR_FLAG F_OF f;
      f = CLEAR_FLAG F_CF f;
      f = CLEAR_FLAG F_AF f;
      f = CONDITIONAL_SET_FLAG (res AND 0x80 \<noteq> 0) F_SF f;
      f = CONDITIONAL_SET_FLAG (res = 0) F_ZF f;
      f = CONDITIONAL_SET_FLAG (PARITY (ucast res)) F_PF f
      in (res, f))"

definition or_word :: "u32 \<Rightarrow> u16 \<Rightarrow> u16 \<Rightarrow> u16 \<times> u32" where
  "or_word f d s =
     (let res = d OR s;
      f = CLEAR_FLAG F_OF f;
      f = CLEAR_FLAG F_CF f;
      f = CLEAR_FLAG F_AF f;
      f = CONDITIONAL_SET_FLAG (res AND 0x8000 \<noteq> 0) F_SF f;
      f = CONDITIONAL_SET_FLAG (res = 0) F_ZF f;
      f = CONDITIONAL_SET_FLAG (PARITY (ucast res AND 0xff)) F_PF f
      in (res, f))"

definition or_long :: "u32 \<Rightarrow> u32 \<Rightarrow> u32 \<Rightarrow> u32 \<times> u32" where
  "or_long f d s =
     (let res = d OR s;
      f = CLEAR_FLAG F_OF f;
      f = CLEAR_FLAG F_CF f;
      f = CLEAR_FLAG F_AF f;
      f = CONDITIONAL_SET_FLAG (res AND 0x80000000 \<noteq> 0) F_SF f;
      f = CONDITIONAL_SET_FLAG (res = 0) F_ZF f;
      f = CONDITIONAL_SET_FLAG (PARITY (res AND 0xff)) F_PF f
      in (res, f))"

subsection \<open>NEG, NOT, SBB, SUB, TEST, XOR\<close>

definition neg_byte :: "u32 \<Rightarrow> u8 \<Rightarrow> u8 \<times> u32" where
  "neg_byte f s =
     (let f = CONDITIONAL_SET_FLAG (s \<noteq> 0) F_CF f;
      res = - s;
      f = CONDITIONAL_SET_FLAG (res AND 0xff = 0) F_ZF f;
      f = CONDITIONAL_SET_FLAG (res AND 0x80 \<noteq> 0) F_SF f;
      f = CONDITIONAL_SET_FLAG (PARITY (ucast res)) F_PF f;
      bc = res OR s;
      f = CONDITIONAL_SET_FLAG (XOR2 (drop_bit 6 (ucast bc))) F_OF f;
      f = CONDITIONAL_SET_FLAG (bc AND 0x8 \<noteq> 0) F_AF f
      in (res, f))"

definition neg_word :: "u32 \<Rightarrow> u16 \<Rightarrow> u16 \<times> u32" where
  "neg_word f s =
     (let f = CONDITIONAL_SET_FLAG (s \<noteq> 0) F_CF f;
      res = - s;
      f = CONDITIONAL_SET_FLAG (res AND 0xffff = 0) F_ZF f;
      f = CONDITIONAL_SET_FLAG (res AND 0x8000 \<noteq> 0) F_SF f;
      f = CONDITIONAL_SET_FLAG (PARITY (ucast res AND 0xff)) F_PF f;
      bc = res OR s;
      f = CONDITIONAL_SET_FLAG (XOR2 (drop_bit 14 (ucast bc))) F_OF f;
      f = CONDITIONAL_SET_FLAG (bc AND 0x8 \<noteq> 0) F_AF f
      in (res, f))"

definition neg_long :: "u32 \<Rightarrow> u32 \<Rightarrow> u32 \<times> u32" where
  "neg_long f s =
     (let f = CONDITIONAL_SET_FLAG (s \<noteq> 0) F_CF f;
      res = - s;
      f = CONDITIONAL_SET_FLAG (res AND 0xffffffff = 0) F_ZF f;
      f = CONDITIONAL_SET_FLAG (res AND 0x80000000 \<noteq> 0) F_SF f;
      f = CONDITIONAL_SET_FLAG (PARITY (res AND 0xff)) F_PF f;
      bc = res OR s;
      f = CONDITIONAL_SET_FLAG (XOR2 (drop_bit 30 bc)) F_OF f;
      f = CONDITIONAL_SET_FLAG (bc AND 0x8 \<noteq> 0) F_AF f
      in (res, f))"

definition not_byte :: "u32 \<Rightarrow> u8 \<Rightarrow> u8 \<times> u32" where
  "not_byte f s = (NOT s, f)"

definition not_word :: "u32 \<Rightarrow> u16 \<Rightarrow> u16 \<times> u32" where
  "not_word f s = (NOT s, f)"

definition not_long :: "u32 \<Rightarrow> u32 \<Rightarrow> u32 \<times> u32" where
  "not_long f s = (NOT s, f)"

definition sbb_byte :: "u32 \<Rightarrow> u8 \<Rightarrow> u8 \<Rightarrow> u8 \<times> u32" where
  "sbb_byte f d s =
     (let d = (ucast d :: u32);
      s = (ucast s :: u32);
      res = (if ACCESS_FLAG F_CF f then d - s - 1 else d - s);
      f = CONDITIONAL_SET_FLAG (res AND 0x80 \<noteq> 0) F_SF f;
      f = CONDITIONAL_SET_FLAG (res AND 0xff = 0) F_ZF f;
      f = CONDITIONAL_SET_FLAG (PARITY (res AND 0xff)) F_PF f;
      bc = (res AND (NOT d OR s)) OR (NOT d AND s);
      f = CONDITIONAL_SET_FLAG (bc AND 0x80 \<noteq> 0) F_CF f;
      f = CONDITIONAL_SET_FLAG (XOR2 (drop_bit 6 bc)) F_OF f;
      f = CONDITIONAL_SET_FLAG (bc AND 0x8 \<noteq> 0) F_AF f
      in (ucast res, f))"

definition sbb_word :: "u32 \<Rightarrow> u16 \<Rightarrow> u16 \<Rightarrow> u16 \<times> u32" where
  "sbb_word f d s =
     (let d = (ucast d :: u32);
      s = (ucast s :: u32);
      res = (if ACCESS_FLAG F_CF f then d - s - 1 else d - s);
      f = CONDITIONAL_SET_FLAG (res AND 0x8000 \<noteq> 0) F_SF f;
      f = CONDITIONAL_SET_FLAG (res AND 0xffff = 0) F_ZF f;
      f = CONDITIONAL_SET_FLAG (PARITY (res AND 0xff)) F_PF f;
      bc = (res AND (NOT d OR s)) OR (NOT d AND s);
      f = CONDITIONAL_SET_FLAG (bc AND 0x8000 \<noteq> 0) F_CF f;
      f = CONDITIONAL_SET_FLAG (XOR2 (drop_bit 14 bc)) F_OF f;
      f = CONDITIONAL_SET_FLAG (bc AND 0x8 \<noteq> 0) F_AF f
      in (ucast res, f))"

definition sbb_long :: "u32 \<Rightarrow> u32 \<Rightarrow> u32 \<Rightarrow> u32 \<times> u32" where
  "sbb_long f d s =
     (let res = (if ACCESS_FLAG F_CF f then d - s - 1 else d - s);
      f = CONDITIONAL_SET_FLAG (res AND 0x80000000 \<noteq> 0) F_SF f;
      f = CONDITIONAL_SET_FLAG (res AND 0xffffffff = 0) F_ZF f;
      f = CONDITIONAL_SET_FLAG (PARITY (res AND 0xff)) F_PF f;
      bc = (res AND (NOT d OR s)) OR (NOT d AND s);
      f = CONDITIONAL_SET_FLAG (bc AND 0x80000000 \<noteq> 0) F_CF f;
      f = CONDITIONAL_SET_FLAG (XOR2 (drop_bit 30 bc)) F_OF f;
      f = CONDITIONAL_SET_FLAG (bc AND 0x8 \<noteq> 0) F_AF f
      in (res, f))"

definition sub_byte :: "u32 \<Rightarrow> u8 \<Rightarrow> u8 \<Rightarrow> u8 \<times> u32" where
  "sub_byte f d s =
     (let d = (ucast d :: u32);
      s = (ucast s :: u32);
      res = d - s;
      f = CONDITIONAL_SET_FLAG (res AND 0x80 \<noteq> 0) F_SF f;
      f = CONDITIONAL_SET_FLAG (res AND 0xff = 0) F_ZF f;
      f = CONDITIONAL_SET_FLAG (PARITY (res AND 0xff)) F_PF f;
      bc = (res AND (NOT d OR s)) OR (NOT d AND s);
      f = CONDITIONAL_SET_FLAG (bc AND 0x80 \<noteq> 0) F_CF f;
      f = CONDITIONAL_SET_FLAG (XOR2 (drop_bit 6 bc)) F_OF f;
      f = CONDITIONAL_SET_FLAG (bc AND 0x8 \<noteq> 0) F_AF f
      in (ucast res, f))"

definition sub_word :: "u32 \<Rightarrow> u16 \<Rightarrow> u16 \<Rightarrow> u16 \<times> u32" where
  "sub_word f d s =
     (let d = (ucast d :: u32);
      s = (ucast s :: u32);
      res = d - s;
      f = CONDITIONAL_SET_FLAG (res AND 0x8000 \<noteq> 0) F_SF f;
      f = CONDITIONAL_SET_FLAG (res AND 0xffff = 0) F_ZF f;
      f = CONDITIONAL_SET_FLAG (PARITY (res AND 0xff)) F_PF f;
      bc = (res AND (NOT d OR s)) OR (NOT d AND s);
      f = CONDITIONAL_SET_FLAG (bc AND 0x8000 \<noteq> 0) F_CF f;
      f = CONDITIONAL_SET_FLAG (XOR2 (drop_bit 14 bc)) F_OF f;
      f = CONDITIONAL_SET_FLAG (bc AND 0x8 \<noteq> 0) F_AF f
      in (ucast res, f))"

definition sub_long :: "u32 \<Rightarrow> u32 \<Rightarrow> u32 \<Rightarrow> u32 \<times> u32" where
  "sub_long f d s =
     (let res = d - s;
      f = CONDITIONAL_SET_FLAG (res AND 0x80000000 \<noteq> 0) F_SF f;
      f = CONDITIONAL_SET_FLAG (res AND 0xffffffff = 0) F_ZF f;
      f = CONDITIONAL_SET_FLAG (PARITY (res AND 0xff)) F_PF f;
      bc = (res AND (NOT d OR s)) OR (NOT d AND s);
      f = CONDITIONAL_SET_FLAG (bc AND 0x80000000 \<noteq> 0) F_CF f;
      f = CONDITIONAL_SET_FLAG (XOR2 (drop_bit 30 bc)) F_OF f;
      f = CONDITIONAL_SET_FLAG (bc AND 0x8 \<noteq> 0) F_AF f
      in (res, f))"

definition test_byte :: "u32 \<Rightarrow> u8 \<Rightarrow> u8 \<Rightarrow> u32" where
  "test_byte f d s =
     (let d = (ucast d :: u32);
      s = (ucast s :: u32);
      res = d AND s;
      f = CLEAR_FLAG F_OF f;
      f = CONDITIONAL_SET_FLAG (res AND 0x80 \<noteq> 0) F_SF f;
      f = CONDITIONAL_SET_FLAG (res = 0) F_ZF f;
      f = CONDITIONAL_SET_FLAG (PARITY (res AND 0xff)) F_PF f
      in CLEAR_FLAG F_CF f)"

definition test_word :: "u32 \<Rightarrow> u16 \<Rightarrow> u16 \<Rightarrow> u32" where
  "test_word f d s =
     (let d = (ucast d :: u32);
      s = (ucast s :: u32);
      res = d AND s;
      f = CLEAR_FLAG F_OF f;
      f = CONDITIONAL_SET_FLAG (res AND 0x8000 \<noteq> 0) F_SF f;
      f = CONDITIONAL_SET_FLAG (res = 0) F_ZF f;
      f = CONDITIONAL_SET_FLAG (PARITY (res AND 0xff)) F_PF f
      in CLEAR_FLAG F_CF f)"

definition test_long :: "u32 \<Rightarrow> u32 \<Rightarrow> u32 \<Rightarrow> u32" where
  "test_long f d s =
     (let res = d AND s;
      f = CLEAR_FLAG F_OF f;
      f = CONDITIONAL_SET_FLAG (res AND 0x80000000 \<noteq> 0) F_SF f;
      f = CONDITIONAL_SET_FLAG (res = 0) F_ZF f;
      f = CONDITIONAL_SET_FLAG (PARITY (res AND 0xff)) F_PF f
      in CLEAR_FLAG F_CF f)"

definition xor_byte :: "u32 \<Rightarrow> u8 \<Rightarrow> u8 \<Rightarrow> u8 \<times> u32" where
  "xor_byte f d s =
     (let res = d XOR s;
      f = CLEAR_FLAG F_OF f;
      f = CONDITIONAL_SET_FLAG (res AND 0x80 \<noteq> 0) F_SF f;
      f = CONDITIONAL_SET_FLAG (res = 0) F_ZF f;
      f = CONDITIONAL_SET_FLAG (PARITY (ucast res)) F_PF f;
      f = CLEAR_FLAG F_CF f;
      f = CLEAR_FLAG F_AF f
      in (res, f))"

definition xor_word :: "u32 \<Rightarrow> u16 \<Rightarrow> u16 \<Rightarrow> u16 \<times> u32" where
  "xor_word f d s =
     (let res = d XOR s;
      f = CLEAR_FLAG F_OF f;
      f = CONDITIONAL_SET_FLAG (res AND 0x8000 \<noteq> 0) F_SF f;
      f = CONDITIONAL_SET_FLAG (res = 0) F_ZF f;
      f = CONDITIONAL_SET_FLAG (PARITY (ucast res AND 0xff)) F_PF f;
      f = CLEAR_FLAG F_CF f;
      f = CLEAR_FLAG F_AF f
      in (res, f))"

definition xor_long :: "u32 \<Rightarrow> u32 \<Rightarrow> u32 \<Rightarrow> u32 \<times> u32" where
  "xor_long f d s =
     (let res = d XOR s;
      f = CLEAR_FLAG F_OF f;
      f = CONDITIONAL_SET_FLAG (res AND 0x80000000 \<noteq> 0) F_SF f;
      f = CONDITIONAL_SET_FLAG (res = 0) F_ZF f;
      f = CONDITIONAL_SET_FLAG (PARITY (res AND 0xff)) F_PF f;
      f = CLEAR_FLAG F_CF f;
      f = CLEAR_FLAG F_AF f
      in (res, f))"

lemmas arith_defs [alu_defs] =
  adc_byte_def adc_word_def adc_long_def add_byte_def add_word_def add_long_def
  and_byte_def and_word_def and_long_def cmp_byte_def cmp_word_def cmp_long_def
  dec_byte_def dec_word_def dec_long_def inc_byte_def inc_word_def inc_long_def
  or_byte_def or_word_def or_long_def neg_byte_def neg_word_def neg_long_def
  not_byte_def not_word_def not_long_def sbb_byte_def sbb_word_def sbb_long_def
  sub_byte_def sub_word_def sub_long_def test_byte_def test_word_def test_long_def
  xor_byte_def xor_word_def xor_long_def

section \<open>The abstract specification\<close>

text \<open>
  The flags an x86 processor computes for an addition with carry, a subtraction with
  borrow, and a logical operation, for operands of any width.
\<close>

definition result_flags :: "'a::len word \<Rightarrow> bool \<Rightarrow> bool \<Rightarrow> bool \<Rightarrow> aflags" where
  "result_flags r cf af ov = \<lparr>a_cf = cf, a_pf = even_parity r, a_af = af,
     a_zf = (r = 0), a_sf = (sint r < 0), a_of = ov\<rparr>"

definition add_flags :: "'a::len word \<Rightarrow> 'a word \<Rightarrow> bool \<Rightarrow> aflags" where
  "add_flags a b c = result_flags (a + b + of_bool c)
     (2 ^ LENGTH('a) \<le> unat a + unat b + of_bool c)
     (16 \<le> unat a mod 16 + unat b mod 16 + of_bool c)
     (sint a + sint b + of_bool c \<noteq> sint (a + b + of_bool c))"

definition sub_flags :: "'a::len word \<Rightarrow> 'a word \<Rightarrow> bool \<Rightarrow> aflags" where
  "sub_flags a b c = result_flags (a - b - of_bool c)
     (unat a < unat b + of_bool c)
     (unat a mod 16 < unat b mod 16 + of_bool c)
     (sint a - sint b - of_bool c \<noteq> sint (a - b - of_bool c))"

definition logic_flags :: "'a::len word \<Rightarrow> aflags" where
  "logic_flags r = result_flags r False False False"

text \<open>A primitive's outcome: its result, its arithmetic flags, and no other flag changed.\<close>

definition alu_result :: "'a \<times> u32 \<Rightarrow> u32 \<Rightarrow> 'a \<Rightarrow> aflags \<Rightarrow> bool" where
  "alu_result p f r a \<longleftrightarrow> fst p = r \<and> aflags_of (snd p) = a \<and> other_flags (snd p) = other_flags f"

section \<open>Narrowing a 32 bit result\<close>

lemma carry_in_LENGTH: "carry_in (unat a) (unat b) c LENGTH('a) = (2 ^ LENGTH('a) \<le> unat a + unat b + of_bool c)"
  for a b :: "'a::len word"
  by (simp add: carry_in_def take_bit_nat_eq_self)

lemma borrow_in_LENGTH: "borrow_in (unat a) (unat b) c LENGTH('a) = (unat a < unat b + of_bool c)"
  for a b :: "'a::len word"
  by (simp add: borrow_in_def take_bit_nat_eq_self)

lemma carry_in_4: "carry_in x y c 4 = (16 \<le> x mod 16 + y mod 16 + of_bool c)"
  by (simp add: carry_in_def take_bit_eq_mod)

lemma borrow_in_4: "borrow_in x y c 4 = (x mod 16 < y mod 16 + of_bool c)"
  by (simp add: borrow_in_def take_bit_eq_mod)

lemma sign_bit: "bit w (LENGTH('a) - 1) = (sint w < 0)" for w :: "'a::len word"
  by (simp add: bit_last_iff)

lemma word_of_int_down:
  "LENGTH('a) \<le> LENGTH('b) \<Longrightarrow> (word_of_int (take_bit LENGTH('b::len) k) :: 'a::len word) = word_of_int k"
  by (simp add: word_of_int_eq_iff min_def)

lemma ucast_down_add:
  fixes x y :: "'b::len word"
  assumes "LENGTH('a) \<le> LENGTH('b)"
  shows "(ucast (x + y) :: 'a::len word) = ucast x + ucast y"
proof -
  have "(ucast (x + y) :: 'a word) = word_of_int (uint (x + y))" by simp
  also have "uint (x + y) = take_bit LENGTH('b) (uint x + uint y)"
    by (simp add: uint_word_ariths take_bit_eq_mod)
  also have "(word_of_int \<dots> :: 'a word) = word_of_int (uint x + uint y)"
    by (rule word_of_int_down[OF assms])
  finally show ?thesis by simp
qed

lemma ucast_down_diff:
  fixes x y :: "'b::len word"
  assumes "LENGTH('a) \<le> LENGTH('b)"
  shows "(ucast (x - y) :: 'a::len word) = ucast x - ucast y"
proof -
  have "(ucast (x - y) :: 'a word) = word_of_int (uint (x - y))" by simp
  also have "uint (x - y) = take_bit LENGTH('b) (uint x - uint y)"
    by (simp add: uint_word_ariths take_bit_eq_mod)
  also have "(word_of_int \<dots> :: 'a word) = word_of_int (uint x - uint y)"
    by (rule word_of_int_down[OF assms])
  finally show ?thesis by simp
qed

lemma ucast_of_bool [simp]: "ucast (of_bool c :: 'b::len word) = (of_bool c :: 'a::len word)"
  by (cases c) simp_all

lemma ucast_up_eq_0: "LENGTH('a) \<le> LENGTH('b) \<Longrightarrow> ((ucast w :: 'b::len word) = 0) = (w = 0)"
  for w :: "'a::len word"
  by (metis ucast_up_down unsigned_0)

text \<open>The tests the code makes on the wide result, as tests on the narrow one.\<close>

lemma low_zero:
  "(x AND 0xff = 0) = ((ucast x :: u8) = 0)"
  "(x AND 0xffff = 0) = ((ucast x :: u16) = 0)"
  "(x AND 0xffffffff = 0) = (x = 0)" for x :: u32
proof -
  have "x AND mask 8 = ucast (ucast x :: u8)" "x AND mask 16 = ucast (ucast x :: u16)"
    by (rule bit_word_eqI, auto simp: bit_simps)+
  then show "(x AND 0xff = 0) = ((ucast x :: u8) = 0)" "(x AND 0xffff = 0) = ((ucast x :: u16) = 0)"
    using ucast_up_eq_0[of "ucast x :: u8", where 'b = 32] ucast_up_eq_0[of "ucast x :: u16", where 'b = 32]
    by (simp_all add: mask_eq_exp_minus_1)
  have "(0xffffffff :: u32) = NOT 0" by simp
  then show "(x AND 0xffffffff = 0) = (x = 0)" by (simp only: bit.compl_zero and.right_neutral)
qed

lemma sign_simps:
  "(sint a < 0) = bit a 7" "(sint b < 0) = bit b 15" "(sint c < 0) = bit c 31"
  for a :: u8 and b :: u16 and c :: u32
  using sign_bit[of a] sign_bit[of b] sign_bit[of c] by simp_all

lemma even_parity_cong: "(\<And>i. i < 8 \<Longrightarrow> bit v i = bit w i) \<Longrightarrow> even_parity v = even_parity w"
  for v :: "'a::len word" and w :: "'b::len word"
  unfolding even_parity_def by (simp only: bit_count_cong[of 8 v w])

section \<open>The chains at the three operand sizes\<close>

lemma add_core:
  fixes d s :: "'a::len word" and c :: bool
  assumes "LENGTH('a) < 32"
  defines "R \<equiv> ucast d + ucast s + of_bool c :: u32"
  shows "(ucast R :: 'a word) = d + s + of_bool c"
    and "i < LENGTH('a) \<Longrightarrow> bit R i = bit (d + s + of_bool c) i"
    and "8 \<le> LENGTH('a) \<Longrightarrow> even_parity R = even_parity (d + s + of_bool c)"
    and "bit R LENGTH('a) = (2 ^ LENGTH('a) \<le> unat d + unat s + of_bool c)"
    and "i < 32 \<Longrightarrow> bit ((ucast s AND ucast d) OR (NOT R AND (ucast s OR ucast d))) i =
      carry_in (unat d) (unat s) c (Suc i)"
proof -
  show R: "(ucast R :: 'a word) = d + s + of_bool c"
    using assms by (simp add: R_def ucast_down_add)
  show bits: "bit R i = bit (d + s + of_bool c) i" if "i < LENGTH('a)" for i
    using that assms(1) unfolding R[symmetric] by (simp add: bit_simps)
  show "even_parity R = even_parity (d + s + of_bool c)" if "8 \<le> LENGTH('a)"
    using that by (intro even_parity_cong bits) simp
  have "bit R LENGTH('a) = carry_in (unat d) (unat s) c LENGTH('a)"
    using assms by (simp add: R_def bit_word_sum bit_simps)
  then show "bit R LENGTH('a) = (2 ^ LENGTH('a) \<le> unat d + unat s + of_bool c)"
    by (simp only: carry_in_LENGTH)
  show "bit ((ucast s AND ucast d) OR (NOT R AND (ucast s OR ucast d))) i =
      carry_in (unat d) (unat s) c (Suc i)" if "i < 32"
    unfolding R_def using that assms(1) by (subst carry_chain) simp_all
qed

lemma sub_core:
  fixes d s :: "'a::len word" and c :: bool
  assumes "LENGTH('a) \<le> 32"
  defines "R \<equiv> ucast d - ucast s - of_bool c :: u32"
  shows "(ucast R :: 'a word) = d - s - of_bool c"
    and "i < LENGTH('a) \<Longrightarrow> bit R i = bit (d - s - of_bool c) i"
    and "8 \<le> LENGTH('a) \<Longrightarrow> even_parity R = even_parity (d - s - of_bool c)"
    and "i < 32 \<Longrightarrow> bit ((R AND (NOT (ucast d) OR ucast s)) OR (NOT (ucast d) AND ucast s)) i =
      borrow_in (unat d) (unat s) c (Suc i)"
proof -
  show R: "(ucast R :: 'a word) = d - s - of_bool c"
    using assms by (simp add: R_def ucast_down_diff)
  show bits: "bit R i = bit (d - s - of_bool c) i" if "i < LENGTH('a)" for i
    using that assms(1) unfolding R[symmetric] by (simp add: bit_simps)
  show "even_parity R = even_parity (d - s - of_bool c)" if "8 \<le> LENGTH('a)"
    using that by (intro even_parity_cong bits) simp
  show "bit ((R AND (NOT (ucast d) OR ucast s)) OR (NOT (ucast d) AND ucast s)) i =
      borrow_in (unat d) (unat s) c (Suc i)" if "i < 32"
    using that assms(1) by (subst borrow_chain[OF _ R_def[THEN meta_eq_to_obj_eq]]) simp_all
qed

text \<open>The same facts where the code has no carry in, and for its two-armed sums.\<close>

lemmas add_core0 = add_core[where c = False, simplified]
lemmas sub_core0 = sub_core[where c = False, simplified]

lemma carry_sum: "(if c then 1 + d + s else d + s) = d + s + of_bool c" for d s :: u32
  by simp

lemma borrow_diff: "(if c then d - s - 1 else d - s) = d - s - of_bool c" for d s :: u32
  by simp

lemma unat_and_ffff: "unat (x AND 0xFFFF) = take_bit 16 (unat x)" for x :: u32
proof -
  have "x AND 0xFFFF = take_bit 16 x" by (simp add: take_bit_eq_mask mask_eq_exp_minus_1)
  then show ?thesis by (simp only: unsigned_take_bit_eq)
qed

lemma odd_less_2: "q < 2 \<Longrightarrow> odd q = (0 < q)" for q :: nat
  by (cases q) auto

text \<open>The 32 bit carry, which the code collects from the two 16 bit halves.\<close>

lemma long_hi:
  fixes d s :: u32 and c :: bool
  defines "lo \<equiv> (d AND 0xFFFF) + (s AND 0xFFFF) + of_bool c"
  shows "bit (drop_bit 16 lo + drop_bit 16 d + drop_bit 16 s) 16 = (2 ^ 32 \<le> unat d + unat s + of_bool c)"
proof -
  let ?sum = "unat d + unat s + of_bool c" and ?hi = "drop_bit 16 lo + drop_bit 16 d + drop_bit 16 s"
  let ?lo = "take_bit 16 (unat d) + take_bit 16 (unat s) + of_bool c"
  have d: "unat d < 2 ^ 32" and s: "unat s < 2 ^ 32" using unsigned_less[of d] unsigned_less[of s] by simp_all
  have "?lo < 2 ^ 32"
    using take_bit_nat_less_exp[of 16 "unat d"] take_bit_nat_less_exp[of 16 "unat s"]
    by (cases c; simp only: of_bool_eq; simp)
  then have lo: "unat lo = ?lo"
    by (simp add: lo_def unat_word_ariths unat_and_ffff unat_of_bool)
  have "unat lo div 2 ^ 16 + unat d div 2 ^ 16 + unat s div 2 ^ 16 < 2 ^ 32"
    using d s \<open>?lo < 2 ^ 32\<close> unfolding lo[symmetric] by simp
  then have "unat ?hi = unat lo div 2 ^ 16 + unat d div 2 ^ 16 + unat s div 2 ^ 16"
    by (simp add: unat_word_ariths unat_drop_bit_eq drop_bit_eq_div)
  also have "\<dots> = unat d div 2 ^ 16 + unat s div 2 ^ 16 + of_bool (carry_in (unat d) (unat s) c 16)"
    by (simp only: lo low_sum_div)
  also have "\<dots> = ?sum div 2 ^ 16" by (simp only: sum_div)
  finally have "bit (unat ?hi) 16 = odd (?sum div 2 ^ 32)"
    by (simp add: bit_iff_odd div_mult2_eq[symmetric])
  moreover have "?sum div 2 ^ 32 < 2"
    using d s by (cases c; simp only: of_bool_eq; simp add: div_less_iff_less_mult)
  then have "odd (?sum div 2 ^ 32) = (0 < ?sum div 2 ^ 32)" by (rule odd_less_2)
  moreover have "(0 < ?sum div 2 ^ 32) = (2 ^ 32 \<le> ?sum)"
    by (simp only: div_greater_zero_iff) simp
  ultimately show ?thesis by (simp add: bit_unsigned_iff)
qed

section \<open>Correctness of the primitives\<close>

lemmas alu_eval = alu_result_def aflags_of_def Let_def flag_simps mask_simps low_zero sign_simps
  add_flags_def sub_flags_def logic_flags_def result_flags_def

lemmas len_simps =
  carry_in_LENGTH[where 'a = 8, simplified] carry_in_LENGTH[where 'a = 16, simplified]
  carry_in_LENGTH[where 'a = 32, simplified] borrow_in_LENGTH[where 'a = 8, simplified]
  borrow_in_LENGTH[where 'a = 16, simplified] borrow_in_LENGTH[where 'a = 32, simplified]
  signed_overflow_add[where 'a = 8, simplified] signed_overflow_add[where 'a = 16, simplified]
  signed_overflow_add[where 'a = 32, simplified] signed_overflow_sub[where 'a = 8, simplified]
  signed_overflow_sub[where 'a = 16, simplified] signed_overflow_sub[where 'a = 32, simplified]

lemmas chain_simps = borrow_in_4 carry_in_4 len_simps
lemmas chain_simps0 = chain_simps[where c = False, simplified]
lemmas chain_simps1 = borrow_in_4[where c = False and y = 1, simplified]
  carry_in_4[where c = False and y = 1, simplified] len_simps[where c = False and b = 1, simplified]

lemmas core_simps = add_core[where 'a = 8, simplified] add_core[where 'a = 16, simplified]
  sub_core[where 'a = 8, simplified] sub_core[where 'a = 16, simplified]
  carry_chain[where 'a = 32, simplified] borrow_chain[where 'a = 32, simplified]
  long_hi

lemmas core_simps0 = core_simps[where c = False, simplified]

lemma cc_inc: "((1 AND d) OR n) AND (1 OR d) = (1 AND d) OR (n AND (1 OR d))" for d n :: u32
  by (rule bit_word_eqI) (auto simp: bit_simps)

lemmas inc_simps = add_core[where 'a = 8 and s = 1 and c = False, simplified]
  add_core[where 'a = 16 and s = 1 and c = False, simplified]
  carry_chain[where 'a = 32 and b = 1 and c = False, simplified]
lemmas dec_simps = sub_core[where 'a = 8 and s = 1 and c = False, simplified]
  sub_core[where 'a = 16 and s = 1 and c = False, simplified]
  borrow_chain[where 'a = 32 and b = 1 and c = False, simplified]

lemmas neg_simps = borrow_chain[where 'a = 8 and a = 0 and c = False, simplified]
  borrow_chain[where 'a = 16 and a = 0 and c = False, simplified]
  borrow_chain[where 'a = 32 and a = 0 and c = False, simplified]
  borrow_in_4[where c = False and x = 0, simplified] len_simps[where c = False and a = 0, simplified]
  unat_gt_0 bit_unsigned_iff

lemma and_full [simp]: "b AND 0xff = b" "w AND 0xffff = w" for b :: u8 and w :: u16
proof -
  have "(0xff :: u8) = NOT 0" "(0xffff :: u16) = NOT 0" by simp_all
  then show "b AND 0xff = b" "w AND 0xffff = w" by (simp_all only: bit.compl_zero and.right_neutral)
qed

lemma parity_ucast [simp]:
  "even_parity (ucast b :: u32) = even_parity b" "even_parity (ucast w :: u32) = even_parity w"
  for b :: u8 and w :: u16
  by (rule even_parity_cong, simp add: bit_simps)+

lemma parity_up [simp]: "PARITY (ucast b) = even_parity b" for b :: u8
proof -
  have "ucast b AND mask 8 = (ucast b :: u32)"
    using bit_imp_le_length[of b] by (intro bit_word_eqI) (auto simp: bit_simps)
  then have "ucast b AND 0xff = (ucast b :: u32)" by (simp add: mask_eq_exp_minus_1)
  then show ?thesis using PARITY_and_ff[of "ucast b"] by simp
qed

lemmas test_simps = unsigned_and_eq[symmetric] ucast_up_eq_0 bit_unsigned_iff

lemma adc_byte_correct:
  "alu_result (adc_byte f d s) f (d + s + of_bool (ACCESS_FLAG F_CF f))
     (add_flags d s (ACCESS_FLAG F_CF f))"
  unfolding adc_byte_def carry_sum alu_result_def Let_def XOR2_bits
  by (simp add: alu_eval core_simps chain_simps split del: split_of_bool)

lemma adc_word_correct:
  "alu_result (adc_word f d s) f (d + s + of_bool (ACCESS_FLAG F_CF f))
     (add_flags d s (ACCESS_FLAG F_CF f))"
  unfolding adc_word_def carry_sum alu_result_def Let_def XOR2_bits
  by (simp add: alu_eval core_simps chain_simps split del: split_of_bool)

lemma adc_long_correct:
  "alu_result (adc_long f d s) f (d + s + of_bool (ACCESS_FLAG F_CF f))
     (add_flags d s (ACCESS_FLAG F_CF f))"
  unfolding adc_long_def carry_sum alu_result_def Let_def XOR2_bits
  by (simp add: alu_eval core_simps chain_simps split del: split_of_bool)

lemma sbb_byte_correct:
  "alu_result (sbb_byte f d s) f (d - s - of_bool (ACCESS_FLAG F_CF f))
     (sub_flags d s (ACCESS_FLAG F_CF f))"
  unfolding sbb_byte_def borrow_diff alu_result_def Let_def XOR2_bits
  by (simp add: alu_eval core_simps chain_simps split del: split_of_bool)

lemma sbb_word_correct:
  "alu_result (sbb_word f d s) f (d - s - of_bool (ACCESS_FLAG F_CF f))
     (sub_flags d s (ACCESS_FLAG F_CF f))"
  unfolding sbb_word_def borrow_diff alu_result_def Let_def XOR2_bits
  by (simp add: alu_eval core_simps chain_simps split del: split_of_bool)

lemma sbb_long_correct:
  "alu_result (sbb_long f d s) f (d - s - of_bool (ACCESS_FLAG F_CF f))
     (sub_flags d s (ACCESS_FLAG F_CF f))"
  unfolding sbb_long_def borrow_diff alu_result_def Let_def XOR2_bits
  by (simp add: alu_eval core_simps chain_simps split del: split_of_bool)

lemma add_byte_correct:
  "alu_result (add_byte f d s) f (d + s) (add_flags d s False)"
  unfolding add_byte_def alu_result_def Let_def XOR2_bits
  by (simp add: alu_eval core_simps0 chain_simps0 split del: split_of_bool)

lemma add_word_correct:
  "alu_result (add_word f d s) f (d + s) (add_flags d s False)"
  unfolding add_word_def alu_result_def Let_def XOR2_bits
  by (simp add: alu_eval core_simps0 chain_simps0 split del: split_of_bool)

lemma add_long_correct:
  "alu_result (add_long f d s) f (d + s) (add_flags d s False)"
  unfolding add_long_def alu_result_def Let_def XOR2_bits
  by (simp add: alu_eval core_simps0 chain_simps0 split del: split_of_bool)

lemma sub_byte_correct:
  "alu_result (sub_byte f d s) f (d - s) (sub_flags d s False)"
  unfolding sub_byte_def alu_result_def Let_def XOR2_bits
  by (simp add: alu_eval core_simps0 chain_simps0 split del: split_of_bool)

lemma sub_word_correct:
  "alu_result (sub_word f d s) f (d - s) (sub_flags d s False)"
  unfolding sub_word_def alu_result_def Let_def XOR2_bits
  by (simp add: alu_eval core_simps0 chain_simps0 split del: split_of_bool)

lemma sub_long_correct:
  "alu_result (sub_long f d s) f (d - s) (sub_flags d s False)"
  unfolding sub_long_def alu_result_def Let_def XOR2_bits
  by (simp add: alu_eval core_simps0 chain_simps0 split del: split_of_bool)

lemma cmp_byte_correct:
  "alu_result (cmp_byte f d s) f d (sub_flags d s False)"
  unfolding cmp_byte_def alu_result_def Let_def XOR2_bits
  by (simp add: alu_eval core_simps0 chain_simps0 split del: split_of_bool)

lemma cmp_word_correct:
  "alu_result (cmp_word f d s) f d (sub_flags d s False)"
  unfolding cmp_word_def alu_result_def Let_def XOR2_bits
  by (simp add: alu_eval core_simps0 chain_simps0 split del: split_of_bool)

lemma cmp_long_correct:
  "alu_result (cmp_long f d s) f d (sub_flags d s False)"
  unfolding cmp_long_def alu_result_def Let_def XOR2_bits
  by (simp add: alu_eval core_simps0 chain_simps0 split del: split_of_bool)

lemma inc_byte_correct:
  "alu_result (inc_byte f d) f (d + 1) ((add_flags d 1 False)\<lparr>a_cf := ACCESS_FLAG F_CF f\<rparr>)"
  unfolding inc_byte_def cc_inc alu_result_def Let_def XOR2_bits
  by (simp add: alu_eval inc_simps chain_simps1 split del: split_of_bool)

lemma inc_word_correct:
  "alu_result (inc_word f d) f (d + 1) ((add_flags d 1 False)\<lparr>a_cf := ACCESS_FLAG F_CF f\<rparr>)"
  unfolding inc_word_def cc_inc alu_result_def Let_def XOR2_bits
  by (simp add: alu_eval inc_simps chain_simps1 split del: split_of_bool)

lemma inc_long_correct:
  "alu_result (inc_long f d) f (d + 1) ((add_flags d 1 False)\<lparr>a_cf := ACCESS_FLAG F_CF f\<rparr>)"
  unfolding inc_long_def cc_inc alu_result_def Let_def XOR2_bits
  by (simp add: alu_eval inc_simps chain_simps1 split del: split_of_bool)

lemma dec_byte_correct:
  "alu_result (dec_byte f d) f (d - 1) ((sub_flags d 1 False)\<lparr>a_cf := ACCESS_FLAG F_CF f\<rparr>)"
  unfolding dec_byte_def alu_result_def Let_def XOR2_bits
  by (simp add: alu_eval dec_simps chain_simps1 split del: split_of_bool)

lemma dec_word_correct:
  "alu_result (dec_word f d) f (d - 1) ((sub_flags d 1 False)\<lparr>a_cf := ACCESS_FLAG F_CF f\<rparr>)"
  unfolding dec_word_def alu_result_def Let_def XOR2_bits
  by (simp add: alu_eval dec_simps chain_simps1 split del: split_of_bool)

lemma dec_long_correct:
  "alu_result (dec_long f d) f (d - 1) ((sub_flags d 1 False)\<lparr>a_cf := ACCESS_FLAG F_CF f\<rparr>)"
  unfolding dec_long_def alu_result_def Let_def XOR2_bits
  by (simp add: alu_eval dec_simps chain_simps1 split del: split_of_bool)

lemma neg_byte_correct:
  "alu_result (neg_byte f s) f (- s) (sub_flags 0 s False)"
  unfolding neg_byte_def alu_result_def Let_def XOR2_bits
  by (simp add: alu_eval neg_simps split del: split_of_bool)

lemma neg_word_correct:
  "alu_result (neg_word f s) f (- s) (sub_flags 0 s False)"
  unfolding neg_word_def alu_result_def Let_def XOR2_bits
  by (simp add: alu_eval neg_simps split del: split_of_bool)

lemma neg_long_correct:
  "alu_result (neg_long f s) f (- s) (sub_flags 0 s False)"
  unfolding neg_long_def alu_result_def Let_def XOR2_bits
  by (simp add: alu_eval neg_simps split del: split_of_bool)

lemma and_byte_correct:
  "alu_result (and_byte f d s) f (d AND s) (logic_flags (d AND s))"
  unfolding and_byte_def alu_result_def Let_def XOR2_bits
  by (simp add: alu_eval)

lemma and_word_correct:
  "alu_result (and_word f d s) f (d AND s) (logic_flags (d AND s))"
  unfolding and_word_def alu_result_def Let_def XOR2_bits
  by (simp add: alu_eval)

lemma and_long_correct:
  "alu_result (and_long f d s) f (d AND s) (logic_flags (d AND s))"
  unfolding and_long_def alu_result_def Let_def XOR2_bits
  by (simp add: alu_eval)

lemma or_byte_correct:
  "alu_result (or_byte f d s) f (d OR s) (logic_flags (d OR s))"
  unfolding or_byte_def alu_result_def Let_def XOR2_bits
  by (simp add: alu_eval)

lemma or_word_correct:
  "alu_result (or_word f d s) f (d OR s) (logic_flags (d OR s))"
  unfolding or_word_def alu_result_def Let_def XOR2_bits
  by (simp add: alu_eval)

lemma or_long_correct:
  "alu_result (or_long f d s) f (d OR s) (logic_flags (d OR s))"
  unfolding or_long_def alu_result_def Let_def XOR2_bits
  by (simp add: alu_eval)

lemma xor_byte_correct:
  "alu_result (xor_byte f d s) f (d XOR s) (logic_flags (d XOR s))"
  unfolding xor_byte_def alu_result_def Let_def XOR2_bits
  by (simp add: alu_eval)

lemma xor_word_correct:
  "alu_result (xor_word f d s) f (d XOR s) (logic_flags (d XOR s))"
  unfolding xor_word_def alu_result_def Let_def XOR2_bits
  by (simp add: alu_eval)

lemma xor_long_correct:
  "alu_result (xor_long f d s) f (d XOR s) (logic_flags (d XOR s))"
  unfolding xor_long_def alu_result_def Let_def XOR2_bits
  by (simp add: alu_eval)

lemma test_byte_correct:
  "alu_result (d, test_byte f d s) f d ((logic_flags (d AND s))\<lparr>a_af := ACCESS_FLAG F_AF f\<rparr>)"
  unfolding test_byte_def alu_result_def Let_def XOR2_bits
  by (simp add: alu_eval test_simps split del: split_of_bool)

lemma test_word_correct:
  "alu_result (d, test_word f d s) f d ((logic_flags (d AND s))\<lparr>a_af := ACCESS_FLAG F_AF f\<rparr>)"
  unfolding test_word_def alu_result_def Let_def XOR2_bits
  by (simp add: alu_eval test_simps split del: split_of_bool)

lemma test_long_correct:
  "alu_result (d, test_long f d s) f d ((logic_flags (d AND s))\<lparr>a_af := ACCESS_FLAG F_AF f\<rparr>)"
  unfolding test_long_def alu_result_def Let_def XOR2_bits
  by (simp add: alu_eval test_simps split del: split_of_bool)

section \<open>The properties of the primitives\<close>

text \<open>
  C16. ADD and ADC at 8, 16 and 32 bits return the wrapped sum of the operands (and
  of the carry flag), set CF to the unsigned carry out, AF to the carry out of
  the low four bits, OF exactly when the signed sum is not representable, ZF, SF
  and PF from the result, and change no other flag.
\<close>

theorem add_adc_correct:
  "alu_result (add_byte f b1 b2) f (b1 + b2) (add_flags b1 b2 False) \<and>
   alu_result (add_word f w1 w2) f (w1 + w2) (add_flags w1 w2 False) \<and>
   alu_result (add_long f l1 l2) f (l1 + l2) (add_flags l1 l2 False) \<and>
   alu_result (adc_byte f b1 b2) f (b1 + b2 + of_bool (ACCESS_FLAG F_CF f))
     (add_flags b1 b2 (ACCESS_FLAG F_CF f)) \<and>
   alu_result (adc_word f w1 w2) f (w1 + w2 + of_bool (ACCESS_FLAG F_CF f))
     (add_flags w1 w2 (ACCESS_FLAG F_CF f)) \<and>
   alu_result (adc_long f l1 l2) f (l1 + l2 + of_bool (ACCESS_FLAG F_CF f))
     (add_flags l1 l2 (ACCESS_FLAG F_CF f))"
  by (intro conjI add_byte_correct add_word_correct add_long_correct
      adc_byte_correct adc_word_correct adc_long_correct)

text \<open>
  C17. SUB, SBB and CMP at 8, 16 and 32 bits set CF to the unsigned borrow, AF to the
  borrow out of the low four bits, OF exactly when the signed difference is not
  representable, and ZF, SF, PF from the difference; SUB and SBB return the wrapped
  difference, CMP returns its first operand unchanged; NEG does the same for \<open>0 - s\<close>.
\<close>

theorem sub_sbb_cmp_neg_correct:
  "alu_result (sub_byte f b1 b2) f (b1 - b2) (sub_flags b1 b2 False) \<and>
   alu_result (sub_word f w1 w2) f (w1 - w2) (sub_flags w1 w2 False) \<and>
   alu_result (sub_long f l1 l2) f (l1 - l2) (sub_flags l1 l2 False) \<and>
   alu_result (sbb_byte f b1 b2) f (b1 - b2 - of_bool (ACCESS_FLAG F_CF f))
     (sub_flags b1 b2 (ACCESS_FLAG F_CF f)) \<and>
   alu_result (sbb_word f w1 w2) f (w1 - w2 - of_bool (ACCESS_FLAG F_CF f))
     (sub_flags w1 w2 (ACCESS_FLAG F_CF f)) \<and>
   alu_result (sbb_long f l1 l2) f (l1 - l2 - of_bool (ACCESS_FLAG F_CF f))
     (sub_flags l1 l2 (ACCESS_FLAG F_CF f)) \<and>
   alu_result (cmp_byte f b1 b2) f b1 (sub_flags b1 b2 False) \<and>
   alu_result (cmp_word f w1 w2) f w1 (sub_flags w1 w2 False) \<and>
   alu_result (cmp_long f l1 l2) f l1 (sub_flags l1 l2 False) \<and>
   alu_result (neg_byte f b1) f (- b1) (sub_flags 0 b1 False) \<and>
   alu_result (neg_word f w1) f (- w1) (sub_flags 0 w1 False) \<and>
   alu_result (neg_long f l1) f (- l1) (sub_flags 0 l1 False)"
  by (intro conjI sub_byte_correct sub_word_correct sub_long_correct
      sbb_byte_correct sbb_word_correct sbb_long_correct cmp_byte_correct cmp_word_correct
      cmp_long_correct neg_byte_correct neg_word_correct neg_long_correct)

text \<open>
  C18. INC and DEC add and subtract one with the flags of that addition and
  subtraction except that CF keeps its value; AND, OR, XOR set the flags of a
  logical result with CF, AF and OF clear; TEST does so for the conjunction but
  keeps AF.
\<close>

theorem inc_dec_logic_correct:
  "alu_result (inc_byte f b1) f (b1 + 1) ((add_flags b1 1 False)\<lparr>a_cf := ACCESS_FLAG F_CF f\<rparr>) \<and>
   alu_result (inc_word f w1) f (w1 + 1) ((add_flags w1 1 False)\<lparr>a_cf := ACCESS_FLAG F_CF f\<rparr>) \<and>
   alu_result (inc_long f l1) f (l1 + 1) ((add_flags l1 1 False)\<lparr>a_cf := ACCESS_FLAG F_CF f\<rparr>) \<and>
   alu_result (dec_byte f b1) f (b1 - 1) ((sub_flags b1 1 False)\<lparr>a_cf := ACCESS_FLAG F_CF f\<rparr>) \<and>
   alu_result (dec_word f w1) f (w1 - 1) ((sub_flags w1 1 False)\<lparr>a_cf := ACCESS_FLAG F_CF f\<rparr>) \<and>
   alu_result (dec_long f l1) f (l1 - 1) ((sub_flags l1 1 False)\<lparr>a_cf := ACCESS_FLAG F_CF f\<rparr>) \<and>
   alu_result (and_byte f b1 b2) f (b1 AND b2) (logic_flags (b1 AND b2)) \<and>
   alu_result (and_word f w1 w2) f (w1 AND w2) (logic_flags (w1 AND w2)) \<and>
   alu_result (and_long f l1 l2) f (l1 AND l2) (logic_flags (l1 AND l2)) \<and>
   alu_result (or_byte f b1 b2) f (b1 OR b2) (logic_flags (b1 OR b2)) \<and>
   alu_result (or_word f w1 w2) f (w1 OR w2) (logic_flags (w1 OR w2)) \<and>
   alu_result (or_long f l1 l2) f (l1 OR l2) (logic_flags (l1 OR l2)) \<and>
   alu_result (xor_byte f b1 b2) f (b1 XOR b2) (logic_flags (b1 XOR b2)) \<and>
   alu_result (xor_word f w1 w2) f (w1 XOR w2) (logic_flags (w1 XOR w2)) \<and>
   alu_result (xor_long f l1 l2) f (l1 XOR l2) (logic_flags (l1 XOR l2)) \<and>
   alu_result (b1, test_byte f b1 b2) f b1 ((logic_flags (b1 AND b2))\<lparr>a_af := ACCESS_FLAG F_AF f\<rparr>) \<and>
   alu_result (w1, test_word f w1 w2) f w1 ((logic_flags (w1 AND w2))\<lparr>a_af := ACCESS_FLAG F_AF f\<rparr>) \<and>
   alu_result (l1, test_long f l1 l2) f l1 ((logic_flags (l1 AND l2))\<lparr>a_af := ACCESS_FLAG F_AF f\<rparr>)"
  by (intro conjI inc_byte_correct inc_word_correct inc_long_correct
      dec_byte_correct dec_word_correct dec_long_correct and_byte_correct and_word_correct
      and_long_correct or_byte_correct or_word_correct or_long_correct xor_byte_correct
      xor_word_correct xor_long_correct test_byte_correct test_word_correct test_long_correct)

end
