(* ===== verification/Alu_Shift.thy ===== *)
theory Alu_Shift
  imports Alu_Arith
begin

text \<open>
  The rotate and shift primitives of \<^verbatim>\<open>prim_ops.c\<close> (RCL, RCR, ROL, ROR, SHL, SHR,
  SAR, SHLD, SHRD at 8, 16 and 32 bits) and their specification: rotation through
  carry against the processor manual's one-bit loop, plain rotation against the
  library's word rotation, shifts against the word shifts with the carry being the
  last bit moved out.
\<close>

section \<open>The primitives\<close>

subsection \<open>RCL and RCR\<close>

definition rcl_byte :: "u32 \<Rightarrow> u8 \<Rightarrow> u8 \<Rightarrow> u8 \<times> u32" where
  "rcl_byte f d s =
     (let x = (ucast d :: u32); cnt = unat s mod 9
      in if cnt \<noteq> 0 then
           let cf = c_shr x (8 - cnt) AND 0x1;
               res = c_shl x cnt AND 0xff;
               mask = c_shl 1 (cnt - 1) - 1;
               res = res OR (c_shr x (9 - cnt) AND mask);
               res = (if ACCESS_FLAG F_CF f then res OR c_shl 1 (cnt - 1) else res);
               f = CONDITIONAL_SET_FLAG (cf \<noteq> 0) F_CF f;
               f = CONDITIONAL_SET_FLAG (cnt = 1 \<and> XOR2 (cf + (drop_bit 6 res AND 0x2))) F_OF f
           in (ucast res, f)
         else (d, f))"

definition rcl_word :: "u32 \<Rightarrow> u16 \<Rightarrow> u8 \<Rightarrow> u16 \<times> u32" where
  "rcl_word f d s =
     (let x = (ucast d :: u32); cnt = unat s mod 17
      in if cnt \<noteq> 0 then
           let cf = c_shr x (16 - cnt) AND 0x1;
               res = c_shl x cnt AND 0xffff;
               mask = c_shl 1 (cnt - 1) - 1;
               res = res OR (c_shr x (17 - cnt) AND mask);
               res = (if ACCESS_FLAG F_CF f then res OR c_shl 1 (cnt - 1) else res);
               f = CONDITIONAL_SET_FLAG (cf \<noteq> 0) F_CF f;
               f = CONDITIONAL_SET_FLAG (cnt = 1 \<and> XOR2 (cf + (drop_bit 14 res AND 0x2))) F_OF f
           in (ucast res, f)
         else (d, f))"

definition rcl_long :: "u32 \<Rightarrow> u32 \<Rightarrow> u8 \<Rightarrow> u32 \<times> u32" where
  "rcl_long f d s =
     (let x = (d :: u32); cnt = unat s mod 33
      in if cnt \<noteq> 0 then
           let cf = c_shr x (32 - cnt) AND 0x1;
               res = c_shl x cnt AND 0xffffffff;
               mask = c_shl 1 (cnt - 1) - 1;
               res = res OR (c_shr x (33 - cnt) AND mask);
               res = (if ACCESS_FLAG F_CF f then res OR c_shl 1 (cnt - 1) else res);
               f = CONDITIONAL_SET_FLAG (cf \<noteq> 0) F_CF f;
               f = CONDITIONAL_SET_FLAG (cnt = 1 \<and> XOR2 (cf + (drop_bit 30 res AND 0x2))) F_OF f
           in (res, f)
         else (d, f))"

definition rcr_byte :: "u32 \<Rightarrow> u8 \<Rightarrow> u8 \<Rightarrow> u8 \<times> u32" where
  "rcr_byte f d s =
     (let x = (ucast d :: u32); cnt = unat s mod 9
      in if cnt \<noteq> 0 then
           let cf = (if cnt = 1 then x AND 0x1 else c_shr x (cnt - 1) AND 0x1);
               ocf = (if cnt = 1 then of_bool (ACCESS_FLAG F_CF f) else 0 :: u32);
               mask = c_shl 1 (8 - cnt) - 1;
               res = c_shr x cnt AND mask;
               res = res OR c_shl x (9 - cnt);
               res = (if ACCESS_FLAG F_CF f then res OR c_shl 1 (8 - cnt) else res);
               f = CONDITIONAL_SET_FLAG (cf \<noteq> 0) F_CF f;
               f = (if cnt = 1 then CONDITIONAL_SET_FLAG (XOR2 (ocf + (drop_bit 6 x AND 0x2))) F_OF f else f)
           in (ucast res, f)
         else (d, f))"

definition rcr_word :: "u32 \<Rightarrow> u16 \<Rightarrow> u8 \<Rightarrow> u16 \<times> u32" where
  "rcr_word f d s =
     (let x = (ucast d :: u32); cnt = unat s mod 17
      in if cnt \<noteq> 0 then
           let cf = (if cnt = 1 then x AND 0x1 else c_shr x (cnt - 1) AND 0x1);
               ocf = (if cnt = 1 then of_bool (ACCESS_FLAG F_CF f) else 0 :: u32);
               mask = c_shl 1 (16 - cnt) - 1;
               res = c_shr x cnt AND mask;
               res = res OR c_shl x (17 - cnt);
               res = (if ACCESS_FLAG F_CF f then res OR c_shl 1 (16 - cnt) else res);
               f = CONDITIONAL_SET_FLAG (cf \<noteq> 0) F_CF f;
               f = (if cnt = 1 then CONDITIONAL_SET_FLAG (XOR2 (ocf + (drop_bit 14 x AND 0x2))) F_OF f else f)
           in (ucast res, f)
         else (d, f))"

definition rcr_long :: "u32 \<Rightarrow> u32 \<Rightarrow> u8 \<Rightarrow> u32 \<times> u32" where
  "rcr_long f d s =
     (let x = (d :: u32); cnt = unat s mod 33
      in if cnt \<noteq> 0 then
           let cf = (if cnt = 1 then x AND 0x1 else c_shr x (cnt - 1) AND 0x1);
               ocf = (if cnt = 1 then of_bool (ACCESS_FLAG F_CF f) else 0 :: u32);
               mask = c_shl 1 (32 - cnt) - 1;
               res = c_shr x cnt AND mask;
               res = (if cnt \<noteq> 1 then res OR c_shl x (33 - cnt) else res);
               res = (if ACCESS_FLAG F_CF f then res OR c_shl 1 (32 - cnt) else res);
               f = CONDITIONAL_SET_FLAG (cf \<noteq> 0) F_CF f;
               f = (if cnt = 1 then CONDITIONAL_SET_FLAG (XOR2 (ocf + (drop_bit 30 x AND 0x2))) F_OF f else f)
           in (res, f)
         else (d, f))"

subsection \<open>ROL and ROR\<close>

definition rol_byte :: "u32 \<Rightarrow> u8 \<Rightarrow> u8 \<Rightarrow> u8 \<times> u32" where
  "rol_byte f d s =
     (if s = 0 then (d, f)
      else
        let cnt = unat s mod 8; x = (ucast d :: u32);
            d = (if cnt \<noteq> 0 then ucast (c_shl x cnt + (c_shr x (8 - cnt) AND (c_shl 1 cnt - 1))) else d);
            y = (ucast d :: u32);
            f = (if s = 1 then CONDITIONAL_SET_FLAG ((y + drop_bit 7 y) AND 1 \<noteq> 0) F_OF f else f);
            f = CONDITIONAL_SET_FLAG (y AND 0x1 \<noteq> 0) F_CF f
        in (d, f))"

definition rol_word :: "u32 \<Rightarrow> u16 \<Rightarrow> u8 \<Rightarrow> u16 \<times> u32" where
  "rol_word f d s =
     (if s = 0 then (d, f)
      else
        let cnt = unat s mod 16; x = (ucast d :: u32);
            d = (if cnt \<noteq> 0 then ucast (c_shl x cnt + (c_shr x (16 - cnt) AND (c_shl 1 cnt - 1))) else d);
            y = (ucast d :: u32);
            f = (if s = 1 then CONDITIONAL_SET_FLAG ((y + drop_bit 15 y) AND 1 \<noteq> 0) F_OF f else f);
            f = CONDITIONAL_SET_FLAG (y AND 0x1 \<noteq> 0) F_CF f
        in (d, f))"

definition rol_long :: "u32 \<Rightarrow> u32 \<Rightarrow> u8 \<Rightarrow> u32 \<times> u32" where
  "rol_long f d s =
     (if s = 0 then (d, f)
      else
        let cnt = unat s mod 32; x = (d :: u32);
            d = (if cnt \<noteq> 0 then c_shl x cnt + (c_shr x (32 - cnt) AND (c_shl 1 cnt - 1)) else d);
            y = (d :: u32);
            f = (if s = 1 then CONDITIONAL_SET_FLAG ((y + drop_bit 31 y) AND 1 \<noteq> 0) F_OF f else f);
            f = CONDITIONAL_SET_FLAG (y AND 0x1 \<noteq> 0) F_CF f
        in (d, f))"

definition ror_byte :: "u32 \<Rightarrow> u8 \<Rightarrow> u8 \<Rightarrow> u8 \<times> u32" where
  "ror_byte f d s =
     (if s = 0 then (d, f)
      else
        let cnt = unat s mod 8; x = (ucast d :: u32);
            d = (if cnt \<noteq> 0 then ucast (c_shl x (8 - cnt) + (c_shr x cnt AND (c_shl 1 (8 - cnt) - 1))) else d);
            y = (ucast d :: u32);
            f = (if s = 1 then CONDITIONAL_SET_FLAG (XOR2 (drop_bit 6 y)) F_OF f else f);
            f = CONDITIONAL_SET_FLAG (y AND c_shl 1 7 \<noteq> 0) F_CF f
        in (d, f))"

definition ror_word :: "u32 \<Rightarrow> u16 \<Rightarrow> u8 \<Rightarrow> u16 \<times> u32" where
  "ror_word f d s =
     (if s = 0 then (d, f)
      else
        let cnt = unat s mod 16; x = (ucast d :: u32);
            d = (if cnt \<noteq> 0 then ucast (c_shl x (16 - cnt) + (c_shr x cnt AND (c_shl 1 (16 - cnt) - 1))) else d);
            y = (ucast d :: u32);
            f = (if s = 1 then CONDITIONAL_SET_FLAG (XOR2 (drop_bit 14 y)) F_OF f else f);
            f = CONDITIONAL_SET_FLAG (y AND c_shl 1 15 \<noteq> 0) F_CF f
        in (d, f))"

definition ror_long :: "u32 \<Rightarrow> u32 \<Rightarrow> u8 \<Rightarrow> u32 \<times> u32" where
  "ror_long f d s =
     (if s = 0 then (d, f)
      else
        let cnt = unat s mod 32; x = (d :: u32);
            d = (if cnt \<noteq> 0 then c_shl x (32 - cnt) + (c_shr x cnt AND (c_shl 1 (32 - cnt) - 1)) else d);
            y = (d :: u32);
            f = (if s = 1 then CONDITIONAL_SET_FLAG (XOR2 (drop_bit 30 y)) F_OF f else f);
            f = CONDITIONAL_SET_FLAG (y AND c_shl 1 31 \<noteq> 0) F_CF f
        in (d, f))"

subsection \<open>SHL, SHR and SAR\<close>

definition shl_byte :: "u32 \<Rightarrow> u8 \<Rightarrow> u8 \<Rightarrow> u8 \<times> u32" where
  "shl_byte f d s =
     (let x = (ucast d :: u32)
      in if unat s < 8 then
           let cnt = unat s mod 8;
               (res, f) =
                 (if cnt > 0 then
                    let res = c_shl x cnt;
                        cf = x AND c_shl 1 (8 - cnt);
                        f = CONDITIONAL_SET_FLAG (cf \<noteq> 0) F_CF f;
                        f = CONDITIONAL_SET_FLAG (res AND 0xff = 0) F_ZF f;
                        f = CONDITIONAL_SET_FLAG (res AND 0x80 \<noteq> 0) F_SF f;
                        f = CONDITIONAL_SET_FLAG (PARITY (res AND 0xff)) F_PF f
                    in (res, f)
                  else (x, f));
               f = (if cnt = 1 then
                      CONDITIONAL_SET_FLAG ((res AND 0x80 = 0x80) \<noteq> ACCESS_FLAG F_CF f) F_OF f
                    else CLEAR_FLAG F_OF f)
           in (ucast res, f)
         else
           let f = CONDITIONAL_SET_FLAG (c_shl x (unat s - 1) AND 0x80 \<noteq> 0) F_CF f;
               f = CLEAR_FLAG F_OF f; f = CLEAR_FLAG F_SF f;
               f = SET_FLAG F_PF f; f = SET_FLAG F_ZF f
           in (0, f))"

definition shl_word :: "u32 \<Rightarrow> u16 \<Rightarrow> u8 \<Rightarrow> u16 \<times> u32" where
  "shl_word f d s =
     (let x = (ucast d :: u32)
      in if unat s < 16 then
           let cnt = unat s mod 16;
               (res, f) =
                 (if cnt > 0 then
                    let res = c_shl x cnt;
                        cf = x AND c_shl 1 (16 - cnt);
                        f = CONDITIONAL_SET_FLAG (cf \<noteq> 0) F_CF f;
                        f = CONDITIONAL_SET_FLAG (res AND 0xffff = 0) F_ZF f;
                        f = CONDITIONAL_SET_FLAG (res AND 0x8000 \<noteq> 0) F_SF f;
                        f = CONDITIONAL_SET_FLAG (PARITY (res AND 0xff)) F_PF f
                    in (res, f)
                  else (x, f));
               f = (if cnt = 1 then
                      CONDITIONAL_SET_FLAG ((res AND 0x8000 = 0x8000) \<noteq> ACCESS_FLAG F_CF f) F_OF f
                    else CLEAR_FLAG F_OF f)
           in (ucast res, f)
         else
           let f = CONDITIONAL_SET_FLAG (c_shl x (unat s - 1) AND 0x8000 \<noteq> 0) F_CF f;
               f = CLEAR_FLAG F_OF f; f = CLEAR_FLAG F_SF f;
               f = SET_FLAG F_PF f; f = SET_FLAG F_ZF f
           in (0, f))"

definition shl_long :: "u32 \<Rightarrow> u32 \<Rightarrow> u8 \<Rightarrow> u32 \<times> u32" where
  "shl_long f d s =
     (let x = (d :: u32)
      in if unat s < 32 then
           let cnt = unat s mod 32;
               (res, f) =
                 (if cnt > 0 then
                    let res = c_shl x cnt;
                        cf = x AND c_shl 1 (32 - cnt);
                        f = CONDITIONAL_SET_FLAG (cf \<noteq> 0) F_CF f;
                        f = CONDITIONAL_SET_FLAG (res AND 0xffffffff = 0) F_ZF f;
                        f = CONDITIONAL_SET_FLAG (res AND 0x80000000 \<noteq> 0) F_SF f;
                        f = CONDITIONAL_SET_FLAG (PARITY (res AND 0xff)) F_PF f
                    in (res, f)
                  else (x, f));
               f = (if cnt = 1 then
                      CONDITIONAL_SET_FLAG ((res AND 0x80000000 = 0x80000000) \<noteq> ACCESS_FLAG F_CF f) F_OF f
                    else CLEAR_FLAG F_OF f)
           in (res, f)
         else
           let f = CONDITIONAL_SET_FLAG (c_shl x (unat s - 1) AND 0x80000000 \<noteq> 0) F_CF f;
               f = CLEAR_FLAG F_OF f; f = CLEAR_FLAG F_SF f;
               f = SET_FLAG F_PF f; f = SET_FLAG F_ZF f
           in (0, f))"

definition shr_byte :: "u32 \<Rightarrow> u8 \<Rightarrow> u8 \<Rightarrow> u8 \<times> u32" where
  "shr_byte f d s =
     (let x = (ucast d :: u32)
      in if unat s < 8 then
           let cnt = unat s mod 8;
               (res, f) =
                 (if cnt > 0 then
                    let cf = x AND c_shl 1 (cnt - 1);
                        res = c_shr x cnt;
                        f = CONDITIONAL_SET_FLAG (cf \<noteq> 0) F_CF f;
                        f = CONDITIONAL_SET_FLAG (res AND 0xff = 0) F_ZF f;
                        f = CONDITIONAL_SET_FLAG (res AND 0x80 \<noteq> 0) F_SF f;
                        f = CONDITIONAL_SET_FLAG (PARITY (res AND 0xff)) F_PF f
                    in (res, f)
                  else (x, f));
               f = (if cnt = 1 then CONDITIONAL_SET_FLAG (XOR2 (drop_bit 6 res)) F_OF f
                    else CLEAR_FLAG F_OF f)
           in (ucast res, f)
         else
           let f = CONDITIONAL_SET_FLAG (c_shr x (unat s - 1) AND 0x1 \<noteq> 0) F_CF f;
               f = CLEAR_FLAG F_OF f; f = CLEAR_FLAG F_SF f;
               f = SET_FLAG F_PF f; f = SET_FLAG F_ZF f
           in (0, f))"

definition shr_word :: "u32 \<Rightarrow> u16 \<Rightarrow> u8 \<Rightarrow> u16 \<times> u32" where
  "shr_word f d s =
     (let x = (ucast d :: u32)
      in if unat s < 16 then
           let cnt = unat s mod 16;
               (res, f) =
                 (if cnt > 0 then
                    let cf = x AND c_shl 1 (cnt - 1);
                        res = c_shr x cnt;
                        f = CONDITIONAL_SET_FLAG (cf \<noteq> 0) F_CF f;
                        f = CONDITIONAL_SET_FLAG (res AND 0xffff = 0) F_ZF f;
                        f = CONDITIONAL_SET_FLAG (res AND 0x8000 \<noteq> 0) F_SF f;
                        f = CONDITIONAL_SET_FLAG (PARITY (res AND 0xff)) F_PF f
                    in (res, f)
                  else (x, f));
               f = (if cnt = 1 then CONDITIONAL_SET_FLAG (XOR2 (drop_bit 14 res)) F_OF f
                    else CLEAR_FLAG F_OF f)
           in (ucast res, f)
         else
           let f = CLEAR_FLAG F_CF f; f = CLEAR_FLAG F_OF f; f = SET_FLAG F_ZF f;
               f = CLEAR_FLAG F_SF f; f = CLEAR_FLAG F_PF f
           in (0, f))"

definition shr_long :: "u32 \<Rightarrow> u32 \<Rightarrow> u8 \<Rightarrow> u32 \<times> u32" where
  "shr_long f d s =
     (let x = (d :: u32)
      in if unat s < 32 then
           let cnt = unat s mod 32;
               (res, f) =
                 (if cnt > 0 then
                    let cf = x AND c_shl 1 (cnt - 1);
                        res = c_shr x cnt;
                        f = CONDITIONAL_SET_FLAG (cf \<noteq> 0) F_CF f;
                        f = CONDITIONAL_SET_FLAG (res AND 0xffffffff = 0) F_ZF f;
                        f = CONDITIONAL_SET_FLAG (res AND 0x80000000 \<noteq> 0) F_SF f;
                        f = CONDITIONAL_SET_FLAG (PARITY (res AND 0xff)) F_PF f
                    in (res, f)
                  else (x, f));
               f = (if cnt = 1 then CONDITIONAL_SET_FLAG (XOR2 (drop_bit 30 res)) F_OF f
                    else CLEAR_FLAG F_OF f)
           in (res, f)
         else
           let f = CLEAR_FLAG F_CF f; f = CLEAR_FLAG F_OF f; f = SET_FLAG F_ZF f;
               f = CLEAR_FLAG F_SF f; f = CLEAR_FLAG F_PF f
           in (0, f))"

definition sar_byte :: "u32 \<Rightarrow> u8 \<Rightarrow> u8 \<Rightarrow> u8 \<times> u32" where
  "sar_byte f d s =
     (let x = (ucast d :: u32); sf = x AND 0x80; cnt = unat s mod 8
      in if cnt > 0 \<and> cnt < 8 then
           let mask = c_shl 1 (8 - cnt) - 1;
               cf = x AND c_shl 1 (cnt - 1);
               res = c_shr x cnt AND mask;
               f = CONDITIONAL_SET_FLAG (cf \<noteq> 0) F_CF f;
               res = (if sf \<noteq> 0 then res OR NOT mask else res);
               f = CONDITIONAL_SET_FLAG (res AND 0xff = 0) F_ZF f;
               f = CONDITIONAL_SET_FLAG (PARITY (res AND 0xff)) F_PF f;
               f = CONDITIONAL_SET_FLAG (res AND 0x80 \<noteq> 0) F_SF f
           in (ucast res, f)
         else if cnt \<ge> 8 then
           if sf \<noteq> 0 then
             (0xff, SET_FLAG F_PF (SET_FLAG F_SF (CLEAR_FLAG F_ZF (SET_FLAG F_CF f))))
           else
             (0, CLEAR_FLAG F_PF (CLEAR_FLAG F_SF (SET_FLAG F_ZF (CLEAR_FLAG F_CF f))))
         else (ucast x, f))"

definition sar_word :: "u32 \<Rightarrow> u16 \<Rightarrow> u8 \<Rightarrow> u16 \<times> u32" where
  "sar_word f d s =
     (let x = (ucast d :: u32); sf = x AND 0x8000; cnt = unat s mod 16
      in if cnt > 0 \<and> cnt < 16 then
           let mask = c_shl 1 (16 - cnt) - 1;
               cf = x AND c_shl 1 (cnt - 1);
               res = c_shr x cnt AND mask;
               f = CONDITIONAL_SET_FLAG (cf \<noteq> 0) F_CF f;
               res = (if sf \<noteq> 0 then res OR NOT mask else res);
               f = CONDITIONAL_SET_FLAG (res AND 0xffff = 0) F_ZF f;
               f = CONDITIONAL_SET_FLAG (res AND 0x8000 \<noteq> 0) F_SF f;
               f = CONDITIONAL_SET_FLAG (PARITY (res AND 0xff)) F_PF f
           in (ucast res, f)
         else if cnt \<ge> 16 then
           if sf \<noteq> 0 then
             (0xffff, SET_FLAG F_PF (SET_FLAG F_SF (CLEAR_FLAG F_ZF (SET_FLAG F_CF f))))
           else
             (0, CLEAR_FLAG F_PF (CLEAR_FLAG F_SF (SET_FLAG F_ZF (CLEAR_FLAG F_CF f))))
         else (ucast x, f))"

definition sar_long :: "u32 \<Rightarrow> u32 \<Rightarrow> u8 \<Rightarrow> u32 \<times> u32" where
  "sar_long f d s =
     (let x = (d :: u32); sf = x AND 0x80000000; cnt = unat s mod 32
      in if cnt > 0 \<and> cnt < 32 then
           let mask = c_shl 1 (32 - cnt) - 1;
               cf = x AND c_shl 1 (cnt - 1);
               res = c_shr x cnt AND mask;
               f = CONDITIONAL_SET_FLAG (cf \<noteq> 0) F_CF f;
               res = (if sf \<noteq> 0 then res OR NOT mask else res);
               f = CONDITIONAL_SET_FLAG (res AND 0xffffffff = 0) F_ZF f;
               f = CONDITIONAL_SET_FLAG (res AND 0x80000000 \<noteq> 0) F_SF f;
               f = CONDITIONAL_SET_FLAG (PARITY (res AND 0xff)) F_PF f
           in (res, f)
         else if cnt \<ge> 32 then
           if sf \<noteq> 0 then
             (0xffffffff, SET_FLAG F_PF (SET_FLAG F_SF (CLEAR_FLAG F_ZF (SET_FLAG F_CF f))))
           else
             (0, CLEAR_FLAG F_PF (CLEAR_FLAG F_SF (SET_FLAG F_ZF (CLEAR_FLAG F_CF f))))
         else (x, f))"

subsection \<open>SHLD and SHRD\<close>

definition shld_word :: "u32 \<Rightarrow> u16 \<Rightarrow> u16 \<Rightarrow> u8 \<Rightarrow> u16 \<times> u32" where
  "shld_word f d fill s =
     (let x = (ucast d :: u32); y = (ucast fill :: u32)
      in if unat s < 16 then
           let cnt = unat s mod 16;
               (res, f) =
                 (if cnt > 0 then
                    let res = c_shl x cnt OR c_shr y (16 - cnt);
                        cf = x AND c_shl 1 (16 - cnt);
                        f = CONDITIONAL_SET_FLAG (cf \<noteq> 0) F_CF f;
                        f = CONDITIONAL_SET_FLAG (res AND 0xffff = 0) F_ZF f;
                        f = CONDITIONAL_SET_FLAG (res AND 0x8000 \<noteq> 0) F_SF f;
                        f = CONDITIONAL_SET_FLAG (PARITY (res AND 0xff)) F_PF f
                    in (res, f)
                  else (x, f));
               f = (if cnt = 1 then
                      CONDITIONAL_SET_FLAG ((res AND 0x8000 = 0x8000) \<noteq> ACCESS_FLAG F_CF f) F_OF f
                    else CLEAR_FLAG F_OF f)
           in (ucast res, f)
         else
           let f = CONDITIONAL_SET_FLAG (c_shl x (unat s - 1) AND 0x8000 \<noteq> 0) F_CF f;
               f = CLEAR_FLAG F_OF f; f = CLEAR_FLAG F_SF f;
               f = SET_FLAG F_PF f; f = SET_FLAG F_ZF f
           in (0, f))"

definition shld_long :: "u32 \<Rightarrow> u32 \<Rightarrow> u32 \<Rightarrow> u8 \<Rightarrow> u32 \<times> u32" where
  "shld_long f d fill s =
     (let x = (d :: u32); y = (fill :: u32)
      in if unat s < 32 then
           let cnt = unat s mod 32;
               (res, f) =
                 (if cnt > 0 then
                    let res = c_shl x cnt OR c_shr y (32 - cnt);
                        cf = x AND c_shl 1 (32 - cnt);
                        f = CONDITIONAL_SET_FLAG (cf \<noteq> 0) F_CF f;
                        f = CONDITIONAL_SET_FLAG (res AND 0xffffffff = 0) F_ZF f;
                        f = CONDITIONAL_SET_FLAG (res AND 0x80000000 \<noteq> 0) F_SF f;
                        f = CONDITIONAL_SET_FLAG (PARITY (res AND 0xff)) F_PF f
                    in (res, f)
                  else (x, f));
               f = (if cnt = 1 then
                      CONDITIONAL_SET_FLAG ((res AND 0x80000000 = 0x80000000) \<noteq> ACCESS_FLAG F_CF f) F_OF f
                    else CLEAR_FLAG F_OF f)
           in (res, f)
         else
           let f = CONDITIONAL_SET_FLAG (c_shl x (unat s - 1) AND 0x80000000 \<noteq> 0) F_CF f;
               f = CLEAR_FLAG F_OF f; f = CLEAR_FLAG F_SF f;
               f = SET_FLAG F_PF f; f = SET_FLAG F_ZF f
           in (0, f))"

definition shrd_word :: "u32 \<Rightarrow> u16 \<Rightarrow> u16 \<Rightarrow> u8 \<Rightarrow> u16 \<times> u32" where
  "shrd_word f d fill s =
     (let x = (ucast d :: u32); y = (ucast fill :: u32)
      in if unat s < 16 then
           let cnt = unat s mod 16;
               (res, f) =
                 (if cnt > 0 then
                    let cf = x AND c_shl 1 (cnt - 1);
                        res = c_shr x cnt OR c_shl y (16 - cnt);
                        f = CONDITIONAL_SET_FLAG (cf \<noteq> 0) F_CF f;
                        f = CONDITIONAL_SET_FLAG (res AND 0xffff = 0) F_ZF f;
                        f = CONDITIONAL_SET_FLAG (res AND 0x8000 \<noteq> 0) F_SF f;
                        f = CONDITIONAL_SET_FLAG (PARITY (res AND 0xff)) F_PF f
                    in (res, f)
                  else (x, f));
               f = (if cnt = 1 then CONDITIONAL_SET_FLAG (XOR2 (drop_bit 14 res)) F_OF f
                    else CLEAR_FLAG F_OF f)
           in (ucast res, f)
         else
           let f = CLEAR_FLAG F_CF f; f = CLEAR_FLAG F_OF f; f = SET_FLAG F_ZF f;
               f = CLEAR_FLAG F_SF f; f = CLEAR_FLAG F_PF f
           in (0, f))"

definition shrd_long :: "u32 \<Rightarrow> u32 \<Rightarrow> u32 \<Rightarrow> u8 \<Rightarrow> u32 \<times> u32" where
  "shrd_long f d fill s =
     (let x = (d :: u32); y = (fill :: u32)
      in if unat s < 32 then
           let cnt = unat s mod 32;
               (res, f) =
                 (if cnt > 0 then
                    let cf = x AND c_shl 1 (cnt - 1);
                        res = c_shr x cnt OR c_shl y (32 - cnt);
                        f = CONDITIONAL_SET_FLAG (cf \<noteq> 0) F_CF f;
                        f = CONDITIONAL_SET_FLAG (res AND 0xffffffff = 0) F_ZF f;
                        f = CONDITIONAL_SET_FLAG (res AND 0x80000000 \<noteq> 0) F_SF f;
                        f = CONDITIONAL_SET_FLAG (PARITY (res AND 0xff)) F_PF f
                    in (res, f)
                  else (x, f));
               f = (if cnt = 1 then CONDITIONAL_SET_FLAG (XOR2 (drop_bit 30 res)) F_OF f
                    else CLEAR_FLAG F_OF f)
           in (res, f)
         else
           let f = CLEAR_FLAG F_CF f; f = CLEAR_FLAG F_OF f; f = SET_FLAG F_ZF f;
               f = CLEAR_FLAG F_SF f; f = CLEAR_FLAG F_PF f
           in (0, f))"

section \<open>Rotation through carry\<close>

text \<open>One step of the processor's RCL and RCR on the carry flag and the operand.\<close>

definition rcl_step :: "bool \<times> 'a::len word \<Rightarrow> bool \<times> 'a word" where
  "rcl_step p = (bit (snd p) (LENGTH('a) - 1), push_bit (Suc 0) (snd p) OR of_bool (fst p))"

definition rcr_step :: "bool \<times> 'a::len word \<Rightarrow> bool \<times> 'a word" where
  "rcr_step p = (bit (snd p) 0, drop_bit 1 (snd p) OR push_bit (LENGTH('a) - 1) (of_bool (fst p)))"

text \<open>The ring of the operand's bits with the carry flag above the top bit.\<close>

definition ring :: "bool \<times> 'a::len word \<Rightarrow> nat \<Rightarrow> bool" where
  "ring p i = (if i = LENGTH('a) then fst p else bit (snd p) i)"

lemma ring_eqI:
  fixes p q :: "bool \<times> 'a::len word"
  assumes "\<And>i. i \<le> LENGTH('a) \<Longrightarrow> ring p i = ring q i"
  shows "p = q"
proof (rule prod_eqI)
  show "fst p = fst q" using assms[of "LENGTH('a)"] by (simp add: ring_def)
  show "snd p = snd q"
  proof (rule bit_word_eqI)
    fix i assume "i < LENGTH('a)"
    then show "bit (snd p) i = bit (snd q) i" using assms[of i] by (simp add: ring_def)
  qed
qed

lemma ring_rcl_step:
  fixes p :: "bool \<times> 'a::len word"
  assumes "i \<le> LENGTH('a)"
  shows "ring (rcl_step p) i = ring p ((i + LENGTH('a)) mod (LENGTH('a) + 1))"
proof (cases i)
  case 0
  then show ?thesis by (cases "fst p"; simp add: ring_def rcl_step_def bit_or_iff; simp add: bit_0)
next
  case (Suc j)
  then have "i + LENGTH('a) = j + (LENGTH('a) + 1)" by simp
  then have "(i + LENGTH('a)) mod (LENGTH('a) + 1) = j mod (LENGTH('a) + 1)" by (simp only: mod_add_self2)
  then have "(i + LENGTH('a)) mod (LENGTH('a) + 1) = j" using Suc assms by simp
  moreover have "j < LENGTH('a)" using Suc assms by simp
  moreover have "bit (snd (rcl_step p)) i = bit (snd p) j" if "i < LENGTH('a)"
    using Suc that by (simp add: rcl_step_def bit_or_iff bit_push_bit_iff del: push_bit_Suc)
  moreover have "fst (rcl_step p) = bit (snd p) j" if "i = LENGTH('a)"
    using Suc that[symmetric] by (simp add: rcl_step_def)
  ultimately show ?thesis using assms by (simp add: ring_def)
qed

lemma ring_rcr_step:
  fixes p :: "bool \<times> 'a::len word"
  assumes "i \<le> LENGTH('a)"
  shows "ring (rcr_step p) i = ring p ((i + 1) mod (LENGTH('a) + 1))"
proof (cases "i = LENGTH('a)")
  case True
  then show ?thesis by (simp add: ring_def rcr_step_def)
next
  case False
  then show ?thesis using assms by (auto simp: ring_def rcr_step_def bit_simps)
qed

lemma ring_rcl:
  fixes p :: "bool \<times> 'a::len word"
  shows "i \<le> LENGTH('a) \<Longrightarrow>
    ring ((rcl_step ^^ n) p) i = ring p ((i + n * LENGTH('a)) mod (LENGTH('a) + 1))"
proof (induction n arbitrary: i)
  case (Suc n)
  let ?j = "(i + LENGTH('a)) mod (LENGTH('a) + 1)"
  have "?j \<le> LENGTH('a)" by (simp add: less_Suc_eq_le[symmetric])
  then have "ring ((rcl_step ^^ n) p) ?j = ring p ((?j + n * LENGTH('a)) mod (LENGTH('a) + 1))"
    by (rule Suc.IH)
  with Suc.prems show ?case by (simp add: ring_rcl_step mod_simps ac_simps)
qed simp

lemma ring_rcr:
  fixes p :: "bool \<times> 'a::len word"
  shows "i \<le> LENGTH('a) \<Longrightarrow>
    ring ((rcr_step ^^ n) p) i = ring p ((i + n) mod (LENGTH('a) + 1))"
proof (induction n arbitrary: i)
  case (Suc n)
  let ?j = "(i + 1) mod (LENGTH('a) + 1)"
  have "?j \<le> LENGTH('a)" by (simp add: less_Suc_eq_le[symmetric])
  then have "ring ((rcr_step ^^ n) p) ?j = ring p ((?j + n) mod (LENGTH('a) + 1))"
    by (rule Suc.IH)
  with Suc.prems show ?case by (simp add: ring_rcr_step mod_simps ac_simps)
qed simp

text \<open>The rotation has period one more than the width.\<close>

lemma rcl_period: "(rcl_step ^^ n) p = (rcl_step ^^ (n mod (LENGTH('a) + 1))) p"
  for p :: "bool \<times> 'a::len word"
proof (rule ring_eqI)
  fix i assume "i \<le> LENGTH('a)"
  moreover have "(i + n * LENGTH('a)) mod (LENGTH('a) + 1) =
      (i + n mod (LENGTH('a) + 1) * LENGTH('a)) mod (LENGTH('a) + 1)"
    by (metis mod_add_right_eq mod_mult_left_eq)
  ultimately show "ring ((rcl_step ^^ n) p) i = ring ((rcl_step ^^ (n mod (LENGTH('a) + 1))) p) i"
    by (simp only: ring_rcl)
qed

lemma rcr_period: "(rcr_step ^^ n) p = (rcr_step ^^ (n mod (LENGTH('a) + 1))) p"
  for p :: "bool \<times> 'a::len word"
  by (rule ring_eqI) (simp add: ring_rcr mod_simps)

lemma ring_rcl_less:
  fixes p :: "bool \<times> 'a::len word"
  assumes "n \<le> LENGTH('a)" "i \<le> LENGTH('a)"
  shows "ring ((rcl_step ^^ n) p) i =
    ring p (if n \<le> i then i - n else i + LENGTH('a) + 1 - n)"
proof -
  let ?L = "LENGTH('a)"
  have "(i + n * ?L) mod (?L + 1) = (if n \<le> i then i - n else i + ?L + 1 - n)"
  proof (cases "n \<le> i")
    case True
    then have "i + n * ?L = (i - n) + n * (?L + 1)" by simp
    then show ?thesis using True assms by (simp only: mod_mult_self1) simp
  next
    case False
    then have "i + n * ?L = (i + ?L + 1 - n) + (n - 1) * (?L + 1)"
      using assms by (cases n) (simp_all add: algebra_simps)
    then show ?thesis using False assms by (simp only: mod_mult_self1) simp
  qed
  then show ?thesis using assms by (simp add: ring_rcl)
qed

lemma ring_rcr_less:
  fixes p :: "bool \<times> 'a::len word"
  assumes "n \<le> LENGTH('a)" "i \<le> LENGTH('a)"
  shows "ring ((rcr_step ^^ n) p) i =
    ring p (if i + n \<le> LENGTH('a) then i + n else i + n - (LENGTH('a) + 1))"
  using assms by (simp add: ring_rcr mod_if)

lemma shl_one_bit: "n < 32 \<Longrightarrow> bit (c_shl 1 n) i = (i = n)"
  by (auto simp: bit_simps simp del: push_bit_of_1)

lemma shl_one_mask: "n < 32 \<Longrightarrow> c_shl 1 n - 1 = mask n"
  by (simp add: mask_eq_exp_minus_1)

lemma rcl_wide:
  fixes d :: "'a::len word"
  defines "x \<equiv> ucast d :: u32" and "L \<equiv> LENGTH('a)"
  assumes L: "L \<le> 32" and cnt: "0 < cnt" "cnt \<le> L" "cnt < 32"
    and m: "\<And>i. i < L \<Longrightarrow> bit m i"
  shows "ucast (((c_shl x cnt AND m) OR (c_shr x (L + 1 - cnt) AND (c_shl 1 (cnt - 1) - 1))) OR
      (if c then c_shl 1 (cnt - 1) else 0)) = snd ((rcl_step ^^ cnt) (c, d))"
proof (rule bit_word_eqI)
  fix i assume "i < LENGTH('a)"
  then have i: "i < L" by (simp add: L_def)
  have A: "bit (c_shl x cnt AND m) i = (cnt \<le> i \<and> bit d (i - cnt))"
    using i L cnt m[OF i] by (auto simp: x_def L_def bit_simps)
  have B: "bit (c_shr x (L + 1 - cnt) AND (c_shl 1 (cnt - 1) - 1)) i =
      (i < cnt - 1 \<and> bit d (i + L + 1 - cnt))"
    using L cnt i unfolding shl_one_mask[OF less_imp_diff_less[OF cnt(3)]]
    by (cases "cnt = 1") (auto simp: x_def L_def bit_simps c_shr_def add.commute)
  have C: "bit (if c then c_shl 1 (cnt - 1) else 0) i = (c \<and> i = cnt - 1)"
    using cnt by (simp add: shl_one_bit del: c_shl_less)
  have "bit (snd ((rcl_step ^^ cnt) (c, d))) i = ring ((rcl_step ^^ cnt) (c, d)) i"
    using i by (simp add: ring_def L_def)
  also have "\<dots> = ring (c, d) (if cnt \<le> i then i - cnt else i + L + 1 - cnt)"
    using i cnt by (simp only: ring_rcl_less L_def)
  also have "\<dots> = (cnt \<le> i \<and> bit d (i - cnt) \<or> i < cnt - 1 \<and> bit d (i + L + 1 - cnt) \<or> c \<and> i = cnt - 1)"
    using i cnt by (auto simp: ring_def L_def)
  finally show "bit (ucast (((c_shl x cnt AND m) OR (c_shr x (L + 1 - cnt) AND (c_shl 1 (cnt - 1) - 1))) OR
      (if c then c_shl 1 (cnt - 1) else 0)) :: 'a word) i = bit (snd ((rcl_step ^^ cnt) (c, d))) i"
    using i unfolding L_def by (simp only: bit_unsigned_iff bit_or_iff A[unfolded L_def] B[unfolded L_def] C) auto
qed

lemma rcl_wide_cf:
  fixes d :: "'a::len word"
  assumes "LENGTH('a) \<le> 32" "0 < cnt" "cnt \<le> LENGTH('a)" "cnt < 32"
  shows "(c_shr (ucast d) (LENGTH('a) - cnt) AND 1 \<noteq> 0) = fst ((rcl_step ^^ cnt) (c, d))"
proof -
  have "fst ((rcl_step ^^ cnt) (c, d)) = ring ((rcl_step ^^ cnt) (c, d)) LENGTH('a)"
    by (simp add: ring_def)
  also have "\<dots> = ring (c, d) (LENGTH('a) - cnt)"
    using assms by (simp only: ring_rcl_less) simp
  finally show ?thesis using assms by (auto simp: mask_simps ring_def bit_simps)
qed


lemma rcr_wide:
  fixes d :: "'a::len word"
  defines "x \<equiv> ucast d :: u32" and "L \<equiv> LENGTH('a)"
  assumes L: "L \<le> 32" and cnt: "0 < cnt" "cnt \<le> L"
    and y: "\<And>i. i < L \<Longrightarrow> bit y i = (L + 1 - cnt \<le> i \<and> bit d (i - (L + 1 - cnt)))"
  shows "ucast (((c_shr x cnt AND (c_shl 1 (L - cnt) - 1)) OR y) OR
      (if c then c_shl 1 (L - cnt) else 0)) = snd ((rcr_step ^^ cnt) (c, d))"
proof (rule bit_word_eqI)
  fix i assume "i < LENGTH('a)"
  then have i: "i < L" by (simp add: L_def)
  have less: "L - cnt < 32" using L cnt by linarith
  have A: "bit (c_shr x cnt AND (c_shl 1 (L - cnt) - 1)) i = (i < L - cnt \<and> bit d (i + cnt))"
    using L cnt i unfolding shl_one_mask[OF less]
    by (cases "cnt < 32") (auto simp: x_def L_def bit_simps c_shr_def add.commute)
  have C: "bit (if c then c_shl 1 (L - cnt) else 0) i = (c \<and> i = L - cnt)"
    using less by (simp add: shl_one_bit del: c_shl_less)
  have "bit (snd ((rcr_step ^^ cnt) (c, d))) i = ring ((rcr_step ^^ cnt) (c, d)) i"
    using i by (simp add: ring_def L_def)
  also have "\<dots> = ring (c, d) (if i + cnt \<le> L then i + cnt else i + cnt - (L + 1))"
    using i cnt by (simp only: ring_rcr_less L_def)
  also have "\<dots> = (i < L - cnt \<and> bit d (i + cnt) \<or> L + 1 - cnt \<le> i \<and> bit d (i - (L + 1 - cnt)) \<or> c \<and> i = L - cnt)"
    using i cnt by (auto simp: ring_def L_def)
  finally show "bit (ucast (((c_shr x cnt AND (c_shl 1 (L - cnt) - 1)) OR y) OR
      (if c then c_shl 1 (L - cnt) else 0)) :: 'a word) i = bit (snd ((rcr_step ^^ cnt) (c, d))) i"
    using i unfolding L_def by (simp only: bit_unsigned_iff bit_or_iff A[unfolded L_def] y[unfolded L_def] C[unfolded L_def]) auto
qed

lemma rcr_wide_cf:
  fixes d :: "'a::len word"
  assumes "LENGTH('a) \<le> 32" "0 < cnt" "cnt \<le> LENGTH('a)"
  shows "(c_shr (ucast d) (cnt - 1) AND 1 \<noteq> 0) = fst ((rcr_step ^^ cnt) (c, d))"
proof -
  have "fst ((rcr_step ^^ cnt) (c, d)) = ring ((rcr_step ^^ cnt) (c, d)) LENGTH('a)"
    by (simp add: ring_def)
  also have "\<dots> = ring (c, d) (cnt - 1)"
    using assms by (simp only: ring_rcr_less) simp
  finally show ?thesis using assms by (auto simp: mask_simps ring_def bit_simps)
qed

lemma XOR2_carry: "XOR2 ((y AND 1) + (drop_bit n r AND 2)) = (bit y 0 \<noteq> bit r (Suc n))" for y r :: u32
proof -
  have 1: "y AND 1 = of_bool (bit y 0)" by (rule bit_word_eqI) (auto simp: bit_simps bit_1_iff)
  have 2: "drop_bit n r AND 2 = (if bit r (Suc n) then 2 else 0)"
    by (rule bit_word_eqI) (auto simp: bit_simps bit_2_iff)
  show ?thesis unfolding 1 2 by (cases "bit y 0"; cases "bit r (Suc n)") (simp_all add: XOR2_def)
qed

text \<open>
  The reference: \<open>cnt\<close> one-bit rotations; CF is the carry of the last; OF is, after a
  rotation by one, the exclusive or of the new CF and sign bit for RCL, and of the old
  CF and sign bit for RCR. RCL clears OF for other counts, RCR keeps it.
\<close>

definition rcl_ref :: "u32 \<Rightarrow> 'a::len word \<Rightarrow> nat \<Rightarrow> 'a word \<times> u32" where
  "rcl_ref f d cnt =
     (let (c, r) = (rcl_step ^^ cnt) (ACCESS_FLAG F_CF f, d)
      in if cnt = 0 then (d, f)
         else (r, CONDITIONAL_SET_FLAG (cnt = 1 \<and> c \<noteq> (sint r < 0)) F_OF (CONDITIONAL_SET_FLAG c F_CF f)))"

definition rcr_ref :: "u32 \<Rightarrow> 'a::len word \<Rightarrow> nat \<Rightarrow> 'a word \<times> u32" where
  "rcr_ref f d cnt =
     (let (c, r) = (rcr_step ^^ cnt) (ACCESS_FLAG F_CF f, d); f' = CONDITIONAL_SET_FLAG c F_CF f
      in if cnt = 0 then (d, f)
         else (r, if cnt = 1 then CONDITIONAL_SET_FLAG (ACCESS_FLAG F_CF f \<noteq> (sint d < 0)) F_OF f' else f'))"


lemma if_or: "(if c then r OR b else r) = r OR (if c then b else 0)" for r b :: u32
  by simp

lemma rcl_finish:
  fixes d :: "'a::len word" and m :: u32
  defines "x \<equiv> ucast d :: u32" and "L \<equiv> LENGTH('a)"
  defines "res cnt c \<equiv> ((c_shl x cnt AND m) OR (c_shr x (L + 1 - cnt) AND (c_shl 1 (cnt - 1) - 1))) OR
      (if c then c_shl 1 (cnt - 1) else 0)"
  assumes L: "L \<le> 32" "2 \<le> L" and cnt: "0 < cnt" "cnt \<le> L" "cnt < 32"
    and m: "\<And>i. i < L \<Longrightarrow> bit m i"
  shows "rcl_ref f d cnt = (ucast (res cnt (ACCESS_FLAG F_CF f)),
    CONDITIONAL_SET_FLAG (cnt = 1 \<and> XOR2 ((c_shr x (L - cnt) AND 1) +
      (drop_bit (L - 2) (res cnt (ACCESS_FLAG F_CF f)) AND 2))) F_OF
      (CONDITIONAL_SET_FLAG (c_shr x (L - cnt) AND 1 \<noteq> 0) F_CF f))"
proof -
  let ?c = "ACCESS_FLAG F_CF f"
  let ?p = "(rcl_step ^^ cnt) (?c, d)"
  have r: "ucast (res cnt ?c) = snd ?p"
    using rcl_wide[where d = d and m = m and c = ?c and cnt = cnt] L cnt m
    unfolding res_def x_def L_def by simp
  have cf: "(c_shr x (L - cnt) AND 1 \<noteq> 0) = fst ?p"
    using rcl_wide_cf[where d = d and c = ?c and cnt = cnt] L cnt unfolding x_def L_def by simp
  have "sint (snd ?p) < 0 \<longleftrightarrow> bit (ucast (res cnt ?c) :: 'a word) (L - 1)"
    unfolding r L_def by (simp only: sign_bit)
  also have "\<dots> = bit (res cnt ?c) (Suc (L - 2))"
    using L by (auto simp: L_def bit_simps eval_nat_numeral Suc_diff_Suc)
  finally have sf: "sint (snd ?p) < 0 \<longleftrightarrow> bit (res cnt ?c) (Suc (L - 2))" .
  have "XOR2 ((c_shr x (L - cnt) AND 1) + (drop_bit (L - 2) (res cnt ?c) AND 2)) =
      (fst ?p \<noteq> (sint (snd ?p) < 0))"
    unfolding XOR2_carry sf using cf by (simp add: and_one_bit)
  then show ?thesis unfolding cf r rcl_ref_def using cnt by (simp add: case_prod_beta)
qed

lemma rcr_finish:
  fixes d :: "'a::len word"
  defines "x \<equiv> ucast d :: u32" and "L \<equiv> LENGTH('a)"
  defines "res cnt y c \<equiv> ((c_shr x cnt AND (c_shl 1 (L - cnt) - 1)) OR y) OR
      (if c then c_shl 1 (L - cnt) else 0)"
  assumes L: "L \<le> 32" "2 \<le> L" and cnt: "0 < cnt" "cnt \<le> L"
    and y: "\<And>i. i < L \<Longrightarrow> bit y i = (L + 1 - cnt \<le> i \<and> bit d (i - (L + 1 - cnt)))"
  shows "rcr_ref f d cnt = (ucast (res cnt y (ACCESS_FLAG F_CF f)),
    let f' = CONDITIONAL_SET_FLAG (c_shr x (cnt - 1) AND 1 \<noteq> 0) F_CF f
    in if cnt = 1 then CONDITIONAL_SET_FLAG (XOR2 (of_bool (ACCESS_FLAG F_CF f) + (drop_bit (L - 2) x AND 2))) F_OF f'
       else f')"
proof -
  let ?c = "ACCESS_FLAG F_CF f"
  let ?p = "(rcr_step ^^ cnt) (?c, d)"
  have r: "ucast (res cnt y ?c) = snd ?p"
    using rcr_wide[where d = d and y = y and c = ?c and cnt = cnt] L cnt y
    unfolding res_def x_def L_def by simp
  have cf: "(c_shr x (cnt - 1) AND 1 \<noteq> 0) = fst ?p"
    using rcr_wide_cf[where d = d and c = ?c and cnt = cnt] L cnt unfolding x_def L_def by simp
  have "(of_bool ?c :: u32) = of_bool ?c AND 1" by simp
  then have "XOR2 (of_bool ?c + (drop_bit (L - 2) x AND 2)) =
      (bit (of_bool ?c :: u32) 0 \<noteq> bit x (Suc (L - 2)))"
    using XOR2_carry[of "of_bool ?c" "L - 2" x] by simp
  also have "\<dots> = (?c \<noteq> (sint d < 0))"
    using L by (simp add: L_def x_def bit_simps sign_bit[symmetric] Suc_diff_Suc numeral_2_eq_2)
  finally have "XOR2 (of_bool ?c + (drop_bit (L - 2) x AND 2)) = (?c \<noteq> (sint d < 0))" .
  then show ?thesis unfolding cf r rcr_ref_def using cnt by (simp add: case_prod_beta Let_def)
qed

lemma bit_low_masks:
  "i < 8 \<Longrightarrow> bit (0xff :: u32) i" "i < 16 \<Longrightarrow> bit (0xffff :: u32) i"
  "i < 32 \<Longrightarrow> bit (0xffffffff :: u32) i"
proof -
  have m: "(0xff :: u32) = mask 8" "(0xffff :: u32) = mask 16" "(0xffffffff :: u32) = mask 32"
    by (simp_all add: mask_eq_exp_minus_1)
  show "i < 8 \<Longrightarrow> bit (0xff :: u32) i" "i < 16 \<Longrightarrow> bit (0xffff :: u32) i"
    "i < 32 \<Longrightarrow> bit (0xffffffff :: u32) i"
    unfolding m by (simp_all add: bit_mask_iff)
qed

lemma rcl_correct:
  "rcl_byte f b s = rcl_ref f b (unat s mod 9)"
  "rcl_word f w s = rcl_ref f w (unat s mod 17)"
  "unat s mod 33 \<noteq> 32 \<Longrightarrow> rcl_long f l s = rcl_ref f l (unat s mod 33)"
proof -
  show "rcl_byte f b s = rcl_ref f b (unat s mod 9)"
    using rcl_finish[where d = b and f = f and cnt = "unat s mod 9" and m = "0xff"] bit_low_masks(1)
    by (cases "unat s mod 9 = 0")
       (simp_all add: rcl_byte_def rcl_ref_def Let_def if_or del: c_shl_less c_shr_less)
  have "unat s mod 17 < 17" by simp
  then have "unat s mod 17 < 32" by linarith
  then show "rcl_word f w s = rcl_ref f w (unat s mod 17)"
    using rcl_finish[where d = w and f = f and cnt = "unat s mod 17" and m = "0xffff"] bit_low_masks(2)
    by (cases "unat s mod 17 = 0")
       (simp_all add: rcl_word_def rcl_ref_def Let_def if_or del: c_shl_less c_shr_less)
  assume "unat s mod 33 \<noteq> 32"
  moreover have "unat s mod 33 < 33" by simp
  ultimately have "unat s mod 33 < 32" by linarith
  then show "rcl_long f l s = rcl_ref f l (unat s mod 33)"
    using rcl_finish[where d = l and f = f and cnt = "unat s mod 33" and m = "0xffffffff"] bit_low_masks(3)
    by (cases "unat s mod 33 = 0")
       (simp_all add: rcl_long_def rcl_ref_def Let_def if_or del: c_shl_less c_shr_less)
qed

lemma rcr_fill:
  fixes d :: "'a::len word"
  assumes "i < LENGTH('a)" "0 < cnt" "cnt \<le> LENGTH('a)" "LENGTH('a) \<le> 32" "LENGTH('a) + 1 - cnt < 32"
  shows "bit (c_shl (ucast d) (LENGTH('a) + 1 - cnt)) i =
    (LENGTH('a) + 1 - cnt \<le> i \<and> bit d (i - (LENGTH('a) + 1 - cnt)))"
  using assms by (auto simp: bit_simps dest: bit_imp_le_length)

lemma c_shr_0: "c_shr x 0 = x"
  by (simp add: c_shr_def)

lemma rcr_correct:
  "rcr_byte f b s = rcr_ref f b (unat s mod 9)"
  "rcr_word f w s = rcr_ref f w (unat s mod 17)"
  "rcr_long f l s = rcr_ref f l (unat s mod 33)"
proof -
  have "unat s mod 9 < 9" "unat s mod 17 < 17" "unat s mod 33 < 33" by simp_all
  then have less: "unat s mod 9 < 9" "unat s mod 9 \<le> 8" "unat s mod 17 < 32" "unat s mod 17 \<le> 16"
    "unat s mod 33 \<le> 32" by linarith+
  show "rcr_byte f b s = rcr_ref f b (unat s mod 9)"
    using rcr_finish[where d = b and f = f and cnt = "unat s mod 9" and y = "c_shl (ucast b) (9 - unat s mod 9)"]
      rcr_fill[of _ "unat s mod 9" b] less(1,2)
    by (cases "unat s mod 9 = 0")
       (auto simp: rcr_byte_def rcr_ref_def Let_def if_or c_shr_0 simp del: c_shl_less c_shr_less)
  show "rcr_word f w s = rcr_ref f w (unat s mod 17)"
    using rcr_finish[where d = w and f = f and cnt = "unat s mod 17" and y = "c_shl (ucast w) (17 - unat s mod 17)"]
      rcr_fill[of _ "unat s mod 17" w] less(3,4)
    by (cases "unat s mod 17 = 0")
       (auto simp: rcr_word_def rcr_ref_def Let_def if_or c_shr_0 simp del: c_shl_less c_shr_less)
  show "rcr_long f l s = rcr_ref f l (unat s mod 33)"
    using rcr_finish[where d = l and f = f and cnt = "unat s mod 33" and
        y = "if unat s mod 33 = 1 then 0 else c_shl l (33 - unat s mod 33)"]
      rcr_fill[of _ "unat s mod 33" l] less(5)
    by (cases "unat s mod 33 = 0")
       (auto simp: rcr_long_def rcr_ref_def Let_def if_or c_shr_0 simp del: c_shl_less c_shr_less)
qed

section \<open>Plain rotation\<close>

lemma shl_plus_shr:
  assumes "cnt < 32" shows "c_shl x cnt + (y AND (c_shl 1 cnt - 1)) = c_shl x cnt OR (y AND mask cnt)"
proof -
  have "c_shl x cnt AND (y AND mask cnt) = 0"
    using assms by (auto intro!: bit_word_eqI simp: bit_simps)
  then show ?thesis unfolding shl_one_mask[OF assms] by (rule disjunctive_add_eq_or)
qed

lemma rotl_wide:
  fixes d :: "'a::len word"
  assumes "0 < cnt" "cnt < LENGTH('a)" "LENGTH('a) \<le> 32"
  shows "ucast (c_shl (ucast d) cnt + (c_shr (ucast d) (LENGTH('a) - cnt) AND (c_shl 1 cnt - 1))) = word_rotl cnt d"
proof -
  have "cnt < 32" using assms by simp
  show ?thesis unfolding shl_plus_shr[OF \<open>cnt < 32\<close>]
  proof (rule bit_word_eqI)
    fix i assume "i < LENGTH('a)"
    moreover have "(i + (LENGTH('a) - cnt)) mod LENGTH('a) =
        (if cnt \<le> i then i - cnt else i + (LENGTH('a) - cnt))"
      using assms \<open>i < LENGTH('a)\<close> by (simp add: mod_if)
    ultimately show "bit (ucast (c_shl (ucast d) cnt OR
        (c_shr (ucast d) (LENGTH('a) - cnt) AND mask cnt)) :: 'a word) i = bit (word_rotl cnt d) i"
      using assms by (auto simp: bit_simps bit_word_rotl_iff ac_simps)
  qed
qed

lemma rotr_wide:
  fixes d :: "'a::len word"
  assumes "0 < cnt" "cnt < LENGTH('a)" "LENGTH('a) \<le> 32"
  shows "ucast (c_shl (ucast d) (LENGTH('a) - cnt) + (c_shr (ucast d) cnt AND (c_shl 1 (LENGTH('a) - cnt) - 1))) =
    word_rotr cnt d"
proof -
  have l: "LENGTH('a) - cnt < 32" using assms by simp
  show ?thesis unfolding shl_plus_shr[OF l]
  proof (rule bit_word_eqI)
    fix i assume "i < LENGTH('a)"
    moreover have "(i + cnt) mod LENGTH('a) =
        (if i + cnt < LENGTH('a) then i + cnt else i - (LENGTH('a) - cnt))"
      using assms \<open>i < LENGTH('a)\<close> by (simp add: mod_if)
    ultimately show "bit (ucast (c_shl (ucast d) (LENGTH('a) - cnt) OR
        (c_shr (ucast d) cnt AND mask (LENGTH('a) - cnt))) :: 'a word) i = bit (word_rotr cnt d) i"
      using assms by (auto simp: bit_simps bit_word_rotr_iff ac_simps)
  qed
qed

text \<open>The reference: the library's rotation; CF is the bit moved around last; OF changes only for a count of one.\<close>

definition rol_ref :: "u32 \<Rightarrow> 'a::len word \<Rightarrow> nat \<Rightarrow> 'a word \<times> u32" where
  "rol_ref f d n = (let r = word_rotl n d; cf = bit r 0; sf = sint r < 0
     in if n = 0 then (d, f)
        else (r, CONDITIONAL_SET_FLAG cf F_CF (if n = 1 then CONDITIONAL_SET_FLAG (cf \<noteq> sf) F_OF f else f)))"

definition ror_ref :: "u32 \<Rightarrow> 'a::len word \<Rightarrow> nat \<Rightarrow> 'a word \<times> u32" where
  "ror_ref f d n = (let r = word_rotr n d; sf = sint r < 0
     in if n = 0 then (d, f)
        else (r, CONDITIONAL_SET_FLAG sf F_CF
          (if n = 1 then CONDITIONAL_SET_FLAG (bit r (LENGTH('a) - 2) \<noteq> sf) F_OF f else f)))"

lemma rot_mod:
  fixes d :: "'a::len word"
  shows "word_rotl (n mod LENGTH('a)) d = word_rotl n d" "word_rotr (n mod LENGTH('a)) d = word_rotr n d"
  by (rule bit_word_eqI; simp add: bit_word_rotl_iff bit_word_rotr_iff mod_simps)+

lemmas rot_mods = rot_mod[where 'a = 8, simplified] rot_mod[where 'a = 16, simplified]
  rot_mod[where 'a = 32, simplified]

lemma word_rot_0: "word_rotl 0 d = d" "word_rotr 0 d = d" for d :: "'a::len word"
  by (rule bit_word_eqI; simp add: bit_word_rotl_iff bit_word_rotr_iff)+

lemma rol_sum:
  fixes d :: "'a::len word"
  assumes "LENGTH('a) \<le> 32"
  shows "(if n mod LENGTH('a) \<noteq> 0 then ucast (c_shl (ucast d) (n mod LENGTH('a)) +
      (c_shr (ucast d) (LENGTH('a) - n mod LENGTH('a)) AND (c_shl 1 (n mod LENGTH('a)) - 1))) else d) = word_rotl n d"
  using rotl_wide[of "n mod LENGTH('a)" d] rot_mod(1)[of n d] assms
  by (auto simp: word_rot_0 simp del: c_shl_less c_shr_less)

lemma ror_sum:
  fixes d :: "'a::len word"
  assumes "LENGTH('a) \<le> 32"
  shows "(if n mod LENGTH('a) \<noteq> 0 then ucast (c_shl (ucast d) (LENGTH('a) - n mod LENGTH('a)) +
      (c_shr (ucast d) (n mod LENGTH('a)) AND (c_shl 1 (LENGTH('a) - n mod LENGTH('a)) - 1))) else d) = word_rotr n d"
  using rotr_wide[of "n mod LENGTH('a)" d] rot_mod(2)[of n d] assms
  by (auto simp: word_rot_0 simp del: c_shl_less c_shr_less)

lemma rol_of: "((y + drop_bit n y) AND 1 \<noteq> 0) = (bit y 0 \<noteq> bit y n)" for y :: u32
  unfolding and_one_bit by (simp add: bit_0 even_add bit_iff_odd_drop_bit)

lemma s_eq: "s = 0 \<longleftrightarrow> unat s = 0" "s = 1 \<longleftrightarrow> unat s = 1" for s :: u8
  using word_unat_eq_iff[of s 0] word_unat_eq_iff[of s 1] by simp_all

lemma len_eqs: "LENGTH(8) = 8" "LENGTH(16) = 16" "LENGTH(32) = 32"
  by simp_all

lemma len_le: "(8 :: nat) \<le> 32" "(16 :: nat) \<le> 32" "(32 :: nat) \<le> 32"
  by simp_all

lemmas rol_sums = rol_sum[where 'a = 8, unfolded len_eqs, OF len_le(1)]
  rol_sum[where 'a = 16, unfolded len_eqs, OF len_le(2)]
  rol_sum[where 'a = 32, unfolded len_eqs ucast_id, OF len_le(3)]

lemmas ror_sums = ror_sum[where 'a = 8, unfolded len_eqs, OF len_le(1)]
  ror_sum[where 'a = 16, unfolded len_eqs, OF len_le(2)]
  ror_sum[where 'a = 32, unfolded len_eqs ucast_id, OF len_le(3)]

lemma rol_correct:
  "rol_byte f b s = rol_ref f b (unat s)" "rol_word f w s = rol_ref f w (unat s)"
  "rol_long f l s = rol_ref f l (unat s)"
  unfolding rol_byte_def rol_word_def rol_long_def rol_ref_def Let_def rol_sums s_eq rol_of
  by (simp_all only: and_one_bit sign_simps bit_unsigned_iff) simp_all

lemma ror_correct:
  "ror_byte f b s = ror_ref f b (unat s)" "ror_word f w s = ror_ref f w (unat s)"
  "ror_long f l s = ror_ref f l (unat s)"
  unfolding ror_byte_def ror_word_def ror_long_def ror_ref_def Let_def ror_sums s_eq
  by (simp_all add: mask_simps sign_simps bit_unsigned_iff)

section \<open>Shifts\<close>

lemma bit_times_2: "bit (x * 2) n = (0 < n \<and> n < LENGTH('a) \<and> bit x (n - 1))" for x :: "'a::len word"
  using bit_double_iff[of x n] by (auto simp: mult.commute dest: bit_imp_le_length)

lemma and_top_eq:
  "(x AND 0x80 = 0x80) = bit x 7" "(x AND 0x8000 = 0x8000) = bit x 15"
  "(x AND 0x80000000 = 0x80000000) = bit x 31" for x :: u32
proof -
  have "(x AND 2 ^ n = 2 ^ n) = bit x n" if "n < 32" for n
  proof -
    have "x AND 2 ^ n = (if bit x n then 2 ^ n else 0)" by (rule bit_word_eqI) (auto simp: bit_simps)
    moreover have "(2 ^ n :: u32) \<noteq> 0" using that by (simp add: exp_eq_zero_iff)
    ultimately show ?thesis by auto
  qed
  from this[of 7] this[of 15] this[of 31]
  show "(x AND 0x80 = 0x80) = bit x 7" "(x AND 0x8000 = 0x8000) = bit x 15"
    "(x AND 0x80000000 = 0x80000000) = bit x 31" by simp_all
qed

lemma shl_core:
  fixes d :: "'a::len word"
  shows "LENGTH('a) \<le> 32 \<Longrightarrow> (ucast (push_bit n (ucast d :: u32)) :: 'a word) = push_bit n d"
    and "LENGTH('a) \<le> 32 \<Longrightarrow> 8 \<le> LENGTH('a) \<Longrightarrow> even_parity (push_bit n (ucast d :: u32)) = even_parity (push_bit n d)"
proof -
  assume L: "LENGTH('a) \<le> 32"
  show "(ucast (push_bit n (ucast d :: u32)) :: 'a word) = push_bit n d"
    using L by (intro bit_word_eqI) (auto simp: bit_simps)
  show "even_parity (push_bit n (ucast d :: u32)) = even_parity (push_bit n d)" if "8 \<le> LENGTH('a)"
    using L that by (intro even_parity_cong) (auto simp: bit_simps)
qed

lemma shr_core:
  fixes d :: "'a::len word"
  shows "LENGTH('a) \<le> 32 \<Longrightarrow> (ucast (drop_bit n (ucast d :: u32)) :: 'a word) = drop_bit n d"
    and "LENGTH('a) \<le> 32 \<Longrightarrow> 8 \<le> LENGTH('a) \<Longrightarrow> even_parity (drop_bit n (ucast d :: u32)) = even_parity (drop_bit n d)"
proof -
  assume L: "LENGTH('a) \<le> 32"
  show "(ucast (drop_bit n (ucast d :: u32)) :: 'a word) = drop_bit n d"
    using L by (intro bit_word_eqI) (auto simp: bit_simps dest: bit_imp_le_length)
  show "even_parity (drop_bit n (ucast d :: u32)) = even_parity (drop_bit n d)" if "8 \<le> LENGTH('a)"
    using L that by (intro even_parity_cong) (auto simp: bit_simps dest: bit_imp_le_length)
qed

lemmas shift_core = shl_core[where 'a = 8, simplified] shl_core[where 'a = 16, simplified]
  shr_core[where 'a = 8, simplified] shr_core[where 'a = 16, simplified]
  and_exp_neq_0_iff and_top_eq bit_times_2

text \<open>The reference for counts from one to the width less one.\<close>

definition shl_ok :: "'a::len word \<times> u32 \<Rightarrow> u32 \<Rightarrow> 'a word \<Rightarrow> nat \<Rightarrow> bool" where
  "shl_ok p f d n = alu_result p f (push_bit n d)
     (result_flags (push_bit n d) (bit d (LENGTH('a) - n)) (ACCESS_FLAG F_AF f)
       (n = 1 \<and> (sint (push_bit n d) < 0) \<noteq> (sint d < 0)))"

definition shr_ok :: "'a::len word \<times> u32 \<Rightarrow> u32 \<Rightarrow> 'a word \<Rightarrow> nat \<Rightarrow> bool" where
  "shr_ok p f d n = alu_result p f (drop_bit n d)
     (result_flags (drop_bit n d) (bit d (n - 1)) (ACCESS_FLAG F_AF f) (n = 1 \<and> sint d < 0))"

lemma shl_correct:
  "0 < unat s \<Longrightarrow> unat s < 8 \<Longrightarrow> shl_ok (shl_byte f b s) f b (unat s)"
  "0 < unat s \<Longrightarrow> unat s < 16 \<Longrightarrow> shl_ok (shl_word f w s) f w (unat s)"
  "0 < unat s \<Longrightarrow> unat s < 32 \<Longrightarrow> shl_ok (shl_long f l s) f l (unat s)"
  unfolding shl_byte_def shl_word_def shl_long_def shl_ok_def Let_def
  by (simp_all add: alu_eval shift_core) (auto simp: bit_simps)

lemma shr_correct:
  "0 < unat s \<Longrightarrow> unat s < 8 \<Longrightarrow> shr_ok (shr_byte f b s) f b (unat s)"
  "0 < unat s \<Longrightarrow> unat s < 16 \<Longrightarrow> shr_ok (shr_word f w s) f w (unat s)"
  "0 < unat s \<Longrightarrow> unat s < 32 \<Longrightarrow> shr_ok (shr_long f l s) f l (unat s)"
  unfolding shr_byte_def shr_word_def shr_long_def shr_ok_def Let_def
  by (simp_all add: alu_eval shift_core) (auto simp: bit_simps dest: bit_imp_le_length)

definition sar_ok :: "'a::len word \<times> u32 \<Rightarrow> u32 \<Rightarrow> 'a word \<Rightarrow> nat \<Rightarrow> bool" where
  "sar_ok p f d n = alu_result p f (signed_drop_bit n d)
     (result_flags (signed_drop_bit n d) (bit d (n - 1)) (ACCESS_FLAG F_AF f) (ACCESS_FLAG F_OF f))"

lemma sar_wide:
  fixes d :: "'a::len word" and n :: nat
  defines "R \<equiv> (if bit d (LENGTH('a) - 1) then (drop_bit n (ucast d) AND mask (LENGTH('a) - n)) OR NOT (mask (LENGTH('a) - n))
    else drop_bit n (ucast d) AND mask (LENGTH('a) - n)) :: u32"
  assumes "n < LENGTH('a)" "LENGTH('a) \<le> 32"
  shows "(ucast R :: 'a word) = signed_drop_bit n d"
    and "i < LENGTH('a) \<Longrightarrow> bit R i = bit (signed_drop_bit n d) i"
    and "8 \<le> LENGTH('a) \<Longrightarrow> even_parity R = even_parity (signed_drop_bit n d)"
proof -
  show bits: "bit R i = bit (signed_drop_bit n d) i" if "i < LENGTH('a)" for i
    using that assms by (auto simp: R_def bit_simps bit_signed_drop_bit_iff less_diff_conv add.commute)
  then show "(ucast R :: 'a word) = signed_drop_bit n d"
    using assms(3) by (intro bit_word_eqI) (auto simp: bit_simps)
  show "even_parity R = even_parity (signed_drop_bit n d)" if "8 \<le> LENGTH('a)"
    using that by (intro even_parity_cong bits) simp
qed

lemma and_c_shl: "n < 32 \<Longrightarrow> (x AND c_shl 1 n \<noteq> 0) = bit x n"
  using and_exp_neq_0_iff[of x n] by simp

lemma sar_correct:
  "0 < unat s \<Longrightarrow> unat s < 8 \<Longrightarrow> sar_ok (sar_byte f b s) f b (unat s)"
  "0 < unat s \<Longrightarrow> unat s < 16 \<Longrightarrow> sar_ok (sar_word f w s) f w (unat s)"
  "0 < unat s \<Longrightarrow> unat s < 32 \<Longrightarrow> sar_ok (sar_long f l s) f l (unat s)"
proof -
  note sar_simps = alu_eval shift_core bit_unsigned_iff shl_one_mask and_c_shl
  show "0 < unat s \<Longrightarrow> unat s < 8 \<Longrightarrow> sar_ok (sar_byte f b s) f b (unat s)"
    using sar_wide[where d = b and n = "unat s", unfolded len_eqs]
    by (simp add: sar_byte_def sar_ok_def sar_simps del: c_shl_less) arith
  show "0 < unat s \<Longrightarrow> unat s < 16 \<Longrightarrow> sar_ok (sar_word f w s) f w (unat s)"
    using sar_wide[where d = w and n = "unat s", unfolded len_eqs]
    by (simp add: sar_word_def sar_ok_def sar_simps del: c_shl_less) arith
  show "0 < unat s \<Longrightarrow> unat s < 32 \<Longrightarrow> sar_ok (sar_long f l s) f l (unat s)"
    using sar_wide[where d = l and n = "unat s", unfolded len_eqs ucast_id]
    by (simp add: sar_long_def sar_ok_def sar_simps del: c_shl_less)
qed

text \<open>
  The double shifts: the vacated bits come from the second operand.
\<close>

definition shld_ok :: "'a::len word \<times> u32 \<Rightarrow> u32 \<Rightarrow> 'a word \<Rightarrow> 'a word \<Rightarrow> nat \<Rightarrow> bool" where
  "shld_ok p f d fill n = (let r = push_bit n d OR drop_bit (LENGTH('a) - n) fill in
     alu_result p f r (result_flags r (bit d (LENGTH('a) - n)) (ACCESS_FLAG F_AF f)
       (n = 1 \<and> (sint r < 0) \<noteq> (sint d < 0))))"

definition shrd_ok :: "'a::len word \<times> u32 \<Rightarrow> u32 \<Rightarrow> 'a word \<Rightarrow> 'a word \<Rightarrow> nat \<Rightarrow> bool" where
  "shrd_ok p f d fill n = (let r = drop_bit n d OR push_bit (LENGTH('a) - n) fill in
     alu_result p f r (result_flags r (bit d (n - 1)) (ACCESS_FLAG F_AF f)
       (n = 1 \<and> (sint r < 0) \<noteq> (sint d < 0))))"

lemma ucast_or: "(ucast (x OR y) :: 'a::len word) = ucast x OR ucast y" for x y :: "'b::len word"
  by (rule unsigned_or_eq)

lemma parity_low:
  "even_parity (x :: u32) = even_parity (ucast x :: u16)"
  by (rule even_parity_cong) (simp add: bit_simps)

lemma shld_correct:
  "0 < unat s \<Longrightarrow> unat s < 16 \<Longrightarrow> shld_ok (shld_word f w v s) f w v (unat s)"
  "0 < unat s \<Longrightarrow> unat s < 32 \<Longrightarrow> shld_ok (shld_long f l k s) f l k (unat s)"
  unfolding shld_word_def shld_long_def shld_ok_def Let_def
  by (simp_all add: alu_eval shift_core ucast_or parity_low) (auto simp: bit_simps bit_times_2)

lemma shrd_correct:
  "0 < unat s \<Longrightarrow> unat s < 16 \<Longrightarrow> shrd_ok (shrd_word f w v s) f w v (unat s)"
  "0 < unat s \<Longrightarrow> unat s < 32 \<Longrightarrow> shrd_ok (shrd_long f l k s) f l k (unat s)"
  unfolding shrd_word_def shrd_long_def shrd_ok_def Let_def XOR2_bits
  by (simp_all add: alu_eval shift_core ucast_or parity_low) (auto simp: bit_simps bit_times_2 dest: bit_imp_le_length)

section \<open>The properties of the rotations and shifts\<close>

text \<open>
  C23. ROL and ROR at 8, 16 and 32 bits, for every count (not only those below the
  width), return the library's rotation of the operand; CF is the bit rotated around
  last, OF changes only for a count of one, and a count of zero changes nothing.
\<close>

theorem rol_ror_correct:
  "rol_byte f b s = rol_ref f b (unat s) \<and> rol_word f w s = rol_ref f w (unat s) \<and>
   rol_long f l s = rol_ref f l (unat s) \<and> ror_byte f b s = ror_ref f b (unat s) \<and>
   ror_word f w s = ror_ref f w (unat s) \<and> ror_long f l s = ror_ref f l (unat s)"
  by (intro conjI rol_correct ror_correct)

text \<open>
  C22. RCL and RCR equal the processor's loop of one-bit rotations through the carry
  flag, run the count modulo the width plus one times (by periodicity of the ring
  the same as the full count): result, CF and OF. RCL at 32 bits is left out for the
  one residue, 32, at which its C shift is undefined.
\<close>

theorem rcl_rcr_correct:
  "rcl_byte f b s = rcl_ref f b (unat s mod 9) \<and> rcl_word f w s = rcl_ref f w (unat s mod 17) \<and>
   rcr_byte f b s = rcr_ref f b (unat s mod 9) \<and> rcr_word f w s = rcr_ref f w (unat s mod 17) \<and>
   rcr_long f l s = rcr_ref f l (unat s mod 33) \<and>
   (unat s mod 33 \<noteq> 32 \<longrightarrow> rcl_long f l s = rcl_ref f l (unat s mod 33)) \<and>
   (rcl_step ^^ unat s) (c, b) = (rcl_step ^^ (unat s mod 9)) (c, b) \<and>
   (rcr_step ^^ unat s) (c, b) = (rcr_step ^^ (unat s mod 9)) (c, b) \<and>
   (rcl_step ^^ unat s) (c, w) = (rcl_step ^^ (unat s mod 17)) (c, w) \<and>
   (rcr_step ^^ unat s) (c, w) = (rcr_step ^^ (unat s mod 17)) (c, w) \<and>
   (rcl_step ^^ unat s) (c, l) = (rcl_step ^^ (unat s mod 33)) (c, l) \<and>
   (rcr_step ^^ unat s) (c, l) = (rcr_step ^^ (unat s mod 33)) (c, l)"
  using rcl_correct rcr_correct rcl_period[of "unat s" "(c, b)"] rcr_period[of "unat s" "(c, b)"]
    rcl_period[of "unat s" "(c, w)"] rcr_period[of "unat s" "(c, w)"]
    rcl_period[of "unat s" "(c, l)"] rcr_period[of "unat s" "(c, l)"]
  by simp

lemma rcl_rcr_correct_witness:
  "rcl_long 1 0x80000000 5 = rcl_ref 1 0x80000000 (unat (5 :: u8) mod 33)"
  using rcl_rcr_correct[where f = 1 and l = "0x80000000" and s = 5] by simp

text \<open>
  C24. For a count from one to the operand's width less one, SHL, SHR and SAR return
  the left, logical right and arithmetic right shift, put the last bit moved out in
  CF, set ZF, SF and PF from the result, keep AF, and set OF for SHL and SHR to the
  change of sign for a count of one and to zero otherwise; SAR keeps OF.
\<close>

theorem shl_shr_sar_correct:
  assumes "0 < unat s"
  shows "(unat s < 8 \<longrightarrow> shl_ok (shl_byte f b s) f b (unat s) \<and> shr_ok (shr_byte f b s) f b (unat s) \<and>
      sar_ok (sar_byte f b s) f b (unat s)) \<and>
    (unat s < 16 \<longrightarrow> shl_ok (shl_word f w s) f w (unat s) \<and> shr_ok (shr_word f w s) f w (unat s) \<and>
      sar_ok (sar_word f w s) f w (unat s)) \<and>
    (unat s < 32 \<longrightarrow> shl_ok (shl_long f l s) f l (unat s) \<and> shr_ok (shr_long f l s) f l (unat s) \<and>
      sar_ok (sar_long f l s) f l (unat s))"
  using assms by (intro conjI impI shl_correct shr_correct sar_correct)

lemma shl_shr_sar_correct_witness:
  "shl_ok (shl_byte 0 0x81 1) 0 0x81 1 \<and> sar_ok (sar_word 0 0x8001 1) 0 0x8001 1 \<and>
   shr_ok (shr_long 0 0x80000001 1) 0 0x80000001 1"
  using shl_shr_sar_correct[where f = 0 and b = "0x81" and w = "0x8001" and l = "0x80000001" and s = 1] by simp

text \<open>
  C25. For a count from one to the width less one, SHLD and SHRD at 16 and 32 bits
  return the shifted first operand filled from the second, with the last bit moved
  out in CF, ZF, SF and PF from the result, AF kept, and OF the change of sign for a
  count of one and zero otherwise.
\<close>

theorem shld_shrd_correct:
  assumes "0 < unat s"
  shows "(unat s < 16 \<longrightarrow> shld_ok (shld_word f w v s) f w v (unat s) \<and>
      shrd_ok (shrd_word f w v s) f w v (unat s)) \<and>
    (unat s < 32 \<longrightarrow> shld_ok (shld_long f l k s) f l k (unat s) \<and>
      shrd_ok (shrd_long f l k s) f l k (unat s))"
  using assms by (intro conjI impI shld_correct shrd_correct)

lemma shld_shrd_correct_witness:
  "shld_ok (shld_word 0 0x1234 0xabcd 4) 0 0x1234 0xabcd 4 \<and>
   shrd_ok (shrd_long 0 0x12345678 0xabcdef01 4) 0 0x12345678 0xabcdef01 4"
  using shld_shrd_correct[where f = 0 and w = "0x1234" and v = "0xabcd" and l = "0x12345678" and k = "0xabcdef01" and s = 4]
  by simp

text \<open>
  Where the primitives differ from the processor: SHR by the width or more clears PF
  although the result is zero (an even number of ones) and loses the last bit moved
  out at exactly the width; SAR at 8 and 16 bits leaves the operand as it is when the
  count is a multiple of the width.
\<close>

lemma shr_wide_divergence:
  "\<not> ACCESS_FLAG F_PF (snd (shr_word f w 16))" "\<not> ACCESS_FLAG F_CF (snd (shr_word f w 16))"
  by (simp_all add: shr_word_def flag_simps)

lemma sar_byte_divergence: "sar_byte f b 8 = (b, f)"
  by (simp add: sar_byte_def)

lemma sar_word_divergence: "sar_word f w 16 = (w, f)"
  by (simp add: sar_word_def)

end
