(* ===== verification/Alu_Bcd.thy ===== *)
theory Alu_Bcd
  imports Alu_Arith
begin

text \<open>
  The decimal adjustments of \<^verbatim>\<open>prim_ops.c\<close> (AAA, AAS, AAD, AAM, DAA, DAS). The
  specification is decimal arithmetic: the binary primitive followed by its adjustment
  adds or subtracts unpacked digits and packed two-digit numbers.
\<close>

section \<open>The primitives\<close>

definition aaa_word :: "u32 \<Rightarrow> u16 \<Rightarrow> u16 \<times> u32" where
  "aaa_word f d =
     (let (d, f) =
        (if d AND 0xf > 0x9 \<or> ACCESS_FLAG F_AF f then
           (d + 0x6 + 0x100, SET_FLAG F_CF (SET_FLAG F_AF f))
         else (d, CLEAR_FLAG F_AF (CLEAR_FLAG F_CF f)));
      res = d AND 0xFF0F;
      f = CLEAR_FLAG F_SF f;
      f = CONDITIONAL_SET_FLAG (res = 0) F_ZF f;
      f = CONDITIONAL_SET_FLAG (PARITY (ucast res AND 0xff)) F_PF f
      in (res, f))"

definition aas_word :: "u32 \<Rightarrow> u16 \<Rightarrow> u16 \<times> u32" where
  "aas_word f d =
     (let (d, f) =
        (if d AND 0xf > 0x9 \<or> ACCESS_FLAG F_AF f then
           (d - 0x6 - 0x100, SET_FLAG F_CF (SET_FLAG F_AF f))
         else (d, CLEAR_FLAG F_AF (CLEAR_FLAG F_CF f)));
      res = d AND 0xFF0F;
      f = CLEAR_FLAG F_SF f;
      f = CONDITIONAL_SET_FLAG (res = 0) F_ZF f;
      f = CONDITIONAL_SET_FLAG (PARITY (ucast res AND 0xff)) F_PF f
      in (res, f))"

definition aad_word :: "u32 \<Rightarrow> u16 \<Rightarrow> u8 \<Rightarrow> u16 \<times> u32" where
  "aad_word f d base =
     (let hb = (ucast (drop_bit 8 d AND 0xff) :: u8);
          lb = (ucast (d AND 0xff) :: u8);
          l = (ucast ((ucast lb + ucast base * ucast hb :: u32) AND 0xFF) :: u16);
          f = CLEAR_FLAG F_CF f; f = CLEAR_FLAG F_AF f; f = CLEAR_FLAG F_OF f;
          f = CONDITIONAL_SET_FLAG (l AND 0x80 \<noteq> 0) F_SF f;
          f = CONDITIONAL_SET_FLAG (l = 0) F_ZF f;
          f = CONDITIONAL_SET_FLAG (PARITY (ucast l AND 0xff)) F_PF f
      in (l, f))"

text \<open>A base of zero divides by zero on the host: no result.\<close>

definition aam_word :: "u32 \<Rightarrow> u8 \<Rightarrow> u8 \<Rightarrow> (u16 \<times> u32) option" where
  "aam_word f d base =
     (if base = 0 then None
      else
        let h = (ucast (d div base) :: u16);
            l = (ucast (d mod base) :: u16);
            l = l OR push_bit 8 h;
            f = CLEAR_FLAG F_CF f; f = CLEAR_FLAG F_AF f; f = CLEAR_FLAG F_OF f;
            f = CONDITIONAL_SET_FLAG (l AND 0x80 \<noteq> 0) F_SF f;
            f = CONDITIONAL_SET_FLAG (l = 0) F_ZF f;
            f = CONDITIONAL_SET_FLAG (PARITY (ucast l AND 0xff)) F_PF f
        in Some (l, f))"

definition daa_byte :: "u32 \<Rightarrow> u8 \<Rightarrow> u8 \<times> u32" where
  "daa_byte f d =
     (let res = (ucast d :: u32);
          (res, f) = (if d AND 0xf > 9 \<or> ACCESS_FLAG F_AF f then (res + 6, SET_FLAG F_AF f) else (res, f));
          (res, f) = (if res > 0x9F \<or> ACCESS_FLAG F_CF f then (res + 0x60, SET_FLAG F_CF f) else (res, f));
          f = CONDITIONAL_SET_FLAG (res AND 0x80 \<noteq> 0) F_SF f;
          f = CONDITIONAL_SET_FLAG (res AND 0xFF = 0) F_ZF f;
          f = CONDITIONAL_SET_FLAG (PARITY (res AND 0xff)) F_PF f
      in (ucast res, f))"

definition das_byte :: "u32 \<Rightarrow> u8 \<Rightarrow> u8 \<times> u32" where
  "das_byte f d =
     (let (d, f) = (if d AND 0xf > 9 \<or> ACCESS_FLAG F_AF f then (d - 6, SET_FLAG F_AF f) else (d, f));
          (d, f) = (if d > 0x9F \<or> ACCESS_FLAG F_CF f then (d - 0x60, SET_FLAG F_CF f) else (d, f));
          f = CONDITIONAL_SET_FLAG (d AND 0x80 \<noteq> 0) F_SF f;
          f = CONDITIONAL_SET_FLAG (d = 0) F_ZF f;
          f = CONDITIONAL_SET_FLAG (PARITY (ucast d AND 0xff)) F_PF f
      in (d, f))"

section \<open>Packed decimal numbers\<close>

definition bcd :: "nat \<Rightarrow> u8" where
  "bcd n = word_of_nat (16 * (n div 10) + n mod 10)"

lemma unat_bcd: "n < 100 \<Longrightarrow> unat (bcd n) = 16 * (n div 10) + n mod 10"
proof -
  assume "n < 100"
  then have "n div 10 < 10" "n mod 10 < 10" by auto
  then have "16 * (n div 10) + n mod 10 < 256" by linarith
  then have "unat (bcd n) = (16 * (n div 10) + n mod 10) mod 2 ^ LENGTH(8)"
    unfolding bcd_def by (simp only: unat_of_nat)
  then show ?thesis using \<open>16 * (n div 10) + n mod 10 < 256\<close> by simp
qed

lemma unat_and_0xf: "unat (x AND 0xf) = unat x mod 16" for x :: "'a::len word"
proof -
  have "unat (x AND mask 4) = unat (take_bit 4 x)" by (simp only: take_bit_eq_mask)
  also have "\<dots> = take_bit 4 (unat x)" by (rule unsigned_take_bit_eq)
  also have "\<dots> = unat x mod 16" by (simp add: take_bit_eq_mod)
  finally show ?thesis by (simp add: mask_eq_exp_minus_1)
qed

lemma low_nibble_gt: "(x AND 0xf > 9) = (9 < unat x mod 16)" for x :: u8
  by (simp add: word_less_nat_alt unat_and_0xf)

text \<open>
  The value DAA returns, over the natural numbers: the two corrections happen on the
  value of AL and the flags left by the addition.
\<close>

lemma daa_value:
  "unat (fst (daa_byte f d)) =
     (let lo = 9 < unat d mod 16 \<or> ACCESS_FLAG F_AF f; r = unat d + (if lo then 6 else 0)
      in (r + (if 0x9F < r \<or> ACCESS_FLAG F_CF f then 0x60 else 0)) mod 256)"
  "ACCESS_FLAG F_CF (snd (daa_byte f d)) =
     (0x9F < unat d + (if 9 < unat d mod 16 \<or> ACCESS_FLAG F_AF f then 6 else 0) \<or> ACCESS_FLAG F_CF f)"
proof -
  have d: "unat d < 256" using unsigned_less[of d] by simp
  have r6: "unat ((ucast d :: u32) + 6) = unat d + 6" using d by (simp add: unat_word_ariths)
  have r60: "unat ((ucast d :: u32) + 0x60) = unat d + 0x60" using d by (simp add: unat_word_ariths)
  have r66: "unat (102 + (ucast d :: u32)) = 102 + unat d"
    using d by (simp add: unat_word_ariths)
  have gt: "(x > 0x9F) = (0x9F < unat x)" for x :: u32 by (simp add: word_less_nat_alt)
  have dn: "unat (ucast x :: u8) = unat x mod 256" for x :: u32
    by (simp add: unsigned_ucast_eq take_bit_eq_mod)
  show "unat (fst (daa_byte f d)) =
     (let lo = 9 < unat d mod 16 \<or> ACCESS_FLAG F_AF f; r = unat d + (if lo then 6 else 0)
      in (r + (if 0x9F < r \<or> ACCESS_FLAG F_CF f then 0x60 else 0)) mod 256)"
    by (simp add: daa_byte_def Let_def flag_simps low_nibble_gt gt r6 r60 r66 dn del: add.assoc)
  show "ACCESS_FLAG F_CF (snd (daa_byte f d)) =
     (0x9F < unat d + (if 9 < unat d mod 16 \<or> ACCESS_FLAG F_AF f then 6 else 0) \<or> ACCESS_FLAG F_CF f)"
    by (simp add: daa_byte_def Let_def flag_simps low_nibble_gt gt r6)
qed


text \<open>
  The arithmetic of the correction: \<open>t\<close> is the sum of the low digits and the carry in,
  \<open>T\<close> the sum of the high digits.
\<close>

lemma bcd_add_nat:
  fixes t T :: nat
  assumes "t < 20" "T < 19"
  defines "d \<equiv> (16 * T + t) mod 256" and "n \<equiv> 10 * T + t"
  defines "r \<equiv> d + (if 9 < d mod 16 \<or> 16 \<le> t then 6 else 0)"
  shows "(r + (if 0x9F < r \<or> 256 \<le> 16 * T + t then 0x60 else 0)) mod 256 =
      16 * (n mod 100 div 10) + n mod 100 mod 10" (is "?R = ?N")
    and "(0x9F < r \<or> 256 \<le> 16 * T + t) = (100 \<le> n)"
proof -
  define t' where "t' = (if 10 \<le> t then t - 10 else t)"
  define T' where "T' = (if 10 \<le> t then T + 1 else T)"
  have dm: "d mod 16 = t mod 16" by (simp add: d_def mod_mod_cancel)
  have low: "(9 < d mod 16 \<or> 16 \<le> t) = (10 \<le> t)" 
    unfolding dm by (cases "t < 16") auto
  have d: "d = (if 256 \<le> 16 * T + t then 16 * T + t - 256 else 16 * T + t)"
    unfolding d_def using assms(1,2) by (simp add: mod_if)
  have "r = d + (if 10 \<le> t then 6 else 0)" unfolding r_def low ..
  then have r: "r = (if 256 \<le> 16 * T + t then 16 * T' + t' - 256 else 16 * T' + t')"
    unfolding d t'_def T'_def by (cases "10 \<le> t"; cases "256 \<le> 16 * T + t"; simp)
  have n: "n = 10 * T' + t'" and t': "t' < 10" and T': "T' < 20" and big: "256 \<le> 16 * T + t \<Longrightarrow> 16 \<le> T'"
    unfolding n_def t'_def T'_def using assms(1,2) by auto
  have R: "(100 \<le> n) = (10 \<le> T')" unfolding n using t' by presburger
  show cf: "(0x9F < r \<or> 256 \<le> 16 * T + t) = (100 \<le> n)"
    unfolding R r using t' T' big by auto
  have "n mod 100 = 10 * (if 10 \<le> T' then T' - 10 else T') + t'"
  proof -
    have "n < 200" unfolding n using t' T' by simp
    then have "n mod 100 = (if 100 \<le> n then n - 100 else n)" by (simp add: mod_if)
    then show ?thesis unfolding R unfolding n by auto
  qed
  then have N: "?N = 16 * (if 10 \<le> T' then T' - 10 else T') + t'" using t' by (simp only: div_mult_self4 mod_mult_self4) simp
  show "?R = ?N"
  proof (cases "10 \<le> T'")
    case False
    then show ?thesis unfolding N cf R using t' r big by auto
  next
    case True
    then have "r + 0x60 = (if 256 \<le> 16 * T + t then 16 * (T' - 10) + t' else 16 * (T' - 10) + t' + 256)"
      unfolding r using big by auto
    moreover have "16 * (T' - 10) + t' < 256" using t' T' by auto
    ultimately show ?thesis unfolding N cf R using True by auto
  qed
qed

text \<open>
  The subtraction: \<open>a\<close> and \<open>b\<close> are the minuend's and the subtrahend's digits, \<open>c\<close> the
  borrow. DAS's own tests, over the natural numbers.
\<close>

lemma das_value:
  "unat (fst (das_byte f d)) =
     (let lo = 9 < unat d mod 16 \<or> ACCESS_FLAG F_AF f; r = (unat d + (if lo then 250 else 0)) mod 256
      in (r + (if 0x9F < r \<or> ACCESS_FLAG F_CF f then 160 else 0)) mod 256)"
  "ACCESS_FLAG F_CF (snd (das_byte f d)) =
     (0x9F < (unat d + (if 9 < unat d mod 16 \<or> ACCESS_FLAG F_AF f then 250 else 0)) mod 256 \<or> ACCESS_FLAG F_CF f)"
proof -
  have "unat d < 256" using unsigned_less[of d] by simp
  then have d: "unat d mod 256 = unat d" by simp
  have sub: "unat (x - 6) = (unat x + 250) mod 256" "unat (x - 0x60) = (unat x + 160) mod 256" for x :: u8
    using unat_word_ariths(1)[of x "- 6"] unat_word_ariths(1)[of x "- 0x60"] by simp_all
  have sub2: "unat (x - 102) = ((unat x + 250) mod 256 + 160) mod 256" for x :: u8
    using sub(1)[of x] sub(2)[of "x - 6"] by simp
  have gt: "(x > 0x9F) = (0x9F < unat x)" for x :: u8 by (simp add: word_less_nat_alt)
  show "unat (fst (das_byte f d)) =
     (let lo = 9 < unat d mod 16 \<or> ACCESS_FLAG F_AF f; r = (unat d + (if lo then 250 else 0)) mod 256
      in (r + (if 0x9F < r \<or> ACCESS_FLAG F_CF f then 160 else 0)) mod 256)"
    by (simp add: das_byte_def Let_def flag_simps low_nibble_gt gt sub sub2 d)
  show "ACCESS_FLAG F_CF (snd (das_byte f d)) =
     (0x9F < (unat d + (if 9 < unat d mod 16 \<or> ACCESS_FLAG F_AF f then 250 else 0)) mod 256 \<or> ACCESS_FLAG F_CF f)"
    by (simp add: das_byte_def Let_def flag_simps low_nibble_gt gt sub d)
qed

text \<open>
  \<open>T\<close> and \<open>t\<close> are the digits of the difference, \<open>lo\<close> and \<open>k\<close> the borrows out of the low
  and the high digit.
\<close>

lemma bcd_sub_nat:
  fixes t T :: nat and lo k :: bool
  assumes "t < 10" "T < 10"
  defines "d \<equiv> 16 * T + t + (if lo then 6 else 0) + (if k then 96 else 0)"
  defines "r \<equiv> (d + (if 9 < d mod 16 \<or> lo then 250 else 0)) mod 256"
  shows "(r + (if 0x9F < r \<or> k then 160 else 0)) mod 256 = 16 * T + t"
    and "(0x9F < r \<or> k) = k"
proof -
  have "d = 16 * (T + (if k then 6 else 0)) + (t + (if lo then 6 else 0))" unfolding d_def by simp
  then have "d mod 16 = (t + (if lo then 6 else 0)) mod 16" by (simp only: mod_mult_self4)
  then have low: "(9 < d mod 16 \<or> lo) = lo" using assms(1) by simp
  have less: "16 * T + t + (if k then 96 else 0) < 256" using assms(1,2) by auto
  have "r = (d + (if lo then 250 else 0)) mod 256" unfolding r_def low ..
  then have "r = (16 * T + t + (if k then 96 else 0) + (if lo then 256 else 0)) mod 256"
    by (cases lo; cases k) (simp_all add: d_def ac_simps)
  then have r: "r = 16 * T + t + (if k then 96 else 0)" using less by (cases lo) simp_all
  show cf: "(0x9F < r \<or> k) = k" unfolding r using assms(1,2) by auto
  have "16 * T + t < 256" using assms(1,2) by auto
  then show "(r + (if 0x9F < r \<or> k then 160 else 0)) mod 256 = 16 * T + t"
    unfolding cf unfolding r by (cases k) simp_all
qed

lemma digits_mod:
  fixes n :: nat
  shows "(16 * (n div 10) + n mod 10) mod 16 = n mod 10"
  by (simp only: mod_mult_self4) (simp add: mod_less order_less_trans[OF mod_less_divisor])

lemma adc_byte_flags:
  "fst (adc_byte f d s) = d + s + of_bool (ACCESS_FLAG F_CF f)"
  "ACCESS_FLAG F_CF (snd (adc_byte f d s)) = (256 \<le> unat d + unat s + of_bool (ACCESS_FLAG F_CF f))"
  "ACCESS_FLAG F_AF (snd (adc_byte f d s)) = (16 \<le> unat d mod 16 + unat s mod 16 + of_bool (ACCESS_FLAG F_CF f))"
  using adc_byte_correct[of f d s]
  by (simp_all add: alu_result_def add_flags_def result_flags_def aflags_of_def split del: split_of_bool)

lemma sbb_byte_flags:
  "fst (sbb_byte f d s) = d - s - of_bool (ACCESS_FLAG F_CF f)"
  "ACCESS_FLAG F_CF (snd (sbb_byte f d s)) = (unat d < unat s + of_bool (ACCESS_FLAG F_CF f))"
  "ACCESS_FLAG F_AF (snd (sbb_byte f d s)) = (unat d mod 16 < unat s mod 16 + of_bool (ACCESS_FLAG F_CF f))"
  using sbb_byte_correct[of f d s]
  by (simp_all add: alu_result_def sub_flags_def result_flags_def aflags_of_def split del: split_of_bool)

lemma unat_lt_256: "unat b < 256" for b :: u8
  using unsigned_less[of b] by simp

lemma unat_sum_byte:
  "unat (d + s + of_bool c) = (unat d + unat s + of_bool c) mod 256"
  "unat (d - s - of_bool c) = (unat d + 512 - unat s - of_bool c) mod 256" for d s :: u8
proof -
  have 1: "unat (of_bool c :: u8) = of_bool c" by simp
  show "unat (d + s + of_bool c) = (unat d + unat s + of_bool c) mod 256"
    by (simp only: unat_word_ariths 1) (simp add: mod_simps)
  have "d - s - of_bool c = word_of_nat (unat d + 512 - unat s - of_bool c)"
    using unat_lt_256[of s] by (cases c) (simp_all add: of_nat_diff)
  then show "unat (d - s - of_bool c) = (unat d + 512 - unat s - of_bool c) mod 256"
    by (simp only: unat_of_nat) simp
qed

lemma adc_daa:
  fixes x y :: nat and f :: u32
  assumes "x < 100" "y < 100"
  defines "c \<equiv> of_bool (ACCESS_FLAG F_CF f) :: nat"
  defines "p \<equiv> adc_byte f (bcd x) (bcd y)"
  defines "q \<equiv> daa_byte (snd p) (fst p)"
  shows "fst q = bcd ((x + y + c) mod 100)" and "ACCESS_FLAG F_CF (snd q) = (100 \<le> x + y + c)"
proof -
  let ?t = "x mod 10 + y mod 10 + c" and ?T = "x div 10 + y div 10"
  have c: "c \<le> 1" by (simp add: c_def)
  have t: "?t < 20" using c mod_less_divisor[of 10 x] mod_less_divisor[of 10 y] by linarith
  have "x div 10 < 10" "y div 10 < 10" using assms(1,2) by (simp_all add: less_mult_imp_div_less)
  then have T: "?T < 19" by linarith
  have sum: "unat (bcd x) + unat (bcd y) + c = 16 * ?T + ?t"
    using assms(1,2) by (simp add: unat_bcd)
  have n: "10 * ?T + ?t = x + y + c" by simp
  have low: "unat (bcd x) mod 16 = x mod 10" "unat (bcd y) mod 16 = y mod 10"
    by (simp_all only: unat_bcd assms(1,2) digits_mod)
  have p: "unat (fst p) = (16 * ?T + ?t) mod 256" "ACCESS_FLAG F_CF (snd p) = (256 \<le> 16 * ?T + ?t)"
    "ACCESS_FLAG F_AF (snd p) = (16 \<le> ?t)"
    unfolding p_def adc_byte_flags unat_sum_byte c_def[symmetric] low sum by (rule refl)+
  have "unat (fst q) = 16 * ((x + y + c) mod 100 div 10) + (x + y + c) mod 100 mod 10"
    unfolding q_def daa_value Let_def p by (rule bcd_add_nat(1)[OF t T, unfolded n])
  moreover show "ACCESS_FLAG F_CF (snd q) = (100 \<le> x + y + c)"
    unfolding q_def daa_value p by (rule bcd_add_nat(2)[OF t T, unfolded n])
  ultimately show "fst q = bcd ((x + y + c) mod 100)"
    using unat_bcd[of "(x + y + c) mod 100"] by (simp only: word_unat_eq_iff)
qed

text \<open>The digits of a difference and its borrows.\<close>

lemma digit_diff:
  fixes a0 a1 b0 b1 c :: nat
  assumes "a0 < 10" "a1 < 10" "b0 < 10" "b1 < 10" "c \<le> 1"
  obtains t T lo k where "t < 10" "T < 10" "lo = (a0 < b0 + c)" "k = (10 * a1 + a0 < 10 * b1 + b0 + c)"
    "a0 + (if lo then 10 else 0) = b0 + c + t"
    "a1 + (if k then 10 else 0) = b1 + of_bool lo + T"
proof -
  define lo where "lo = (a0 < b0 + c)"
  define k where "k = (a1 < b1 + of_bool lo)"
  have "a0 + (if lo then 10 else 0) = b0 + c + (a0 + (if lo then 10 else 0) - (b0 + c))"
    "a0 + (if lo then 10 else 0) - (b0 + c) < 10"
    using assms(1,3,5) by (auto simp: lo_def)
  moreover have "a1 + (if k then 10 else 0) = b1 + of_bool lo + (a1 + (if k then 10 else 0) - (b1 + of_bool lo))"
    "a1 + (if k then 10 else 0) - (b1 + of_bool lo) < 10"
    using assms(2,4) by (cases lo; auto simp: k_def)+
  moreover have "k = (10 * a1 + a0 < 10 * b1 + b0 + c)"
    using assms(1,3,5) by (cases lo; auto simp: k_def lo_def)
  ultimately show thesis using that lo_def by blast
qed

lemma wrap_256: "V < 256 \<Longrightarrow> (V + (if k then 256 else 512)) mod 256 = V" for V :: nat
  using mod_mult_self1[of V 2 256] by (cases k) simp_all

lemma sbb_das_nat:
  fixes a0 a1 b0 b1 c :: nat
  defines "A \<equiv> 16 * a1 + a0" and "B \<equiv> 16 * b1 + b0"
  assumes dig: "a0 < 10" "a1 < 10" "b0 < 10" "b1 < 10" "c \<le> 1"
  obtains t T lo k where "t < 10" "T < 10" "lo = (a0 < b0 + c)" "k = (A < B + c)"
    "k = (10 * a1 + a0 < 10 * b1 + b0 + c)"
    "(A + 512 - B - c) mod 256 = 16 * T + t + (if lo then 6 else 0) + (if k then 96 else 0)"
    "(10 * a1 + a0 + 100 - (10 * b1 + b0) - c) mod 100 = 10 * T + t"
proof -
  obtain t T lo k where t: "t < 10" and T: "T < 10" and lo: "lo = (a0 < b0 + c)"
    and k: "k = (10 * a1 + a0 < 10 * b1 + b0 + c)"
    and l: "a0 + (if lo then 10 else 0) = b0 + c + t" and h: "a1 + (if k then 10 else 0) = b1 + of_bool lo + T"
    using digit_diff[OF dig] .
  let ?d = "16 * T + t + (if lo then 6 else 0) + (if k then 96 else 0)"
  have "A + (if k then 160 else 0) = B + c + (16 * T + t + (if lo then 6 else 0))"
    using l h unfolding A_def B_def by (cases lo; cases k; simp)
  then have D: "A + 512 - B - c = ?d + (if k then 256 else 512)" and kA: "k = (A < B + c)"
    using t T by (cases k; cases lo; simp)+
  have "?d < 256" using t T by simp
  then have "(A + 512 - B - c) mod 256 = ?d" unfolding D by (rule wrap_256)
  moreover have "10 * a1 + a0 + 100 - (10 * b1 + b0) - c = 10 * T + t + (if k then 0 else 100)"
    using l h by (cases lo; cases k; simp)
  then have "(10 * a1 + a0 + 100 - (10 * b1 + b0) - c) mod 100 = 10 * T + t"
    using t T by (cases k) simp_all
  ultimately show thesis using that t T lo k kA by blast
qed

lemma sbb_das:
  fixes x y :: nat and f :: u32
  assumes "x < 100" "y < 100"
  defines "c \<equiv> of_bool (ACCESS_FLAG F_CF f) :: nat"
  defines "p \<equiv> sbb_byte f (bcd x) (bcd y)"
  defines "q \<equiv> das_byte (snd p) (fst p)"
  shows "fst q = bcd ((x + 100 - y - c) mod 100)" and "ACCESS_FLAG F_CF (snd q) = (x < y + c)"
proof -
  have "c \<le> 1" by (simp add: c_def)
  moreover have "x div 10 < 10" "y div 10 < 10" using assms(1,2) by (simp_all add: less_mult_imp_div_less)
  moreover have "x mod 10 < 10" "y mod 10 < 10" by simp_all
  ultimately obtain t T lo k where t: "t < 10" and T: "T < 10" and lo: "lo = (x mod 10 < y mod 10 + c)"
    and k: "k = (16 * (x div 10) + x mod 10 < 16 * (y div 10) + y mod 10 + c)"
    and k': "k = (10 * (x div 10) + x mod 10 < 10 * (y div 10) + y mod 10 + c)"
    and d: "(16 * (x div 10) + x mod 10 + 512 - (16 * (y div 10) + y mod 10) - c) mod 256 =
      16 * T + t + (if lo then 6 else 0) + (if k then 96 else 0)"
    and m: "(10 * (x div 10) + x mod 10 + 100 - (10 * (y div 10) + y mod 10) - c) mod 100 = 10 * T + t"
    using sbb_das_nat[of "x mod 10" "x div 10" "y mod 10" "y div 10" c] by blast
  have u: "unat (bcd x) = 16 * (x div 10) + x mod 10" "unat (bcd y) = 16 * (y div 10) + y mod 10"
    by (simp_all only: unat_bcd assms(1,2))
  have xy: "10 * (x div 10) + x mod 10 = x" "10 * (y div 10) + y mod 10 = y" by simp_all
  have p: "unat (fst p) = 16 * T + t + (if lo then 6 else 0) + (if k then 96 else 0)"
    "ACCESS_FLAG F_CF (snd p) = k" "ACCESS_FLAG F_AF (snd p) = lo"
    unfolding p_def sbb_byte_flags unat_sum_byte c_def[symmetric] u digits_mod
    by (simp_all only: d k lo)
  have v: "unat (fst q) = 16 * T + t" "ACCESS_FLAG F_CF (snd q) = k"
    unfolding q_def das_value Let_def p by (rule bcd_sub_nat[OF t T])+
  show "ACCESS_FLAG F_CF (snd q) = (x < y + c)" unfolding v k' xy ..
  have "10 * T + t < 100" "(10 * T + t) div 10 = T" "(10 * T + t) mod 10 = t" using t T by simp_all
  then have "unat (bcd (10 * T + t)) = 16 * T + t" by (simp only: unat_bcd)
  then show "fst q = bcd ((x + 100 - y - c) mod 100)"
    unfolding m[unfolded xy] by (simp only: word_unat_eq_iff v)
qed

section \<open>Unpacked digits\<close>

text \<open>The bytes of AX.\<close>

definition ax :: "u8 \<Rightarrow> u8 \<Rightarrow> u16" where
  "ax h l = push_bit 8 (ucast h) OR ucast l"

lemma not_bit_byte: "8 \<le> n \<Longrightarrow> \<not> bit b n" for b :: u8
  by (auto dest: bit_imp_le_length)

lemma ucast_and_ff: "(ucast (x AND 0xff) :: u8) = ucast x" for x :: u16
proof -
  have m: "(0xff :: u16) = mask 8" by (simp add: mask_eq_exp_minus_1)
  show ?thesis unfolding m by (rule bit_word_eqI) (auto simp: bit_simps)
qed

lemma ucast_low_byte: "(ucast (x AND 0xff) :: u16) = ucast (ucast x :: u8)" for x :: u32
proof -
  have m: "(0xff :: u32) = mask 8" by (simp add: mask_eq_exp_minus_1)
  show ?thesis unfolding m by (rule bit_word_eqI) (auto simp: bit_simps)
qed

lemma ucast_mult_byte: "(ucast (ucast a * ucast b :: u32) :: u8) = a * b" for a b :: u8
proof -
  have "unat a mod 4294967296 = unat a" "unat b mod 4294967296 = unat b"
    using unat_lt_256[of a] unat_lt_256[of b] by simp_all
  then show ?thesis
    by (simp add: word_unat_eq_iff unsigned_ucast_eq take_bit_eq_mod unat_word_ariths mod_mod_cancel)
qed

lemma unat_ax: "unat (ax h l) = 256 * unat h + unat l"
proof -
  have "(push_bit 8 (ucast h) AND ucast l :: u16) = 0"
    by (rule bit_word_eqI) (auto simp: bit_simps not_bit_byte)
  then have "ax h l = push_bit 8 (ucast h) + ucast l"
    unfolding ax_def by (rule disjunctive_add_eq_or[symmetric])
  moreover have "unat (push_bit 8 (ucast h) :: u16) = 256 * unat h"
    using unat_lt_256[of h] by (simp add: push_bit_eq_mult unat_word_ariths)
  ultimately show ?thesis using unat_lt_256[of h] unat_lt_256[of l] by (simp add: unat_word_ariths)
qed

lemma aam_value:
  assumes "base \<noteq> 0" shows "map_option fst (aam_word f d base) = Some (ax (d div base) (d mod base))"
  using assms by (simp add: aam_word_def Let_def ax_def or.commute)

lemma aad_value: "fst (aad_word f (ax h l) base) = ucast (l + base * h)"
proof -
  have h: "ucast (drop_bit 8 (ax h l) AND 0xff) = h"
    unfolding ucast_and_ff by (rule bit_word_eqI) (auto simp: ax_def bit_simps not_bit_byte)
  have l: "ucast (ax h l AND 0xff) = l"
    unfolding ucast_and_ff by (rule bit_word_eqI) (auto simp: ax_def bit_simps)
  have "(ucast (ucast l + ucast base * ucast h :: u32) :: u8) = l + base * h"
    by (simp add: ucast_down_add ucast_mult_byte)
  then show ?thesis unfolding aad_word_def Let_def h l by (simp add: ucast_low_byte)
qed

lemma aam_aad:
  assumes "base \<noteq> 0"
  shows "map_option (\<lambda>p. fst (aad_word f (fst p) base)) (aam_word f' d base) = Some (ucast d)"
proof -
  obtain p where p: "aam_word f' d base = Some p" "fst p = ax (d div base) (d mod base)"
    using aam_value[OF assms, of f' d] by auto
  have "d mod base + base * (d div base) = d" by (simp add: mult.commute[of base] mod_div_mult_eq)
  then show ?thesis by (simp add: p aad_value)
qed

lemma ax_and: "ax h l AND 0xFF0F = ax h (l AND 0xF)"
proof -
  have m: "(0xFF0F :: u16) = push_bit 8 (mask 8) OR mask 4" "(0xF :: u8) = mask 4"
    by (simp_all add: mask_eq_exp_minus_1)
  show ?thesis unfolding m ax_def
    by (rule bit_word_eqI) (auto simp: bit_simps not_bit_byte)
qed

lemma ax_low_gt: "(ax h l AND 0xf > 0x9) = (9 < unat l mod 16)"
  using mod_mult_self4[of 16 "16 * unat h" "unat l"] by (simp add: word_less_nat_alt unat_and_0xf unat_ax)

lemma ax_of_nat: "ax h l = word_of_nat (256 * unat h + unat l)"
  by (metis unat_ax word_of_nat_unat)

lemma ax_plus: "unat l + 6 < 256 \<Longrightarrow> ax h l + 6 + 0x100 = ax (h + 1) (l + 6)"
proof -
  assume l: "unat l + 6 < 256"
  have l6: "unat (l + 6) = unat l + 6" using l by (simp add: unat_word_ariths)
  have "unat (h + 1) = (unat h + 1) mod 256" by (simp add: unat_word_ariths)
  then obtain k where k: "unat h + 1 = unat (h + 1) + 256 * k" by (metis mod_mult_div_eq)
  have "256 * unat h + unat l + 6 + 256 = 256 * (unat h + 1) + (unat l + 6)" by simp
  also have "\<dots> = 256 * unat (h + 1) + unat (l + 6) + k * 65536" unfolding k l6 by simp
  finally have "(word_of_nat (256 * unat h + unat l + 6 + 256) :: u16) =
      word_of_nat (256 * unat (h + 1) + unat (l + 6) + k * 65536)" by (rule arg_cong)
  moreover have "(word_of_nat (k * 65536) :: u16) = 0" by (simp add: word_of_nat_eq_0_iff del: of_nat_mult)
  ultimately show ?thesis unfolding ax_of_nat by (simp only: of_nat_add of_nat_numeral add_0_right)
qed

lemma ax_minus: "6 \<le> unat l \<Longrightarrow> ax h l - 6 - 0x100 = ax (h - 1) (l - 6)"
proof -
  assume l: "6 \<le> unat l"
  then have "unat (l - 6) + 6 < 256" using unat_lt_256[of l] by (simp add: unat_sub_if')
  from ax_plus[OF this, of "h - 1"] show ?thesis by (simp add: algebra_simps)
qed

lemma unat_and_nibble: "unat (l AND 0xF) = unat l mod 16" for l :: u8
  by (rule unat_and_0xf)

lemma aaa_value:
  assumes "unat l < 20" "ACCESS_FLAG F_AF f = (16 \<le> unat l)"
  shows "fst (aaa_word f (ax h l)) = ax (h + of_bool (10 \<le> unat l)) (word_of_nat (unat l mod 10))"
    and "ACCESS_FLAG F_CF (snd (aaa_word f (ax h l))) = (10 \<le> unat l)"
    and "ACCESS_FLAG F_AF (snd (aaa_word f (ax h l))) = (10 \<le> unat l)"
proof -
  have t: "(ax h l AND 0xf > 0x9 \<or> ACCESS_FLAG F_AF f) = (10 \<le> unat l)"
    unfolding ax_low_gt assms(2) using assms(1) by (cases "unat l < 16") auto
  show "ACCESS_FLAG F_CF (snd (aaa_word f (ax h l))) = (10 \<le> unat l)"
    "ACCESS_FLAG F_AF (snd (aaa_word f (ax h l))) = (10 \<le> unat l)"
    unfolding aaa_word_def Let_def t by (simp_all add: flag_simps)
  show "fst (aaa_word f (ax h l)) = ax (h + of_bool (10 \<le> unat l)) (word_of_nat (unat l mod 10))"
  proof (cases "10 \<le> unat l")
    case True
    then have "unat ((l + 6) AND 0xF) = unat l mod 10"
      using assms(1) by (simp add: unat_and_nibble unat_word_ariths mod_if)
    then have "(l + 6) AND 0xF = word_of_nat (unat l mod 10)" by (metis word_of_nat_unat)
    then show ?thesis using True assms(1) unfolding aaa_word_def Let_def t
      by (simp add: ax_plus ax_and del: add.assoc)
  next
    case False
    then have "l AND 0xF = word_of_nat (unat l mod 10)"
      using unat_and_nibble[of l] by (simp add: word_unat_eq_iff)
    then show ?thesis using False unfolding aaa_word_def Let_def t
      by (simp add: ax_and)
  qed
qed

lemma aas_value:
  assumes "unat l < 10 \<and> \<not> ACCESS_FLAG F_AF f \<or> 246 \<le> unat l \<and> ACCESS_FLAG F_AF f"
  shows "fst (aas_word f (ax h l)) =
      ax (h - of_bool (246 \<le> unat l)) (word_of_nat ((unat l + (if 246 \<le> unat l then 10 else 0)) mod 256))"
    and "ACCESS_FLAG F_CF (snd (aas_word f (ax h l))) = (246 \<le> unat l)"
    and "ACCESS_FLAG F_AF (snd (aas_word f (ax h l))) = (246 \<le> unat l)"
proof -
  have t: "(ax h l AND 0xf > 0x9 \<or> ACCESS_FLAG F_AF f) = (246 \<le> unat l)"
    unfolding ax_low_gt using assms by (elim disjE conjE) simp_all
  show "ACCESS_FLAG F_CF (snd (aas_word f (ax h l))) = (246 \<le> unat l)"
    "ACCESS_FLAG F_AF (snd (aas_word f (ax h l))) = (246 \<le> unat l)"
    unfolding aas_word_def Let_def t by (simp_all add: flag_simps)
  show "fst (aas_word f (ax h l)) =
      ax (h - of_bool (246 \<le> unat l)) (word_of_nat ((unat l + (if 246 \<le> unat l then 10 else 0)) mod 256))"
  proof (cases "246 \<le> unat l")
    case True
    have s: "unat (l - 6) = unat l - 6" using True by (simp add: unat_sub_if')
    define m where "m = unat l - 246"
    have "unat l - 6 = m + 15 * 16" "m < 16" using True unat_lt_256[of l] by (simp_all add: m_def)
    then have "(unat l - 6) mod 16 = m" by (simp only: mod_mult_self1) simp
    then have "(unat l - 6) mod 16 = unat l - 246" unfolding m_def .
    then have "unat ((l - 6) AND 0xF) = (unat l + 10) mod 256"
      using True unat_lt_256[of l] by (simp add: unat_and_nibble s mod_if)
    then have "(l - 6) AND 0xF = word_of_nat ((unat l + 10) mod 256)" by (metis word_of_nat_unat)
    then show ?thesis using True unfolding aas_word_def Let_def t
      by (simp add: ax_minus ax_and del: diff_diff_eq)
  next
    case False
    then have "l AND 0xF = l" using assms unat_and_nibble[of l] by (simp add: word_unat_eq_iff)
    then show ?thesis using False unat_lt_256[of l] unfolding aas_word_def Let_def t
      by (simp add: ax_and)
  qed
qed

section \<open>The properties of the adjustments\<close>

text \<open>
  C26. Packed decimal arithmetic: for two-digit numbers \<open>x\<close> and \<open>y\<close> in packed BCD, ADC
  followed by DAA leaves the packed BCD of the sum modulo 100 with CF its decimal
  carry, and SBB followed by DAS the packed BCD of the difference modulo 100 with CF
  its decimal borrow.
\<close>

theorem daa_das_decimal:
  assumes "x < 100" "y < 100"
  shows "(case adc_byte f (bcd x) (bcd y) of (r, f1) \<Rightarrow> case daa_byte f1 r of (r', f2) \<Rightarrow>
      r' = bcd ((x + y + of_bool (ACCESS_FLAG F_CF f)) mod 100) \<and>
      ACCESS_FLAG F_CF f2 = (100 \<le> x + y + of_bool (ACCESS_FLAG F_CF f))) \<and>
    (case sbb_byte f (bcd x) (bcd y) of (r, f1) \<Rightarrow> case das_byte f1 r of (r', f2) \<Rightarrow>
      r' = bcd ((x + 100 - y - of_bool (ACCESS_FLAG F_CF f)) mod 100) \<and>
      ACCESS_FLAG F_CF f2 = (x < y + of_bool (ACCESS_FLAG F_CF f)))"
  using adc_daa[OF assms, of f] sbb_das[OF assms, of f] by (simp add: case_prod_beta)

lemma daa_das_decimal_witness:
  "case adc_byte 0 (bcd 58) (bcd 67) of (r, f1) \<Rightarrow> case daa_byte f1 r of (r', f2) \<Rightarrow>
     r' = bcd 25 \<and> ACCESS_FLAG F_CF f2"
  using daa_das_decimal[of 58 67 0] by (simp add: ACCESS_FLAG_def case_prod_beta)

text \<open>The byte difference of two digits, with a borrow, and its adjustment by ten.\<close>

lemma digit_difference:
  assumes "x < 10" "m \<le> 10" "q = (x + 512 - m) mod 256"
  shows "(246 \<le> q) = (x < m)" "(q + (if x < m then 10 else 0)) mod 256 = (x + 10 - m) mod 10" "x < m \<or> q < (10 :: nat)"
proof -
  have "q = x + 256 - m \<and> (q + 10) mod 256 = (x + 10 - m) mod 10" if "x < m"
  proof -
    have e: "x + 512 - m = (x + 256 - m) + 256" "x + 256 - m < 256" using that assms by simp_all
    then have q: "q = x + 256 - m" unfolding assms(3) by (simp only: mod_add_self2) simp
    then have "q + 10 = (x + 10 - m) + 256" "x + 10 - m < 10" using that assms by simp_all
    then have "(q + 10) mod 256 = (x + 10 - m) mod 10" by (simp only: mod_add_self2) simp
    with q show ?thesis by simp
  qed
  moreover have "q = x - m \<and> q mod 256 = (x + 10 - m) mod 10" if "\<not> x < m"
  proof -
    have "x + 512 - m = (x - m) + 2 * 256" "x - m < 256" using that assms by simp_all
    then have q: "q = x - m" unfolding assms(3) by (simp only: mod_mult_self1) simp
    have "x + 10 - m = (x - m) + 10" "x - m < 10" using that assms by simp_all
    then have "(x + 10 - m) mod 10 = x - m" by (simp only: mod_add_self2) simp
    with q show ?thesis using assms(1) by simp
  qed
  ultimately show "(246 \<le> q) = (x < m)" "(q + (if x < m then 10 else 0)) mod 256 = (x + 10 - m) mod 10" "x < m \<or> q < 10"
    using assms(1,2) by (cases "x < m"; simp)+
qed

text \<open>
  C27. Unpacked decimal arithmetic: ADC of two digits followed by AAA leaves the sum's
  last digit in AL, adds the decimal carry to AH and puts it in CF and AF; SBB of two
  digits followed by AAS does the same with the decimal borrow.
\<close>

theorem aaa_aas_decimal:
  assumes "unat a < 10" "unat b < 10"
  shows "(case adc_byte f a b of (r, f1) \<Rightarrow> case aaa_word f1 (ax h r) of (x, f2) \<Rightarrow>
      let n = unat a + unat b + of_bool (ACCESS_FLAG F_CF f)
      in x = ax (h + of_bool (10 \<le> n)) (word_of_nat (n mod 10)) \<and>
        ACCESS_FLAG F_CF f2 = (10 \<le> n) \<and> ACCESS_FLAG F_AF f2 = (10 \<le> n)) \<and>
    (case sbb_byte f a b of (r, f1) \<Rightarrow> case aas_word f1 (ax h r) of (x, f2) \<Rightarrow>
      let m = unat b + of_bool (ACCESS_FLAG F_CF f)
      in x = ax (h - of_bool (unat a < m)) (word_of_nat ((unat a + 10 - m) mod 10)) \<and>
        ACCESS_FLAG F_CF f2 = (unat a < m) \<and> ACCESS_FLAG F_AF f2 = (unat a < m))"
proof -
  define c where "c = (of_bool (ACCESS_FLAG F_CF f) :: nat)"
  have c: "c \<le> 1" by (simp add: c_def)
  define n where "n = unat a + unat b + c"
  define p where "p = adc_byte f a b"
  have n: "n < 20" using assms c by (simp add: n_def)
  have p: "unat (fst p) = n" "ACCESS_FLAG F_AF (snd p) = (16 \<le> n)"
    unfolding p_def adc_byte_flags unat_sum_byte c_def[symmetric] n_def using assms c by simp_all
  have add: "fst (aaa_word (snd p) (ax h (fst p))) = ax (h + of_bool (10 \<le> n)) (word_of_nat (n mod 10))"
    "ACCESS_FLAG F_CF (snd (aaa_word (snd p) (ax h (fst p)))) = (10 \<le> n)"
    "ACCESS_FLAG F_AF (snd (aaa_word (snd p) (ax h (fst p)))) = (10 \<le> n)"
    using aaa_value[of "fst p" "snd p" h] n unfolding p by simp_all
  define q where "q = sbb_byte f a b"
  define m where "m = unat b + c"
  have m: "m \<le> 10" using assms c by (simp add: m_def)
  have q: "unat (fst q) = (unat a + 512 - m) mod 256" "ACCESS_FLAG F_AF (snd q) = (unat a < m)"
    unfolding q_def sbb_byte_flags unat_sum_byte c_def[symmetric] m_def using assms by simp_all
  note d = digit_difference[OF assms(1) m q(1)]
  have cases: "unat (fst q) < 10 \<and> \<not> ACCESS_FLAG F_AF (snd q) \<or> 246 \<le> unat (fst q) \<and> ACCESS_FLAG F_AF (snd q)"
    unfolding q(2) d(1) using d(3) by blast
  have sub: "fst (aas_word (snd q) (ax h (fst q))) = ax (h - of_bool (unat a < m)) (word_of_nat ((unat a + 10 - m) mod 10))"
    "ACCESS_FLAG F_CF (snd (aas_word (snd q) (ax h (fst q)))) = (unat a < m)"
    "ACCESS_FLAG F_AF (snd (aas_word (snd q) (ax h (fst q)))) = (unat a < m)"
    using aas_value[OF cases, of h] unfolding d(1,2) by simp_all
  show ?thesis unfolding c_def[symmetric] n_def[symmetric] m_def[symmetric] p_def[symmetric] q_def[symmetric]
    case_prod_beta Let_def using add sub by blast
qed

lemma aaa_aas_decimal_witness:
  "case adc_byte 0 7 8 of (r, f1) \<Rightarrow> case aaa_word f1 (ax 1 r) of (x, f2) \<Rightarrow>
     x = ax 2 5 \<and> ACCESS_FLAG F_CF f2"
  using aaa_aas_decimal[of 7 8 0 1] by (simp add: ACCESS_FLAG_def case_prod_beta)

text \<open>
  C28. AAM splits AL into quotient and remainder by its immediate base, for every base
  but zero, where the host's division has no result; AAD with the same base undoes it.
\<close>

theorem aam_aad_roundtrip:
  "aam_word f d 0 = None \<and>
   (base \<noteq> 0 \<longrightarrow> map_option fst (aam_word f d base) = Some (ax (d div base) (d mod base)) \<and>
     map_option (\<lambda>p. fst (aad_word f' (fst p) base)) (aam_word f d base) = Some (ucast d))"
  by (simp add: aam_value aam_aad) (simp add: aam_word_def)

lemma aam_aad_roundtrip_witness:
  "map_option (\<lambda>p. fst (aad_word 0 (fst p) 10)) (aam_word 0 97 10) = Some 97"
  using aam_aad_roundtrip[of 0 97 10 0] by simp

text \<open>
  Where the adjustments differ from the processor: DAS tests the value it has already
  corrected, where the processor tests the original AL, and AAM sets ZF from AX, not AL.
\<close>

lemma das_divergence: "fst (das_byte 0 0x9A) = 0x94"
  by (simp add: das_byte_def Let_def ACCESS_FLAG_def SET_FLAG_def)

lemma aam_zf_divergence:
  "map_option (\<lambda>p. (fst p, ACCESS_FLAG F_ZF (snd p))) (aam_word f 10 10) = Some (0x100, False)"
  by (simp add: aam_word_def Let_def flag_simps)

end
