(* ===== verification/Ops_Base.thy ===== *)
theory Ops_Base
  imports Segments Mul_Div Alu_Arith Alu_Shift Alu_Bcd
begin

text \<open>
  What the opcode handlers of \<^verbatim>\<open>ops.c\<close> and \<^verbatim>\<open>ops2.c\<close> share: calling the primitives, which
  take and return the flags register, the tables of primitives, and the names for the
  disassembly. The handlers themselves follow in the theories \<open>Ops_*\<close>; each is the C
  function of its name, statement by statement: a local variable is bound by \<open>let\<close> or
  by the call that sets it, under its name (\<open>md\<close> for \<open>mod\<close>, \<open>cnt\<close> for \<open>count\<close>, \<open>msk\<close>
  for \<open>mask\<close>), a pointer to a register is the register's number, and a read of a mode
  bit binds \<open>d32\<close>, \<open>a32\<close>, \<open>c32\<close>, \<open>s32\<close> or \<open>rep\<close>. Conversions between the widths of C are
  \<open>ucast\<close> and, from a signed type to a wider one, \<open>scast\<close>.
\<close>

section \<open>Calling the primitives\<close>

definition alu :: "(x86emu \<Rightarrow> 'a \<times> u32) \<Rightarrow> 'a emu" where
  "alu f = State (\<lambda>s. case f s of (r, flg) \<Rightarrow> (r, s\<lparr>R_FLG := flg\<rparr>))"

text \<open>
  The signed product of two operands goes to a register: the end of the multi-operand
  forms of \<^verbatim>\<open>imul\<close>.
\<close>

definition imul_to_word :: "nat \<Rightarrow> (x86emu \<Rightarrow> u16 \<times> u16 \<times> bool) \<Rightarrow> unit emu" where
  "imul_to_word dst16 f = do {
     (res_lo, res_hi, overflow) \<leftarrow> gets f;
     modify (\<lambda>s. s\<lparr>R_FLG := set_cf_of overflow (R_FLG s)\<rparr>);
     modify (set16 dst16 res_lo);
     modify (\<lambda>s. s\<lparr>R_FLG := SET_FLAGS_FOR_MUL (res_hi OR res_lo = 0) (res_lo AND 0x8000 \<noteq> 0) (ucast res_lo) (R_FLG s)\<rparr>)
   }"

definition imul_to_long :: "nat \<Rightarrow> (x86emu \<Rightarrow> u32 \<times> u32 \<times> bool) \<Rightarrow> unit emu" where
  "imul_to_long dst32 f = do {
     (res_lo, res_hi, overflow) \<leftarrow> gets f;
     modify (\<lambda>s. s\<lparr>R_FLG := set_cf_of overflow (R_FLG s)\<rparr>);
     modify (set32 dst32 res_lo);
     modify (\<lambda>s. s\<lparr>R_FLG := SET_FLAGS_FOR_MUL (res_hi OR res_lo = 0) (res_lo AND 0x80000000 \<noteq> 0) res_lo (R_FLG s)\<rparr>)
   }"

definition op_A_byte :: "(u32 \<Rightarrow> u8 \<Rightarrow> u8 \<Rightarrow> u8 \<times> u32) list" where
  "op_A_byte = [add_byte, or_byte, adc_byte, sbb_byte, and_byte, sub_byte, xor_byte, cmp_byte]"

definition op_A_word :: "(u32 \<Rightarrow> u16 \<Rightarrow> u16 \<Rightarrow> u16 \<times> u32) list" where
  "op_A_word = [add_word, or_word, adc_word, sbb_word, and_word, sub_word, xor_word, cmp_word]"

definition op_A_long :: "(u32 \<Rightarrow> u32 \<Rightarrow> u32 \<Rightarrow> u32 \<times> u32) list" where
  "op_A_long = [add_long, or_long, adc_long, sbb_long, and_long, sub_long, xor_long, cmp_long]"

definition op_B_byte :: "(u32 \<Rightarrow> u8 \<Rightarrow> u8 \<Rightarrow> u8 \<times> u32) list" where
  "op_B_byte = [rol_byte, ror_byte, rcl_byte, rcr_byte, shl_byte, shr_byte, shl_byte, sar_byte]"

definition op_B_word :: "(u32 \<Rightarrow> u16 \<Rightarrow> u8 \<Rightarrow> u16 \<times> u32) list" where
  "op_B_word = [rol_word, ror_word, rcl_word, rcr_word, shl_word, shr_word, shl_word, sar_word]"

definition op_B_long :: "(u32 \<Rightarrow> u32 \<Rightarrow> u8 \<Rightarrow> u32 \<times> u32) list" where
  "op_B_long = [rol_long, ror_long, rcl_long, rcr_long, shl_long, shr_long, shl_long, sar_long]"

section \<open>The text of the disassembly\<close>

definition decode_op_A :: "nat \<Rightarrow> unit emu" where
  "decode_op_A type = (if type < 8
     then OP_DECODE ([''add '', ''or '', ''adc '', ''sbb '', ''and '', ''sub '', ''xor '', ''cmp ''] ! type) else skip)"

definition decode_op_B :: "nat \<Rightarrow> unit emu" where
  "decode_op_B type = (if type < 8
     then OP_DECODE ([''rol '', ''ror '', ''rcl '', ''rcr '', ''shl '', ''shr '', ''sal '', ''sar ''] ! type) else skip)"

definition decode_cond :: "nat \<Rightarrow> unit emu" where
  "decode_cond type = (if type < 16
     then OP_DECODE ([''o '', ''no '', ''b '', ''nb '', ''z '', ''nz '', ''na '', ''a '', ''s '', ''ns '',
       ''p '', ''np '', ''l '', ''nl '', ''ng '', ''g ''] ! type) else skip)"

definition DECODE_HEX_ADDR :: "u32 \<Rightarrow> unit emu" where
  "DECODE_HEX_ADDR ofs = do { t \<leftarrow> gets (\<lambda>s. decode_hex_addr s ofs); OP_DECODE t }"

section \<open>Constants\<close>

abbreviation (input) F_ALWAYS_ON :: u32 where "F_ALWAYS_ON \<equiv> 0x0002"
abbreviation (input) FB_ID :: u32 where "FB_ID \<equiv> 0x200000"
abbreviation (input) F_MSK :: u32 where "F_MSK \<equiv> F_CF OR F_PF OR F_AF OR F_ZF OR F_SF OR F_TF OR F_IF OR F_DF OR F_OF"
abbreviation (input) CR0_MP :: u32 where "CR0_MP \<equiv> 0x2"
abbreviation (input) CR0_EM :: u32 where "CR0_EM \<equiv> 0x4"
abbreviation (input) X86EMU_MSRS :: nat where "X86EMU_MSRS \<equiv> 0x800"

section \<open>The operations respect a discipline\<close>

named_theorems handler_oks \<open>instruction handlers that respect the discipline\<close>

lemma run_alu [emu_run, simp]: "run_state (alu f) s = (fst (f s), s\<lparr>R_FLG := snd (f s)\<rparr>)"
  by (simp add: alu_def case_prod_beta)

context discipline
begin

lemma emu_ok_alu [emu_oks]: "emu_ok (alu f)"
  unfolding alu_def by (rule emu_ok_kept) (simp add: case_prod_beta kept_def control_def handlers_def)

end

text \<open>Assignments to registers, by the register.\<close>

context discipline
begin

lemma emu_ok_set_reg [emu_oks]:
  "emu_ok (modify (\<lambda>s. s\<lparr>R_EAX := f s\<rparr>))" "emu_ok (modify (\<lambda>s. s\<lparr>R_EBX := f s\<rparr>))"
  "emu_ok (modify (\<lambda>s. s\<lparr>R_ECX := f s\<rparr>))" "emu_ok (modify (\<lambda>s. s\<lparr>R_EDX := f s\<rparr>))"
  "emu_ok (modify (\<lambda>s. s\<lparr>R_ESP := f s\<rparr>))" "emu_ok (modify (\<lambda>s. s\<lparr>R_EBP := f s\<rparr>))"
  "emu_ok (modify (\<lambda>s. s\<lparr>R_ESI := f s\<rparr>))" "emu_ok (modify (\<lambda>s. s\<lparr>R_EDI := f s\<rparr>))"
  "emu_ok (modify (\<lambda>s. s\<lparr>R_EIP := f s\<rparr>))" "emu_ok (modify (\<lambda>s. s\<lparr>R_FLG := f s\<rparr>))"
  "emu_ok (modify (\<lambda>s. s\<lparr>crx := g s\<rparr>))" "emu_ok (modify (\<lambda>s. s\<lparr>drx := g s\<rparr>))"
  "emu_ok (modify (\<lambda>s. s\<lparr>tr := t s\<rparr>))"
  "emu_ok (modify (\<lambda>s. s\<lparr>R_GDT_BASE := f s\<rparr>))" "emu_ok (modify (\<lambda>s. s\<lparr>R_GDT_LIMIT := f s\<rparr>))"
  "emu_ok (modify (\<lambda>s. s\<lparr>R_IDT_BASE := f s\<rparr>))" "emu_ok (modify (\<lambda>s. s\<lparr>R_IDT_LIMIT := f s\<rparr>))"
  "emu_ok (modify (\<lambda>s. s\<lparr>debug_start := f s\<rparr>))" "emu_ok (modify (\<lambda>s. s\<lparr>debug_len := f s\<rparr>))"
  "emu_ok (modify (\<lambda>s. s\<lparr>xmm := x s\<rparr>))" "emu_ok (modify (\<lambda>s. s\<lparr>msr_perm := p s\<rparr>))"
  by (rule emu_ok_modify; simp add: kept_def control_def handlers_def)+

lemma emu_ok_set_operand [emu_oks]:
  "emu_ok (modify (\<lambda>s. set32 r (f s) s))" "emu_ok (modify (\<lambda>s. set16 r (w s) s))" "emu_ok (modify (\<lambda>s. set8 r (b s) s))"
  "emu_ok (modify (set32 r v32))" "emu_ok (modify (set16 r v16))" "emu_ok (modify (set8 r v8))"
  by (rule emu_ok_modify; simp)+

lemma emu_ok_ops_text [emu_oks]:
  "emu_ok (decode_op_A n)" "emu_ok (decode_op_B n)" "emu_ok (decode_cond n)" "emu_ok (DECODE_HEX_ADDR v)"
  unfolding decode_op_A_def decode_op_B_def decode_cond_def DECODE_HEX_ADDR_def by (intro emu_oks)+

lemma emu_ok_imul_to [emu_oks]: "emu_ok (imul_to_word r f)" "emu_ok (imul_to_long r' f')"
  unfolding imul_to_word_def imul_to_long_def by (intro emu_oks)+

end

end
