(* ===== verification/Ops_String.thy ===== *)
theory Ops_String
  imports Ops_Base
begin

text \<open>
  The string instructions (\<^verbatim>\<open>ops.c\<close>).

  The loops of \<^verbatim>\<open>movs\<close>, \<^verbatim>\<open>stos\<close> and \<^verbatim>\<open>lods\<close> count down a copy of the count register. Those of
  \<^verbatim>\<open>cmps\<close> and \<^verbatim>\<open>scas\<close> test and count down the register itself: here they run at most as
  often as the register says at the start, and stop when it is zero or the condition
  holds. The two agree because nothing in the loop raises the register (a memory
  handler of the client is taken not to).
\<close>

definition x86emuOp_ins_byte :: "host \<Rightarrow> u8 \<Rightarrow> unit emu" where
  "x86emuOp_ins_byte h op1 =
     do {
       b \<leftarrow> gets (\<lambda>s. (MODE_ADDR32 s \<and> \<not> MODE_CODE32 s) \<or> (\<not> MODE_ADDR32 s \<and> MODE_CODE32 s));
       if_then b (OP_DECODE ''a32 '');
       OP_DECODE ''insb'';
       ins h 1
     }"

definition x86emuOp_ins_word :: "host \<Rightarrow> u8 \<Rightarrow> unit emu" where
  "x86emuOp_ins_word h op1 =
     do {
       b \<leftarrow> gets (\<lambda>s. (MODE_ADDR32 s \<and> \<not> MODE_CODE32 s) \<or> (\<not> MODE_ADDR32 s \<and> MODE_CODE32 s));
       if_then b (OP_DECODE ''a32 '');
       d32 \<leftarrow> gets MODE_DATA32;
       if d32 then do { OP_DECODE ''insd''; ins h 4 } else do { OP_DECODE ''insw''; ins h 2 }
     }"

definition x86emuOp_outs_byte :: "host \<Rightarrow> u8 \<Rightarrow> unit emu" where
  "x86emuOp_outs_byte h op1 =
     do {
       b \<leftarrow> gets (\<lambda>s. (MODE_ADDR32 s \<and> \<not> MODE_CODE32 s) \<or> (\<not> MODE_ADDR32 s \<and> MODE_CODE32 s));
       if_then b (OP_DECODE ''a32 '');
       OP_DECODE ''outsb'';
       outs h 1
     }"

definition x86emuOp_outs_word :: "host \<Rightarrow> u8 \<Rightarrow> unit emu" where
  "x86emuOp_outs_word h op1 =
     do {
       b \<leftarrow> gets (\<lambda>s. (MODE_ADDR32 s \<and> \<not> MODE_CODE32 s) \<or> (\<not> MODE_ADDR32 s \<and> MODE_CODE32 s));
       if_then b (OP_DECODE ''a32 '');
       d32 \<leftarrow> gets MODE_DATA32;
       if d32 then do { OP_DECODE ''outsd''; outs h 4 } else do { OP_DECODE ''outsw''; outs h 2 }
     }"

definition x86emuOp_movs_byte :: "host \<Rightarrow> u8 \<Rightarrow> unit emu" where
  "x86emuOp_movs_byte h op1 =
     do {
       inc \<leftarrow> gets (\<lambda>s. (if ACCESS_FLAG F_DF (R_FLG s) then - 1 else 1));
       let cnt = (1 :: u32);
       a32 \<leftarrow> gets MODE_ADDR32;
       if a32 then do {
         c32 \<leftarrow> gets MODE_CODE32;
         if_then (\<not> c32) (OP_DECODE ''a32 '');
         OP_DECODE ''movsb'';
         rep \<leftarrow> gets MODE_REP;
         cnt \<leftarrow> (if rep then do {
             cnt \<leftarrow> gets R_ECX;
             modify (\<lambda>s. s\<lparr>R_ECX := 0\<rparr>);
             return cnt
           } else return cnt);
         repeat (unat cnt) (do {
             v2 \<leftarrow> gets R_ESI;
             val \<leftarrow> fetch_data_byte h v2;
             v3 \<leftarrow> gets R_EDI;
             store_data_byte_abs h R_ES_INDEX v3 val;
             modify (\<lambda>s. s\<lparr>R_ESI := R_ESI s + inc\<rparr>);
             modify (\<lambda>s. s\<lparr>R_EDI := R_EDI s + inc\<rparr>)
           })
       } else do {
         c32 \<leftarrow> gets MODE_CODE32;
         if_then c32 (OP_DECODE ''a32 '');
         OP_DECODE ''movsb'';
         rep \<leftarrow> gets MODE_REP;
         cnt \<leftarrow> (if rep then do {
             cnt \<leftarrow> gets (\<lambda>s. ucast (R_CX s) :: u32);
             modify (\<lambda>s. s\<lparr>R_ECX := set_lo16 0 (R_ECX s)\<rparr>);
             return cnt
           } else return cnt);
         repeat (unat cnt) (do {
             v \<leftarrow> gets (\<lambda>s. ucast (R_SI s));
             val \<leftarrow> fetch_data_byte h v;
             v2 \<leftarrow> gets (\<lambda>s. ucast (R_DI s));
             store_data_byte_abs h R_ES_INDEX v2 val;
             modify (\<lambda>s. s\<lparr>R_ESI := set_lo16 (R_SI s + ucast inc) (R_ESI s)\<rparr>);
             modify (\<lambda>s. s\<lparr>R_EDI := set_lo16 (R_DI s + ucast inc) (R_EDI s)\<rparr>)
           })
       }
     }"

definition x86emuOp_movs_word :: "host \<Rightarrow> u8 \<Rightarrow> unit emu" where
  "x86emuOp_movs_word h op1 =
     do {
       b \<leftarrow> gets (\<lambda>s. (MODE_ADDR32 s \<and> \<not> MODE_CODE32 s) \<or> (\<not> MODE_ADDR32 s \<and> MODE_CODE32 s));
       if_then b (OP_DECODE ''a32 '');
       d32 \<leftarrow> gets MODE_DATA32;
       inc \<leftarrow> (if d32 then do {
           OP_DECODE ''movsd'';
           inc \<leftarrow> gets (\<lambda>s. (if ACCESS_FLAG F_DF (R_FLG s) then - 4 else 4));
           return inc
         } else do {
           OP_DECODE ''movsw'';
           inc \<leftarrow> gets (\<lambda>s. (if ACCESS_FLAG F_DF (R_FLG s) then - 2 else 2));
           return inc
         });
       let cnt = (1 :: u32);
       a32 \<leftarrow> gets MODE_ADDR32;
       if a32 then do {
         rep \<leftarrow> gets MODE_REP;
         cnt \<leftarrow> (if rep then do {
             cnt \<leftarrow> gets R_ECX;
             modify (\<lambda>s. s\<lparr>R_ECX := 0\<rparr>);
             return cnt
           } else return cnt);
         repeat (unat cnt) (do {
             d32 \<leftarrow> gets MODE_DATA32;
             (if d32 then do {
                 v2 \<leftarrow> gets R_ESI;
                 val \<leftarrow> fetch_data_long h v2;
                 v3 \<leftarrow> gets R_EDI;
                 store_data_long_abs h R_ES_INDEX v3 val
               } else do {
                 v2 \<leftarrow> gets R_ESI;
                 val \<leftarrow> fetch_data_word h v2;
                 let val = (ucast val :: u32);
                 v3 \<leftarrow> gets R_EDI;
                 store_data_word_abs h R_ES_INDEX v3 (ucast val)
               });
             modify (\<lambda>s. s\<lparr>R_ESI := R_ESI s + inc\<rparr>);
             modify (\<lambda>s. s\<lparr>R_EDI := R_EDI s + inc\<rparr>)
           })
       } else do {
         rep \<leftarrow> gets MODE_REP;
         cnt \<leftarrow> (if rep then do {
             cnt \<leftarrow> gets (\<lambda>s. ucast (R_CX s) :: u32);
             modify (\<lambda>s. s\<lparr>R_ECX := set_lo16 0 (R_ECX s)\<rparr>);
             return cnt
           } else return cnt);
         repeat (unat cnt) (do {
             d32 \<leftarrow> gets MODE_DATA32;
             (if d32 then do {
                 v2 \<leftarrow> gets (\<lambda>s. ucast (R_SI s));
                 val \<leftarrow> fetch_data_long h v2;
                 v3 \<leftarrow> gets (\<lambda>s. ucast (R_DI s));
                 store_data_long_abs h R_ES_INDEX v3 val
               } else do {
                 v2 \<leftarrow> gets (\<lambda>s. ucast (R_SI s));
                 val \<leftarrow> fetch_data_word h v2;
                 let val = (ucast val :: u32);
                 v3 \<leftarrow> gets (\<lambda>s. ucast (R_DI s));
                 store_data_word_abs h R_ES_INDEX v3 (ucast val)
               });
             modify (\<lambda>s. s\<lparr>R_ESI := set_lo16 (R_SI s + ucast inc) (R_ESI s)\<rparr>);
             modify (\<lambda>s. s\<lparr>R_EDI := set_lo16 (R_DI s + ucast inc) (R_EDI s)\<rparr>)
           })
       }
     }"

definition x86emuOp_cmps_byte :: "host \<Rightarrow> u8 \<Rightarrow> unit emu" where
  "x86emuOp_cmps_byte h op1 =
     do {
       inc \<leftarrow> gets (\<lambda>s. (if ACCESS_FLAG F_DF (R_FLG s) then - 1 else 1));
       cond \<leftarrow> gets (\<lambda>s. (if MODE_REPE s then 5 else 4));
       a32 \<leftarrow> gets MODE_ADDR32;
       if a32 then do {
         c32 \<leftarrow> gets MODE_CODE32;
         if_then (\<not> c32) (OP_DECODE ''a32 '');
         OP_DECODE ''cmpsb'';
         rep \<leftarrow> gets MODE_REP;
         if rep then do {
           n2 \<leftarrow> gets R_ECX;
           repeat_while (unat n2) (do {
               v3 \<leftarrow> gets R_ESI;
               val1 \<leftarrow> fetch_data_byte h v3;
               v4 \<leftarrow> gets R_EDI;
               val2 \<leftarrow> fetch_data_byte_abs h R_ES_INDEX v4;
               _ \<leftarrow> alu (\<lambda>s. cmp_byte (R_FLG s) val1 val2);
               modify (\<lambda>s. s\<lparr>R_ECX := R_ECX s - 1\<rparr>);
               modify (\<lambda>s. s\<lparr>R_ESI := R_ESI s + inc\<rparr>);
               modify (\<lambda>s. s\<lparr>R_EDI := R_EDI s + inc\<rparr>);
               gets (\<lambda>s. \<not> eval_condition cond s \<and> R_ECX s \<noteq> 0)
             })
         } else do {
           v2 \<leftarrow> gets R_ESI;
           val1 \<leftarrow> fetch_data_byte h v2;
           v3 \<leftarrow> gets R_EDI;
           val2 \<leftarrow> fetch_data_byte_abs h R_ES_INDEX v3;
           _ \<leftarrow> alu (\<lambda>s. cmp_byte (R_FLG s) val1 val2);
           modify (\<lambda>s. s\<lparr>R_ESI := R_ESI s + inc\<rparr>);
           modify (\<lambda>s. s\<lparr>R_EDI := R_EDI s + inc\<rparr>)
         }
       } else do {
         c32 \<leftarrow> gets MODE_CODE32;
         if_then c32 (OP_DECODE ''a32 '');
         OP_DECODE ''cmpsb'';
         rep \<leftarrow> gets MODE_REP;
         if rep then do {
           n \<leftarrow> gets R_CX;
           repeat_while (unat n) (do {
               v2 \<leftarrow> gets (\<lambda>s. ucast (R_SI s));
               val1 \<leftarrow> fetch_data_byte h v2;
               v3 \<leftarrow> gets (\<lambda>s. ucast (R_DI s));
               val2 \<leftarrow> fetch_data_byte_abs h R_ES_INDEX v3;
               _ \<leftarrow> alu (\<lambda>s. cmp_byte (R_FLG s) val1 val2);
               modify (\<lambda>s. s\<lparr>R_ECX := set_lo16 (R_CX s - 1) (R_ECX s)\<rparr>);
               modify (\<lambda>s. s\<lparr>R_ESI := set_lo16 (R_SI s + ucast inc) (R_ESI s)\<rparr>);
               modify (\<lambda>s. s\<lparr>R_EDI := set_lo16 (R_DI s + ucast inc) (R_EDI s)\<rparr>);
               gets (\<lambda>s. \<not> eval_condition cond s \<and> R_CX s \<noteq> 0)
             })
         } else do {
           v \<leftarrow> gets (\<lambda>s. ucast (R_SI s));
           val1 \<leftarrow> fetch_data_byte h v;
           v2 \<leftarrow> gets (\<lambda>s. ucast (R_DI s));
           val2 \<leftarrow> fetch_data_byte_abs h R_ES_INDEX v2;
           _ \<leftarrow> alu (\<lambda>s. cmp_byte (R_FLG s) val1 val2);
           modify (\<lambda>s. s\<lparr>R_ESI := set_lo16 (R_SI s + ucast inc) (R_ESI s)\<rparr>);
           modify (\<lambda>s. s\<lparr>R_EDI := set_lo16 (R_DI s + ucast inc) (R_EDI s)\<rparr>)
         }
       }
     }"

definition x86emuOp_cmps_word :: "host \<Rightarrow> u8 \<Rightarrow> unit emu" where
  "x86emuOp_cmps_word h op1 =
     do {
       b \<leftarrow> gets (\<lambda>s. (MODE_ADDR32 s \<and> \<not> MODE_CODE32 s) \<or> (\<not> MODE_ADDR32 s \<and> MODE_CODE32 s));
       if_then b (OP_DECODE ''a32 '');
       d32 \<leftarrow> gets MODE_DATA32;
       inc \<leftarrow> (if d32 then do {
           OP_DECODE ''cmpsd'';
           inc \<leftarrow> gets (\<lambda>s. (if ACCESS_FLAG F_DF (R_FLG s) then - 4 else 4));
           return inc
         } else do {
           OP_DECODE ''cmpsw'';
           inc \<leftarrow> gets (\<lambda>s. (if ACCESS_FLAG F_DF (R_FLG s) then - 2 else 2));
           return inc
         });
       cond \<leftarrow> gets (\<lambda>s. (if MODE_REPE s then 5 else 4));
       a32 \<leftarrow> gets MODE_ADDR32;
       if a32 then do {
         rep \<leftarrow> gets MODE_REP;
         if rep then do {
           n2 \<leftarrow> gets R_ECX;
           repeat_while (unat n2) (do {
               d32 \<leftarrow> gets MODE_DATA32;
               (if d32 then do {
                   v3 \<leftarrow> gets R_ESI;
                   val1 \<leftarrow> fetch_data_long h v3;
                   v4 \<leftarrow> gets R_EDI;
                   val2 \<leftarrow> fetch_data_long_abs h R_ES_INDEX v4;
                   _ \<leftarrow> alu (\<lambda>s. cmp_long (R_FLG s) val1 val2);
                   skip
                 } else do {
                   v3 \<leftarrow> gets R_ESI;
                   val1 \<leftarrow> fetch_data_word h v3;
                   let val1 = (ucast val1 :: u32);
                   v4 \<leftarrow> gets R_EDI;
                   val2 \<leftarrow> fetch_data_word_abs h R_ES_INDEX v4;
                   let val2 = (ucast val2 :: u32);
                   _ \<leftarrow> alu (\<lambda>s. cmp_word (R_FLG s) (ucast val1) (ucast val2));
                   skip
                 });
               modify (\<lambda>s. s\<lparr>R_ECX := R_ECX s - 1\<rparr>);
               modify (\<lambda>s. s\<lparr>R_ESI := R_ESI s + inc\<rparr>);
               modify (\<lambda>s. s\<lparr>R_EDI := R_EDI s + inc\<rparr>);
               gets (\<lambda>s. \<not> eval_condition cond s \<and> R_ECX s \<noteq> 0)
             })
         } else do {
           d32 \<leftarrow> gets MODE_DATA32;
           (if d32 then do {
               v2 \<leftarrow> gets R_ESI;
               val1 \<leftarrow> fetch_data_long h v2;
               v3 \<leftarrow> gets R_EDI;
               val2 \<leftarrow> fetch_data_long_abs h R_ES_INDEX v3;
               _ \<leftarrow> alu (\<lambda>s. cmp_long (R_FLG s) val1 val2);
               skip
             } else do {
               v2 \<leftarrow> gets R_ESI;
               val1 \<leftarrow> fetch_data_word h v2;
               let val1 = (ucast val1 :: u32);
               v3 \<leftarrow> gets R_EDI;
               val2 \<leftarrow> fetch_data_word_abs h R_ES_INDEX v3;
               let val2 = (ucast val2 :: u32);
               _ \<leftarrow> alu (\<lambda>s. cmp_word (R_FLG s) (ucast val1) (ucast val2));
               skip
             });
           modify (\<lambda>s. s\<lparr>R_ESI := R_ESI s + inc\<rparr>);
           modify (\<lambda>s. s\<lparr>R_EDI := R_EDI s + inc\<rparr>)
         }
       } else do {
         rep \<leftarrow> gets MODE_REP;
         if rep then do {
           n2 \<leftarrow> gets R_CX;
           repeat_while (unat n2) (do {
               d32 \<leftarrow> gets MODE_DATA32;
               (if d32 then do {
                   v3 \<leftarrow> gets (\<lambda>s. ucast (R_SI s));
                   val1 \<leftarrow> fetch_data_long h v3;
                   v4 \<leftarrow> gets (\<lambda>s. ucast (R_DI s));
                   val2 \<leftarrow> fetch_data_long_abs h R_ES_INDEX v4;
                   _ \<leftarrow> alu (\<lambda>s. cmp_long (R_FLG s) val1 val2);
                   skip
                 } else do {
                   v3 \<leftarrow> gets (\<lambda>s. ucast (R_SI s));
                   val1 \<leftarrow> fetch_data_word h v3;
                   let val1 = (ucast val1 :: u32);
                   v4 \<leftarrow> gets (\<lambda>s. ucast (R_DI s));
                   val2 \<leftarrow> fetch_data_word_abs h R_ES_INDEX v4;
                   let val2 = (ucast val2 :: u32);
                   _ \<leftarrow> alu (\<lambda>s. cmp_word (R_FLG s) (ucast val1) (ucast val2));
                   skip
                 });
               modify (\<lambda>s. s\<lparr>R_ECX := set_lo16 (R_CX s - 1) (R_ECX s)\<rparr>);
               modify (\<lambda>s. s\<lparr>R_ESI := set_lo16 (R_SI s + ucast inc) (R_ESI s)\<rparr>);
               modify (\<lambda>s. s\<lparr>R_EDI := set_lo16 (R_DI s + ucast inc) (R_EDI s)\<rparr>);
               gets (\<lambda>s. \<not> eval_condition cond s \<and> R_CX s \<noteq> 0)
             })
         } else do {
           d32 \<leftarrow> gets MODE_DATA32;
           (if d32 then do {
               v2 \<leftarrow> gets (\<lambda>s. ucast (R_SI s));
               val1 \<leftarrow> fetch_data_long h v2;
               v3 \<leftarrow> gets (\<lambda>s. ucast (R_DI s));
               val2 \<leftarrow> fetch_data_long_abs h R_ES_INDEX v3;
               _ \<leftarrow> alu (\<lambda>s. cmp_long (R_FLG s) val1 val2);
               skip
             } else do {
               v2 \<leftarrow> gets (\<lambda>s. ucast (R_SI s));
               val1 \<leftarrow> fetch_data_word h v2;
               let val1 = (ucast val1 :: u32);
               v3 \<leftarrow> gets (\<lambda>s. ucast (R_DI s));
               val2 \<leftarrow> fetch_data_word_abs h R_ES_INDEX v3;
               let val2 = (ucast val2 :: u32);
               _ \<leftarrow> alu (\<lambda>s. cmp_word (R_FLG s) (ucast val1) (ucast val2));
               skip
             });
           modify (\<lambda>s. s\<lparr>R_ESI := set_lo16 (R_SI s + ucast inc) (R_ESI s)\<rparr>);
           modify (\<lambda>s. s\<lparr>R_EDI := set_lo16 (R_DI s + ucast inc) (R_EDI s)\<rparr>)
         }
       }
     }"

definition x86emuOp_stos_byte :: "host \<Rightarrow> u8 \<Rightarrow> unit emu" where
  "x86emuOp_stos_byte h op1 =
     do {
       inc \<leftarrow> gets (\<lambda>s. (if ACCESS_FLAG F_DF (R_FLG s) then - 1 else 1));
       val \<leftarrow> gets R_AL;
       let cnt = (1 :: u32);
       a32 \<leftarrow> gets MODE_ADDR32;
       if a32 then do {
         c32 \<leftarrow> gets MODE_CODE32;
         if_then (\<not> c32) (OP_DECODE ''a32 '');
         OP_DECODE ''stosb'';
         rep \<leftarrow> gets MODE_REP;
         cnt \<leftarrow> (if rep then do {
             cnt \<leftarrow> gets R_ECX;
             modify (\<lambda>s. s\<lparr>R_ECX := 0\<rparr>);
             return cnt
           } else return cnt);
         repeat (unat cnt) (do {
             v2 \<leftarrow> gets R_EDI;
             store_data_byte_abs h R_ES_INDEX v2 val;
             modify (\<lambda>s. s\<lparr>R_EDI := R_EDI s + inc\<rparr>)
           })
       } else do {
         c32 \<leftarrow> gets MODE_CODE32;
         if_then c32 (OP_DECODE ''a32 '');
         OP_DECODE ''stosb'';
         rep \<leftarrow> gets MODE_REP;
         cnt \<leftarrow> (if rep then do {
             cnt \<leftarrow> gets (\<lambda>s. ucast (R_CX s) :: u32);
             modify (\<lambda>s. s\<lparr>R_ECX := set_lo16 0 (R_ECX s)\<rparr>);
             return cnt
           } else return cnt);
         repeat (unat cnt) (do {
             v \<leftarrow> gets (\<lambda>s. ucast (R_DI s));
             store_data_byte_abs h R_ES_INDEX v val;
             modify (\<lambda>s. s\<lparr>R_EDI := set_lo16 (R_DI s + ucast inc) (R_EDI s)\<rparr>)
           })
       }
     }"

definition x86emuOp_stos_word :: "host \<Rightarrow> u8 \<Rightarrow> unit emu" where
  "x86emuOp_stos_word h op1 =
     do {
       b \<leftarrow> gets (\<lambda>s. (MODE_ADDR32 s \<and> \<not> MODE_CODE32 s) \<or> (\<not> MODE_ADDR32 s \<and> MODE_CODE32 s));
       if_then b (OP_DECODE ''a32 '');
       d32 \<leftarrow> gets MODE_DATA32;
       inc \<leftarrow> (if d32 then do {
           OP_DECODE ''stosd'';
           inc \<leftarrow> gets (\<lambda>s. (if ACCESS_FLAG F_DF (R_FLG s) then - 4 else 4));
           return inc
         } else do {
           OP_DECODE ''stosw'';
           inc \<leftarrow> gets (\<lambda>s. (if ACCESS_FLAG F_DF (R_FLG s) then - 2 else 2));
           return inc
         });
       val \<leftarrow> gets R_EAX;
       let cnt = (1 :: u32);
       a32 \<leftarrow> gets MODE_ADDR32;
       if a32 then do {
         rep \<leftarrow> gets MODE_REP;
         cnt \<leftarrow> (if rep then do {
             cnt \<leftarrow> gets R_ECX;
             modify (\<lambda>s. s\<lparr>R_ECX := 0\<rparr>);
             return cnt
           } else return cnt);
         repeat (unat cnt) (do {
             d32 \<leftarrow> gets MODE_DATA32;
             (if d32 then do { v2 \<leftarrow> gets R_EDI; store_data_long_abs h R_ES_INDEX v2 val }
               else do { v2 \<leftarrow> gets R_EDI; store_data_word_abs h R_ES_INDEX v2 (ucast val) });
             modify (\<lambda>s. s\<lparr>R_EDI := R_EDI s + inc\<rparr>)
           })
       } else do {
         rep \<leftarrow> gets MODE_REP;
         cnt \<leftarrow> (if rep then do {
             cnt \<leftarrow> gets (\<lambda>s. ucast (R_CX s) :: u32);
             modify (\<lambda>s. s\<lparr>R_ECX := set_lo16 0 (R_ECX s)\<rparr>);
             return cnt
           } else return cnt);
         repeat (unat cnt) (do {
             d32 \<leftarrow> gets MODE_DATA32;
             (if d32 then do {
                 v2 \<leftarrow> gets (\<lambda>s. ucast (R_DI s));
                 store_data_long_abs h R_ES_INDEX v2 val
               } else do {
                 v2 \<leftarrow> gets (\<lambda>s. ucast (R_DI s));
                 store_data_word_abs h R_ES_INDEX v2 (ucast val)
               });
             modify (\<lambda>s. s\<lparr>R_EDI := set_lo16 (R_DI s + ucast inc) (R_EDI s)\<rparr>)
           })
       }
     }"

definition x86emuOp_lods_byte :: "host \<Rightarrow> u8 \<Rightarrow> unit emu" where
  "x86emuOp_lods_byte h op1 =
     do {
       inc \<leftarrow> gets (\<lambda>s. (if ACCESS_FLAG F_DF (R_FLG s) then - 1 else 1));
       let cnt = (1 :: u32);
       a32 \<leftarrow> gets MODE_ADDR32;
       if a32 then do {
         c32 \<leftarrow> gets MODE_CODE32;
         if_then (\<not> c32) (OP_DECODE ''a32 '');
         OP_DECODE ''lodsb'';
         rep \<leftarrow> gets MODE_REP;
         cnt \<leftarrow> (if rep then do {
             cnt \<leftarrow> gets R_ECX;
             modify (\<lambda>s. s\<lparr>R_ECX := 0\<rparr>);
             return cnt
           } else return cnt);
         repeat (unat cnt) (do {
             v2 \<leftarrow> gets R_ESI;
             v3 \<leftarrow> fetch_data_byte h v2;
             modify (\<lambda>s. s\<lparr>R_EAX := set_lo8 v3 (R_EAX s)\<rparr>);
             modify (\<lambda>s. s\<lparr>R_ESI := R_ESI s + inc\<rparr>)
           })
       } else do {
         c32 \<leftarrow> gets MODE_CODE32;
         if_then c32 (OP_DECODE ''a32 '');
         OP_DECODE ''lodsb'';
         rep \<leftarrow> gets MODE_REP;
         cnt \<leftarrow> (if rep then do {
             cnt \<leftarrow> gets (\<lambda>s. ucast (R_CX s) :: u32);
             modify (\<lambda>s. s\<lparr>R_ECX := set_lo16 0 (R_ECX s)\<rparr>);
             return cnt
           } else return cnt);
         repeat (unat cnt) (do {
             v \<leftarrow> gets (\<lambda>s. ucast (R_SI s));
             v2 \<leftarrow> fetch_data_byte h v;
             modify (\<lambda>s. s\<lparr>R_EAX := set_lo8 v2 (R_EAX s)\<rparr>);
             modify (\<lambda>s. s\<lparr>R_ESI := set_lo16 (R_SI s + ucast inc) (R_ESI s)\<rparr>)
           })
       }
     }"

definition x86emuOp_lods_word :: "host \<Rightarrow> u8 \<Rightarrow> unit emu" where
  "x86emuOp_lods_word h op1 =
     do {
       b \<leftarrow> gets (\<lambda>s. (MODE_ADDR32 s \<and> \<not> MODE_CODE32 s) \<or> (\<not> MODE_ADDR32 s \<and> MODE_CODE32 s));
       if_then b (OP_DECODE ''a32 '');
       d32 \<leftarrow> gets MODE_DATA32;
       inc \<leftarrow> (if d32 then do {
           OP_DECODE ''lodsd'';
           inc \<leftarrow> gets (\<lambda>s. (if ACCESS_FLAG F_DF (R_FLG s) then - 4 else 4));
           return inc
         } else do {
           OP_DECODE ''lodsw'';
           inc \<leftarrow> gets (\<lambda>s. (if ACCESS_FLAG F_DF (R_FLG s) then - 2 else 2));
           return inc
         });
       let cnt = (1 :: u32);
       a32 \<leftarrow> gets MODE_ADDR32;
       if a32 then do {
         rep \<leftarrow> gets MODE_REP;
         cnt \<leftarrow> (if rep then do {
             cnt \<leftarrow> gets R_ECX;
             modify (\<lambda>s. s\<lparr>R_ECX := 0\<rparr>);
             return cnt
           } else return cnt);
         repeat (unat cnt) (do {
             d32 \<leftarrow> gets MODE_DATA32;
             (if d32 then do {
                 v2 \<leftarrow> gets R_ESI;
                 v3 \<leftarrow> fetch_data_long h v2;
                 modify (\<lambda>s. s\<lparr>R_EAX := v3\<rparr>)
               } else do {
                 v2 \<leftarrow> gets R_ESI;
                 v3 \<leftarrow> fetch_data_word h v2;
                 modify (\<lambda>s. s\<lparr>R_EAX := set_lo16 v3 (R_EAX s)\<rparr>)
               });
             modify (\<lambda>s. s\<lparr>R_ESI := R_ESI s + inc\<rparr>)
           })
       } else do {
         rep \<leftarrow> gets MODE_REP;
         cnt \<leftarrow> (if rep then do {
             cnt \<leftarrow> gets (\<lambda>s. ucast (R_CX s) :: u32);
             modify (\<lambda>s. s\<lparr>R_ECX := set_lo16 0 (R_ECX s)\<rparr>);
             return cnt
           } else return cnt);
         repeat (unat cnt) (do {
             d32 \<leftarrow> gets MODE_DATA32;
             (if d32 then do {
                 v2 \<leftarrow> gets (\<lambda>s. ucast (R_SI s));
                 v3 \<leftarrow> fetch_data_long h v2;
                 modify (\<lambda>s. s\<lparr>R_EAX := v3\<rparr>)
               } else do {
                 v2 \<leftarrow> gets (\<lambda>s. ucast (R_SI s));
                 v3 \<leftarrow> fetch_data_word h v2;
                 modify (\<lambda>s. s\<lparr>R_EAX := set_lo16 v3 (R_EAX s)\<rparr>)
               });
             modify (\<lambda>s. s\<lparr>R_ESI := set_lo16 (R_SI s + ucast inc) (R_ESI s)\<rparr>)
           })
       }
     }"

definition x86emuOp_scas_byte :: "host \<Rightarrow> u8 \<Rightarrow> unit emu" where
  "x86emuOp_scas_byte h op1 =
     do {
       inc \<leftarrow> gets (\<lambda>s. (if ACCESS_FLAG F_DF (R_FLG s) then - 1 else 1));
       cond \<leftarrow> gets (\<lambda>s. (if MODE_REPE s then 5 else 4));
       a32 \<leftarrow> gets MODE_ADDR32;
       if a32 then do {
         c32 \<leftarrow> gets MODE_CODE32;
         if_then (\<not> c32) (OP_DECODE ''a32 '');
         OP_DECODE ''scasb'';
         rep \<leftarrow> gets MODE_REP;
         if rep then do {
           n2 \<leftarrow> gets R_ECX;
           repeat_while (unat n2) (do {
               v3 \<leftarrow> gets R_EDI;
               val \<leftarrow> fetch_data_byte_abs h R_ES_INDEX v3;
               _ \<leftarrow> alu (\<lambda>s. cmp_byte (R_FLG s) (R_AL s) val);
               modify (\<lambda>s. s\<lparr>R_ECX := R_ECX s - 1\<rparr>);
               modify (\<lambda>s. s\<lparr>R_EDI := R_EDI s + inc\<rparr>);
               gets (\<lambda>s. \<not> eval_condition cond s \<and> R_ECX s \<noteq> 0)
             })
         } else do {
           v2 \<leftarrow> gets R_EDI;
           val \<leftarrow> fetch_data_byte_abs h R_ES_INDEX v2;
           _ \<leftarrow> alu (\<lambda>s. cmp_byte (R_FLG s) (R_AL s) val);
           modify (\<lambda>s. s\<lparr>R_EDI := R_EDI s + inc\<rparr>)
         }
       } else do {
         c32 \<leftarrow> gets MODE_CODE32;
         if_then c32 (OP_DECODE ''a32 '');
         OP_DECODE ''scasb'';
         rep \<leftarrow> gets MODE_REP;
         if rep then do {
           n \<leftarrow> gets R_CX;
           repeat_while (unat n) (do {
               v2 \<leftarrow> gets (\<lambda>s. ucast (R_DI s));
               val \<leftarrow> fetch_data_byte_abs h R_ES_INDEX v2;
               _ \<leftarrow> alu (\<lambda>s. cmp_byte (R_FLG s) (R_AL s) val);
               modify (\<lambda>s. s\<lparr>R_ECX := set_lo16 (R_CX s - 1) (R_ECX s)\<rparr>);
               modify (\<lambda>s. s\<lparr>R_EDI := set_lo16 (R_DI s + ucast inc) (R_EDI s)\<rparr>);
               gets (\<lambda>s. \<not> eval_condition cond s \<and> R_CX s \<noteq> 0)
             })
         } else do {
           v \<leftarrow> gets (\<lambda>s. ucast (R_DI s));
           val \<leftarrow> fetch_data_byte_abs h R_ES_INDEX v;
           _ \<leftarrow> alu (\<lambda>s. cmp_byte (R_FLG s) (R_AL s) val);
           modify (\<lambda>s. s\<lparr>R_EDI := set_lo16 (R_DI s + ucast inc) (R_EDI s)\<rparr>)
         }
       }
     }"

definition x86emuOp_scas_word :: "host \<Rightarrow> u8 \<Rightarrow> unit emu" where
  "x86emuOp_scas_word h op1 =
     do {
       b \<leftarrow> gets (\<lambda>s. (MODE_ADDR32 s \<and> \<not> MODE_CODE32 s) \<or> (\<not> MODE_ADDR32 s \<and> MODE_CODE32 s));
       if_then b (OP_DECODE ''a32 '');
       d32 \<leftarrow> gets MODE_DATA32;
       inc \<leftarrow> (if d32 then do {
           OP_DECODE ''scasd'';
           inc \<leftarrow> gets (\<lambda>s. (if ACCESS_FLAG F_DF (R_FLG s) then - 4 else 4));
           return inc
         } else do {
           OP_DECODE ''scasw'';
           inc \<leftarrow> gets (\<lambda>s. (if ACCESS_FLAG F_DF (R_FLG s) then - 2 else 2));
           return inc
         });
       cond \<leftarrow> gets (\<lambda>s. (if MODE_REPE s then 5 else 4));
       a32 \<leftarrow> gets MODE_ADDR32;
       if a32 then do {
         rep \<leftarrow> gets MODE_REP;
         if rep then do {
           n2 \<leftarrow> gets R_ECX;
           repeat_while (unat n2) (do {
               d32 \<leftarrow> gets MODE_DATA32;
               (if d32 then do {
                   v3 \<leftarrow> gets R_EDI;
                   val \<leftarrow> fetch_data_long_abs h R_ES_INDEX v3;
                   _ \<leftarrow> alu (\<lambda>s. cmp_long (R_FLG s) (R_EAX s) val);
                   skip
                 } else do {
                   v3 \<leftarrow> gets R_EDI;
                   val \<leftarrow> fetch_data_word_abs h R_ES_INDEX v3;
                   let val = (ucast val :: u32);
                   _ \<leftarrow> alu (\<lambda>s. cmp_word (R_FLG s) (R_AX s) (ucast val));
                   skip
                 });
               modify (\<lambda>s. s\<lparr>R_ECX := R_ECX s - 1\<rparr>);
               modify (\<lambda>s. s\<lparr>R_EDI := R_EDI s + inc\<rparr>);
               gets (\<lambda>s. \<not> eval_condition cond s \<and> R_ECX s \<noteq> 0)
             })
         } else do {
           d32 \<leftarrow> gets MODE_DATA32;
           (if d32 then do {
               v2 \<leftarrow> gets R_EDI;
               val \<leftarrow> fetch_data_long_abs h R_ES_INDEX v2;
               _ \<leftarrow> alu (\<lambda>s. cmp_long (R_FLG s) (R_EAX s) val);
               skip
             } else do {
               v2 \<leftarrow> gets R_EDI;
               val \<leftarrow> fetch_data_word_abs h R_ES_INDEX v2;
               let val = (ucast val :: u32);
               _ \<leftarrow> alu (\<lambda>s. cmp_word (R_FLG s) (R_AX s) (ucast val));
               skip
             });
           modify (\<lambda>s. s\<lparr>R_EDI := R_EDI s + inc\<rparr>)
         }
       } else do {
         rep \<leftarrow> gets MODE_REP;
         if rep then do {
           n2 \<leftarrow> gets R_CX;
           repeat_while (unat n2) (do {
               d32 \<leftarrow> gets MODE_DATA32;
               (if d32 then do {
                   v3 \<leftarrow> gets (\<lambda>s. ucast (R_DI s));
                   val \<leftarrow> fetch_data_long_abs h R_ES_INDEX v3;
                   _ \<leftarrow> alu (\<lambda>s. cmp_long (R_FLG s) (R_EAX s) val);
                   skip
                 } else do {
                   v3 \<leftarrow> gets (\<lambda>s. ucast (R_DI s));
                   val \<leftarrow> fetch_data_word_abs h R_ES_INDEX v3;
                   let val = (ucast val :: u32);
                   _ \<leftarrow> alu (\<lambda>s. cmp_word (R_FLG s) (R_AX s) (ucast val));
                   skip
                 });
               modify (\<lambda>s. s\<lparr>R_ECX := set_lo16 (R_CX s - 1) (R_ECX s)\<rparr>);
               modify (\<lambda>s. s\<lparr>R_EDI := set_lo16 (R_DI s + ucast inc) (R_EDI s)\<rparr>);
               gets (\<lambda>s. \<not> eval_condition cond s \<and> R_CX s \<noteq> 0)
             })
         } else do {
           d32 \<leftarrow> gets MODE_DATA32;
           (if d32 then do {
               v2 \<leftarrow> gets (\<lambda>s. ucast (R_DI s));
               val \<leftarrow> fetch_data_long_abs h R_ES_INDEX v2;
               _ \<leftarrow> alu (\<lambda>s. cmp_long (R_FLG s) (R_EAX s) val);
               skip
             } else do {
               v2 \<leftarrow> gets (\<lambda>s. ucast (R_DI s));
               val \<leftarrow> fetch_data_word_abs h R_ES_INDEX v2;
               let val = (ucast val :: u32);
               _ \<leftarrow> alu (\<lambda>s. cmp_word (R_FLG s) (R_AX s) (ucast val));
               skip
             });
           modify (\<lambda>s. s\<lparr>R_EDI := set_lo16 (R_DI s + ucast inc) (R_EDI s)\<rparr>)
         }
       }
     }"

section \<open>The operations respect a discipline\<close>

context discipline
begin

lemma emu_ok_Ops_String_1 [handler_oks]:
  "emu_ok (x86emuOp_ins_byte h op)"
  "emu_ok (x86emuOp_ins_word h op)"
  "emu_ok (x86emuOp_outs_byte h op)"
  "emu_ok (x86emuOp_outs_word h op)"
  unfolding x86emuOp_ins_byte_def x86emuOp_ins_word_def x86emuOp_outs_byte_def
    x86emuOp_outs_word_def
  by (intro emu_oks)+

lemma emu_ok_Ops_String_2 [handler_oks]:
  "emu_ok (x86emuOp_movs_byte h op)"
  "emu_ok (x86emuOp_movs_word h op)"
  "emu_ok (x86emuOp_cmps_byte h op)"
  "emu_ok (x86emuOp_cmps_word h op)"
  unfolding x86emuOp_movs_byte_def x86emuOp_movs_word_def x86emuOp_cmps_byte_def
    x86emuOp_cmps_word_def
  by (intro emu_oks)+

lemma emu_ok_Ops_String_3 [handler_oks]:
  "emu_ok (x86emuOp_stos_byte h op)"
  "emu_ok (x86emuOp_stos_word h op)"
  "emu_ok (x86emuOp_lods_byte h op)"
  "emu_ok (x86emuOp_lods_word h op)"
  unfolding x86emuOp_stos_byte_def x86emuOp_stos_word_def x86emuOp_lods_byte_def
    x86emuOp_lods_word_def
  by (intro emu_oks)+

lemma emu_ok_Ops_String_4 [handler_oks]:
  "emu_ok (x86emuOp_scas_byte h op)"
  "emu_ok (x86emuOp_scas_word h op)"
  unfolding x86emuOp_scas_byte_def x86emuOp_scas_word_def
  by (intro emu_oks)+

end

end
