(* ===== verification/Strings.thy ===== *)
theory Strings
  imports Bytes Ops_String Api
begin

text \<open>
  The block move \<^verbatim>\<open>rep movsb\<close>: on readable source and writable destination it is the loop
  that copies one byte after the other, up or down as the direction flag says.
\<close>

section \<open>Copying bytes\<close>

text \<open>
  The contents of memory after \<open>n\<close> bytes have been copied, from \<open>src\<close> to \<open>dst\<close> with 16 bit
  offsets that advance by \<open>inc\<close>.
\<close>

fun copied :: "(u32 \<Rightarrow> 'c) \<Rightarrow> u32 \<Rightarrow> u32 \<Rightarrow> u16 \<Rightarrow> nat \<Rightarrow> u16 \<Rightarrow> u16 \<Rightarrow> ('c \<Rightarrow> u8) \<Rightarrow> 'c \<Rightarrow> u8" where
  "copied cl src dst inc 0 si di st = st"
| "copied cl src dst inc (Suc n) si di st =
     copied cl src dst inc n (si + inc) (di + inc) (st(cl (dst + ucast di) := st (cl (src + ucast si))))"

text \<open>Blocks that do not overlap: every destination byte is its source byte, everything else is as before.\<close>

definition disjoint_blocks :: "(u32 \<Rightarrow> 'c) \<Rightarrow> u32 \<Rightarrow> u32 \<Rightarrow> u16 \<Rightarrow> nat \<Rightarrow> u16 \<Rightarrow> u16 \<Rightarrow> bool" where
  "disjoint_blocks cl src dst inc n si di \<longleftrightarrow>
     (\<forall>i<n. \<forall>j<n. cl (dst + ucast (di + of_nat i * inc)) \<noteq> cl (src + ucast (si + of_nat j * inc)) \<and>
       (i \<noteq> j \<longrightarrow> cl (dst + ucast (di + of_nat i * inc)) \<noteq> cl (dst + ucast (di + of_nat j * inc))))"

lemma copied_other:
  "\<forall>i<n. c \<noteq> cl (dst + ucast (di + of_nat i * inc)) \<Longrightarrow> copied cl src dst inc n si di st c = st c"
proof (induction n arbitrary: si di st)
  case (Suc n)
  have "c \<noteq> cl (dst + ucast di)" using Suc.prems[rule_format, of 0] by simp
  moreover have "\<forall>i<n. c \<noteq> cl (dst + ucast (di + inc + of_nat i * inc))"
    using Suc.prems[rule_format, of "Suc i" for i] by (simp add: algebra_simps)
  ultimately show ?case using Suc.IH[of "di + inc" "si + inc"] by simp
qed simp

lemma copied_disjoint:
  "disjoint_blocks cl src dst inc n si di \<Longrightarrow> i < n \<Longrightarrow>
   copied cl src dst inc n si di st (cl (dst + ucast (di + of_nat i * inc))) = st (cl (src + ucast (si + of_nat i * inc)))"
proof (induction n arbitrary: si di st i)
  case (Suc n)
  let ?st = "st(cl (dst + ucast di) := st (cl (src + ucast si)))"
  note d = Suc.prems(1)[unfolded disjoint_blocks_def, rule_format]
  have shift: "x + inc + of_nat k * inc = x + of_nat (Suc k) * inc" for x :: u16 and k by (simp add: algebra_simps)
  have tail: "disjoint_blocks cl src dst inc n (si + inc) (di + inc)"
    unfolding disjoint_blocks_def shift using d by (metis Suc_less_eq Suc_inject)
  show ?case
  proof (cases i)
    case 0
    have "copied cl src dst inc n (si + inc) (di + inc) ?st (cl (dst + ucast di)) = ?st (cl (dst + ucast di))"
      by (rule copied_other) (use d[of 0 "Suc _"] in \<open>simp add: shift del: of_nat_Suc\<close>)
    then show ?thesis using 0 by simp
  next
    case (Suc k)
    have "copied cl src dst inc n (si + inc) (di + inc) ?st (cl (dst + ucast (di + inc + of_nat k * inc))) =
        ?st (cl (src + ucast (si + inc + of_nat k * inc)))"
      using Suc.IH[OF tail, of k] Suc.prems(2) Suc by simp
    moreover have "cl (dst + ucast di) \<noteq> cl (src + ucast (si + of_nat (Suc k) * inc))"
      using d[of 0 "Suc k"] Suc.prems(2) Suc by simp
    ultimately show ?thesis using Suc by (simp add: shift del: of_nat_Suc)
  qed
qed simp

section \<open>The loop of the instruction\<close>

definition move_byte :: "host \<Rightarrow> u32 \<Rightarrow> unit emu" where
  "move_byte h inc = do {
     v \<leftarrow> gets (\<lambda>s. ucast (R_SI s));
     val \<leftarrow> fetch_data_byte h v;
     v2 \<leftarrow> gets (\<lambda>s. ucast (R_DI s));
     store_data_byte_abs h R_ES_INDEX v2 val;
     modify (\<lambda>s. s\<lparr>R_ESI := set_lo16 (R_SI s + ucast inc) (R_ESI s)\<rparr>);
     modify (\<lambda>s. s\<lparr>R_EDI := set_lo16 (R_DI s + ucast inc) (R_EDI s)\<rparr>)
   }"

text \<open>Every source byte can be read and every destination byte written, inside their segments.\<close>

definition source_ok :: "x86emu \<Rightarrow> u16 \<Rightarrow> bool" where
  "source_ok s si \<longleftrightarrow> in_limit s (get_data_segment s) (ucast si) 1 \<and> readable (mem s) (sel_base (seg s (get_data_segment s)) + ucast si)"

definition dest_ok :: "x86emu \<Rightarrow> u16 \<Rightarrow> bool" where
  "dest_ok s di \<longleftrightarrow> in_limit s R_ES_INDEX (ucast di) 1 \<and> writable (mem s) (sel_base (seg s R_ES_INDEX) + ucast di)"

definition movable :: "x86emu \<Rightarrow> u16 \<Rightarrow> nat \<Rightarrow> bool" where
  "movable s inc n \<longleftrightarrow> (\<forall>i<n. source_ok s (R_SI s + of_nat i * inc) \<and> dest_ok s (R_DI s + of_nat i * inc))"

abbreviation moved :: "u16 \<Rightarrow> x86emu_mem \<Rightarrow> x86emu \<Rightarrow> x86emu" where
  "moved d m s \<equiv> s\<lparr>R_ESI := set_lo16 (R_SI s + d) (R_ESI s), R_EDI := set_lo16 (R_DI s + d) (R_EDI s), mem := m\<rparr>"

lemma data_segment_moved [simp]: "get_data_segment (moved d m s) = get_data_segment s"
  by (simp add: get_data_segment_def)

lemma run_move_byte:
  assumes "plain s" "source_ok s (R_SI s)" "dest_ok s (R_DI s)"
  defines "src \<equiv> sel_base (seg s (get_data_segment s)) + ucast (R_SI s)" and "dst \<equiv> sel_base (seg s R_ES_INDEX) + ucast (R_DI s)"
  shows "\<exists>m. run_state (move_byte h inc) s = ((), moved (ucast inc) m s) \<and> mem_ok m \<and> cell m = cell (mem s) \<and>
    f_store (abs_mem m) = (f_store (abs_mem (mem s)))(cell (mem s) dst := f_store (abs_mem (mem s)) (cell (mem s) src)) \<and>
    writable m = writable (mem s) \<and> (\<forall>b. readable (mem s) b \<longrightarrow> readable m b)"
proof -
  let ?v = "mem_byte (mem s) src"
  obtain m1 where 1: "run_state (fetch_data_byte h (ucast (R_SI s))) s = (?v, s\<lparr>mem := m1\<rparr>)" and m1: "same_bytes (mem s) m1"
    using run_fetch_byte_abs[OF assms(1), of "get_data_segment s" "ucast (R_SI s)"] assms(2)
    by (auto simp: source_ok_def src_def fetch_data_byte_def emu_run)
  have "plain (s\<lparr>mem := m1\<rparr>)" using assms(1) m1 by (simp add: plain_def same_bytes_iff)
  then obtain m2 where 2: "run_state (store_data_byte_abs h R_ES_INDEX (ucast (R_DI s)) ?v) (s\<lparr>mem := m1\<rparr>) = ((), s\<lparr>mem := m2\<rparr>)"
    and m2: "written m1 dst ?v m2"
    using run_store_byte_abs[of "s\<lparr>mem := m1\<rparr>" R_ES_INDEX "ucast (R_DI s)" h ?v] assms(3) m1
    by (auto simp: dest_ok_def in_limit_def dst_def same_bytes_iff)
  have "run_state (move_byte h inc) s = ((), moved (ucast inc) m2 s)" by (simp add: move_byte_def emu_run 1 2)
  then show ?thesis using m1 m2
    by (intro exI[of _ m2]) (simp add: same_bytes_iff written_def mem_byte_def)
qed

lemma movable_step:
  assumes "movable s inc (Suc n)" "writable m = writable (mem s)" "\<forall>b. readable (mem s) b \<longrightarrow> readable m b"
  shows "movable (moved inc m s) inc n"
proof -
  have shift: "x + inc + of_nat k * inc = x + of_nat (Suc k) * inc" for x :: u16 and k by (simp add: algebra_simps)
  have "source_ok s x \<Longrightarrow> source_ok (moved inc m s) x" "dest_ok s x \<Longrightarrow> dest_ok (moved inc m s) x" for x
    using assms(2,3) by (simp_all add: source_ok_def dest_ok_def in_limit_def)
  then show ?thesis using assms(1) by (simp add: movable_def shift del: of_nat_Suc)
qed

lemma run_move_bytes:
  assumes "plain s" "movable s (ucast inc) n"
  shows "\<exists>m. run_state (repeat n (move_byte h inc)) s = ((), moved (of_nat n * ucast inc) m s) \<and> mem_ok m \<and> cell m = cell (mem s) \<and>
    f_store (abs_mem m) = copied (cell (mem s)) (sel_base (seg s (get_data_segment s))) (sel_base (seg s R_ES_INDEX)) (ucast inc) n
      (R_SI s) (R_DI s) (f_store (abs_mem (mem s)))"
  using assms
proof (induction n arbitrary: s)
  case 0
  then show ?case by (intro exI[of _ "mem s"]) (simp add: plain_def)
next
  case (Suc n)
  let ?i = "ucast inc :: u16"
  have "source_ok s (R_SI s)" "dest_ok s (R_DI s)" using Suc.prems(2)[unfolded movable_def, rule_format, of 0] by simp_all
  from run_move_byte[OF Suc.prems(1) this, of h inc] obtain m where 1: "run_state (move_byte h inc) s = ((), moved ?i m s)" and m: "mem_ok m"
    "cell m = cell (mem s)" "f_store (abs_mem m) = (f_store (abs_mem (mem s)))(cell (mem s) (sel_base (seg s R_ES_INDEX) + ucast (R_DI s)) :=
       f_store (abs_mem (mem s)) (cell (mem s) (sel_base (seg s (get_data_segment s)) + ucast (R_SI s))))"
    "writable m = writable (mem s)" "\<forall>b. readable (mem s) b \<longrightarrow> readable m b" by blast
  have "plain (moved ?i m s)" using Suc.prems(1) m(1) by (simp add: plain_def)
  from Suc.IH[OF this movable_step[OF Suc.prems(2) m(4,5)]] obtain m' where
    "run_state (repeat n (move_byte h inc)) (moved ?i m s) = ((), moved (of_nat n * ?i) m' (moved ?i m s))" "mem_ok m'" "cell m' = cell m"
    "f_store (abs_mem m') = copied (cell m) (sel_base (seg s (get_data_segment s))) (sel_base (seg s R_ES_INDEX)) ?i n
      (R_SI s + ?i) (R_DI s + ?i) (f_store (abs_mem m))" by auto
  moreover have "moved (of_nat n * ?i) m' (moved ?i m s) = moved (of_nat (Suc n) * ?i) m' s" by (simp add: algebra_simps)
  ultimately show ?case using 1 m by (intro exI[of _ m']) (simp add: emu_run)
qed

text \<open>
  C11. With 16 bit addresses and 16 bit code \<^verbatim>\<open>rep movsb\<close> moves the number of bytes in CX,
  all of them in segments and with permissions that allow it: memory is then what copying
  one byte after the other makes of it, upwards or, with the direction flag, downwards,
  with offsets that wrap at 64K; for blocks that do not overlap every destination byte is
  the source byte it was copied from. CX is zero, SI and DI are behind the blocks, and no
  interrupt is raised.
\<close>

theorem rep_movs_copies:
  assumes "plain s" "\<not> MODE_ADDR32 s" "MODE_REP s"
  defines "inc \<equiv> if ACCESS_FLAG F_DF (R_FLG s) then -1 else 1" and "n \<equiv> unat (R_CX s)"
    and "src \<equiv> sel_base (seg s (get_data_segment s))" and "dst \<equiv> sel_base (seg s R_ES_INDEX)"
  assumes "movable s inc n"
  shows "\<exists>t. run_state (x86emuOp_movs_byte h 0xa4) s = ((), t) \<and> R_CX t = 0 \<and> R_SI t = R_SI s + R_CX s * inc \<and>
    R_DI t = R_DI s + R_CX s * inc \<and> intr_type t = intr_type s \<and> cell (mem t) = cell (mem s) \<and>
    f_store (abs_mem (mem t)) = copied (cell (mem s)) src dst inc n (R_SI s) (R_DI s) (f_store (abs_mem (mem s))) \<and>
    (disjoint_blocks (cell (mem s)) src dst inc n (R_SI s) (R_DI s) \<longrightarrow>
      (\<forall>i<n. mem_byte (mem t) (dst + ucast (R_DI s + of_nat i * inc)) = mem_byte (mem s) (src + ucast (R_SI s + of_nat i * inc))))"
proof -
  define d where "d = (if ACCESS_FLAG F_DF (R_FLG s) then -1 else 1 :: u32)"
  define t0 where "t0 = s\<lparr>disasm_buf := disasm_buf s @ (if MODE_CODE32 s then ''a32 '' else []) @ ''movsb'', R_ECX := set_lo16 0 (R_ECX s)\<rparr>"
  have "(ucast (- 1 :: u32) :: u16) = - 1" by (rule bit_word_eqI) (simp add: bit_simps)
  then have d: "ucast d = inc" by (simp add: d_def inc_def)
  have t0: "plain t0" "get_data_segment t0 = get_data_segment s" "seg t0 = seg s" "mem t0 = mem s" "R_ESI t0 = R_ESI s" "R_EDI t0 = R_EDI s"
    using assms(1) by (simp_all add: t0_def plain_def get_data_segment_def)
  have "movable t0 (ucast d) n"
    using assms(8) unfolding d by (simp add: movable_def source_ok_def dest_ok_def in_limit_def t0)
  from run_move_bytes[OF t0(1) this, of h] obtain m where
    loop: "run_state (repeat n (move_byte h d)) t0 = ((), moved (of_nat n * inc) m t0)" and m: "cell m = cell (mem s)"
    "f_store (abs_mem m) = copied (cell (mem s)) src dst inc n (R_SI s) (R_DI s) (f_store (abs_mem (mem s)))"
    by (auto simp: d t0 src_def dst_def)
  have "run_state (x86emuOp_movs_byte h 0xa4) s = run_state (repeat n (move_byte h d)) t0"
    using assms(2,3) by (simp add: x86emuOp_movs_byte_def move_byte_def emu_run OP_DECODE_def t0_def n_def d_def MODE_CODE32_def MODE_REP_def
        MODE_ADDR32_def)
  moreover have "R_CX s = of_nat n" by (simp add: n_def)
  moreover have "(\<forall>i<n. mem_byte m (dst + ucast (R_DI s + of_nat i * inc)) = mem_byte (mem s) (src + ucast (R_SI s + of_nat i * inc)))"
    if "disjoint_blocks (cell (mem s)) src dst inc n (R_SI s) (R_DI s)"
    using copied_disjoint[OF that] by (simp add: mem_byte_def m)
  ultimately show ?thesis using loop m by (auto simp: t0 t0_def)
qed

text \<open>A new emulator about to copy 16 bytes from offset 0x100 to offset 0x200.\<close>

definition copy_emu :: x86emu where
  "copy_emu = (x86emu_new idle_host (\<lambda>_. 0) 0x0b 0)\<lparr>R_ECX := 16, R_ESI := 0x100, R_EDI := 0x200, R_FLG := 2, mode := MODE_REPE_flag, default_seg := None,
     mem := vm_w_byte ((emu_mem_new 0x0b (\<lambda>_. 0))\<lparr>mem_invalid := False\<rparr>) 0x105 0x5a\<rparr>"

lemma rep_movs_copies_witness:
  "\<exists>t. run_state (x86emuOp_movs_byte idle_host 0xa4) copy_emu = ((), t) \<and> R_CX t = 0 \<and> R_DI t = 0x210 \<and> mem_byte (mem t) 0x205 = 0x5a"
proof -
  have f: "memio copy_emu = Vm_memio" "log_text copy_emu = None" "mode copy_emu = MODE_REPE_flag" "seg copy_emu = reset_seg"
    "R_ECX copy_emu = 16" "R_ESI copy_emu = 0x100" "R_EDI copy_emu = 0x200" "R_FLG copy_emu = 2" "default_seg copy_emu = None"
    using x86emu_new_simps(1)[of idle_host "\<lambda>_. 0" "0x0b" 0] by (simp_all add: copy_emu_def sandboxed_def)
  have w: "written (emu_mem_new 0x0b (\<lambda>_. 0)) 0x105 0x5a (mem copy_emu)"
    using write_byte_written[of "emu_mem_new 0x0b (\<lambda>_. 0)" "0x105" "0x5a"] by (simp add: copy_emu_def writable_def abs_emu_mem_new)
  have c: "cell (mem copy_emu) = Own_cell" "mem_ok (mem copy_emu)" "mem_byte (mem copy_emu) 0x105 = 0x5a"
    "\<And>b. readable (mem copy_emu) b" "\<And>b. writable (mem copy_emu) b"
    using w by (auto simp: written_def mem_byte_def writable_def readable_def abs_emu_mem_new)
  have up: "unat (ucast x :: u32) = unat x" for x :: u16 by (rule unat_up) simp
  have lim: "ucast x \<le> (0xffff :: u32)" for x :: u16 using unsigned_less[of x, where ?'a = nat] by (simp add: word_le_nat_alt up)
  have mov: "movable copy_emu 1 16"
    by (simp add: movable_def source_ok_def dest_ok_def in_limit_def get_data_segment_def f c reset_seg_def lim)
  have off: "unat (k + of_nat i :: u16) = unat k + i" if "unat k + i < 65536" for k i
    using that by (simp add: unat_word_ariths unat_of_nat)
  have neq: "(ucast x :: u32) = ucast y \<Longrightarrow> unat x = unat y" for x y :: u16
    using arg_cong[of "ucast x :: u32" "ucast y" unat] unfolding up .
  have "disjoint_blocks (cell (mem copy_emu)) 0 0 1 16 0x100 0x200"
    by (auto simp: disjoint_blocks_def c off dest!: neq)
  then show ?thesis
    using rep_movs_copies[of copy_emu idle_host] mov c(2,3)
    by (auto simp: f plain_def MODE_ADDR32_def MODE_REP_def ACCESS_FLAG_def lo16_def get_data_segment_def reset_seg_def dest: spec[of _ 5])
qed

end
