(* ===== verification/Ops_Arith.thy ===== *)
theory Ops_Arith
  imports Ops_Base
begin

text \<open>
  Arithmetic and logic instructions of one byte opcodes (\<^verbatim>\<open>ops.c\<close>): the eight operations
  of \<^verbatim>\<open>op_A\<close> in their six forms and with immediate operands, increments and decrements,
  the decimal adjustments, \<^verbatim>\<open>test\<close>, \<^verbatim>\<open>imul\<close> with an immediate, and the groups F6, F7 and FE.
\<close>

definition x86emuOp_illegal_op :: "host \<Rightarrow> u8 \<Rightarrow> unit emu" where
  "x86emuOp_illegal_op h op1 =
     do { OP_DECODE ''illegal opcode''; INTR_RAISE_UD }"

definition x86emuOp_op_A_byte_RM_R :: "host \<Rightarrow> u8 \<Rightarrow> unit emu" where
  "x86emuOp_op_A_byte_RM_R h op1 =
     do {
       let type = unat (drop_bit 3 op1);
       decode_op_A type;
       (md, rh, rl) \<leftarrow> fetch_decode_modrm h;
       if md = 3 then do {
         dst \<leftarrow> decode_rm_byte_register rl;
         OP_DECODE '','';
         src \<leftarrow> decode_rm_byte_register rh;
         v \<leftarrow> alu (\<lambda>s. (op_A_byte ! type) (R_FLG s) (get8 dst s) (get8 src s));
         modify (set8 dst v)
       } else do {
         addr \<leftarrow> decode_rm_address h md rl;
         OP_DECODE '','';
         val \<leftarrow> fetch_data_byte h addr;
         src \<leftarrow> decode_rm_byte_register rh;
         val \<leftarrow> alu (\<lambda>s. (op_A_byte ! type) (R_FLG s) val (get8 src s));
         if_then (type \<noteq> 7) (store_data_byte h addr val)
       }
     }"

definition x86emuOp_op_A_word_RM_R :: "host \<Rightarrow> u8 \<Rightarrow> unit emu" where
  "x86emuOp_op_A_word_RM_R h op1 =
     do {
       let type = unat (drop_bit 3 op1);
       decode_op_A type;
       (md, rh, rl) \<leftarrow> fetch_decode_modrm h;
       if md = 3 then do {
         d32 \<leftarrow> gets MODE_DATA32;
         if d32 then do {
           dst32 \<leftarrow> decode_rm_long_register rl;
           OP_DECODE '','';
           src32 \<leftarrow> decode_rm_long_register rh;
           v \<leftarrow> alu (\<lambda>s. (op_A_long ! type) (R_FLG s) (get32 dst32 s) (get32 src32 s));
           modify (set32 dst32 v)
         } else do {
           dst16 \<leftarrow> decode_rm_word_register rl;
           OP_DECODE '','';
           src16 \<leftarrow> decode_rm_word_register rh;
           v \<leftarrow> alu (\<lambda>s. (op_A_word ! type) (R_FLG s) (get16 dst16 s) (get16 src16 s));
           modify (set16 dst16 v)
         }
       } else do {
         addr \<leftarrow> decode_rm_address h md rl;
         OP_DECODE '','';
         d32 \<leftarrow> gets MODE_DATA32;
         if d32 then do {
           val \<leftarrow> fetch_data_long h addr;
           src32 \<leftarrow> decode_rm_long_register rh;
           val \<leftarrow> alu (\<lambda>s. (op_A_long ! type) (R_FLG s) val (get32 src32 s));
           if_then (type \<noteq> 7) (store_data_long h addr val)
         } else do {
           val \<leftarrow> fetch_data_word h addr;
           let val = (ucast val :: u32);
           src16 \<leftarrow> decode_rm_word_register rh;
           val \<leftarrow> alu (\<lambda>s. (op_A_word ! type) (R_FLG s) (ucast val) (get16 src16 s));
           let val = (ucast val :: u32);
           if_then (type \<noteq> 7) (store_data_word h addr (ucast val))
         }
       }
     }"

definition x86emuOp_op_A_byte_R_RM :: "host \<Rightarrow> u8 \<Rightarrow> unit emu" where
  "x86emuOp_op_A_byte_R_RM h op1 =
     do {
       let type = unat (drop_bit 3 op1);
       decode_op_A type;
       (md, rh, rl) \<leftarrow> fetch_decode_modrm h;
       if md = 3 then do {
         dst \<leftarrow> decode_rm_byte_register rh;
         OP_DECODE '','';
         src \<leftarrow> decode_rm_byte_register rl;
         v \<leftarrow> alu (\<lambda>s. (op_A_byte ! type) (R_FLG s) (get8 dst s) (get8 src s));
         modify (set8 dst v)
       } else do {
         dst \<leftarrow> decode_rm_byte_register rh;
         OP_DECODE '','';
         addr \<leftarrow> decode_rm_address h md rl;
         val \<leftarrow> fetch_data_byte h addr;
         v2 \<leftarrow> alu (\<lambda>s. (op_A_byte ! type) (R_FLG s) (get8 dst s) val);
         modify (set8 dst v2)
       }
     }"

definition x86emuOp_op_A_word_R_RM :: "host \<Rightarrow> u8 \<Rightarrow> unit emu" where
  "x86emuOp_op_A_word_R_RM h op1 =
     do {
       let type = unat (drop_bit 3 op1);
       decode_op_A type;
       (md, rh, rl) \<leftarrow> fetch_decode_modrm h;
       if md = 3 then do {
         d32 \<leftarrow> gets MODE_DATA32;
         if d32 then do {
           dst32 \<leftarrow> decode_rm_long_register rh;
           OP_DECODE '','';
           src32 \<leftarrow> decode_rm_long_register rl;
           v \<leftarrow> alu (\<lambda>s. (op_A_long ! type) (R_FLG s) (get32 dst32 s) (get32 src32 s));
           modify (set32 dst32 v)
         } else do {
           dst16 \<leftarrow> decode_rm_word_register rh;
           OP_DECODE '','';
           src16 \<leftarrow> decode_rm_word_register rl;
           v \<leftarrow> alu (\<lambda>s. (op_A_word ! type) (R_FLG s) (get16 dst16 s) (get16 src16 s));
           modify (set16 dst16 v)
         }
       } else do {
         d32 \<leftarrow> gets MODE_DATA32;
         if d32 then do {
           dst32 \<leftarrow> decode_rm_long_register rh;
           OP_DECODE '','';
           addr \<leftarrow> decode_rm_address h md rl;
           val \<leftarrow> fetch_data_long h addr;
           v2 \<leftarrow> alu (\<lambda>s. (op_A_long ! type) (R_FLG s) (get32 dst32 s) val);
           modify (set32 dst32 v2)
         } else do {
           dst16 \<leftarrow> decode_rm_word_register rh;
           OP_DECODE '','';
           addr \<leftarrow> decode_rm_address h md rl;
           val \<leftarrow> fetch_data_word h addr;
           let val = (ucast val :: u32);
           v2 \<leftarrow> alu (\<lambda>s. (op_A_word ! type) (R_FLG s) (get16 dst16 s) (ucast val));
           modify (set16 dst16 v2)
         }
       }
     }"

definition x86emuOp_op_A_byte_AL_IMM :: "host \<Rightarrow> u8 \<Rightarrow> unit emu" where
  "x86emuOp_op_A_byte_AL_IMM h op1 =
     do {
       let type = unat (drop_bit 3 op1);
       decode_op_A type;
       OP_DECODE ''al,'';
       val \<leftarrow> fetch_byte h;
       OP_DECODE (decode_hex2 (ucast val));
       v \<leftarrow> alu (\<lambda>s. (op_A_byte ! type) (R_FLG s) (R_AL s) val);
       modify (\<lambda>s. s\<lparr>R_EAX := set_lo8 v (R_EAX s)\<rparr>)
     }"

definition x86emuOp_op_A_word_AX_IMM :: "host \<Rightarrow> u8 \<Rightarrow> unit emu" where
  "x86emuOp_op_A_word_AX_IMM h op1 =
     do {
       let type = unat (drop_bit 3 op1);
       decode_op_A type;
       d32 \<leftarrow> gets MODE_DATA32;
       if d32 then do {
         OP_DECODE ''eax,'';
         val \<leftarrow> fetch_long h;
         OP_DECODE (decode_hex8 val);
         v \<leftarrow> alu (\<lambda>s. (op_A_long ! type) (R_FLG s) (R_EAX s) val);
         modify (\<lambda>s. s\<lparr>R_EAX := v\<rparr>)
       } else do {
         OP_DECODE ''ax,'';
         val \<leftarrow> fetch_word h;
         let val = (ucast val :: u32);
         OP_DECODE (decode_hex4 val);
         v \<leftarrow> alu (\<lambda>s. (op_A_word ! type) (R_FLG s) (R_AX s) (ucast val));
         modify (\<lambda>s. s\<lparr>R_EAX := set_lo16 v (R_EAX s)\<rparr>)
       }
     }"

definition x86emuOp_daa :: "host \<Rightarrow> u8 \<Rightarrow> unit emu" where
  "x86emuOp_daa h op1 =
     do {
       OP_DECODE ''daa'';
       v \<leftarrow> alu (\<lambda>s. daa_byte (R_FLG s) (R_AL s));
       modify (\<lambda>s. s\<lparr>R_EAX := set_lo8 v (R_EAX s)\<rparr>)
     }"

definition x86emuOp_das :: "host \<Rightarrow> u8 \<Rightarrow> unit emu" where
  "x86emuOp_das h op1 =
     do {
       OP_DECODE ''das'';
       v \<leftarrow> alu (\<lambda>s. das_byte (R_FLG s) (R_AL s));
       modify (\<lambda>s. s\<lparr>R_EAX := set_lo8 v (R_EAX s)\<rparr>)
     }"

definition x86emuOp_aaa :: "host \<Rightarrow> u8 \<Rightarrow> unit emu" where
  "x86emuOp_aaa h op1 =
     do {
       OP_DECODE ''aaa'';
       v \<leftarrow> alu (\<lambda>s. aaa_word (R_FLG s) (R_AX s));
       modify (\<lambda>s. s\<lparr>R_EAX := set_lo16 v (R_EAX s)\<rparr>)
     }"

definition x86emuOp_aas :: "host \<Rightarrow> u8 \<Rightarrow> unit emu" where
  "x86emuOp_aas h op1 =
     do {
       OP_DECODE ''aas'';
       v \<leftarrow> alu (\<lambda>s. aas_word (R_FLG s) (R_AX s));
       modify (\<lambda>s. s\<lparr>R_EAX := set_lo16 v (R_EAX s)\<rparr>)
     }"

definition x86emuOp_inc_AX :: "host \<Rightarrow> u8 \<Rightarrow> unit emu" where
  "x86emuOp_inc_AX h op1 =
     do {
       d32 \<leftarrow> gets MODE_DATA32;
       if d32 then do {
         OP_DECODE ''inc eax'';
         v \<leftarrow> alu (\<lambda>s. inc_long (R_FLG s) (R_EAX s));
         modify (\<lambda>s. s\<lparr>R_EAX := v\<rparr>)
       } else do {
         OP_DECODE ''inc ax'';
         v \<leftarrow> alu (\<lambda>s. inc_word (R_FLG s) (R_AX s));
         modify (\<lambda>s. s\<lparr>R_EAX := set_lo16 v (R_EAX s)\<rparr>)
       }
     }"

definition x86emuOp_inc_CX :: "host \<Rightarrow> u8 \<Rightarrow> unit emu" where
  "x86emuOp_inc_CX h op1 =
     do {
       d32 \<leftarrow> gets MODE_DATA32;
       if d32 then do {
         OP_DECODE ''inc ecx'';
         v \<leftarrow> alu (\<lambda>s. inc_long (R_FLG s) (R_ECX s));
         modify (\<lambda>s. s\<lparr>R_ECX := v\<rparr>)
       } else do {
         OP_DECODE ''inc cx'';
         v \<leftarrow> alu (\<lambda>s. inc_word (R_FLG s) (R_CX s));
         modify (\<lambda>s. s\<lparr>R_ECX := set_lo16 v (R_ECX s)\<rparr>)
       }
     }"

definition x86emuOp_inc_DX :: "host \<Rightarrow> u8 \<Rightarrow> unit emu" where
  "x86emuOp_inc_DX h op1 =
     do {
       d32 \<leftarrow> gets MODE_DATA32;
       if d32 then do {
         OP_DECODE ''inc edx'';
         v \<leftarrow> alu (\<lambda>s. inc_long (R_FLG s) (R_EDX s));
         modify (\<lambda>s. s\<lparr>R_EDX := v\<rparr>)
       } else do {
         OP_DECODE ''inc dx'';
         v \<leftarrow> alu (\<lambda>s. inc_word (R_FLG s) (R_DX s));
         modify (\<lambda>s. s\<lparr>R_EDX := set_lo16 v (R_EDX s)\<rparr>)
       }
     }"

definition x86emuOp_inc_BX :: "host \<Rightarrow> u8 \<Rightarrow> unit emu" where
  "x86emuOp_inc_BX h op1 =
     do {
       d32 \<leftarrow> gets MODE_DATA32;
       if d32 then do {
         OP_DECODE ''inc ebx'';
         v \<leftarrow> alu (\<lambda>s. inc_long (R_FLG s) (R_EBX s));
         modify (\<lambda>s. s\<lparr>R_EBX := v\<rparr>)
       } else do {
         OP_DECODE ''inc bx'';
         v \<leftarrow> alu (\<lambda>s. inc_word (R_FLG s) (R_BX s));
         modify (\<lambda>s. s\<lparr>R_EBX := set_lo16 v (R_EBX s)\<rparr>)
       }
     }"

definition x86emuOp_inc_SP :: "host \<Rightarrow> u8 \<Rightarrow> unit emu" where
  "x86emuOp_inc_SP h op1 =
     do {
       d32 \<leftarrow> gets MODE_DATA32;
       if d32 then do {
         OP_DECODE ''inc esp'';
         v \<leftarrow> alu (\<lambda>s. inc_long (R_FLG s) (R_ESP s));
         modify (\<lambda>s. s\<lparr>R_ESP := v\<rparr>)
       } else do {
         OP_DECODE ''inc sp'';
         v \<leftarrow> alu (\<lambda>s. inc_word (R_FLG s) (R_SP s));
         modify (\<lambda>s. s\<lparr>R_ESP := set_lo16 v (R_ESP s)\<rparr>)
       }
     }"

definition x86emuOp_inc_BP :: "host \<Rightarrow> u8 \<Rightarrow> unit emu" where
  "x86emuOp_inc_BP h op1 =
     do {
       d32 \<leftarrow> gets MODE_DATA32;
       if d32 then do {
         OP_DECODE ''inc ebp'';
         v \<leftarrow> alu (\<lambda>s. inc_long (R_FLG s) (R_EBP s));
         modify (\<lambda>s. s\<lparr>R_EBP := v\<rparr>)
       } else do {
         OP_DECODE ''inc bp'';
         v \<leftarrow> alu (\<lambda>s. inc_word (R_FLG s) (R_BP s));
         modify (\<lambda>s. s\<lparr>R_EBP := set_lo16 v (R_EBP s)\<rparr>)
       }
     }"

definition x86emuOp_inc_SI :: "host \<Rightarrow> u8 \<Rightarrow> unit emu" where
  "x86emuOp_inc_SI h op1 =
     do {
       d32 \<leftarrow> gets MODE_DATA32;
       if d32 then do {
         OP_DECODE ''inc esi'';
         v \<leftarrow> alu (\<lambda>s. inc_long (R_FLG s) (R_ESI s));
         modify (\<lambda>s. s\<lparr>R_ESI := v\<rparr>)
       } else do {
         OP_DECODE ''inc si'';
         v \<leftarrow> alu (\<lambda>s. inc_word (R_FLG s) (R_SI s));
         modify (\<lambda>s. s\<lparr>R_ESI := set_lo16 v (R_ESI s)\<rparr>)
       }
     }"

definition x86emuOp_inc_DI :: "host \<Rightarrow> u8 \<Rightarrow> unit emu" where
  "x86emuOp_inc_DI h op1 =
     do {
       d32 \<leftarrow> gets MODE_DATA32;
       if d32 then do {
         OP_DECODE ''inc edi'';
         v \<leftarrow> alu (\<lambda>s. inc_long (R_FLG s) (R_EDI s));
         modify (\<lambda>s. s\<lparr>R_EDI := v\<rparr>)
       } else do {
         OP_DECODE ''inc di'';
         v \<leftarrow> alu (\<lambda>s. inc_word (R_FLG s) (R_DI s));
         modify (\<lambda>s. s\<lparr>R_EDI := set_lo16 v (R_EDI s)\<rparr>)
       }
     }"

definition x86emuOp_dec_AX :: "host \<Rightarrow> u8 \<Rightarrow> unit emu" where
  "x86emuOp_dec_AX h op1 =
     do {
       d32 \<leftarrow> gets MODE_DATA32;
       if d32 then do {
         OP_DECODE ''dec eax'';
         v \<leftarrow> alu (\<lambda>s. dec_long (R_FLG s) (R_EAX s));
         modify (\<lambda>s. s\<lparr>R_EAX := v\<rparr>)
       } else do {
         OP_DECODE ''dec ax'';
         v \<leftarrow> alu (\<lambda>s. dec_word (R_FLG s) (R_AX s));
         modify (\<lambda>s. s\<lparr>R_EAX := set_lo16 v (R_EAX s)\<rparr>)
       }
     }"

definition x86emuOp_dec_CX :: "host \<Rightarrow> u8 \<Rightarrow> unit emu" where
  "x86emuOp_dec_CX h op1 =
     do {
       d32 \<leftarrow> gets MODE_DATA32;
       if d32 then do {
         OP_DECODE ''dec ecx'';
         v \<leftarrow> alu (\<lambda>s. dec_long (R_FLG s) (R_ECX s));
         modify (\<lambda>s. s\<lparr>R_ECX := v\<rparr>)
       } else do {
         OP_DECODE ''dec cx'';
         v \<leftarrow> alu (\<lambda>s. dec_word (R_FLG s) (R_CX s));
         modify (\<lambda>s. s\<lparr>R_ECX := set_lo16 v (R_ECX s)\<rparr>)
       }
     }"

definition x86emuOp_dec_DX :: "host \<Rightarrow> u8 \<Rightarrow> unit emu" where
  "x86emuOp_dec_DX h op1 =
     do {
       d32 \<leftarrow> gets MODE_DATA32;
       if d32 then do {
         OP_DECODE ''dec edx'';
         v \<leftarrow> alu (\<lambda>s. dec_long (R_FLG s) (R_EDX s));
         modify (\<lambda>s. s\<lparr>R_EDX := v\<rparr>)
       } else do {
         OP_DECODE ''dec dx'';
         v \<leftarrow> alu (\<lambda>s. dec_word (R_FLG s) (R_DX s));
         modify (\<lambda>s. s\<lparr>R_EDX := set_lo16 v (R_EDX s)\<rparr>)
       }
     }"

definition x86emuOp_dec_BX :: "host \<Rightarrow> u8 \<Rightarrow> unit emu" where
  "x86emuOp_dec_BX h op1 =
     do {
       d32 \<leftarrow> gets MODE_DATA32;
       if d32 then do {
         OP_DECODE ''dec ebx'';
         v \<leftarrow> alu (\<lambda>s. dec_long (R_FLG s) (R_EBX s));
         modify (\<lambda>s. s\<lparr>R_EBX := v\<rparr>)
       } else do {
         OP_DECODE ''dec bx'';
         v \<leftarrow> alu (\<lambda>s. dec_word (R_FLG s) (R_BX s));
         modify (\<lambda>s. s\<lparr>R_EBX := set_lo16 v (R_EBX s)\<rparr>)
       }
     }"

definition x86emuOp_dec_SP :: "host \<Rightarrow> u8 \<Rightarrow> unit emu" where
  "x86emuOp_dec_SP h op1 =
     do {
       d32 \<leftarrow> gets MODE_DATA32;
       if d32 then do {
         OP_DECODE ''dec esp'';
         v \<leftarrow> alu (\<lambda>s. dec_long (R_FLG s) (R_ESP s));
         modify (\<lambda>s. s\<lparr>R_ESP := v\<rparr>)
       } else do {
         OP_DECODE ''dec sp'';
         v \<leftarrow> alu (\<lambda>s. dec_word (R_FLG s) (R_SP s));
         modify (\<lambda>s. s\<lparr>R_ESP := set_lo16 v (R_ESP s)\<rparr>)
       }
     }"

definition x86emuOp_dec_BP :: "host \<Rightarrow> u8 \<Rightarrow> unit emu" where
  "x86emuOp_dec_BP h op1 =
     do {
       d32 \<leftarrow> gets MODE_DATA32;
       if d32 then do {
         OP_DECODE ''dec ebp'';
         v \<leftarrow> alu (\<lambda>s. dec_long (R_FLG s) (R_EBP s));
         modify (\<lambda>s. s\<lparr>R_EBP := v\<rparr>)
       } else do {
         OP_DECODE ''dec bp'';
         v \<leftarrow> alu (\<lambda>s. dec_word (R_FLG s) (R_BP s));
         modify (\<lambda>s. s\<lparr>R_EBP := set_lo16 v (R_EBP s)\<rparr>)
       }
     }"

definition x86emuOp_dec_SI :: "host \<Rightarrow> u8 \<Rightarrow> unit emu" where
  "x86emuOp_dec_SI h op1 =
     do {
       d32 \<leftarrow> gets MODE_DATA32;
       if d32 then do {
         OP_DECODE ''dec esi'';
         v \<leftarrow> alu (\<lambda>s. dec_long (R_FLG s) (R_ESI s));
         modify (\<lambda>s. s\<lparr>R_ESI := v\<rparr>)
       } else do {
         OP_DECODE ''dec si'';
         v \<leftarrow> alu (\<lambda>s. dec_word (R_FLG s) (R_SI s));
         modify (\<lambda>s. s\<lparr>R_ESI := set_lo16 v (R_ESI s)\<rparr>)
       }
     }"

definition x86emuOp_dec_DI :: "host \<Rightarrow> u8 \<Rightarrow> unit emu" where
  "x86emuOp_dec_DI h op1 =
     do {
       d32 \<leftarrow> gets MODE_DATA32;
       if d32 then do {
         OP_DECODE ''dec edi'';
         v \<leftarrow> alu (\<lambda>s. dec_long (R_FLG s) (R_EDI s));
         modify (\<lambda>s. s\<lparr>R_EDI := v\<rparr>)
       } else do {
         OP_DECODE ''dec di'';
         v \<leftarrow> alu (\<lambda>s. dec_word (R_FLG s) (R_DI s));
         modify (\<lambda>s. s\<lparr>R_EDI := set_lo16 v (R_EDI s)\<rparr>)
       }
     }"

definition x86emuOp_imul_word_IMM :: "host \<Rightarrow> u8 \<Rightarrow> unit emu" where
  "x86emuOp_imul_word_IMM h op1 =
     do {
       OP_DECODE ''imul '';
       (md, rh, rl) \<leftarrow> fetch_decode_modrm h;
       if md = 3 then do {
         d32 \<leftarrow> gets MODE_DATA32;
         if d32 then do {
           dst32 \<leftarrow> decode_rm_long_register rh;
           OP_DECODE '','';
           src32 \<leftarrow> decode_rm_long_register rl;
           imm \<leftarrow> fetch_long h;
           OP_DECODE '','';
           OP_DECODE (decode_hex8s imm);
           imul_to_long dst32 (\<lambda>s. imul_long_direct (get32 src32 s) imm)
         } else do {
           dst16 \<leftarrow> decode_rm_word_register rh;
           OP_DECODE '','';
           src16 \<leftarrow> decode_rm_word_register rl;
           imm \<leftarrow> fetch_word h;
           let imm = (scast imm :: u32);
           OP_DECODE '','';
           OP_DECODE (decode_hex4s imm);
           imul_to_word dst16 (\<lambda>s. imul_word_direct (get16 src16 s) (ucast imm))
         }
       } else do {
         d32 \<leftarrow> gets MODE_DATA32;
         if d32 then do {
           dst32 \<leftarrow> decode_rm_long_register rh;
           OP_DECODE '','';
           addr \<leftarrow> decode_rm_address h md rl;
           val32 \<leftarrow> fetch_data_long h addr;
           imm \<leftarrow> fetch_long h;
           OP_DECODE '','';
           OP_DECODE (decode_hex8s imm);
           imul_to_long dst32 (\<lambda>s. imul_long_direct val32 imm)
         } else do {
           dst16 \<leftarrow> decode_rm_word_register rh;
           OP_DECODE '','';
           addr \<leftarrow> decode_rm_address h md rl;
           val16 \<leftarrow> fetch_data_word h addr;
           v2 \<leftarrow> fetch_word h;
           let imm = (ucast v2 :: u32);
           OP_DECODE '','';
           OP_DECODE (decode_hex4s imm);
           imul_to_word dst16 (\<lambda>s. imul_word_direct val16 (ucast imm))
         }
       }
     }"

definition x86emuOp_imul_byte_IMM :: "host \<Rightarrow> u8 \<Rightarrow> unit emu" where
  "x86emuOp_imul_byte_IMM h op1 =
     do {
       OP_DECODE ''imul '';
       (md, rh, rl) \<leftarrow> fetch_decode_modrm h;
       if md = 3 then do {
         d32 \<leftarrow> gets MODE_DATA32;
         if d32 then do {
           dst32 \<leftarrow> decode_rm_long_register rh;
           OP_DECODE '','';
           src32 \<leftarrow> decode_rm_long_register rl;
           imm \<leftarrow> fetch_byte h;
           let imm = (scast imm :: u32);
           OP_DECODE '','';
           OP_DECODE (decode_hex2s imm);
           imul_to_long dst32 (\<lambda>s. imul_long_direct (get32 src32 s) imm)
         } else do {
           dst16 \<leftarrow> decode_rm_word_register rh;
           OP_DECODE '','';
           src16 \<leftarrow> decode_rm_word_register rl;
           imm \<leftarrow> fetch_byte h;
           let imm = (scast imm :: u32);
           OP_DECODE '','';
           OP_DECODE (decode_hex2s imm);
           imul_to_word dst16 (\<lambda>s. imul_word_direct (get16 src16 s) (ucast imm))
         }
       } else do {
         d32 \<leftarrow> gets MODE_DATA32;
         if d32 then do {
           dst32 \<leftarrow> decode_rm_long_register rh;
           OP_DECODE '','';
           addr \<leftarrow> decode_rm_address h md rl;
           val32 \<leftarrow> fetch_data_long h addr;
           imm \<leftarrow> fetch_byte h;
           let imm = (scast imm :: u32);
           OP_DECODE '','';
           OP_DECODE (decode_hex2s imm);
           imul_to_long dst32 (\<lambda>s. imul_long_direct val32 imm)
         } else do {
           dst16 \<leftarrow> decode_rm_word_register rh;
           OP_DECODE '','';
           addr \<leftarrow> decode_rm_address h md rl;
           val16 \<leftarrow> fetch_data_word h addr;
           imm \<leftarrow> fetch_byte h;
           let imm = (scast imm :: u32);
           OP_DECODE '','';
           OP_DECODE (decode_hex2s imm);
           imul_to_word dst16 (\<lambda>s. imul_word_direct val16 (ucast imm))
         }
       }
     }"

definition x86emuOp_opc80_byte_RM_IMM :: "host \<Rightarrow> u8 \<Rightarrow> unit emu" where
  "x86emuOp_opc80_byte_RM_IMM h op1 =
     do {
       (md, rh, rl) \<leftarrow> fetch_decode_modrm h;
       decode_op_A rh;
       if md = 3 then do {
         reg8 \<leftarrow> decode_rm_byte_register rl;
         OP_DECODE '','';
         imm \<leftarrow> fetch_byte h;
         OP_DECODE (decode_hex2 (ucast imm));
         val \<leftarrow> alu (\<lambda>s. (op_A_byte ! rh) (R_FLG s) (get8 reg8 s) imm);
         if_then (rh \<noteq> 7) (modify (set8 reg8 val))
       } else do {
         OP_DECODE ''byte '';
         addr \<leftarrow> decode_rm_address h md rl;
         OP_DECODE '','';
         val \<leftarrow> fetch_data_byte h addr;
         imm \<leftarrow> fetch_byte h;
         OP_DECODE (decode_hex2 (ucast imm));
         val \<leftarrow> alu (\<lambda>s. (op_A_byte ! rh) (R_FLG s) val imm);
         if_then (rh \<noteq> 7) (store_data_byte h addr val)
       }
     }"

definition x86emuOp_opc81_word_RM_IMM :: "host \<Rightarrow> u8 \<Rightarrow> unit emu" where
  "x86emuOp_opc81_word_RM_IMM h op1 =
     do {
       (md, rh, rl) \<leftarrow> fetch_decode_modrm h;
       decode_op_A rh;
       if md = 3 then do {
         d32 \<leftarrow> gets MODE_DATA32;
         if d32 then do {
           reg32 \<leftarrow> decode_rm_long_register rl;
           OP_DECODE '','';
           imm \<leftarrow> fetch_long h;
           OP_DECODE (decode_hex8 imm);
           val \<leftarrow> alu (\<lambda>s. (op_A_long ! rh) (R_FLG s) (get32 reg32 s) imm);
           if_then (rh \<noteq> 7) (modify (set32 reg32 val))
         } else do {
           reg16 \<leftarrow> decode_rm_word_register rl;
           OP_DECODE '','';
           imm \<leftarrow> fetch_word h;
           let imm = (ucast imm :: u32);
           OP_DECODE (decode_hex4 imm);
           val \<leftarrow> alu (\<lambda>s. (op_A_word ! rh) (R_FLG s) (get16 reg16 s) (ucast imm));
           let val = (ucast val :: u32);
           if_then (rh \<noteq> 7) (modify (set16 reg16 (ucast val)))
         }
       } else do {
         d32 \<leftarrow> gets MODE_DATA32;
         if d32 then do {
           OP_DECODE ''dword '';
           addr \<leftarrow> decode_rm_address h md rl;
           OP_DECODE '','';
           val \<leftarrow> fetch_data_long h addr;
           imm \<leftarrow> fetch_long h;
           OP_DECODE (decode_hex8 imm);
           val \<leftarrow> alu (\<lambda>s. (op_A_long ! rh) (R_FLG s) val imm);
           if_then (rh \<noteq> 7) (store_data_long h addr val)
         } else do {
           OP_DECODE ''word '';
           addr \<leftarrow> decode_rm_address h md rl;
           OP_DECODE '','';
           val \<leftarrow> fetch_data_word h addr;
           let val = (ucast val :: u32);
           imm \<leftarrow> fetch_word h;
           let imm = (ucast imm :: u32);
           OP_DECODE (decode_hex4 imm);
           val \<leftarrow> alu (\<lambda>s. (op_A_word ! rh) (R_FLG s) (ucast val) (ucast imm));
           let val = (ucast val :: u32);
           if_then (rh \<noteq> 7) (store_data_word h addr (ucast val))
         }
       }
     }"

definition x86emuOp_opc83_word_RM_IMM :: "host \<Rightarrow> u8 \<Rightarrow> unit emu" where
  "x86emuOp_opc83_word_RM_IMM h op1 =
     do {
       (md, rh, rl) \<leftarrow> fetch_decode_modrm h;
       decode_op_A rh;
       if md = 3 then do {
         d32 \<leftarrow> gets MODE_DATA32;
         if d32 then do {
           reg32 \<leftarrow> decode_rm_long_register rl;
           OP_DECODE '','';
           imm \<leftarrow> fetch_byte h;
           let imm = (scast imm :: u32);
           OP_DECODE (decode_hex2s imm);
           val \<leftarrow> alu (\<lambda>s. (op_A_long ! rh) (R_FLG s) (get32 reg32 s) imm);
           if_then (rh \<noteq> 7) (modify (set32 reg32 val))
         } else do {
           reg16 \<leftarrow> decode_rm_word_register rl;
           OP_DECODE '','';
           imm \<leftarrow> fetch_byte h;
           let imm = (scast imm :: u32);
           OP_DECODE (decode_hex2s imm);
           val \<leftarrow> alu (\<lambda>s. (op_A_word ! rh) (R_FLG s) (get16 reg16 s) (ucast imm));
           let val = (ucast val :: u32);
           if_then (rh \<noteq> 7) (modify (set16 reg16 (ucast val)))
         }
       } else do {
         d32 \<leftarrow> gets MODE_DATA32;
         if d32 then do {
           OP_DECODE ''dword '';
           addr \<leftarrow> decode_rm_address h md rl;
           OP_DECODE '','';
           val \<leftarrow> fetch_data_long h addr;
           imm \<leftarrow> fetch_byte h;
           let imm = (scast imm :: u32);
           OP_DECODE (decode_hex2s imm);
           val \<leftarrow> alu (\<lambda>s. (op_A_long ! rh) (R_FLG s) val imm);
           if_then (rh \<noteq> 7) (store_data_long h addr val)
         } else do {
           OP_DECODE ''word '';
           addr \<leftarrow> decode_rm_address h md rl;
           OP_DECODE '','';
           val \<leftarrow> fetch_data_word h addr;
           let val = (ucast val :: u32);
           imm \<leftarrow> fetch_byte h;
           let imm = (scast imm :: u32);
           OP_DECODE (decode_hex2s imm);
           val \<leftarrow> alu (\<lambda>s. (op_A_word ! rh) (R_FLG s) (ucast val) (ucast imm));
           let val = (ucast val :: u32);
           if_then (rh \<noteq> 7) (store_data_word h addr (ucast val))
         }
       }
     }"

definition x86emuOp_test_byte_RM_R :: "host \<Rightarrow> u8 \<Rightarrow> unit emu" where
  "x86emuOp_test_byte_RM_R h op1 =
     do {
       OP_DECODE ''test '';
       (md, rh, rl) \<leftarrow> fetch_decode_modrm h;
       if md = 3 then do {
         dst \<leftarrow> decode_rm_byte_register rl;
         OP_DECODE '','';
         src \<leftarrow> decode_rm_byte_register rh;
         modify (\<lambda>s. s\<lparr>R_FLG := test_byte (R_FLG s) (get8 dst s) (get8 src s)\<rparr>)
       } else do {
         addr \<leftarrow> decode_rm_address h md rl;
         OP_DECODE '','';
         val \<leftarrow> fetch_data_byte h addr;
         src \<leftarrow> decode_rm_byte_register rh;
         modify (\<lambda>s. s\<lparr>R_FLG := test_byte (R_FLG s) val (get8 src s)\<rparr>)
       }
     }"

definition x86emuOp_test_word_RM_R :: "host \<Rightarrow> u8 \<Rightarrow> unit emu" where
  "x86emuOp_test_word_RM_R h op1 =
     do {
       OP_DECODE ''test '';
       (md, rh, rl) \<leftarrow> fetch_decode_modrm h;
       if md = 3 then do {
         d32 \<leftarrow> gets MODE_DATA32;
         if d32 then do {
           dst32 \<leftarrow> decode_rm_long_register rl;
           OP_DECODE '','';
           src32 \<leftarrow> decode_rm_long_register rh;
           modify (\<lambda>s. s\<lparr>R_FLG := test_long (R_FLG s) (get32 dst32 s) (get32 src32 s)\<rparr>)
         } else do {
           dst16 \<leftarrow> decode_rm_word_register rl;
           OP_DECODE '','';
           src16 \<leftarrow> decode_rm_word_register rh;
           modify (\<lambda>s. s\<lparr>R_FLG := test_word (R_FLG s) (get16 dst16 s) (get16 src16 s)\<rparr>)
         }
       } else do {
         addr \<leftarrow> decode_rm_address h md rl;
         OP_DECODE '','';
         d32 \<leftarrow> gets MODE_DATA32;
         if d32 then do {
           val \<leftarrow> fetch_data_long h addr;
           src32 \<leftarrow> decode_rm_long_register rh;
           modify (\<lambda>s. s\<lparr>R_FLG := test_long (R_FLG s) val (get32 src32 s)\<rparr>)
         } else do {
           val \<leftarrow> fetch_data_word h addr;
           let val = (ucast val :: u32);
           src16 \<leftarrow> decode_rm_word_register rh;
           modify (\<lambda>s. s\<lparr>R_FLG := test_word (R_FLG s) (ucast val) (get16 src16 s)\<rparr>)
         }
       }
     }"

definition x86emuOp_cbw :: "host \<Rightarrow> u8 \<Rightarrow> unit emu" where
  "x86emuOp_cbw h op1 =
     do {
       d32 \<leftarrow> gets MODE_DATA32;
       if d32 then do { OP_DECODE ''cwde''; modify (\<lambda>s. s\<lparr>R_EAX := scast (R_AX s)\<rparr>) }
       else do {
         OP_DECODE ''cbw'';
         modify (\<lambda>s. s\<lparr>R_EAX := set_lo16 (scast (R_AL s)) (R_EAX s)\<rparr>)
       }
     }"

definition x86emuOp_cwd :: "host \<Rightarrow> u8 \<Rightarrow> unit emu" where
  "x86emuOp_cwd h op1 =
     do {
       d32 \<leftarrow> gets MODE_DATA32;
       if d32 then do {
         OP_DECODE ''cdq'';
         modify (\<lambda>s. s\<lparr>R_EDX := - drop_bit 31 (R_EAX s)\<rparr>)
       } else do {
         OP_DECODE ''cwd'';
         modify (\<lambda>s. s\<lparr>R_EDX := set_lo16 (- drop_bit 15 (R_AX s)) (R_EDX s)\<rparr>)
       }
     }"

definition x86emuOp_sahf :: "host \<Rightarrow> u8 \<Rightarrow> unit emu" where
  "x86emuOp_sahf h op1 =
     do {
       OP_DECODE ''sahf'';
       modify (\<lambda>s. s\<lparr>R_FLG := R_FLG s AND 0xffffff00\<rparr>);
       modify (\<lambda>s. s\<lparr>R_FLG := R_FLG s OR (((ucast (R_AH s)) OR F_ALWAYS_ON) AND 0xff)\<rparr>)
     }"

definition x86emuOp_lahf :: "host \<Rightarrow> u8 \<Rightarrow> unit emu" where
  "x86emuOp_lahf h op1 =
     do {
       OP_DECODE ''lahf'';
       modify (\<lambda>s. s\<lparr>R_EAX := set_hi8 (ucast (R_FLG s OR F_ALWAYS_ON)) (R_EAX s)\<rparr>)
     }"

definition x86emuOp_test_AL_IMM :: "host \<Rightarrow> u8 \<Rightarrow> unit emu" where
  "x86emuOp_test_AL_IMM h op1 =
     do {
       OP_DECODE ''test al,'';
       imm \<leftarrow> fetch_byte h;
       OP_DECODE (decode_hex2 (ucast imm));
       modify (\<lambda>s. s\<lparr>R_FLG := test_byte (R_FLG s) (R_AL s) imm\<rparr>)
     }"

definition x86emuOp_test_AX_IMM :: "host \<Rightarrow> u8 \<Rightarrow> unit emu" where
  "x86emuOp_test_AX_IMM h op1 =
     do {
       d32 \<leftarrow> gets MODE_DATA32;
       if d32 then do {
         OP_DECODE ''test eax,'';
         imm \<leftarrow> fetch_long h;
         OP_DECODE (decode_hex8 imm);
         modify (\<lambda>s. s\<lparr>R_FLG := test_long (R_FLG s) (R_EAX s) imm\<rparr>)
       } else do {
         OP_DECODE ''test ax,'';
         imm \<leftarrow> fetch_word h;
         let imm = (ucast imm :: u32);
         OP_DECODE (decode_hex4 imm);
         modify (\<lambda>s. s\<lparr>R_FLG := test_word (R_FLG s) (R_AX s) (ucast imm)\<rparr>)
       }
     }"

definition x86emuOp_aam :: "host \<Rightarrow> u8 \<Rightarrow> unit emu" where
  "x86emuOp_aam h op1 =
     do {
       OP_DECODE ''aam'';
       base \<leftarrow> fetch_byte h;
       if_then (base = 0) INTR_RAISE_DIV0;
       s \<leftarrow> gets id;
       case aam_word (R_FLG s) (R_AL s) base of None \<Rightarrow> host_divide_trap
       | Some (v, flg) \<Rightarrow> do {
           modify (\<lambda>s. s\<lparr>R_FLG := flg\<rparr>);
           modify (\<lambda>s. s\<lparr>R_EAX := set_lo16 v (R_EAX s)\<rparr>)
         }
     }"

definition x86emuOp_aad :: "host \<Rightarrow> u8 \<Rightarrow> unit emu" where
  "x86emuOp_aad h op1 =
     do {
       OP_DECODE ''aad'';
       base \<leftarrow> fetch_byte h;
       v \<leftarrow> alu (\<lambda>s. aad_word (R_FLG s) (R_AX s) base);
       modify (\<lambda>s. s\<lparr>R_EAX := set_lo16 v (R_EAX s)\<rparr>)
     }"

definition x86emuOp_setalc :: "host \<Rightarrow> u8 \<Rightarrow> unit emu" where
  "x86emuOp_setalc h op1 =
     do {
       OP_DECODE ''setalc'';
       modify (\<lambda>s. s\<lparr>R_EAX := set_lo8 (if ACCESS_FLAG F_CF (R_FLG s) then 0xff else 0) (R_EAX s)\<rparr>)
     }"

definition x86emuOp_cmc :: "host \<Rightarrow> u8 \<Rightarrow> unit emu" where
  "x86emuOp_cmc h op1 =
     do {
       OP_DECODE ''cmc'';
       modify (\<lambda>s. s\<lparr>R_FLG := TOGGLE_FLAG F_CF (R_FLG s)\<rparr>)
     }"

definition x86emuOp_opcF6_byte_RM :: "host \<Rightarrow> u8 \<Rightarrow> unit emu" where
  "x86emuOp_opcF6_byte_RM h op1 =
     do {
       (md, rh, rl) \<leftarrow> fetch_decode_modrm h;
       if md = 3 then (if rh = 0 \<or> rh = 1 then do {
           OP_DECODE ''test '';
           reg8 \<leftarrow> decode_rm_byte_register rl;
           OP_DECODE '','';
           imm \<leftarrow> fetch_byte h;
           OP_DECODE (decode_hex2 (ucast imm));
           modify (\<lambda>s. s\<lparr>R_FLG := test_byte (R_FLG s) (get8 reg8 s) imm\<rparr>)
         } else if rh = 2 then do {
           OP_DECODE ''not '';
           reg8 \<leftarrow> decode_rm_byte_register rl;
           v \<leftarrow> alu (\<lambda>s. not_byte (R_FLG s) (get8 reg8 s));
           modify (set8 reg8 v)
         } else if rh = 3 then do {
           OP_DECODE ''neg '';
           reg8 \<leftarrow> decode_rm_byte_register rl;
           v \<leftarrow> alu (\<lambda>s. neg_byte (R_FLG s) (get8 reg8 s));
           modify (set8 reg8 v)
         } else if rh = 4 then do {
           OP_DECODE ''mul '';
           reg8 \<leftarrow> decode_rm_byte_register rl;
           v \<leftarrow> gets (get8 reg8);
           mul_byte v
         } else if rh = 5 then do {
           OP_DECODE ''imul '';
           reg8 \<leftarrow> decode_rm_byte_register rl;
           v \<leftarrow> gets (get8 reg8);
           imul_byte v
         } else if rh = 6 then do {
           OP_DECODE ''div '';
           reg8 \<leftarrow> decode_rm_byte_register rl;
           v \<leftarrow> gets (get8 reg8);
           div_byte v
         } else if rh = 7 then do {
           OP_DECODE ''idiv '';
           reg8 \<leftarrow> decode_rm_byte_register rl;
           v \<leftarrow> gets (get8 reg8);
           idiv_byte v
         } else skip)
       else if rh = 0 \<or> rh = 1 then do {
         OP_DECODE ''test byte '';
         addr \<leftarrow> decode_rm_address h md rl;
         OP_DECODE '','';
         imm \<leftarrow> fetch_byte h;
         OP_DECODE (decode_hex2 (ucast imm));
         val \<leftarrow> fetch_data_byte h addr;
         modify (\<lambda>s. s\<lparr>R_FLG := test_byte (R_FLG s) val imm\<rparr>)
       } else if rh = 2 then do {
         OP_DECODE ''not byte '';
         addr \<leftarrow> decode_rm_address h md rl;
         val \<leftarrow> fetch_data_byte h addr;
         val \<leftarrow> alu (\<lambda>s. not_byte (R_FLG s) val);
         store_data_byte h addr val
       } else if rh = 3 then do {
         OP_DECODE ''neg byte '';
         addr \<leftarrow> decode_rm_address h md rl;
         val \<leftarrow> fetch_data_byte h addr;
         val \<leftarrow> alu (\<lambda>s. neg_byte (R_FLG s) val);
         store_data_byte h addr val
       } else if rh = 4 then do {
         OP_DECODE ''mul byte '';
         addr \<leftarrow> decode_rm_address h md rl;
         val \<leftarrow> fetch_data_byte h addr;
         mul_byte val
       } else if rh = 5 then do {
         OP_DECODE ''imul byte '';
         addr \<leftarrow> decode_rm_address h md rl;
         val \<leftarrow> fetch_data_byte h addr;
         imul_byte val
       } else if rh = 6 then do {
         OP_DECODE ''div byte '';
         addr \<leftarrow> decode_rm_address h md rl;
         val \<leftarrow> fetch_data_byte h addr;
         div_byte val
       } else if rh = 7 then do {
         OP_DECODE ''idiv byte '';
         addr \<leftarrow> decode_rm_address h md rl;
         val \<leftarrow> fetch_data_byte h addr;
         idiv_byte val
       } else skip
     }"

definition x86emuOp_opcF7_word_RM :: "host \<Rightarrow> u8 \<Rightarrow> unit emu" where
  "x86emuOp_opcF7_word_RM h op1 =
     do {
       (md, rh, rl) \<leftarrow> fetch_decode_modrm h;
       if md = 3 then (if rh = 0 \<or> rh = 1 then do {
           OP_DECODE ''test '';
           d32 \<leftarrow> gets MODE_DATA32;
           if d32 then do {
             reg32 \<leftarrow> decode_rm_long_register rl;
             OP_DECODE '','';
             imm \<leftarrow> fetch_long h;
             OP_DECODE (decode_hex8 imm);
             modify (\<lambda>s. s\<lparr>R_FLG := test_long (R_FLG s) (get32 reg32 s) imm\<rparr>)
           } else do {
             reg16 \<leftarrow> decode_rm_word_register rl;
             OP_DECODE '','';
             imm \<leftarrow> fetch_word h;
             let imm = (ucast imm :: u32);
             OP_DECODE (decode_hex4 imm);
             modify (\<lambda>s. s\<lparr>R_FLG := test_word (R_FLG s) (get16 reg16 s) (ucast imm)\<rparr>)
           }
         } else if rh = 2 then do {
           OP_DECODE ''not '';
           d32 \<leftarrow> gets MODE_DATA32;
           if d32 then do {
             reg32 \<leftarrow> decode_rm_long_register rl;
             v \<leftarrow> alu (\<lambda>s. not_long (R_FLG s) (get32 reg32 s));
             modify (set32 reg32 v)
           } else do {
             reg16 \<leftarrow> decode_rm_word_register rl;
             v \<leftarrow> alu (\<lambda>s. not_word (R_FLG s) (get16 reg16 s));
             modify (set16 reg16 v)
           }
         } else if rh = 3 then do {
           OP_DECODE ''neg '';
           d32 \<leftarrow> gets MODE_DATA32;
           if d32 then do {
             reg32 \<leftarrow> decode_rm_long_register rl;
             v \<leftarrow> alu (\<lambda>s. neg_long (R_FLG s) (get32 reg32 s));
             modify (set32 reg32 v)
           } else do {
             reg16 \<leftarrow> decode_rm_word_register rl;
             v \<leftarrow> alu (\<lambda>s. neg_word (R_FLG s) (get16 reg16 s));
             modify (set16 reg16 v)
           }
         } else if rh = 4 then do {
           OP_DECODE ''mul '';
           d32 \<leftarrow> gets MODE_DATA32;
           if d32 then do {
             reg32 \<leftarrow> decode_rm_long_register rl;
             v \<leftarrow> gets (get32 reg32);
             mul_long v
           } else do {
             reg16 \<leftarrow> decode_rm_word_register rl;
             v \<leftarrow> gets (get16 reg16);
             mul_word v
           }
         } else if rh = 5 then do {
           OP_DECODE ''imul '';
           d32 \<leftarrow> gets MODE_DATA32;
           if d32 then do {
             reg32 \<leftarrow> decode_rm_long_register rl;
             v \<leftarrow> gets (get32 reg32);
             imul_long v
           } else do {
             reg16 \<leftarrow> decode_rm_word_register rl;
             v \<leftarrow> gets (get16 reg16);
             imul_word v
           }
         } else if rh = 6 then do {
           OP_DECODE ''div '';
           d32 \<leftarrow> gets MODE_DATA32;
           if d32 then do {
             reg32 \<leftarrow> decode_rm_long_register rl;
             v \<leftarrow> gets (get32 reg32);
             div_long v
           } else do {
             reg16 \<leftarrow> decode_rm_word_register rl;
             v \<leftarrow> gets (get16 reg16);
             div_word v
           }
         } else if rh = 7 then do {
           OP_DECODE ''idiv '';
           d32 \<leftarrow> gets MODE_DATA32;
           if d32 then do {
             reg32 \<leftarrow> decode_rm_long_register rl;
             v \<leftarrow> gets (get32 reg32);
             idiv_long v
           } else do {
             reg16 \<leftarrow> decode_rm_word_register rl;
             v \<leftarrow> gets (get16 reg16);
             idiv_word v
           }
         } else skip)
       else if rh = 0 \<or> rh = 1 then do {
         d32 \<leftarrow> gets MODE_DATA32;
         if d32 then do {
           OP_DECODE ''test dword '';
           addr \<leftarrow> decode_rm_address h md rl;
           OP_DECODE '','';
           imm \<leftarrow> fetch_long h;
           OP_DECODE (decode_hex8 imm);
           val \<leftarrow> fetch_data_long h addr;
           modify (\<lambda>s. s\<lparr>R_FLG := test_long (R_FLG s) val imm\<rparr>)
         } else do {
           OP_DECODE ''test word '';
           addr \<leftarrow> decode_rm_address h md rl;
           OP_DECODE '','';
           imm \<leftarrow> fetch_word h;
           let imm = (ucast imm :: u32);
           OP_DECODE (decode_hex4 imm);
           val \<leftarrow> fetch_data_word h addr;
           let val = (ucast val :: u32);
           modify (\<lambda>s. s\<lparr>R_FLG := test_word (R_FLG s) (ucast val) (ucast imm)\<rparr>)
         }
       } else if rh = 2 then do {
         d32 \<leftarrow> gets MODE_DATA32;
         if d32 then do {
           OP_DECODE ''not dword '';
           addr \<leftarrow> decode_rm_address h md rl;
           val \<leftarrow> fetch_data_long h addr;
           val \<leftarrow> alu (\<lambda>s. not_long (R_FLG s) val);
           store_data_long h addr val
         } else do {
           OP_DECODE ''not word '';
           addr \<leftarrow> decode_rm_address h md rl;
           val \<leftarrow> fetch_data_word h addr;
           let val = (ucast val :: u32);
           val \<leftarrow> alu (\<lambda>s. not_word (R_FLG s) (ucast val));
           let val = (ucast val :: u32);
           store_data_word h addr (ucast val)
         }
       } else if rh = 3 then do {
         d32 \<leftarrow> gets MODE_DATA32;
         if d32 then do {
           OP_DECODE ''neg dword '';
           addr \<leftarrow> decode_rm_address h md rl;
           val \<leftarrow> fetch_data_long h addr;
           val \<leftarrow> alu (\<lambda>s. neg_long (R_FLG s) val);
           store_data_long h addr val
         } else do {
           OP_DECODE ''neg word '';
           addr \<leftarrow> decode_rm_address h md rl;
           val \<leftarrow> fetch_data_word h addr;
           let val = (ucast val :: u32);
           val \<leftarrow> alu (\<lambda>s. neg_word (R_FLG s) (ucast val));
           let val = (ucast val :: u32);
           store_data_word h addr (ucast val)
         }
       } else if rh = 4 then do {
         d32 \<leftarrow> gets MODE_DATA32;
         if d32 then do {
           OP_DECODE ''mul dword '';
           addr \<leftarrow> decode_rm_address h md rl;
           val \<leftarrow> fetch_data_long h addr;
           mul_long val
         } else do {
           OP_DECODE ''mul word '';
           addr \<leftarrow> decode_rm_address h md rl;
           val \<leftarrow> fetch_data_word h addr;
           let val = (ucast val :: u32);
           mul_word (ucast val)
         }
       } else if rh = 5 then do {
         d32 \<leftarrow> gets MODE_DATA32;
         if d32 then do {
           OP_DECODE ''imul dword '';
           addr \<leftarrow> decode_rm_address h md rl;
           val \<leftarrow> fetch_data_long h addr;
           imul_long val
         } else do {
           OP_DECODE ''imul word '';
           addr \<leftarrow> decode_rm_address h md rl;
           val \<leftarrow> fetch_data_word h addr;
           let val = (ucast val :: u32);
           imul_word (ucast val)
         }
       } else if rh = 6 then do {
         d32 \<leftarrow> gets MODE_DATA32;
         if d32 then do {
           OP_DECODE ''div dword '';
           addr \<leftarrow> decode_rm_address h md rl;
           val \<leftarrow> fetch_data_long h addr;
           div_long val
         } else do {
           OP_DECODE ''div word '';
           addr \<leftarrow> decode_rm_address h md rl;
           val \<leftarrow> fetch_data_word h addr;
           let val = (ucast val :: u32);
           div_word (ucast val)
         }
       } else if rh = 7 then do {
         d32 \<leftarrow> gets MODE_DATA32;
         if d32 then do {
           OP_DECODE ''idiv dword '';
           addr \<leftarrow> decode_rm_address h md rl;
           val \<leftarrow> fetch_data_long h addr;
           idiv_long val
         } else do {
           OP_DECODE ''idiv word '';
           addr \<leftarrow> decode_rm_address h md rl;
           val \<leftarrow> fetch_data_word h addr;
           let val = (ucast val :: u32);
           idiv_word (ucast val)
         }
       } else skip
     }"

definition x86emuOp_clc :: "host \<Rightarrow> u8 \<Rightarrow> unit emu" where
  "x86emuOp_clc h op1 =
     do {
       OP_DECODE ''clc'';
       modify (\<lambda>s. s\<lparr>R_FLG := CLEAR_FLAG F_CF (R_FLG s)\<rparr>)
     }"

definition x86emuOp_stc :: "host \<Rightarrow> u8 \<Rightarrow> unit emu" where
  "x86emuOp_stc h op1 =
     do {
       OP_DECODE ''stc'';
       modify (\<lambda>s. s\<lparr>R_FLG := SET_FLAG F_CF (R_FLG s)\<rparr>)
     }"

definition x86emuOp_cli :: "host \<Rightarrow> u8 \<Rightarrow> unit emu" where
  "x86emuOp_cli h op1 =
     do {
       OP_DECODE ''cli'';
       modify (\<lambda>s. s\<lparr>R_FLG := CLEAR_FLAG F_IF (R_FLG s)\<rparr>)
     }"

definition x86emuOp_sti :: "host \<Rightarrow> u8 \<Rightarrow> unit emu" where
  "x86emuOp_sti h op1 =
     do {
       OP_DECODE ''sti'';
       modify (\<lambda>s. s\<lparr>R_FLG := SET_FLAG F_IF (R_FLG s)\<rparr>)
     }"

definition x86emuOp_cld :: "host \<Rightarrow> u8 \<Rightarrow> unit emu" where
  "x86emuOp_cld h op1 =
     do {
       OP_DECODE ''cld'';
       modify (\<lambda>s. s\<lparr>R_FLG := CLEAR_FLAG F_DF (R_FLG s)\<rparr>)
     }"

definition x86emuOp_std :: "host \<Rightarrow> u8 \<Rightarrow> unit emu" where
  "x86emuOp_std h op1 =
     do {
       OP_DECODE ''std'';
       modify (\<lambda>s. s\<lparr>R_FLG := SET_FLAG F_DF (R_FLG s)\<rparr>)
     }"

definition x86emuOp_opcFE_byte_RM :: "host \<Rightarrow> u8 \<Rightarrow> unit emu" where
  "x86emuOp_opcFE_byte_RM h op1 =
     do {
       (md, rh, rl) \<leftarrow> fetch_decode_modrm h;
       if rh = 0 \<or> rh = 1 then do {
         (if rh = 0 then OP_DECODE ''inc ''
           else if rh = 1 then OP_DECODE ''dec '' else skip);
         if md = 3 then do {
           reg8 \<leftarrow> decode_rm_byte_register rl;
           v2 \<leftarrow> (if rh = 0 then alu (\<lambda>s. inc_byte (R_FLG s) (get8 reg8 s)) else alu (\<lambda>s. dec_byte (R_FLG s) (get8 reg8 s)));
           modify (set8 reg8 v2)
         } else do {
           OP_DECODE ''byte '';
           addr \<leftarrow> decode_rm_address h md rl;
           val \<leftarrow> fetch_data_byte h addr;
           val \<leftarrow> (if rh = 0 then alu (\<lambda>s. inc_byte (R_FLG s) val) else alu (\<lambda>s. dec_byte (R_FLG s) val));
           store_data_byte h addr val
         }
       } else INTR_RAISE_UD
     }"

section \<open>The operations respect a discipline\<close>

context discipline
begin

lemma emu_ok_Ops_Arith_1 [handler_oks]:
  "emu_ok (x86emuOp_illegal_op h op)"
  "emu_ok (x86emuOp_op_A_byte_RM_R h op)"
  "emu_ok (x86emuOp_op_A_word_RM_R h op)"
  "emu_ok (x86emuOp_op_A_byte_R_RM h op)"
  unfolding x86emuOp_illegal_op_def x86emuOp_op_A_byte_RM_R_def x86emuOp_op_A_word_RM_R_def
    x86emuOp_op_A_byte_R_RM_def
  by (intro emu_oks)+

lemma emu_ok_Ops_Arith_2 [handler_oks]:
  "emu_ok (x86emuOp_op_A_word_R_RM h op)"
  "emu_ok (x86emuOp_op_A_byte_AL_IMM h op)"
  "emu_ok (x86emuOp_op_A_word_AX_IMM h op)"
  "emu_ok (x86emuOp_daa h op)"
  unfolding x86emuOp_op_A_word_R_RM_def x86emuOp_op_A_byte_AL_IMM_def x86emuOp_op_A_word_AX_IMM_def
    x86emuOp_daa_def
  by (intro emu_oks)+

lemma emu_ok_Ops_Arith_3 [handler_oks]:
  "emu_ok (x86emuOp_das h op)"
  "emu_ok (x86emuOp_aaa h op)"
  "emu_ok (x86emuOp_aas h op)"
  "emu_ok (x86emuOp_inc_AX h op)"
  unfolding x86emuOp_das_def x86emuOp_aaa_def x86emuOp_aas_def
    x86emuOp_inc_AX_def
  by (intro emu_oks)+

lemma emu_ok_Ops_Arith_4 [handler_oks]:
  "emu_ok (x86emuOp_inc_CX h op)"
  "emu_ok (x86emuOp_inc_DX h op)"
  "emu_ok (x86emuOp_inc_BX h op)"
  "emu_ok (x86emuOp_inc_SP h op)"
  unfolding x86emuOp_inc_CX_def x86emuOp_inc_DX_def x86emuOp_inc_BX_def
    x86emuOp_inc_SP_def
  by (intro emu_oks)+

lemma emu_ok_Ops_Arith_5 [handler_oks]:
  "emu_ok (x86emuOp_inc_BP h op)"
  "emu_ok (x86emuOp_inc_SI h op)"
  "emu_ok (x86emuOp_inc_DI h op)"
  "emu_ok (x86emuOp_dec_AX h op)"
  unfolding x86emuOp_inc_BP_def x86emuOp_inc_SI_def x86emuOp_inc_DI_def
    x86emuOp_dec_AX_def
  by (intro emu_oks)+

lemma emu_ok_Ops_Arith_6 [handler_oks]:
  "emu_ok (x86emuOp_dec_CX h op)"
  "emu_ok (x86emuOp_dec_DX h op)"
  "emu_ok (x86emuOp_dec_BX h op)"
  "emu_ok (x86emuOp_dec_SP h op)"
  unfolding x86emuOp_dec_CX_def x86emuOp_dec_DX_def x86emuOp_dec_BX_def
    x86emuOp_dec_SP_def
  by (intro emu_oks)+

lemma emu_ok_Ops_Arith_7 [handler_oks]:
  "emu_ok (x86emuOp_dec_BP h op)"
  "emu_ok (x86emuOp_dec_SI h op)"
  "emu_ok (x86emuOp_dec_DI h op)"
  "emu_ok (x86emuOp_imul_word_IMM h op)"
  unfolding x86emuOp_dec_BP_def x86emuOp_dec_SI_def x86emuOp_dec_DI_def
    x86emuOp_imul_word_IMM_def
  by (intro emu_oks)+

lemma emu_ok_Ops_Arith_8 [handler_oks]:
  "emu_ok (x86emuOp_imul_byte_IMM h op)"
  "emu_ok (x86emuOp_opc80_byte_RM_IMM h op)"
  "emu_ok (x86emuOp_opc81_word_RM_IMM h op)"
  "emu_ok (x86emuOp_opc83_word_RM_IMM h op)"
  unfolding x86emuOp_imul_byte_IMM_def x86emuOp_opc80_byte_RM_IMM_def x86emuOp_opc81_word_RM_IMM_def
    x86emuOp_opc83_word_RM_IMM_def
  by (intro emu_oks)+

lemma emu_ok_Ops_Arith_9 [handler_oks]:
  "emu_ok (x86emuOp_test_byte_RM_R h op)"
  "emu_ok (x86emuOp_test_word_RM_R h op)"
  "emu_ok (x86emuOp_cbw h op)"
  "emu_ok (x86emuOp_cwd h op)"
  unfolding x86emuOp_test_byte_RM_R_def x86emuOp_test_word_RM_R_def x86emuOp_cbw_def
    x86emuOp_cwd_def
  by (intro emu_oks)+

lemma emu_ok_Ops_Arith_10 [handler_oks]:
  "emu_ok (x86emuOp_sahf h op)"
  "emu_ok (x86emuOp_lahf h op)"
  "emu_ok (x86emuOp_test_AL_IMM h op)"
  "emu_ok (x86emuOp_test_AX_IMM h op)"
  unfolding x86emuOp_sahf_def x86emuOp_lahf_def x86emuOp_test_AL_IMM_def
    x86emuOp_test_AX_IMM_def
  by (intro emu_oks)+

lemma emu_ok_Ops_Arith_11 [handler_oks]:
  "emu_ok (x86emuOp_aam h op)"
  "emu_ok (x86emuOp_aad h op)"
  "emu_ok (x86emuOp_setalc h op)"
  "emu_ok (x86emuOp_cmc h op)"
  unfolding x86emuOp_aam_def x86emuOp_aad_def x86emuOp_setalc_def
    x86emuOp_cmc_def
  by (intro emu_oks)+

lemma emu_ok_Ops_Arith_12 [handler_oks]:
  "emu_ok (x86emuOp_opcF6_byte_RM h op)"
  "emu_ok (x86emuOp_opcF7_word_RM h op)"
  "emu_ok (x86emuOp_clc h op)"
  "emu_ok (x86emuOp_stc h op)"
  unfolding x86emuOp_opcF6_byte_RM_def x86emuOp_opcF7_word_RM_def x86emuOp_clc_def
    x86emuOp_stc_def
  by (intro emu_oks)+

lemma emu_ok_Ops_Arith_13 [handler_oks]:
  "emu_ok (x86emuOp_cli h op)"
  "emu_ok (x86emuOp_sti h op)"
  "emu_ok (x86emuOp_cld h op)"
  "emu_ok (x86emuOp_std h op)"
  unfolding x86emuOp_cli_def x86emuOp_sti_def x86emuOp_cld_def
    x86emuOp_std_def
  by (intro emu_oks)+

lemma emu_ok_Ops_Arith_14 [handler_oks]:
  "emu_ok (x86emuOp_opcFE_byte_RM h op)"
  unfolding x86emuOp_opcFE_byte_RM_def
  by (intro emu_oks)

end

end
