(* ===== verification/Ops2_System.thy ===== *)
theory Ops2_System
  imports Ops_Base
begin

text \<open>
  System instructions of two byte opcodes (\<^verbatim>\<open>ops2.c\<close>): descriptor tables, control, debug
  and model specific registers, the identification, hints, and conditional moves, jumps
  and bytes.
\<close>

section \<open>Calls of the client's handlers\<close>

definition call_wrmsr :: "host \<Rightarrow> unit emu" where
  "call_wrmsr h = modify (\<lambda>s. case wrmsr s of Default_msr \<Rightarrow> x86emu_wrmsr s | User_msr n \<Rightarrow> user_msr h n s | No_msr \<Rightarrow> s)"

definition call_rdmsr :: "host \<Rightarrow> unit emu" where
  "call_rdmsr h = modify (\<lambda>s. case rdmsr s of Default_msr \<Rightarrow> x86emu_rdmsr s | User_msr n \<Rightarrow> user_msr h n s | No_msr \<Rightarrow> s)"

definition call_cpuid :: "host \<Rightarrow> unit emu" where
  "call_cpuid h = State (\<lambda>s. case cpuid s of None \<Rightarrow> run_state INTR_RAISE_UD s | Some n \<Rightarrow> ((), user_cpuid h n s))"

context discipline
begin

lemma emu_ok_client_calls [emu_oks]: "emu_ok (call_wrmsr h)" "emu_ok (call_rdmsr h)" "emu_ok (call_cpuid h)"
proof -
  show "emu_ok (call_wrmsr h)"
    by (rule emu_ok_step)
       (auto simp: call_wrmsr_def x86emu_wrmsr_def Let_def sandboxed_def handlers_def R_msr R_kept split: msr_handler.split)
  show "emu_ok (call_rdmsr h)"
    by (rule emu_ok_kept)
       (auto simp: call_rdmsr_def x86emu_rdmsr_def Let_def sandboxed_def kept_def control_def handlers_def split: msr_handler.split)
  show "emu_ok (call_cpuid h)"
    using emu_ok_raise(5) by (auto simp: preserves_def call_cpuid_def sandboxed_def)
qed

end

section \<open>The instructions\<close>

definition x86emuOp2_illegal_op :: "host \<Rightarrow> u8 \<Rightarrow> unit emu" where
  "x86emuOp2_illegal_op h op2 =
     do { OP_DECODE ''illegal opcode''; INTR_RAISE_UD }"

definition x86emuOp2_opc_00 :: "host \<Rightarrow> u8 \<Rightarrow> unit emu" where
  "x86emuOp2_opc_00 h op2 =
     do {
       (md, rh, rl) \<leftarrow> fetch_decode_modrm h;
       if rh = 0 \<or> rh = 1 \<or> rh = 2 \<or> rh = 3 \<or> rh = 4 \<or> rh = 5 then do {
         (if rh = 0 then OP_DECODE ''sldt ''
           else if rh = 1 then OP_DECODE ''str ''
           else if rh = 2 then OP_DECODE ''lldt ''
           else if rh = 3 then OP_DECODE ''ltr ''
           else if rh = 4 then OP_DECODE ''verr ''
           else if rh = 5 then OP_DECODE ''verw '' else skip);
         if md = 3 then do {
           reg16 \<leftarrow> decode_rm_word_register rl;
           if rh = 0 then modify (\<lambda>s. set16 reg16 (sel_sel (ldt s)) s)
           else if rh = 1 then modify (\<lambda>s. set16 reg16 (sel_sel (tr s)) s)
           else if rh = 2 then do { v \<leftarrow> gets (get16 reg16); x86emu_set_seg_register h Ldt v }
           else if rh = 3 then modify (\<lambda>s. s\<lparr>tr := (tr s)\<lparr>sel_sel := get16 reg16 s\<rparr>\<rparr>)
           else if rh = 4 then do {
             b \<leftarrow> gets (\<lambda>s. get16 reg16 s \<noteq> 0);
             if_then b (modify (\<lambda>s. s\<lparr>R_FLG := SET_FLAG F_ZF (R_FLG s)\<rparr>))
           } else if rh = 5 then do {
             b \<leftarrow> gets (\<lambda>s. get16 reg16 s \<noteq> 0);
             if_then b (modify (\<lambda>s. s\<lparr>R_FLG := SET_FLAG F_ZF (R_FLG s)\<rparr>))
           } else skip
         } else do {
           addr \<leftarrow> decode_rm_address h md rl;
           if rh = 0 then do { v2 \<leftarrow> gets (\<lambda>s. sel_sel (ldt s)); store_data_word h addr v2 }
           else if rh = 1 then do { v2 \<leftarrow> gets (\<lambda>s. sel_sel (tr s)); store_data_word h addr v2 }
           else if rh = 2 then do {
             val \<leftarrow> fetch_data_word h addr;
             let val = (ucast val :: u32);
             x86emu_set_seg_register h Ldt (ucast val)
           } else if rh = 3 then do {
             val \<leftarrow> fetch_data_word h addr;
             let val = (ucast val :: u32);
             modify (\<lambda>s. s\<lparr>tr := (tr s)\<lparr>sel_sel := ucast val\<rparr>\<rparr>)
           } else if rh = 4 then do {
             val \<leftarrow> fetch_data_word h addr;
             let val = (ucast val :: u32);
             if_then (val \<noteq> 0) (modify (\<lambda>s. s\<lparr>R_FLG := SET_FLAG F_ZF (R_FLG s)\<rparr>))
           } else if rh = 5 then do {
             val \<leftarrow> fetch_data_word h addr;
             let val = (ucast val :: u32);
             if_then (val \<noteq> 0) (modify (\<lambda>s. s\<lparr>R_FLG := SET_FLAG F_ZF (R_FLG s)\<rparr>))
           } else skip
         }
       } else INTR_RAISE_UD
     }"

definition x86emuOp2_opc_01 :: "host \<Rightarrow> u8 \<Rightarrow> unit emu" where
  "x86emuOp2_opc_01 h op2 =
     do {
       (md, rh, rl) \<leftarrow> fetch_decode_modrm h;
       if ((md = 3) \<and> (rh \<noteq> 4)) \<and> (rh \<noteq> 6) then INTR_RAISE_UD
       else if rh = 0 then do {
         OP_DECODE ''sgdt '';
         addr \<leftarrow> decode_rm_address h md rl;
         base \<leftarrow> gets R_GDT_BASE;
         d32 \<leftarrow> gets MODE_DATA32;
         let base = (if \<not> d32 then base AND 0xffffff else base);
         v3 \<leftarrow> gets (\<lambda>s. ucast (R_GDT_LIMIT s));
         store_data_word h addr v3;
         store_data_long h (addr + 2) base
       } else if rh = 1 then do {
         OP_DECODE ''sidt '';
         addr \<leftarrow> decode_rm_address h md rl;
         base \<leftarrow> gets R_IDT_BASE;
         d32 \<leftarrow> gets MODE_DATA32;
         let base = (if \<not> d32 then base AND 0xffffff else base);
         v3 \<leftarrow> gets (\<lambda>s. ucast (R_IDT_LIMIT s));
         store_data_word h addr v3;
         store_data_long h (addr + 2) base
       } else if rh = 2 then do {
         OP_DECODE ''lgdt '';
         addr \<leftarrow> decode_rm_address h md rl;
         limit \<leftarrow> fetch_data_word h addr;
         base \<leftarrow> fetch_data_long h (addr + 2);
         d32 \<leftarrow> gets MODE_DATA32;
         let base = (if \<not> d32 then base AND 0xffffff else base);
         modify (\<lambda>s. s\<lparr>R_GDT_LIMIT := ucast limit\<rparr>);
         modify (\<lambda>s. s\<lparr>R_GDT_BASE := base\<rparr>)
       } else if rh = 3 then do {
         OP_DECODE ''lidt '';
         addr \<leftarrow> decode_rm_address h md rl;
         limit \<leftarrow> fetch_data_word h addr;
         base \<leftarrow> fetch_data_long h (addr + 2);
         d32 \<leftarrow> gets MODE_DATA32;
         let base = (if \<not> d32 then base AND 0xffffff else base);
         modify (\<lambda>s. s\<lparr>R_IDT_LIMIT := ucast limit\<rparr>);
         modify (\<lambda>s. s\<lparr>R_IDT_BASE := base\<rparr>)
       } else if rh = 4 then do {
         OP_DECODE ''smsw '';
         if md = 3 then do {
           reg16 \<leftarrow> decode_rm_word_register rl;
           modify (\<lambda>s. set16 reg16 (ucast (crx s 0)) s)
         } else do {
           addr \<leftarrow> decode_rm_address h md rl;
           v2 \<leftarrow> gets (\<lambda>s. ucast (crx s 0));
           store_data_word h addr v2
         }
       } else if rh = 5 then INTR_RAISE_UD
       else if rh = 6 then do {
         OP_DECODE ''lmsw '';
         if md = 3 then do {
           reg16 \<leftarrow> decode_rm_word_register rl;
           modify (\<lambda>s. s\<lparr>crx := (crx s)(0 := (crx s 0 AND NOT 0xffff) + (ucast (get16 reg16 s)))\<rparr>)
         } else do {
           addr \<leftarrow> decode_rm_address h md rl;
           val \<leftarrow> fetch_data_word h addr;
           let val = (ucast val :: u32);
           modify (\<lambda>s. s\<lparr>crx := (crx s)(0 := (crx s 0 AND NOT 0xffff) + val)\<rparr>)
         }
       } else if rh = 7 then do { OP_DECODE ''invlpg ''; _ \<leftarrow> decode_rm_address h md rl; skip }
       else skip
     }"

definition x86emuOp2_clts :: "host \<Rightarrow> u8 \<Rightarrow> unit emu" where
  "x86emuOp2_clts h op2 =
     do {
       OP_DECODE ''clts'';
       modify (\<lambda>s. s\<lparr>crx := (crx s)(0 := crx s 0 AND NOT 8)\<rparr>)
     }"

definition x86emuOp2_invd :: "host \<Rightarrow> u8 \<Rightarrow> unit emu" where
  "x86emuOp2_invd h op2 =
     OP_DECODE ''invd''"

definition x86emuOp2_wbinvd :: "host \<Rightarrow> u8 \<Rightarrow> unit emu" where
  "x86emuOp2_wbinvd h op2 =
     OP_DECODE ''wbinvd''"

definition x86emuOp2_prefetch :: "host \<Rightarrow> u8 \<Rightarrow> unit emu" where
  "x86emuOp2_prefetch h op2 =
     do {
       (md, rh, rl) \<leftarrow> fetch_decode_modrm h;
       (if rh = 0 then OP_DECODE ''prefetchnta ''
         else if rh = 1 then OP_DECODE ''prefetcht0 ''
         else if rh = 2 then OP_DECODE ''prefetcht1 ''
         else if rh = 3 then OP_DECODE ''prefetcht2 '' else OP_DECODE ''hint_nop '');
       if md = 3 then do {
         d32 \<leftarrow> gets MODE_DATA32;
         if d32 then do { _ \<leftarrow> decode_rm_long_register rl; skip }
         else do { _ \<leftarrow> decode_rm_word_register rl; skip }
       } else do { OP_DECODE ''byte ''; _ \<leftarrow> decode_rm_address h md rl; skip }
     }"

definition x86emuOp2_hint_nop :: "host \<Rightarrow> u8 \<Rightarrow> unit emu" where
  "x86emuOp2_hint_nop h op2 =
     do {
       OP_DECODE ''hint_nop '';
       (md, rh, rl) \<leftarrow> fetch_decode_modrm h;
       if md = 3 then do {
         d32 \<leftarrow> gets MODE_DATA32;
         if d32 then do { _ \<leftarrow> decode_rm_long_register rl; skip }
         else do { _ \<leftarrow> decode_rm_word_register rl; skip }
       } else do {
         d32 \<leftarrow> gets MODE_DATA32;
         (if d32 then OP_DECODE ''dword '' else OP_DECODE ''word '');
         _ \<leftarrow> decode_rm_address h md rl;
         skip
       }
     }"

definition x86emuOp2_nop :: "host \<Rightarrow> u8 \<Rightarrow> unit emu" where
  "x86emuOp2_nop h op2 =
     do {
       OP_DECODE ''nop '';
       (md, rh, rl) \<leftarrow> fetch_decode_modrm h;
       if md = 3 then do {
         d32 \<leftarrow> gets MODE_DATA32;
         if d32 then do { _ \<leftarrow> decode_rm_long_register rl; skip }
         else do { _ \<leftarrow> decode_rm_word_register rl; skip }
       } else do {
         d32 \<leftarrow> gets MODE_DATA32;
         (if d32 then OP_DECODE ''dword '' else OP_DECODE ''word '');
         _ \<leftarrow> decode_rm_address h md rl;
         skip
       }
     }"

definition x86emuOp2_mov_word_RM_CRx :: "host \<Rightarrow> u8 \<Rightarrow> unit emu" where
  "x86emuOp2_mov_word_RM_CRx h op2 =
     do {
       OP_DECODE ''mov '';
       (md, rh, rl) \<leftarrow> fetch_decode_modrm h;
       if md = 3 then do {
         reg32 \<leftarrow> decode_rm_long_register rl;
         OP_DECODE '',cr'';
         OP_DECODE (decode_hex1 (of_nat rh));
         modify (\<lambda>s. set32 reg32 (crx s rh) s)
       } else INTR_RAISE_UD
     }"

definition x86emuOp2_mov_word_RM_DRx :: "host \<Rightarrow> u8 \<Rightarrow> unit emu" where
  "x86emuOp2_mov_word_RM_DRx h op2 =
     do {
       OP_DECODE ''mov '';
       (md, rh, rl) \<leftarrow> fetch_decode_modrm h;
       if md = 3 then do {
         reg32 \<leftarrow> decode_rm_long_register rl;
         OP_DECODE '',dr'';
         OP_DECODE (decode_hex1 (of_nat rh));
         modify (\<lambda>s. set32 reg32 (drx s rh) s)
       } else INTR_RAISE_UD
     }"

definition x86emuOp2_mov_word_CRx_RM :: "host \<Rightarrow> u8 \<Rightarrow> unit emu" where
  "x86emuOp2_mov_word_CRx_RM h op2 =
     do {
       OP_DECODE ''mov cr'';
       (md, rh, rl) \<leftarrow> fetch_decode_modrm h;
       OP_DECODE (decode_hex1 (of_nat rh));
       OP_DECODE '','';
       if md = 3 then do {
         r \<leftarrow> decode_rm_long_register rl;
         modify (\<lambda>s. s\<lparr>crx := (crx s)(rh := get32 r s)\<rparr>)
       } else INTR_RAISE_UD
     }"

definition x86emuOp2_mov_word_DRx_RM :: "host \<Rightarrow> u8 \<Rightarrow> unit emu" where
  "x86emuOp2_mov_word_DRx_RM h op2 =
     do {
       OP_DECODE ''mov dr'';
       (md, rh, rl) \<leftarrow> fetch_decode_modrm h;
       OP_DECODE (decode_hex1 (of_nat rh));
       OP_DECODE '','';
       if md = 3 then do {
         r \<leftarrow> decode_rm_long_register rl;
         modify (\<lambda>s. s\<lparr>drx := (drx s)(rh := get32 r s)\<rparr>)
       } else INTR_RAISE_UD
     }"

definition x86emuOp2_wrmsr :: "host \<Rightarrow> u8 \<Rightarrow> unit emu" where
  "x86emuOp2_wrmsr h op2 =
     do {
       OP_DECODE ''wrmsr'';
       u \<leftarrow> gets R_ECX;
       if unat u \<ge> X86EMU_MSRS then INTR_RAISE_UD else call_wrmsr h
     }"

definition x86emuOp2_rdtsc :: "host \<Rightarrow> u8 \<Rightarrow> unit emu" where
  "x86emuOp2_rdtsc h op2 =
     do {
       OP_DECODE ''rdtsc'';
       modify (\<lambda>s. s\<lparr>R_EAX := ucast (R_TSC s)\<rparr>);
       modify (\<lambda>s. s\<lparr>R_EDX := ucast (drop_bit 32 (R_TSC s))\<rparr>);
       modify (\<lambda>s. s\<lparr>msr_perm := (msr_perm s)(0x10 := msr_perm s 0x10 OR X86EMU_ACC_R)\<rparr>)
     }"

definition x86emuOp2_rdmsr :: "host \<Rightarrow> u8 \<Rightarrow> unit emu" where
  "x86emuOp2_rdmsr h op2 =
     do {
       OP_DECODE ''rdmsr'';
       u \<leftarrow> gets R_ECX;
       if unat u \<ge> X86EMU_MSRS then INTR_RAISE_UD else call_rdmsr h
     }"

definition x86emuOp2_rdpmc :: "host \<Rightarrow> u8 \<Rightarrow> unit emu" where
  "x86emuOp2_rdpmc h op2 =
     do {
       OP_DECODE ''rdpmc'';
       modify (\<lambda>s. s\<lparr>R_EDX := 0\<rparr>);
       modify (\<lambda>s. s\<lparr>R_EAX := 0\<rparr>)
     }"

definition x86emuOp2_sysenter :: "host \<Rightarrow> u8 \<Rightarrow> unit emu" where
  "x86emuOp2_sysenter h op2 =
     do { OP_DECODE ''sysenter''; INTR_RAISE_UD }"

definition x86emuOp2_sysexit :: "host \<Rightarrow> u8 \<Rightarrow> unit emu" where
  "x86emuOp2_sysexit h op2 =
     do { OP_DECODE ''sysexit''; INTR_RAISE_UD }"

text \<open>
  \<^verbatim>\<open>ACCESS_FLAG\<close> leaves the flag at its place in the register: where two flags are
  compared, in the cases l, nl, le and nle, it is 0x80 that is compared with 0x800.
\<close>

definition x86emuOp2_conditional_move :: "host \<Rightarrow> u8 \<Rightarrow> unit emu" where
  "x86emuOp2_conditional_move h op2 =
     do {
       let noop = False;
       OP_DECODE ''cmov'';
       (md, rh, rl) \<leftarrow> fetch_decode_modrm h;
       noop \<leftarrow> (if op2 AND 0xf = 0 then do {
           OP_DECODE ''o '';
           noop \<leftarrow> gets (\<lambda>s. \<not> (ACCESS_FLAG F_OF (R_FLG s)));
           return noop
         } else if op2 AND 0xf = 1 then do {
           OP_DECODE ''no '';
           noop \<leftarrow> gets (\<lambda>s. ACCESS_FLAG F_OF (R_FLG s));
           return noop
         } else if op2 AND 0xf = 2 then do {
           OP_DECODE ''c '';
           noop \<leftarrow> gets (\<lambda>s. \<not> (ACCESS_FLAG F_CF (R_FLG s)));
           return noop
         } else if op2 AND 0xf = 3 then do {
           OP_DECODE ''nc '';
           noop \<leftarrow> gets (\<lambda>s. ACCESS_FLAG F_CF (R_FLG s));
           return noop
         } else if op2 AND 0xf = 4 then do {
           OP_DECODE ''z '';
           noop \<leftarrow> gets (\<lambda>s. \<not> (ACCESS_FLAG F_ZF (R_FLG s)));
           return noop
         } else if op2 AND 0xf = 5 then do {
           OP_DECODE ''nz '';
           noop \<leftarrow> gets (\<lambda>s. ACCESS_FLAG F_ZF (R_FLG s));
           return noop
         } else if op2 AND 0xf = 6 then do {
           OP_DECODE ''be '';
           noop \<leftarrow> gets (\<lambda>s. (\<not> (ACCESS_FLAG F_CF (R_FLG s))) \<and> (\<not> (ACCESS_FLAG F_ZF (R_FLG s))));
           return noop
         } else if op2 AND 0xf = 7 then do {
           OP_DECODE ''nbe '';
           noop \<leftarrow> gets (\<lambda>s. (ACCESS_FLAG F_CF (R_FLG s)) \<or> (ACCESS_FLAG F_ZF (R_FLG s)));
           return noop
         } else if op2 AND 0xf = 8 then do {
           OP_DECODE ''s '';
           noop \<leftarrow> gets (\<lambda>s. \<not> (ACCESS_FLAG F_SF (R_FLG s)));
           return noop
         } else if op2 AND 0xf = 9 then do {
           OP_DECODE ''ns '';
           noop \<leftarrow> gets (\<lambda>s. ACCESS_FLAG F_SF (R_FLG s));
           return noop
         } else if op2 AND 0xf = 0xa then do {
           OP_DECODE ''p '';
           noop \<leftarrow> gets (\<lambda>s. \<not> (ACCESS_FLAG F_PF (R_FLG s)));
           return noop
         } else if op2 AND 0xf = 0xb then do {
           OP_DECODE ''np '';
           noop \<leftarrow> gets (\<lambda>s. ACCESS_FLAG F_PF (R_FLG s));
           return noop
         } else if op2 AND 0xf = 0xc then do {
           OP_DECODE ''l '';
           noop \<leftarrow> gets (\<lambda>s. (R_FLG s AND F_SF) = (R_FLG s AND F_OF));
           return noop
         } else if op2 AND 0xf = 0xd then do {
           OP_DECODE ''nl '';
           noop \<leftarrow> gets (\<lambda>s. (R_FLG s AND F_SF) \<noteq> (R_FLG s AND F_OF));
           return noop
         } else if op2 AND 0xf = 0xe then do {
           OP_DECODE ''le '';
           noop \<leftarrow> gets (\<lambda>s. (\<not> (ACCESS_FLAG F_ZF (R_FLG s))) \<and> ((R_FLG s AND F_SF) = (R_FLG s AND F_OF)));
           return noop
         } else if op2 AND 0xf = 0xf then do {
           OP_DECODE ''nle '';
           noop \<leftarrow> gets (\<lambda>s. (ACCESS_FLAG F_ZF (R_FLG s)) \<or> ((R_FLG s AND F_SF) \<noteq> (R_FLG s AND F_OF)));
           return noop
         } else return noop);
       if md = 3 then do {
         d32 \<leftarrow> gets MODE_DATA32;
         if d32 then do {
           dst32 \<leftarrow> decode_rm_long_register rh;
           OP_DECODE '','';
           src32 \<leftarrow> decode_rm_long_register rl;
           if_then (\<not> noop) (modify (\<lambda>s. set32 dst32 (get32 src32 s) s))
         } else do {
           dst16 \<leftarrow> decode_rm_word_register rh;
           OP_DECODE '','';
           src16 \<leftarrow> decode_rm_word_register rl;
           if_then (\<not> noop) (modify (\<lambda>s. set16 dst16 (get16 src16 s) s))
         }
       } else do {
         d32 \<leftarrow> gets MODE_DATA32;
         if d32 then do {
           dst32 \<leftarrow> decode_rm_long_register rh;
           OP_DECODE '','';
           addr \<leftarrow> decode_rm_address h md rl;
           if_then (\<not> noop) (do { v2 \<leftarrow> fetch_data_long h addr; modify (set32 dst32 v2) })
         } else do {
           dst16 \<leftarrow> decode_rm_word_register rh;
           OP_DECODE '','';
           addr \<leftarrow> decode_rm_address h md rl;
           if_then (\<not> noop) (do { v2 \<leftarrow> fetch_data_word h addr; modify (set16 dst16 v2) })
         }
       }
     }"

definition x86emuOp2_long_jump :: "host \<Rightarrow> u8 \<Rightarrow> unit emu" where
  "x86emuOp2_long_jump h op2 =
     do {
       let type = unat (op2 AND 0xf);
       OP_DECODE ''j'';
       decode_cond type;
       d32 \<leftarrow> gets MODE_DATA32;
       ofs \<leftarrow> (if d32 then fetch_long h
         else do { ofs \<leftarrow> fetch_word h; let ofs = (scast ofs :: u32); return ofs });
       eip \<leftarrow> gets (\<lambda>s. R_EIP s + ofs);
       d32 \<leftarrow> gets MODE_DATA32;
       let eip = (if \<not> d32 then eip AND 0xffff else eip);
       DECODE_HEX_ADDR eip;
       b2 \<leftarrow> gets (eval_condition type);
       if_then b2 (modify (\<lambda>s. s\<lparr>R_EIP := eip\<rparr>))
     }"

definition x86emuOp2_set_byte :: "host \<Rightarrow> u8 \<Rightarrow> unit emu" where
  "x86emuOp2_set_byte h op2 =
     do {
       let type = unat (op2 AND 0xf);
       OP_DECODE ''set'';
       decode_cond type;
       (md, rh, rl) \<leftarrow> fetch_decode_modrm h;
       if md = 3 then do {
         reg8 \<leftarrow> decode_rm_byte_register rl;
         modify (\<lambda>s. set8 reg8 (if eval_condition type s then 1 else 0) s)
       } else do {
         addr \<leftarrow> decode_rm_address h md rl;
         v2 \<leftarrow> gets (\<lambda>s. (if eval_condition type s then 1 else 0));
         store_data_byte h addr v2
       }
     }"

definition x86emuOp2_push_FS :: "host \<Rightarrow> u8 \<Rightarrow> unit emu" where
  "x86emuOp2_push_FS h op2 =
     do {
       OP_DECODE ''push fs'';
       d32 \<leftarrow> gets MODE_DATA32;
       if d32 then do { v \<leftarrow> gets (\<lambda>s. ucast (sel_sel (seg s R_FS_INDEX))); push_long h v }
       else do { v \<leftarrow> gets (\<lambda>s. sel_sel (seg s R_FS_INDEX)); push_word h v }
     }"

definition x86emuOp2_pop_FS :: "host \<Rightarrow> u8 \<Rightarrow> unit emu" where
  "x86emuOp2_pop_FS h op2 =
     do {
       OP_DECODE ''pop fs'';
       d32 \<leftarrow> gets MODE_DATA32;
       v2 \<leftarrow> (if d32 then pop_long h else do { v \<leftarrow> pop_word h; return (ucast v) });
       x86emu_set_seg_register h (Seg R_FS_INDEX) (ucast v2)
     }"

definition x86emuOp2_cpuid :: "host \<Rightarrow> u8 \<Rightarrow> unit emu" where
  "x86emuOp2_cpuid h op2 =
     do {
       OP_DECODE ''cpuid '';
       call_cpuid h
     }"

definition x86emuOp2_push_GS :: "host \<Rightarrow> u8 \<Rightarrow> unit emu" where
  "x86emuOp2_push_GS h op2 =
     do {
       OP_DECODE ''push gs'';
       d32 \<leftarrow> gets MODE_DATA32;
       if d32 then do { v \<leftarrow> gets (\<lambda>s. ucast (sel_sel (seg s R_GS_INDEX))); push_long h v }
       else do { v \<leftarrow> gets (\<lambda>s. sel_sel (seg s R_GS_INDEX)); push_word h v }
     }"

definition x86emuOp2_pop_GS :: "host \<Rightarrow> u8 \<Rightarrow> unit emu" where
  "x86emuOp2_pop_GS h op2 =
     do {
       OP_DECODE ''pop gs'';
       d32 \<leftarrow> gets MODE_DATA32;
       v2 \<leftarrow> (if d32 then pop_long h else do { v \<leftarrow> pop_word h; return (ucast v) });
       x86emu_set_seg_register h (Seg R_GS_INDEX) (ucast v2)
     }"

definition x86emuOp2_lss_R_IMM :: "host \<Rightarrow> u8 \<Rightarrow> unit emu" where
  "x86emuOp2_lss_R_IMM h op2 =
     do {
       OP_DECODE ''lss '';
       (md, rh, rl) \<leftarrow> fetch_decode_modrm h;
       if md = 3 then INTR_RAISE_UD else do {
         d32 \<leftarrow> gets MODE_DATA32;
         addr \<leftarrow> (if d32 then do {
             reg32 \<leftarrow> decode_rm_long_register rh;
             OP_DECODE '','';
             addr \<leftarrow> decode_rm_address h md rl;
             v2 \<leftarrow> fetch_data_long h addr;
             modify (set32 reg32 v2);
             let addr = (addr + 4 :: u32);
             return addr
           } else do {
             reg16 \<leftarrow> decode_rm_word_register rh;
             OP_DECODE '','';
             addr \<leftarrow> decode_rm_address h md rl;
             v2 \<leftarrow> fetch_data_word h addr;
             modify (set16 reg16 v2);
             let addr = (addr + 2 :: u32);
             return addr
           });
         v \<leftarrow> fetch_data_word h addr;
         x86emu_set_seg_register h (Seg R_SS_INDEX) v
       }
     }"

definition x86emuOp2_lfs_R_IMM :: "host \<Rightarrow> u8 \<Rightarrow> unit emu" where
  "x86emuOp2_lfs_R_IMM h op2 =
     do {
       OP_DECODE ''lfs '';
       (md, rh, rl) \<leftarrow> fetch_decode_modrm h;
       if md = 3 then INTR_RAISE_UD else do {
         d32 \<leftarrow> gets MODE_DATA32;
         addr \<leftarrow> (if d32 then do {
             reg32 \<leftarrow> decode_rm_long_register rh;
             OP_DECODE '','';
             addr \<leftarrow> decode_rm_address h md rl;
             v2 \<leftarrow> fetch_data_long h addr;
             modify (set32 reg32 v2);
             let addr = (addr + 4 :: u32);
             return addr
           } else do {
             reg16 \<leftarrow> decode_rm_word_register rh;
             OP_DECODE '','';
             addr \<leftarrow> decode_rm_address h md rl;
             v2 \<leftarrow> fetch_data_word h addr;
             modify (set16 reg16 v2);
             let addr = (addr + 2 :: u32);
             return addr
           });
         v \<leftarrow> fetch_data_word h addr;
         x86emu_set_seg_register h (Seg R_FS_INDEX) v
       }
     }"

definition x86emuOp2_lgs_R_IMM :: "host \<Rightarrow> u8 \<Rightarrow> unit emu" where
  "x86emuOp2_lgs_R_IMM h op2 =
     do {
       OP_DECODE ''lgs '';
       (md, rh, rl) \<leftarrow> fetch_decode_modrm h;
       if md = 3 then INTR_RAISE_UD else do {
         d32 \<leftarrow> gets MODE_DATA32;
         addr \<leftarrow> (if d32 then do {
             reg32 \<leftarrow> decode_rm_long_register rh;
             OP_DECODE '','';
             addr \<leftarrow> decode_rm_address h md rl;
             v2 \<leftarrow> fetch_data_long h addr;
             modify (set32 reg32 v2);
             let addr = (addr + 4 :: u32);
             return addr
           } else do {
             reg16 \<leftarrow> decode_rm_word_register rh;
             OP_DECODE '','';
             addr \<leftarrow> decode_rm_address h md rl;
             v2 \<leftarrow> fetch_data_word h addr;
             modify (set16 reg16 v2);
             let addr = (addr + 2 :: u32);
             return addr
           });
         v \<leftarrow> fetch_data_word h addr;
         x86emu_set_seg_register h (Seg R_GS_INDEX) v
       }
     }"

section \<open>The operations respect a discipline\<close>

context discipline
begin

lemma emu_ok_Ops2_System_1 [handler_oks]:
  "emu_ok (x86emuOp2_illegal_op h op)"
  "emu_ok (x86emuOp2_opc_00 h op)"
  "emu_ok (x86emuOp2_opc_01 h op)"
  "emu_ok (x86emuOp2_clts h op)"
  unfolding x86emuOp2_illegal_op_def x86emuOp2_opc_00_def x86emuOp2_opc_01_def
    x86emuOp2_clts_def
  by (intro emu_oks)+

lemma emu_ok_Ops2_System_2 [handler_oks]:
  "emu_ok (x86emuOp2_invd h op)"
  "emu_ok (x86emuOp2_wbinvd h op)"
  "emu_ok (x86emuOp2_prefetch h op)"
  "emu_ok (x86emuOp2_hint_nop h op)"
  unfolding x86emuOp2_invd_def x86emuOp2_wbinvd_def x86emuOp2_prefetch_def
    x86emuOp2_hint_nop_def
  by (intro emu_oks)+

lemma emu_ok_Ops2_System_3 [handler_oks]:
  "emu_ok (x86emuOp2_nop h op)"
  "emu_ok (x86emuOp2_mov_word_RM_CRx h op)"
  "emu_ok (x86emuOp2_mov_word_RM_DRx h op)"
  "emu_ok (x86emuOp2_mov_word_CRx_RM h op)"
  unfolding x86emuOp2_nop_def x86emuOp2_mov_word_RM_CRx_def x86emuOp2_mov_word_RM_DRx_def
    x86emuOp2_mov_word_CRx_RM_def
  by (intro emu_oks)+

lemma emu_ok_Ops2_System_4 [handler_oks]:
  "emu_ok (x86emuOp2_mov_word_DRx_RM h op)"
  "emu_ok (x86emuOp2_wrmsr h op)"
  "emu_ok (x86emuOp2_rdtsc h op)"
  "emu_ok (x86emuOp2_rdmsr h op)"
  unfolding x86emuOp2_mov_word_DRx_RM_def x86emuOp2_wrmsr_def x86emuOp2_rdtsc_def
    x86emuOp2_rdmsr_def
  by (intro emu_oks)+

lemma emu_ok_Ops2_System_5 [handler_oks]:
  "emu_ok (x86emuOp2_rdpmc h op)"
  "emu_ok (x86emuOp2_sysenter h op)"
  "emu_ok (x86emuOp2_sysexit h op)"
  "emu_ok (x86emuOp2_conditional_move h op)"
  unfolding x86emuOp2_rdpmc_def x86emuOp2_sysenter_def x86emuOp2_sysexit_def
    x86emuOp2_conditional_move_def
  by (intro emu_oks)+

lemma emu_ok_Ops2_System_6 [handler_oks]:
  "emu_ok (x86emuOp2_long_jump h op)"
  "emu_ok (x86emuOp2_set_byte h op)"
  "emu_ok (x86emuOp2_push_FS h op)"
  "emu_ok (x86emuOp2_pop_FS h op)"
  unfolding x86emuOp2_long_jump_def x86emuOp2_set_byte_def x86emuOp2_push_FS_def
    x86emuOp2_pop_FS_def
  by (intro emu_oks)+

lemma emu_ok_Ops2_System_7 [handler_oks]:
  "emu_ok (x86emuOp2_cpuid h op)"
  "emu_ok (x86emuOp2_push_GS h op)"
  "emu_ok (x86emuOp2_pop_GS h op)"
  "emu_ok (x86emuOp2_lss_R_IMM h op)"
  unfolding x86emuOp2_cpuid_def x86emuOp2_push_GS_def x86emuOp2_pop_GS_def
    x86emuOp2_lss_R_IMM_def
  by (intro emu_oks)+

lemma emu_ok_Ops2_System_8 [handler_oks]:
  "emu_ok (x86emuOp2_lfs_R_IMM h op)"
  "emu_ok (x86emuOp2_lgs_R_IMM h op)"
  unfolding x86emuOp2_lfs_R_IMM_def x86emuOp2_lgs_R_IMM_def
  by (intro emu_oks)+

end

end
