(* ===== verification/Ops2_Bits.thy ===== *)
theory Ops2_Bits
  imports Ops_Base
begin

text \<open>
  Bit tests, scans, double shifts, \<^verbatim>\<open>imul\<close>, moves with extension and \<^verbatim>\<open>bswap\<close> of two byte
  opcodes (\<^verbatim>\<open>ops2.c\<close>).
\<close>

section \<open>Bit scans\<close>

text \<open>
  \<^verbatim>\<open>for(cnt = 0; cnt < n; cnt++) if((val >> cnt) & 1) break;\<close> and
  \<^verbatim>\<open>for(cnt = n; cnt > 0; cnt--) if((val >> cnt) & 1) break;\<close>
\<close>

function scan_up :: "nat \<Rightarrow> nat \<Rightarrow> u32 \<Rightarrow> nat" where
  "scan_up cnt n val = (if cnt < n then if drop_bit cnt val AND 1 \<noteq> 0 then cnt else scan_up (cnt + 1) n val else cnt)"
  by auto
termination by (relation "measure (\<lambda>(cnt, n, _). n - cnt)") auto

declare scan_up.simps [simp del]

primrec scan_down :: "nat \<Rightarrow> u32 \<Rightarrow> nat" where
  "scan_down 0 val = 0"
| "scan_down (Suc n) val = (if drop_bit (Suc n) val AND 1 \<noteq> 0 then Suc n else scan_down n val)"

section \<open>The instructions\<close>

definition x86emuOp2_bt_R :: "host \<Rightarrow> u8 \<Rightarrow> unit emu" where
  "x86emuOp2_bt_R h op2 =
     do {
       OP_DECODE ''bt '';
       (md, rh, rl) \<leftarrow> fetch_decode_modrm h;
       if md = 3 then do {
         d32 \<leftarrow> gets MODE_DATA32;
         if d32 then do {
           reg32 \<leftarrow> decode_rm_long_register rl;
           OP_DECODE '','';
           r \<leftarrow> decode_rm_long_register rh;
           msk \<leftarrow> gets (\<lambda>s. push_bit (unat (get32 r s AND 0x1f)) (1 :: u32));
           modify (\<lambda>s. s\<lparr>R_FLG := CONDITIONAL_SET_FLAG (get32 reg32 s AND msk \<noteq> 0) F_CF (R_FLG s)\<rparr>)
         } else do {
           reg16 \<leftarrow> decode_rm_word_register rl;
           OP_DECODE '','';
           r \<leftarrow> decode_rm_word_register rh;
           msk \<leftarrow> gets (\<lambda>s. push_bit (unat ((ucast (get16 r s) :: u32) AND 0x0f)) (1 :: u32));
           modify (\<lambda>s. s\<lparr>R_FLG := CONDITIONAL_SET_FLAG ((ucast (get16 reg16 s)) AND msk \<noteq> 0) F_CF (R_FLG s)\<rparr>)
         }
       } else do {
         addr \<leftarrow> decode_rm_address h md rl;
         OP_DECODE '','';
         d32 \<leftarrow> gets MODE_DATA32;
         if d32 then do {
           r2 \<leftarrow> decode_rm_long_register rh;
           disp \<leftarrow> gets (get32 r2);
           let msk = (push_bit (unat (disp AND 0x1f)) (1 :: u32) :: u32);
           let disp = (signed_drop_bit 5 disp :: u32);
           val \<leftarrow> fetch_data_long h (addr + disp);
           modify (\<lambda>s. s\<lparr>R_FLG := CONDITIONAL_SET_FLAG (val AND msk \<noteq> 0) F_CF (R_FLG s)\<rparr>)
         } else do {
           r2 \<leftarrow> decode_rm_word_register rh;
           disp \<leftarrow> gets (\<lambda>s. scast (get16 r2 s) :: u32);
           let msk = (push_bit (unat (disp AND 0x0f)) (1 :: u32) :: u32);
           let disp = (signed_drop_bit 4 disp :: u32);
           val \<leftarrow> fetch_data_word h (addr + disp);
           let val = (ucast val :: u32);
           modify (\<lambda>s. s\<lparr>R_FLG := CONDITIONAL_SET_FLAG (val AND msk \<noteq> 0) F_CF (R_FLG s)\<rparr>)
         }
       }
     }"

definition x86emuOp2_shld_IMM :: "host \<Rightarrow> u8 \<Rightarrow> unit emu" where
  "x86emuOp2_shld_IMM h op2 =
     do {
       OP_DECODE ''shld '';
       (md, rh, rl) \<leftarrow> fetch_decode_modrm h;
       if md = 3 then do {
         d32 \<leftarrow> gets MODE_DATA32;
         if d32 then do {
           dst32 \<leftarrow> decode_rm_long_register rl;
           OP_DECODE '','';
           src32 \<leftarrow> decode_rm_long_register rh;
           OP_DECODE '','';
           imm \<leftarrow> fetch_byte h;
           OP_DECODE (decode_hex2 (ucast imm));
           v \<leftarrow> alu (\<lambda>s. shld_long (R_FLG s) (get32 dst32 s) (get32 src32 s) imm);
           modify (set32 dst32 v)
         } else do {
           dst16 \<leftarrow> decode_rm_word_register rl;
           OP_DECODE '','';
           src16 \<leftarrow> decode_rm_word_register rh;
           OP_DECODE '','';
           imm \<leftarrow> fetch_byte h;
           OP_DECODE (decode_hex2 (ucast imm));
           v \<leftarrow> alu (\<lambda>s. shld_word (R_FLG s) (get16 dst16 s) (get16 src16 s) imm);
           modify (set16 dst16 v)
         }
       } else do {
         addr \<leftarrow> decode_rm_address h md rl;
         OP_DECODE '','';
         d32 \<leftarrow> gets MODE_DATA32;
         if d32 then do {
           src32 \<leftarrow> decode_rm_long_register rh;
           OP_DECODE '','';
           imm \<leftarrow> fetch_byte h;
           OP_DECODE (decode_hex2 (ucast imm));
           val \<leftarrow> fetch_data_long h addr;
           val \<leftarrow> alu (\<lambda>s. shld_long (R_FLG s) val (get32 src32 s) imm);
           store_data_long h addr val
         } else do {
           src16 \<leftarrow> decode_rm_word_register rh;
           OP_DECODE '','';
           imm \<leftarrow> fetch_byte h;
           OP_DECODE (decode_hex2 (ucast imm));
           val \<leftarrow> fetch_data_word h addr;
           let val = (ucast val :: u32);
           val \<leftarrow> alu (\<lambda>s. shld_word (R_FLG s) (ucast val) (get16 src16 s) imm);
           let val = (ucast val :: u32);
           store_data_word h addr (ucast val)
         }
       }
     }"

definition x86emuOp2_shld_CL :: "host \<Rightarrow> u8 \<Rightarrow> unit emu" where
  "x86emuOp2_shld_CL h op2 =
     do {
       OP_DECODE ''shld '';
       (md, rh, rl) \<leftarrow> fetch_decode_modrm h;
       if md = 3 then do {
         d32 \<leftarrow> gets MODE_DATA32;
         if d32 then do {
           dst32 \<leftarrow> decode_rm_long_register rl;
           OP_DECODE '','';
           src32 \<leftarrow> decode_rm_long_register rh;
           OP_DECODE '',cl'';
           v \<leftarrow> alu (\<lambda>s. shld_long (R_FLG s) (get32 dst32 s) (get32 src32 s) (R_CL s));
           modify (set32 dst32 v)
         } else do {
           dst16 \<leftarrow> decode_rm_word_register rl;
           OP_DECODE '','';
           src16 \<leftarrow> decode_rm_word_register rh;
           OP_DECODE '',cl'';
           v \<leftarrow> alu (\<lambda>s. shld_word (R_FLG s) (get16 dst16 s) (get16 src16 s) (R_CL s));
           modify (set16 dst16 v)
         }
       } else do {
         addr \<leftarrow> decode_rm_address h md rl;
         OP_DECODE '','';
         d32 \<leftarrow> gets MODE_DATA32;
         if d32 then do {
           src32 \<leftarrow> decode_rm_long_register rh;
           OP_DECODE '',cl'';
           val \<leftarrow> fetch_data_long h addr;
           val \<leftarrow> alu (\<lambda>s. shld_long (R_FLG s) val (get32 src32 s) (R_CL s));
           store_data_long h addr val
         } else do {
           src16 \<leftarrow> decode_rm_word_register rh;
           OP_DECODE '',cl'';
           val \<leftarrow> fetch_data_word h addr;
           let val = (ucast val :: u32);
           val \<leftarrow> alu (\<lambda>s. shld_word (R_FLG s) (ucast val) (get16 src16 s) (R_CL s));
           let val = (ucast val :: u32);
           store_data_word h addr (ucast val)
         }
       }
     }"

definition x86emuOp2_bts_R :: "host \<Rightarrow> u8 \<Rightarrow> unit emu" where
  "x86emuOp2_bts_R h op2 =
     do {
       OP_DECODE ''bts '';
       (md, rh, rl) \<leftarrow> fetch_decode_modrm h;
       if md = 3 then do {
         d32 \<leftarrow> gets MODE_DATA32;
         if d32 then do {
           reg32 \<leftarrow> decode_rm_long_register rl;
           OP_DECODE '','';
           r \<leftarrow> decode_rm_long_register rh;
           msk \<leftarrow> gets (\<lambda>s. push_bit (unat (get32 r s AND 0x1f)) (1 :: u32));
           modify (\<lambda>s. s\<lparr>R_FLG := CONDITIONAL_SET_FLAG (get32 reg32 s AND msk \<noteq> 0) F_CF (R_FLG s)\<rparr>);
           modify (\<lambda>s. set32 reg32 (get32 reg32 s OR msk) s)
         } else do {
           reg16 \<leftarrow> decode_rm_word_register rl;
           OP_DECODE '','';
           r \<leftarrow> decode_rm_word_register rh;
           msk \<leftarrow> gets (\<lambda>s. push_bit (unat ((ucast (get16 r s) :: u32) AND 0x0f)) (1 :: u32));
           modify (\<lambda>s. s\<lparr>R_FLG := CONDITIONAL_SET_FLAG ((ucast (get16 reg16 s)) AND msk \<noteq> 0) F_CF (R_FLG s)\<rparr>);
           modify (\<lambda>s. set16 reg16 (get16 reg16 s OR ucast msk) s)
         }
       } else do {
         addr \<leftarrow> decode_rm_address h md rl;
         OP_DECODE '','';
         d32 \<leftarrow> gets MODE_DATA32;
         if d32 then do {
           r2 \<leftarrow> decode_rm_long_register rh;
           disp \<leftarrow> gets (get32 r2);
           let msk = (push_bit (unat (disp AND 0x1f)) (1 :: u32) :: u32);
           let disp = (signed_drop_bit 5 disp :: u32);
           val \<leftarrow> fetch_data_long h (addr + disp);
           modify (\<lambda>s. s\<lparr>R_FLG := CONDITIONAL_SET_FLAG (val AND msk \<noteq> 0) F_CF (R_FLG s)\<rparr>);
           store_data_long h (addr + disp) (val OR msk)
         } else do {
           r2 \<leftarrow> decode_rm_word_register rh;
           disp \<leftarrow> gets (\<lambda>s. scast (get16 r2 s) :: u32);
           let msk = (push_bit (unat (disp AND 0x0f)) (1 :: u32) :: u32);
           let disp = (signed_drop_bit 5 disp :: u32);
           val \<leftarrow> fetch_data_word h (addr + disp);
           let val = (ucast val :: u32);
           modify (\<lambda>s. s\<lparr>R_FLG := CONDITIONAL_SET_FLAG (val AND msk \<noteq> 0) F_CF (R_FLG s)\<rparr>);
           store_data_word h (addr + disp) (ucast (val OR msk))
         }
       }
     }"

definition x86emuOp2_shrd_IMM :: "host \<Rightarrow> u8 \<Rightarrow> unit emu" where
  "x86emuOp2_shrd_IMM h op2 =
     do {
       OP_DECODE ''shrd '';
       (md, rh, rl) \<leftarrow> fetch_decode_modrm h;
       if md = 3 then do {
         d32 \<leftarrow> gets MODE_DATA32;
         if d32 then do {
           dst32 \<leftarrow> decode_rm_long_register rl;
           OP_DECODE '','';
           src32 \<leftarrow> decode_rm_long_register rh;
           OP_DECODE '','';
           imm \<leftarrow> fetch_byte h;
           OP_DECODE (decode_hex2 (ucast imm));
           v \<leftarrow> alu (\<lambda>s. shrd_long (R_FLG s) (get32 dst32 s) (get32 src32 s) imm);
           modify (set32 dst32 v)
         } else do {
           dst16 \<leftarrow> decode_rm_word_register rl;
           OP_DECODE '','';
           src16 \<leftarrow> decode_rm_word_register rh;
           OP_DECODE '','';
           imm \<leftarrow> fetch_byte h;
           OP_DECODE (decode_hex2 (ucast imm));
           v \<leftarrow> alu (\<lambda>s. shrd_word (R_FLG s) (get16 dst16 s) (get16 src16 s) imm);
           modify (set16 dst16 v)
         }
       } else do {
         addr \<leftarrow> decode_rm_address h md rl;
         OP_DECODE '','';
         d32 \<leftarrow> gets MODE_DATA32;
         if d32 then do {
           src32 \<leftarrow> decode_rm_long_register rh;
           OP_DECODE '','';
           imm \<leftarrow> fetch_byte h;
           OP_DECODE (decode_hex2 (ucast imm));
           val \<leftarrow> fetch_data_long h addr;
           val \<leftarrow> alu (\<lambda>s. shrd_long (R_FLG s) val (get32 src32 s) imm);
           store_data_long h addr val
         } else do {
           src16 \<leftarrow> decode_rm_word_register rh;
           OP_DECODE '','';
           imm \<leftarrow> fetch_byte h;
           OP_DECODE (decode_hex2 (ucast imm));
           val \<leftarrow> fetch_data_word h addr;
           let val = (ucast val :: u32);
           val \<leftarrow> alu (\<lambda>s. shrd_word (R_FLG s) (ucast val) (get16 src16 s) imm);
           let val = (ucast val :: u32);
           store_data_word h addr (ucast val)
         }
       }
     }"

definition x86emuOp2_shrd_CL :: "host \<Rightarrow> u8 \<Rightarrow> unit emu" where
  "x86emuOp2_shrd_CL h op2 =
     do {
       OP_DECODE ''shrd '';
       (md, rh, rl) \<leftarrow> fetch_decode_modrm h;
       if md = 3 then do {
         d32 \<leftarrow> gets MODE_DATA32;
         if d32 then do {
           dst32 \<leftarrow> decode_rm_long_register rl;
           OP_DECODE '','';
           src32 \<leftarrow> decode_rm_long_register rh;
           OP_DECODE '',cl'';
           v \<leftarrow> alu (\<lambda>s. shrd_long (R_FLG s) (get32 dst32 s) (get32 src32 s) (R_CL s));
           modify (set32 dst32 v)
         } else do {
           dst16 \<leftarrow> decode_rm_word_register rl;
           OP_DECODE '','';
           src16 \<leftarrow> decode_rm_word_register rh;
           OP_DECODE '',cl'';
           v \<leftarrow> alu (\<lambda>s. shrd_word (R_FLG s) (get16 dst16 s) (get16 src16 s) (R_CL s));
           modify (set16 dst16 v)
         }
       } else do {
         addr \<leftarrow> decode_rm_address h md rl;
         OP_DECODE '','';
         d32 \<leftarrow> gets MODE_DATA32;
         if d32 then do {
           src32 \<leftarrow> decode_rm_long_register rh;
           OP_DECODE '',cl'';
           val \<leftarrow> fetch_data_long h addr;
           val \<leftarrow> alu (\<lambda>s. shrd_long (R_FLG s) val (get32 src32 s) (R_CL s));
           store_data_long h addr val
         } else do {
           src16 \<leftarrow> decode_rm_word_register rh;
           OP_DECODE '',cl'';
           val \<leftarrow> fetch_data_word h addr;
           let val = (ucast val :: u32);
           val \<leftarrow> alu (\<lambda>s. shrd_word (R_FLG s) (ucast val) (get16 src16 s) (R_CL s));
           let val = (ucast val :: u32);
           store_data_word h addr (ucast val)
         }
       }
     }"

definition x86emuOp2_imul_R_RM :: "host \<Rightarrow> u8 \<Rightarrow> unit emu" where
  "x86emuOp2_imul_R_RM h op2 =
     do {
       OP_DECODE ''imul '';
       (md, rh, rl) \<leftarrow> fetch_decode_modrm h;
       if md = 3 then do {
         d32 \<leftarrow> gets MODE_DATA32;
         if d32 then do {
           dst32 \<leftarrow> decode_rm_long_register rh;
           OP_DECODE '','';
           src32 \<leftarrow> decode_rm_long_register rl;
           imul_to_long dst32 (\<lambda>s. imul_long_direct (get32 dst32 s) (get32 src32 s))
         } else do {
           dst16 \<leftarrow> decode_rm_word_register rh;
           OP_DECODE '','';
           src16 \<leftarrow> decode_rm_word_register rl;
           imul_to_word dst16 (\<lambda>s. imul_word_direct (get16 dst16 s) (get16 src16 s))
         }
       } else do {
         d32 \<leftarrow> gets MODE_DATA32;
         if d32 then do {
           dst32 \<leftarrow> decode_rm_long_register rh;
           OP_DECODE '','';
           addr \<leftarrow> decode_rm_address h md rl;
           val32 \<leftarrow> fetch_data_long h addr;
           imul_to_long dst32 (\<lambda>s. imul_long_direct (get32 dst32 s) val32)
         } else do {
           dst16 \<leftarrow> decode_rm_word_register rh;
           OP_DECODE '','';
           addr \<leftarrow> decode_rm_address h md rl;
           val16 \<leftarrow> fetch_data_word h addr;
           imul_to_word dst16 (\<lambda>s. imul_word_direct (get16 dst16 s) val16)
         }
       }
     }"

definition x86emuOp2_btr_R :: "host \<Rightarrow> u8 \<Rightarrow> unit emu" where
  "x86emuOp2_btr_R h op2 =
     do {
       OP_DECODE ''btr '';
       (md, rh, rl) \<leftarrow> fetch_decode_modrm h;
       if md = 3 then do {
         d32 \<leftarrow> gets MODE_DATA32;
         if d32 then do {
           reg32 \<leftarrow> decode_rm_long_register rl;
           OP_DECODE '','';
           r \<leftarrow> decode_rm_long_register rh;
           msk \<leftarrow> gets (\<lambda>s. push_bit (unat (get32 r s AND 0x1f)) (1 :: u32));
           modify (\<lambda>s. s\<lparr>R_FLG := CONDITIONAL_SET_FLAG (get32 reg32 s AND msk \<noteq> 0) F_CF (R_FLG s)\<rparr>);
           modify (\<lambda>s. set32 reg32 (get32 reg32 s AND NOT msk) s)
         } else do {
           reg16 \<leftarrow> decode_rm_word_register rl;
           OP_DECODE '','';
           r \<leftarrow> decode_rm_word_register rh;
           msk \<leftarrow> gets (\<lambda>s. push_bit (unat ((ucast (get16 r s) :: u32) AND 0x0f)) (1 :: u32));
           modify (\<lambda>s. s\<lparr>R_FLG := CONDITIONAL_SET_FLAG ((ucast (get16 reg16 s)) AND msk \<noteq> 0) F_CF (R_FLG s)\<rparr>);
           modify (\<lambda>s. set16 reg16 (get16 reg16 s AND (ucast (NOT msk))) s)
         }
       } else do {
         addr \<leftarrow> decode_rm_address h md rl;
         OP_DECODE '','';
         d32 \<leftarrow> gets MODE_DATA32;
         if d32 then do {
           r2 \<leftarrow> decode_rm_long_register rh;
           disp \<leftarrow> gets (get32 r2);
           let msk = (push_bit (unat (disp AND 0x1f)) (1 :: u32) :: u32);
           let disp = (signed_drop_bit 5 disp :: u32);
           val \<leftarrow> fetch_data_long h (addr + disp);
           modify (\<lambda>s. s\<lparr>R_FLG := CONDITIONAL_SET_FLAG (val AND msk \<noteq> 0) F_CF (R_FLG s)\<rparr>);
           store_data_long h (addr + disp) (val AND NOT msk)
         } else do {
           r2 \<leftarrow> decode_rm_word_register rh;
           disp \<leftarrow> gets (\<lambda>s. scast (get16 r2 s) :: u32);
           let msk = (push_bit (unat (disp AND 0x0f)) (1 :: u32) :: u32);
           let disp = (signed_drop_bit 5 disp :: u32);
           val \<leftarrow> fetch_data_word h (addr + disp);
           let val = (ucast val :: u32);
           modify (\<lambda>s. s\<lparr>R_FLG := CONDITIONAL_SET_FLAG (val AND msk \<noteq> 0) F_CF (R_FLG s)\<rparr>);
           store_data_word h (addr + disp) (ucast (val AND NOT msk))
         }
       }
     }"

definition x86emuOp2_movzx_byte_R_RM :: "host \<Rightarrow> u8 \<Rightarrow> unit emu" where
  "x86emuOp2_movzx_byte_R_RM h op2 =
     do {
       OP_DECODE ''movzx '';
       (md, rh, rl) \<leftarrow> fetch_decode_modrm h;
       if md = 3 then do {
         d32 \<leftarrow> gets MODE_DATA32;
         if d32 then do {
           reg32 \<leftarrow> decode_rm_long_register rh;
           OP_DECODE '','';
           reg8 \<leftarrow> decode_rm_byte_register rl;
           modify (\<lambda>s. set32 reg32 (ucast (get8 reg8 s)) s)
         } else do {
           reg16 \<leftarrow> decode_rm_word_register rh;
           OP_DECODE '','';
           reg8 \<leftarrow> decode_rm_byte_register rl;
           modify (\<lambda>s. set16 reg16 (ucast (get8 reg8 s)) s)
         }
       } else do {
         d32 \<leftarrow> gets MODE_DATA32;
         if d32 then do {
           reg32 \<leftarrow> decode_rm_long_register rh;
           OP_DECODE '',byte '';
           addr \<leftarrow> decode_rm_address h md rl;
           val \<leftarrow> fetch_data_byte h addr;
           let val = (ucast val :: u32);
           modify (set32 reg32 val)
         } else do {
           reg16 \<leftarrow> decode_rm_word_register rh;
           OP_DECODE '',byte '';
           addr \<leftarrow> decode_rm_address h md rl;
           val \<leftarrow> fetch_data_byte h addr;
           let val = (ucast val :: u32);
           modify (set16 reg16 (ucast val))
         }
       }
     }"

definition x86emuOp2_movzx_word_R_RM :: "host \<Rightarrow> u8 \<Rightarrow> unit emu" where
  "x86emuOp2_movzx_word_R_RM h op2 =
     do {
       OP_DECODE ''movzx '';
       (md, rh, rl) \<leftarrow> fetch_decode_modrm h;
       if md = 3 then do {
         d32 \<leftarrow> gets MODE_DATA32;
         if d32 then do {
           reg32 \<leftarrow> decode_rm_long_register rh;
           OP_DECODE '','';
           reg16 \<leftarrow> decode_rm_word_register rl;
           modify (\<lambda>s. set32 reg32 (ucast (get16 reg16 s)) s)
         } else do {
           reg16 \<leftarrow> decode_rm_word_register rh;
           OP_DECODE '','';
           r \<leftarrow> decode_rm_word_register rl;
           modify (\<lambda>s. set16 reg16 (get16 r s) s)
         }
       } else do {
         d32 \<leftarrow> gets MODE_DATA32;
         if d32 then do {
           reg32 \<leftarrow> decode_rm_long_register rh;
           OP_DECODE '',word '';
           addr \<leftarrow> decode_rm_address h md rl;
           val \<leftarrow> fetch_data_word h addr;
           let val = (ucast val :: u32);
           modify (set32 reg32 val)
         } else do {
           reg16 \<leftarrow> decode_rm_word_register rh;
           OP_DECODE '',word '';
           addr \<leftarrow> decode_rm_address h md rl;
           val \<leftarrow> fetch_data_word h addr;
           let val = (ucast val :: u32);
           modify (set16 reg16 (ucast val))
         }
       }
     }"

definition x86emuOp2_btX_I :: "host \<Rightarrow> u8 \<Rightarrow> unit emu" where
  "x86emuOp2_btX_I h op2 =
     do {
       (md, rh, rl) \<leftarrow> fetch_decode_modrm h;
       if rh = 4 \<or> rh = 5 \<or> rh = 6 \<or> rh = 7 then do {
         (if rh = 4 then OP_DECODE ''bt ''
           else if rh = 5 then OP_DECODE ''bts ''
           else if rh = 6 then OP_DECODE ''btr ''
           else if rh = 7 then OP_DECODE ''btc '' else skip);
         if md = 3 then do {
           d32 \<leftarrow> gets MODE_DATA32;
           if d32 then do {
             reg32 \<leftarrow> decode_rm_long_register rl;
             OP_DECODE '','';
             imm \<leftarrow> fetch_byte h;
             OP_DECODE (decode_hex2 (ucast imm));
             let msk = (push_bit (unat (imm AND 0x1f)) (1 :: u32) :: u32);
             modify (\<lambda>s. s\<lparr>R_FLG := CONDITIONAL_SET_FLAG (get32 reg32 s AND msk \<noteq> 0) F_CF (R_FLG s)\<rparr>);
             if rh = 5 then modify (\<lambda>s. set32 reg32 (get32 reg32 s OR msk) s)
             else if rh = 6 then modify (\<lambda>s. set32 reg32 (get32 reg32 s AND NOT msk) s)
             else if rh = 7 then modify (\<lambda>s. set32 reg32 (get32 reg32 s XOR msk) s) else skip
           } else do {
             reg16 \<leftarrow> decode_rm_word_register rl;
             OP_DECODE '','';
             imm \<leftarrow> fetch_byte h;
             OP_DECODE (decode_hex2 (ucast imm));
             let msk = (push_bit (unat (imm AND 0x1f)) (1 :: u32) :: u32);
             modify (\<lambda>s. s\<lparr>R_FLG := CONDITIONAL_SET_FLAG ((ucast (get16 reg16 s)) AND msk \<noteq> 0) F_CF (R_FLG s)\<rparr>);
             if rh = 5 then modify (\<lambda>s. set16 reg16 (get16 reg16 s OR ucast msk) s)
             else if rh = 6 then modify (\<lambda>s. set16 reg16 (get16 reg16 s AND (ucast (NOT msk))) s)
             else if rh = 7 then modify (\<lambda>s. set16 reg16 (get16 reg16 s XOR ucast msk) s) else skip
           }
         } else do {
           addr \<leftarrow> decode_rm_address h md rl;
           OP_DECODE '','';
           imm \<leftarrow> fetch_byte h;
           OP_DECODE (decode_hex2 (ucast imm));
           d32 \<leftarrow> gets MODE_DATA32;
           if d32 then do {
             let msk = (push_bit (unat (imm AND 0x1f)) (1 :: u32) :: u32);
             val \<leftarrow> fetch_data_long h addr;
             modify (\<lambda>s. s\<lparr>R_FLG := CONDITIONAL_SET_FLAG (val AND msk \<noteq> 0) F_CF (R_FLG s)\<rparr>);
             if rh = 5 then store_data_long h addr (val OR msk)
             else if rh = 6 then store_data_long h addr (val AND NOT msk)
             else if rh = 7 then store_data_long h addr (val XOR msk) else skip
           } else do {
             let msk = (push_bit (unat (imm AND 0x0f)) (1 :: u32) :: u32);
             val \<leftarrow> fetch_data_word h addr;
             let val = (ucast val :: u32);
             modify (\<lambda>s. s\<lparr>R_FLG := CONDITIONAL_SET_FLAG (val AND msk \<noteq> 0) F_CF (R_FLG s)\<rparr>);
             if rh = 5 then store_data_word h addr (ucast (val OR msk))
             else if rh = 6 then store_data_word h addr (ucast (val AND NOT msk))
             else if rh = 7 then store_data_word h addr (ucast (val XOR msk)) else skip
           }
         }
       } else INTR_RAISE_UD
     }"

definition x86emuOp2_btc_R :: "host \<Rightarrow> u8 \<Rightarrow> unit emu" where
  "x86emuOp2_btc_R h op2 =
     do {
       OP_DECODE ''btc '';
       (md, rh, rl) \<leftarrow> fetch_decode_modrm h;
       if md = 3 then do {
         d32 \<leftarrow> gets MODE_DATA32;
         if d32 then do {
           reg32 \<leftarrow> decode_rm_long_register rl;
           OP_DECODE '','';
           r \<leftarrow> decode_rm_long_register rh;
           msk \<leftarrow> gets (\<lambda>s. push_bit (unat (get32 r s AND 0x1f)) (1 :: u32));
           modify (\<lambda>s. s\<lparr>R_FLG := CONDITIONAL_SET_FLAG (get32 reg32 s AND msk \<noteq> 0) F_CF (R_FLG s)\<rparr>);
           modify (\<lambda>s. set32 reg32 (get32 reg32 s XOR msk) s)
         } else do {
           reg16 \<leftarrow> decode_rm_word_register rl;
           OP_DECODE '','';
           r \<leftarrow> decode_rm_word_register rh;
           msk \<leftarrow> gets (\<lambda>s. push_bit (unat ((ucast (get16 r s) :: u32) AND 0x0f)) (1 :: u32));
           modify (\<lambda>s. s\<lparr>R_FLG := CONDITIONAL_SET_FLAG ((ucast (get16 reg16 s)) AND msk \<noteq> 0) F_CF (R_FLG s)\<rparr>);
           modify (\<lambda>s. set16 reg16 (get16 reg16 s XOR ucast msk) s)
         }
       } else do {
         addr \<leftarrow> decode_rm_address h md rl;
         OP_DECODE '','';
         d32 \<leftarrow> gets MODE_DATA32;
         if d32 then do {
           r2 \<leftarrow> decode_rm_long_register rh;
           disp \<leftarrow> gets (get32 r2);
           let msk = (push_bit (unat (disp AND 0x1f)) (1 :: u32) :: u32);
           let disp = (signed_drop_bit 5 disp :: u32);
           val \<leftarrow> fetch_data_long h (addr + disp);
           modify (\<lambda>s. s\<lparr>R_FLG := CONDITIONAL_SET_FLAG (val AND msk \<noteq> 0) F_CF (R_FLG s)\<rparr>);
           store_data_long h (addr + disp) (val XOR msk)
         } else do {
           r2 \<leftarrow> decode_rm_word_register rh;
           disp \<leftarrow> gets (\<lambda>s. scast (get16 r2 s) :: u32);
           let msk = (push_bit (unat (disp AND 0x0f)) (1 :: u32) :: u32);
           let disp = (signed_drop_bit 5 disp :: u32);
           val \<leftarrow> fetch_data_word h (addr + disp);
           let val = (ucast val :: u32);
           modify (\<lambda>s. s\<lparr>R_FLG := CONDITIONAL_SET_FLAG (val AND msk \<noteq> 0) F_CF (R_FLG s)\<rparr>);
           store_data_word h (addr + disp) (ucast (val XOR msk))
         }
       }
     }"

definition x86emuOp2_bsf :: "host \<Rightarrow> u8 \<Rightarrow> unit emu" where
  "x86emuOp2_bsf h op2 =
     do {
       OP_DECODE ''bsf '';
       (md, rh, rl) \<leftarrow> fetch_decode_modrm h;
       if md = 3 then do {
         d32 \<leftarrow> gets MODE_DATA32;
         if d32 then do {
           r \<leftarrow> decode_rm_long_register rl;
           val \<leftarrow> gets (get32 r);
           OP_DECODE '','';
           reg32 \<leftarrow> decode_rm_long_register rh;
           modify (\<lambda>s. s\<lparr>R_FLG := CONDITIONAL_SET_FLAG (val = 0) F_ZF (R_FLG s)\<rparr>);
           let cnt = (of_nat (scan_up 0 32 val) :: u32);
           modify (set32 reg32 cnt)
         } else do {
           r \<leftarrow> decode_rm_word_register rl;
           val \<leftarrow> gets (\<lambda>s. ucast (get16 r s) :: u32);
           OP_DECODE '','';
           reg16 \<leftarrow> decode_rm_word_register rh;
           modify (\<lambda>s. s\<lparr>R_FLG := CONDITIONAL_SET_FLAG (val = 0) F_ZF (R_FLG s)\<rparr>);
           let cnt = (of_nat (scan_up 0 16 val) :: u32);
           modify (set16 reg16 (ucast cnt))
         }
       } else do {
         addr \<leftarrow> decode_rm_address h md rl;
         OP_DECODE '','';
         d32 \<leftarrow> gets MODE_DATA32;
         if d32 then do {
           reg32 \<leftarrow> decode_rm_long_register rh;
           val \<leftarrow> fetch_data_long h addr;
           modify (\<lambda>s. s\<lparr>R_FLG := CONDITIONAL_SET_FLAG (val = 0) F_ZF (R_FLG s)\<rparr>);
           let cnt = (of_nat (scan_up 0 32 val) :: u32);
           modify (set32 reg32 cnt)
         } else do {
           reg16 \<leftarrow> decode_rm_word_register rh;
           val \<leftarrow> fetch_data_word h addr;
           let val = (ucast val :: u32);
           modify (\<lambda>s. s\<lparr>R_FLG := CONDITIONAL_SET_FLAG (val = 0) F_ZF (R_FLG s)\<rparr>);
           let cnt = (of_nat (scan_up 0 16 val) :: u32);
           modify (set16 reg16 (ucast cnt))
         }
       }
     }"

definition x86emuOp2_bsr :: "host \<Rightarrow> u8 \<Rightarrow> unit emu" where
  "x86emuOp2_bsr h op2 =
     do {
       OP_DECODE ''bsr '';
       (md, rh, rl) \<leftarrow> fetch_decode_modrm h;
       if md = 3 then do {
         d32 \<leftarrow> gets MODE_DATA32;
         if d32 then do {
           r \<leftarrow> decode_rm_long_register rl;
           val \<leftarrow> gets (get32 r);
           OP_DECODE '','';
           reg32 \<leftarrow> decode_rm_long_register rh;
           modify (\<lambda>s. s\<lparr>R_FLG := CONDITIONAL_SET_FLAG (val = 0) F_ZF (R_FLG s)\<rparr>);
           let cnt = (of_nat (scan_down 31 val) :: u32);
           modify (set32 reg32 cnt)
         } else do {
           r \<leftarrow> decode_rm_word_register rl;
           val \<leftarrow> gets (\<lambda>s. ucast (get16 r s) :: u32);
           OP_DECODE '','';
           reg16 \<leftarrow> decode_rm_word_register rh;
           modify (\<lambda>s. s\<lparr>R_FLG := CONDITIONAL_SET_FLAG (val = 0) F_ZF (R_FLG s)\<rparr>);
           let cnt = (of_nat (scan_down 15 val) :: u32);
           modify (set16 reg16 (ucast cnt))
         }
       } else do {
         addr \<leftarrow> decode_rm_address h md rl;
         OP_DECODE '','';
         d32 \<leftarrow> gets MODE_DATA32;
         if d32 then do {
           reg32 \<leftarrow> decode_rm_long_register rh;
           val \<leftarrow> fetch_data_long h addr;
           modify (\<lambda>s. s\<lparr>R_FLG := CONDITIONAL_SET_FLAG (val = 0) F_ZF (R_FLG s)\<rparr>);
           let cnt = (of_nat (scan_down 31 val) :: u32);
           modify (set32 reg32 cnt)
         } else do {
           reg16 \<leftarrow> decode_rm_word_register rh;
           val \<leftarrow> fetch_data_word h addr;
           let val = (ucast val :: u32);
           modify (\<lambda>s. s\<lparr>R_FLG := CONDITIONAL_SET_FLAG (val = 0) F_ZF (R_FLG s)\<rparr>);
           let cnt = (of_nat (scan_down 15 val) :: u32);
           modify (set16 reg16 (ucast cnt))
         }
       }
     }"

definition x86emuOp2_movsx_byte_R_RM :: "host \<Rightarrow> u8 \<Rightarrow> unit emu" where
  "x86emuOp2_movsx_byte_R_RM h op2 =
     do {
       OP_DECODE ''movsx '';
       (md, rh, rl) \<leftarrow> fetch_decode_modrm h;
       if md = 3 then do {
         d32 \<leftarrow> gets MODE_DATA32;
         if d32 then do {
           reg32 \<leftarrow> decode_rm_long_register rh;
           OP_DECODE '','';
           reg8 \<leftarrow> decode_rm_byte_register rl;
           modify (\<lambda>s. set32 reg32 (scast (get8 reg8 s)) s)
         } else do {
           reg16 \<leftarrow> decode_rm_word_register rh;
           OP_DECODE '','';
           reg8 \<leftarrow> decode_rm_byte_register rl;
           modify (\<lambda>s. set16 reg16 (scast (get8 reg8 s)) s)
         }
       } else do {
         d32 \<leftarrow> gets MODE_DATA32;
         if d32 then do {
           reg32 \<leftarrow> decode_rm_long_register rh;
           OP_DECODE '',byte '';
           addr \<leftarrow> decode_rm_address h md rl;
           val \<leftarrow> fetch_data_byte h addr;
           let val = (scast val :: u32);
           modify (set32 reg32 val)
         } else do {
           reg16 \<leftarrow> decode_rm_word_register rh;
           OP_DECODE '',byte '';
           addr \<leftarrow> decode_rm_address h md rl;
           val \<leftarrow> fetch_data_byte h addr;
           let val = (scast val :: u32);
           modify (set16 reg16 (ucast val))
         }
       }
     }"

definition x86emuOp2_movsx_word_R_RM :: "host \<Rightarrow> u8 \<Rightarrow> unit emu" where
  "x86emuOp2_movsx_word_R_RM h op2 =
     do {
       OP_DECODE ''movsx '';
       (md, rh, rl) \<leftarrow> fetch_decode_modrm h;
       if md = 3 then do {
         d32 \<leftarrow> gets MODE_DATA32;
         if d32 then do {
           reg32 \<leftarrow> decode_rm_long_register rh;
           OP_DECODE '','';
           reg16 \<leftarrow> decode_rm_word_register rl;
           modify (\<lambda>s. set32 reg32 (scast (get16 reg16 s)) s)
         } else do {
           reg16 \<leftarrow> decode_rm_word_register rh;
           OP_DECODE '','';
           r \<leftarrow> decode_rm_word_register rl;
           modify (\<lambda>s. set16 reg16 (get16 r s) s)
         }
       } else do {
         d32 \<leftarrow> gets MODE_DATA32;
         if d32 then do {
           reg32 \<leftarrow> decode_rm_long_register rh;
           OP_DECODE '',word '';
           addr \<leftarrow> decode_rm_address h md rl;
           val \<leftarrow> fetch_data_word h addr;
           let val = (scast val :: u32);
           modify (set32 reg32 val)
         } else do {
           reg16 \<leftarrow> decode_rm_word_register rh;
           OP_DECODE '',word '';
           addr \<leftarrow> decode_rm_address h md rl;
           val \<leftarrow> fetch_data_word h addr;
           let val = (scast val :: u32);
           modify (set16 reg16 (ucast val))
         }
       }
     }"

definition x86emuOp2_bswap :: "host \<Rightarrow> u8 \<Rightarrow> unit emu" where
  "x86emuOp2_bswap h op2 =
     do {
       OP_DECODE ''bswap '';
       d32 \<leftarrow> gets MODE_DATA32;
       if_then d32 (do {
           reg32 \<leftarrow> decode_rm_long_register (unat (op2 AND 0x7));
           let tmp = (0 :: u32);
           tmp \<leftarrow> gets (\<lambda>s. tmp OR ((drop_bit 24 (get32 reg32 s)) AND 0x000000ff));
           tmp \<leftarrow> gets (\<lambda>s. tmp OR ((drop_bit 8 (get32 reg32 s)) AND 0x0000ff00));
           tmp \<leftarrow> gets (\<lambda>s. tmp OR ((push_bit 8 (get32 reg32 s)) AND 0x00ff0000));
           tmp \<leftarrow> gets (\<lambda>s. tmp OR ((push_bit 24 (get32 reg32 s)) AND 0xff000000));
           modify (set32 reg32 tmp)
         })
     }"

section \<open>The operations respect a discipline\<close>

context discipline
begin

lemma emu_ok_Ops2_Bits_1 [handler_oks]:
  "emu_ok (x86emuOp2_bt_R h op)"
  "emu_ok (x86emuOp2_shld_IMM h op)"
  "emu_ok (x86emuOp2_shld_CL h op)"
  "emu_ok (x86emuOp2_bts_R h op)"
  unfolding x86emuOp2_bt_R_def x86emuOp2_shld_IMM_def x86emuOp2_shld_CL_def
    x86emuOp2_bts_R_def
  by (intro emu_oks)+

lemma emu_ok_Ops2_Bits_2 [handler_oks]:
  "emu_ok (x86emuOp2_shrd_IMM h op)"
  "emu_ok (x86emuOp2_shrd_CL h op)"
  "emu_ok (x86emuOp2_imul_R_RM h op)"
  "emu_ok (x86emuOp2_btr_R h op)"
  unfolding x86emuOp2_shrd_IMM_def x86emuOp2_shrd_CL_def x86emuOp2_imul_R_RM_def
    x86emuOp2_btr_R_def
  by (intro emu_oks)+

lemma emu_ok_Ops2_Bits_3 [handler_oks]:
  "emu_ok (x86emuOp2_movzx_byte_R_RM h op)"
  "emu_ok (x86emuOp2_movzx_word_R_RM h op)"
  "emu_ok (x86emuOp2_btX_I h op)"
  "emu_ok (x86emuOp2_btc_R h op)"
  unfolding x86emuOp2_movzx_byte_R_RM_def x86emuOp2_movzx_word_R_RM_def x86emuOp2_btX_I_def
    x86emuOp2_btc_R_def
  by (intro emu_oks)+

lemma emu_ok_Ops2_Bits_4 [handler_oks]:
  "emu_ok (x86emuOp2_bsf h op)"
  "emu_ok (x86emuOp2_bsr h op)"
  "emu_ok (x86emuOp2_movsx_byte_R_RM h op)"
  "emu_ok (x86emuOp2_movsx_word_R_RM h op)"
  unfolding x86emuOp2_bsf_def x86emuOp2_bsr_def x86emuOp2_movsx_byte_R_RM_def
    x86emuOp2_movsx_word_R_RM_def
  by (intro emu_oks)+

lemma emu_ok_Ops2_Bits_5 [handler_oks]:
  "emu_ok (x86emuOp2_bswap h op)"
  unfolding x86emuOp2_bswap_def
  by (intro emu_oks)

end

end
