(* ===== verification/Instr.thy ===== *)
theory Instr
  imports Bytes Segments Ops_Arith Ops2_System Ops2_Bits
begin

text \<open>
  Instructions and their decoding, as the processor's manual describes them: the
  arithmetic on byte registers, the sixteen bit effective addresses, segment descriptors,
  and the bit scans and byte swaps of the two byte opcodes.
\<close>

section \<open>Registers after a write\<close>

lemma get32_set32: "r < 8 \<Longrightarrow> q < 8 \<Longrightarrow> get32 r (set32 q v s) = (if r = q then v else get32 r s)"
  by (simp add: get32_def set32_def less_Suc_eq eval_nat_numeral) auto

lemma get8_set8: "r < 8 \<Longrightarrow> q < 8 \<Longrightarrow> get8 r (set8 q v s) = (if r = q then v else get8 r s)"
  by (cases "r < 4"; cases "q < 4") (auto simp: get8_def set8_def get32_set32 narrow_commute)

lemma get32_disasm [simp]: "get32 r (s\<lparr>disasm_buf := d\<rparr>) = get32 r s" "get32 r (s\<lparr>R_FLG := f\<rparr>) = get32 r s"
  by (simp_all add: get32_def)

lemma get8_disasm [simp]: "get8 r (s\<lparr>disasm_buf := d\<rparr>) = get8 r s" "get8 r (s\<lparr>R_FLG := f\<rparr>) = get8 r s"
  by (simp_all add: get8_def)

lemma get32_fetched [simp]: "get32 r (fetched m b s) = get32 r s" "get8 r (fetched m b s) = get8 r s"
proof -
  show g: "get32 r (fetched m b s) = get32 r s" for r
    by (simp add: get32_def fetched_def Let_def advance_ip_def put_instr_def)
  show "get8 r (fetched m b s) = get8 r s" by (simp add: get8_def g)
qed

section \<open>Arithmetic on byte registers\<close>

lemma run_OP_DECODE: "run_state (OP_DECODE t) s = ((), s\<lparr>disasm_buf := disasm_buf s @ t\<rparr>)"
  by (simp add: OP_DECODE_def emu_run)

lemma run_alu_flags: "run_state (alu f) s = (fst (f s), s\<lparr>R_FLG := snd (f s)\<rparr>)"
  by (simp add: alu_def case_prod_beta)

lemma set8_frame:
  "mem (set8 r v s) = mem s" "R_FLG (set8 r v s) = R_FLG s" "R_EIP (set8 r v s) = R_EIP s" "intr_type (set8 r v s) = intr_type s"
  by (simp_all add: set8_def set32_def)

lemma run_alu_reg_reg:
  assumes "plain s" "code_at s (code_ptr s) b" "drop_bit 6 b AND 3 = 3" "op1 < 0x40"
  defines "rl \<equiv> unat (b AND 7)" and "rh \<equiv> unat (drop_bit 3 b AND 7)"
  defines "r \<equiv> (op_A_byte ! unat (drop_bit 3 op1)) (R_FLG s) (get8 rl s) (get8 rh s)"
  shows "\<exists>m d. run_state (x86emuOp_op_A_byte_RM_R h op1) s = ((), set8 rl (fst r) ((fetched m b s)\<lparr>disasm_buf := d, R_FLG := snd r\<rparr>)) \<and>
    same_bytes (mem s) m"
proof -
  define d where "d = disasm_buf s @ [''add '', ''or '', ''adc '', ''sbb '', ''and '', ''sub '', ''xor '', ''cmp ''] ! unat (drop_bit 3 op1)"
  let ?s = "s\<lparr>disasm_buf := d\<rparr>"
  have type: "unat (drop_bit 3 op1) < 8"
    using assms(4) by (simp add: word_less_nat_alt drop_bit_eq_div unat_div)
  have "plain ?s" "code_at ?s (code_ptr ?s) b" using assms(1,2) by (simp_all add: plain_def code_at_def)
  then obtain m where m: "run_state (fetch_byte h) ?s = (b, fetched m b ?s)" "same_bytes (mem ?s) m"
    using fetch_byte_same by blast
  have decode: "run_state (decode_op_A (unat (drop_bit 3 op1))) s = ((), ?s)"
    using type by (simp add: decode_op_A_def run_OP_DECODE d_def)
  have modrm: "run_state (fetch_decode_modrm h) ?s = ((3, rh, rl), fetched m b ?s)"
    by (simp add: fetch_decode_modrm_def emu_run m(1) assms(3) rh_def rl_def)
  let ?e = "disasm_buf (fetched m b ?s) @ reg8_name rl @ '','' @ reg8_name rh"
  have "(fetched m b ?s)\<lparr>disasm_buf := ?e, R_FLG := snd r\<rparr> = (fetched m b s)\<lparr>disasm_buf := ?e, R_FLG := snd r\<rparr>"
    by (simp add: fetched_def Let_def advance_ip_def put_instr_def MODE_CODE32_def)
  then have "run_state (x86emuOp_op_A_byte_RM_R h op1) s = ((), set8 rl (fst r) ((fetched m b s)\<lparr>disasm_buf := ?e, R_FLG := snd r\<rparr>))"
    by (simp add: x86emuOp_op_A_byte_RM_R_def Let_def emu_run decode modrm decode_rm_byte_register_def run_OP_DECODE run_alu_flags r_def)
  then show ?thesis using m(2) by auto
qed

lemma set_low_upper:
  "drop_bit 16 (set_lo8 v r) = drop_bit 16 r" "drop_bit 16 (set_hi8 v r) = drop_bit 16 r" "drop_bit 16 (set_lo16 w r) = drop_bit 16 r"
  by (rule bit_word_eqI, simp add: bit_set_lo8 bit_set_hi8 bit_set_lo16 bit_simps)+

lemma get32_set8:
  assumes "r < 8" "q < 8"
  shows "drop_bit 16 (get32 q (set8 r v s)) = drop_bit 16 (get32 q s)" "4 \<le> q \<Longrightarrow> get32 q (set8 r v s) = get32 q s"
  using assms by (auto simp: set8_def get32_set32 set_low_upper)

text \<open>The state after a byte of code has been fetched and an instruction has done its work but for the registers it writes.\<close>

definition fetched_one :: "x86emu \<Rightarrow> x86emu \<Rightarrow> x86emu" where
  "fetched_one s t = s\<lparr>R_EIP := (if MODE_CODE32 s then R_EIP s + 1 else set_lo16 (R_IP s + 1) (R_EIP s)),
     instr_buf := instr_buf t, instr_len := instr_len t, disasm_buf := disasm_buf t, mem := mem t\<rparr>"

lemma fetched_is_one: "instr_buf t = instr_buf (fetched m b s) \<Longrightarrow> instr_len t = instr_len (fetched m b s) \<Longrightarrow> mem t = m \<Longrightarrow>
  disasm_buf t = d \<Longrightarrow> (fetched m b s)\<lparr>disasm_buf := d\<rparr> = fetched_one s t"
  by (auto simp: fetched_one_def fetched_def Let_def advance_ip_def put_instr_def MODE_CODE32_def)

text \<open>
  C30. The register form of ADD, OR, ADC, SBB, AND, SUB, XOR and CMP on bytes: the byte
  after the opcode names the registers, the primitive of the opcode is applied to them and
  the flags register, its result goes to the first register and the flags register. The
  other byte registers, the upper halves of all registers, ESP, EBP, ESI and EDI stay, the
  instruction pointer moves past the byte, and nothing else of the state changes but the
  record of the instruction and the access statistics of memory, whose contents and
  permissions are the same at every address.
\<close>

theorem alu_byte_reg_reg:
  assumes "plain s" "code_at s (code_ptr s) b" "drop_bit 6 b AND 3 = 3" "op1 < 0x40"
  shows "\<exists>t. run_state (x86emuOp_op_A_byte_RM_R h op1) s = ((), t) \<and>
    (let rl = unat (b AND 7); rh = unat (drop_bit 3 b AND 7);
         r = (op_A_byte ! unat (drop_bit 3 op1)) (R_FLG s) (get8 rl s) (get8 rh s)
     in (\<forall>q<8. get8 q t = (if q = rl then fst r else get8 q s)) \<and> R_FLG t = snd r \<and>
        t = set8 rl (fst r) ((fetched_one s t)\<lparr>R_FLG := snd r\<rparr>)) \<and>
    (\<forall>q<8. drop_bit 16 (get32 q t) = drop_bit 16 (get32 q s) \<and> (4 \<le> q \<longrightarrow> get32 q t = get32 q s)) \<and>
    same_bytes (mem s) (mem t)"
proof -
  let ?rl = "unat (b AND 7)" and ?rh = "unat (drop_bit 3 b AND 7)"
  let ?r = "(op_A_byte ! unat (drop_bit 3 op1)) (R_FLG s) (get8 ?rl s) (get8 ?rh s)"
  obtain m d where run: "run_state (x86emuOp_op_A_byte_RM_R h op1) s = ((), set8 ?rl (fst ?r) ((fetched m b s)\<lparr>disasm_buf := d, R_FLG := snd ?r\<rparr>))"
    and m: "same_bytes (mem s) m"
    using run_alu_reg_reg[OF assms] by blast
  let ?u = "set8 ?rl (fst ?r) ((fetched m b s)\<lparr>disasm_buf := d, R_FLG := snd ?r\<rparr>)"
  have lt: "unat (w AND 7) < 8" for w :: u8
    using word_and_le1[of w 7] by (simp add: word_le_nat_alt)
  have "get8 q ?u = (if q = ?rl then fst ?r else get8 q s)" if "q < 8" for q
    using that by (simp add: get8_set8[OF that lt])
  moreover have "(fetched m b s)\<lparr>disasm_buf := d\<rparr> = fetched_one s ?u"
    by (rule fetched_is_one) (simp_all add: set8_def set32_def)
  moreover have "drop_bit 16 (get32 q ?u) = drop_bit 16 (get32 q s)" "4 \<le> q \<Longrightarrow> get32 q ?u = get32 q s" if "q < 8" for q
    using get32_set8[OF lt that] by simp_all
  ultimately show ?thesis using run m by (simp add: Let_def set8_frame)
qed

section \<open>Conditional moves\<close>

text \<open>
  Whether CMOVcc moves. For the four conditions that compare the sign flag with the
  overflow flag \<^verbatim>\<open>x86emuOp2_conditional_move\<close> compares the masked flags as numbers, so
  that with both set they count as different: then l and le move, nl and nle do not.
\<close>

definition cmov_taken :: "u8 \<Rightarrow> x86emu \<Rightarrow> bool" where
  "cmov_taken cc s =
     (if 12 \<le> cc \<and> ACCESS_FLAG F_SF (R_FLG s) \<and> ACCESS_FLAG F_OF (R_FLG s) then even (unat cc)
      else eval_condition (unat cc) s)"

lemma masked_flags: "(f AND F_SF = f AND F_OF) = (\<not> ACCESS_FLAG F_SF f \<and> \<not> ACCESS_FLAG F_OF f)" for f :: u32
proof -
  have "f AND F_SF = 0" if "f AND F_SF = f AND F_OF"
  proof -
    have "f AND F_SF = (f AND F_OF) AND F_SF" unfolding that[symmetric] by (simp add: and.assoc)
    then show ?thesis by (simp add: and.assoc)
  qed
  then show ?thesis by (auto simp: ACCESS_FLAG_def)
qed

text \<open>The sixteen numbers of four bits.\<close>

lemma nibble_cases:
  fixes cc :: u8
  assumes "cc < 16"
  shows "cc = 0xf \<or> cc = 0xe \<or> cc = 0xd \<or> cc = 0xc \<or> cc = 0xb \<or> cc = 0xa \<or> cc = 9 \<or> cc = 8 \<or>
    cc < 8 \<and> (cc = 7 \<or> cc = 6 \<or> cc = 5 \<or> cc = 4 \<or> cc < 4 \<and> (cc = 3 \<or> cc = 2 \<or> cc = 1 \<or> cc = 0))"
proof -
  have "unat cc < 16" using assms by (simp add: word_less_nat_alt)
  then obtain n where n: "cc = word_of_nat n" "n < 16" by (rule that[of "unat cc", rotated]) simp
  have "n = 15 \<or> n = 14 \<or> n = 13 \<or> n = 12 \<or> n = 11 \<or> n = 10 \<or> n = 9 \<or> n = 8 \<or>
      n < 8 \<and> (n = 7 \<or> n = 6 \<or> n = 5 \<or> n = 4 \<or> n < 4 \<and> (n = 3 \<or> n = 2 \<or> n = 1 \<or> n = 0))"
    using n(2) by (auto simp: less_Suc_eq eval_nat_numeral)
  then show ?thesis unfolding n(1) by (elim disjE conjE; simp)
qed

lemma get16_frame: "get16 r (s\<lparr>disasm_buf := d\<rparr>) = get16 r s" "get16 r (fetched m b s) = get16 r s"
  "disasm_buf (set32 r v s) = disasm_buf s" "disasm_buf (set16 r w s) = disasm_buf s"
  by (simp_all add: get16_def set16_def set32_def)

lemma run_cmov:
  assumes "plain s" "code_at s (code_ptr s) b" "drop_bit 6 b AND 3 = 3"
  defines "rl \<equiv> unat (b AND 7)" and "rh \<equiv> unat (drop_bit 3 b AND 7)"
  shows "\<exists>m d. run_state (x86emuOp2_conditional_move h op2) s =
    ((), (if cmov_taken (op2 AND 0xf) s then (if MODE_DATA32 s then set32 rh (get32 rl s) else set16 rh (get16 rl s)) else id)
      ((fetched m b s)\<lparr>disasm_buf := d\<rparr>)) \<and> same_bytes (mem s) m"
proof -
  let ?s = "s\<lparr>disasm_buf := disasm_buf s @ ''cmov''\<rparr>"
  have "plain ?s" "code_at ?s (code_ptr ?s) b" using assms(1,2) by (simp_all add: plain_def code_at_def)
  then obtain m where m: "run_state (fetch_byte h) ?s = (b, fetched m b ?s)" "same_bytes (mem ?s) m"
    using fetch_byte_same by blast
  have modrm: "run_state (fetch_decode_modrm h) ?s = ((3, rh, rl), fetched m b ?s)"
    by (simp add: fetch_decode_modrm_def emu_run m(1) assms(3) rh_def rl_def)
  have f: "(fetched m b ?s)\<lparr>disasm_buf := d\<rparr> = (fetched m b s)\<lparr>disasm_buf := d\<rparr>" for d
    by (simp add: fetched_def Let_def advance_ip_def put_instr_def MODE_CODE32_def)
  have d32: "MODE_DATA32 (fetched m b u) = MODE_DATA32 u" "MODE_DATA32 (u\<lparr>disasm_buf := d\<rparr>) = MODE_DATA32 u" for u d
    by (simp_all add: MODE_DATA32_def)
  let ?cc = "op2 AND 0xf" and ?t = "snd (run_state (x86emuOp2_conditional_move h op2) s)"
  have "?cc < 16" using word_and_le1[of op2 "0xf"] by (simp add: word_less_nat_alt word_le_nat_alt)
  note cases = nibble_cases[OF this]
  have "run_state (x86emuOp2_conditional_move h op2) s =
    ((), (if cmov_taken ?cc s then (if MODE_DATA32 s then set32 rh (get32 rl s) else set16 rh (get16 rl s)) else id)
      ((fetched m b ?s)\<lparr>disasm_buf := disasm_buf ?t\<rparr>))"
    using cases
    by (elim disjE conjE; simp add: x86emuOp2_conditional_move_def emu_run run_OP_DECODE modrm decode_rm_long_register_def decode_rm_word_register_def
        d32 cmov_taken_def eval_condition_def masked_flags get16_frame)
  moreover have "same_bytes (mem s) m" using m(2) by simp
  ultimately show ?thesis unfolding f by (intro exI[of _ m] exI[of _ "disasm_buf ?t"] conjI)
qed

text \<open>
  C7. The register form of CMOVcc: the source is copied to the destination, as a word or a
  long by the operand size, exactly if the condition is the one a jump of that name takes;
  but with the sign and the overflow flag both set l and le always move, nl and nle never,
  whatever the comparison was. In either case nothing else of the state changes but the
  instruction pointer, the record of the instruction and access statistics.
\<close>

theorem cmov_register:
  assumes "plain s" "code_at s (code_ptr s) b" "drop_bit 6 b AND 3 = 3"
  shows "\<exists>t. run_state (x86emuOp2_conditional_move h op2) s = ((), t) \<and> same_bytes (mem s) (mem t) \<and>
    (let cc = op2 AND 0xf; rl = unat (b AND 7); rh = unat (drop_bit 3 b AND 7);
         wrong = 12 \<le> cc \<and> ACCESS_FLAG F_SF (R_FLG s) \<and> ACCESS_FLAG F_OF (R_FLG s);
         taken = (if wrong then cc = 12 \<or> cc = 14 else eval_condition (unat cc) s)
     in t = (if \<not> taken then fetched_one s t
             else if MODE_DATA32 s then set32 rh (get32 rl s) (fetched_one s t)
             else set16 rh (get16 rl s) (fetched_one s t)))"
proof -
  let ?rl = "unat (b AND 7)" and ?rh = "unat (drop_bit 3 b AND 7)"
  obtain m d where run: "run_state (x86emuOp2_conditional_move h op2) s =
      ((), (if cmov_taken (op2 AND 0xf) s then (if MODE_DATA32 s then set32 ?rh (get32 ?rl s) else set16 ?rh (get16 ?rl s)) else id)
        ((fetched m b s)\<lparr>disasm_buf := d\<rparr>))" and m: "same_bytes (mem s) m"
    using run_cmov[OF assms] by blast
  let ?u = "snd (run_state (x86emuOp2_conditional_move h op2) s)"
  have one: "(fetched m b s)\<lparr>disasm_buf := d\<rparr> = fetched_one s ?u" "mem ?u = m"
    using run by (auto intro!: fetched_is_one simp: set16_def set32_def)
  have taken: "cmov_taken cc s = (if 12 \<le> cc \<and> ACCESS_FLAG F_SF (R_FLG s) \<and> ACCESS_FLAG F_OF (R_FLG s)
      then cc = 12 \<or> cc = 14 else eval_condition (unat cc) s)" if "cc < 16" for cc
    using nibble_cases[OF that] by (auto simp: cmov_taken_def)
  have "op2 AND 0xf < 16" using word_and_le1[of op2 "0xf"] by (simp add: word_less_nat_alt word_le_nat_alt)
  note eq = taken[OF this, symmetric]
  have "run_state (x86emuOp2_conditional_move h op2) s = ((), ?u)" using run by simp
  moreover have "?u = (if \<not> cmov_taken (op2 AND 0xf) s then fetched_one s ?u
      else if MODE_DATA32 s then set32 ?rh (get32 ?rl s) (fetched_one s ?u) else set16 ?rh (get16 ?rl s) (fetched_one s ?u))"
    by (subst run, unfold one(1)) simp
  ultimately show ?thesis unfolding Let_def eq using m one(2) by metis
qed

section \<open>Sixteen bit addresses\<close>

lemma base16_frame [simp]:
  "base16 r (s\<lparr>disasm_buf := d\<rparr>) = base16 r s" "base16 r (s\<lparr>mode := md\<rparr>) = base16 r s" "base16 r (fetched m b s) = base16 r s"
  by (simp_all add: base16_def) (simp add: fetched_def Let_def advance_ip_def put_instr_def)

text \<open>The segment of an address with one of the base registers and no override.\<close>

definition segment_for :: "bool \<Rightarrow> x86emu \<Rightarrow> nat" where
  "segment_for bp s = (case default_seg s of Some sg \<Rightarrow> sg
     | None \<Rightarrow> if bp \<or> mode s AND MODE_SEG_DS_SS_flag \<noteq> 0 then R_SS_INDEX else R_DS_INDEX)"

lemma segment_for_simps:
  "get_data_segment s = segment_for False s" "segment_for b (s\<lparr>disasm_buf := d, mode := k OR 1\<rparr>) = segment_for True s"
  "segment_for b (s\<lparr>disasm_buf := d\<rparr>) = segment_for b s" "segment_for b (fetched m c s) = segment_for b s"
  by (simp_all add: get_data_segment_def segment_for_def bit.conj_disj_distrib2 fetched_def Let_def advance_ip_def put_instr_def
      split: option.split)

lemma run_SEGPREF_DECODE: "\<exists>d. run_state SEGPREF_DECODE s = ((), s\<lparr>disasm_buf := d\<rparr>)"
  unfolding SEGPREF_DECODE_def run_modify by blast

lemma ea16_disp0:
  assumes "\<not> MODE_ADDR32 s" "rm \<noteq> 6"
  shows "\<exists>t. run_state (decode_rm_address h 0 rm) s = (base16 rm s AND 0xffff, t) \<and>
    get_data_segment t = segment_for (rm \<in> {2, 3}) s"
proof -
  obtain d where d: "run_state SEGPREF_DECODE s = ((), s\<lparr>disasm_buf := d\<rparr>)" using run_SEGPREF_DECODE by blast
  show ?thesis using assms
    by (cases "rm = 2 \<or> rm = 3")
       (auto simp: decode_rm_address_def decode_rm00_address_def emu_run d run_OP_DECODE use_stack_segment_def segment_for_simps Let_def)
qed

lemma ea16_disp8:
  assumes "plain s" "code_at s (code_ptr s) b" "\<not> MODE_ADDR32 s"
  shows "\<exists>t. run_state (decode_rm_address h 1 rm) s = ((base16 rm s + scast b) AND 0xffff, t) \<and>
    get_data_segment t = segment_for (rm \<in> {2, 3, 6}) s"
proof -
  obtain m where m: "run_state (fetch_byte h) s = (b, fetched m b s)" using fetch_byte_plain[OF assms(1,2)] by blast
  obtain d where d: "run_state SEGPREF_DECODE (fetched m b s) = ((), (fetched m b s)\<lparr>disasm_buf := d\<rparr>)" using run_SEGPREF_DECODE by blast
  show ?thesis using assms(3)
    by (cases "rm = 2 \<or> rm = 3 \<or> rm = 6")
       (auto simp: decode_rm_address_def decode_rm01_address_def emu_run m d run_OP_DECODE use_stack_segment_def segment_for_simps Let_def)
qed

text \<open>
  C32. The sixteen bit addressing modes without and with a displacement byte: the
  address is the sum of the base and index registers and the sign extended displacement,
  wrapped to 16 bits; it is in the segment of the override prefix if there was one, else
  in the stack segment if BP is used and in the data segment otherwise.
\<close>

theorem effective_address16:
  assumes "plain s" "code_at s (code_ptr s) b" "\<not> MODE_ADDR32 s" "rm < 8"
  shows "(rm \<noteq> 6 \<longrightarrow> (\<exists>t. run_state (decode_rm_address h 0 rm) s = (base16 rm s AND 0xffff, t) \<and>
      get_data_segment t = segment_for (rm \<in> {2, 3}) s)) \<and>
    (\<exists>t. run_state (decode_rm_address h 1 rm) s = ((base16 rm s + scast b) AND 0xffff, t) \<and>
      get_data_segment t = segment_for (rm \<in> {2, 3, 6}) s)"
  using ea16_disp0[OF assms(3), of rm h] ea16_disp8[OF assms(1-3), of h rm] by blast

section \<open>Descriptors\<close>

text \<open>
  A segment descriptor in the manual's layout, from a base, a 20 bit limit and the 12
  access bits the emulator keeps (type, S, DPL, P in bits 0 to 7, AVL, L, D, G in 8 to 11).
\<close>

definition descriptor_words :: "u32 \<Rightarrow> u32 \<Rightarrow> u16 \<Rightarrow> u32 \<times> u32" where
  "descriptor_words base limit acc =
     (push_bit 16 (take_bit 16 base) OR take_bit 16 limit,
      push_bit 24 (drop_bit 24 base) OR push_bit 20 (take_bit 4 (drop_bit 8 (ucast acc))) OR
      push_bit 16 (take_bit 4 (drop_bit 16 limit)) OR push_bit 8 (take_bit 8 (ucast acc)) OR take_bit 8 (drop_bit 16 base))"

lemma masks32:
  "(0xff :: u32) = mask 8" "(0xf00 :: u32) = push_bit 8 (mask 4)" "(0xffff :: u32) = mask 16" "(0xf0000 :: u32) = push_bit 16 (mask 4)"
  "(0xff000000 :: u32) = push_bit 24 (mask 8)"
  by (simp_all add: mask_eq_exp_minus_1)

lemma take_bit_parts: "take_bit m x + push_bit m (take_bit n (drop_bit m x)) = take_bit (m + n) x" for x :: u32
  by (subst disjunctive_add_eq_or; (rule bit_word_eqI; auto simp: bit_simps)?)

lemma descriptor_parts:
  fixes p q r s t :: u32
  defines "w \<equiv> push_bit 24 p OR push_bit 20 (take_bit 4 q) OR push_bit 16 (take_bit 4 r) OR push_bit 8 (take_bit 8 s) OR take_bit 8 t"
  shows "drop_bit 8 w AND 0xff = take_bit 8 s" "drop_bit 12 w AND 0xf00 = push_bit 8 (take_bit 4 q)"
    "w AND 0xf0000 = push_bit 16 (take_bit 4 r)" "w AND 0xff = take_bit 8 t" "w AND 0xff000000 = push_bit 24 (take_bit 8 p)"
proof -
  have b: "bit w n = (n < 32 \<and> (24 \<le> n \<and> bit p (n - 24) \<or> 20 \<le> n \<and> n < 24 \<and> bit q (n - 20) \<or> 16 \<le> n \<and> n < 20 \<and> bit r (n - 16) \<or>
      8 \<le> n \<and> n < 16 \<and> bit s (n - 8) \<or> n < 8 \<and> bit t n))" for n
    by (auto simp: w_def bit_simps)
  show "drop_bit 8 w AND 0xff = take_bit 8 s" "drop_bit 12 w AND 0xf00 = push_bit 8 (take_bit 4 q)"
    "w AND 0xf0000 = push_bit 16 (take_bit 4 r)" "w AND 0xff = take_bit 8 t" "w AND 0xff000000 = push_bit 24 (take_bit 8 p)"
    unfolding masks32 by (rule bit_word_eqI; auto simp: bit_simps b)+
qed

lemma acc_take_12:
  "ACC_G (take_bit 12 a) = ACC_G a" "ACC_S (take_bit 12 a) = ACC_S a" "ACC_P (take_bit 12 a) = ACC_P a"
  "ACC_E (take_bit 12 a) = ACC_E a" "ACC_DPL (take_bit 12 a) = ACC_DPL a"
proof -
  show "ACC_G (take_bit 12 a) = ACC_G a" "ACC_S (take_bit 12 a) = ACC_S a" "ACC_P (take_bit 12 a) = ACC_P a"
    "ACC_E (take_bit 12 a) = ACC_E a" by (simp_all add: ACC_G_def ACC_S_def ACC_P_def ACC_E_def bit_simps)
  have 3: "(3 :: u16) = mask 2" by (simp add: mask_eq_exp_minus_1)
  show "ACC_DPL (take_bit 12 a) = ACC_DPL a"
    unfolding ACC_DPL_def 3 by (rule bit_word_eqI) (auto simp: bit_simps)
qed

definition descriptor_limit :: "u32 \<Rightarrow> u16 \<Rightarrow> u32" where
  "descriptor_limit limit acc = (if ACC_G acc then push_bit 12 (take_bit 20 limit) + 0xfff else take_bit 20 limit)"

lemma descr_of_words:
  assumes "descriptor_words base limit acc = (dl, dh)" "ACC_S acc"
  shows "d_base (descr_of dl dh) = base" "d_limit (descr_of dl dh) = descriptor_limit limit acc"
    "d_acc (descr_of dl dh) = take_bit 12 acc" "d_seg (descr_of dl dh)" "\<not> d_invalid (descr_of dl dh)"
    "d_p (descr_of dl dh) = ACC_P acc" "d_x (descr_of dl dh) = ACC_E acc" "d_dpl (descr_of dl dh) = ACC_DPL acc"
proof -
  define w where "w = push_bit 24 (drop_bit 24 base) OR push_bit 20 (take_bit 4 (drop_bit 8 (ucast acc))) OR
      push_bit 16 (take_bit 4 (drop_bit 16 limit)) OR push_bit 8 (take_bit 8 (ucast acc)) OR take_bit 8 (drop_bit 16 base)"
  have d: "dl = push_bit 16 (take_bit 16 base) OR take_bit 16 limit" "dh = w"
    using assms(1) by (simp_all add: descriptor_words_def w_def)
  note parts = descriptor_parts[of "drop_bit 24 base" "drop_bit 8 (ucast acc)" "drop_bit 16 limit" "ucast acc" "drop_bit 16 base", folded w_def]
  have acc: "(drop_bit 8 dh AND 0xff) + (drop_bit 12 dh AND 0xf00) = take_bit 12 (ucast acc)"
    unfolding d(2) parts using take_bit_parts[of 8 "ucast acc" 4] by simp
  have lo: "dl AND 0xffff = take_bit 16 limit" "drop_bit 16 dl AND 0xffff = take_bit 16 base"
    unfolding d(1) masks32 by (rule bit_word_eqI; auto simp: bit_simps)+
  have limit: "(dl AND 0xffff) + (dh AND 0xf0000) = take_bit 20 limit"
    unfolding lo unfolding d(2) parts using take_bit_parts[of 16 limit 4] by simp
  have top: "take_bit 32 base = base" by (rule bit_word_eqI) (auto simp: bit_simps dest: bit_imp_le_length)
  have "take_bit 16 base + push_bit 16 (take_bit 8 (drop_bit 16 base)) + push_bit 24 (take_bit 8 (drop_bit 24 base)) = base"
    using take_bit_parts[of 16 base 8] take_bit_parts[of 24 base 8] top by simp
  then have base: "(drop_bit 16 dl AND 0xffff) + push_bit 16 (dh AND 0xff) + (dh AND 0xff000000) = base"
    unfolding lo unfolding d(2) parts .
  have cast: "(ucast (take_bit 12 (ucast acc :: u32)) :: u16) = take_bit 12 acc"
    by (rule bit_word_eqI) (auto simp: bit_simps)
  note eqs = descr_of_def Let_def acc limit base base[simplified] cast acc_take_12 assms(2)
  show "d_base (descr_of dl dh) = base" "d_limit (descr_of dl dh) = descriptor_limit limit acc"
    "d_acc (descr_of dl dh) = take_bit 12 acc" "d_seg (descr_of dl dh)" "\<not> d_invalid (descr_of dl dh)"
    "d_p (descr_of dl dh) = ACC_P acc" "d_x (descr_of dl dh) = ACC_E acc" "d_dpl (descr_of dl dh) = ACC_DPL acc"
    by (simp_all add: eqs descriptor_limit_def)
qed

lemma run_decode_descriptor: "log_text s = None \<Longrightarrow> run_state (decode_descriptor h dl dh) s = (descr_of dl dh, s)"
  by (simp add: decode_descriptor_def emu_run log_on_def Let_def)

text \<open>
  C12. Loading a segment register in protected mode: the selector picks the descriptor
  in the table, and a present code or data descriptor in the layout of the manual is
  decoded to the base, the limit, scaled if its granularity says so, and the access bits
  it was made of, which replace the register with its selector. No interrupt is raised.
\<close>

theorem segment_load_protected:
  assumes "plain s" "MODE_PROTECTED s" "val AND 4 = 0" "ucast (val AND NOT 7) \<noteq> (0 :: u32)"
    and "ucast (val AND NOT 7) + 7 \<le> R_GDT_LIMIT s"
    and "descriptor_words base limit acc = (dl, dh)" "ACC_S acc" "ACC_P acc"
    and "long_at s (R_GDT_BASE s + ucast (val AND NOT 7)) dl" "long_at s (R_GDT_BASE s + ucast (val AND NOT 7) + 4) dh"
  shows "\<exists>m. run_state (x86emu_set_seg_register h (Seg n) val) s = ((), s\<lparr>mem := m,
    seg := (seg s)(n := \<lparr>sel_base = base, sel_limit = descriptor_limit limit acc, sel_sel = val, sel_acc = take_bit 12 acc\<rparr>)\<rparr>)"
proof -
  let ?a = "R_GDT_BASE s + ucast (val AND NOT 7)"
  obtain m1 where m1: "run_state (emu_memio h ?a 0 2) s = ((0, dl), s\<lparr>mem := m1\<rparr>)" "mem_ok m1"
    "\<And>b w. long_at (s\<lparr>mem := m1\<rparr>) b w = long_at s b w"
    using run_emu_memio_long[OF assms(1,9), of h] by auto
  have "plain (s\<lparr>mem := m1\<rparr>)" "long_at (s\<lparr>mem := m1\<rparr>) (?a + 4) dh" using assms(1,10) m1(2,3) by (simp_all add: plain_mem)
  then obtain m2 where m2: "run_state (emu_memio h (?a + 4) 0 2) (s\<lparr>mem := m1\<rparr>) = ((0, dh), s\<lparr>mem := m2\<rparr>)"
    using run_emu_memio_long[of "s\<lparr>mem := m1\<rparr>" "?a + 4" dh h] by auto
  have log: "log_text (s\<lparr>mem := m2\<rparr>) = None" using assms(1) by (simp add: plain_def)
  note d = descr_of_words[OF assms(6,7)]
  have "run_state (x86emu_set_seg_register h (Seg n) val) s = ((), s\<lparr>mem := m2,
    seg := (seg s)(n := \<lparr>sel_base = base, sel_limit = descriptor_limit limit acc, sel_sel = val, sel_acc = take_bit 12 acc\<rparr>)\<rparr>)"
    using assms(2-5,8) by (simp add: x86emu_set_seg_register_def emu_run Let_def m1(1)[simplified] m2[simplified] run_decode_descriptor[OF log] d put_sel_def)
  then show ?thesis by blast
qed

section \<open>Bit scans and byte swaps\<close>

lemma odd_drop: "(drop_bit n x AND 1 \<noteq> 0) = bit x n" for x :: u32
  by (simp add: and_one_eq bit_iff_odd_drop_bit odd_iff_mod_2_eq_one)

lemma scan_up_hit:
  assumes "bit val k" "k < n" "\<And>i. i < k \<Longrightarrow> \<not> bit val i" "c \<le> k"
  shows "scan_up c n val = k"
  using assms(4)
proof (induction "k - c" arbitrary: c)
  case 0
  then show ?case using assms(1,2) by (simp add: scan_up.simps[of c] odd_drop)
next
  case (Suc d)
  then have "c < k" by simp
  then show ?case using Suc(1)[of "Suc c"] Suc(2) assms(2,3) by (simp add: scan_up.simps[of c] odd_drop)
qed

lemma scan_down_hit: "bit val k \<Longrightarrow> k \<le> n \<Longrightarrow> (\<And>i. k < i \<Longrightarrow> \<not> bit val i) \<Longrightarrow> scan_down n val = k"
  by (induction n) (auto simp: odd_drop le_Suc_eq)

lemma lowest_bit:
  fixes w :: "'a::len word"
  assumes "w \<noteq> 0"
  shows "bit w (LEAST i. bit w i)" "i < (LEAST i. bit w i) \<Longrightarrow> \<not> bit w i" "(LEAST i. bit w i) < LENGTH('a)"
proof -
  obtain k where "bit w k" using assms by (auto simp: bit_eq_iff)
  then show b: "bit w (LEAST i. bit w i)" by (rule LeastI)
  show "i < (LEAST i. bit w i) \<Longrightarrow> \<not> bit w i" by (rule not_less_Least)
  show "(LEAST i. bit w i) < LENGTH('a)" using b by (rule bit_imp_le_length)
qed

lemma highest_bit:
  fixes w :: "'a::len word"
  assumes "w \<noteq> 0"
  shows "bit w (GREATEST i. bit w i)" "(GREATEST i. bit w i) < i \<Longrightarrow> \<not> bit w i" "(GREATEST i. bit w i) < LENGTH('a)"
proof -
  obtain k where k: "bit w k" using assms by (auto simp: bit_eq_iff)
  have le: "i \<le> LENGTH('a)" if "bit w i" for i using bit_imp_le_length[OF that] by simp
  show b: "bit w (GREATEST i. bit w i)" using GreatestI_nat[of "bit w" k "LENGTH('a)"] k le by blast
  show "(GREATEST i. bit w i) < i \<Longrightarrow> \<not> bit w i" using Greatest_le_nat[of "bit w" i "LENGTH('a)"] le by force
  show "(GREATEST i. bit w i) < LENGTH('a)" using b by (rule bit_imp_le_length)
qed

lemma scan_zero: "c \<le> n \<Longrightarrow> scan_up c n 0 = n"
proof (induction "n - c" arbitrary: c)
  case 0
  then show ?case by (simp add: scan_up.simps[of c c 0])
next
  case (Suc d)
  then show ?case using Suc(1)[of "Suc c"] by (simp add: scan_up.simps[of c n 0])
qed

lemma scans_long:
  fixes v :: u32
  assumes "v \<noteq> 0"
  shows "scan_up 0 32 v = (LEAST i. bit v i)" "scan_down 31 v = (GREATEST i. bit v i)"
proof -
  note lo = lowest_bit[OF assms] and hi = highest_bit[OF assms]
  have "(LEAST i. bit v i) < 32" "(GREATEST i. bit v i) \<le> 31" using lo(3) hi(3) by simp_all
  then show "scan_up 0 32 v = (LEAST i. bit v i)" "scan_down 31 v = (GREATEST i. bit v i)"
    using scan_up_hit[OF lo(1) _ lo(2), of 32 0] scan_down_hit[OF hi(1) _ hi(2), of 31] by blast+
qed

lemma scans_word:
  fixes w :: u16
  assumes "w \<noteq> 0"
  shows "scan_up 0 16 (ucast w) = (LEAST i. bit w i)" "scan_down 15 (ucast w) = (GREATEST i. bit w i)"
proof -
  have eq: "bit (ucast w :: u32) = bit w" by (rule ext) (auto simp: bit_simps dest: bit_imp_le_length)
  note lo = lowest_bit[OF assms, folded eq] and hi = highest_bit[OF assms, folded eq]
  have "Least (bit (ucast w :: u32)) < 16" "Greatest (bit (ucast w :: u32)) \<le> 15" using lo(3) hi(3) by simp_all
  then show "scan_up 0 16 (ucast w) = (LEAST i. bit w i)" "scan_down 15 (ucast w) = (GREATEST i. bit w i)"
    using scan_up_hit[OF lo(1) _ lo(2), of 16 0] scan_down_hit[OF hi(1) _ hi(2), of 15] unfolding eq by blast+
qed

text \<open>The bytes of a long in reverse order.\<close>

definition swapped :: "u32 \<Rightarrow> u32" where
  "swapped v = le32 (ucast (drop_bit 24 v)) (ucast (drop_bit 16 v)) (ucast (drop_bit 8 v)) (ucast v)"

lemma bit_swapped: "bit (swapped v) i = (if i < 8 then bit v (i + 24) else if i < 16 then bit v (i + 8)
    else if i < 24 then bit v (i - 8) else i < 32 \<and> bit v (i - 24))"
  by (auto simp: swapped_def bit_le32 bit_simps add.commute)

lemma swapped_swapped: "swapped (swapped v) = v"
  by (rule bit_word_eqI) (auto simp: bit_swapped)

lemma run_bswap:
  assumes "MODE_DATA32 s"
  shows "\<exists>d. run_state (x86emuOp2_bswap h op2) s =
    ((), set32 (unat (op2 AND 7)) (swapped (get32 (unat (op2 AND 7)) s)) (s\<lparr>disasm_buf := d\<rparr>))"
proof -
  have "(drop_bit 24 v AND 0xff) OR (drop_bit 8 v AND 0xff00) OR (push_bit 8 v AND 0xff0000) OR (push_bit 24 v AND 0xff000000) = swapped v"
    for v :: u32
  proof -
    have m: "(0xff00 :: u32) = push_bit 8 (mask 8)" "(0xff0000 :: u32) = push_bit 16 (mask 8)" by (simp_all add: mask_eq_exp_minus_1)
    show ?thesis unfolding m masks32 by (rule bit_word_eqI) (auto simp: bit_swapped bit_simps add.commute)
  qed
  moreover have "MODE_DATA32 (s\<lparr>disasm_buf := d\<rparr>)" for d using assms by (simp add: MODE_DATA32_def)
  ultimately show ?thesis
    by (simp add: x86emuOp2_bswap_def emu_run decode_rm_long_register_def run_OP_DECODE Let_def or.assoc) blast
qed

lemma MODE_DATA32_set32: "MODE_DATA32 (set32 r v s) = MODE_DATA32 s" "MODE_DATA32 (s\<lparr>disasm_buf := d\<rparr>) = MODE_DATA32 s"
  by (simp_all add: MODE_DATA32_def set32_def)

lemma unat_and_7: "unat (w AND 7) < 8" for w :: u8
  using word_and_le1[of w 7] by (simp add: word_le_nat_alt)

text \<open>
  The loops of BSF and BSR find the lowest and the highest set bit of an operand of
  32 or 16 bits that is not zero; for zero the upward loop runs to the width.
\<close>

lemma scans_find_bits:
  fixes v :: u32 and w :: u16
  shows "(if v \<noteq> 0 then scan_up 0 32 v = (LEAST i. bit v i) \<and> scan_down 31 v = (GREATEST i. bit v i) else scan_up 0 32 v = 32) \<and>
    (if w \<noteq> 0 then scan_up 0 16 (ucast w) = (LEAST i. bit w i) \<and> scan_down 15 (ucast w) = (GREATEST i. bit w i)
     else scan_up 0 16 (ucast w) = 16)"
  by (simp add: scans_long scans_word scan_zero)

text \<open>
  With 32 bit operands BSWAP reverses the bytes of the register its opcode names and
  leaves the other registers alone; executing it twice restores all of them.
\<close>

lemma bswap_twice:
  fixes op2 :: u8
  assumes "MODE_DATA32 s"
  defines "r \<equiv> unat (op2 AND 7)"
  shows "\<exists>t u. run_state (x86emuOp2_bswap h op2) s = ((), t) \<and> run_state (x86emuOp2_bswap h op2) t = ((), u) \<and>
    (\<forall>q<8. get32 q t = (if q = r then swapped (get32 q s) else get32 q s)) \<and> (\<forall>q<8. get32 q u = get32 q s)"
proof -
  have r: "r < 8" unfolding r_def by (rule unat_and_7)
  obtain d where d: "run_state (x86emuOp2_bswap h op2) s = ((), set32 r (swapped (get32 r s)) (s\<lparr>disasm_buf := d\<rparr>))"
    using run_bswap[OF assms(1)] unfolding r_def by blast
  let ?t = "set32 r (swapped (get32 r s)) (s\<lparr>disasm_buf := d\<rparr>)"
  have "MODE_DATA32 ?t" using assms(1) by (simp add: MODE_DATA32_set32)
  then obtain e where e: "run_state (x86emuOp2_bswap h op2) ?t = ((), set32 r (swapped (get32 r ?t)) (?t\<lparr>disasm_buf := e\<rparr>))"
    using run_bswap[of ?t h op2] unfolding r_def by blast
  have "\<forall>q<8. get32 q ?t = (if q = r then swapped (get32 q s) else get32 q s)"
    using r by (auto simp: get32_set32)
  moreover have "\<forall>q<8. get32 q (set32 r (swapped (get32 r ?t)) (?t\<lparr>disasm_buf := e\<rparr>)) = get32 q s"
    using r by (auto simp: get32_set32 swapped_swapped)
  ultimately show ?thesis using d e by blast
qed

section \<open>Examples\<close>

text \<open>A new emulator with some code where the processor starts.\<close>

definition code_emu :: "u8 \<Rightarrow> x86emu" where
  "code_emu b = (x86emu_new idle_host (\<lambda>_. 0) 7 0)\<lparr>mem := vm_w_byte (emu_mem_new 7 (\<lambda>_. 0)) 0xffff0 (ucast b)\<rparr>"

lemma code_emu_plain: "plain (code_emu b)" "code_at (code_emu b) 0xffff0 b" "seg (code_emu b) = reset_seg" "R_EIP (code_emu b) = 0xfff0"
  "mode (code_emu b) = 0" "intr_type (code_emu b) = 0"
proof -
  have m: "mem_ok (mem (code_emu b)) \<and> abs_mem (mem (code_emu b)) = flat_w_byte (abs_mem (emu_mem_new 7 (\<lambda>_. 0))) 0xffff0 (ucast b)"
    using vm_store_byte[of "emu_mem_new 7 (\<lambda>_. 0)" "0xffff0" "ucast b"] abs_emu_mem_new(1) by (simp add: code_emu_def)
  have "memio (code_emu b) = Vm_memio"
    using x86emu_new_simps(1)[of idle_host "\<lambda>_. 0" 7 0] by (simp add: code_emu_def sandboxed_def)
  then show "plain (code_emu b)" using m by (simp add: plain_def) (simp add: code_emu_def)
  show "code_at (code_emu b) 0xffff0 b" using m by (simp add: code_at_def flat_w_byte_def abs_emu_mem_new)
qed (simp_all add: code_emu_def)

lemma code_emu_ptr: "code_ptr (code_emu b) = 0xffff0"
  by (simp add: code_emu_plain reset_seg_def)

lemma get32_0: "get32 0 s = R_EAX s"
  by (simp add: get32_def)

lemma bswap_twice_witness:
  "\<exists>t. run_state (x86emuOp2_bswap idle_host 0xc8) ((code_emu 0)\<lparr>mode := 8, R_EAX := 0x12345678\<rparr>) = ((), t) \<and> R_EAX t = 0x78563412"
proof -
  let ?s = "(code_emu 0)\<lparr>mode := 8, R_EAX := 0x12345678\<rparr>"
  have "MODE_DATA32 ?s" by (simp add: MODE_DATA32_def)
  then obtain t where t: "run_state (x86emuOp2_bswap idle_host 0xc8) ?s = ((), t)"
    "\<forall>q<8. get32 q t = (if q = unat (0xc8 AND 7 :: u8) then swapped (get32 q ?s) else get32 q ?s)"
    using bswap_twice[of ?s idle_host "0xc8"] by blast
  have "swapped 0x12345678 = 0x78563412" by code_simp
  then have "get32 0 t = 0x78563412" using spec[OF t(2), of 0] by (simp add: get32_0)
  then show ?thesis using t(1) by (simp add: get32_0)
qed

lemma alu_byte_reg_reg_witness:
  "\<exists>t. run_state (x86emuOp_op_A_byte_RM_R idle_host 0x28) ((code_emu 0xc8)\<lparr>R_EAX := 7, R_ECX := 9\<rparr>) = ((), t) \<and> R_AL t = 0xfe"
proof -
  let ?s = "(code_emu 0xc8)\<lparr>R_EAX := 7, R_ECX := 9\<rparr>"
  have "plain ?s" "code_at ?s (code_ptr ?s) 0xc8"
    using code_emu_plain[of "0xc8"] code_emu_ptr[of "0xc8"] by (simp_all add: plain_def code_at_def)
  then obtain t where t: "run_state (x86emuOp_op_A_byte_RM_R idle_host 0x28) ?s = ((), t)"
    "get8 0 t = fst ((op_A_byte ! 5) (R_FLG ?s) (get8 0 ?s) (get8 1 ?s))"
    using alu_byte_reg_reg[of ?s "0xc8" "0x28" idle_host] by (auto simp: Let_def)
  have "get8 0 t = 7 - 9" using sub_byte_correct[of "R_FLG ?s" 7 9] t(2)
    by (simp add: op_A_byte_def alu_result_def get8_def get32_def lo8_def)
  then show ?thesis using t(1) by (simp add: get8_def get32_def)
qed

text \<open>After a comparison of 127 with -128 CMOVL moves, although 127 is not the lesser of the two.\<close>

lemma cmov_register_witness:
  "\<exists>t. run_state (x86emuOp2_conditional_move idle_host 0x4c)
      ((code_emu 0xc1)\<lparr>R_EAX := 7, R_ECX := 9, R_FLG := snd (cmp_byte 2 0x7f 0x80)\<rparr>) = ((), t) \<and> R_EAX t = 9 \<and> \<not> (0x7f :: u8) <s 0x80"
proof -
  let ?s = "(code_emu 0xc1)\<lparr>R_EAX := 7, R_ECX := 9, R_FLG := snd (cmp_byte 2 0x7f 0x80)\<rparr>"
  have flags: "ACCESS_FLAG F_SF (snd (cmp_byte 2 0x7f 0x80))" "ACCESS_FLAG F_OF (snd (cmp_byte 2 0x7f 0x80))" by code_simp+
  have "plain ?s" "code_at ?s (code_ptr ?s) 0xc1"
    using code_emu_plain[of "0xc1"] code_emu_ptr[of "0xc1"] by (simp_all add: plain_def code_at_def)
  then obtain t where t: "run_state (x86emuOp2_conditional_move idle_host 0x4c) ?s = ((), t)"
    "t = set16 0 9 (fetched_one ?s t)"
    using cmov_register[of ?s "0xc1" idle_host "0x4c"] flags by (auto simp: Let_def MODE_DATA32_def code_emu_plain get16_def get32_def lo16_def)
  have "R_EAX t = 9" by (subst t(2)) (simp add: set16_def set32_def get32_def fetched_one_def set_lo16_def)
  moreover have "\<not> (0x7f :: u8) <s 0x80" by code_simp
  ultimately show ?thesis using t(1) by blast
qed

lemma push_pop_long_witness:
  "\<exists>t. run_state (do { push_long idle_host 0xcafe; pop_long idle_host }) ((code_emu 0)\<lparr>R_ESP := 0x100\<rparr>) = (0xcafe, t) \<and> R_ESP t = 0x100"
proof -
  let ?s = "(code_emu 0)\<lparr>R_ESP := 0x100\<rparr>"
  have a: "push_ofs ?s = 0xfc" by (simp add: push_ofs_def MODE_STACK32_def code_emu_plain lo16_def)
  have m: "abs_mem (mem ?s) = flat_w_byte (abs_mem (emu_mem_new 7 (\<lambda>_. 0))) 0xffff0 0"
    using vm_store_byte[of "emu_mem_new 7 (\<lambda>_. 0)" "0xffff0" 0] abs_emu_mem_new(1) by (simp add: code_emu_def)
  have "stack_room ?s" unfolding stack_room_def Let_def a m
    by (simp add: in_limit_def code_emu_plain reset_seg_def flat_w_byte_def abs_emu_mem_new inj_on_def)
  moreover have "plain ?s" using code_emu_plain(1)[of 0] by (simp add: plain_def)
  ultimately show ?thesis using push_pop_long[of ?s idle_host "0xcafe"] by auto
qed

lemma effective_address16_witness:
  "fst (run_state (decode_rm_address idle_host 1 6) ((code_emu 0xfe)\<lparr>R_EBP := 0x1000\<rparr>)) = 0xffe"
proof -
  let ?s = "(code_emu 0xfe)\<lparr>R_EBP := 0x1000\<rparr>"
  have "plain ?s" "code_at ?s (code_ptr ?s) 0xfe" "\<not> MODE_ADDR32 ?s"
    using code_emu_plain[of "0xfe"] code_emu_ptr[of "0xfe"] by (simp_all add: plain_def code_at_def MODE_ADDR32_def)
  then show ?thesis using effective_address16[of ?s "0xfe" 6 idle_host] by (auto simp: base16_def lo16_def)
qed

text \<open>Protected mode with a table at 0x1000, whose entry 8 is a flat 32 bit code segment.\<close>

definition table_emu :: x86emu where
  "table_emu = (x86emu_new idle_host (\<lambda>_. 0) 7 0)
    \<lparr>mem := vm_w_dword (vm_w_dword (emu_mem_new 7 (\<lambda>_. 0)) 0x1008 0x0000ffff) 0x100c 0x00cf9b00,
     crx := (\<lambda>_. 1), R_GDT_BASE := 0x1000, R_GDT_LIMIT := 0xf\<rparr>"

lemma table_emu_longs: "mem_ok (mem table_emu)" "long_at table_emu 0x1008 0x0000ffff" "long_at table_emu 0x100c 0x00cf9b00"
proof -
  let ?m = "vm_w_dword (emu_mem_new 7 (\<lambda>_. 0)) 0x1008 0x0000ffff"
  have 1: "mem_ok ?m" "abs_mem ?m = flat_stores 4 (abs_mem (emu_mem_new 7 (\<lambda>_. 0))) 0x1008 0x0000ffff"
    using vm_w_dword_refines[of "emu_mem_new 7 (\<lambda>_. 0)" "0x1008" "0x0000ffff"] abs_emu_mem_new(1) by simp_all
  have 2: "mem_ok (mem table_emu)" "abs_mem (mem table_emu) = flat_stores 4 (abs_mem ?m) 0x100c 0x00cf9b00"
    using vm_w_dword_refines[OF 1(1), of "0x100c" "0x00cf9b00"] by (simp_all add: table_emu_def)
  show "mem_ok (mem table_emu)" by (rule 2)
  have le: "le32 65535 255 0 0 = 65535" "le32 13605632 53147 207 0 = 13605632" by code_simp+
  show "long_at table_emu 0x1008 0x0000ffff" "long_at table_emu 0x100c 0x00cf9b00"
    unfolding long_at_def Let_def 2(2) 1(2) abs_emu_mem_new flat_stores_4
    by (simp_all add: flat_w_byte_def le)
qed

lemma segment_load_protected_witness:
  "sel_limit (seg (snd (run_state (x86emu_set_seg_register idle_host (Seg 1) 8) table_emu)) 1) = 0xffffffff"
proof -
  have "descriptor_words 0 0xfffff 0xc9b = (0x0000ffff, 0x00cf9b00)" "descriptor_limit 0xfffff 0xc9b = 0xffffffff"
    "ACC_S 0xc9b" "ACC_P 0xc9b" "(ucast ((8 :: u16) AND NOT 7) :: u32) = 8" "((8 :: u16) AND 4) = 0"
    by code_simp+
  moreover have "plain table_emu" using table_emu_longs(1) x86emu_new_simps(1)[of idle_host "\<lambda>_. 0" 7 0]
    by (simp add: plain_def table_emu_def sandboxed_def)
  moreover have "MODE_PROTECTED table_emu" "R_GDT_BASE table_emu = 0x1000" "R_GDT_LIMIT table_emu = 0xf"
    by (simp_all add: table_emu_def MODE_PROTECTED_def)
  ultimately show ?thesis
    using segment_load_protected[of table_emu 8 0 "0xfffff" "0xc9b" "0x0000ffff" "0x00cf9b00" idle_host 1] table_emu_longs(2,3)
    by auto
qed

end
