(* ===== verification/Ops_Shift.thy ===== *)
theory Ops_Shift
  imports Ops_Base
begin

text \<open>
  The rotates and shifts of one byte opcodes (\<^verbatim>\<open>ops.c\<close>).
\<close>

definition x86emuOp_opcC0_byte_RM_MEM :: "host \<Rightarrow> u8 \<Rightarrow> unit emu" where
  "x86emuOp_opcC0_byte_RM_MEM h op1 =
     do {
       (md, rh, rl) \<leftarrow> fetch_decode_modrm h;
       decode_op_B rh;
       if md = 3 then do {
         reg8 \<leftarrow> decode_rm_byte_register rl;
         OP_DECODE '','';
         imm \<leftarrow> fetch_byte h;
         OP_DECODE (decode_hex2 (ucast imm));
         val \<leftarrow> alu (\<lambda>s. (op_B_byte ! rh) (R_FLG s) (get8 reg8 s) imm);
         modify (set8 reg8 val)
       } else do {
         OP_DECODE ''byte '';
         addr \<leftarrow> decode_rm_address h md rl;
         OP_DECODE '','';
         val \<leftarrow> fetch_data_byte h addr;
         imm \<leftarrow> fetch_byte h;
         OP_DECODE (decode_hex2 (ucast imm));
         val \<leftarrow> alu (\<lambda>s. (op_B_byte ! rh) (R_FLG s) val imm);
         store_data_byte h addr val
       }
     }"

definition x86emuOp_opcC1_word_RM_MEM :: "host \<Rightarrow> u8 \<Rightarrow> unit emu" where
  "x86emuOp_opcC1_word_RM_MEM h op1 =
     do {
       (md, rh, rl) \<leftarrow> fetch_decode_modrm h;
       decode_op_B rh;
       if md = 3 then do {
         d32 \<leftarrow> gets MODE_DATA32;
         if d32 then do {
           reg32 \<leftarrow> decode_rm_long_register rl;
           OP_DECODE '','';
           imm \<leftarrow> fetch_byte h;
           OP_DECODE (decode_hex2 (ucast imm));
           val \<leftarrow> alu (\<lambda>s. (op_B_long ! rh) (R_FLG s) (get32 reg32 s) imm);
           modify (set32 reg32 val)
         } else do {
           reg16 \<leftarrow> decode_rm_word_register rl;
           OP_DECODE '','';
           imm \<leftarrow> fetch_byte h;
           OP_DECODE (decode_hex2 (ucast imm));
           val \<leftarrow> alu (\<lambda>s. (op_B_word ! rh) (R_FLG s) (get16 reg16 s) imm);
           let val = (ucast val :: u32);
           modify (set16 reg16 (ucast val))
         }
       } else do {
         d32 \<leftarrow> gets MODE_DATA32;
         if d32 then do {
           OP_DECODE ''dword '';
           addr \<leftarrow> decode_rm_address h md rl;
           OP_DECODE '','';
           val \<leftarrow> fetch_data_long h addr;
           imm \<leftarrow> fetch_byte h;
           OP_DECODE (decode_hex2 (ucast imm));
           val \<leftarrow> alu (\<lambda>s. (op_B_long ! rh) (R_FLG s) val imm);
           store_data_long h addr val
         } else do {
           OP_DECODE ''word '';
           addr \<leftarrow> decode_rm_address h md rl;
           OP_DECODE '','';
           val \<leftarrow> fetch_data_word h addr;
           let val = (ucast val :: u32);
           imm \<leftarrow> fetch_byte h;
           OP_DECODE (decode_hex2 (ucast imm));
           val \<leftarrow> alu (\<lambda>s. (op_B_word ! rh) (R_FLG s) (ucast val) imm);
           let val = (ucast val :: u32);
           store_data_word h addr (ucast val)
         }
       }
     }"

definition x86emuOp_opcD0_byte_RM_1 :: "host \<Rightarrow> u8 \<Rightarrow> unit emu" where
  "x86emuOp_opcD0_byte_RM_1 h op1 =
     do {
       (md, rh, rl) \<leftarrow> fetch_decode_modrm h;
       decode_op_B rh;
       if md = 3 then do {
         reg8 \<leftarrow> decode_rm_byte_register rl;
         OP_DECODE '',1'';
         val \<leftarrow> alu (\<lambda>s. (op_B_byte ! rh) (R_FLG s) (get8 reg8 s) 1);
         modify (set8 reg8 val)
       } else do {
         OP_DECODE ''byte '';
         addr \<leftarrow> decode_rm_address h md rl;
         OP_DECODE '',1'';
         val \<leftarrow> fetch_data_byte h addr;
         val \<leftarrow> alu (\<lambda>s. (op_B_byte ! rh) (R_FLG s) val 1);
         store_data_byte h addr val
       }
     }"

definition x86emuOp_opcD1_word_RM_1 :: "host \<Rightarrow> u8 \<Rightarrow> unit emu" where
  "x86emuOp_opcD1_word_RM_1 h op1 =
     do {
       (md, rh, rl) \<leftarrow> fetch_decode_modrm h;
       decode_op_B rh;
       if md = 3 then do {
         d32 \<leftarrow> gets MODE_DATA32;
         if d32 then do {
           reg32 \<leftarrow> decode_rm_long_register rl;
           OP_DECODE '',1'';
           val \<leftarrow> alu (\<lambda>s. (op_B_long ! rh) (R_FLG s) (get32 reg32 s) 1);
           modify (set32 reg32 val)
         } else do {
           reg16 \<leftarrow> decode_rm_word_register rl;
           OP_DECODE '',1'';
           val \<leftarrow> alu (\<lambda>s. (op_B_word ! rh) (R_FLG s) (get16 reg16 s) 1);
           let val = (ucast val :: u32);
           modify (set16 reg16 (ucast val))
         }
       } else do {
         d32 \<leftarrow> gets MODE_DATA32;
         if d32 then do {
           OP_DECODE ''dword '';
           addr \<leftarrow> decode_rm_address h md rl;
           OP_DECODE '',1'';
           val \<leftarrow> fetch_data_long h addr;
           val \<leftarrow> alu (\<lambda>s. (op_B_long ! rh) (R_FLG s) val 1);
           store_data_long h addr val
         } else do {
           OP_DECODE ''word '';
           addr \<leftarrow> decode_rm_address h md rl;
           OP_DECODE '',1'';
           val \<leftarrow> fetch_data_word h addr;
           let val = (ucast val :: u32);
           val \<leftarrow> alu (\<lambda>s. (op_B_word ! rh) (R_FLG s) (ucast val) 1);
           let val = (ucast val :: u32);
           store_data_word h addr (ucast val)
         }
       }
     }"

definition x86emuOp_opcD2_byte_RM_CL :: "host \<Rightarrow> u8 \<Rightarrow> unit emu" where
  "x86emuOp_opcD2_byte_RM_CL h op1 =
     do {
       (md, rh, rl) \<leftarrow> fetch_decode_modrm h;
       decode_op_B rh;
       imm \<leftarrow> gets R_CL;
       if md = 3 then do {
         reg8 \<leftarrow> decode_rm_byte_register rl;
         OP_DECODE '',cl'';
         val \<leftarrow> alu (\<lambda>s. (op_B_byte ! rh) (R_FLG s) (get8 reg8 s) imm);
         modify (set8 reg8 val)
       } else do {
         OP_DECODE ''byte '';
         addr \<leftarrow> decode_rm_address h md rl;
         OP_DECODE '',cl'';
         val \<leftarrow> fetch_data_byte h addr;
         val \<leftarrow> alu (\<lambda>s. (op_B_byte ! rh) (R_FLG s) val imm);
         store_data_byte h addr val
       }
     }"

definition x86emuOp_opcD3_word_RM_CL :: "host \<Rightarrow> u8 \<Rightarrow> unit emu" where
  "x86emuOp_opcD3_word_RM_CL h op1 =
     do {
       (md, rh, rl) \<leftarrow> fetch_decode_modrm h;
       decode_op_B rh;
       imm \<leftarrow> gets R_CL;
       if md = 3 then do {
         d32 \<leftarrow> gets MODE_DATA32;
         if d32 then do {
           reg32 \<leftarrow> decode_rm_long_register rl;
           OP_DECODE '',cl'';
           val \<leftarrow> alu (\<lambda>s. (op_B_long ! rh) (R_FLG s) (get32 reg32 s) imm);
           modify (set32 reg32 val)
         } else do {
           reg16 \<leftarrow> decode_rm_word_register rl;
           OP_DECODE '',cl'';
           val \<leftarrow> alu (\<lambda>s. (op_B_word ! rh) (R_FLG s) (get16 reg16 s) imm);
           let val = (ucast val :: u32);
           modify (set16 reg16 (ucast val))
         }
       } else do {
         d32 \<leftarrow> gets MODE_DATA32;
         if d32 then do {
           OP_DECODE ''dword '';
           addr \<leftarrow> decode_rm_address h md rl;
           OP_DECODE '',cl'';
           val \<leftarrow> fetch_data_long h addr;
           val \<leftarrow> alu (\<lambda>s. (op_B_long ! rh) (R_FLG s) val imm);
           store_data_long h addr val
         } else do {
           OP_DECODE ''word '';
           addr \<leftarrow> decode_rm_address h md rl;
           OP_DECODE '',cl'';
           val \<leftarrow> fetch_data_word h addr;
           let val = (ucast val :: u32);
           val \<leftarrow> alu (\<lambda>s. (op_B_word ! rh) (R_FLG s) (ucast val) imm);
           let val = (ucast val :: u32);
           store_data_word h addr (ucast val)
         }
       }
     }"

section \<open>The operations respect a discipline\<close>

context discipline
begin

lemma emu_ok_Ops_Shift_1 [handler_oks]:
  "emu_ok (x86emuOp_opcC0_byte_RM_MEM h op)"
  "emu_ok (x86emuOp_opcC1_word_RM_MEM h op)"
  "emu_ok (x86emuOp_opcD0_byte_RM_1 h op)"
  "emu_ok (x86emuOp_opcD1_word_RM_1 h op)"
  unfolding x86emuOp_opcC0_byte_RM_MEM_def x86emuOp_opcC1_word_RM_MEM_def x86emuOp_opcD0_byte_RM_1_def
    x86emuOp_opcD1_word_RM_1_def
  by (intro emu_oks)+

lemma emu_ok_Ops_Shift_2 [handler_oks]:
  "emu_ok (x86emuOp_opcD2_byte_RM_CL h op)"
  "emu_ok (x86emuOp_opcD3_word_RM_CL h op)"
  unfolding x86emuOp_opcD2_byte_RM_CL_def x86emuOp_opcD3_word_RM_CL_def
  by (intro emu_oks)+

end

end
