(* ===== verification/Ops_Move.thy ===== *)
theory Ops_Move
  imports Ops_Base
begin

text \<open>
  Data moves of one byte opcodes (\<^verbatim>\<open>ops.c\<close>): the stack, \<^verbatim>\<open>xchg\<close>, \<^verbatim>\<open>mov\<close>, \<^verbatim>\<open>lea\<close>, far pointer loads,
  \<^verbatim>\<open>xlat\<close> and the port instructions.
\<close>

definition x86emuOp_push_ES :: "host \<Rightarrow> u8 \<Rightarrow> unit emu" where
  "x86emuOp_push_ES h op1 =
     do {
       OP_DECODE ''push es'';
       d32 \<leftarrow> gets MODE_DATA32;
       if d32 then do { v \<leftarrow> gets (\<lambda>s. ucast (sel_sel (seg s R_ES_INDEX))); push_long h v }
       else do { v \<leftarrow> gets (\<lambda>s. sel_sel (seg s R_ES_INDEX)); push_word h v }
     }"

definition x86emuOp_pop_ES :: "host \<Rightarrow> u8 \<Rightarrow> unit emu" where
  "x86emuOp_pop_ES h op1 =
     do {
       OP_DECODE ''pop es'';
       d32 \<leftarrow> gets MODE_DATA32;
       v2 \<leftarrow> (if d32 then pop_long h else do { v \<leftarrow> pop_word h; return (ucast v) });
       x86emu_set_seg_register h (Seg R_ES_INDEX) (ucast v2)
     }"

definition x86emuOp_push_CS :: "host \<Rightarrow> u8 \<Rightarrow> unit emu" where
  "x86emuOp_push_CS h op1 =
     do {
       OP_DECODE ''push cs'';
       d32 \<leftarrow> gets MODE_DATA32;
       if d32 then do { v \<leftarrow> gets (\<lambda>s. ucast (sel_sel (seg s R_CS_INDEX))); push_long h v }
       else do { v \<leftarrow> gets (\<lambda>s. sel_sel (seg s R_CS_INDEX)); push_word h v }
     }"

definition x86emuOp_push_SS :: "host \<Rightarrow> u8 \<Rightarrow> unit emu" where
  "x86emuOp_push_SS h op1 =
     do {
       OP_DECODE ''push ss'';
       d32 \<leftarrow> gets MODE_DATA32;
       if d32 then do { v \<leftarrow> gets (\<lambda>s. ucast (sel_sel (seg s R_SS_INDEX))); push_long h v }
       else do { v \<leftarrow> gets (\<lambda>s. sel_sel (seg s R_SS_INDEX)); push_word h v }
     }"

definition x86emuOp_pop_SS :: "host \<Rightarrow> u8 \<Rightarrow> unit emu" where
  "x86emuOp_pop_SS h op1 =
     do {
       OP_DECODE ''pop ss'';
       d32 \<leftarrow> gets MODE_DATA32;
       v2 \<leftarrow> (if d32 then pop_long h else do { v \<leftarrow> pop_word h; return (ucast v) });
       x86emu_set_seg_register h (Seg R_SS_INDEX) (ucast v2)
     }"

definition x86emuOp_push_DS :: "host \<Rightarrow> u8 \<Rightarrow> unit emu" where
  "x86emuOp_push_DS h op1 =
     do {
       OP_DECODE ''push ds'';
       d32 \<leftarrow> gets MODE_DATA32;
       if d32 then do { v \<leftarrow> gets (\<lambda>s. ucast (sel_sel (seg s R_DS_INDEX))); push_long h v }
       else do { v \<leftarrow> gets (\<lambda>s. sel_sel (seg s R_DS_INDEX)); push_word h v }
     }"

definition x86emuOp_pop_DS :: "host \<Rightarrow> u8 \<Rightarrow> unit emu" where
  "x86emuOp_pop_DS h op1 =
     do {
       OP_DECODE ''pop ds'';
       d32 \<leftarrow> gets MODE_DATA32;
       v2 \<leftarrow> (if d32 then pop_long h else do { v \<leftarrow> pop_word h; return (ucast v) });
       x86emu_set_seg_register h (Seg R_DS_INDEX) (ucast v2)
     }"

definition x86emuOp_push_AX :: "host \<Rightarrow> u8 \<Rightarrow> unit emu" where
  "x86emuOp_push_AX h op1 =
     do {
       d32 \<leftarrow> gets MODE_DATA32;
       if d32 then do { OP_DECODE ''push eax''; v \<leftarrow> gets R_EAX; push_long h v }
       else do { OP_DECODE ''push ax''; v \<leftarrow> gets R_AX; push_word h v }
     }"

definition x86emuOp_push_CX :: "host \<Rightarrow> u8 \<Rightarrow> unit emu" where
  "x86emuOp_push_CX h op1 =
     do {
       d32 \<leftarrow> gets MODE_DATA32;
       if d32 then do { OP_DECODE ''push ecx''; v \<leftarrow> gets R_ECX; push_long h v }
       else do { OP_DECODE ''push cx''; v \<leftarrow> gets R_CX; push_word h v }
     }"

definition x86emuOp_push_DX :: "host \<Rightarrow> u8 \<Rightarrow> unit emu" where
  "x86emuOp_push_DX h op1 =
     do {
       d32 \<leftarrow> gets MODE_DATA32;
       if d32 then do { OP_DECODE ''push edx''; v \<leftarrow> gets R_EDX; push_long h v }
       else do { OP_DECODE ''push dx''; v \<leftarrow> gets R_DX; push_word h v }
     }"

definition x86emuOp_push_BX :: "host \<Rightarrow> u8 \<Rightarrow> unit emu" where
  "x86emuOp_push_BX h op1 =
     do {
       d32 \<leftarrow> gets MODE_DATA32;
       if d32 then do { OP_DECODE ''push ebx''; v \<leftarrow> gets R_EBX; push_long h v }
       else do { OP_DECODE ''push bx''; v \<leftarrow> gets R_BX; push_word h v }
     }"

definition x86emuOp_push_SP :: "host \<Rightarrow> u8 \<Rightarrow> unit emu" where
  "x86emuOp_push_SP h op1 =
     do {
       d32 \<leftarrow> gets MODE_DATA32;
       if d32 then do { OP_DECODE ''push esp''; v \<leftarrow> gets R_ESP; push_long h v }
       else do { OP_DECODE ''push sp''; v \<leftarrow> gets R_SP; push_word h v }
     }"

definition x86emuOp_push_BP :: "host \<Rightarrow> u8 \<Rightarrow> unit emu" where
  "x86emuOp_push_BP h op1 =
     do {
       d32 \<leftarrow> gets MODE_DATA32;
       if d32 then do { OP_DECODE ''push ebp''; v \<leftarrow> gets R_EBP; push_long h v }
       else do { OP_DECODE ''push bp''; v \<leftarrow> gets R_BP; push_word h v }
     }"

definition x86emuOp_push_SI :: "host \<Rightarrow> u8 \<Rightarrow> unit emu" where
  "x86emuOp_push_SI h op1 =
     do {
       d32 \<leftarrow> gets MODE_DATA32;
       if d32 then do { OP_DECODE ''push esi''; v \<leftarrow> gets R_ESI; push_long h v }
       else do { OP_DECODE ''push si''; v \<leftarrow> gets R_SI; push_word h v }
     }"

definition x86emuOp_push_DI :: "host \<Rightarrow> u8 \<Rightarrow> unit emu" where
  "x86emuOp_push_DI h op1 =
     do {
       d32 \<leftarrow> gets MODE_DATA32;
       if d32 then do { OP_DECODE ''push edi''; v \<leftarrow> gets R_EDI; push_long h v }
       else do { OP_DECODE ''push di''; v \<leftarrow> gets R_DI; push_word h v }
     }"

definition x86emuOp_pop_AX :: "host \<Rightarrow> u8 \<Rightarrow> unit emu" where
  "x86emuOp_pop_AX h op1 =
     do {
       d32 \<leftarrow> gets MODE_DATA32;
       if d32 then do {
         OP_DECODE ''pop eax'';
         v \<leftarrow> pop_long h;
         modify (\<lambda>s. s\<lparr>R_EAX := v\<rparr>)
       } else do {
         OP_DECODE ''pop ax'';
         v \<leftarrow> pop_word h;
         modify (\<lambda>s. s\<lparr>R_EAX := set_lo16 v (R_EAX s)\<rparr>)
       }
     }"

definition x86emuOp_pop_CX :: "host \<Rightarrow> u8 \<Rightarrow> unit emu" where
  "x86emuOp_pop_CX h op1 =
     do {
       d32 \<leftarrow> gets MODE_DATA32;
       if d32 then do {
         OP_DECODE ''pop ecx'';
         v \<leftarrow> pop_long h;
         modify (\<lambda>s. s\<lparr>R_ECX := v\<rparr>)
       } else do {
         OP_DECODE ''pop cx'';
         v \<leftarrow> pop_word h;
         modify (\<lambda>s. s\<lparr>R_ECX := set_lo16 v (R_ECX s)\<rparr>)
       }
     }"

definition x86emuOp_pop_DX :: "host \<Rightarrow> u8 \<Rightarrow> unit emu" where
  "x86emuOp_pop_DX h op1 =
     do {
       d32 \<leftarrow> gets MODE_DATA32;
       if d32 then do {
         OP_DECODE ''pop edx'';
         v \<leftarrow> pop_long h;
         modify (\<lambda>s. s\<lparr>R_EDX := v\<rparr>)
       } else do {
         OP_DECODE ''pop dx'';
         v \<leftarrow> pop_word h;
         modify (\<lambda>s. s\<lparr>R_EDX := set_lo16 v (R_EDX s)\<rparr>)
       }
     }"

definition x86emuOp_pop_BX :: "host \<Rightarrow> u8 \<Rightarrow> unit emu" where
  "x86emuOp_pop_BX h op1 =
     do {
       d32 \<leftarrow> gets MODE_DATA32;
       if d32 then do {
         OP_DECODE ''pop ebx'';
         v \<leftarrow> pop_long h;
         modify (\<lambda>s. s\<lparr>R_EBX := v\<rparr>)
       } else do {
         OP_DECODE ''pop bx'';
         v \<leftarrow> pop_word h;
         modify (\<lambda>s. s\<lparr>R_EBX := set_lo16 v (R_EBX s)\<rparr>)
       }
     }"

definition x86emuOp_pop_SP :: "host \<Rightarrow> u8 \<Rightarrow> unit emu" where
  "x86emuOp_pop_SP h op1 =
     do {
       d32 \<leftarrow> gets MODE_DATA32;
       if d32 then do {
         OP_DECODE ''pop esp'';
         v \<leftarrow> pop_long h;
         modify (\<lambda>s. s\<lparr>R_ESP := v\<rparr>)
       } else do {
         OP_DECODE ''pop sp'';
         v \<leftarrow> pop_word h;
         modify (\<lambda>s. s\<lparr>R_ESP := set_lo16 v (R_ESP s)\<rparr>)
       }
     }"

definition x86emuOp_pop_BP :: "host \<Rightarrow> u8 \<Rightarrow> unit emu" where
  "x86emuOp_pop_BP h op1 =
     do {
       d32 \<leftarrow> gets MODE_DATA32;
       if d32 then do {
         OP_DECODE ''pop ebp'';
         v \<leftarrow> pop_long h;
         modify (\<lambda>s. s\<lparr>R_EBP := v\<rparr>)
       } else do {
         OP_DECODE ''pop bp'';
         v \<leftarrow> pop_word h;
         modify (\<lambda>s. s\<lparr>R_EBP := set_lo16 v (R_EBP s)\<rparr>)
       }
     }"

definition x86emuOp_pop_SI :: "host \<Rightarrow> u8 \<Rightarrow> unit emu" where
  "x86emuOp_pop_SI h op1 =
     do {
       d32 \<leftarrow> gets MODE_DATA32;
       if d32 then do {
         OP_DECODE ''pop esi'';
         v \<leftarrow> pop_long h;
         modify (\<lambda>s. s\<lparr>R_ESI := v\<rparr>)
       } else do {
         OP_DECODE ''pop si'';
         v \<leftarrow> pop_word h;
         modify (\<lambda>s. s\<lparr>R_ESI := set_lo16 v (R_ESI s)\<rparr>)
       }
     }"

definition x86emuOp_pop_DI :: "host \<Rightarrow> u8 \<Rightarrow> unit emu" where
  "x86emuOp_pop_DI h op1 =
     do {
       d32 \<leftarrow> gets MODE_DATA32;
       if d32 then do {
         OP_DECODE ''pop edi'';
         v \<leftarrow> pop_long h;
         modify (\<lambda>s. s\<lparr>R_EDI := v\<rparr>)
       } else do {
         OP_DECODE ''pop di'';
         v \<leftarrow> pop_word h;
         modify (\<lambda>s. s\<lparr>R_EDI := set_lo16 v (R_EDI s)\<rparr>)
       }
     }"

definition x86emuOp_push_all :: "host \<Rightarrow> u8 \<Rightarrow> unit emu" where
  "x86emuOp_push_all h op1 =
     do {
       esp \<leftarrow> gets R_ESP;
       d32 \<leftarrow> gets MODE_DATA32;
       if d32 then do {
         OP_DECODE ''pushad'';
         v \<leftarrow> gets R_EAX;
         push_long h v;
         v2 \<leftarrow> gets R_ECX;
         push_long h v2;
         v3 \<leftarrow> gets R_EDX;
         push_long h v3;
         v4 \<leftarrow> gets R_EBX;
         push_long h v4;
         push_long h esp;
         v5 \<leftarrow> gets R_EBP;
         push_long h v5;
         v6 \<leftarrow> gets R_ESI;
         push_long h v6;
         v7 \<leftarrow> gets R_EDI;
         push_long h v7
       } else do {
         OP_DECODE ''pusha'';
         v \<leftarrow> gets R_AX;
         push_word h v;
         v2 \<leftarrow> gets R_CX;
         push_word h v2;
         v3 \<leftarrow> gets R_DX;
         push_word h v3;
         v4 \<leftarrow> gets R_BX;
         push_word h v4;
         push_word h (ucast esp);
         v5 \<leftarrow> gets R_BP;
         push_word h v5;
         v6 \<leftarrow> gets R_SI;
         push_word h v6;
         v7 \<leftarrow> gets R_DI;
         push_word h v7
       }
     }"

definition x86emuOp_pop_all :: "host \<Rightarrow> u8 \<Rightarrow> unit emu" where
  "x86emuOp_pop_all h op1 =
     do {
       d32 \<leftarrow> gets MODE_DATA32;
       if d32 then do {
         OP_DECODE ''popad'';
         v \<leftarrow> pop_long h;
         modify (\<lambda>s. s\<lparr>R_EDI := v\<rparr>);
         v2 \<leftarrow> pop_long h;
         modify (\<lambda>s. s\<lparr>R_ESI := v2\<rparr>);
         v3 \<leftarrow> pop_long h;
         modify (\<lambda>s. s\<lparr>R_EBP := v3\<rparr>);
         modify (\<lambda>s. s\<lparr>R_ESP := R_ESP s + 4\<rparr>);
         v4 \<leftarrow> pop_long h;
         modify (\<lambda>s. s\<lparr>R_EBX := v4\<rparr>);
         v5 \<leftarrow> pop_long h;
         modify (\<lambda>s. s\<lparr>R_EDX := v5\<rparr>);
         v6 \<leftarrow> pop_long h;
         modify (\<lambda>s. s\<lparr>R_ECX := v6\<rparr>);
         v7 \<leftarrow> pop_long h;
         modify (\<lambda>s. s\<lparr>R_EAX := v7\<rparr>)
       } else do {
         OP_DECODE ''popa'';
         v \<leftarrow> pop_word h;
         modify (\<lambda>s. s\<lparr>R_EDI := set_lo16 v (R_EDI s)\<rparr>);
         v2 \<leftarrow> pop_word h;
         modify (\<lambda>s. s\<lparr>R_ESI := set_lo16 v2 (R_ESI s)\<rparr>);
         v3 \<leftarrow> pop_word h;
         modify (\<lambda>s. s\<lparr>R_EBP := set_lo16 v3 (R_EBP s)\<rparr>);
         modify (\<lambda>s. s\<lparr>R_ESP := set_lo16 (R_SP s + 2) (R_ESP s)\<rparr>);
         v4 \<leftarrow> pop_word h;
         modify (\<lambda>s. s\<lparr>R_EBX := set_lo16 v4 (R_EBX s)\<rparr>);
         v5 \<leftarrow> pop_word h;
         modify (\<lambda>s. s\<lparr>R_EDX := set_lo16 v5 (R_EDX s)\<rparr>);
         v6 \<leftarrow> pop_word h;
         modify (\<lambda>s. s\<lparr>R_ECX := set_lo16 v6 (R_ECX s)\<rparr>);
         v7 \<leftarrow> pop_word h;
         modify (\<lambda>s. s\<lparr>R_EAX := set_lo16 v7 (R_EAX s)\<rparr>)
       }
     }"

definition x86emuOp_push_word_IMM :: "host \<Rightarrow> u8 \<Rightarrow> unit emu" where
  "x86emuOp_push_word_IMM h op1 =
     do {
       OP_DECODE ''push '';
       d32 \<leftarrow> gets MODE_DATA32;
       if d32 then do { imm \<leftarrow> fetch_long h; OP_DECODE (decode_hex8 imm); push_long h imm }
       else do {
         imm \<leftarrow> fetch_word h;
         let imm = (ucast imm :: u32);
         OP_DECODE (decode_hex4 imm);
         push_word h (ucast imm)
       }
     }"

definition x86emuOp_push_byte_IMM :: "host \<Rightarrow> u8 \<Rightarrow> unit emu" where
  "x86emuOp_push_byte_IMM h op1 =
     do {
       OP_DECODE ''push '';
       imm \<leftarrow> fetch_byte h;
       let imm = (scast imm :: u32);
       OP_DECODE (decode_hex2s imm);
       d32 \<leftarrow> gets MODE_DATA32;
       if d32 then push_long h imm else push_word h (ucast imm)
     }"

definition x86emuOp_xchg_byte_RM_R :: "host \<Rightarrow> u8 \<Rightarrow> unit emu" where
  "x86emuOp_xchg_byte_RM_R h op1 =
     do {
       OP_DECODE ''xchg '';
       (md, rh, rl) \<leftarrow> fetch_decode_modrm h;
       if md = 3 then do {
         dst \<leftarrow> decode_rm_byte_register rl;
         OP_DECODE '','';
         src \<leftarrow> decode_rm_byte_register rh;
         val \<leftarrow> gets (get8 src);
         modify (\<lambda>s. set8 src (get8 dst s) s);
         modify (set8 dst val)
       } else do {
         addr \<leftarrow> decode_rm_address h md rl;
         OP_DECODE '','';
         val \<leftarrow> fetch_data_byte h addr;
         src \<leftarrow> decode_rm_byte_register rh;
         v2 \<leftarrow> gets (get8 src);
         store_data_byte h addr v2;
         modify (set8 src val)
       }
     }"

definition x86emuOp_xchg_word_RM_R :: "host \<Rightarrow> u8 \<Rightarrow> unit emu" where
  "x86emuOp_xchg_word_RM_R h op1 =
     do {
       OP_DECODE ''xchg '';
       (md, rh, rl) \<leftarrow> fetch_decode_modrm h;
       if md = 3 then do {
         d32 \<leftarrow> gets MODE_DATA32;
         if d32 then do {
           dst32 \<leftarrow> decode_rm_long_register rl;
           OP_DECODE '','';
           src32 \<leftarrow> decode_rm_long_register rh;
           val \<leftarrow> gets (get32 src32);
           modify (\<lambda>s. set32 src32 (get32 dst32 s) s);
           modify (set32 dst32 val)
         } else do {
           dst16 \<leftarrow> decode_rm_word_register rl;
           OP_DECODE '','';
           src16 \<leftarrow> decode_rm_word_register rh;
           val \<leftarrow> gets (\<lambda>s. ucast (get16 src16 s) :: u32);
           modify (\<lambda>s. set16 src16 (get16 dst16 s) s);
           modify (set16 dst16 (ucast val))
         }
       } else do {
         addr \<leftarrow> decode_rm_address h md rl;
         OP_DECODE '','';
         d32 \<leftarrow> gets MODE_DATA32;
         if d32 then do {
           val \<leftarrow> fetch_data_long h addr;
           src32 \<leftarrow> decode_rm_long_register rh;
           v2 \<leftarrow> gets (get32 src32);
           store_data_long h addr v2;
           modify (set32 src32 val)
         } else do {
           val \<leftarrow> fetch_data_word h addr;
           let val = (ucast val :: u32);
           src16 \<leftarrow> decode_rm_word_register rh;
           v2 \<leftarrow> gets (get16 src16);
           store_data_word h addr v2;
           modify (set16 src16 (ucast val))
         }
       }
     }"

definition x86emuOp_mov_byte_RM_R :: "host \<Rightarrow> u8 \<Rightarrow> unit emu" where
  "x86emuOp_mov_byte_RM_R h op1 =
     do {
       OP_DECODE ''mov '';
       (md, rh, rl) \<leftarrow> fetch_decode_modrm h;
       if md = 3 then do {
         dst \<leftarrow> decode_rm_byte_register rl;
         OP_DECODE '','';
         src \<leftarrow> decode_rm_byte_register rh;
         modify (\<lambda>s. set8 dst (get8 src s) s)
       } else do {
         addr \<leftarrow> decode_rm_address h md rl;
         OP_DECODE '','';
         src \<leftarrow> decode_rm_byte_register rh;
         v2 \<leftarrow> gets (get8 src);
         store_data_byte h addr v2
       }
     }"

definition x86emuOp_mov_word_RM_R :: "host \<Rightarrow> u8 \<Rightarrow> unit emu" where
  "x86emuOp_mov_word_RM_R h op1 =
     do {
       OP_DECODE ''mov '';
       (md, rh, rl) \<leftarrow> fetch_decode_modrm h;
       if md = 3 then do {
         d32 \<leftarrow> gets MODE_DATA32;
         if d32 then do {
           dst32 \<leftarrow> decode_rm_long_register rl;
           OP_DECODE '','';
           src32 \<leftarrow> decode_rm_long_register rh;
           modify (\<lambda>s. set32 dst32 (get32 src32 s) s)
         } else do {
           dst16 \<leftarrow> decode_rm_word_register rl;
           OP_DECODE '','';
           src16 \<leftarrow> decode_rm_word_register rh;
           modify (\<lambda>s. set16 dst16 (get16 src16 s) s)
         }
       } else do {
         addr \<leftarrow> decode_rm_address h md rl;
         OP_DECODE '','';
         d32 \<leftarrow> gets MODE_DATA32;
         if d32 then do {
           src32 \<leftarrow> decode_rm_long_register rh;
           v2 \<leftarrow> gets (get32 src32);
           store_data_long h addr v2
         } else do {
           src16 \<leftarrow> decode_rm_word_register rh;
           v2 \<leftarrow> gets (get16 src16);
           store_data_word h addr v2
         }
       }
     }"

definition x86emuOp_mov_byte_R_RM :: "host \<Rightarrow> u8 \<Rightarrow> unit emu" where
  "x86emuOp_mov_byte_R_RM h op1 =
     do {
       OP_DECODE ''mov '';
       (md, rh, rl) \<leftarrow> fetch_decode_modrm h;
       if md = 3 then do {
         dst \<leftarrow> decode_rm_byte_register rh;
         OP_DECODE '','';
         src \<leftarrow> decode_rm_byte_register rl;
         modify (\<lambda>s. set8 dst (get8 src s) s)
       } else do {
         dst \<leftarrow> decode_rm_byte_register rh;
         OP_DECODE '','';
         addr \<leftarrow> decode_rm_address h md rl;
         v2 \<leftarrow> fetch_data_byte h addr;
         modify (set8 dst v2)
       }
     }"

definition x86emuOp_mov_word_R_RM :: "host \<Rightarrow> u8 \<Rightarrow> unit emu" where
  "x86emuOp_mov_word_R_RM h op1 =
     do {
       OP_DECODE ''mov '';
       (md, rh, rl) \<leftarrow> fetch_decode_modrm h;
       if md = 3 then do {
         d32 \<leftarrow> gets MODE_DATA32;
         if d32 then do {
           dst32 \<leftarrow> decode_rm_long_register rh;
           OP_DECODE '','';
           src32 \<leftarrow> decode_rm_long_register rl;
           modify (\<lambda>s. set32 dst32 (get32 src32 s) s)
         } else do {
           dst16 \<leftarrow> decode_rm_word_register rh;
           OP_DECODE '','';
           src16 \<leftarrow> decode_rm_word_register rl;
           modify (\<lambda>s. set16 dst16 (get16 src16 s) s)
         }
       } else do {
         d32 \<leftarrow> gets MODE_DATA32;
         if d32 then do {
           dst32 \<leftarrow> decode_rm_long_register rh;
           OP_DECODE '','';
           addr \<leftarrow> decode_rm_address h md rl;
           v2 \<leftarrow> fetch_data_long h addr;
           modify (set32 dst32 v2)
         } else do {
           dst16 \<leftarrow> decode_rm_word_register rh;
           OP_DECODE '','';
           addr \<leftarrow> decode_rm_address h md rl;
           v2 \<leftarrow> fetch_data_word h addr;
           modify (set16 dst16 v2)
         }
       }
     }"

definition x86emuOp_mov_word_RM_SR :: "host \<Rightarrow> u8 \<Rightarrow> unit emu" where
  "x86emuOp_mov_word_RM_SR h op1 =
     do {
       OP_DECODE ''mov '';
       (md, rh, rl) \<leftarrow> fetch_decode_modrm h;
       if md = 3 then do {
         d32 \<leftarrow> gets MODE_DATA32;
         if d32 then do {
           reg32 \<leftarrow> decode_rm_long_register rl;
           OP_DECODE '','';
           r \<leftarrow> decode_rm_seg_register rh;
           modify (\<lambda>s. set32 reg32 (ucast (sel_sel (seg s r))) s)
         } else do {
           reg16 \<leftarrow> decode_rm_word_register rl;
           OP_DECODE '','';
           r \<leftarrow> decode_rm_seg_register rh;
           modify (\<lambda>s. set16 reg16 (sel_sel (seg s r)) s)
         }
       } else do {
         addr \<leftarrow> decode_rm_address h md rl;
         OP_DECODE '','';
         r2 \<leftarrow> decode_rm_seg_register rh;
         val \<leftarrow> gets (\<lambda>s. sel_sel (seg s r2));
         store_data_word h addr val
       }
     }"

definition x86emuOp_lea_word_R_M :: "host \<Rightarrow> u8 \<Rightarrow> unit emu" where
  "x86emuOp_lea_word_R_M h op1 =
     do {
       OP_DECODE ''lea '';
       (md, rh, rl) \<leftarrow> fetch_decode_modrm h;
       if md = 3 then INTR_RAISE_UD else do {
         d32 \<leftarrow> gets MODE_DATA32;
         if d32 then do {
           reg32 \<leftarrow> decode_rm_long_register rh;
           OP_DECODE '','';
           addr \<leftarrow> decode_rm_address h md rl;
           modify (set32 reg32 addr)
         } else do {
           reg16 \<leftarrow> decode_rm_word_register rh;
           OP_DECODE '','';
           addr \<leftarrow> decode_rm_address h md rl;
           modify (set16 reg16 (ucast addr))
         }
       }
     }"

definition x86emuOp_mov_word_SR_RM :: "host \<Rightarrow> u8 \<Rightarrow> unit emu" where
  "x86emuOp_mov_word_SR_RM h op1 =
     do {
       OP_DECODE ''mov '';
       (md, rh, rl) \<leftarrow> fetch_decode_modrm h;
       sg \<leftarrow> decode_rm_seg_register rh;
       OP_DECODE '','';
       val \<leftarrow> (if md = 3 then do {
           r \<leftarrow> decode_rm_word_register rl;
           val \<leftarrow> gets (get16 r);
           return val
         } else do {
           addr \<leftarrow> decode_rm_address h md rl;
           val \<leftarrow> fetch_data_word h addr;
           return val
         });
       x86emu_set_seg_register h (Seg sg) val
     }"

definition x86emuOp_pop_RM :: "host \<Rightarrow> u8 \<Rightarrow> unit emu" where
  "x86emuOp_pop_RM h op1 =
     do {
       OP_DECODE ''pop '';
       (md, rh, rl) \<leftarrow> fetch_decode_modrm h;
       if rh \<noteq> 0 then INTR_RAISE_UD
       else if md = 3 then do {
         d32 \<leftarrow> gets MODE_DATA32;
         if d32 then do {
           reg32 \<leftarrow> decode_rm_long_register rl;
           v \<leftarrow> pop_long h;
           modify (set32 reg32 v)
         } else do {
           reg16 \<leftarrow> decode_rm_word_register rl;
           v \<leftarrow> pop_word h;
           modify (set16 reg16 v)
         }
       } else do {
         addr \<leftarrow> decode_rm_address h md rl;
         d32 \<leftarrow> gets MODE_DATA32;
         if d32 then do { val \<leftarrow> pop_long h; store_data_long h addr val } else do {
           val \<leftarrow> pop_word h;
           let val = (ucast val :: u32);
           store_data_word h addr (ucast val)
         }
       }
     }"

definition x86emuOp_nop :: "host \<Rightarrow> u8 \<Rightarrow> unit emu" where
  "x86emuOp_nop h op1 =
     OP_DECODE ''nop''"

definition x86emuOp_xchg_word_AX_CX :: "host \<Rightarrow> u8 \<Rightarrow> unit emu" where
  "x86emuOp_xchg_word_AX_CX h op1 =
     do {
       d32 \<leftarrow> gets MODE_DATA32;
       if d32 then do {
         OP_DECODE ''xchg eax,ecx'';
         val \<leftarrow> gets R_EAX;
         modify (\<lambda>s. s\<lparr>R_EAX := R_ECX s\<rparr>);
         modify (\<lambda>s. s\<lparr>R_ECX := val\<rparr>)
       } else do {
         OP_DECODE ''xchg ax,cx'';
         val \<leftarrow> gets (\<lambda>s. ucast (R_AX s) :: u32);
         modify (\<lambda>s. s\<lparr>R_EAX := set_lo16 (R_CX s) (R_EAX s)\<rparr>);
         modify (\<lambda>s. s\<lparr>R_ECX := set_lo16 (ucast val) (R_ECX s)\<rparr>)
       }
     }"

definition x86emuOp_xchg_word_AX_DX :: "host \<Rightarrow> u8 \<Rightarrow> unit emu" where
  "x86emuOp_xchg_word_AX_DX h op1 =
     do {
       d32 \<leftarrow> gets MODE_DATA32;
       if d32 then do {
         OP_DECODE ''xchg eax,edx'';
         val \<leftarrow> gets R_EAX;
         modify (\<lambda>s. s\<lparr>R_EAX := R_EDX s\<rparr>);
         modify (\<lambda>s. s\<lparr>R_EDX := val\<rparr>)
       } else do {
         OP_DECODE ''xchg ax,dx'';
         val \<leftarrow> gets (\<lambda>s. ucast (R_AX s) :: u32);
         modify (\<lambda>s. s\<lparr>R_EAX := set_lo16 (R_DX s) (R_EAX s)\<rparr>);
         modify (\<lambda>s. s\<lparr>R_EDX := set_lo16 (ucast val) (R_EDX s)\<rparr>)
       }
     }"

definition x86emuOp_xchg_word_AX_BX :: "host \<Rightarrow> u8 \<Rightarrow> unit emu" where
  "x86emuOp_xchg_word_AX_BX h op1 =
     do {
       d32 \<leftarrow> gets MODE_DATA32;
       if d32 then do {
         OP_DECODE ''xchg eax,ebx'';
         val \<leftarrow> gets R_EAX;
         modify (\<lambda>s. s\<lparr>R_EAX := R_EBX s\<rparr>);
         modify (\<lambda>s. s\<lparr>R_EBX := val\<rparr>)
       } else do {
         OP_DECODE ''xchg ax,bx'';
         val \<leftarrow> gets (\<lambda>s. ucast (R_AX s) :: u32);
         modify (\<lambda>s. s\<lparr>R_EAX := set_lo16 (R_BX s) (R_EAX s)\<rparr>);
         modify (\<lambda>s. s\<lparr>R_EBX := set_lo16 (ucast val) (R_EBX s)\<rparr>)
       }
     }"

definition x86emuOp_xchg_word_AX_SP :: "host \<Rightarrow> u8 \<Rightarrow> unit emu" where
  "x86emuOp_xchg_word_AX_SP h op1 =
     do {
       d32 \<leftarrow> gets MODE_DATA32;
       if d32 then do {
         OP_DECODE ''xchg eax,esp'';
         val \<leftarrow> gets R_EAX;
         modify (\<lambda>s. s\<lparr>R_EAX := R_ESP s\<rparr>);
         modify (\<lambda>s. s\<lparr>R_ESP := val\<rparr>)
       } else do {
         OP_DECODE ''xchg ax,sp'';
         val \<leftarrow> gets (\<lambda>s. ucast (R_AX s) :: u32);
         modify (\<lambda>s. s\<lparr>R_EAX := set_lo16 (R_SP s) (R_EAX s)\<rparr>);
         modify (\<lambda>s. s\<lparr>R_ESP := set_lo16 (ucast val) (R_ESP s)\<rparr>)
       }
     }"

definition x86emuOp_xchg_word_AX_BP :: "host \<Rightarrow> u8 \<Rightarrow> unit emu" where
  "x86emuOp_xchg_word_AX_BP h op1 =
     do {
       d32 \<leftarrow> gets MODE_DATA32;
       if d32 then do {
         OP_DECODE ''xchg eax,ebp'';
         val \<leftarrow> gets R_EAX;
         modify (\<lambda>s. s\<lparr>R_EAX := R_EBP s\<rparr>);
         modify (\<lambda>s. s\<lparr>R_EBP := val\<rparr>)
       } else do {
         OP_DECODE ''xchg ax,bp'';
         val \<leftarrow> gets (\<lambda>s. ucast (R_AX s) :: u32);
         modify (\<lambda>s. s\<lparr>R_EAX := set_lo16 (R_BP s) (R_EAX s)\<rparr>);
         modify (\<lambda>s. s\<lparr>R_EBP := set_lo16 (ucast val) (R_EBP s)\<rparr>)
       }
     }"

definition x86emuOp_xchg_word_AX_SI :: "host \<Rightarrow> u8 \<Rightarrow> unit emu" where
  "x86emuOp_xchg_word_AX_SI h op1 =
     do {
       d32 \<leftarrow> gets MODE_DATA32;
       if d32 then do {
         OP_DECODE ''xchg eax,esi'';
         val \<leftarrow> gets R_EAX;
         modify (\<lambda>s. s\<lparr>R_EAX := R_ESI s\<rparr>);
         modify (\<lambda>s. s\<lparr>R_ESI := val\<rparr>)
       } else do {
         OP_DECODE ''xchg ax,si'';
         val \<leftarrow> gets (\<lambda>s. ucast (R_AX s) :: u32);
         modify (\<lambda>s. s\<lparr>R_EAX := set_lo16 (R_SI s) (R_EAX s)\<rparr>);
         modify (\<lambda>s. s\<lparr>R_ESI := set_lo16 (ucast val) (R_ESI s)\<rparr>)
       }
     }"

definition x86emuOp_xchg_word_AX_DI :: "host \<Rightarrow> u8 \<Rightarrow> unit emu" where
  "x86emuOp_xchg_word_AX_DI h op1 =
     do {
       d32 \<leftarrow> gets MODE_DATA32;
       if d32 then do {
         OP_DECODE ''xchg eax,edi'';
         val \<leftarrow> gets R_EAX;
         modify (\<lambda>s. s\<lparr>R_EAX := R_EDI s\<rparr>);
         modify (\<lambda>s. s\<lparr>R_EDI := val\<rparr>)
       } else do {
         OP_DECODE ''xchg ax,di'';
         val \<leftarrow> gets (\<lambda>s. ucast (R_AX s) :: u32);
         modify (\<lambda>s. s\<lparr>R_EAX := set_lo16 (R_DI s) (R_EAX s)\<rparr>);
         modify (\<lambda>s. s\<lparr>R_EDI := set_lo16 (ucast val) (R_EDI s)\<rparr>)
       }
     }"

definition x86emuOp_wait :: "host \<Rightarrow> u8 \<Rightarrow> unit emu" where
  "x86emuOp_wait h op1 =
     OP_DECODE ''wait''"

definition x86emuOp_pushf_word :: "host \<Rightarrow> u8 \<Rightarrow> unit emu" where
  "x86emuOp_pushf_word h op1 =
     do {
       let msk = (F_MSK :: u32);
       b \<leftarrow> gets (\<lambda>s. cpuid s \<noteq> None);
       let msk = (if b then msk OR FB_ID else msk);
       flags \<leftarrow> gets (\<lambda>s. (R_FLG s AND msk) OR F_ALWAYS_ON);
       d32 \<leftarrow> gets MODE_DATA32;
       if d32 then do { OP_DECODE ''pushfd''; push_long h flags }
       else do { OP_DECODE ''pushf''; push_word h (ucast flags) }
     }"

definition x86emuOp_popf_word :: "host \<Rightarrow> u8 \<Rightarrow> unit emu" where
  "x86emuOp_popf_word h op1 =
     do {
       d32 \<leftarrow> gets MODE_DATA32;
       if d32 then do {
         OP_DECODE ''popfd'';
         v \<leftarrow> pop_long h;
         modify (\<lambda>s. s\<lparr>R_FLG := v OR F_ALWAYS_ON\<rparr>)
       } else do {
         OP_DECODE ''popf'';
         v \<leftarrow> pop_word h;
         modify (\<lambda>s. s\<lparr>R_FLG := ucast v OR F_ALWAYS_ON\<rparr>)
       }
     }"

definition x86emuOp_mov_AL_M_IMM :: "host \<Rightarrow> u8 \<Rightarrow> unit emu" where
  "x86emuOp_mov_AL_M_IMM h op1 =
     do {
       OP_DECODE ''mov al,['';
       a32 \<leftarrow> gets MODE_ADDR32;
       addr \<leftarrow> (if a32 then do { addr \<leftarrow> fetch_long h; OP_DECODE (decode_hex8 addr); return addr }
         else do {
           addr \<leftarrow> fetch_word h;
           let addr = (ucast addr :: u32);
           OP_DECODE (decode_hex4 addr);
           return addr
         });
       OP_DECODE '']'';
       v \<leftarrow> fetch_data_byte h addr;
       modify (\<lambda>s. s\<lparr>R_EAX := set_lo8 v (R_EAX s)\<rparr>)
     }"

definition x86emuOp_mov_AX_M_IMM :: "host \<Rightarrow> u8 \<Rightarrow> unit emu" where
  "x86emuOp_mov_AX_M_IMM h op1 =
     do {
       d32 \<leftarrow> gets MODE_DATA32;
       (if d32 then OP_DECODE ''mov eax,['' else OP_DECODE ''mov ax,['');
       a32 \<leftarrow> gets MODE_ADDR32;
       addr \<leftarrow> (if a32 then do { addr \<leftarrow> fetch_long h; OP_DECODE (decode_hex8 addr); return addr }
         else do {
           addr \<leftarrow> fetch_word h;
           let addr = (ucast addr :: u32);
           OP_DECODE (decode_hex4 addr);
           return addr
         });
       OP_DECODE '']'';
       d32 \<leftarrow> gets MODE_DATA32;
       if d32 then do {
         v \<leftarrow> fetch_data_long h addr;
         modify (\<lambda>s. s\<lparr>R_EAX := v\<rparr>)
       } else do {
         v \<leftarrow> fetch_data_word h addr;
         modify (\<lambda>s. s\<lparr>R_EAX := set_lo16 v (R_EAX s)\<rparr>)
       }
     }"

definition x86emuOp_mov_M_AL_IMM :: "host \<Rightarrow> u8 \<Rightarrow> unit emu" where
  "x86emuOp_mov_M_AL_IMM h op1 =
     do {
       OP_DECODE ''mov ['';
       a32 \<leftarrow> gets MODE_ADDR32;
       addr \<leftarrow> (if a32 then do { addr \<leftarrow> fetch_long h; OP_DECODE (decode_hex8 addr); return addr }
         else do {
           addr \<leftarrow> fetch_word h;
           let addr = (ucast addr :: u32);
           OP_DECODE (decode_hex4 addr);
           return addr
         });
       OP_DECODE ''],al'';
       v \<leftarrow> gets R_AL;
       store_data_byte h addr v
     }"

definition x86emuOp_mov_M_AX_IMM :: "host \<Rightarrow> u8 \<Rightarrow> unit emu" where
  "x86emuOp_mov_M_AX_IMM h op1 =
     do {
       OP_DECODE ''mov ['';
       a32 \<leftarrow> gets MODE_ADDR32;
       addr \<leftarrow> (if a32 then do { addr \<leftarrow> fetch_long h; OP_DECODE (decode_hex8 addr); return addr }
         else do {
           addr \<leftarrow> fetch_word h;
           let addr = (ucast addr :: u32);
           OP_DECODE (decode_hex4 addr);
           return addr
         });
       d32 \<leftarrow> gets MODE_DATA32;
       if d32 then do { OP_DECODE ''],eax''; v \<leftarrow> gets R_EAX; store_data_long h addr v }
       else do { OP_DECODE ''],ax''; v \<leftarrow> gets R_AX; store_data_word h addr v }
     }"

definition x86emuOp_mov_byte_AL_IMM :: "host \<Rightarrow> u8 \<Rightarrow> unit emu" where
  "x86emuOp_mov_byte_AL_IMM h op1 =
     do {
       OP_DECODE ''mov al,'';
       val \<leftarrow> fetch_byte h;
       OP_DECODE (decode_hex2 (ucast val));
       modify (\<lambda>s. s\<lparr>R_EAX := set_lo8 val (R_EAX s)\<rparr>)
     }"

definition x86emuOp_mov_byte_CL_IMM :: "host \<Rightarrow> u8 \<Rightarrow> unit emu" where
  "x86emuOp_mov_byte_CL_IMM h op1 =
     do {
       OP_DECODE ''mov cl,'';
       val \<leftarrow> fetch_byte h;
       OP_DECODE (decode_hex2 (ucast val));
       modify (\<lambda>s. s\<lparr>R_ECX := set_lo8 val (R_ECX s)\<rparr>)
     }"

definition x86emuOp_mov_byte_DL_IMM :: "host \<Rightarrow> u8 \<Rightarrow> unit emu" where
  "x86emuOp_mov_byte_DL_IMM h op1 =
     do {
       OP_DECODE ''mov dl,'';
       val \<leftarrow> fetch_byte h;
       OP_DECODE (decode_hex2 (ucast val));
       modify (\<lambda>s. s\<lparr>R_EDX := set_lo8 val (R_EDX s)\<rparr>)
     }"

definition x86emuOp_mov_byte_BL_IMM :: "host \<Rightarrow> u8 \<Rightarrow> unit emu" where
  "x86emuOp_mov_byte_BL_IMM h op1 =
     do {
       OP_DECODE ''mov bl,'';
       val \<leftarrow> fetch_byte h;
       OP_DECODE (decode_hex2 (ucast val));
       modify (\<lambda>s. s\<lparr>R_EBX := set_lo8 val (R_EBX s)\<rparr>)
     }"

definition x86emuOp_mov_byte_AH_IMM :: "host \<Rightarrow> u8 \<Rightarrow> unit emu" where
  "x86emuOp_mov_byte_AH_IMM h op1 =
     do {
       OP_DECODE ''mov ah,'';
       val \<leftarrow> fetch_byte h;
       OP_DECODE (decode_hex2 (ucast val));
       modify (\<lambda>s. s\<lparr>R_EAX := set_hi8 val (R_EAX s)\<rparr>)
     }"

definition x86emuOp_mov_byte_CH_IMM :: "host \<Rightarrow> u8 \<Rightarrow> unit emu" where
  "x86emuOp_mov_byte_CH_IMM h op1 =
     do {
       OP_DECODE ''mov ch,'';
       val \<leftarrow> fetch_byte h;
       OP_DECODE (decode_hex2 (ucast val));
       modify (\<lambda>s. s\<lparr>R_ECX := set_hi8 val (R_ECX s)\<rparr>)
     }"

definition x86emuOp_mov_byte_DH_IMM :: "host \<Rightarrow> u8 \<Rightarrow> unit emu" where
  "x86emuOp_mov_byte_DH_IMM h op1 =
     do {
       OP_DECODE ''mov dh,'';
       val \<leftarrow> fetch_byte h;
       OP_DECODE (decode_hex2 (ucast val));
       modify (\<lambda>s. s\<lparr>R_EDX := set_hi8 val (R_EDX s)\<rparr>)
     }"

definition x86emuOp_mov_byte_BH_IMM :: "host \<Rightarrow> u8 \<Rightarrow> unit emu" where
  "x86emuOp_mov_byte_BH_IMM h op1 =
     do {
       OP_DECODE ''mov bh,'';
       val \<leftarrow> fetch_byte h;
       OP_DECODE (decode_hex2 (ucast val));
       modify (\<lambda>s. s\<lparr>R_EBX := set_hi8 val (R_EBX s)\<rparr>)
     }"

definition x86emuOp_mov_word_AX_IMM :: "host \<Rightarrow> u8 \<Rightarrow> unit emu" where
  "x86emuOp_mov_word_AX_IMM h op1 =
     do {
       d32 \<leftarrow> gets MODE_DATA32;
       if d32 then do {
         OP_DECODE ''mov eax,'';
         val \<leftarrow> fetch_long h;
         OP_DECODE (decode_hex8 val);
         modify (\<lambda>s. s\<lparr>R_EAX := val\<rparr>)
       } else do {
         OP_DECODE ''mov ax,'';
         val \<leftarrow> fetch_word h;
         let val = (ucast val :: u32);
         OP_DECODE (decode_hex4 val);
         modify (\<lambda>s. s\<lparr>R_EAX := set_lo16 (ucast val) (R_EAX s)\<rparr>)
       }
     }"

definition x86emuOp_mov_word_CX_IMM :: "host \<Rightarrow> u8 \<Rightarrow> unit emu" where
  "x86emuOp_mov_word_CX_IMM h op1 =
     do {
       d32 \<leftarrow> gets MODE_DATA32;
       if d32 then do {
         OP_DECODE ''mov ecx,'';
         val \<leftarrow> fetch_long h;
         OP_DECODE (decode_hex8 val);
         modify (\<lambda>s. s\<lparr>R_ECX := val\<rparr>)
       } else do {
         OP_DECODE ''mov cx,'';
         val \<leftarrow> fetch_word h;
         let val = (ucast val :: u32);
         OP_DECODE (decode_hex4 val);
         modify (\<lambda>s. s\<lparr>R_ECX := set_lo16 (ucast val) (R_ECX s)\<rparr>)
       }
     }"

definition x86emuOp_mov_word_DX_IMM :: "host \<Rightarrow> u8 \<Rightarrow> unit emu" where
  "x86emuOp_mov_word_DX_IMM h op1 =
     do {
       d32 \<leftarrow> gets MODE_DATA32;
       if d32 then do {
         OP_DECODE ''mov edx,'';
         val \<leftarrow> fetch_long h;
         OP_DECODE (decode_hex8 val);
         modify (\<lambda>s. s\<lparr>R_EDX := val\<rparr>)
       } else do {
         OP_DECODE ''mov dx,'';
         val \<leftarrow> fetch_word h;
         let val = (ucast val :: u32);
         OP_DECODE (decode_hex4 val);
         modify (\<lambda>s. s\<lparr>R_EDX := set_lo16 (ucast val) (R_EDX s)\<rparr>)
       }
     }"

definition x86emuOp_mov_word_BX_IMM :: "host \<Rightarrow> u8 \<Rightarrow> unit emu" where
  "x86emuOp_mov_word_BX_IMM h op1 =
     do {
       d32 \<leftarrow> gets MODE_DATA32;
       if d32 then do {
         OP_DECODE ''mov ebx,'';
         val \<leftarrow> fetch_long h;
         OP_DECODE (decode_hex8 val);
         modify (\<lambda>s. s\<lparr>R_EBX := val\<rparr>)
       } else do {
         OP_DECODE ''mov bx,'';
         val \<leftarrow> fetch_word h;
         let val = (ucast val :: u32);
         OP_DECODE (decode_hex4 val);
         modify (\<lambda>s. s\<lparr>R_EBX := set_lo16 (ucast val) (R_EBX s)\<rparr>)
       }
     }"

definition x86emuOp_mov_word_SP_IMM :: "host \<Rightarrow> u8 \<Rightarrow> unit emu" where
  "x86emuOp_mov_word_SP_IMM h op1 =
     do {
       d32 \<leftarrow> gets MODE_DATA32;
       if d32 then do {
         OP_DECODE ''mov esp,'';
         val \<leftarrow> fetch_long h;
         OP_DECODE (decode_hex8 val);
         modify (\<lambda>s. s\<lparr>R_ESP := val\<rparr>)
       } else do {
         OP_DECODE ''mov sp,'';
         val \<leftarrow> fetch_word h;
         let val = (ucast val :: u32);
         OP_DECODE (decode_hex4 val);
         modify (\<lambda>s. s\<lparr>R_ESP := set_lo16 (ucast val) (R_ESP s)\<rparr>)
       }
     }"

definition x86emuOp_mov_word_BP_IMM :: "host \<Rightarrow> u8 \<Rightarrow> unit emu" where
  "x86emuOp_mov_word_BP_IMM h op1 =
     do {
       d32 \<leftarrow> gets MODE_DATA32;
       if d32 then do {
         OP_DECODE ''mov ebp,'';
         val \<leftarrow> fetch_long h;
         OP_DECODE (decode_hex8 val);
         modify (\<lambda>s. s\<lparr>R_EBP := val\<rparr>)
       } else do {
         OP_DECODE ''mov bp,'';
         val \<leftarrow> fetch_word h;
         let val = (ucast val :: u32);
         OP_DECODE (decode_hex4 val);
         modify (\<lambda>s. s\<lparr>R_EBP := set_lo16 (ucast val) (R_EBP s)\<rparr>)
       }
     }"

definition x86emuOp_mov_word_SI_IMM :: "host \<Rightarrow> u8 \<Rightarrow> unit emu" where
  "x86emuOp_mov_word_SI_IMM h op1 =
     do {
       d32 \<leftarrow> gets MODE_DATA32;
       if d32 then do {
         OP_DECODE ''mov esi,'';
         val \<leftarrow> fetch_long h;
         OP_DECODE (decode_hex8 val);
         modify (\<lambda>s. s\<lparr>R_ESI := val\<rparr>)
       } else do {
         OP_DECODE ''mov si,'';
         val \<leftarrow> fetch_word h;
         let val = (ucast val :: u32);
         OP_DECODE (decode_hex4 val);
         modify (\<lambda>s. s\<lparr>R_ESI := set_lo16 (ucast val) (R_ESI s)\<rparr>)
       }
     }"

definition x86emuOp_mov_word_DI_IMM :: "host \<Rightarrow> u8 \<Rightarrow> unit emu" where
  "x86emuOp_mov_word_DI_IMM h op1 =
     do {
       d32 \<leftarrow> gets MODE_DATA32;
       if d32 then do {
         OP_DECODE ''mov edi,'';
         val \<leftarrow> fetch_long h;
         OP_DECODE (decode_hex8 val);
         modify (\<lambda>s. s\<lparr>R_EDI := val\<rparr>)
       } else do {
         OP_DECODE ''mov di,'';
         val \<leftarrow> fetch_word h;
         let val = (ucast val :: u32);
         OP_DECODE (decode_hex4 val);
         modify (\<lambda>s. s\<lparr>R_EDI := set_lo16 (ucast val) (R_EDI s)\<rparr>)
       }
     }"

definition x86emuOp_les_R_IMM :: "host \<Rightarrow> u8 \<Rightarrow> unit emu" where
  "x86emuOp_les_R_IMM h op1 =
     do {
       OP_DECODE ''les '';
       (md, rh, rl) \<leftarrow> fetch_decode_modrm h;
       if md = 3 then INTR_RAISE_UD else do {
         d32 \<leftarrow> gets MODE_DATA32;
         addr \<leftarrow> (if d32 then do {
             reg32 \<leftarrow> decode_rm_long_register rh;
             OP_DECODE '','';
             addr \<leftarrow> decode_rm_address h md rl;
             v2 \<leftarrow> fetch_data_long h addr;
             modify (set32 reg32 v2);
             let addr = (addr + 4 :: u32);
             return addr
           } else do {
             reg16 \<leftarrow> decode_rm_word_register rh;
             OP_DECODE '','';
             addr \<leftarrow> decode_rm_address h md rl;
             v2 \<leftarrow> fetch_data_word h addr;
             modify (set16 reg16 v2);
             let addr = (addr + 2 :: u32);
             return addr
           });
         v \<leftarrow> fetch_data_word h addr;
         x86emu_set_seg_register h (Seg R_ES_INDEX) v
       }
     }"

definition x86emuOp_lds_R_IMM :: "host \<Rightarrow> u8 \<Rightarrow> unit emu" where
  "x86emuOp_lds_R_IMM h op1 =
     do {
       OP_DECODE ''lds '';
       (md, rh, rl) \<leftarrow> fetch_decode_modrm h;
       if md = 3 then INTR_RAISE_UD else do {
         d32 \<leftarrow> gets MODE_DATA32;
         addr \<leftarrow> (if d32 then do {
             reg32 \<leftarrow> decode_rm_long_register rh;
             OP_DECODE '','';
             addr \<leftarrow> decode_rm_address h md rl;
             v2 \<leftarrow> fetch_data_long h addr;
             modify (set32 reg32 v2);
             let addr = (addr + 4 :: u32);
             return addr
           } else do {
             reg16 \<leftarrow> decode_rm_word_register rh;
             OP_DECODE '','';
             addr \<leftarrow> decode_rm_address h md rl;
             v2 \<leftarrow> fetch_data_word h addr;
             modify (set16 reg16 v2);
             let addr = (addr + 2 :: u32);
             return addr
           });
         v \<leftarrow> fetch_data_word h addr;
         x86emu_set_seg_register h (Seg R_DS_INDEX) v
       }
     }"

definition x86emuOp_mov_byte_RM_IMM :: "host \<Rightarrow> u8 \<Rightarrow> unit emu" where
  "x86emuOp_mov_byte_RM_IMM h op1 =
     do {
       OP_DECODE ''mov '';
       (md, rh, rl) \<leftarrow> fetch_decode_modrm h;
       if rh \<noteq> 0 then INTR_RAISE_UD
       else if md = 3 then do {
         reg8 \<leftarrow> decode_rm_byte_register rl;
         imm \<leftarrow> fetch_byte h;
         OP_DECODE (decode_hex2 (ucast imm));
         modify (set8 reg8 imm)
       } else do {
         addr \<leftarrow> decode_rm_address h md rl;
         OP_DECODE '','';
         imm \<leftarrow> fetch_byte h;
         OP_DECODE (decode_hex2 (ucast imm));
         store_data_byte h addr imm
       }
     }"

definition x86emuOp_mov_word_RM_IMM :: "host \<Rightarrow> u8 \<Rightarrow> unit emu" where
  "x86emuOp_mov_word_RM_IMM h op1 =
     do {
       OP_DECODE ''mov '';
       (md, rh, rl) \<leftarrow> fetch_decode_modrm h;
       if_then (rh \<noteq> 0) INTR_RAISE_UD;
       if md = 3 then do {
         d32 \<leftarrow> gets MODE_DATA32;
         if d32 then do {
           reg32 \<leftarrow> decode_rm_long_register rl;
           imm \<leftarrow> fetch_long h;
           OP_DECODE (decode_hex8 imm);
           modify (set32 reg32 imm)
         } else do {
           reg16 \<leftarrow> decode_rm_word_register rl;
           imm \<leftarrow> fetch_word h;
           let imm = (ucast imm :: u32);
           OP_DECODE (decode_hex4 imm);
           modify (set16 reg16 (ucast imm))
         }
       } else do {
         addr \<leftarrow> decode_rm_address h md rl;
         OP_DECODE '','';
         d32 \<leftarrow> gets MODE_DATA32;
         if d32 then do {
           imm \<leftarrow> fetch_long h;
           OP_DECODE (decode_hex8 imm);
           store_data_long h addr imm
         } else do {
           imm \<leftarrow> fetch_word h;
           let imm = (ucast imm :: u32);
           OP_DECODE (decode_hex4 imm);
           store_data_word h addr (ucast imm)
         }
       }
     }"

definition x86emuOp_xlat :: "host \<Rightarrow> u8 \<Rightarrow> unit emu" where
  "x86emuOp_xlat h op1 =
     do {
       OP_DECODE ''xlat'';
       d32 \<leftarrow> gets MODE_DATA32;
       addr \<leftarrow> (if d32 then gets (\<lambda>s. R_EBX s + (ucast (R_AL s)))
         else gets (\<lambda>s. ((ucast (R_BX s)) + (ucast (R_AL s))) AND 0xffff));
       v \<leftarrow> fetch_data_byte h addr;
       modify (\<lambda>s. s\<lparr>R_EAX := set_lo8 v (R_EAX s)\<rparr>)
     }"

definition x86emuOp_in_byte_AL_IMM :: "host \<Rightarrow> u8 \<Rightarrow> unit emu" where
  "x86emuOp_in_byte_AL_IMM h op1 =
     do {
       OP_DECODE ''in al,'';
       port \<leftarrow> fetch_byte h;
       OP_DECODE (decode_hex2 (ucast port));
       v \<leftarrow> fetch_io_byte h (ucast port);
       modify (\<lambda>s. s\<lparr>R_EAX := set_lo8 v (R_EAX s)\<rparr>)
     }"

definition x86emuOp_in_word_AX_IMM :: "host \<Rightarrow> u8 \<Rightarrow> unit emu" where
  "x86emuOp_in_word_AX_IMM h op1 =
     do {
       OP_DECODE ''in '';
       port \<leftarrow> fetch_byte h;
       d32 \<leftarrow> gets MODE_DATA32;
       (if d32 then do {
           OP_DECODE ''eax,'';
           v \<leftarrow> fetch_io_long h (ucast port);
           modify (\<lambda>s. s\<lparr>R_EAX := v\<rparr>)
         } else do {
           OP_DECODE ''ax,'';
           v \<leftarrow> fetch_io_word h (ucast port);
           modify (\<lambda>s. s\<lparr>R_EAX := set_lo16 v (R_EAX s)\<rparr>)
         });
       OP_DECODE (decode_hex2 (ucast port))
     }"

definition x86emuOp_out_byte_IMM_AL :: "host \<Rightarrow> u8 \<Rightarrow> unit emu" where
  "x86emuOp_out_byte_IMM_AL h op1 =
     do {
       OP_DECODE ''out '';
       port \<leftarrow> fetch_byte h;
       OP_DECODE (decode_hex2 (ucast port));
       OP_DECODE '',al'';
       v \<leftarrow> gets R_AL;
       store_io_byte h (ucast port) v
     }"

definition x86emuOp_out_word_IMM_AX :: "host \<Rightarrow> u8 \<Rightarrow> unit emu" where
  "x86emuOp_out_word_IMM_AX h op1 =
     do {
       OP_DECODE ''out '';
       port \<leftarrow> fetch_byte h;
       OP_DECODE (decode_hex2 (ucast port));
       d32 \<leftarrow> gets MODE_DATA32;
       if d32 then do { OP_DECODE '',eax''; v \<leftarrow> gets R_EAX; store_io_long h (ucast port) v }
       else do { OP_DECODE '',ax''; v \<leftarrow> gets R_AX; store_io_word h (ucast port) v }
     }"

definition x86emuOp_in_byte_AL_DX :: "host \<Rightarrow> u8 \<Rightarrow> unit emu" where
  "x86emuOp_in_byte_AL_DX h op1 =
     do {
       OP_DECODE ''in al,dx'';
       v \<leftarrow> gets (\<lambda>s. ucast (R_DX s));
       v2 \<leftarrow> fetch_io_byte h v;
       modify (\<lambda>s. s\<lparr>R_EAX := set_lo8 v2 (R_EAX s)\<rparr>)
     }"

definition x86emuOp_in_word_AX_DX :: "host \<Rightarrow> u8 \<Rightarrow> unit emu" where
  "x86emuOp_in_word_AX_DX h op1 =
     do {
       d32 \<leftarrow> gets MODE_DATA32;
       if d32 then do {
         OP_DECODE ''in eax,dx'';
         v \<leftarrow> gets (\<lambda>s. ucast (R_DX s));
         v2 \<leftarrow> fetch_io_long h v;
         modify (\<lambda>s. s\<lparr>R_EAX := v2\<rparr>)
       } else do {
         OP_DECODE ''in ax,dx'';
         v \<leftarrow> gets (\<lambda>s. ucast (R_DX s));
         v2 \<leftarrow> fetch_io_word h v;
         modify (\<lambda>s. s\<lparr>R_EAX := set_lo16 v2 (R_EAX s)\<rparr>)
       }
     }"

definition x86emuOp_out_byte_DX_AL :: "host \<Rightarrow> u8 \<Rightarrow> unit emu" where
  "x86emuOp_out_byte_DX_AL h op1 =
     do {
       OP_DECODE ''out dx,al'';
       v \<leftarrow> gets (\<lambda>s. ucast (R_DX s));
       v2 \<leftarrow> gets R_AL;
       store_io_byte h v v2
     }"

definition x86emuOp_out_word_DX_AX :: "host \<Rightarrow> u8 \<Rightarrow> unit emu" where
  "x86emuOp_out_word_DX_AX h op1 =
     do {
       d32 \<leftarrow> gets MODE_DATA32;
       if d32 then do {
         OP_DECODE ''out dx,eax'';
         v \<leftarrow> gets (\<lambda>s. ucast (R_DX s));
         v2 \<leftarrow> gets R_EAX;
         store_io_long h v v2
       } else do {
         OP_DECODE ''out dx,ax'';
         v \<leftarrow> gets (\<lambda>s. ucast (R_DX s));
         v2 \<leftarrow> gets R_AX;
         store_io_word h v v2
       }
     }"

section \<open>The operations respect a discipline\<close>

context discipline
begin

lemma emu_ok_Ops_Move_1 [handler_oks]:
  "emu_ok (x86emuOp_push_ES h op)"
  "emu_ok (x86emuOp_pop_ES h op)"
  "emu_ok (x86emuOp_push_CS h op)"
  "emu_ok (x86emuOp_push_SS h op)"
  unfolding x86emuOp_push_ES_def x86emuOp_pop_ES_def x86emuOp_push_CS_def
    x86emuOp_push_SS_def
  by (intro emu_oks)+

lemma emu_ok_Ops_Move_2 [handler_oks]:
  "emu_ok (x86emuOp_pop_SS h op)"
  "emu_ok (x86emuOp_push_DS h op)"
  "emu_ok (x86emuOp_pop_DS h op)"
  "emu_ok (x86emuOp_push_AX h op)"
  unfolding x86emuOp_pop_SS_def x86emuOp_push_DS_def x86emuOp_pop_DS_def
    x86emuOp_push_AX_def
  by (intro emu_oks)+

lemma emu_ok_Ops_Move_3 [handler_oks]:
  "emu_ok (x86emuOp_push_CX h op)"
  "emu_ok (x86emuOp_push_DX h op)"
  "emu_ok (x86emuOp_push_BX h op)"
  "emu_ok (x86emuOp_push_SP h op)"
  unfolding x86emuOp_push_CX_def x86emuOp_push_DX_def x86emuOp_push_BX_def
    x86emuOp_push_SP_def
  by (intro emu_oks)+

lemma emu_ok_Ops_Move_4 [handler_oks]:
  "emu_ok (x86emuOp_push_BP h op)"
  "emu_ok (x86emuOp_push_SI h op)"
  "emu_ok (x86emuOp_push_DI h op)"
  "emu_ok (x86emuOp_pop_AX h op)"
  unfolding x86emuOp_push_BP_def x86emuOp_push_SI_def x86emuOp_push_DI_def
    x86emuOp_pop_AX_def
  by (intro emu_oks)+

lemma emu_ok_Ops_Move_5 [handler_oks]:
  "emu_ok (x86emuOp_pop_CX h op)"
  "emu_ok (x86emuOp_pop_DX h op)"
  "emu_ok (x86emuOp_pop_BX h op)"
  "emu_ok (x86emuOp_pop_SP h op)"
  unfolding x86emuOp_pop_CX_def x86emuOp_pop_DX_def x86emuOp_pop_BX_def
    x86emuOp_pop_SP_def
  by (intro emu_oks)+

lemma emu_ok_Ops_Move_6 [handler_oks]:
  "emu_ok (x86emuOp_pop_BP h op)"
  "emu_ok (x86emuOp_pop_SI h op)"
  "emu_ok (x86emuOp_pop_DI h op)"
  "emu_ok (x86emuOp_push_all h op)"
  unfolding x86emuOp_pop_BP_def x86emuOp_pop_SI_def x86emuOp_pop_DI_def
    x86emuOp_push_all_def
  by (intro emu_oks)+

lemma emu_ok_Ops_Move_7 [handler_oks]:
  "emu_ok (x86emuOp_pop_all h op)"
  "emu_ok (x86emuOp_push_word_IMM h op)"
  "emu_ok (x86emuOp_push_byte_IMM h op)"
  "emu_ok (x86emuOp_xchg_byte_RM_R h op)"
  unfolding x86emuOp_pop_all_def x86emuOp_push_word_IMM_def x86emuOp_push_byte_IMM_def
    x86emuOp_xchg_byte_RM_R_def
  by (intro emu_oks)+

lemma emu_ok_Ops_Move_8 [handler_oks]:
  "emu_ok (x86emuOp_xchg_word_RM_R h op)"
  "emu_ok (x86emuOp_mov_byte_RM_R h op)"
  "emu_ok (x86emuOp_mov_word_RM_R h op)"
  "emu_ok (x86emuOp_mov_byte_R_RM h op)"
  unfolding x86emuOp_xchg_word_RM_R_def x86emuOp_mov_byte_RM_R_def x86emuOp_mov_word_RM_R_def
    x86emuOp_mov_byte_R_RM_def
  by (intro emu_oks)+

lemma emu_ok_Ops_Move_9 [handler_oks]:
  "emu_ok (x86emuOp_mov_word_R_RM h op)"
  "emu_ok (x86emuOp_mov_word_RM_SR h op)"
  "emu_ok (x86emuOp_lea_word_R_M h op)"
  "emu_ok (x86emuOp_mov_word_SR_RM h op)"
  unfolding x86emuOp_mov_word_R_RM_def x86emuOp_mov_word_RM_SR_def x86emuOp_lea_word_R_M_def
    x86emuOp_mov_word_SR_RM_def
  by (intro emu_oks)+

lemma emu_ok_Ops_Move_10 [handler_oks]:
  "emu_ok (x86emuOp_pop_RM h op)"
  "emu_ok (x86emuOp_nop h op)"
  "emu_ok (x86emuOp_xchg_word_AX_CX h op)"
  "emu_ok (x86emuOp_xchg_word_AX_DX h op)"
  unfolding x86emuOp_pop_RM_def x86emuOp_nop_def x86emuOp_xchg_word_AX_CX_def
    x86emuOp_xchg_word_AX_DX_def
  by (intro emu_oks)+

lemma emu_ok_Ops_Move_11 [handler_oks]:
  "emu_ok (x86emuOp_xchg_word_AX_BX h op)"
  "emu_ok (x86emuOp_xchg_word_AX_SP h op)"
  "emu_ok (x86emuOp_xchg_word_AX_BP h op)"
  "emu_ok (x86emuOp_xchg_word_AX_SI h op)"
  unfolding x86emuOp_xchg_word_AX_BX_def x86emuOp_xchg_word_AX_SP_def x86emuOp_xchg_word_AX_BP_def
    x86emuOp_xchg_word_AX_SI_def
  by (intro emu_oks)+

lemma emu_ok_Ops_Move_12 [handler_oks]:
  "emu_ok (x86emuOp_xchg_word_AX_DI h op)"
  "emu_ok (x86emuOp_wait h op)"
  "emu_ok (x86emuOp_pushf_word h op)"
  "emu_ok (x86emuOp_popf_word h op)"
  unfolding x86emuOp_xchg_word_AX_DI_def x86emuOp_wait_def x86emuOp_pushf_word_def
    x86emuOp_popf_word_def
  by (intro emu_oks)+

lemma emu_ok_Ops_Move_13 [handler_oks]:
  "emu_ok (x86emuOp_mov_AL_M_IMM h op)"
  "emu_ok (x86emuOp_mov_AX_M_IMM h op)"
  "emu_ok (x86emuOp_mov_M_AL_IMM h op)"
  "emu_ok (x86emuOp_mov_M_AX_IMM h op)"
  unfolding x86emuOp_mov_AL_M_IMM_def x86emuOp_mov_AX_M_IMM_def x86emuOp_mov_M_AL_IMM_def
    x86emuOp_mov_M_AX_IMM_def
  by (intro emu_oks)+

lemma emu_ok_Ops_Move_14 [handler_oks]:
  "emu_ok (x86emuOp_mov_byte_AL_IMM h op)"
  "emu_ok (x86emuOp_mov_byte_CL_IMM h op)"
  "emu_ok (x86emuOp_mov_byte_DL_IMM h op)"
  "emu_ok (x86emuOp_mov_byte_BL_IMM h op)"
  unfolding x86emuOp_mov_byte_AL_IMM_def x86emuOp_mov_byte_CL_IMM_def x86emuOp_mov_byte_DL_IMM_def
    x86emuOp_mov_byte_BL_IMM_def
  by (intro emu_oks)+

lemma emu_ok_Ops_Move_15 [handler_oks]:
  "emu_ok (x86emuOp_mov_byte_AH_IMM h op)"
  "emu_ok (x86emuOp_mov_byte_CH_IMM h op)"
  "emu_ok (x86emuOp_mov_byte_DH_IMM h op)"
  "emu_ok (x86emuOp_mov_byte_BH_IMM h op)"
  unfolding x86emuOp_mov_byte_AH_IMM_def x86emuOp_mov_byte_CH_IMM_def x86emuOp_mov_byte_DH_IMM_def
    x86emuOp_mov_byte_BH_IMM_def
  by (intro emu_oks)+

lemma emu_ok_Ops_Move_16 [handler_oks]:
  "emu_ok (x86emuOp_mov_word_AX_IMM h op)"
  "emu_ok (x86emuOp_mov_word_CX_IMM h op)"
  "emu_ok (x86emuOp_mov_word_DX_IMM h op)"
  "emu_ok (x86emuOp_mov_word_BX_IMM h op)"
  unfolding x86emuOp_mov_word_AX_IMM_def x86emuOp_mov_word_CX_IMM_def x86emuOp_mov_word_DX_IMM_def
    x86emuOp_mov_word_BX_IMM_def
  by (intro emu_oks)+

lemma emu_ok_Ops_Move_17 [handler_oks]:
  "emu_ok (x86emuOp_mov_word_SP_IMM h op)"
  "emu_ok (x86emuOp_mov_word_BP_IMM h op)"
  "emu_ok (x86emuOp_mov_word_SI_IMM h op)"
  "emu_ok (x86emuOp_mov_word_DI_IMM h op)"
  unfolding x86emuOp_mov_word_SP_IMM_def x86emuOp_mov_word_BP_IMM_def x86emuOp_mov_word_SI_IMM_def
    x86emuOp_mov_word_DI_IMM_def
  by (intro emu_oks)+

lemma emu_ok_Ops_Move_18 [handler_oks]:
  "emu_ok (x86emuOp_les_R_IMM h op)"
  "emu_ok (x86emuOp_lds_R_IMM h op)"
  "emu_ok (x86emuOp_mov_byte_RM_IMM h op)"
  "emu_ok (x86emuOp_mov_word_RM_IMM h op)"
  unfolding x86emuOp_les_R_IMM_def x86emuOp_lds_R_IMM_def x86emuOp_mov_byte_RM_IMM_def
    x86emuOp_mov_word_RM_IMM_def
  by (intro emu_oks)+

lemma emu_ok_Ops_Move_19 [handler_oks]:
  "emu_ok (x86emuOp_xlat h op)"
  "emu_ok (x86emuOp_in_byte_AL_IMM h op)"
  "emu_ok (x86emuOp_in_word_AX_IMM h op)"
  "emu_ok (x86emuOp_out_byte_IMM_AL h op)"
  unfolding x86emuOp_xlat_def x86emuOp_in_byte_AL_IMM_def x86emuOp_in_word_AX_IMM_def
    x86emuOp_out_byte_IMM_AL_def
  by (intro emu_oks)+

lemma emu_ok_Ops_Move_20 [handler_oks]:
  "emu_ok (x86emuOp_out_word_IMM_AX h op)"
  "emu_ok (x86emuOp_in_byte_AL_DX h op)"
  "emu_ok (x86emuOp_in_word_AX_DX h op)"
  "emu_ok (x86emuOp_out_byte_DX_AL h op)"
  unfolding x86emuOp_out_word_IMM_AX_def x86emuOp_in_byte_AL_DX_def x86emuOp_in_word_AX_DX_def
    x86emuOp_out_byte_DX_AL_def
  by (intro emu_oks)+

lemma emu_ok_Ops_Move_21 [handler_oks]:
  "emu_ok (x86emuOp_out_word_DX_AX h op)"
  unfolding x86emuOp_out_word_DX_AX_def
  by (intro emu_oks)

end

end
