(* ===== verification/Ops_Control.thy ===== *)
theory Ops_Control
  imports Ops_Base
begin

text \<open>
  Jumps, calls, returns, loops and interrupts of one byte opcodes (\<^verbatim>\<open>ops.c\<close>), the stack
  frame instructions, and the group FF.
\<close>

definition x86emuOp_jump_short_cc :: "host \<Rightarrow> u8 \<Rightarrow> unit emu" where
  "x86emuOp_jump_short_cc h op1 =
     do {
       let type = unat (op1 AND 0xf);
       OP_DECODE ''j'';
       decode_cond type;
       ofs \<leftarrow> fetch_byte h;
       let ofs = (scast ofs :: u32);
       eip \<leftarrow> gets (\<lambda>s. R_EIP s + ofs);
       DECODE_HEX_ADDR eip;
       d32 \<leftarrow> gets MODE_DATA32;
       let eip = (if \<not> d32 then eip AND 0xffff else eip);
       b2 \<leftarrow> gets (eval_condition type);
       if_then b2 (modify (\<lambda>s. s\<lparr>R_EIP := eip\<rparr>))
     }"

definition x86emuOp_call_far_IMM :: "host \<Rightarrow> u8 \<Rightarrow> unit emu" where
  "x86emuOp_call_far_IMM h op1 =
     do {
       OP_DECODE ''call far '';
       d32 \<leftarrow> gets MODE_DATA32;
       eip \<leftarrow> (if d32 then fetch_long h else do { v \<leftarrow> fetch_word h; return (ucast v) });
       cs \<leftarrow> fetch_word h;
       OP_DECODE (decode_hex4 (ucast cs));
       OP_DECODE '':'';
       d32 \<leftarrow> gets MODE_DATA32;
       (if d32 then do {
           OP_DECODE (decode_hex8 eip);
           v2 \<leftarrow> gets (\<lambda>s. ucast (sel_sel (seg s R_CS_INDEX)));
           push_long h v2;
           v3 \<leftarrow> gets R_EIP;
           push_long h v3
         } else do {
           OP_DECODE (decode_hex4 eip);
           v2 \<leftarrow> gets (\<lambda>s. sel_sel (seg s R_CS_INDEX));
           push_word h v2;
           v3 \<leftarrow> gets R_IP;
           push_word h v3
         });
       x86emu_set_seg_register h (Seg R_CS_INDEX) cs;
       modify (\<lambda>s. s\<lparr>R_EIP := eip\<rparr>)
     }"

definition x86emuOp_ret_near_IMM :: "host \<Rightarrow> u8 \<Rightarrow> unit emu" where
  "x86emuOp_ret_near_IMM h op1 =
     do {
       OP_DECODE ''ret '';
       imm \<leftarrow> fetch_word h;
       let imm = (ucast imm :: u32);
       OP_DECODE (decode_hex4 imm);
       d32 \<leftarrow> gets MODE_DATA32;
       if d32 then do {
         v \<leftarrow> pop_long h;
         modify (\<lambda>s. s\<lparr>R_EIP := v\<rparr>);
         modify (\<lambda>s. s\<lparr>R_ESP := R_ESP s + imm\<rparr>)
       } else do {
         v \<leftarrow> pop_word h;
         modify (\<lambda>s. s\<lparr>R_EIP := ucast v\<rparr>);
         modify (\<lambda>s. s\<lparr>R_ESP := set_lo16 (R_SP s + ucast imm) (R_ESP s)\<rparr>)
       }
     }"

definition x86emuOp_ret_near :: "host \<Rightarrow> u8 \<Rightarrow> unit emu" where
  "x86emuOp_ret_near h op1 =
     do {
       OP_DECODE ''ret'';
       d32 \<leftarrow> gets MODE_DATA32;
       if d32 then do { v \<leftarrow> pop_long h; modify (\<lambda>s. s\<lparr>R_EIP := v\<rparr>) }
       else do { v \<leftarrow> pop_word h; modify (\<lambda>s. s\<lparr>R_EIP := ucast v\<rparr>) }
     }"

definition x86emuOp_enter :: "host \<Rightarrow> u8 \<Rightarrow> unit emu" where
  "x86emuOp_enter h op1 =
     do {
       OP_DECODE ''enter '';
       local_size \<leftarrow> fetch_word h;
       let local_size = (ucast local_size :: u32);
       nesting \<leftarrow> fetch_byte h;
       OP_DECODE (decode_hex4 local_size);
       OP_DECODE '','';
       OP_DECODE (decode_hex2 (ucast nesting));
       let nesting = unat (nesting AND 0x1f);
       s32 \<leftarrow> gets MODE_STACK32;
       frame_pointer \<leftarrow> (if s32 then do {
           v \<leftarrow> gets R_EBP;
           push_long h v;
           gets R_ESP
         } else do {
           v \<leftarrow> gets R_BP;
           push_word h v;
           gets (\<lambda>s. ucast (R_SP s))
         });
       if_then (nesting > 0) (do {
           d32 \<leftarrow> gets MODE_DATA32;
           (if d32 then repeat (nesting - 1) (do {
               s32 \<leftarrow> gets MODE_STACK32;
               if s32 then do {
                 modify (\<lambda>s. s\<lparr>R_EBP := R_EBP s - 4\<rparr>);
                 v \<leftarrow> gets R_EBP;
                 val \<leftarrow> fetch_data_long_abs h R_SS_INDEX v;
                 push_long h val
               } else do {
                 modify (\<lambda>s. s\<lparr>R_EBP := set_lo16 (R_BP s - 4) (R_EBP s)\<rparr>);
                 v \<leftarrow> gets (\<lambda>s. ucast (R_BP s));
                 val \<leftarrow> fetch_data_long_abs h R_SS_INDEX v;
                 push_long h val
               }
             })
           else repeat (nesting - 1) (do {
               s32 \<leftarrow> gets MODE_STACK32;
               if s32 then do {
                 modify (\<lambda>s. s\<lparr>R_EBP := R_EBP s - 2\<rparr>);
                 v \<leftarrow> gets R_EBP;
                 val \<leftarrow> fetch_data_word_abs h R_SS_INDEX v;
                 push_word h val
               } else do {
                 modify (\<lambda>s. s\<lparr>R_EBP := set_lo16 (R_BP s - 2) (R_EBP s)\<rparr>);
                 v \<leftarrow> gets (\<lambda>s. ucast (R_BP s));
                 val \<leftarrow> fetch_data_word_abs h R_SS_INDEX v;
                 push_word h val
               }
             }));
           d32 \<leftarrow> gets MODE_DATA32;
           if d32 then push_long h frame_pointer else push_word h (ucast frame_pointer)
         });
       s32 \<leftarrow> gets MODE_STACK32;
       if s32 then do {
         modify (\<lambda>s. s\<lparr>R_EBP := frame_pointer\<rparr>);
         modify (\<lambda>s. s\<lparr>R_ESP := R_ESP s - local_size\<rparr>)
       } else do {
         modify (\<lambda>s. s\<lparr>R_EBP := set_lo16 (ucast frame_pointer) (R_EBP s)\<rparr>);
         modify (\<lambda>s. s\<lparr>R_ESP := set_lo16 (R_SP s - ucast local_size) (R_ESP s)\<rparr>)
       }
     }"

definition x86emuOp_leave :: "host \<Rightarrow> u8 \<Rightarrow> unit emu" where
  "x86emuOp_leave h op1 =
     do {
       OP_DECODE ''leave'';
       s32 \<leftarrow> gets MODE_STACK32;
       (if s32 then modify (\<lambda>s. s\<lparr>R_ESP := R_EBP s\<rparr>)
         else modify (\<lambda>s. s\<lparr>R_ESP := set_lo16 (R_BP s) (R_ESP s)\<rparr>));
       d32 \<leftarrow> gets MODE_DATA32;
       if d32 then do { v \<leftarrow> pop_long h; modify (\<lambda>s. s\<lparr>R_EBP := v\<rparr>) }
       else do {
         v \<leftarrow> pop_word h;
         modify (\<lambda>s. s\<lparr>R_EBP := set_lo16 v (R_EBP s)\<rparr>)
       }
     }"

definition x86emuOp_ret_far_IMM :: "host \<Rightarrow> u8 \<Rightarrow> unit emu" where
  "x86emuOp_ret_far_IMM h op1 =
     do {
       OP_DECODE ''retf '';
       imm \<leftarrow> fetch_word h;
       let imm = (ucast imm :: u32);
       OP_DECODE (decode_hex4 imm);
       d32 \<leftarrow> gets MODE_DATA32;
       (cs, eip) \<leftarrow> (if d32 then do {
           eip \<leftarrow> pop_long h;
           cs \<leftarrow> pop_long h;
           let cs = (ucast cs :: u16);
           modify (\<lambda>s. s\<lparr>R_ESP := R_ESP s + imm\<rparr>);
           return (cs, eip)
         } else do {
           eip \<leftarrow> pop_word h;
           let eip = (ucast eip :: u32);
           cs \<leftarrow> pop_word h;
           modify (\<lambda>s. s\<lparr>R_ESP := set_lo16 (R_SP s + ucast imm) (R_ESP s)\<rparr>);
           return (cs, eip)
         });
       x86emu_set_seg_register h (Seg R_CS_INDEX) cs;
       modify (\<lambda>s. s\<lparr>R_EIP := eip\<rparr>)
     }"

definition x86emuOp_ret_far :: "host \<Rightarrow> u8 \<Rightarrow> unit emu" where
  "x86emuOp_ret_far h op1 =
     do {
       OP_DECODE ''retf'';
       d32 \<leftarrow> gets MODE_DATA32;
       (cs, eip) \<leftarrow> (if d32 then do {
           eip \<leftarrow> pop_long h;
           cs \<leftarrow> pop_long h;
           let cs = (ucast cs :: u16);
           return (cs, eip)
         } else do {
           eip \<leftarrow> pop_word h;
           let eip = (ucast eip :: u32);
           cs \<leftarrow> pop_word h;
           return (cs, eip)
         });
       x86emu_set_seg_register h (Seg R_CS_INDEX) cs;
       modify (\<lambda>s. s\<lparr>R_EIP := eip\<rparr>)
     }"

definition x86emuOp_int3 :: "host \<Rightarrow> u8 \<Rightarrow> unit emu" where
  "x86emuOp_int3 h op1 =
     do { OP_DECODE ''int 3''; INTR_RAISE_SOFT 3 }"

definition x86emuOp_int_IMM :: "host \<Rightarrow> u8 \<Rightarrow> unit emu" where
  "x86emuOp_int_IMM h op1 =
     do {
       OP_DECODE ''int '';
       nr \<leftarrow> fetch_byte h;
       OP_DECODE (decode_hex2 (ucast nr));
       INTR_RAISE_SOFT nr
     }"

definition x86emuOp_into :: "host \<Rightarrow> u8 \<Rightarrow> unit emu" where
  "x86emuOp_into h op1 =
     do {
       OP_DECODE ''into'';
       b \<leftarrow> gets (\<lambda>s. ACCESS_FLAG F_OF (R_FLG s));
       if_then b (INTR_RAISE_SOFT 4)
     }"

definition x86emuOp_iret :: "host \<Rightarrow> u8 \<Rightarrow> unit emu" where
  "x86emuOp_iret h op1 =
     do {
       OP_DECODE ''iret'';
       d32 \<leftarrow> gets MODE_DATA32;
       (cs, eip) \<leftarrow> (if d32 then do {
           eip \<leftarrow> pop_long h;
           cs \<leftarrow> pop_long h;
           let cs = (ucast cs :: u16);
           v \<leftarrow> pop_long h;
           modify (\<lambda>s. s\<lparr>R_FLG := v OR F_ALWAYS_ON\<rparr>);
           return (cs, eip)
         } else do {
           eip \<leftarrow> pop_word h;
           let eip = (ucast eip :: u32);
           cs \<leftarrow> pop_word h;
           v \<leftarrow> pop_word h;
           modify (\<lambda>s. s\<lparr>R_FLG := ucast v OR F_ALWAYS_ON\<rparr>);
           return (cs, eip)
         });
       x86emu_set_seg_register h (Seg R_CS_INDEX) cs;
       modify (\<lambda>s. s\<lparr>R_EIP := eip\<rparr>)
     }"

definition x86emuOp_loopne :: "host \<Rightarrow> u8 \<Rightarrow> unit emu" where
  "x86emuOp_loopne h op1 =
     do {
       OP_DECODE ''loopnz '';
       ofs \<leftarrow> fetch_byte h;
       let ofs = (scast ofs :: u32);
       eip \<leftarrow> gets (\<lambda>s. R_EIP s + ofs);
       DECODE_HEX_ADDR eip;
       d32 \<leftarrow> gets MODE_DATA32;
       if d32 then do {
         modify (\<lambda>s. s\<lparr>R_ECX := R_ECX s - 1\<rparr>);
         b \<leftarrow> gets (\<lambda>s. (R_ECX s \<noteq> 0) \<and> (\<not> (ACCESS_FLAG F_ZF (R_FLG s))));
         if_then b (modify (\<lambda>s. s\<lparr>R_EIP := eip\<rparr>))
       } else do {
         let eip = (eip AND 0xffff :: u32);
         modify (\<lambda>s. s\<lparr>R_ECX := set_lo16 (R_CX s - 1) (R_ECX s)\<rparr>);
         b \<leftarrow> gets (\<lambda>s. (R_CX s \<noteq> 0) \<and> (\<not> (ACCESS_FLAG F_ZF (R_FLG s))));
         if_then b (modify (\<lambda>s. s\<lparr>R_EIP := eip\<rparr>))
       }
     }"

definition x86emuOp_loope :: "host \<Rightarrow> u8 \<Rightarrow> unit emu" where
  "x86emuOp_loope h op1 =
     do {
       OP_DECODE ''loopz '';
       ofs \<leftarrow> fetch_byte h;
       let ofs = (scast ofs :: u32);
       eip \<leftarrow> gets (\<lambda>s. R_EIP s + ofs);
       DECODE_HEX_ADDR eip;
       d32 \<leftarrow> gets MODE_DATA32;
       if d32 then do {
         modify (\<lambda>s. s\<lparr>R_ECX := R_ECX s - 1\<rparr>);
         b \<leftarrow> gets (\<lambda>s. (R_ECX s \<noteq> 0) \<and> (ACCESS_FLAG F_ZF (R_FLG s)));
         if_then b (modify (\<lambda>s. s\<lparr>R_EIP := eip\<rparr>))
       } else do {
         let eip = (eip AND 0xffff :: u32);
         modify (\<lambda>s. s\<lparr>R_ECX := set_lo16 (R_CX s - 1) (R_ECX s)\<rparr>);
         b \<leftarrow> gets (\<lambda>s. (R_CX s \<noteq> 0) \<and> (ACCESS_FLAG F_ZF (R_FLG s)));
         if_then b (modify (\<lambda>s. s\<lparr>R_EIP := eip\<rparr>))
       }
     }"

definition x86emuOp_loop :: "host \<Rightarrow> u8 \<Rightarrow> unit emu" where
  "x86emuOp_loop h op1 =
     do {
       OP_DECODE ''loop '';
       ofs \<leftarrow> fetch_byte h;
       let ofs = (scast ofs :: u32);
       eip \<leftarrow> gets (\<lambda>s. R_EIP s + ofs);
       DECODE_HEX_ADDR eip;
       d32 \<leftarrow> gets MODE_DATA32;
       if d32 then do {
         modify (\<lambda>s. s\<lparr>R_ECX := R_ECX s - 1\<rparr>);
         b \<leftarrow> gets (\<lambda>s. R_ECX s \<noteq> 0);
         if_then b (modify (\<lambda>s. s\<lparr>R_EIP := eip\<rparr>))
       } else do {
         let eip = (eip AND 0xffff :: u32);
         modify (\<lambda>s. s\<lparr>R_ECX := set_lo16 (R_CX s - 1) (R_ECX s)\<rparr>);
         b \<leftarrow> gets (\<lambda>s. R_CX s \<noteq> 0);
         if_then b (modify (\<lambda>s. s\<lparr>R_EIP := eip\<rparr>))
       }
     }"

definition x86emuOp_jcxz :: "host \<Rightarrow> u8 \<Rightarrow> unit emu" where
  "x86emuOp_jcxz h op1 =
     do {
       ofs \<leftarrow> fetch_byte h;
       let ofs = (scast ofs :: u32);
       eip \<leftarrow> gets (\<lambda>s. R_EIP s + ofs);
       d32 \<leftarrow> gets MODE_DATA32;
       if d32 then do {
         OP_DECODE ''jecxz '';
         DECODE_HEX_ADDR eip;
         b \<leftarrow> gets (\<lambda>s. R_ECX s = 0);
         if_then b (modify (\<lambda>s. s\<lparr>R_EIP := eip\<rparr>))
       } else do {
         OP_DECODE ''jcxz '';
         let eip = (eip AND 0xffff :: u32);
         DECODE_HEX_ADDR eip;
         b \<leftarrow> gets (\<lambda>s. R_CX s = 0);
         if_then b (modify (\<lambda>s. s\<lparr>R_EIP := eip\<rparr>))
       }
     }"

definition x86emuOp_call_near_IMM :: "host \<Rightarrow> u8 \<Rightarrow> unit emu" where
  "x86emuOp_call_near_IMM h op1 =
     do {
       OP_DECODE ''call '';
       d32 \<leftarrow> gets MODE_DATA32;
       ofs \<leftarrow> (if d32 then fetch_long h
         else do { ofs \<leftarrow> fetch_word h; let ofs = (scast ofs :: u32); return ofs });
       eip \<leftarrow> gets (\<lambda>s. R_EIP s + ofs);
       d32 \<leftarrow> gets MODE_DATA32;
       eip \<leftarrow> (if d32 then do { DECODE_HEX_ADDR eip; v \<leftarrow> gets R_EIP; push_long h v; return eip }
         else do {
           let eip = (eip AND 0xffff :: u32);
           DECODE_HEX_ADDR eip;
           v \<leftarrow> gets R_IP;
           push_word h v;
           return eip
         });
       modify (\<lambda>s. s\<lparr>R_EIP := eip\<rparr>)
     }"

definition x86emuOp_jump_near_IMM :: "host \<Rightarrow> u8 \<Rightarrow> unit emu" where
  "x86emuOp_jump_near_IMM h op1 =
     do {
       OP_DECODE ''jmp '';
       d32 \<leftarrow> gets MODE_DATA32;
       ofs \<leftarrow> (if d32 then fetch_long h
         else do { ofs \<leftarrow> fetch_word h; let ofs = (scast ofs :: u32); return ofs });
       eip \<leftarrow> gets (\<lambda>s. R_EIP s + ofs);
       d32 \<leftarrow> gets MODE_DATA32;
       let eip = (if \<not> d32 then eip AND 0xffff else eip);
       DECODE_HEX_ADDR eip;
       modify (\<lambda>s. s\<lparr>R_EIP := eip\<rparr>)
     }"

definition x86emuOp_jump_far_IMM :: "host \<Rightarrow> u8 \<Rightarrow> unit emu" where
  "x86emuOp_jump_far_IMM h op1 =
     do {
       OP_DECODE ''jmp far '';
       d32 \<leftarrow> gets MODE_DATA32;
       eip \<leftarrow> (if d32 then fetch_long h else do { v \<leftarrow> fetch_word h; return (ucast v) });
       cs \<leftarrow> fetch_word h;
       x86emu_set_seg_register h (Seg R_CS_INDEX) cs;
       modify (\<lambda>s. s\<lparr>R_EIP := eip\<rparr>);
       OP_DECODE (decode_hex4 (ucast cs));
       OP_DECODE '':'';
       d32 \<leftarrow> gets MODE_DATA32;
       if d32 then OP_DECODE (decode_hex8 eip) else OP_DECODE (decode_hex4 eip)
     }"

definition x86emuOp_jump_byte_IMM :: "host \<Rightarrow> u8 \<Rightarrow> unit emu" where
  "x86emuOp_jump_byte_IMM h op1 =
     do {
       OP_DECODE ''jmp '';
       ofs \<leftarrow> fetch_byte h;
       let ofs = (scast ofs :: u32);
       eip \<leftarrow> gets (\<lambda>s. R_EIP s + ofs);
       d32 \<leftarrow> gets MODE_DATA32;
       eip \<leftarrow> (if d32 then do { DECODE_HEX_ADDR eip; return eip }
         else do { let eip = (eip AND 0xffff :: u32); DECODE_HEX_ADDR eip; return eip });
       b \<leftarrow> gets (\<lambda>s. ((log_trace s AND X86EMU_TRACE_DEBUG \<noteq> 0) \<and> (R_EIP s - saved_eip s = 3)) \<and> (sint ofs \<ge> 1));
       if_then b (do {
           modify (\<lambda>s. s\<lparr>debug_start := (sel_base (seg s R_CS_INDEX)) + R_EIP s\<rparr>);
           modify (\<lambda>s. s\<lparr>debug_len := ofs\<rparr>)
         });
       modify (\<lambda>s. s\<lparr>R_EIP := eip\<rparr>)
     }"

definition x86emuOp_hlt :: "host \<Rightarrow> u8 \<Rightarrow> unit emu" where
  "x86emuOp_hlt h op1 =
     do { OP_DECODE ''hlt''; x86emu_stop }"

definition x86emuOp_opcFF_word_RM :: "host \<Rightarrow> u8 \<Rightarrow> unit emu" where
  "x86emuOp_opcFF_word_RM h op1 =
     do {
       (md, rh, rl) \<leftarrow> fetch_decode_modrm h;
       if md = 3 then (if rh = 0 then do {
           OP_DECODE ''inc '';
           d32 \<leftarrow> gets MODE_DATA32;
           if d32 then do {
             reg32 \<leftarrow> decode_rm_long_register rl;
             v \<leftarrow> alu (\<lambda>s. inc_long (R_FLG s) (get32 reg32 s));
             modify (set32 reg32 v)
           } else do {
             reg16 \<leftarrow> decode_rm_word_register rl;
             v \<leftarrow> alu (\<lambda>s. inc_word (R_FLG s) (get16 reg16 s));
             modify (set16 reg16 v)
           }
         } else if rh = 1 then do {
           OP_DECODE ''dec '';
           d32 \<leftarrow> gets MODE_DATA32;
           if d32 then do {
             reg32 \<leftarrow> decode_rm_long_register rl;
             v \<leftarrow> alu (\<lambda>s. dec_long (R_FLG s) (get32 reg32 s));
             modify (set32 reg32 v)
           } else do {
             reg16 \<leftarrow> decode_rm_word_register rl;
             v \<leftarrow> alu (\<lambda>s. dec_word (R_FLG s) (get16 reg16 s));
             modify (set16 reg16 v)
           }
         } else if rh = 2 then do {
           OP_DECODE ''call '';
           d32 \<leftarrow> gets MODE_DATA32;
           if d32 then do {
             reg32 \<leftarrow> decode_rm_long_register rl;
             v \<leftarrow> gets R_EIP;
             push_long h v;
             modify (\<lambda>s. s\<lparr>R_EIP := get32 reg32 s\<rparr>)
           } else do {
             reg16 \<leftarrow> decode_rm_word_register rl;
             v \<leftarrow> gets R_IP;
             push_word h v;
             modify (\<lambda>s. s\<lparr>R_EIP := ucast (get16 reg16 s)\<rparr>)
           }
         } else if rh = 4 then do {
           OP_DECODE ''jmp '';
           d32 \<leftarrow> gets MODE_DATA32;
           if d32 then do {
             reg32 \<leftarrow> decode_rm_long_register rl;
             modify (\<lambda>s. s\<lparr>R_EIP := get32 reg32 s\<rparr>)
           } else do {
             reg16 \<leftarrow> decode_rm_word_register rl;
             modify (\<lambda>s. s\<lparr>R_EIP := ucast (get16 reg16 s)\<rparr>)
           }
         } else if rh = 6 then do {
           OP_DECODE ''push '';
           d32 \<leftarrow> gets MODE_DATA32;
           if d32 then do {
             reg32 \<leftarrow> decode_rm_long_register rl;
             v \<leftarrow> gets (get32 reg32);
             push_long h v
           } else do {
             reg16 \<leftarrow> decode_rm_word_register rl;
             v \<leftarrow> gets (get16 reg16);
             push_word h v
           }
         } else INTR_RAISE_UD)
       else if rh = 0 then do {
         OP_DECODE ''inc '';
         d32 \<leftarrow> gets MODE_DATA32;
         if d32 then do {
           OP_DECODE ''dword '';
           addr \<leftarrow> decode_rm_address h md rl;
           val \<leftarrow> fetch_data_long h addr;
           val \<leftarrow> alu (\<lambda>s. inc_long (R_FLG s) val);
           store_data_long h addr val
         } else do {
           OP_DECODE ''word '';
           addr \<leftarrow> decode_rm_address h md rl;
           val \<leftarrow> fetch_data_word h addr;
           let val = (ucast val :: u32);
           val \<leftarrow> alu (\<lambda>s. inc_word (R_FLG s) (ucast val));
           let val = (ucast val :: u32);
           store_data_word h addr (ucast val)
         }
       } else if rh = 1 then do {
         OP_DECODE ''dec '';
         d32 \<leftarrow> gets MODE_DATA32;
         if d32 then do {
           OP_DECODE ''dword '';
           addr \<leftarrow> decode_rm_address h md rl;
           val \<leftarrow> fetch_data_long h addr;
           val \<leftarrow> alu (\<lambda>s. dec_long (R_FLG s) val);
           store_data_long h addr val
         } else do {
           OP_DECODE ''word '';
           addr \<leftarrow> decode_rm_address h md rl;
           val \<leftarrow> fetch_data_word h addr;
           let val = (ucast val :: u32);
           val \<leftarrow> alu (\<lambda>s. dec_word (R_FLG s) (ucast val));
           let val = (ucast val :: u32);
           store_data_word h addr (ucast val)
         }
       } else if rh = 2 then do {
         OP_DECODE ''call '';
         d32 \<leftarrow> gets MODE_DATA32;
         val \<leftarrow> (if d32 then do {
             OP_DECODE ''dword '';
             addr \<leftarrow> decode_rm_address h md rl;
             val \<leftarrow> fetch_data_long h addr;
             v2 \<leftarrow> gets R_EIP;
             push_long h v2;
             return val
           } else do {
             OP_DECODE ''word '';
             addr \<leftarrow> decode_rm_address h md rl;
             val \<leftarrow> fetch_data_word h addr;
             let val = (ucast val :: u32);
             v2 \<leftarrow> gets R_IP;
             push_word h v2;
             return val
           });
         modify (\<lambda>s. s\<lparr>R_EIP := val\<rparr>)
       } else if rh = 3 then do {
         OP_DECODE ''call far '';
         d32 \<leftarrow> gets MODE_DATA32;
         (cs, val) \<leftarrow> (if d32 then do {
             c32 \<leftarrow> gets MODE_CODE32;
             if_then (\<not> c32) (OP_DECODE ''word '');
             addr \<leftarrow> decode_rm_address h md rl;
             val \<leftarrow> fetch_data_long h addr;
             cs \<leftarrow> fetch_data_word h (addr + 4);
             v2 \<leftarrow> gets (\<lambda>s. ucast (sel_sel (seg s R_CS_INDEX)));
             push_long h v2;
             v3 \<leftarrow> gets R_EIP;
             push_long h v3;
             return (cs, val)
           } else do {
             c32 \<leftarrow> gets MODE_CODE32;
             if_then c32 (OP_DECODE ''dword '');
             addr \<leftarrow> decode_rm_address h md rl;
             val \<leftarrow> fetch_data_word h addr;
             let val = (ucast val :: u32);
             cs \<leftarrow> fetch_data_word h (addr + 2);
             v2 \<leftarrow> gets (\<lambda>s. sel_sel (seg s R_CS_INDEX));
             push_word h v2;
             v3 \<leftarrow> gets R_IP;
             push_word h v3;
             return (cs, val)
           });
         x86emu_set_seg_register h (Seg R_CS_INDEX) cs;
         modify (\<lambda>s. s\<lparr>R_EIP := val\<rparr>)
       } else if rh = 4 then do {
         OP_DECODE ''jmp '';
         d32 \<leftarrow> gets MODE_DATA32;
         val \<leftarrow> (if d32 then do {
             OP_DECODE ''dword '';
             addr \<leftarrow> decode_rm_address h md rl;
             val \<leftarrow> fetch_data_long h addr;
             return val
           } else do {
             OP_DECODE ''word '';
             addr \<leftarrow> decode_rm_address h md rl;
             val \<leftarrow> fetch_data_word h addr;
             let val = (ucast val :: u32);
             return val
           });
         modify (\<lambda>s. s\<lparr>R_EIP := val\<rparr>)
       } else if rh = 5 then do {
         OP_DECODE ''jmp far '';
         d32 \<leftarrow> gets MODE_DATA32;
         (cs, val) \<leftarrow> (if d32 then do {
             c32 \<leftarrow> gets MODE_CODE32;
             if_then (\<not> c32) (OP_DECODE ''word '');
             addr \<leftarrow> decode_rm_address h md rl;
             val \<leftarrow> fetch_data_long h addr;
             cs \<leftarrow> fetch_data_word h (addr + 4);
             return (cs, val)
           } else do {
             c32 \<leftarrow> gets MODE_CODE32;
             if_then c32 (OP_DECODE ''dword '');
             addr \<leftarrow> decode_rm_address h md rl;
             val \<leftarrow> fetch_data_word h addr;
             let val = (ucast val :: u32);
             cs \<leftarrow> fetch_data_word h (addr + 2);
             return (cs, val)
           });
         x86emu_set_seg_register h (Seg R_CS_INDEX) cs;
         modify (\<lambda>s. s\<lparr>R_EIP := val\<rparr>)
       } else if rh = 6 then do {
         OP_DECODE ''push '';
         d32 \<leftarrow> gets MODE_DATA32;
         if d32 then do {
           OP_DECODE ''dword '';
           addr \<leftarrow> decode_rm_address h md rl;
           val \<leftarrow> fetch_data_long h addr;
           push_long h val
         } else do {
           OP_DECODE ''word '';
           addr \<leftarrow> decode_rm_address h md rl;
           val \<leftarrow> fetch_data_word h addr;
           let val = (ucast val :: u32);
           push_word h (ucast val)
         }
       } else if rh = 7 then INTR_RAISE_UD else skip
     }"

section \<open>The operations respect a discipline\<close>

context discipline
begin

lemma emu_ok_Ops_Control_1 [handler_oks]:
  "emu_ok (x86emuOp_jump_short_cc h op)"
  "emu_ok (x86emuOp_call_far_IMM h op)"
  "emu_ok (x86emuOp_ret_near_IMM h op)"
  "emu_ok (x86emuOp_ret_near h op)"
  unfolding x86emuOp_jump_short_cc_def x86emuOp_call_far_IMM_def x86emuOp_ret_near_IMM_def
    x86emuOp_ret_near_def
  by (intro emu_oks)+

lemma emu_ok_Ops_Control_2 [handler_oks]:
  "emu_ok (x86emuOp_enter h op)"
  "emu_ok (x86emuOp_leave h op)"
  "emu_ok (x86emuOp_ret_far_IMM h op)"
  "emu_ok (x86emuOp_ret_far h op)"
  unfolding x86emuOp_enter_def x86emuOp_leave_def x86emuOp_ret_far_IMM_def
    x86emuOp_ret_far_def
  by (intro emu_oks)+

lemma emu_ok_Ops_Control_3 [handler_oks]:
  "emu_ok (x86emuOp_int3 h op)"
  "emu_ok (x86emuOp_int_IMM h op)"
  "emu_ok (x86emuOp_into h op)"
  "emu_ok (x86emuOp_iret h op)"
  unfolding x86emuOp_int3_def x86emuOp_int_IMM_def x86emuOp_into_def
    x86emuOp_iret_def
  by (intro emu_oks)+

lemma emu_ok_Ops_Control_4 [handler_oks]:
  "emu_ok (x86emuOp_loopne h op)"
  "emu_ok (x86emuOp_loope h op)"
  "emu_ok (x86emuOp_loop h op)"
  "emu_ok (x86emuOp_jcxz h op)"
  unfolding x86emuOp_loopne_def x86emuOp_loope_def x86emuOp_loop_def
    x86emuOp_jcxz_def
  by (intro emu_oks)+

lemma emu_ok_Ops_Control_5 [handler_oks]:
  "emu_ok (x86emuOp_call_near_IMM h op)"
  "emu_ok (x86emuOp_jump_near_IMM h op)"
  "emu_ok (x86emuOp_jump_far_IMM h op)"
  "emu_ok (x86emuOp_jump_byte_IMM h op)"
  unfolding x86emuOp_call_near_IMM_def x86emuOp_jump_near_IMM_def x86emuOp_jump_far_IMM_def
    x86emuOp_jump_byte_IMM_def
  by (intro emu_oks)+

lemma emu_ok_Ops_Control_6 [handler_oks]:
  "emu_ok (x86emuOp_hlt h op)"
  "emu_ok (x86emuOp_opcFF_word_RM h op)"
  unfolding x86emuOp_hlt_def x86emuOp_opcFF_word_RM_def
  by (intro emu_oks)+

end

end
