(* ===== verification/Ops2_Sse.thy ===== *)
theory Ops2_Sse
  imports Ops_Base
begin

text \<open>
  The SSE moves, packing and logic of two byte opcodes (\<^verbatim>\<open>ops2.c\<close>), on registers of 16
  bytes.
\<close>

text \<open>An assignment to byte \<open>i\<close> of a register.\<close>

definition set_xmm :: "nat \<Rightarrow> nat \<Rightarrow> u8 \<Rightarrow> unit emu" where
  "set_xmm r i v = modify (\<lambda>s. s\<lparr>xmm := (xmm s)(r := (xmm s r)(i := v))\<rparr>)"

context discipline
begin

lemma emu_ok_set_xmm [emu_oks]: "emu_ok (set_xmm r i v)"
  unfolding set_xmm_def by (intro emu_oks)

end

definition x86emuOp2_sse_enabled_check :: "unit emu" where
  "x86emuOp2_sse_enabled_check =
     do {
       s \<leftarrow> gets id;
       if_then (crx s 0 AND CR0_EM \<noteq> 0 \<or> crx s 0 AND CR0_MP = 0) INTR_RAISE_UD;
       s \<leftarrow> gets id;
       if_then (crx s 4 AND CR4_OSFXSR = 0) INTR_RAISE_UD
     }"

context discipline
begin

lemma emu_ok_sse_enabled_check [emu_oks]: "emu_ok x86emuOp2_sse_enabled_check"
  unfolding x86emuOp2_sse_enabled_check_def by (intro emu_oks)

end

section \<open>The instructions\<close>

definition x86emuOp2_SSEmovops :: "host \<Rightarrow> u8 \<Rightarrow> unit emu" where
  "x86emuOp2_SSEmovops h op2 =
     do {
       (if op2 AND 0xfe = 0x10 then OP_DECODE ''movups ''
         else if op2 AND 0xfe = 0x28 then OP_DECODE ''movaps ''
         else if op2 AND 0xfe = 0x2b then OP_DECODE ''movntps '' else skip);
       x86emuOp2_sse_enabled_check;
       (md, rh, rl) \<leftarrow> fetch_decode_modrm h;
       if md = 3 then do {
         dst \<leftarrow> decode_rm_sse_register rh;
         OP_DECODE '','';
         src \<leftarrow> decode_rm_sse_register rl;
         modify (\<lambda>s. s\<lparr>xmm := (xmm s)(dst := xmm s src)\<rparr>)
       } else if op2 AND 1 = 0 then do {
         dst \<leftarrow> decode_rm_sse_register rh;
         OP_DECODE '','';
         addr \<leftarrow> decode_rm_address h md rl;
         tmp \<leftarrow> fetch_data_qlong h addr;
         if op2 AND 0xfe \<noteq> 0x10 \<and> addr AND 0xf \<noteq> 0 then INTR_RAISE_GP 0
         else modify (\<lambda>s. s\<lparr>xmm := (xmm s)(dst := tmp)\<rparr>)
       } else do {
         addr \<leftarrow> decode_rm_address h md rh;
         OP_DECODE '','';
         src \<leftarrow> decode_rm_sse_register rl;
         if op2 AND 0xfe \<noteq> 0x10 \<and> addr AND 0xf \<noteq> 0 then INTR_RAISE_GP 0
         else do {
           tmp \<leftarrow> gets (\<lambda>s. xmm s src);
           store_data_qlong h addr tmp
         }
       }
     }"

definition x86emuOp2_SSEmovpackedops :: "host \<Rightarrow> u8 \<Rightarrow> unit emu" where
  "x86emuOp2_SSEmovpackedops h op2 =
     do {
       (md, rh, rl) \<leftarrow> fetch_decode_modrm h;
       (if op2 = 0x12 then OP_DECODE (if md = 3 then ''movhlps '' else ''movlps '')
         else if op2 = 0x13 then OP_DECODE ''movlps ''
         else if op2 = 0x16 then OP_DECODE (if md = 3 then ''movhlps '' else ''movhps '')
         else if op2 = 0x17 then OP_DECODE ''movhps ''
         else INTR_RAISE_UD);
       x86emuOp2_sse_enabled_check;
       if md = 3 then do {
         dst \<leftarrow> decode_rm_sse_register rh;
         OP_DECODE '','';
         src \<leftarrow> decode_rm_sse_register rl;
         for_each [0..<8] (\<lambda>i. do {
             s \<leftarrow> gets id;
             if op2 = 0x12 then set_xmm dst i (xmm s src (i + 8))
             else if op2 = 0x16 then set_xmm dst (i + 8) (xmm s src i) else skip
           })
       } else if op2 AND 1 \<noteq> 0 then do {
         addr \<leftarrow> decode_rm_address h md rl;
         OP_DECODE '','';
         src \<leftarrow> decode_rm_sse_register rh;
         for_each [0..<8] (\<lambda>i. do {
             s \<leftarrow> gets id;
             if op2 = 0x13 then store_data_byte h (addr + of_nat i) (xmm s src i)
             else if op2 = 0x17 then store_data_byte h (addr + of_nat i) (xmm s src (i + 8)) else skip
           })
       } else do {
         dst \<leftarrow> decode_rm_sse_register rh;
         OP_DECODE '','';
         addr \<leftarrow> decode_rm_address h md rl;
         for_each [0..<8] (\<lambda>i.
             if op2 = 0x12 then do { v \<leftarrow> fetch_data_byte h (addr + of_nat i); set_xmm dst i v }
             else if op2 = 0x16 then do { v \<leftarrow> fetch_data_byte h (addr + of_nat i); set_xmm dst (i + 8) v }
             else skip)
       }
     }"

text \<open>
  The source is a register or the 16 bytes fetched from memory; a register is read
  after the operands are decoded, before the first byte is written.
\<close>

definition x86emuOp2_SSEpackops :: "host \<Rightarrow> u8 \<Rightarrow> unit emu" where
  "x86emuOp2_SSEpackops h op2 =
     do {
       (if op2 = 0x14 then OP_DECODE ''unpcklps ''
         else if op2 = 0x15 then OP_DECODE ''unpckhps '' else INTR_RAISE_UD);
       x86emuOp2_sse_enabled_check;
       (md, rh, rl) \<leftarrow> fetch_decode_modrm h;
       (dst, src) \<leftarrow> (if md = 3 then do {
           dst \<leftarrow> decode_rm_sse_register rh;
           OP_DECODE '','';
           r \<leftarrow> decode_rm_sse_register rl;
           src \<leftarrow> gets (\<lambda>s. xmm s r);
           return (dst, src)
         } else do {
           dst \<leftarrow> decode_rm_sse_register rh;
           OP_DECODE '','';
           addr \<leftarrow> decode_rm_address h md rl;
           tmp \<leftarrow> fetch_data_qlong h addr;
           return (dst, tmp)
         });
       let off = (if op2 = 0x14 then 0 else 2);
       d \<leftarrow> gets (\<lambda>s. xmm s dst);
       let arith = [d (off + 0), src (off + 0), d (off + 1), src (off + 1), d (off + 4), src (off + 4), d (off + 5), src (off + 5)];
       for_each [0..<4] (\<lambda>i. set_xmm dst i (arith ! i))
     }"

text \<open>
  The loop handles one byte after the other and byte \<open>i\<close> of the result depends on byte
  \<open>i\<close> of the operands alone, so the source may be read once, also when it is the
  destination.
\<close>

definition x86emuOp2_SSElogicalops :: "host \<Rightarrow> u8 \<Rightarrow> unit emu" where
  "x86emuOp2_SSElogicalops h op2 =
     do {
       (if op2 = 0x54 then OP_DECODE ''andps ''
         else if op2 = 0x55 then OP_DECODE ''andnps ''
         else if op2 = 0x56 then OP_DECODE ''orps ''
         else if op2 = 0x57 then OP_DECODE ''xorps ''
         else INTR_RAISE_UD);
       x86emuOp2_sse_enabled_check;
       (md, rh, rl) \<leftarrow> fetch_decode_modrm h;
       (dst, src) \<leftarrow> (if md = 3 then do {
           dst \<leftarrow> decode_rm_sse_register rh;
           OP_DECODE '','';
           r \<leftarrow> decode_rm_sse_register rl;
           src \<leftarrow> gets (\<lambda>s. xmm s r);
           return (dst, src)
         } else do {
           dst \<leftarrow> decode_rm_sse_register rh;
           OP_DECODE '','';
           addr \<leftarrow> decode_rm_address h md rl;
           tmp \<leftarrow> fetch_data_qlong h addr;
           return (dst, tmp)
         });
       for_each [0..<16] (\<lambda>i. do {
           s \<leftarrow> gets id;
           if op2 = 0x54 then set_xmm dst i (xmm s dst i AND src i)
           else if op2 = 0x55 then set_xmm dst i (xmm s dst i AND NOT (src i))
           else if op2 = 0x56 then set_xmm dst i (xmm s dst i OR src i)
           else if op2 = 0x57 then set_xmm dst i (xmm s dst i XOR src i) else skip
         })
     }"

section \<open>The operations respect a discipline\<close>

context discipline
begin

lemma emu_ok_Ops2_Sse_1 [handler_oks]:
  "emu_ok (x86emuOp2_SSEmovops h op)"
  "emu_ok (x86emuOp2_SSEmovpackedops h op)"
  "emu_ok (x86emuOp2_SSEpackops h op)"
  "emu_ok (x86emuOp2_SSElogicalops h op)"
  unfolding x86emuOp2_SSEmovops_def x86emuOp2_SSEmovpackedops_def x86emuOp2_SSEpackops_def
    x86emuOp2_SSElogicalops_def
  by (intro emu_oks)+

end

end
