(* ===== verification/Opcodes.thy ===== *)
theory Opcodes
  imports Ops_Arith Ops_Shift Ops_Move Ops_String Ops_Control Ops2_System Ops2_Bits Ops2_Sse
begin

text \<open>
  The two opcode tables, and the instruction set as one program: every entry respects
  every discipline.
\<close>

definition x86emu_optab2 :: "(host \<Rightarrow> u8 \<Rightarrow> unit emu) list" where
  "x86emu_optab2 = [
    x86emuOp2_opc_00, x86emuOp2_opc_01, x86emuOp2_illegal_op, x86emuOp2_illegal_op,
    x86emuOp2_illegal_op, x86emuOp2_illegal_op, x86emuOp2_clts, x86emuOp2_illegal_op,
    x86emuOp2_invd, x86emuOp2_wbinvd, x86emuOp2_illegal_op, x86emuOp2_illegal_op,
    x86emuOp2_illegal_op, x86emuOp2_illegal_op, x86emuOp2_illegal_op, x86emuOp2_illegal_op,
    x86emuOp2_SSEmovops, x86emuOp2_SSEmovops, x86emuOp2_SSEmovpackedops, x86emuOp2_SSEmovpackedops,
    x86emuOp2_SSEpackops, x86emuOp2_SSEpackops, x86emuOp2_SSEmovpackedops, x86emuOp2_SSEmovpackedops,
    x86emuOp2_prefetch, x86emuOp2_hint_nop, x86emuOp2_illegal_op, x86emuOp2_illegal_op,
    x86emuOp2_hint_nop, x86emuOp2_hint_nop, x86emuOp2_hint_nop, x86emuOp2_nop,
    x86emuOp2_mov_word_RM_CRx, x86emuOp2_mov_word_RM_DRx, x86emuOp2_mov_word_CRx_RM, x86emuOp2_mov_word_DRx_RM,
    x86emuOp2_illegal_op, x86emuOp2_illegal_op, x86emuOp2_illegal_op, x86emuOp2_illegal_op,
    x86emuOp2_SSEmovops, x86emuOp2_SSEmovops, x86emuOp2_illegal_op, x86emuOp2_SSEmovops,
    x86emuOp2_SSEmovops, x86emuOp2_illegal_op, x86emuOp2_illegal_op, x86emuOp2_illegal_op,
    x86emuOp2_wrmsr, x86emuOp2_rdtsc, x86emuOp2_rdmsr, x86emuOp2_rdpmc,
    x86emuOp2_sysenter, x86emuOp2_sysexit, x86emuOp2_illegal_op, x86emuOp2_illegal_op,
    x86emuOp2_illegal_op, x86emuOp2_illegal_op, x86emuOp2_illegal_op, x86emuOp2_illegal_op,
    x86emuOp2_illegal_op, x86emuOp2_illegal_op, x86emuOp2_illegal_op, x86emuOp2_illegal_op,
    x86emuOp2_conditional_move, x86emuOp2_conditional_move, x86emuOp2_conditional_move, x86emuOp2_conditional_move,
    x86emuOp2_conditional_move, x86emuOp2_conditional_move, x86emuOp2_conditional_move, x86emuOp2_conditional_move,
    x86emuOp2_conditional_move, x86emuOp2_conditional_move, x86emuOp2_conditional_move, x86emuOp2_conditional_move,
    x86emuOp2_conditional_move, x86emuOp2_conditional_move, x86emuOp2_conditional_move, x86emuOp2_conditional_move,
    x86emuOp2_illegal_op, x86emuOp2_illegal_op, x86emuOp2_illegal_op, x86emuOp2_illegal_op,
    x86emuOp2_SSElogicalops, x86emuOp2_SSElogicalops, x86emuOp2_SSElogicalops, x86emuOp2_SSElogicalops,
    x86emuOp2_illegal_op, x86emuOp2_illegal_op, x86emuOp2_illegal_op, x86emuOp2_illegal_op,
    x86emuOp2_illegal_op, x86emuOp2_illegal_op, x86emuOp2_illegal_op, x86emuOp2_illegal_op,
    x86emuOp2_illegal_op, x86emuOp2_illegal_op, x86emuOp2_illegal_op, x86emuOp2_illegal_op,
    x86emuOp2_illegal_op, x86emuOp2_illegal_op, x86emuOp2_illegal_op, x86emuOp2_illegal_op,
    x86emuOp2_illegal_op, x86emuOp2_illegal_op, x86emuOp2_illegal_op, x86emuOp2_illegal_op,
    x86emuOp2_illegal_op, x86emuOp2_illegal_op, x86emuOp2_illegal_op, x86emuOp2_illegal_op,
    x86emuOp2_illegal_op, x86emuOp2_illegal_op, x86emuOp2_illegal_op, x86emuOp2_illegal_op,
    x86emuOp2_illegal_op, x86emuOp2_illegal_op, x86emuOp2_illegal_op, x86emuOp2_illegal_op,
    x86emuOp2_illegal_op, x86emuOp2_illegal_op, x86emuOp2_illegal_op, x86emuOp2_illegal_op,
    x86emuOp2_illegal_op, x86emuOp2_illegal_op, x86emuOp2_illegal_op, x86emuOp2_illegal_op,
    x86emuOp2_long_jump, x86emuOp2_long_jump, x86emuOp2_long_jump, x86emuOp2_long_jump,
    x86emuOp2_long_jump, x86emuOp2_long_jump, x86emuOp2_long_jump, x86emuOp2_long_jump,
    x86emuOp2_long_jump, x86emuOp2_long_jump, x86emuOp2_long_jump, x86emuOp2_long_jump,
    x86emuOp2_long_jump, x86emuOp2_long_jump, x86emuOp2_long_jump, x86emuOp2_long_jump,
    x86emuOp2_set_byte, x86emuOp2_set_byte, x86emuOp2_set_byte, x86emuOp2_set_byte,
    x86emuOp2_set_byte, x86emuOp2_set_byte, x86emuOp2_set_byte, x86emuOp2_set_byte,
    x86emuOp2_set_byte, x86emuOp2_set_byte, x86emuOp2_set_byte, x86emuOp2_set_byte,
    x86emuOp2_set_byte, x86emuOp2_set_byte, x86emuOp2_set_byte, x86emuOp2_set_byte,
    x86emuOp2_push_FS, x86emuOp2_pop_FS, x86emuOp2_cpuid, x86emuOp2_bt_R,
    x86emuOp2_shld_IMM, x86emuOp2_shld_CL, x86emuOp2_illegal_op, x86emuOp2_illegal_op,
    x86emuOp2_push_GS, x86emuOp2_pop_GS, x86emuOp2_illegal_op, x86emuOp2_bts_R,
    x86emuOp2_shrd_IMM, x86emuOp2_shrd_CL, x86emuOp2_illegal_op, x86emuOp2_imul_R_RM,
    x86emuOp2_illegal_op, x86emuOp2_illegal_op, x86emuOp2_lss_R_IMM, x86emuOp2_btr_R,
    x86emuOp2_lfs_R_IMM, x86emuOp2_lgs_R_IMM, x86emuOp2_movzx_byte_R_RM, x86emuOp2_movzx_word_R_RM,
    x86emuOp2_illegal_op, x86emuOp2_illegal_op, x86emuOp2_btX_I, x86emuOp2_btc_R,
    x86emuOp2_bsf, x86emuOp2_bsr, x86emuOp2_movsx_byte_R_RM, x86emuOp2_movsx_word_R_RM,
    x86emuOp2_illegal_op, x86emuOp2_illegal_op, x86emuOp2_illegal_op, x86emuOp2_illegal_op,
    x86emuOp2_illegal_op, x86emuOp2_illegal_op, x86emuOp2_illegal_op, x86emuOp2_illegal_op,
    x86emuOp2_bswap, x86emuOp2_bswap, x86emuOp2_bswap, x86emuOp2_bswap,
    x86emuOp2_bswap, x86emuOp2_bswap, x86emuOp2_bswap, x86emuOp2_bswap,
    x86emuOp2_illegal_op, x86emuOp2_illegal_op, x86emuOp2_illegal_op, x86emuOp2_illegal_op,
    x86emuOp2_illegal_op, x86emuOp2_illegal_op, x86emuOp2_illegal_op, x86emuOp2_illegal_op,
    x86emuOp2_illegal_op, x86emuOp2_illegal_op, x86emuOp2_illegal_op, x86emuOp2_illegal_op,
    x86emuOp2_illegal_op, x86emuOp2_illegal_op, x86emuOp2_illegal_op, x86emuOp2_illegal_op,
    x86emuOp2_illegal_op, x86emuOp2_illegal_op, x86emuOp2_illegal_op, x86emuOp2_illegal_op,
    x86emuOp2_illegal_op, x86emuOp2_illegal_op, x86emuOp2_illegal_op, x86emuOp2_illegal_op,
    x86emuOp2_illegal_op, x86emuOp2_illegal_op, x86emuOp2_illegal_op, x86emuOp2_illegal_op,
    x86emuOp2_illegal_op, x86emuOp2_illegal_op, x86emuOp2_illegal_op, x86emuOp2_illegal_op,
    x86emuOp2_illegal_op, x86emuOp2_illegal_op, x86emuOp2_illegal_op, x86emuOp2_illegal_op,
    x86emuOp2_illegal_op, x86emuOp2_illegal_op, x86emuOp2_illegal_op, x86emuOp2_illegal_op,
    x86emuOp2_illegal_op, x86emuOp2_illegal_op, x86emuOp2_illegal_op, x86emuOp2_illegal_op,
    x86emuOp2_illegal_op, x86emuOp2_illegal_op, x86emuOp2_illegal_op, x86emuOp2_illegal_op]"

definition x86emuOp_two_byte :: "host \<Rightarrow> u8 \<Rightarrow> unit emu" where
  "x86emuOp_two_byte h op1 = do {
     op2 \<leftarrow> fetch_byte h;
     (x86emu_optab2 ! unat op2) h op2
   }"

definition x86emu_optab :: "(host \<Rightarrow> u8 \<Rightarrow> unit emu) list" where
  "x86emu_optab = [
    x86emuOp_op_A_byte_RM_R, x86emuOp_op_A_word_RM_R, x86emuOp_op_A_byte_R_RM, x86emuOp_op_A_word_R_RM,
    x86emuOp_op_A_byte_AL_IMM, x86emuOp_op_A_word_AX_IMM, x86emuOp_push_ES, x86emuOp_pop_ES,
    x86emuOp_op_A_byte_RM_R, x86emuOp_op_A_word_RM_R, x86emuOp_op_A_byte_R_RM, x86emuOp_op_A_word_R_RM,
    x86emuOp_op_A_byte_AL_IMM, x86emuOp_op_A_word_AX_IMM, x86emuOp_push_CS, x86emuOp_two_byte,
    x86emuOp_op_A_byte_RM_R, x86emuOp_op_A_word_RM_R, x86emuOp_op_A_byte_R_RM, x86emuOp_op_A_word_R_RM,
    x86emuOp_op_A_byte_AL_IMM, x86emuOp_op_A_word_AX_IMM, x86emuOp_push_SS, x86emuOp_pop_SS,
    x86emuOp_op_A_byte_RM_R, x86emuOp_op_A_word_RM_R, x86emuOp_op_A_byte_R_RM, x86emuOp_op_A_word_R_RM,
    x86emuOp_op_A_byte_AL_IMM, x86emuOp_op_A_word_AX_IMM, x86emuOp_push_DS, x86emuOp_pop_DS,
    x86emuOp_op_A_byte_RM_R, x86emuOp_op_A_word_RM_R, x86emuOp_op_A_byte_R_RM, x86emuOp_op_A_word_R_RM,
    x86emuOp_op_A_byte_AL_IMM, x86emuOp_op_A_word_AX_IMM, x86emuOp_illegal_op, x86emuOp_daa,
    x86emuOp_op_A_byte_RM_R, x86emuOp_op_A_word_RM_R, x86emuOp_op_A_byte_R_RM, x86emuOp_op_A_word_R_RM,
    x86emuOp_op_A_byte_AL_IMM, x86emuOp_op_A_word_AX_IMM, x86emuOp_illegal_op, x86emuOp_das,
    x86emuOp_op_A_byte_RM_R, x86emuOp_op_A_word_RM_R, x86emuOp_op_A_byte_R_RM, x86emuOp_op_A_word_R_RM,
    x86emuOp_op_A_byte_AL_IMM, x86emuOp_op_A_word_AX_IMM, x86emuOp_illegal_op, x86emuOp_aaa,
    x86emuOp_op_A_byte_RM_R, x86emuOp_op_A_word_RM_R, x86emuOp_op_A_byte_R_RM, x86emuOp_op_A_word_R_RM,
    x86emuOp_op_A_byte_AL_IMM, x86emuOp_op_A_word_AX_IMM, x86emuOp_illegal_op, x86emuOp_aas,
    x86emuOp_inc_AX, x86emuOp_inc_CX, x86emuOp_inc_DX, x86emuOp_inc_BX,
    x86emuOp_inc_SP, x86emuOp_inc_BP, x86emuOp_inc_SI, x86emuOp_inc_DI,
    x86emuOp_dec_AX, x86emuOp_dec_CX, x86emuOp_dec_DX, x86emuOp_dec_BX,
    x86emuOp_dec_SP, x86emuOp_dec_BP, x86emuOp_dec_SI, x86emuOp_dec_DI,
    x86emuOp_push_AX, x86emuOp_push_CX, x86emuOp_push_DX, x86emuOp_push_BX,
    x86emuOp_push_SP, x86emuOp_push_BP, x86emuOp_push_SI, x86emuOp_push_DI,
    x86emuOp_pop_AX, x86emuOp_pop_CX, x86emuOp_pop_DX, x86emuOp_pop_BX,
    x86emuOp_pop_SP, x86emuOp_pop_BP, x86emuOp_pop_SI, x86emuOp_pop_DI,
    x86emuOp_push_all, x86emuOp_pop_all, x86emuOp_illegal_op, x86emuOp_illegal_op,
    x86emuOp_illegal_op, x86emuOp_illegal_op, x86emuOp_illegal_op, x86emuOp_illegal_op,
    x86emuOp_push_word_IMM, x86emuOp_imul_word_IMM, x86emuOp_push_byte_IMM, x86emuOp_imul_byte_IMM,
    x86emuOp_ins_byte, x86emuOp_ins_word, x86emuOp_outs_byte, x86emuOp_outs_word,
    x86emuOp_jump_short_cc, x86emuOp_jump_short_cc, x86emuOp_jump_short_cc, x86emuOp_jump_short_cc,
    x86emuOp_jump_short_cc, x86emuOp_jump_short_cc, x86emuOp_jump_short_cc, x86emuOp_jump_short_cc,
    x86emuOp_jump_short_cc, x86emuOp_jump_short_cc, x86emuOp_jump_short_cc, x86emuOp_jump_short_cc,
    x86emuOp_jump_short_cc, x86emuOp_jump_short_cc, x86emuOp_jump_short_cc, x86emuOp_jump_short_cc,
    x86emuOp_opc80_byte_RM_IMM, x86emuOp_opc81_word_RM_IMM, x86emuOp_opc80_byte_RM_IMM, x86emuOp_opc83_word_RM_IMM,
    x86emuOp_test_byte_RM_R, x86emuOp_test_word_RM_R, x86emuOp_xchg_byte_RM_R, x86emuOp_xchg_word_RM_R,
    x86emuOp_mov_byte_RM_R, x86emuOp_mov_word_RM_R, x86emuOp_mov_byte_R_RM, x86emuOp_mov_word_R_RM,
    x86emuOp_mov_word_RM_SR, x86emuOp_lea_word_R_M, x86emuOp_mov_word_SR_RM, x86emuOp_pop_RM,
    x86emuOp_nop, x86emuOp_xchg_word_AX_CX, x86emuOp_xchg_word_AX_DX, x86emuOp_xchg_word_AX_BX,
    x86emuOp_xchg_word_AX_SP, x86emuOp_xchg_word_AX_BP, x86emuOp_xchg_word_AX_SI, x86emuOp_xchg_word_AX_DI,
    x86emuOp_cbw, x86emuOp_cwd, x86emuOp_call_far_IMM, x86emuOp_wait,
    x86emuOp_pushf_word, x86emuOp_popf_word, x86emuOp_sahf, x86emuOp_lahf,
    x86emuOp_mov_AL_M_IMM, x86emuOp_mov_AX_M_IMM, x86emuOp_mov_M_AL_IMM, x86emuOp_mov_M_AX_IMM,
    x86emuOp_movs_byte, x86emuOp_movs_word, x86emuOp_cmps_byte, x86emuOp_cmps_word,
    x86emuOp_test_AL_IMM, x86emuOp_test_AX_IMM, x86emuOp_stos_byte, x86emuOp_stos_word,
    x86emuOp_lods_byte, x86emuOp_lods_word, x86emuOp_scas_byte, x86emuOp_scas_word,
    x86emuOp_mov_byte_AL_IMM, x86emuOp_mov_byte_CL_IMM, x86emuOp_mov_byte_DL_IMM, x86emuOp_mov_byte_BL_IMM,
    x86emuOp_mov_byte_AH_IMM, x86emuOp_mov_byte_CH_IMM, x86emuOp_mov_byte_DH_IMM, x86emuOp_mov_byte_BH_IMM,
    x86emuOp_mov_word_AX_IMM, x86emuOp_mov_word_CX_IMM, x86emuOp_mov_word_DX_IMM, x86emuOp_mov_word_BX_IMM,
    x86emuOp_mov_word_SP_IMM, x86emuOp_mov_word_BP_IMM, x86emuOp_mov_word_SI_IMM, x86emuOp_mov_word_DI_IMM,
    x86emuOp_opcC0_byte_RM_MEM, x86emuOp_opcC1_word_RM_MEM, x86emuOp_ret_near_IMM, x86emuOp_ret_near,
    x86emuOp_les_R_IMM, x86emuOp_lds_R_IMM, x86emuOp_mov_byte_RM_IMM, x86emuOp_mov_word_RM_IMM,
    x86emuOp_enter, x86emuOp_leave, x86emuOp_ret_far_IMM, x86emuOp_ret_far,
    x86emuOp_int3, x86emuOp_int_IMM, x86emuOp_into, x86emuOp_iret,
    x86emuOp_opcD0_byte_RM_1, x86emuOp_opcD1_word_RM_1, x86emuOp_opcD2_byte_RM_CL, x86emuOp_opcD3_word_RM_CL,
    x86emuOp_aam, x86emuOp_aad, x86emuOp_setalc, x86emuOp_xlat,
    x86emuOp_illegal_op, x86emuOp_illegal_op, x86emuOp_illegal_op, x86emuOp_illegal_op,
    x86emuOp_illegal_op, x86emuOp_illegal_op, x86emuOp_illegal_op, x86emuOp_illegal_op,
    x86emuOp_loopne, x86emuOp_loope, x86emuOp_loop, x86emuOp_jcxz,
    x86emuOp_in_byte_AL_IMM, x86emuOp_in_word_AX_IMM, x86emuOp_out_byte_IMM_AL, x86emuOp_out_word_IMM_AX,
    x86emuOp_call_near_IMM, x86emuOp_jump_near_IMM, x86emuOp_jump_far_IMM, x86emuOp_jump_byte_IMM,
    x86emuOp_in_byte_AL_DX, x86emuOp_in_word_AX_DX, x86emuOp_out_byte_DX_AL, x86emuOp_out_word_DX_AX,
    x86emuOp_illegal_op, x86emuOp_illegal_op, x86emuOp_illegal_op, x86emuOp_illegal_op,
    x86emuOp_hlt, x86emuOp_cmc, x86emuOp_opcF6_byte_RM, x86emuOp_opcF7_word_RM,
    x86emuOp_clc, x86emuOp_stc, x86emuOp_cli, x86emuOp_sti,
    x86emuOp_cld, x86emuOp_std, x86emuOp_opcFE_byte_RM, x86emuOp_opcFF_word_RM]"

section \<open>The operations respect a discipline\<close>

lemma length_optab: "length x86emu_optab = 256" "length x86emu_optab2 = 256"
  by (simp_all add: x86emu_optab_def x86emu_optab2_def)

context discipline
begin

lemma list_all_optab2: "list_all (\<lambda>f. \<forall>op. emu_ok (f h op)) x86emu_optab2"
  by (simp add: x86emu_optab2_def handler_oks)

lemma emu_ok_optab2: "emu_ok ((x86emu_optab2 ! unat (op :: u8)) h op')"
  using list_all_optab2[of h] unat_lt_256[of op] by (simp add: list_all_length length_optab)

lemma emu_ok_two_byte [handler_oks]: "emu_ok (x86emuOp_two_byte h op)"
  unfolding x86emuOp_two_byte_def by (intro emu_oks emu_ok_optab2)

lemma list_all_optab: "list_all (\<lambda>f. \<forall>op. emu_ok (f h op)) x86emu_optab"
  by (simp add: x86emu_optab_def handler_oks)

lemma emu_ok_optab [emu_oks]: "emu_ok ((x86emu_optab ! unat (op :: u8)) h op')"
  using list_all_optab[of h] unat_lt_256[of op] by (simp add: list_all_length length_optab)

end

end
