(* ===== verification/Dump.thy ===== *)
theory Dump
  imports Access
begin

text \<open>
  The state dump of \<^verbatim>\<open>api.c\<close>: \<open>x86emu_dump\<close> writes memory, ports, interrupt counters and
  registers to the log with \<open>x86emu_log\<close>, each call with its formatted text. The format
  of the quotient of the two time stamps is the host's.
\<close>

abbreviation (input) X86EMU_DUMP_REGS :: u32 where "X86EMU_DUMP_REGS \<equiv> 0x001"
abbreviation (input) X86EMU_DUMP_MEM :: u32 where "X86EMU_DUMP_MEM \<equiv> 0x002"
abbreviation (input) X86EMU_DUMP_ACC_MEM :: u32 where "X86EMU_DUMP_ACC_MEM \<equiv> 0x004"
abbreviation (input) X86EMU_DUMP_INV_MEM :: u32 where "X86EMU_DUMP_INV_MEM \<equiv> 0x008"
abbreviation (input) X86EMU_DUMP_ATTR :: u32 where "X86EMU_DUMP_ATTR \<equiv> 0x010"
abbreviation (input) X86EMU_DUMP_ASCII :: u32 where "X86EMU_DUMP_ASCII \<equiv> 0x020"
abbreviation (input) X86EMU_DUMP_IO :: u32 where "X86EMU_DUMP_IO \<equiv> 0x040"
abbreviation (input) X86EMU_DUMP_INTS :: u32 where "X86EMU_DUMP_INTS \<equiv> 0x080"
abbreviation (input) X86EMU_DUMP_TIME :: u32 where "X86EMU_DUMP_TIME \<equiv> 0x100"

section \<open>Formats\<close>

text \<open>\<^verbatim>\<open>%04x\<close>, \<^verbatim>\<open>%016llx\<close> and the blanks of \<^verbatim>\<open>%4x\<close>.\<close>

definition fmt_04x :: "u32 \<Rightarrow> string" where
  "fmt_04x v = (let d = decode_hex v in replicate (4 - length d) (CHR ''0'') @ d)"

definition fmt_016x :: "u64 \<Rightarrow> string" where
  "fmt_016x v = decode_hex8 (ucast (drop_bit 32 v)) @ decode_hex8 (ucast v)"

definition fmt_4x :: "u32 \<Rightarrow> string" where
  "fmt_4x v = (let d = decode_hex v in replicate (4 - length d) (CHR '' '') @ d)"

definition strip_blanks :: "string \<Rightarrow> string" where
  "strip_blanks t = rev (dropWhile (\<lambda>c. c = CHR '' '') (rev t))"

section \<open>A line of memory\<close>

text \<open>
  One line shows 16 bytes: their values, on demand as characters, and their permissions
  with the accesses made. It is empty when the selection (\<open>0\<close> all, \<open>1\<close> accessed, \<open>2\<close>
  invalidly accessed) holds for none of the bytes.
\<close>

definition dump_shown :: "u32 \<Rightarrow> u8 \<Rightarrow> bool" where
  "dump_shown flags a \<longleftrightarrow>
     (flags = 0 \<and> a AND X86EMU_PERM_VALID \<noteq> 0) \<or>
     (flags = 1 \<and> a AND (X86EMU_ACC_R OR X86EMU_ACC_W OR X86EMU_ACC_X OR X86EMU_ACC_INVALID) \<noteq> 0) \<or>
     (flags = 2 \<and> a AND X86EMU_ACC_INVALID \<noteq> 0)"

definition dump_perm :: "u8 \<Rightarrow> u8 \<Rightarrow> u8 \<Rightarrow> char \<Rightarrow> char \<Rightarrow> char" where
  "dump_perm a perm acc c c' = (if a AND perm \<noteq> 0 then if a AND acc \<noteq> 0 then c' else c else CHR '' '')"

definition dump_data :: "(nat \<Rightarrow> u8) \<Rightarrow> (nat \<Rightarrow> u8) \<Rightarrow> u32 \<Rightarrow> string \<times> string" where
  "dump_data data attr flags =
     (let flag_ascii = flags AND 0x100 \<noteq> 0; flags = flags AND 0xff; shown = (\<lambda>u. dump_shown flags (attr u));
          str_data = concat (map (\<lambda>u. (if attr u AND X86EMU_ACC_INVALID \<noteq> 0 then CHR ''*'' else CHR '' '') #
            (if shown u then decode_hex2 (ucast (data u)) else ''  '') @ '' '') [0..<16]);
          str_attr = concat (map (\<lambda>u. (if shown u then
              [dump_perm (attr u) X86EMU_PERM_R X86EMU_ACC_R (CHR ''r'') (CHR ''R''),
               dump_perm (attr u) X86EMU_PERM_W X86EMU_ACC_W (CHR ''w'') (CHR ''W''),
               dump_perm (attr u) X86EMU_PERM_X X86EMU_ACC_X (CHR ''x'') (CHR ''X'')] else ''   '') @ '' '') [0..<16]);
          ascii = map (\<lambda>u. if shown u then if data u < 0x20 \<or> data u \<ge> 0x7f then CHR ''.'' else char_of (unat (data u))
            else CHR '' '') [0..<16]
      in if \<exists>u\<in>set [0..<16]. shown u then
           (strip_blanks (if flag_ascii then str_data @ ''  '' @ ascii else str_data), strip_blanks str_attr)
         else ([], []))"

section \<open>The dump\<close>

definition dump_line :: "host \<Rightarrow> u32 \<Rightarrow> u32 \<Rightarrow> nat \<Rightarrow> nat \<Rightarrow> nat \<Rightarrow> unit emu" where
  "dump_line h flags dump_flags i j u2 = do {
     m \<leftarrow> gets mem;
     let (str_data, str_attr) = dump_data (\<lambda>u. get_data m (i, j) (u2 + u))
       (\<lambda>u. if pg_attr (get_page m (i, j)) = None then pg_def_attr (get_page m (i, j)) else get_attr m (i, j) (u2 + u))
       dump_flags;
     if_then (str_data \<noteq> []) (do {
       x86emu_log h (decode_hex8 (of_nat ((i * 1024 + j) * 4096 + u2)) @ '': '' @ str_data @ [CHR 0x0A]);
       if_then (flags AND X86EMU_DUMP_ATTR \<noteq> 0) (x86emu_log h (replicate 10 (CHR '' '') @ str_attr @ [CHR 0x0A]))
     })
   }"

definition dump_memory :: "host \<Rightarrow> u32 \<Rightarrow> unit emu" where
  "dump_memory h flags = do {
     x86emu_log h (''; - - memory'' @ [CHR 0x0A]);
     x86emu_log h '';        '';
     for_each [0..<16] (\<lambda>u1. x86emu_log h (fmt_4x (of_nat u1)));
     x86emu_log h [CHR 0x0A];
     let dump_flags = (if flags AND X86EMU_DUMP_MEM \<noteq> 0 then 0 else if flags AND X86EMU_DUMP_ACC_MEM \<noteq> 0 then 1
       else if flags AND X86EMU_DUMP_INV_MEM \<noteq> 0 then 2 else 0);
     let dump_flags = (if flags AND X86EMU_DUMP_ASCII \<noteq> 0 then dump_flags OR 0x100 else dump_flags);
     for_each [0..<1024] (\<lambda>i. do {
       present \<leftarrow> gets (\<lambda>s. case mem_pdir (mem s) of None \<Rightarrow> False | Some pd \<Rightarrow> pd i \<noteq> None);
       if_then present (for_each [0..<1024] (\<lambda>j. do {
         m \<leftarrow> gets mem;
         if_then (pg_data (get_page m (i, j)) \<noteq> Null) (for_each [0..<256] (\<lambda>k. dump_line h flags dump_flags i j (16 * k)))
       }))
     });
     x86emu_log h [CHR 0x0A]
   }"

definition dump_io :: "host \<Rightarrow> unit emu" where
  "dump_io h = do {
     x86emu_log h (''; - - io accesses'' @ [CHR 0x0A]);
     for_each [0..<X86EMU_IO_PORTS] (\<lambda>u. do {
       s \<leftarrow> gets id;
       if_then (io_map s u AND (X86EMU_ACC_R OR X86EMU_ACC_W OR X86EMU_ACC_INVALID) \<noteq> 0)
         (x86emu_log h (fmt_04x (of_nat u) @ '': '' @
           [if io_map s u AND X86EMU_ACC_INVALID \<noteq> 0 then CHR ''*'' else CHR '' '',
            if io_map s u AND X86EMU_PERM_R \<noteq> 0 then CHR ''r'' else CHR '' '',
            if io_map s u AND X86EMU_PERM_W \<noteq> 0 then CHR ''w'' else CHR '' ''] @
           '' in='' @ decode_hex8 (io_stats_i s u) @ '' out='' @ decode_hex8 (io_stats_o s u) @ [CHR 0x0A]))
     });
     x86emu_log h [CHR 0x0A]
   }"

definition dump_ints :: "host \<Rightarrow> unit emu" where
  "dump_ints h = do {
     x86emu_log h (''; - - interrupt statistics'' @ [CHR 0x0A]);
     for_each [0..<0x100] (\<lambda>u1. do {
       s \<leftarrow> gets id;
       if_then (intr_stats s u1 \<noteq> 0)
         (x86emu_log h (''int '' @ decode_hex2 (of_nat u1) @ '': '' @ decode_hex8 (intr_stats s u1) @ [CHR 0x0A]))
     });
     x86emu_log h [CHR 0x0A]
   }"

text \<open>One of the model specific registers; the result tells whether it was shown.\<close>

definition dump_msr :: "host \<Rightarrow> u32 \<Rightarrow> nat \<Rightarrow> bool emu" where
  "dump_msr h flags u = do {
     s \<leftarrow> gets id;
     if \<not> (u \<ge> 0x11 \<and> u \<le> 0x12 \<and> flags AND X86EMU_DUMP_TIME = 0) \<and> msr_perm s u \<noteq> 0 then do {
       x86emu_log h (''msr['' @ fmt_04x (of_nat u) @ ''] '' @
         [if msr_perm s u AND X86EMU_ACC_R \<noteq> 0 then CHR ''r'' else CHR '' '',
          if msr_perm s u AND X86EMU_ACC_W \<noteq> 0 then CHR ''w'' else CHR '' ''] @ '' '' @ fmt_016x (msr s u));
       (if u = 0x10 then x86emu_log h '' ; tsc''
        else if u = 0x11 then x86emu_log h '' ; real tsc (previous)''
        else if u = 0x12 then do {
          x86emu_log h '' ; real tsc'';
          s \<leftarrow> gets id;
          if_then (R_TSC s \<noteq> 0) (x86emu_log h ('', ratio='' @ host_ratio h (R_REAL_TSC s) (R_TSC s)))
        } else skip);
       x86emu_log h [CHR 0x0A];
       return True
     } else return False
   }"

primrec for_any :: "'a list \<Rightarrow> ('a \<Rightarrow> bool emu) \<Rightarrow> bool emu" where
  "for_any [] f = return False"
| "for_any (x # xs) f = do { b \<leftarrow> f x; c \<leftarrow> for_any xs f; return (b \<or> c) }"

definition seg_line :: "string \<Rightarrow> sel_t \<Rightarrow> string" where
  "seg_line n sg = n @ ''='' @ decode_hex4 (ucast (sel_sel sg)) @ '' '' @ n @ ''.base='' @ decode_hex8 (sel_base sg) @
     '' '' @ n @ ''.limit='' @ decode_hex8 (sel_limit sg) @ '' '' @ n @ ''.acc='' @ decode_hex4 (ucast (sel_acc sg)) @ [CHR 0x0A]"

definition dump_regs :: "host \<Rightarrow> u32 \<Rightarrow> unit emu" where
  "dump_regs h flags = do {
     x86emu_log h (''; - - registers'' @ [CHR 0x0A]);
     u1 \<leftarrow> for_any [0..<0x800] (dump_msr h flags);
     if_then u1 (x86emu_log h [CHR 0x0A]);
     s \<leftarrow> gets id;
     x86emu_log h (''cr0='' @ decode_hex8 (crx s 0) @ '' cr1='' @ decode_hex8 (crx s 1) @ '' cr2='' @ decode_hex8 (crx s 2) @
       '' cr3='' @ decode_hex8 (crx s 3) @ '' cr4='' @ decode_hex8 (crx s 4) @ [CHR 0x0A]);
     s \<leftarrow> gets id;
     x86emu_log h (''dr0='' @ decode_hex8 (drx s 0) @ '' dr1='' @ decode_hex8 (drx s 1) @ '' dr2='' @ decode_hex8 (drx s 2) @
       '' dr3='' @ decode_hex8 (drx s 3) @ '' dr6='' @ decode_hex8 (drx s 6) @ '' dr7='' @ decode_hex8 (drx s 7) @ [CHR 0x0A, CHR 0x0A]);
     s \<leftarrow> gets id;
     x86emu_log h (''gdt.base='' @ decode_hex8 (R_GDT_BASE s) @ '' gdt.limit='' @ fmt_04x (R_GDT_LIMIT s) @ [CHR 0x0A]);
     s \<leftarrow> gets id;
     x86emu_log h (''idt.base='' @ decode_hex8 (R_IDT_BASE s) @ '' idt.limit='' @ fmt_04x (R_IDT_LIMIT s) @ [CHR 0x0A]);
     s \<leftarrow> gets id;
     x86emu_log h (seg_line ''tr'' (tr s));
     s \<leftarrow> gets id;
     x86emu_log h (seg_line ''ldt'' (ldt s) @ [CHR 0x0A]);
     for_each [(''cs'', R_CS_INDEX), (''ss'', R_SS_INDEX), (''ds'', R_DS_INDEX), (''es'', R_ES_INDEX), (''fs'', R_FS_INDEX)]
       (\<lambda>(n, i). do { s \<leftarrow> gets id; x86emu_log h (seg_line n (seg s i)) });
     s \<leftarrow> gets id;
     x86emu_log h (seg_line ''gs'' (seg s R_GS_INDEX) @ [CHR 0x0A]);
     s \<leftarrow> gets id;
     x86emu_log h (''eax='' @ decode_hex8 (R_EAX s) @ '' ebx='' @ decode_hex8 (R_EBX s) @
       '' ecx='' @ decode_hex8 (R_ECX s) @ '' edx='' @ decode_hex8 (R_EDX s) @ [CHR 0x0A]);
     s \<leftarrow> gets id;
     x86emu_log h (''esi='' @ decode_hex8 (R_ESI s) @ '' edi='' @ decode_hex8 (R_EDI s) @
       '' ebp='' @ decode_hex8 (R_EBP s) @ '' esp='' @ decode_hex8 (R_ESP s) @ [CHR 0x0A]);
     s \<leftarrow> gets id;
     x86emu_log h (''eip='' @ decode_hex8 (R_EIP s) @ '' eflags='' @ decode_hex8 (R_FLG s));
     s \<leftarrow> gets id;
     let fbuf = flags_text (R_FLG s);
     if_then (fbuf \<noteq> []) (x86emu_log h ('' ;'' @ fbuf));
     x86emu_log h [CHR 0x0A, CHR 0x0A]
   }"

definition x86emu_dump :: "host \<Rightarrow> u32 \<Rightarrow> unit emu" where
  "x86emu_dump h flags = do {
     m \<leftarrow> gets mem;
     if_then (mem_pdir m \<noteq> None \<and>
         flags AND (X86EMU_DUMP_MEM OR X86EMU_DUMP_ACC_MEM OR X86EMU_DUMP_INV_MEM OR X86EMU_DUMP_ATTR) \<noteq> 0)
       (dump_memory h flags);
     if_then (flags AND X86EMU_DUMP_IO \<noteq> 0) (dump_io h);
     if_then (flags AND X86EMU_DUMP_INTS \<noteq> 0) (dump_ints h);
     if_then (flags AND X86EMU_DUMP_REGS \<noteq> 0) (dump_regs h flags)
   }"

context discipline
begin

lemma emu_ok_for_any [emu_oks]: "(\<And>x. emu_ok (f x)) \<Longrightarrow> emu_ok (for_any xs f)"
  by (induction xs) (auto intro!: emu_oks)

lemma emu_ok_dump [emu_oks]: "emu_ok (x86emu_dump h flags)"
  unfolding x86emu_dump_def dump_memory_def dump_line_def dump_io_def dump_ints_def dump_regs_def dump_msr_def
  by (intro emu_oks)

end

end
