(* ===== verification/Run.thy ===== *)
theory Run
  imports Opcodes Dump
begin

text \<open>
  The execution loop of \<^verbatim>\<open>decode.c\<close>: what happens before, around and after an
  instruction, the loop over the prefixes and the loop over the instructions. Neither
  loop need end, so both are partial functions, with \<open>None\<close> for not returning.
\<close>

abbreviation (input) X86EMU_RUN_TIMEOUT :: u32 where "X86EMU_RUN_TIMEOUT \<equiv> 0x01"
abbreviation (input) X86EMU_RUN_MAX_INSTR :: u32 where "X86EMU_RUN_MAX_INSTR \<equiv> 0x02"
abbreviation (input) X86EMU_RUN_NO_EXEC :: u32 where "X86EMU_RUN_NO_EXEC \<equiv> 0x04"
abbreviation (input) X86EMU_RUN_NO_CODE :: u32 where "X86EMU_RUN_NO_CODE \<equiv> 0x08"
abbreviation (input) X86EMU_RUN_LOOP :: u32 where "X86EMU_RUN_LOOP \<equiv> 0x10"

section \<open>Clocks and unchecked reads\<close>

text \<open>\<^verbatim>\<open>time(NULL)\<close> and \<^verbatim>\<open>tsc()\<close>; they share the count of readings.\<close>

definition read_time :: "host \<Rightarrow> u64 emu" where
  "read_time h = State (\<lambda>s. (host_time h (clock_reads s), s\<lparr>clock_reads := clock_reads s + 1\<rparr>))"

definition tsc :: "host \<Rightarrow> u64 emu" where
  "tsc h = State (\<lambda>s. (host_tsc h (clock_reads s), s\<lparr>clock_reads := clock_reads s + 1\<rparr>))"

definition read_noperm :: "host \<Rightarrow> u32 \<Rightarrow> u32 emu" where
  "read_noperm h addr = State (\<lambda>s. x86emu_read_byte_noperm h s addr)"

definition call_code :: "host \<Rightarrow> bool emu" where
  "call_code h = State (\<lambda>s. case code_check s of None \<Rightarrow> (False, s) | Some n \<Rightarrow> user_code h n s)"

section \<open>Before an instruction\<close>

definition start_mode :: "x86emu \<Rightarrow> u32" where
  "start_mode s =
     (if ACC_D (R_CS_ACC s) then MODE_DATA32_flag OR MODE_ADDR32_flag OR MODE_CODE32_flag else 0) OR
     (if ACC_D (R_SS_ACC s) then MODE_STACK32_flag else 0)"

definition begin_instr :: "unit emu" where
  "begin_instr = do {
     modify (\<lambda>s. s\<lparr>disasm_buf := []\<rparr>);
     modify (\<lambda>s. s\<lparr>instr_len := 0\<rparr>);
     modify (\<lambda>s. s\<lparr>mode := start_mode s\<rparr>);
     modify (\<lambda>s. s\<lparr>default_seg := None, saved_cs := R_CS s, saved_eip := R_EIP s\<rparr>)
   }"

text \<open>The reason to stop before the next instruction, 0 if there is none.\<close>

definition timed_out :: "host \<Rightarrow> u32 \<Rightarrow> u64 \<Rightarrow> bool emu" where
  "timed_out h flags t0 = do {
     s \<leftarrow> gets id;
     if flags AND X86EMU_RUN_TIMEOUT \<noteq> 0 \<and> timeout s \<noteq> 0 \<and> R_TSC s AND 0xffff = 0
     then do {
       t \<leftarrow> read_time h;
       return (sint (t - t0) > uint (timeout s))
     } else return False
   }"

definition stop_check :: "host \<Rightarrow> u32 \<Rightarrow> u64 \<Rightarrow> u32 emu" where
  "stop_check h flags t0 = do {
     s \<leftarrow> gets id;
     if flags AND X86EMU_RUN_MAX_INSTR \<noteq> 0 \<and> max_instr s \<noteq> 0 \<and> R_TSC s \<ge> max_instr s
     then return X86EMU_RUN_MAX_INSTR
     else do {
       late \<leftarrow> timed_out h flags t0;
       if late then return X86EMU_RUN_TIMEOUT
       else do {
         s \<leftarrow> gets id;
         if code_check s = None then return 0
         else do {
           no \<leftarrow> call_code h;
           s \<leftarrow> gets id;
           return (if no \<or> MODE_HALTED s then X86EMU_RUN_NO_CODE else 0)
         }
       }
     }
   }"

definition before_instr :: "host \<Rightarrow> u32 \<Rightarrow> u64 \<Rightarrow> u32 emu" where
  "before_instr h flags t0 = do {
     begin_instr;
     log_regs h;
     stop_check h flags t0
   }"

section \<open>Prefixes\<close>

definition seg_prefix :: "string \<Rightarrow> nat \<Rightarrow> unit emu" where
  "seg_prefix t i = modify (\<lambda>s. s\<lparr>decode_seg := t, default_seg := Some i\<rparr>)"

definition mode_prefix :: "(u32 \<Rightarrow> u32) \<Rightarrow> unit emu" where
  "mode_prefix f = modify (\<lambda>s. s\<lparr>mode := f (mode s)\<rparr>)"

text \<open>What a prefix does; \<open>None\<close> for an opcode.\<close>

definition prefix_op :: "u8 \<Rightarrow> unit emu option" where
  "prefix_op op1 =
     (if op1 = 0x26 then Some (seg_prefix ''es:['' R_ES_INDEX)
      else if op1 = 0x2e then Some (seg_prefix ''cs:['' R_CS_INDEX)
      else if op1 = 0x36 then Some (seg_prefix ''ss:['' R_SS_INDEX)
      else if op1 = 0x3e then Some (seg_prefix ''ds:['' R_DS_INDEX)
      else if op1 = 0x64 then Some (seg_prefix ''fs:['' R_FS_INDEX)
      else if op1 = 0x65 then Some (seg_prefix ''gs:['' R_GS_INDEX)
      else if op1 = 0x66 then Some (mode_prefix (\<lambda>m. m XOR MODE_DATA32_flag))
      else if op1 = 0x67 then Some (mode_prefix (\<lambda>m. m XOR MODE_ADDR32_flag))
      else if op1 = 0xf0 then Some (OP_DECODE ''lock: '')
      else if op1 = 0xf2 then Some (do { OP_DECODE ''repne ''; mode_prefix (\<lambda>m. m OR MODE_REPNE_flag) })
      else if op1 = 0xf3 then Some (do { OP_DECODE ''repe ''; mode_prefix (\<lambda>m. m OR MODE_REPE_flag) })
      else None)"

partial_function (option) prefixes :: "host \<Rightarrow> x86emu \<Rightarrow> (u8 \<times> x86emu) option" where
  "prefixes h s =
     (case run_state (fetch_byte h) s of
        (op1, s) \<Rightarrow> (case prefix_op op1 of
          None \<Rightarrow> Some (op1, s)
        | Some f \<Rightarrow> prefixes h (snd (run_state f s))))"

section \<open>The instruction\<close>

text \<open>How far a jump leads from the byte after its opcode; 0 if it is no jump.\<close>

definition loop_offset :: "host \<Rightarrow> u8 \<Rightarrow> u32 \<Rightarrow> u32 emu" where
  "loop_offset h op1 u =
     (if op1 = 0xeb then do {
        b \<leftarrow> read_noperm h u;
        return (scast (ucast b :: u8) + 1)
      } else if op1 = 0xe9 then do {
        s \<leftarrow> gets id;
        if MODE_DATA32 s then do {
          b0 \<leftarrow> read_noperm h u;
          b1 \<leftarrow> read_noperm h (u + 1);
          b2 \<leftarrow> read_noperm h (u + 2);
          b3 \<leftarrow> read_noperm h (u + 3);
          return (b0 + push_bit 8 b1 + push_bit 16 b2 + push_bit 24 b3 + 4)
        } else do {
          b0 \<leftarrow> read_noperm h u;
          b1 \<leftarrow> read_noperm h (u + 1);
          return (scast (ucast (b0 + push_bit 8 b1) :: u16) + 2)
        }
      } else return 0)"

definition loop_check :: "host \<Rightarrow> u8 \<Rightarrow> u32 \<Rightarrow> u32 emu" where
  "loop_check h op1 rs = do {
     s \<leftarrow> gets id;
     ofs32 \<leftarrow> loop_offset h op1 (sel_base (seg s R_CS_INDEX) + R_EIP s);
     if ofs32 \<noteq> 0 then do {
       s \<leftarrow> gets id;
       rs \<leftarrow>
         (if R_EIP s + ofs32 = saved_eip s then return (rs OR X86EMU_RUN_LOOP)
          else if R_EIP s + 1 + ofs32 = saved_eip s \<and> saved_eip s \<ge> 1 then do {
            u_m1 \<leftarrow> read_noperm h (sel_base (seg s R_CS_INDEX) + saved_eip s - 1);
            let u_m1 = (ucast u_m1 :: u8);
            return (if u_m1 \<ge> 0xf8 \<and> u_m1 \<le> 0xfd then rs OR X86EMU_RUN_LOOP else rs)
          } else return rs);
       if_then (rs \<noteq> 0) x86emu_stop;
       return rs
     } else return rs
   }"

definition no_code_check :: "host \<Rightarrow> u8 \<Rightarrow> u32 \<Rightarrow> u32 emu" where
  "no_code_check h op1 rs = do {
     s \<leftarrow> gets id;
     rs \<leftarrow>
       (if mode s = 0 \<and> op1 = 0 then do {
          b \<leftarrow> read_noperm h (sel_base (seg s R_CS_INDEX) + R_EIP s);
          return (if b = 0 then rs OR X86EMU_RUN_NO_CODE else rs)
        } else return rs);
     if_then (rs \<noteq> 0) x86emu_stop;
     return rs
   }"

text \<open>
  The special short jump hides a request in the code it skips: a message to log,
  changes to the trace flags, a dump, or a reset of the statistics.
\<close>

definition read_dword_noperm :: "host \<Rightarrow> u32 \<Rightarrow> u32 emu" where
  "read_dword_noperm h start = do {
     b0 \<leftarrow> read_noperm h start;
     b1 \<leftarrow> read_noperm h (start + 1);
     b2 \<leftarrow> read_noperm h (start + 2);
     b3 \<leftarrow> read_noperm h (start + 3);
     return (b0 + push_bit 8 b1 + push_bit 16 b2 + push_bit 24 b3)
   }"

definition debug_message :: "host \<Rightarrow> u32 \<Rightarrow> nat \<Rightarrow> unit emu" where
  "debug_message h start len = do {
     LOG_STR [CHR 0x0A];
     for_each [0..<len] (\<lambda>i. do {
       b \<leftarrow> read_noperm h (start + of_nat i);
       LOG_STR [char_of (unat (ucast b :: u8))]
     });
     LOG_STR [CHR 0x0A]
   }"

definition debug_request :: "host \<Rightarrow> u32 \<Rightarrow> u32 \<Rightarrow> unit emu" where
  "debug_request h start len = do {
     type \<leftarrow> read_noperm h start;
     let start = start + 1;
     let len = len - 1;
     if type = 1 then debug_message h start (unat len)
     else if type = 2 then do {
       u \<leftarrow> read_dword_noperm h start;
       modify (\<lambda>s. s\<lparr>log_trace := log_trace s OR u\<rparr>)
     } else if type = 3 then do {
       u \<leftarrow> read_dword_noperm h start;
       modify (\<lambda>s. s\<lparr>log_trace := log_trace s AND NOT u\<rparr>)
     } else if type = 4 then do {
       u \<leftarrow> read_dword_noperm h start;
       x86emu_dump h u
     } else if type = 5 then modify (\<lambda>s. s\<lparr>mem := x86emu_reset_access_stats (mem s)\<rparr>)
     else skip
   }"

definition emu_process_debug :: "host \<Rightarrow> u32 \<Rightarrow> u32 \<Rightarrow> unit emu" where
  "emu_process_debug h start len = do {
     s \<leftarrow> gets id;
     if_then (log_on s) (do {
       lf \<leftarrow> log_room h 1024;
       if_then (\<not> lf < 1024) (debug_request h start len)
     })
   }"

definition update_tsc :: "host \<Rightarrow> u64 \<Rightarrow> unit emu" where
  "update_tsc h tsc_ofs = do {
     modify (\<lambda>s. s\<lparr>msr := (msr s)(0x11 := R_REAL_TSC s)\<rparr>);
     t \<leftarrow> tsc h;
     modify (\<lambda>s. s\<lparr>msr := (msr s)(0x12 := t - tsc_ofs)\<rparr>)
   }"

definition count_instr :: "unit emu" where
  "count_instr = modify (\<lambda>s. s\<lparr>msr := (msr s)(0x10 := R_TSC s + 1)\<rparr>)"

text \<open>From the opcode to the end of the instruction.\<close>

definition check_code :: "host \<Rightarrow> u32 \<Rightarrow> u8 \<Rightarrow> u32 \<Rightarrow> u32 emu" where
  "check_code h flags op1 rs = do {
     rs \<leftarrow> (if flags AND X86EMU_RUN_LOOP \<noteq> 0 then loop_check h op1 rs else return rs);
     if flags AND X86EMU_RUN_NO_CODE \<noteq> 0 then no_code_check h op1 rs else return rs
   }"

definition finish_instr :: "host \<Rightarrow> u64 \<Rightarrow> unit emu" where
  "finish_instr h tsc_ofs = do {
     handle_interrupt h;
     update_tsc h tsc_ofs;
     log_code h;
     s \<leftarrow> gets id;
     if_then (debug_len s \<noteq> 0) (do {
       emu_process_debug h (debug_start s) (debug_len s);
       modify (\<lambda>s. s\<lparr>debug_start := 0\<rparr>);
       modify (\<lambda>s. s\<lparr>debug_len := 0\<rparr>)
     })
   }"

definition execute_instr :: "host \<Rightarrow> u32 \<Rightarrow> u64 \<Rightarrow> u8 \<Rightarrow> u32 \<Rightarrow> u32 emu" where
  "execute_instr h flags tsc_ofs op1 rs = do {
     rs \<leftarrow> check_code h flags op1 rs;
     (x86emu_optab ! unat op1) h op1;
     finish_instr h tsc_ofs;
     count_instr;
     return rs
   }"

text \<open>
  One round of the loop: whether it is the last one, the reasons to stop so far and the
  state.
\<close>

definition run_instr :: "host \<Rightarrow> u32 \<Rightarrow> u64 \<Rightarrow> u64 \<Rightarrow> u32 \<Rightarrow> x86emu \<Rightarrow> (bool \<times> u32 \<times> x86emu) option" where
  "run_instr h flags t0 tsc_ofs rs s =
     (case run_state (before_instr h flags t0) s of (stop, s) \<Rightarrow>
       if stop \<noteq> 0 then Some (True, rs OR stop, s)
       else
         (case prefixes h (s\<lparr>decode_seg := CHR ''['' # drop 1 (decode_seg s)\<rparr>) of
            None \<Rightarrow> None
          | Some (op1, s) \<Rightarrow>
              if MODE_HALTED s then Some (True, rs OR X86EMU_RUN_NO_EXEC, s\<lparr>R_EIP := saved_eip s\<rparr>)
              else (case run_state (execute_instr h flags tsc_ofs op1 rs) s of (rs, s) \<Rightarrow>
                Some (MODE_HALTED s, rs, s))))"

partial_function (option) run_loop :: "host \<Rightarrow> u32 \<Rightarrow> u64 \<Rightarrow> u64 \<Rightarrow> u32 \<Rightarrow> x86emu \<Rightarrow> (u32 \<times> x86emu) option" where
  "run_loop h flags t0 tsc_ofs rs s =
     (case run_instr h flags t0 tsc_ofs rs s of
        None \<Rightarrow> None
      | Some (stop, rs, s) \<Rightarrow> if stop then Some (rs, s) else run_loop h flags t0 tsc_ofs rs s)"

section \<open>The loop as a relation\<close>

text \<open>The states between instructions, each with the reasons to stop so far.\<close>

inductive rounds :: "host \<Rightarrow> u32 \<Rightarrow> u64 \<Rightarrow> u64 \<Rightarrow> u32 \<times> x86emu \<Rightarrow> u32 \<times> x86emu \<Rightarrow> bool"
  for h flags t0 tsc_ofs c where
  rounds_none: "rounds h flags t0 tsc_ofs c c"
| rounds_more: "rounds h flags t0 tsc_ofs c (rs, s) \<Longrightarrow> run_instr h flags t0 tsc_ofs rs s = Some (False, rs', s') \<Longrightarrow>
    rounds h flags t0 tsc_ofs c (rs', s')"

inductive_cases rounds_cases: "rounds h flags t0 tsc_ofs c (rs, s)"

lemmas rounds_induct = rounds.induct[split_format (complete)]

lemma rounds_trans:
  "rounds h flags t0 ofs d (rs, s) \<Longrightarrow> rounds h flags t0 ofs c d \<Longrightarrow> rounds h flags t0 ofs c (rs, s)"
  by (induction "(rs, s)" arbitrary: rs s rule: rounds.induct) (auto intro: rounds_more)

lemma rounds_loop:
  "rounds h flags t0 ofs (rs, s) (rs', s') \<Longrightarrow> run_loop h flags t0 ofs rs s = run_loop h flags t0 ofs rs' s'"
  by (induction rs' s' rule: rounds_induct) (auto simp: run_loop.simps)

lemma run_loop_rounds:
  assumes "run_loop h flags t0 ofs rs s = Some (rs', s')"
  shows "\<exists>rs1 s1. rounds h flags t0 ofs (rs, s) (rs1, s1) \<and> run_instr h flags t0 ofs rs1 s1 = Some (True, rs', s')"
proof -
  let ?P = "\<lambda>h flags t0 ofs rs s r. \<exists>rs1 s1. rounds h flags t0 ofs (rs, s) (rs1, s1) \<and> run_instr h flags t0 ofs rs1 s1 = Some (True, fst r, snd r)"
  have "?P h flags t0 ofs rs s (rs', s')"
  proof (rule run_loop.raw_induct[OF _ assms, where P = ?P])
    fix loop :: "host \<Rightarrow> u32 \<Rightarrow> u64 \<Rightarrow> u64 \<Rightarrow> u32 \<Rightarrow> x86emu \<Rightarrow> (u32 \<times> x86emu) option"
    fix h flags t0 ofs rs s r
    assume IH: "\<And>h flags t0 ofs rs s r. loop h flags t0 ofs rs s = Some r \<Longrightarrow> ?P h flags t0 ofs rs s r"
      and body: "(case run_instr h flags t0 ofs rs s of None \<Rightarrow> None
        | Some (stop, rs, s) \<Rightarrow> if stop then Some (rs, s) else loop h flags t0 ofs rs s) = Some r"
    obtain stop rs2 s2 where i: "run_instr h flags t0 ofs rs s = Some (stop, rs2, s2)"
      using body by (auto split: option.splits)
    show "?P h flags t0 ofs rs s r"
    proof (cases stop)
      case True
      then show ?thesis using body i rounds_none[of h flags t0 ofs "(rs, s)"] by auto
    next
      case False
      then obtain rs1 s1 where r: "rounds h flags t0 ofs (rs2, s2) (rs1, s1)" "run_instr h flags t0 ofs rs1 s1 = Some (True, fst r, snd r)"
        using body i IH[of h flags t0 ofs rs2 s2 r] by auto
      have "rounds h flags t0 ofs (rs, s) (rs2, s2)"
        using rounds_more[OF rounds_none] i False by metis
      then show ?thesis using r rounds_trans by blast
    qed
  qed
  then show ?thesis by simp
qed

section \<open>The run\<close>

definition start_run :: "host \<Rightarrow> (u64 \<times> u64) emu" where
  "start_run h = do {
     t0 \<leftarrow> read_time h;
     t \<leftarrow> tsc h;
     s \<leftarrow> gets id;
     modify (\<lambda>s. s\<lparr>iopl_ok := (if iopl_needed s \<and> host_iopl h \<noteq> 3 then False else True)\<rparr>);
     return (t0, t - R_REAL_TSC s)
   }"

definition stop_text :: "u32 \<Rightarrow> unit emu" where
  "stop_text rs = do {
     if_then (rs AND X86EMU_RUN_TIMEOUT \<noteq> 0) (LOG_STR (''* timeout'' @ [CHR 0x0A]));
     if_then (rs AND X86EMU_RUN_MAX_INSTR \<noteq> 0) (LOG_STR (''* too many instructions'' @ [CHR 0x0A]));
     if_then (rs AND X86EMU_RUN_NO_EXEC \<noteq> 0) (LOG_STR (''* memory not executable'' @ [CHR 0x0A]));
     if_then (rs AND X86EMU_RUN_NO_CODE \<noteq> 0) (LOG_STR (''* no proper code'' @ [CHR 0x0A]));
     if_then (rs AND X86EMU_RUN_LOOP \<noteq> 0) (LOG_STR (''* infinite loop'' @ [CHR 0x0A]))
   }"

definition end_run :: "host \<Rightarrow> u64 \<Rightarrow> u32 \<Rightarrow> unit emu" where
  "end_run h tsc_ofs rs = do {
     s \<leftarrow> gets id;
     if_then (log_on s) (stop_text rs);
     t \<leftarrow> tsc h;
     modify (\<lambda>s. s\<lparr>msr := (msr s)(0x12 := t - tsc_ofs)\<rparr>)
   }"

definition x86emu_run :: "host \<Rightarrow> u32 \<Rightarrow> x86emu \<Rightarrow> (u32 \<times> x86emu) option" where
  "x86emu_run h flags s =
     (case run_state (start_run h) s of ((t0, tsc_ofs), s) \<Rightarrow>
       (case run_loop h flags t0 tsc_ofs 0 s of
          None \<Rightarrow> None
        | Some (rs, s) \<Rightarrow> Some (rs, snd (run_state (end_run h tsc_ofs rs) s))))"

section \<open>The loop and the relation\<close>

text \<open>
  The loop returns exactly what the last of a sequence of instructions leaves behind:
  it ends in a state if and only if that state is the result of a round that asks to
  stop, in a state reached by rounds that do not.
\<close>

lemma run_loop_iff_rounds:
  "run_loop h flags t0 ofs rs s = Some (rs', s') \<longleftrightarrow>
    (\<exists>rs1 s1. rounds h flags t0 ofs (rs, s) (rs1, s1) \<and> run_instr h flags t0 ofs rs1 s1 = Some (True, rs', s'))"
proof
  show "run_loop h flags t0 ofs rs s = Some (rs', s') \<Longrightarrow>
    \<exists>rs1 s1. rounds h flags t0 ofs (rs, s) (rs1, s1) \<and> run_instr h flags t0 ofs rs1 s1 = Some (True, rs', s')"
    by (rule run_loop_rounds)
next
  assume "\<exists>rs1 s1. rounds h flags t0 ofs (rs, s) (rs1, s1) \<and> run_instr h flags t0 ofs rs1 s1 = Some (True, rs', s')"
  then obtain rs1 s1 where "run_loop h flags t0 ofs rs s = run_loop h flags t0 ofs rs1 s1"
    "run_instr h flags t0 ofs rs1 s1 = Some (True, rs', s')" using rounds_loop by blast
  then show "run_loop h flags t0 ofs rs s = Some (rs', s')" by (simp add: run_loop.simps[of h flags t0 ofs rs1])
qed

end
