(* ===== verification/Confinement.thy ===== *)
theory Confinement
  imports Emu
begin

text \<open>
  The relation \<open>confined\<close> between a state and a later one: without handlers of the client,
  emulated code reaches the host's ports and changes memory only where the permissions
  let it. The library's memory handler respects it.
\<close>

section \<open>Confinement\<close>

text \<open>
  The port accesses from \<open>s\<close> to \<open>s'\<close> were allowed in \<open>s\<close>, inputs by the read permission,
  outputs by the write permission, and the permissions are what they were.
\<close>

definition io_confined :: "x86emu \<Rightarrow> x86emu \<Rightarrow> bool" where
  "io_confined s s' \<longleftrightarrow> iopl_ok s' = iopl_ok s \<and> (\<forall>p. io_map s' p AND 3 = io_map s p AND 3) \<and>
     (\<exists>es. io_trace s' = es @ io_trace s \<and> (\<forall>e\<in>set es. io_allowed s (event_perm e) e))"

text \<open>
  The memory keeps its shape, its addresses keep their permissions, and a cell changes
  only if some address of it is writable.
\<close>

definition flat_confined :: "flat_mem \<Rightarrow> flat_mem \<Rightarrow> bool" where
  "flat_confined s s' \<longleftrightarrow> f_cell s' = f_cell s \<and> (\<forall>a. f_attr s' a AND 7 = f_attr s a AND 7) \<and>
     (\<forall>c. (\<forall>a. f_cell s a = c \<longrightarrow> f_attr s a AND X86EMU_PERM_W = 0) \<longrightarrow> f_store s' c = f_store s c)"

definition mem_confined :: "x86emu_mem \<Rightarrow> x86emu_mem \<Rightarrow> bool" where
  "mem_confined m m' \<longleftrightarrow> (mem_ok m \<longrightarrow> mem_ok m' \<and> flat_confined (abs_mem m) (abs_mem m'))"

definition within :: "x86emu \<Rightarrow> x86emu \<Rightarrow> bool" where
  "within s s' \<longleftrightarrow> io_confined s s' \<and> mem_confined (mem s) (mem s')"

definition confined :: "x86emu \<Rightarrow> x86emu \<Rightarrow> bool" where
  "confined s s' \<longleftrightarrow> (sandboxed s \<longrightarrow> sandboxed s' \<and> within s s')"

lemma io_allowed_cong:
  assumes "iopl_ok s' = iopl_ok s" "\<forall>p. io_map s' p AND 3 = io_map s p AND 3"
  shows "io_allowed s' (event_perm e) e = io_allowed s (event_perm e) e"
proof -
  have p: "event_perm e = 1 \<or> event_perm e = 2" by (cases e) simp_all
  have "io_map s' p AND 1 = io_map s p AND 1" "io_map s' p AND 2 = io_map s p AND 2" for p
    by (rule and_3_sub, rule spec[OF assms(2)])+
  then have "io_map s' p AND event_perm e = io_map s p AND event_perm e" for p using p by metis
  then show ?thesis by (simp add: io_allowed_def assms(1))
qed

lemma io_confined_refl [simp]: "io_confined s s"
  by (auto simp: io_confined_def)

lemma io_confined_trans:
  assumes "io_confined s s'" "io_confined s' s''"
  shows "io_confined s s''"
proof -
  obtain es es' where "io_trace s' = es @ io_trace s" "\<forall>e\<in>set es. io_allowed s (event_perm e) e"
    "io_trace s'' = es' @ io_trace s'" "\<forall>e\<in>set es'. io_allowed s' (event_perm e) e"
    using assms by (auto simp: io_confined_def)
  moreover have "io_allowed s' (event_perm e) e = io_allowed s (event_perm e) e" for e
    by (rule io_allowed_cong) (use assms(1) in \<open>auto simp: io_confined_def\<close>)
  ultimately have "io_trace s'' = (es' @ es) @ io_trace s \<and> (\<forall>e\<in>set (es' @ es). io_allowed s (event_perm e) e)" by auto
  then show ?thesis using assms unfolding io_confined_def by metis
qed

lemma flat_confined_refl [simp]: "flat_confined s s"
  by (simp add: flat_confined_def)

lemma flat_confined_trans:
  assumes "flat_confined s s'" "flat_confined s' s''"
  shows "flat_confined s s''"
proof -
  have 2: "x AND 2 = y AND 2" if "x AND 7 = y AND 7" for x y :: u8
  proof -
    have "x AND 2 = (x AND 7) AND 2" by (simp add: and.assoc)
    also have "\<dots> = (y AND 7) AND 2" by (simp only: that)
    also have "\<dots> = y AND 2" by (simp add: and.assoc)
    finally show ?thesis .
  qed
  note d = assms[unfolded flat_confined_def]
  have attr: "f_attr s' a AND 7 = f_attr s a AND 7" "f_attr s'' a AND 7 = f_attr s' a AND 7" for a
    using d by blast+
  have w: "f_attr s' a AND 2 = f_attr s a AND 2" for a by (rule 2[OF attr(1)])
  have cell: "f_cell s' = f_cell s" "f_cell s'' = f_cell s'" using d by blast+
  have store: "f_store s'' c = f_store s c" if c: "\<forall>a. f_cell s a = c \<longrightarrow> f_attr s a AND 2 = 0" for c
  proof -
    have "f_store s' c = f_store s c" using d(1) c by blast
    moreover have "\<forall>a. f_cell s' a = c \<longrightarrow> f_attr s' a AND 2 = 0" unfolding cell w by (rule c)
    then have "f_store s'' c = f_store s' c" using d(2) by blast
    ultimately show ?thesis by simp
  qed
  show ?thesis unfolding flat_confined_def
    by (intro conjI allI impI) (simp_all only: cell attr store)
qed

lemma mem_confined_refl [simp]: "mem_confined m m"
  by (simp add: mem_confined_def)

lemma mem_confined_trans: "mem_confined m m' \<Longrightarrow> mem_confined m' m'' \<Longrightarrow> mem_confined m m''"
  unfolding mem_confined_def using flat_confined_trans by blast

lemma within_trans: "within s s' \<Longrightarrow> within s' s'' \<Longrightarrow> within s s''"
  unfolding within_def using io_confined_trans mem_confined_trans by blast

lemma within_same:
  "iopl_ok s' = iopl_ok s \<Longrightarrow> io_map s' = io_map s \<Longrightarrow> io_trace s' = io_trace s \<Longrightarrow> mem s' = mem s \<Longrightarrow> within s s'"
  by (simp add: within_def io_confined_def)

lemma preserves_confined: "preserves within m \<Longrightarrow> confined s (snd (run_state m s))"
  using preservesD by (auto simp: confined_def)

section \<open>The library's handler is confined\<close>

lemma attr_or_7: "(x OR 0x10) AND 7 = x AND 7" "(x OR 0x40) AND 7 = x AND 7" "(x OR 0x80) AND 7 = x AND 7"
  "(x OR 0x28) AND 7 = x AND 7" for x :: u8
  by (simp_all add: bit.conj_disj_distrib2)

lemma flat_load_confined: "acc = 0x10 \<or> acc = 0x40 \<Longrightarrow> flat_confined s (snd (flat_load perm acc s a))"
  by (auto simp: flat_confined_def flat_load_def attr_or_7)

lemma flat_w_byte_confined: "flat_confined s (flat_w_byte s a v)"
  by (auto simp: flat_confined_def flat_w_byte_def attr_or_7)

lemma flat_loads_confined:
  "(\<And>s a. flat_confined s (snd (ld s a))) \<Longrightarrow> flat_confined s (snd (flat_loads ld n s a))"
proof (induction n arbitrary: s a)
  case (Suc n)
  show ?case
    using flat_confined_trans[OF Suc.prems[of s a] Suc.IH[OF Suc.prems, of "snd (ld s a)" "a + 1"]]
    by (simp add: Let_def case_prod_beta)
qed simp

lemma flat_stores_confined: "flat_confined s (flat_stores n s a v)"
proof (induction n arbitrary: s a v)
  case (Suc n)
  show ?case using flat_confined_trans[OF flat_w_byte_confined[of s a v] Suc.IH] by simp
qed simp

lemma refines_confined:
  "(mem_ok m \<Longrightarrow> refines r q) \<Longrightarrow> flat_confined (abs_mem m) (snd q) \<Longrightarrow> mem_confined m (snd r)"
  unfolding refines_def mem_confined_def by (metis snd_conv)

lemma flat_confined_loads:
  "flat_confined s (snd (flat_load 1 0x10 s a))" "flat_confined s (snd (flat_load 4 0x40 s a))"
  "flat_confined s (snd (flat_loads (flat_load 1 0x10) n s a))" "flat_confined s (snd (flat_loads (flat_load 4 0x40) n s a))"
  by (simp_all add: flat_load_confined flat_loads_confined)

lemma mem_confined_reads:
  "mem_confined m (snd (vm_r_byte m a))" "mem_confined m (snd (vm_r_word m a))" "mem_confined m (snd (vm_r_dword m a))"
  "mem_confined m (snd (vm_x_byte m a))" "mem_confined m (snd (vm_x_word m a))" "mem_confined m (snd (vm_x_dword m a))"
  by (rule refines_confined[OF vm_load_byte(1)] refines_confined[OF vm_r_word_refines]
      refines_confined[OF vm_r_dword_refines] refines_confined[OF vm_load_byte(2)]
      refines_confined[OF vm_x_word_refines] refines_confined[OF vm_x_dword_refines]; simp add: flat_confined_loads)+

lemma mem_confined_noperm: "mem_confined m (snd (vm_r_byte_noperm m a))"
  using vm_byte_noperm(1)[of m a] by (auto simp: refines_def mem_confined_def)

lemma mem_confined_writes:
  "mem_confined m (vm_w_byte m a v)" "mem_confined m (vm_w_word m a v)" "mem_confined m (vm_w_dword m a v)"
  using vm_store_byte[of m a v] vm_w_word_refines[of m a v] vm_w_dword_refines[of m a v]
  by (simp_all add: mem_confined_def flat_w_byte_confined flat_stores_confined)

lemma mem_confined_invalid: "mem_confined m (m\<lparr>mem_invalid := i\<rparr>)"
  by (simp add: mem_confined_def flat_confined_def)

lemma mem_confined_reset_stats: "mem_confined m (x86emu_reset_access_stats m)"
  by (auto simp: mem_confined_def flat_confined_def reset_access_stats_abs and.assoc)

lemma within_mem: "mem_confined (mem s) m \<Longrightarrow> within s (s\<lparr>mem := m\<rparr>)"
  by (simp add: within_def io_confined_def)

lemma within_on_mem: "(\<And>m. mem_confined m (snd (f m))) \<Longrightarrow> within s (snd (on_mem f s))"
  by (simp add: on_mem_def case_prod_beta within_mem Let_def)

text \<open>Of the memory the port routines change the invalid flag only.\<close>

lemma mem_confined_i_byte: "mem_confined (mem s) (mem (snd (vm_i_byte h s a)))"
  and mem_confined_o_byte: "mem_confined (mem s) (mem (vm_o_byte s a v))"
  by (simp_all add: vm_i_byte_def vm_o_byte_def Let_def port_step_defs mem_confined_invalid)

lemmas mem_confined_i2 = mem_confined_trans[OF mem_confined_i_byte mem_confined_i_byte]
lemmas mem_confined_o2 = mem_confined_trans[OF mem_confined_o_byte mem_confined_o_byte]

lemma mem_confined_words: "mem_confined (mem s) (mem (snd (vm_i_word h s a)))" "mem_confined (mem s) (mem (vm_o_word s a v))"
  by (auto simp: vm_i_word_def vm_o_word_def Let_def case_prod_beta mem_confined_i2 mem_confined_o2) (simp_all add: port_step_defs)

lemma mem_confined_dwords: "mem_confined (mem s) (mem (snd (vm_i_dword h s a)))" "mem_confined (mem s) (mem (vm_o_dword s a v))"
  by (auto simp: vm_i_dword_def vm_o_dword_def Let_def case_prod_beta
      intro: mem_confined_trans[OF mem_confined_i2 mem_confined_i2] mem_confined_trans[OF mem_confined_o2 mem_confined_o2])
     (simp_all add: port_step_defs)

lemma io_safe_event_perm: "io_allowed s perm e \<Longrightarrow> io_allowed s (event_perm e) e"
  by (simp add: io_allowed_def)

lemma io_safe_within: "io_safe perm s s' \<Longrightarrow> mem_confined (mem s) (mem s') \<Longrightarrow> within s s'"
  unfolding io_safe_def within_def io_confined_def using io_safe_event_perm by metis

lemmas within_ports =
  io_safe_within[OF vm_i_byte_safe mem_confined_i_byte] io_safe_within[OF vm_o_byte_safe mem_confined_o_byte]
  io_safe_within[OF vm_i_word_safe mem_confined_words(1)] io_safe_within[OF vm_o_word_safe mem_confined_words(2)]
  io_safe_within[OF vm_i_dword_safe mem_confined_dwords(1)] io_safe_within[OF vm_o_dword_safe mem_confined_dwords(2)]

lemma within_vm_memio:
  assumes "type \<noteq> 0x103"
  shows "within s (snd (snd (vm_memio h s addr val type)))"
proof -
  let ?s = "s\<lparr>mem := (mem s)\<lparr>mem_invalid := False\<rparr>\<rparr>"
  have 1: "within s ?s" by (simp add: within_mem mem_confined_invalid)
  have "type = (type AND NOT 0xff) OR (type AND 0xff)" by (rule bit_word_eqI) (auto simp: bit_simps)
  then have np: "type AND NOT 0xff = 0x100 \<Longrightarrow> type AND 0xff \<noteq> 3" using assms by auto
  have "within ?s (snd (snd (vm_memio h s addr val type)))"
    unfolding vm_memio_def Let_def case_prod_beta
    by (auto simp: np within_ports within_on_mem mem_confined_reads mem_confined_noperm)
       (use mem_confined_writes[of "(mem s)\<lparr>mem_invalid := False\<rparr>"] within_mem[of ?s] in auto)
  with 1 show ?thesis by (rule within_trans)
qed

end
