(* ===== verification/Safety.thy ===== *)
theory Safety
  imports Run Confinement
begin

text \<open>
  What every instruction and every run keeps. The steps of the loop around the
  instructions extend the locale \<open>discipline\<close> to \<open>run_discipline\<close>; its interpretations are
  the confinement of memory and ports, the bound of the instruction buffer, the limits
  of the run, and, for instructions only, the rule that the first interrupt raised wins
  and that the instruction counter is the loop's own.
\<close>

section \<open>Runs respect a discipline\<close>

context discipline
begin

lemma emu_ok_clocks [emu_oks]: "emu_ok (read_time h)" "emu_ok (tsc h)"
  unfolding read_time_def tsc_def by (rule emu_ok_kept, simp add: kept_def control_def handlers_def)+

lemma emu_ok_read_noperm [emu_oks]: "emu_ok (read_noperm h a)"
  unfolding read_noperm_def
  by (rule emu_ok_step)
     (use R_memio[of 3] handlers_vm_memio in \<open>simp add: x86emu_read_byte_noperm_def call_memio_def sandboxed_def\<close>)

lemma emu_ok_read_dword_noperm [emu_oks]: "emu_ok (read_dword_noperm h a)"
  unfolding read_dword_noperm_def by (intro emu_oks)

lemma emu_ok_call_code [emu_oks]: "emu_ok (call_code h)"
  unfolding call_code_def by (rule emu_ok_kept) (simp add: sandboxed_def)

lemma emu_ok_begin_instr [emu_oks]: "emu_ok begin_instr"
proof -
  have len: "emu_ok (modify (\<lambda>s. s\<lparr>instr_len := 0\<rparr>))"
  proof (rule emu_ok_step)
    fix s
    have "R s (s\<lparr>instr_buf := instr_buf s, instr_len := 0\<rparr>)" by (rule R_instr) simp
    then show "handlers (snd (run_state (modify (\<lambda>s. s\<lparr>instr_len := 0\<rparr>)) s)) = handlers s \<and>
        R s (snd (run_state (modify (\<lambda>s. s\<lparr>instr_len := 0\<rparr>)) s))"
      by (simp add: handlers_def)
  qed
  show ?thesis unfolding begin_instr_def
    by (rule emu_ok_bind len | rule emu_ok_modify; simp add: kept_def control_def handlers_def)+
qed

lemma emu_ok_before_instr [emu_oks]: "emu_ok (before_instr h flags t0)"
  unfolding before_instr_def stop_check_def timed_out_def by (intro emu_oks)

lemma emu_ok_start: "emu_ok (do { begin_instr; log_regs h })"
  by (intro emu_oks)

lemma emu_ok_prefix_op: "prefix_op op1 = Some f \<Longrightarrow> emu_ok f"
proof -
  have "emu_ok (seg_prefix t i)" "emu_ok (mode_prefix g)" for t i g
    unfolding seg_prefix_def mode_prefix_def by (rule emu_ok_modify, simp add: kept_def control_def handlers_def)+
  then show "prefix_op op1 = Some f \<Longrightarrow> emu_ok f"
    unfolding prefix_op_def by (auto split: if_splits intro!: emu_oks)
qed

lemma emu_ok_check_code [emu_oks]: "emu_ok (check_code h flags op1 rs)"
  unfolding check_code_def loop_check_def loop_offset_def no_code_check_def by (intro emu_oks)

text \<open>A program followed by anything that respects the discipline.\<close>

definition follows :: "x86emu \<Rightarrow> x86emu \<Rightarrow> bool" where
  "follows s t \<longleftrightarrow> (sandboxed s \<longrightarrow> handlers t = handlers s \<and> R s t)"

lemma follows_trans: "follows s t \<Longrightarrow> follows t u \<Longrightarrow> follows s u"
  unfolding follows_def using R_trans sandboxed_handlers by metis

lemma follows_run: "emu_ok m \<Longrightarrow> run_state m s = (x, t) \<Longrightarrow> follows s t"
  unfolding follows_def preserves_def by (metis snd_conv)

lemma follows_kept: "kept t = kept s \<Longrightarrow> follows s t"
  unfolding follows_def kept_def control_def by (simp add: R_kept kept_def control_def)

lemma prefixes_follows:
  assumes "prefixes h s = Some r"
  shows "follows s (snd r)"
proof (rule prefixes.raw_induct[OF _ assms, where P = "\<lambda>h s r. follows s (snd r)"])
  fix prefixes' h s r
  assume IH: "\<And>h s r. prefixes' h s = Some r \<Longrightarrow> follows s (snd r)"
    and body: "(case run_state (fetch_byte h) s of (op1, s) \<Rightarrow>
      (case prefix_op op1 of None \<Rightarrow> Some (op1, s) | Some f \<Rightarrow> prefixes' h (snd (run_state f s)))) = Some r"
  obtain op1 t where f: "run_state (fetch_byte h) s = (op1, t)" by force
  have t: "follows s t" using follows_run[OF emu_ok_fetch(1) f] .
  show "follows s (snd r)"
  proof (cases "prefix_op op1")
    case None
    then show ?thesis using body f t by auto
  next
    case (Some m)
    then have "follows (snd (run_state m t)) (snd r)" using IH body f by simp
    moreover have "follows t (snd (run_state m t))"
      by (rule follows_run[OF emu_ok_prefix_op[OF Some] surjective_pairing])
    ultimately show ?thesis using t follows_trans by blast
  qed
qed

end

section \<open>The steps of the loop\<close>

text \<open>After the instruction: the interrupt is delivered, the host's time stamps are kept.\<close>

locale instr_discipline = discipline +
  assumes R_clear: "R s (s\<lparr>intr_type := 0\<rparr>)"
    and R_real_tsc: "n \<noteq> 0x10 \<Longrightarrow> R s (s\<lparr>msr := (msr s)(n := v)\<rparr>)"
    and R_stats: "R s (s\<lparr>mem := x86emu_reset_access_stats (mem s)\<rparr>)"
begin

lemma emu_ok_finish_steps [emu_oks]:
  "emu_ok (modify (\<lambda>s. s\<lparr>intr_type := 0\<rparr>))"
  "emu_ok (modify (\<lambda>s. s\<lparr>msr := (msr s)(0x11 := f s)\<rparr>))" "emu_ok (modify (\<lambda>s. s\<lparr>msr := (msr s)(0x12 := f s)\<rparr>))"
  "emu_ok (modify (\<lambda>s. s\<lparr>mem := x86emu_reset_access_stats (mem s)\<rparr>))"
  "emu_ok (modify (\<lambda>s. s\<lparr>log_trace := g s\<rparr>))"
  by (rule emu_ok_step, simp add: R_clear R_real_tsc R_stats handlers_def R_kept kept_def control_def)+

lemma emu_ok_handle_interrupt [emu_oks]: "emu_ok (handle_interrupt h)"
  unfolding handle_interrupt_def by (intro emu_oks)

lemma emu_ok_process_debug [emu_oks]: "emu_ok (emu_process_debug h start len)"
  unfolding emu_process_debug_def debug_request_def debug_message_def by (intro emu_oks)

lemma emu_ok_tsc_steps [emu_oks]: "emu_ok (update_tsc h ofs)" "emu_ok (end_run h ofs rs)"
  unfolding update_tsc_def end_run_def stop_text_def by (intro emu_oks)+

lemma emu_ok_finish_instr [emu_oks]: "emu_ok (finish_instr h ofs)"
  unfolding finish_instr_def by (intro emu_oks)

text \<open>A round is a part that respects the discipline, after which the instruction may be counted.\<close>

lemma run_instr_split:
  assumes "run_instr h flags t0 ofs rs s = Some (stop, rs', s')"
  shows "\<exists>u. follows s u \<and> (s' = snd (run_state count_instr u) \<or> stop \<and> s' = u)"
proof -
  obtain r t where b: "run_state (before_instr h flags t0) s = (r, t)" by force
  have t: "follows s t" by (rule follows_run[OF emu_ok_before_instr b])
  show ?thesis
  proof (cases "r = 0")
    case False
    then show ?thesis using assms b t by (auto simp: run_instr_def)
  next
    case True
    let ?t = "t\<lparr>decode_seg := CHR ''['' # drop 1 (decode_seg t)\<rparr>"
    have "follows t ?t" by (rule follows_kept) (simp add: kept_def control_def handlers_def)
    then have t': "follows s ?t" by (rule follows_trans[OF t])
    obtain op1 u where p: "prefixes h ?t = Some (op1, u)" using assms b True by (auto simp: run_instr_def split: option.splits)
    have u: "follows s u" using follows_trans[OF t' prefixes_follows[OF p]] by simp
    show ?thesis
    proof (cases "MODE_HALTED u")
      case True
      have "follows u (u\<lparr>R_EIP := saved_eip u\<rparr>)" by (rule follows_kept) (simp add: kept_def control_def handlers_def)
      then show ?thesis using assms b \<open>r = 0\<close> p True follows_trans[OF u] by (auto simp: run_instr_def)
    next
      case False
      define m where "m = do { rs \<leftarrow> check_code h flags op1 rs; (x86emu_optab ! unat op1) h op1; finish_instr h ofs; return rs }"
      have ok: "emu_ok m" unfolding m_def by (intro emu_oks)
      obtain v w where e: "run_state m u = (v, w)" by force
      have "run_state (execute_instr h flags ofs op1 rs) u = (v, snd (run_state count_instr w))"
        using e by (simp add: execute_instr_def m_def emu_run case_prod_beta split: prod.splits)
      then show ?thesis
        using assms b \<open>r = 0\<close> p False follows_trans[OF u follows_run[OF ok e]] by (auto simp: run_instr_def)
    qed
  qed
qed

end

text \<open>And the instruction is counted.\<close>

locale run_discipline = instr_discipline +
  assumes R_count: "R s (s\<lparr>msr := (msr s)(0x10 := R_TSC s + 1)\<rparr>)"
begin

lemma follows_count: "follows s (snd (run_state count_instr s))"
  by (simp add: follows_def count_instr_def R_count handlers_def)

lemma run_instr_follows:
  assumes "run_instr h flags t0 ofs rs s = Some (stop, rs', s')"
  shows "follows s s'"
proof -
  obtain u where u: "follows s u" "s' = snd (run_state count_instr u) \<or> stop \<and> s' = u"
    using run_instr_split[OF assms] by blast
  show ?thesis using u(2) u(1) follows_trans[OF u(1) follows_count] by blast
qed

lemma rounds_follows:
  "rounds h flags t0 ofs (rs, s) (rs', s') \<Longrightarrow> follows s s'"
  by (induction rs' s' rule: rounds_induct) (auto intro: follows_kept follows_trans run_instr_follows)

lemma run_loop_follows:
  assumes "run_loop h flags t0 ofs rs s = Some (rs', s')"
  shows "follows s s'"
  using run_loop_rounds[OF assms] rounds_follows run_instr_follows follows_trans by metis

text \<open>A run respects the discipline from the moment it has looked at the I/O privilege level.\<close>

lemma run_follows:
  assumes "x86emu_run h flags s = Some (rs, s')"
  shows "follows (snd (run_state (start_run h) s)) s'"
proof -
  obtain t0 ofs t where st: "run_state (start_run h) s = ((t0, ofs), t)" by (metis prod.exhaust)
  obtain rs2 u where l: "run_loop h flags t0 ofs 0 t = Some (rs2, u)" and s': "s' = snd (run_state (end_run h ofs rs2) u)"
    using assms st by (auto simp: x86emu_run_def split: option.splits)
  have "follows u s'" unfolding s' by (rule follows_run[OF emu_ok_tsc_steps(2) surjective_pairing])
  then show ?thesis using follows_trans[OF run_loop_follows[OF l]] st by simp
qed

end

section \<open>The disciplines of this emulator\<close>

text \<open>Memory and ports: \<open>confined\<close>.\<close>

interpretation safe: run_discipline within
proof unfold_locales
  show "within s t \<Longrightarrow> within t u \<Longrightarrow> within s u" for s t u by (rule within_trans)
  show "kept t = kept s \<Longrightarrow> within s t" for s t by (rule within_same) (simp_all add: kept_def)
  show "within s (snd (snd (vm_memio h s addr val type)))" if "type \<noteq> 0x103" for h s addr val type
    by (rule within_vm_memio[OF that])
  show "within s (s\<lparr>mem := x86emu_reset_access_stats (mem s)\<rparr>)" for s
    by (rule within_mem) (rule mem_confined_reset_stats)
qed (simp_all add: within_same)

text \<open>The bytes recorded of an instruction stay inside their buffer of 32.\<close>

definition buffered :: "x86emu \<Rightarrow> x86emu \<Rightarrow> bool" where
  "buffered s t \<longleftrightarrow> (instr_len s \<le> 32 \<longrightarrow> instr_len t \<le> 32)"

lemma control_fields:
  "control t = control s \<Longrightarrow> instr_len t = instr_len s" "control t = control s \<Longrightarrow> msr t = msr s"
  "control t = control s \<Longrightarrow> max_instr t = max_instr s" "control t = control s \<Longrightarrow> timeout t = timeout s"
  "control t = control s \<Longrightarrow> intr_nr t = intr_nr s" "control t = control s \<Longrightarrow> intr_type t = intr_type s"
  "control t = control s \<Longrightarrow> intr_errcode t = intr_errcode s" "control t = control s \<Longrightarrow> wrmsr t = wrmsr s"
  by (simp_all add: control_def handlers_def)

lemmas memio_fields = control_fields[OF control_vm_memio]

interpretation buffer: run_discipline buffered
  by unfold_locales (simp_all add: buffered_def kept_def control_def handlers_def memio_fields)

text \<open>The limits of the run are the client's.\<close>

definition same_limits :: "x86emu \<Rightarrow> x86emu \<Rightarrow> bool" where
  "same_limits s t \<longleftrightarrow> max_instr t = max_instr s \<and> timeout t = timeout s"

interpretation limits: run_discipline same_limits
  by unfold_locales (simp_all add: same_limits_def kept_def control_def handlers_def memio_fields)

text \<open>An interrupt that has been raised stays the one to deliver.\<close>

definition same_intr :: "x86emu \<Rightarrow> x86emu \<Rightarrow> bool" where
  "same_intr s t \<longleftrightarrow>
     (intr_type s \<noteq> 0 \<longrightarrow> intr_nr t = intr_nr s \<and> intr_type t = intr_type s \<and> intr_errcode t = intr_errcode s)"

interpretation raised: discipline same_intr
  by unfold_locales (simp_all add: same_intr_def kept_def control_def handlers_def memio_fields)

text \<open>Without a handler for it the instruction \<^verbatim>\<open>wrmsr\<close> cannot change the instruction counter.\<close>

definition same_count :: "x86emu \<Rightarrow> x86emu \<Rightarrow> bool" where
  "same_count s t \<longleftrightarrow> (wrmsr s = No_msr \<longrightarrow> wrmsr t = No_msr \<and> R_TSC t = R_TSC s)"

interpretation counter: instr_discipline same_count
  by unfold_locales (simp_all add: same_count_def kept_def control_def handlers_def memio_fields)

section \<open>What every instruction and every run guarantees\<close>

text \<open>
  C1. Whatever the two opcode tables execute, an emulator without handlers of the client
  stays without them, accesses the host's ports only where the port permissions allow it,
  changes neither the permissions of ports nor those of memory, and changes the contents
  of memory only where it is writable; and an interrupt raised before stays the one that
  will be delivered, with its type and error code.
\<close>

theorem instruction_confined:
  "confined s (snd (run_state ((x86emu_optab ! unat (i :: u8)) h i') s)) \<and>
   confined s (snd (run_state ((x86emu_optab2 ! unat (j :: u8)) h j') s)) \<and>
   (sandboxed s \<longrightarrow> same_intr s (snd (run_state ((x86emu_optab ! unat (i :: u8)) h i') s)))"
proof (intro conjI impI)
  show "confined s (snd (run_state ((x86emu_optab ! unat (i :: u8)) h i') s))"
    by (rule preserves_confined[OF safe.emu_ok_optab])
  show "confined s (snd (run_state ((x86emu_optab2 ! unat (j :: u8)) h j') s))"
    by (rule preserves_confined[OF safe.emu_ok_optab2])
  show "sandboxed s \<Longrightarrow> same_intr s (snd (run_state ((x86emu_optab ! unat (i :: u8)) h i') s))"
    using preservesD[OF raised.emu_ok_optab] by blast
qed

text \<open>An emulator in which a general protection fault has been raised.\<close>

definition faulted_emu :: x86emu where
  "faulted_emu = (x86emu_new idle_host (\<lambda>_. 0) 0 0)\<lparr>intr_nr := 13, intr_type := 0x302, intr_errcode := 8\<rparr>"

lemma sandboxed_faulted: "sandboxed faulted_emu"
  using x86emu_new_simps(1)[of idle_host "\<lambda>_. 0" 0 0] by (simp add: faulted_emu_def sandboxed_def)

lemma instruction_confined_witness:
  "intr_nr (snd (run_state ((x86emu_optab ! 0xcd) idle_host 0xcd) faulted_emu)) = 13"
  using instruction_confined[where i = "0xcd" and i' = "0xcd" and h = idle_host and s = faulted_emu] sandboxed_faulted
  by (simp add: same_intr_def faulted_emu_def)

text \<open>
  C5. A run that returns leaves an emulator without handlers of the client as confined
  as its instructions do, from the moment on where it has looked at the I/O privilege
  level; it changes neither the instruction limit nor the timeout, and the bytes it
  recorded of the last instruction are inside their buffer if they were before.
\<close>

theorem run_confined:
  "case x86emu_run h flags s of None \<Rightarrow> True
   | Some (rs, s') \<Rightarrow> (let s1 = snd (run_state (start_run h) s)
       in confined s1 s' \<and> (sandboxed s1 \<longrightarrow> same_limits s1 s' \<and> buffered s1 s'))"
proof (cases "x86emu_run h flags s")
  case (Some r)
  obtain rs s' where r: "x86emu_run h flags s = Some (rs, s')" using Some by (metis prod.exhaust)
  let ?s = "snd (run_state (start_run h) s)"
  have "sandboxed ?s \<longrightarrow> sandboxed s' \<and> within ?s s' \<and> same_limits ?s s' \<and> buffered ?s s'"
    using safe.run_follows[OF r] limits.run_follows[OF r] buffer.run_follows[OF r] sandboxed_handlers[of s' ?s]
    by (simp add: safe.follows_def limits.follows_def buffer.follows_def)
  then show ?thesis by (simp add: r confined_def)
qed simp

section \<open>The instruction limit ends a run\<close>

lemma stop_check_limit:
  assumes "R_TSC s \<ge> max_instr s" "max_instr s \<noteq> 0" "flags AND X86EMU_RUN_MAX_INSTR \<noteq> 0"
  shows "fst (run_state (stop_check h flags t0) s) \<noteq> 0"
  using assms by (simp add: stop_check_def emu_run)

lemma run_instr_limit:
  assumes s: "sandboxed s" "wrmsr s = No_msr" and flags: "flags AND X86EMU_RUN_MAX_INSTR \<noteq> 0" "max_instr s \<noteq> 0"
    and run: "run_instr h flags t0 ofs rs s = Some (False, rs', s')"
  shows "R_TSC s < max_instr s"
proof (rule ccontr)
  assume "\<not> R_TSC s < max_instr s"
  obtain u where u: "run_state (do { begin_instr; log_regs h }) s = ((), u)" by (metis old.unit.exhaust prod.exhaust)
  have "same_count s u" using preservesD[OF counter.emu_ok_start s(1)] u by (metis snd_conv)
  moreover have "same_limits s u" using preservesD[OF limits.emu_ok_start s(1)] u by (metis snd_conv)
  ultimately have "R_TSC u \<ge> max_instr u" "max_instr u \<noteq> 0"
    using s(2) flags(2) \<open>\<not> R_TSC s < max_instr s\<close> by (simp_all add: same_count_def same_limits_def)
  then have "fst (run_state (stop_check h flags t0) u) \<noteq> 0" by (rule stop_check_limit) (rule flags(1))
  moreover have "run_state (before_instr h flags t0) s = run_state (stop_check h flags t0) u"
    using u by (simp add: before_instr_def emu_run split: prod.splits)
  ultimately show False using run by (simp add: run_instr_def case_prod_beta)
qed

lemma run_instr_count:
  assumes "sandboxed s" "wrmsr s = No_msr" "run_instr h flags t0 ofs rs s = Some (False, rs', s')"
  shows "sandboxed s' \<and> wrmsr s' = No_msr \<and> R_TSC s' = R_TSC s + 1 \<and> max_instr s' = max_instr s"
proof -
  obtain u where u: "counter.follows s u" "s' = snd (run_state count_instr u)"
    using counter.run_instr_split[OF assms(3)] by auto
  then have "same_count s u" using assms(1) by (simp add: counter.follows_def)
  moreover have "same_limits s s'" "sandboxed s'"
    using limits.run_instr_follows[OF assms(3)] assms(1) sandboxed_handlers[of s' s] by (simp_all add: limits.follows_def)
  ultimately show ?thesis using u(2) assms(2) by (simp add: same_count_def same_limits_def count_instr_def)
qed

lemma unat_inc: "x < y \<Longrightarrow> unat (x + 1) = unat x + 1" for x y :: u64
  by unat_arith

lemma run_loop_ends:
  assumes "sandboxed s" "wrmsr s = No_msr" "flags AND X86EMU_RUN_MAX_INSTR \<noteq> 0" "max_instr s \<noteq> 0"
    and "\<And>rs' s'. rounds h flags t0 ofs (rs, s) (rs', s') \<Longrightarrow> run_instr h flags t0 ofs rs' s' \<noteq> None"
  shows "run_loop h flags t0 ofs rs s \<noteq> None"
  using assms
proof (induction "unat (max_instr s) - unat (R_TSC s)" arbitrary: rs s rule: less_induct)
  case less
  obtain stop rs' s' where i: "run_instr h flags t0 ofs rs s = Some (stop, rs', s')"
    using less.prems(5)[OF rounds_none] by auto
  show ?case
  proof (cases stop)
    case True
    then show ?thesis by (simp add: i run_loop.simps[of h flags t0 ofs rs])
  next
    case False
    note i' = i[unfolded False[THEN eq_False[THEN iffD2]]]
    have lim: "R_TSC s < max_instr s" by (rule run_instr_limit[OF less.prems(1-4) i'])
    note n = run_instr_count[OF less.prems(1,2) i']
    have "unat (R_TSC s') = unat (R_TSC s) + 1" using n unat_inc[OF lim] by simp
    then have less': "unat (max_instr s') - unat (R_TSC s') < unat (max_instr s) - unat (R_TSC s)"
      using lim n by (simp add: word_less_nat_alt)
    have step: "rounds h flags t0 ofs (rs, s) (rs', s')" by (rule rounds_more[OF rounds_none i'])
    have "run_loop h flags t0 ofs rs' s' \<noteq> None"
      by (rule less.hyps[OF less' _ _ less.prems(3)]) (simp_all add: n less.prems(4,5) rounds_trans[OF _ step])
    then show ?thesis by (simp add: i' run_loop.simps[of h flags t0 ofs rs])
  qed
qed

text \<open>With the default handler the emulated code can set the counter the limits go by.\<close>

lemma wrmsr_sets_counter:
  "wrmsr s = Default_msr \<Longrightarrow> R_ECX s = 0x10 \<Longrightarrow>
   R_TSC (snd (run_state (x86emuOp2_wrmsr h op2) s)) = push_bit 32 (ucast (R_EDX s)) + ucast (R_EAX s)"
  by (simp add: x86emuOp2_wrmsr_def OP_DECODE_def call_wrmsr_def x86emu_wrmsr_def emu_run Let_def)

text \<open>
  C3. Without a handler for \<^verbatim>\<open>wrmsr\<close> the instruction limit ends every run, unless it is
  caught in the prefixes of one instruction: if the prefix loop comes to an end in every
  state the run gets to, then the run returns, and no state it gets to has counted more
  instructions than the limit, or than the counter said at the beginning.
\<close>

theorem run_ends:
  assumes "sandboxed s" "wrmsr s = No_msr" "flags AND X86EMU_RUN_MAX_INSTR \<noteq> 0" "max_instr s \<noteq> 0"
    and "run_state (start_run h) s = ((t0, ofs), s1)"
    and "\<And>rs' s'. rounds h flags t0 ofs (0, s1) (rs', s') \<Longrightarrow> run_instr h flags t0 ofs rs' s' \<noteq> None"
  shows "x86emu_run h flags s \<noteq> None \<and>
    (\<forall>rs' s'. rounds h flags t0 ofs (0, s1) (rs', s') \<longrightarrow> R_TSC s' \<le> max (max_instr s) (R_TSC s))"
proof
  have s1: "handlers s1 = handlers s" "max_instr s1 = max_instr s" "R_TSC s1 = R_TSC s"
    using assms(5) by (auto simp: start_run_def read_time_def tsc_def emu_run handlers_def)
  then have s1': "sandboxed s1" "wrmsr s1 = No_msr" using assms(1,2) sandboxed_handlers[of s1 s] by (auto simp: handlers_def)
  have "run_loop h flags t0 ofs 0 s1 \<noteq> None"
    by (rule run_loop_ends[OF s1' assms(3)]) (use assms(4,6) s1 in auto)
  then show "x86emu_run h flags s \<noteq> None" using assms(5) by (auto simp: x86emu_run_def)
  have "sandboxed s' \<and> wrmsr s' = No_msr \<and> max_instr s' = max_instr s1 \<and> R_TSC s' \<le> max (max_instr s1) (R_TSC s1)"
    if "rounds h flags t0 ofs (0, s1) (rs', s')" for rs' s'
    using that
  proof (induction "(rs', s')" arbitrary: rs' s' rule: rounds.induct)
    case rounds_none
    then show ?case using s1' by simp
  next
    case (rounds_more rs2 s2 rs3 s3)
    note n = run_instr_count[OF _ _ rounds_more(3)]
    have "R_TSC s2 < max_instr s2" by (rule run_instr_limit[OF _ _ assms(3) _ rounds_more(3)]) (use rounds_more(2) s1 assms(4) in auto)
    then have "R_TSC s2 + 1 \<le> max_instr s2" by unat_arith
    then show ?case using n rounds_more(2) by (simp add: le_max_iff_disj)
  qed
  then show "\<forall>rs' s'. rounds h flags t0 ofs (0, s1) (rs', s') \<longrightarrow> R_TSC s' \<le> max (max_instr s) (R_TSC s)"
    using s1 by auto
qed

end
