(* ===== verification/Session.thy ===== *)
theory Session
  imports Safety Api
begin

text \<open>
  A client at work with the library: the calls of the interface that install no handler,
  the states they lead to, and the invariant of all of them. \<^verbatim>\<open>x86emu_clone\<close> is not among
  the calls: the clone has the value of the original (theory \<^verbatim>\<open>Storage\<close>), so that what is
  reached with it is reached with the original.
\<close>

section \<open>Calls of the library\<close>

datatype api_call =
    Reset
  | Set_perm u32 u32 u32
  | Set_page u32 "nat option"
  | Set_io_perm u32 u32 u32
  | Read_byte u32
  | Read_byte_noperm u32
  | Read_word u32
  | Read_dword u32
  | Write_byte u32 u32
  | Write_byte_noperm u32 u32
  | Write_word u32 u32
  | Write_dword u32 u32
  | Reset_access_stats
  | Set_log u32
  | Clear_log bool
  | Log string
  | Dump u32
  | Remove_rdmsr
  | Remove_wrmsr
  | Set_seg_register sel_ref u16
  | Intr_raise u8 u32 u32
  | Stop
  | Run u32

text \<open>What a call makes of the emulator; \<open>None\<close> when a run does not return.\<close>

fun perform :: "host \<Rightarrow> api_call \<Rightarrow> x86emu \<Rightarrow> x86emu option" where
  "perform h Reset s = Some (x86emu_reset s)"
| "perform h (Set_perm a b p) s = Some (s\<lparr>mem := x86emu_set_perm (mem s) a b p\<rparr>)"
| "perform h (Set_page a b) s = Some (s\<lparr>mem := x86emu_set_page (mem s) a b\<rparr>)"
| "perform h (Set_io_perm a b p) s = Some (x86emu_set_io_perm h s a b p)"
| "perform h (Read_byte a) s = Some (snd (x86emu_read_byte h s a))"
| "perform h (Read_byte_noperm a) s = Some (snd (x86emu_read_byte_noperm h s a))"
| "perform h (Read_word a) s = Some (snd (x86emu_read_word h s a))"
| "perform h (Read_dword a) s = Some (snd (x86emu_read_dword h s a))"
| "perform h (Write_byte a v) s = Some (x86emu_write_byte h s a v)"
| "perform h (Write_byte_noperm a v) s = Some (x86emu_write_byte_noperm h s a v)"
| "perform h (Write_word a v) s = Some (x86emu_write_word h s a v)"
| "perform h (Write_dword a v) s = Some (x86emu_write_dword h s a v)"
| "perform h Reset_access_stats s = Some (s\<lparr>mem := x86emu_reset_access_stats (mem s)\<rparr>)"
| "perform h (Set_log n) s = Some (snd (run_state (x86emu_set_log n None) s))"
| "perform h (Clear_log flush) s = Some (snd (run_state (x86emu_clear_log h flush) s))"
| "perform h (Log text) s = Some (snd (run_state (x86emu_log h text) s))"
| "perform h (Dump flags) s = Some (snd (run_state (x86emu_dump h flags) s))"
| "perform h Remove_rdmsr s = Some (snd (x86emu_set_rdmsr_handler No_msr s))"
| "perform h Remove_wrmsr s = Some (snd (x86emu_set_wrmsr_handler No_msr s))"
| "perform h (Set_seg_register sg v) s = Some (snd (run_state (x86emu_set_seg_register h sg v) s))"
| "perform h (Intr_raise nr type err) s = Some (snd (run_state (x86emu_intr_raise nr type err) s))"
| "perform h Stop s = Some (snd (run_state x86emu_stop s))"
| "perform h (Run flags) s = map_option snd (x86emu_run h flags s)"

text \<open>The port permissions a call gives, added to those given before.\<close>

fun grants :: "api_call \<Rightarrow> (nat \<Rightarrow> u8) \<Rightarrow> nat \<Rightarrow> u8" where
  "grants (Set_io_perm a b p) g = (\<lambda>n. if unat a \<le> n \<and> n \<le> unat b then g n OR ucast p else g n)"
| "grants c g = g"

text \<open>Fields of its own accord the client leaves alone.\<close>

definition interior where
  "interior s = (handlers s, mem s, io_map s, io_trace s, instr_len s)"

text \<open>
  The states of an emulator with the port permissions ever given in them. Between two
  calls the client may change registers, limits and whatever else is not in \<open>interior\<close>.
\<close>

inductive session :: "host \<Rightarrow> (nat \<Rightarrow> u8) \<Rightarrow> x86emu \<Rightarrow> bool" for h :: host where
  session_new: "session h (\<lambda>_. ucast q) (x86emu_new h hm p q)"
| session_call: "session h g s \<Longrightarrow> perform h c s = Some t \<Longrightarrow> session h (grants c g) t"
| session_fields: "session h g s \<Longrightarrow> interior t = interior s \<Longrightarrow> session h g t"

section \<open>The invariant\<close>

definition well_formed :: "x86emu \<Rightarrow> bool" where
  "well_formed s \<longleftrightarrow> sandboxed s \<and> mem_ok (mem s) \<and> instr_len s \<le> 32"

text \<open>The permission map, and every access of the host's ports so far, are covered by what was given.\<close>

definition granted :: "(nat \<Rightarrow> u8) \<Rightarrow> x86emu \<Rightarrow> bool" where
  "granted g s \<longleftrightarrow> (\<forall>p. io_map s p AND 3 AND NOT (g p) = 0) \<and>
     (\<forall>e\<in>set (io_trace s). \<forall>p\<in>event_ports e. g p AND event_perm e \<noteq> 0)"

lemma and_cover:
  fixes x g q :: u8
  assumes "x AND 3 AND NOT g = 0" "x AND q \<noteq> 0" "q = 1 \<or> q = 2"
  shows "g AND q \<noteq> 0"
proof -
  have g: "bit g n" if "n = 0 \<or> n = 1" "bit x n" for n
    using arg_cong[OF assms(1), of "\<lambda>w. bit w n"] that by (auto simp: bit_simps)
  have "x AND 2 ^ n \<noteq> 0 \<Longrightarrow> g AND 2 ^ n \<noteq> 0" if "n = 0 \<or> n = 1" for n
    using g[OF that] by (simp only: and_exp_neq_0_iff)
  from this[of 0] this[of 1] show ?thesis using assms(2,3) by auto
qed

lemma granted_within:
  assumes "within s t" "granted g s"
  shows "granted g t"
proof -
  obtain es where es: "io_trace t = es @ io_trace s" "\<forall>e\<in>set es. io_allowed s (event_perm e) e"
    and m: "\<And>p. io_map t p AND 3 = io_map s p AND 3"
    using assms(1) by (auto simp: within_def io_confined_def)
  have "io_map t p AND 3 AND NOT (g p) = 0" for p
    using assms(2) m[of p] by (simp add: granted_def and.assoc[symmetric])
  moreover have "g p AND event_perm e \<noteq> 0" if "e \<in> set es" "p \<in> event_ports e" for e p
  proof (rule and_cover)
    show "io_map s p AND 3 AND NOT (g p) = 0" using assms(2) by (simp add: granted_def)
    show "io_map s p AND event_perm e \<noteq> 0" using es(2) that by (auto simp: io_allowed_def)
    show "event_perm e = 1 \<or> event_perm e = 2" by (cases e) simp_all
  qed
  ultimately show ?thesis using assms(2) es(1) by (auto simp: granted_def)
qed

lemma granted_cong: "io_map t = io_map s \<Longrightarrow> io_trace t = io_trace s \<Longrightarrow> granted g t = granted g s"
  by (simp add: granted_def)

text \<open>The invariant of the calls.\<close>

definition session_ok :: "(nat \<Rightarrow> u8) \<Rightarrow> x86emu \<Rightarrow> bool" where
  "session_ok g s \<longleftrightarrow> well_formed s \<and> granted g s"

lemma session_ok_step:
  "session_ok g s \<Longrightarrow> handlers t = handlers s \<Longrightarrow> instr_len t \<le> 32 \<Longrightarrow> mem_ok (mem t) \<Longrightarrow>
   io_map t = io_map s \<Longrightarrow> io_trace t = io_trace s \<Longrightarrow> session_ok g t"
  using sandboxed_handlers[of t s] granted_cong[of t s g] by (simp add: session_ok_def well_formed_def)

lemma session_ok_mem: "session_ok g s \<Longrightarrow> mem_ok m \<Longrightarrow> session_ok g (s\<lparr>mem := m\<rparr>)"
  by (rule session_ok_step) (simp_all add: handlers_def session_ok_def well_formed_def)

lemma session_ok_memio:
  assumes "session_ok g s"
  shows "session_ok g (snd (snd (call_memio h s a v type)))"
proof (cases "type = 0x103")
  case True
  then show ?thesis using assms vm_byte_noperm(2)[of "(mem s)\<lparr>mem_invalid := False\<rparr>"]
    by (simp add: call_memio_def session_ok_def well_formed_def sandboxed_def vm_memio_write Let_def granted_def)
next
  case False
  let ?t = "snd (snd (vm_memio h s a v type))"
  have "within s ?t" by (rule within_vm_memio[OF False])
  moreover have "handlers ?t = handlers s" "instr_len ?t = instr_len s" by (rule memio_fields handlers_vm_memio)+
  moreover have "call_memio h s a v type = vm_memio h s a v type"
    using assms by (simp add: call_memio_def session_ok_def well_formed_def sandboxed_def)
  ultimately show ?thesis
    using assms granted_within[of s ?t g] sandboxed_handlers[of ?t s]
    by (simp add: session_ok_def well_formed_def within_def mem_confined_def)
qed

lemma session_ok_start: "session_ok g s \<Longrightarrow> session_ok g (snd (run_state (start_run h) s))"
  by (rule session_ok_step)
     (simp_all add: start_run_def read_time_def tsc_def emu_run handlers_def session_ok_def well_formed_def)

lemma session_ok_run:
  assumes "session_ok g s" "x86emu_run h flags s = Some (rs, t)"
  shows "session_ok g t"
proof -
  define u where "u = snd (run_state (start_run h) s)"
  have u: "sandboxed u" "mem_ok (mem u)" "instr_len u \<le> 32" "granted g u"
    using session_ok_start[OF assms(1)] by (simp_all add: u_def session_ok_def well_formed_def)
  have t: "handlers t = handlers u" "within u t" "buffered u t"
    using safe.run_follows[OF assms(2), folded u_def] buffer.run_follows[OF assms(2), folded u_def] u(1)
    by (simp_all add: safe.follows_def buffer.follows_def)
  have "mem_ok (mem t)" using t(2) u(2) by (simp add: within_def mem_confined_def)
  then show ?thesis
    using u(1,3) t(3) granted_within[OF t(2) u(4)] sandboxed_handlers[OF t(1)]
    by (simp add: session_ok_def well_formed_def buffered_def)
qed

lemma mem_ok_reset_stats: "mem_ok m \<Longrightarrow> mem_ok (x86emu_reset_access_stats m)"
  using mem_confined_reset_stats[of m] by (simp add: mem_confined_def)

lemma io_map_set_io_perm:
  "io_map (x86emu_set_io_perm h s a b q) p = (if unat a \<le> p \<and> p \<le> unat b \<and> p < X86EMU_IO_PORTS then ucast q else io_map s p)"
proof -
  have "(p \<le> unat (if b > 0xffff then 0xffff else b)) = (p \<le> unat b \<and> p < X86EMU_IO_PORTS)"
    by (auto simp: word_less_nat_alt)
  then show ?thesis by (auto simp: x86emu_set_io_perm_def Let_def io_map_fill_at)
qed

lemma not_or_cover: "x AND 3 AND NOT (y OR x) = 0" "m AND 3 AND NOT y = 0 \<Longrightarrow> m AND 3 AND NOT (y OR x) = 0" for m x y :: u8
proof -
  show "x AND 3 AND NOT (y OR x) = 0" by (rule bit_word_eqI) (auto simp: bit_simps)
  have "m AND 3 AND NOT (y OR x) = (m AND 3 AND NOT y) AND NOT x" by (rule bit_word_eqI) (auto simp: bit_simps)
  then show "m AND 3 AND NOT y = 0 \<Longrightarrow> m AND 3 AND NOT (y OR x) = 0" by simp
qed

lemma granted_io_perm:
  assumes "granted g s"
  shows "granted (grants (Set_io_perm a b q) g) (x86emu_set_io_perm h s a b q)"
proof -
  let ?g = "grants (Set_io_perm a b q) g"
  have m: "io_map s n AND 3 AND NOT (g n) = 0" for n using assms by (simp add: granted_def)
  have g: "g n AND event_perm e \<noteq> 0" if "e \<in> set (io_trace s)" "n \<in> event_ports e" for e n
    using assms that by (simp add: granted_def)
  have "io_map (x86emu_set_io_perm h s a b q) n AND 3 AND NOT (?g n) = 0" for n
    unfolding io_map_set_io_perm using not_or_cover(1)[of "ucast q" "g n"] not_or_cover(2)[OF m, of n "ucast q"] m[of n] by simp
  moreover have "?g n AND event_perm e \<noteq> 0" if "e \<in> set (io_trace s)" "n \<in> event_ports e" for e n
    using g[OF that] by (simp add: or_neq_0)
  ultimately show ?thesis by (simp add: granted_def)
qed

lemma session_ok_io_perm:
  assumes "session_ok g s"
  shows "session_ok (grants (Set_io_perm a b q) g) (x86emu_set_io_perm h s a b q)"
proof -
  have "handlers (x86emu_set_io_perm h s a b q) = handlers s" "instr_len (x86emu_set_io_perm h s a b q) = instr_len s"
    by (simp_all add: handlers_def x86emu_set_io_perm_def Let_def)
  then show ?thesis
    using assms granted_io_perm sandboxed_handlers[of "x86emu_set_io_perm h s a b q" s]
    by (simp add: session_ok_def well_formed_def)
qed

lemma session_ok_reset: "session_ok g s \<Longrightarrow> session_ok g (x86emu_reset s)"
  by (rule session_ok_step) (simp_all add: x86emu_reset_keeps x86emu_reset_regs session_ok_def well_formed_def)

lemma session_ok_log: "session_ok g s \<Longrightarrow> session_ok g (snd (run_state (x86emu_set_log n None) s))"
  by (simp add: x86emu_set_log_def session_ok_def well_formed_def granted_def sandboxed_def)

lemma session_ok_remove:
  "session_ok g s \<Longrightarrow> session_ok g (snd (x86emu_set_wrmsr_handler No_msr s))"
  "session_ok g s \<Longrightarrow> session_ok g (snd (x86emu_set_rdmsr_handler No_msr s))"
  by (simp_all add: x86emu_set_wrmsr_handler_def x86emu_set_rdmsr_handler_def session_ok_def well_formed_def granted_def sandboxed_def)

text \<open>What respects the disciplines of memory, ports and the instruction buffer keeps the invariant.\<close>

lemma session_ok_program:
  assumes "session_ok g s" "preserves within m" "preserves buffered m"
  shows "session_ok g (snd (run_state m s))"
proof -
  let ?t = "snd (run_state m s)"
  have s: "sandboxed s" "mem_ok (mem s)" "instr_len s \<le> 32" "granted g s" using assms(1) by (simp_all add: session_ok_def well_formed_def)
  have t: "sandboxed ?t" "within s ?t" "buffered s ?t" using preservesD[OF assms(2) s(1)] preservesD[OF assms(3) s(1)] by simp_all
  then show ?thesis
    using s granted_within[OF t(2) s(4)] by (simp add: session_ok_def well_formed_def within_def mem_confined_def buffered_def)
qed

lemma session_ok_programs:
  assumes "session_ok g s"
  shows "session_ok g (snd (run_state (x86emu_clear_log h flush) s))" "session_ok g (snd (run_state (x86emu_log h text) s))"
    "session_ok g (snd (run_state (x86emu_dump h flags) s))" "session_ok g (snd (run_state (x86emu_set_seg_register h sg v) s))"
    "session_ok g (snd (run_state (x86emu_intr_raise nr type err) s))" "session_ok g (snd (run_state x86emu_stop s))"
  by (rule session_ok_program[OF assms];
      rule safe.emu_ok_clear_log safe.emu_ok_x86emu_log safe.emu_ok_dump safe.emu_ok_set_seg safe.emu_ok_raise safe.emu_ok_ip
        buffer.emu_ok_clear_log buffer.emu_ok_x86emu_log buffer.emu_ok_dump buffer.emu_ok_set_seg buffer.emu_ok_raise buffer.emu_ok_ip)+

lemmas client_accesses = x86emu_read_byte_def x86emu_read_byte_noperm_def x86emu_read_word_def x86emu_read_dword_def
  x86emu_write_byte_def x86emu_write_byte_noperm_def x86emu_write_word_def x86emu_write_dword_def

lemma session_ok_call:
  assumes "session_ok g s" "perform h c s = Some t"
  shows "session_ok (grants c g) t"
proof -
  have m: "mem_ok (mem s)" using assms(1) by (simp add: session_ok_def well_formed_def)
  show ?thesis
  proof (cases c)
    case (Set_io_perm a b q)
    then show ?thesis using assms(2) session_ok_io_perm[OF assms(1), of a b q h] by simp
  qed (use assms in \<open>auto intro: session_ok_mem session_ok_reset session_ok_log session_ok_remove session_ok_programs session_ok_run simp: client_accesses session_ok_memio
      m mem_ok_set_perm mem_ok_set_page mem_ok_reset_stats\<close>)
qed

lemma io_map_new: "io_map (x86emu_new h hm p q) n AND 3 AND NOT (ucast q) = 0"
proof -
  have "ucast q AND 3 AND NOT (ucast q) = (0 :: u8)" by (rule bit_word_eqI) (auto simp: bit_simps)
  then show ?thesis
    by (auto simp: x86emu_new_def Let_def x86emu_reset_keeps io_map_set_io_perm x86emu_set_memio_handler_def
        x86emu_set_rdmsr_handler_def x86emu_set_wrmsr_handler_def calloc_emu_def zero_regs_def x86emu_regs.defs x86emu.defs)
qed

lemma session_ok_new: "session_ok (\<lambda>_. ucast q) (x86emu_new h hm p q)"
proof -
  have "io_trace (x86emu_new h hm p q) = []" using x86emu_new_state[of h hm p q] x86emu_reset_keeps(5) by metis
  moreover have "mem_ok (emu_mem_new p hm)" by (simp add: mem_ok_def emu_mem_new_def get_page_def null_page_def)
  ultimately show ?thesis by (simp add: session_ok_def well_formed_def granted_def io_map_new)
qed

text \<open>
  C2. In every state a client without handlers of its own can bring the emulator into, by
  calls of the library, whole runs of emulated code among them, and by changing registers
  and limits, no handler is installed, every page of memory is either complete or not there, the
  recorded instruction fits into its buffer; and whatever the emulated code does, each
  access of a port of the host was covered by a permission the client had given for that
  port and that direction.
\<close>

theorem session_invariant:
  "session h g s \<Longrightarrow> well_formed s \<and> (\<forall>e\<in>set (io_trace s). \<forall>p\<in>event_ports e. g p AND event_perm e \<noteq> 0)"
proof -
  have "session h g s \<Longrightarrow> session_ok g s"
  proof (induction rule: session.induct)
    case (session_fields g s t)
    then show ?case using session_ok_step[of g s t] by (simp add: interior_def session_ok_def well_formed_def)
  qed (simp_all add: session_ok_new session_ok_call)
  then show "session h g s \<Longrightarrow> well_formed s \<and> (\<forall>e\<in>set (io_trace s). \<forall>p\<in>event_ports e. g p AND event_perm e \<noteq> 0)"
    by (auto simp: session_ok_def granted_def)
qed

end
