(* ===== verification/Steps.thy ===== *)
theory Steps
  imports Run Bytes
begin

text \<open>
  One instruction of a run, with the log off: from the checks before it over its opcode
  byte to its handler and what follows that. A run is then followed instruction by
  instruction, with the handlers' own lemmas.
\<close>

section \<open>Around an instruction\<close>

text \<open>The limits of the run leave room for an instruction now.\<close>

definition in_time :: "x86emu \<Rightarrow> bool" where
  "in_time s \<longleftrightarrow> (max_instr s = 0 \<or> R_TSC s < max_instr s) \<and> (timeout s = 0 \<or> R_TSC s AND 0xffff \<noteq> 0)"

text \<open>The state when the opcode of an instruction is about to be fetched.\<close>

definition begun :: "x86emu \<Rightarrow> x86emu" where
  "begun s = s\<lparr>disasm_buf := [], instr_len := 0, mode := start_mode s, default_seg := None, saved_cs := R_CS s, saved_eip := R_EIP s,
     decode_seg := CHR ''['' # drop 1 (decode_seg s)\<rparr>"

text \<open>The state after the instruction, when its handler has left \<open>s\<close>.\<close>

definition counted :: "host \<Rightarrow> u64 \<Rightarrow> x86emu \<Rightarrow> x86emu" where
  "counted h ofs s = s\<lparr>clock_reads := Suc (clock_reads s),
     msr := (msr s)(0x11 := R_REAL_TSC s, 0x12 := host_tsc h (clock_reads s) - ofs, 0x10 := R_TSC s + 1)\<rparr>"

text \<open>Nothing keeps the emulator from the instruction with the opcode \<open>b\<close>.\<close>

definition ready_for :: "x86emu \<Rightarrow> u8 \<Rightarrow> bool" where
  "ready_for s b \<longleftrightarrow> plain s \<and> code_at s (code_ptr s) b \<and> code_check s = None \<and> intr_type s = 0 \<and> debug_len s = 0 \<and> in_time s"

lemma begun_fields [simp]:
  "memio (begun s) = memio s" "log_text (begun s) = log_text s" "mem (begun s) = mem s" "seg (begun s) = seg s" "R_EIP (begun s) = R_EIP s"
  "intr_type (begun s) = intr_type s" "debug_len (begun s) = debug_len s" "mode (begun s) = start_mode s" "default_seg (begun s) = None"
  "R_EAX (begun s) = R_EAX s" "R_ECX (begun s) = R_ECX s" "R_ESP (begun s) = R_ESP s" "R_ESI (begun s) = R_ESI s" "R_FLG (begun s) = R_FLG s"
  "io_trace (begun s) = io_trace s" "msr (begun s) = msr s" "max_instr (begun s) = max_instr s" "timeout (begun s) = timeout s"
  "code_check (begun s) = code_check s"
  by (simp_all add: begun_def)

lemma counted_fields [simp]:
  "memio (counted h ofs s) = memio s" "log_text (counted h ofs s) = log_text s" "mem (counted h ofs s) = mem s" "seg (counted h ofs s) = seg s"
  "R_EIP (counted h ofs s) = R_EIP s" "intr_type (counted h ofs s) = intr_type s" "debug_len (counted h ofs s) = debug_len s"
  "mode (counted h ofs s) = mode s" "R_EAX (counted h ofs s) = R_EAX s" "R_ECX (counted h ofs s) = R_ECX s" "R_ESP (counted h ofs s) = R_ESP s"
  "R_ESI (counted h ofs s) = R_ESI s" "R_FLG (counted h ofs s) = R_FLG s" "io_trace (counted h ofs s) = io_trace s"
  "max_instr (counted h ofs s) = max_instr s" "timeout (counted h ofs s) = timeout s" "code_check (counted h ofs s) = code_check s"
  "R_TSC (counted h ofs s) = R_TSC s + 1"
  by (simp_all add: counted_def)

lemma before_instr_plain:
  assumes "plain s" "code_check s = None" "in_time s"
  shows "\<exists>t. run_state (before_instr h flags t0) s = (0, t) \<and> t\<lparr>decode_seg := CHR ''['' # drop 1 (decode_seg t)\<rparr> = begun s"
  using assms
  by (auto simp: before_instr_def begin_instr_def log_regs_def log_on_def stop_check_def timed_out_def emu_run plain_def begun_def start_mode_def
      in_time_def)

lemma start_mode_run: "\<not> start_mode s AND MODE_HALTED_flag \<noteq> 0"
  by (simp add: start_mode_def)

lemma start_mode_16: "\<not> ACC_D (R_CS_ACC s) \<Longrightarrow> start_mode s AND MODE_CODE32_flag = 0"
  by (simp add: start_mode_def)

lemma finish_quiet:
  assumes "intr_type s = 0" "log_text s = None" "debug_len s = 0"
  shows "run_state (finish_instr h ofs) s = ((), s\<lparr>intr_type := 0, clock_reads := Suc (clock_reads s),
    msr := (msr s)(0x11 := R_REAL_TSC s, 0x12 := host_tsc h (clock_reads s) - ofs)\<rparr>)"
  using assms by (simp add: finish_instr_def handle_interrupt_def update_tsc_def tsc_def log_code_def log_on_def emu_run)

text \<open>The checks for a tight loop and for missing code look at jumps and at the opcode 0 only.\<close>

lemma check_code_other:
  assumes "op1 \<noteq> 0" "op1 \<noteq> 0xe9" "op1 \<noteq> 0xeb"
  shows "run_state (check_code h flags op1 0) s = (0, s)"
  using assms by (simp add: check_code_def loop_check_def loop_offset_def no_code_check_def emu_run)

lemma execute_quiet:
  assumes "op1 \<noteq> 0" "op1 \<noteq> 0xe9" "op1 \<noteq> 0xeb" "run_state ((x86emu_optab ! unat op1) h op1) s = ((), t)"
    and "intr_type t = 0" "log_text t = None" "debug_len t = 0"
  shows "run_state (execute_instr h flags ofs op1 0) s = (0, counted h ofs t)"
proof -
  have "t\<lparr>intr_type := 0\<rparr> = t" using assms(5) by simp
  then have "t\<lparr>intr_type := 0, clock_reads := c, msr := f\<rparr> = t\<lparr>clock_reads := c, msr := f\<rparr>" for c f by (metis (no_types))
  then show ?thesis
    using assms by (simp add: execute_instr_def emu_run check_code_other finish_quiet count_instr_def counted_def)
qed

section \<open>An instruction\<close>

text \<open>
  An instruction without prefixes: when its handler, started behind the opcode, raises no
  interrupt, the round of the loop ends in the state it leaves, one instruction later.
\<close>

lemma plain_instr:
  assumes "ready_for s op1" "prefix_op op1 = None" "op1 \<noteq> 0" "op1 \<noteq> 0xe9" "op1 \<noteq> 0xeb"
  shows "\<exists>m. same_bytes (mem s) m \<and>
    (\<forall>t. run_state ((x86emu_optab ! unat op1) h op1) (fetched m op1 (begun s)) = ((), t) \<longrightarrow>
      intr_type t = 0 \<longrightarrow> log_text t = None \<longrightarrow> debug_len t = 0 \<longrightarrow>
      run_instr h flags t0 ofs 0 s = Some (MODE_HALTED t, 0, counted h ofs t))"
proof -
  obtain t where t: "run_state (before_instr h flags t0) s = (0, t)" "t\<lparr>decode_seg := CHR ''['' # drop 1 (decode_seg t)\<rparr> = begun s"
    using before_instr_plain[of s h flags t0] assms(1) by (auto simp: ready_for_def)
  have "plain (begun s)" "code_at (begun s) (code_ptr (begun s)) op1"
    using assms(1) by (simp_all add: ready_for_def plain_def code_at_mem[of "begun s" s])
  then obtain m where m: "run_state (fetch_byte h) (begun s) = (op1, fetched m op1 (begun s))" "same_bytes (mem s) m"
    using fetch_byte_same by fastforce
  have p: "prefixes h (begun s) = Some (op1, fetched m op1 (begun s))" by (simp add: prefixes.simps[of h "begun s"] m(1) assms(2))
  have run: "\<not> MODE_HALTED (fetched m op1 (begun s))" using start_mode_run[of s] by (simp add: MODE_HALTED_def)
  have "run_instr h flags t0 ofs 0 s = Some (MODE_HALTED u, 0, counted h ofs u)"
    if "run_state ((x86emu_optab ! unat op1) h op1) (fetched m op1 (begun s)) = ((), u)" "intr_type u = 0" "log_text u = None" "debug_len u = 0" for u
    using t p run execute_quiet[OF assms(3-5) that] by (simp add: run_instr_def MODE_HALTED_def)
  then show ?thesis using m(2) by blast
qed

section \<open>Around a run\<close>

lemma start_run_frame:
  assumes "run_state (start_run h) s = (x, t)"
  shows "t = s\<lparr>clock_reads := clock_reads s + 2, iopl_ok := (if iopl_needed s \<and> host_iopl h \<noteq> 3 then False else True)\<rparr>"
  using assms by (auto simp: start_run_def read_time_def tsc_def emu_run)

lemma end_run_plain:
  assumes "log_text v = None"
  shows "snd (run_state (end_run h ofs rs) v) =
    v\<lparr>clock_reads := Suc (clock_reads v), msr := (msr v)(0x12 := host_tsc h (clock_reads v) - ofs)\<rparr>"
  using assms by (simp add: end_run_def tsc_def log_on_def emu_run)

text \<open>A run is its rounds up to the last one.\<close>

lemma run_of_rounds:
  assumes "run_state (start_run h) s = ((t0, ofs), s1)" "rounds h flags t0 ofs (0, s1) (rs, u)" "run_instr h flags t0 ofs rs u = Some (True, rs', v)"
  shows "x86emu_run h flags s = Some (rs', snd (run_state (end_run h ofs rs') v))"
  using assms(1,3) rounds_loop[OF assms(2)] by (simp add: x86emu_run_def run_loop.simps[of h flags t0 ofs rs])

lemma run_one_instr:
  assumes "run_state (start_run h) s = ((t0, ofs), s1)" "run_instr h flags t0 ofs 0 s1 = Some (True, rs, v)"
  shows "x86emu_run h flags s = Some (rs, snd (run_state (end_run h ofs rs) v))"
  by (rule run_of_rounds[OF assms(1) rounds_none assms(2)])

end
