(* ===== verification/Hang.thy ===== *)
theory Hang
  imports Session Steps
begin

text \<open>
  Runs followed to their end. With the log off an instruction byte comes straight from
  the flat memory; so a halt instruction is seen to stop the emulator after one
  instruction, and code that consists of prefixes only to keep it forever.
\<close>

section \<open>Prefixes without end\<close>

text \<open>16 bit code whose segment holds nothing but operand size prefixes.\<close>

definition prefix_trap :: "x86emu \<Rightarrow> bool" where
  "prefix_trap s \<longleftrightarrow> plain s \<and> \<not> MODE_CODE32 s \<and>
     (\<forall>ip. code_at s (sel_base (seg s R_CS_INDEX) + set_lo16 ip (R_EIP s)) 0x66)"

lemma prefix_trap_cong:
  assumes "prefix_trap s" "memio t = memio s" "log_text t = log_text s" "mem_ok (mem t)" "MODE_CODE32 t = MODE_CODE32 s"
    "seg t = seg s" "set_lo16 0 (R_EIP t) = set_lo16 0 (R_EIP s)" "\<And>a c. code_at t a c = code_at s a c"
  shows "prefix_trap t"
proof -
  have "set_lo16 ip (R_EIP t) = set_lo16 ip (R_EIP s)" for ip
    using arg_cong[OF assms(7), of "set_lo16 ip"] by simp
  then show ?thesis using assms by (simp add: prefix_trap_def plain_def)
qed

lemma code32_mode: "(m XOR 8) AND 0x40 = m AND (0x40 :: u32)"
  by (simp add: bit.conj_xor_distrib2)

lemma prefix_trap_step:
  assumes "prefix_trap s"
  shows "\<exists>t. run_state (fetch_byte h) s = (0x66, t) \<and> prefix_trap (snd (run_state (mode_prefix (\<lambda>m. m XOR MODE_DATA32_flag)) t))"
proof -
  have "code_at s (sel_base (seg s R_CS_INDEX) + set_lo16 (lo16 (R_EIP s)) (R_EIP s)) 0x66"
    using assms unfolding prefix_trap_def by blast
  then have "code_at s (code_ptr s) 0x66" by (simp only: narrow_writes(8))
  then obtain m where m: "run_state (fetch_byte h) s = (0x66, fetched m 0x66 s)" "mem_ok m" "\<And>a c. code_at (s\<lparr>mem := m\<rparr>) a c = code_at s a c"
    using fetch_byte_plain[of s "0x66" h] assms by (auto simp: prefix_trap_def)
  let ?t = "(fetched m 0x66 s)\<lparr>mode := mode s XOR MODE_DATA32_flag\<rparr>"
  have c: "\<not> MODE_CODE32 (s\<lparr>mem := m\<rparr>)" "\<not> MODE_CODE32 s" using assms by (simp_all add: prefix_trap_def MODE_CODE32_def)
  have fields: "memio ?t = memio s" "log_text ?t = log_text s" "mem ?t = m" "mode ?t = mode s XOR 8" "seg ?t = seg s"
    "set_lo16 0 (R_EIP ?t) = set_lo16 0 (R_EIP s)" "mode (fetched m 0x66 s) = mode s"
    using c by (simp_all add: fetched_def Let_def advance_ip_def put_instr_def)
  have "prefix_trap ?t"
  proof (rule prefix_trap_cong[OF assms fields(1,2) _ _ fields(5,6)])
    show "mem_ok (mem ?t)" unfolding fields(3) by (rule m(2))
    show "MODE_CODE32 ?t = MODE_CODE32 s" unfolding MODE_CODE32_def fields(4) code32_mode by (rule refl)
    have "code_at ?t a c = code_at (s\<lparr>mem := m\<rparr>) a c" for a c unfolding code_at_def fields(3) by simp
    then show "code_at ?t a c = code_at s a c" for a c by (simp only: m(3))
  qed
  then show ?thesis using m(1) fields(7) by (simp add: mode_prefix_def)
qed

lemma prefixes_trap: "prefix_trap s \<Longrightarrow> prefixes h s = None"
proof (rule ccontr)
  assume "prefixes h s \<noteq> None" and s: "prefix_trap s"
  then obtain r where r: "prefixes h s = Some r" by blast
  have "prefix_trap s \<longrightarrow> False"
  proof (rule prefixes.raw_induct[OF _ r, where P = "\<lambda>h s r. prefix_trap s \<longrightarrow> False"], rule impI)
    fix prefixes' h s r
    assume IH: "\<And>h s r. prefixes' h s = Some r \<Longrightarrow> prefix_trap s \<longrightarrow> False"
      and body: "(case run_state (fetch_byte h) s of (op1, s) \<Rightarrow>
        (case prefix_op op1 of None \<Rightarrow> Some (op1, s) | Some f \<Rightarrow> prefixes' h (snd (run_state f s)))) = Some r"
      and "prefix_trap s"
    then obtain t where t: "run_state (fetch_byte h) s = (0x66, t)"
      "prefix_trap (snd (run_state (mode_prefix (\<lambda>m. m XOR MODE_DATA32_flag)) t))"
      using prefix_trap_step by blast
    have "prefixes' h (snd (run_state (mode_prefix (\<lambda>m. m XOR MODE_DATA32_flag)) t)) = Some r"
      using body t(1) by (simp add: prefix_op_def)
    then show False using IH t(2) by blast
  qed
  then show False using s by blast
qed

text \<open>
  C36. Code that fills a 16 bit code segment with a prefix keeps the emulator in the
  prefix loop of one instruction: the run does not return, whatever instruction limit and
  timeout were set and asked for, unless one of them stops it before the first
  instruction.
\<close>

theorem prefix_hang:
  assumes "prefix_trap s" "\<not> ACC_D (R_CS_ACC s)" "code_check s = None"
    and "in_time s"
  shows "x86emu_run h flags s = None"
proof -
  obtain t0 ofs s1 where st: "run_state (start_run h) s = ((t0, ofs), s1)" by (metis prod.exhaust)
  note s1 = start_run_frame[OF st]
  obtain t where b: "run_state (before_instr h flags t0) s1 = (0, t)" "t\<lparr>decode_seg := CHR ''['' # drop 1 (decode_seg t)\<rparr> = begun s1"
    using before_instr_plain[of s1 h flags t0] assms by (auto simp: s1 prefix_trap_def plain_def in_time_def)
  have "prefix_trap (begun s1)"
  proof (rule prefix_trap_cong[OF assms(1)])
    show "MODE_CODE32 (begun s1) = MODE_CODE32 s"
      using start_mode_16[of s1] assms(1,2) by (simp add: MODE_CODE32_def prefix_trap_def s1)
    show "mem_ok (mem (begun s1))" using assms(1) by (simp add: s1 prefix_trap_def plain_def)
    show "code_at (begun s1) a c = code_at s a c" for a c by (rule code_at_mem) (simp add: s1)
  qed (simp_all add: s1)
  then have "run_instr h flags t0 ofs 0 s1 = None" using b prefixes_trap by (simp add: run_instr_def)
  then show ?thesis by (simp add: x86emu_run_def st run_loop.simps[of h flags t0 ofs 0])
qed

text \<open>Every page mapped to a page of the client that is full of prefixes.\<close>

definition trap_emu :: x86emu where
  "trap_emu = (x86emu_new idle_host (\<lambda>_. 0x66) 0x0f 0)
    \<lparr>mem := \<lparr>mem_pdir = Some (\<lambda>_. Some (\<lambda>_. \<lparr>pg_attr = Some (\<lambda>_. 0x0f), pg_own = (\<lambda>_. 0), pg_data = Ext 0, pg_def_attr = 0x0f\<rparr>)),
        mem_invalid = False, mem_def_attr = 0x0f, host_mem = (\<lambda>_. 0x66)\<rparr>,
      max_instr := 100, timeout := 1, msr := (\<lambda>_. 0)(0x10 := 1)\<rparr>"

lemma trap_emu_fields:
  "memio trap_emu = Vm_memio" "log_text trap_emu = None" "code_check trap_emu = None" "mode trap_emu = 0" "seg trap_emu = reset_seg"
  using x86emu_new_simps(1)[of idle_host "\<lambda>_. 0x66" "0x0f" 0] by (simp_all add: trap_emu_def sandboxed_def)

lemma trap_emu_trap: "prefix_trap trap_emu"
proof -
  have "mem_ok (mem trap_emu)" by (simp add: trap_emu_def mem_ok_def get_page_def)
  moreover have "code_at trap_emu a 0x66" for a
    by (simp add: code_at_def trap_emu_def abs_mem_def get_page_def page_attr_at_def page_cell_at_def)
  ultimately show ?thesis by (simp add: prefix_trap_def plain_def trap_emu_fields MODE_CODE32_def)
qed

lemma prefix_hang_witness: "x86emu_run idle_host 3 trap_emu = None"
  by (rule prefix_hang[OF trap_emu_trap])
     (simp_all add: trap_emu_fields reset_seg_def ACC_D_def bit_numeral_rec in_time_def, simp_all add: trap_emu_def)

section \<open>A halt\<close>

lemma optab_hlt: "x86emu_optab ! 0xf4 = x86emuOp_hlt"
  by (simp add: x86emu_optab_def)

lemma run_hlt:
  "run_state (x86emuOp_hlt h op1) s = ((), s\<lparr>disasm_buf := disasm_buf s @ ''hlt'', mode := mode s OR MODE_HALTED_flag\<rparr>)"
  by (simp add: x86emuOp_hlt_def OP_DECODE_def x86emu_stop_def emu_run)

lemma hlt_instr:
  assumes "ready_for s 0xf4"
  shows "\<exists>v. run_instr h flags t0 ofs 0 s = Some (True, 0, v) \<and> MODE_HALTED v \<and> log_text v = None \<and> R_TSC v = R_TSC s + 1 \<and>
    R_EIP v = (if ACC_D (R_CS_ACC s) then R_EIP s + 1 else set_lo16 (R_IP s + 1) (R_EIP s)) \<and>
    R_EAX v = R_EAX s \<and> R_ECX v = R_ECX s \<and> R_ESP v = R_ESP s \<and> R_ESI v = R_ESI s \<and> R_FLG v = R_FLG s \<and> seg v = seg s \<and>
    same_bytes (mem s) (mem v) \<and> (\<forall>a c. code_at v a c = code_at s a c) \<and> io_trace v = io_trace s"
proof -
  obtain m where m: "same_bytes (mem s) m"
    and step: "\<And>t. run_state ((x86emu_optab ! 0xf4) h 0xf4) (fetched m 0xf4 (begun s)) = ((), t) \<Longrightarrow> intr_type t = 0 \<Longrightarrow>
      log_text t = None \<Longrightarrow> debug_len t = 0 \<Longrightarrow> run_instr h flags t0 ofs 0 s = Some (MODE_HALTED t, 0, counted h ofs t)"
    using plain_instr[OF assms, of h flags t0 ofs] by (auto simp: prefix_op_def)
  let ?f = "fetched m 0xf4 (begun s)"
  let ?t = "?f\<lparr>disasm_buf := disasm_buf ?f @ ''hlt'', mode := mode ?f OR MODE_HALTED_flag\<rparr>"
  have halted: "MODE_HALTED ?t" by (simp add: MODE_HALTED_def bit.conj_disj_distrib2)
  have "run_instr h flags t0 ofs 0 s = Some (MODE_HALTED ?t, 0, counted h ofs ?t)"
    by (rule step) (use assms in \<open>simp_all add: optab_hlt run_hlt ready_for_def plain_def\<close>)
  moreover have "MODE_CODE32 (begun s) = ACC_D (R_CS_ACC s)" by (simp add: MODE_CODE32_def start_mode_def)
  moreover have "code_at (counted h ofs ?t) a c = code_at s a c" for a c by (rule code_at_same) (simp add: m)
  moreover have "MODE_HALTED (counted h ofs ?t)" using halted by (simp add: MODE_HALTED_def)
  ultimately show ?thesis using halted m assms by (auto simp: ready_for_def plain_def)
qed

text \<open>
  A run that starts at a halt instruction ends after it without a complaint: the
  emulator is halted, the instruction pointer is behind the instruction (wrapped to 16
  bits in a 16 bit code segment), one instruction has been counted, and the registers,
  the contents of memory and the ports are what they were.
\<close>

lemma hlt_run:
  assumes "ready_for s 0xf4"
  shows "\<exists>t. x86emu_run h flags s = Some (0, t) \<and> MODE_HALTED t \<and> R_TSC t = R_TSC s + 1 \<and>
    R_EIP t = (if ACC_D (R_CS_ACC s) then R_EIP s + 1 else set_lo16 (R_IP s + 1) (R_EIP s)) \<and>
    R_EAX t = R_EAX s \<and> R_ESP t = R_ESP s \<and> R_FLG t = R_FLG s \<and> seg t = seg s \<and>
    (\<forall>a c. code_at t a c = code_at s a c) \<and> io_trace t = io_trace s"
proof -
  obtain t0 ofs s1 where st: "run_state (start_run h) s = ((t0, ofs), s1)" by (metis prod.exhaust)
  note s1 = start_run_frame[OF st]
  have "ready_for s1 0xf4" using assms by (simp add: ready_for_def s1 plain_def code_at_def in_time_def)
  then obtain v where i: "run_instr h flags t0 ofs 0 s1 = Some (True, 0, v)" and v: "MODE_HALTED v" "log_text v = None"
    "R_TSC v = R_TSC s + 1" "R_EIP v = (if ACC_D (R_CS_ACC s) then R_EIP s + 1 else set_lo16 (R_IP s + 1) (R_EIP s))"
    "R_EAX v = R_EAX s" "R_ESP v = R_ESP s" "R_FLG v = R_FLG s" "seg v = seg s" "\<And>a c. code_at v a c = code_at s a c" "io_trace v = io_trace s"
    using hlt_instr[of s1 h flags t0 ofs] by (auto simp: s1 code_at_def)
  show ?thesis using run_one_instr[OF st i] end_run_plain[OF v(2)] v by (simp add: MODE_HALTED_def code_at_def)
qed

text \<open>A new emulator with the halt instruction where the processor starts.\<close>

definition hlt_emu :: x86emu where
  "hlt_emu = (x86emu_new idle_host (\<lambda>_. 0) 7 0)
    \<lparr>mem := vm_w_byte (emu_mem_new 7 (\<lambda>_. 0)) 0xffff0 0xf4, msr := (\<lambda>_. 0)(0x10 := 1), wrmsr := No_msr, max_instr := 10\<rparr>"

lemma hlt_emu_fields:
  "sandboxed hlt_emu" "log_text hlt_emu = None" "seg hlt_emu = reset_seg" "R_EIP hlt_emu = 0xfff0" "intr_type hlt_emu = 0"
  "debug_len hlt_emu = 0" "instr_len hlt_emu = 0" "wrmsr hlt_emu = No_msr" "max_instr hlt_emu = 10" "R_TSC hlt_emu = 1"
  using x86emu_new_simps(1)[of idle_host "\<lambda>_. 0" 7 0] by (simp_all add: hlt_emu_def sandboxed_def)

lemma hlt_emu_ready: "ready_for hlt_emu 0xf4"
proof -
  have "mem_ok (mem hlt_emu) \<and> abs_mem (mem hlt_emu) = flat_w_byte (abs_mem (emu_mem_new 7 (\<lambda>_. 0))) 0xffff0 0xf4"
    using vm_store_byte[of "emu_mem_new 7 (\<lambda>_. 0)" "0xffff0" "0xf4"] abs_emu_mem_new(1) by (simp add: hlt_emu_def)
  then have "mem_ok (mem hlt_emu)" "code_at hlt_emu 0xffff0 0xf4"
    by (simp_all add: code_at_def flat_w_byte_def abs_emu_mem_new)
  moreover have "memio hlt_emu = Vm_memio" "code_check hlt_emu = None" using hlt_emu_fields(1) by (simp_all add: sandboxed_def)
  ultimately show ?thesis by (simp add: ready_for_def plain_def hlt_emu_fields reset_seg_def in_time_def)
qed

text \<open>A session: the client writes the halt instruction, sets the limit and runs.\<close>

lemma session_hlt: "session idle_host (\<lambda>_. 0) hlt_emu"
proof -
  let ?n = "x86emu_new idle_host (\<lambda>_. 0) 7 0"
  let ?r = "snd (x86emu_set_wrmsr_handler No_msr ?n)"
  have n: "memio ?n = Vm_memio" using x86emu_new_simps(1)[of idle_host "\<lambda>_. 0" 7 0] by (simp add: sandboxed_def)
  have "session idle_host (\<lambda>_. ucast (0 :: u32)) ?n" by (rule session_new)
  then have "session idle_host (grants Remove_wrmsr (\<lambda>_. ucast (0 :: u32))) ?r" by (rule session_call) simp
  then have "session idle_host (grants (Write_byte 0xffff0 0xf4) (grants Remove_wrmsr (\<lambda>_. ucast (0 :: u32))))
      (x86emu_write_byte idle_host ?r 0xffff0 0xf4)" by (rule session_call) simp
  then have "session idle_host (\<lambda>_. 0) (x86emu_write_byte idle_host ?r 0xffff0 0xf4)" by simp
  moreover have "interior hlt_emu = interior (x86emu_write_byte idle_host ?r 0xffff0 0xf4)"
    by (simp add: interior_def handlers_def hlt_emu_def x86emu_set_wrmsr_handler_def x86emu_write_byte_def call_memio_def n
        vm_memio_write Let_def emu_mem_new_def)
  ultimately show ?thesis by (rule session_fields)
qed

lemma session_invariant_witness:
  "\<exists>t. x86emu_run idle_host 0 hlt_emu = Some (0, t) \<and> well_formed t \<and> io_trace t = []"
proof -
  obtain t where t: "x86emu_run idle_host 0 hlt_emu = Some (0, t)" using hlt_run[OF hlt_emu_ready] by blast
  have "session idle_host (grants (Run 0) (\<lambda>_. 0)) t" by (rule session_call[OF session_hlt]) (simp add: t)
  from session_invariant[OF this] have "well_formed t" "\<forall>e\<in>set (io_trace t). \<forall>p\<in>event_ports e. (0 :: u8) AND event_perm e \<noteq> 0"
    by simp_all
  moreover have "event_ports e \<noteq> {}" for e by (cases e) simp_all
  ultimately have "io_trace t = []" by (cases "io_trace t") auto
  with t \<open>well_formed t\<close> show ?thesis by blast
qed

lemma hlt_run_witness: "\<exists>t. x86emu_run idle_host 0x1f hlt_emu = Some (0, t) \<and> MODE_HALTED t \<and> R_EIP t = 0xfff1"
  using hlt_run[OF hlt_emu_ready, of idle_host "0x1f"]
  by (auto simp: hlt_emu_fields reset_seg_def ACC_D_def bit_numeral_rec lo16_def set_lo16_def)

lemma run_confined_witness:
  "\<exists>t. x86emu_run idle_host 0 hlt_emu = Some (0, t) \<and> max_instr t = 10 \<and> instr_len t \<le> 32"
proof -
  obtain t0 ofs s1 where st: "run_state (start_run idle_host) hlt_emu = ((t0, ofs), s1)" by (metis prod.exhaust)
  note s1 = start_run_frame[OF st]
  have "ready_for s1 0xf4" using hlt_emu_ready by (simp add: ready_for_def s1 plain_def code_at_def in_time_def)
  then obtain v where "run_instr idle_host 0 t0 ofs 0 s1 = Some (True, 0, v)" using hlt_instr by blast
  note r = run_one_instr[OF st this]
  have "sandboxed s1" using hlt_emu_fields(1) by (simp add: s1 sandboxed_def)
  then show ?thesis using run_confined[of idle_host hlt_emu 0]
    by (auto simp: r st s1 same_limits_def buffered_def hlt_emu_fields)
qed

lemma rounds_stop:
  "rounds h flags t0 ofs (rs, s) (rs', s') \<Longrightarrow> run_instr h flags t0 ofs rs s = Some (True, r) \<Longrightarrow> rs' = rs \<and> s' = s"
  by (induction "(rs', s')" arbitrary: rs' s' rule: rounds.induct) auto

lemma run_ends_witness: "x86emu_run idle_host 2 hlt_emu \<noteq> None"
proof -
  obtain t0 ofs s1 where st: "run_state (start_run idle_host) hlt_emu = ((t0, ofs), s1)" by (metis prod.exhaust)
  note s1 = start_run_frame[OF st]
  have "ready_for s1 0xf4" using hlt_emu_ready by (simp add: ready_for_def s1 plain_def code_at_def in_time_def)
  then obtain v where v: "run_instr idle_host 2 t0 ofs 0 s1 = Some (True, 0, v)" using hlt_instr by blast
  have "run_instr idle_host 2 t0 ofs rs' s' \<noteq> None" if "rounds idle_host 2 t0 ofs (0, s1) (rs', s')" for rs' s'
    using rounds_stop[OF that v] v by simp
  then show ?thesis using run_ends[OF hlt_emu_fields(1,8) _ _ st] by (simp add: hlt_emu_fields)
qed

end
