(* ===== verification/Program.thy ===== *)
theory Program
  imports Strings Instr Hang
begin

text \<open>
  A program followed through \<^verbatim>\<open>x86emu_run\<close>: the loop over \<^verbatim>\<open>lodsb\<close>, \<^verbatim>\<open>sub ah,al\<close>, \<^verbatim>\<open>loop\<close> that
  firmware uses to check the sum of a block of memory, and the halt after it.
\<close>

section \<open>Quiet states\<close>

text \<open>
  The log is off, no handler of the client runs and no interrupt waits; what the
  instructions below leave alone; and the room the limits leave.
\<close>

definition quiet :: "x86emu \<Rightarrow> bool" where
  "quiet s \<longleftrightarrow> plain s \<and> code_check s = None \<and> intr_type s = 0 \<and> debug_len s = 0"

definition frame where
  "frame s = (memio s, log_text s, code_check s, intr_type s, debug_len s, seg s, max_instr s, timeout s, io_trace s)"

definition follows :: "nat \<Rightarrow> x86emu \<Rightarrow> x86emu \<Rightarrow> bool" where
  "follows n s v \<longleftrightarrow> frame v = frame s \<and> R_TSC v = R_TSC s + of_nat n \<and> same_bytes (mem s) (mem v)"

definition room :: "x86emu \<Rightarrow> nat \<Rightarrow> bool" where
  "room s n \<longleftrightarrow> timeout s = 0 \<and> (max_instr s = 0 \<or> unat (R_TSC s) + n < unat (max_instr s))"

lemma frame_begun [simp]: "frame (begun s) = frame s" "frame (fetched m b s) = frame s" "frame (counted h ofs s) = frame s"
  by (simp_all add: frame_def)

lemma frame_upd [simp]: "frame (s\<lparr>disasm_buf := d\<rparr>) = frame s" "frame (s\<lparr>R_FLG := f\<rparr>) = frame s" "frame (set8 r v s) = frame s"
  "frame (s\<lparr>R_EAX := a\<rparr>) = frame s" "frame (s\<lparr>R_ECX := a\<rparr>) = frame s" "frame (s\<lparr>R_ESI := a\<rparr>) = frame s" "frame (s\<lparr>R_EIP := a\<rparr>) = frame s"
  "frame (s\<lparr>mem := m\<rparr>) = frame s"
  by (simp_all add: frame_def set8_def set32_def)

lemma same_bytes_trans: "same_bytes m m' \<Longrightarrow> same_bytes m' m'' \<Longrightarrow> same_bytes m m''"
  by (simp add: same_bytes_iff)

lemma then_follows: "follows n s u \<Longrightarrow> follows k u v \<Longrightarrow> follows (n + k) s v"
  by (simp add: follows_def) (metis same_bytes_trans)

lemma follows_quiet: "follows n s v \<Longrightarrow> quiet s \<Longrightarrow> quiet v"
  by (simp add: follows_def frame_def quiet_def plain_def same_bytes_iff)

lemma follows_seg: "follows n s v \<Longrightarrow> seg v = seg s"
  by (simp add: follows_def frame_def)

lemma follows_room: "follows n s v \<Longrightarrow> room s (n + k) \<Longrightarrow> room v k"
proof -
  assume f: "follows n s v" and r: "room s (n + k)"
  have eq: "timeout v = timeout s" "max_instr v = max_instr s" "R_TSC v = R_TSC s + of_nat n" using f by (simp_all add: follows_def frame_def)
  show "room v k"
  proof (cases "max_instr s = 0")
    case False
    then have lt: "unat (R_TSC s) + (n + k) < unat (max_instr s)" using r by (simp add: room_def)
    moreover have "unat (max_instr s) < 2 ^ 64" using unsigned_less[of "max_instr s", where ?'a = nat] by simp
    ultimately have "unat (R_TSC s + of_nat n) = unat (R_TSC s) + n" by (simp add: unat_word_ariths unat_of_nat)
    then show ?thesis using lt r eq by (simp add: room_def)
  qed (use r eq in \<open>simp add: room_def\<close>)
qed

lemma room_in_time: "room s n \<Longrightarrow> in_time s"
  by (auto simp: room_def in_time_def word_less_nat_alt)

text \<open>A quiet instruction: its handler keeps the frame.\<close>

lemma quiet_instr:
  assumes "quiet s" "in_time s" "code_at s (code_ptr s) op1" "prefix_op op1 = None" "op1 \<noteq> 0" "op1 \<noteq> 0xe9" "op1 \<noteq> 0xeb"
    and handler: "\<And>m. plain (fetched m op1 (begun s)) \<Longrightarrow> same_bytes (mem s) m \<Longrightarrow>
      \<exists>t. run_state ((x86emu_optab ! unat op1) h op1) (fetched m op1 (begun s)) = ((), t) \<and> frame t = frame s \<and> R_TSC t = R_TSC s \<and>
        same_bytes m (mem t) \<and> \<not> MODE_HALTED t \<and> Q (counted h ofs t)"
  shows "\<exists>v. rounds h flags t0 ofs (0, s) (0, v) \<and> follows 1 s v \<and> Q v"
proof -
  have ready: "ready_for s op1" using assms(1-3) by (simp add: quiet_def ready_for_def)
  obtain m where m: "same_bytes (mem s) m"
    and step: "\<And>t. run_state ((x86emu_optab ! unat op1) h op1) (fetched m op1 (begun s)) = ((), t) \<Longrightarrow> intr_type t = 0 \<Longrightarrow>
      log_text t = None \<Longrightarrow> debug_len t = 0 \<Longrightarrow> run_instr h flags t0 ofs 0 s = Some (MODE_HALTED t, 0, counted h ofs t)"
    using plain_instr[OF ready assms(4-7), of h flags t0 ofs] by blast
  have "plain (fetched m op1 (begun s))" using assms(1) m by (simp add: quiet_def plain_def same_bytes_iff)
  then obtain t where t: "run_state ((x86emu_optab ! unat op1) h op1) (fetched m op1 (begun s)) = ((), t)" "frame t = frame s" "R_TSC t = R_TSC s"
    "same_bytes m (mem t)" "\<not> MODE_HALTED t" "Q (counted h ofs t)"
    using handler[OF _ m] by blast
  have "run_instr h flags t0 ofs 0 s = Some (MODE_HALTED t, 0, counted h ofs t)"
    by (rule step[OF t(1)]) (use t(2) assms(1) in \<open>simp_all add: frame_def quiet_def plain_def\<close>)
  then have "rounds h flags t0 ofs (0, s) (0, counted h ofs t)" using rounds_more[OF rounds_none] t(5) by metis
  then show ?thesis using t same_bytes_trans[OF m t(4)] by (intro exI[of _ "counted h ofs t"]) (simp add: follows_def)
qed

section \<open>The instructions of the program\<close>

text \<open>In a 16 bit code segment the instruction pointer is a word.\<close>

definition at16 :: "x86emu \<Rightarrow> u16 \<Rightarrow> bool" where
  "at16 s p \<longleftrightarrow> \<not> ACC_D (R_CS_ACC s) \<and> R_EIP s = ucast p"

lemma word_ip: "lo16 (ucast p) = p" "set_lo16 q (ucast p) = ucast q" "set_lo16 (lo16 (ucast p) + 1) (ucast p) = ucast (p + 1)" for p q :: u16
proof -
  show 1: "lo16 (ucast p) = p" by (rule bit_word_eqI) (auto simp: lo16_def bit_simps)
  show 2: "set_lo16 q (ucast p) = ucast q" for q :: u16 by (rule bit_word_eqI) (auto simp: bit_set_lo16 bit_simps dest: bit_imp_le_length)
  show "set_lo16 (lo16 (ucast p) + 1) (ucast p) = ucast (p + 1)" by (simp only: 1 2)
qed

lemma mode16: "\<not> ACC_D (R_CS_ACC s) \<Longrightarrow> start_mode s = (if ACC_D (R_SS_ACC s) then MODE_STACK32_flag else 0)"
  by (simp add: start_mode_def)

lemma fetched_16:
  assumes "at16 s p"
  shows "R_EIP (fetched m b (begun s)) = ucast (p + 1)" "\<not> MODE_CODE32 (fetched m b (begun s))" "\<not> MODE_DATA32 (fetched m b (begun s))"
    "\<not> MODE_ADDR32 (fetched m b (begun s))" "\<not> MODE_REP (fetched m b (begun s))" "\<not> MODE_HALTED (fetched m b (begun s))"
    "get_data_segment (fetched m b (begun s)) = R_DS_INDEX"
proof -
  have "MODE_CODE32 (begun s) = False" using assms by (simp add: MODE_CODE32_def start_mode_def at16_def)
  then show "R_EIP (fetched m b (begun s)) = ucast (p + 1)" using assms by (simp add: at16_def word_ip)
  show "\<not> MODE_CODE32 (fetched m b (begun s))" "\<not> MODE_DATA32 (fetched m b (begun s))" "\<not> MODE_ADDR32 (fetched m b (begun s))"
    "\<not> MODE_REP (fetched m b (begun s))" "\<not> MODE_HALTED (fetched m b (begun s))" "get_data_segment (fetched m b (begun s)) = R_DS_INDEX"
    using assms[unfolded at16_def] mode16[of s] by (simp_all add: MODE_CODE32_def MODE_DATA32_def MODE_ADDR32_def MODE_REP_def MODE_HALTED_def get_data_segment_def)
qed

text \<open>The byte at an offset of the data segment can be read.\<close>

definition data_ok :: "x86emu \<Rightarrow> u16 \<Rightarrow> bool" where
  "data_ok s x \<longleftrightarrow> in_limit s R_DS_INDEX (ucast x) 1 \<and> readable (mem s) (sel_base (seg s R_DS_INDEX) + ucast x)"

definition data_byte :: "x86emu \<Rightarrow> u16 \<Rightarrow> u8" where
  "data_byte s x = mem_byte (mem s) (sel_base (seg s R_DS_INDEX) + ucast x)"

lemma follows_data: "follows n s v \<Longrightarrow> data_ok v x = data_ok s x" "follows n s v \<Longrightarrow> data_byte v x = data_byte s x"
  by (simp_all add: follows_def frame_def data_ok_def data_byte_def in_limit_def same_bytes_iff mem_byte_def)

lemma optab_program: "x86emu_optab ! 0xac = x86emuOp_lods_byte" "x86emu_optab ! 0x28 = x86emuOp_op_A_byte_RM_R" "x86emu_optab ! 0xe2 = x86emuOp_loop"
  by (simp_all add: x86emu_optab_def)

lemma lods_step:
  assumes "quiet s" "in_time s" "at16 s p" "code_at s (code_ptr s) 0xac" "\<not> ACCESS_FLAG F_DF (R_FLG s)" "data_ok s (R_SI s)"
  shows "\<exists>v. rounds h flags t0 ofs (0, s) (0, v) \<and> follows 1 s v \<and> R_EIP v = ucast (p + 1) \<and> R_EAX v = set_lo8 (data_byte s (R_SI s)) (R_EAX s) \<and>
    R_ESI v = set_lo16 (R_SI s + 1) (R_ESI s) \<and> R_ECX v = R_ECX s \<and> R_FLG v = R_FLG s"
proof (rule quiet_instr[OF assms(1,2,4)])
  fix m
  let ?u = "fetched m 0xac (begun s)"
  assume u: "plain ?u" and m: "same_bytes (mem s) m"
  let ?d = "disasm_buf ?u @ ''lodsb''"
  have "plain (?u\<lparr>disasm_buf := ?d\<rparr>)" using u by (simp add: plain_def)
  moreover have "in_limit (?u\<lparr>disasm_buf := ?d\<rparr>) R_DS_INDEX (ucast (R_SI s)) 1" "readable (mem (?u\<lparr>disasm_buf := ?d\<rparr>)) (sel_base (seg (?u\<lparr>disasm_buf := ?d\<rparr>) R_DS_INDEX) + ucast (R_SI s))"
    using assms(6) m by (simp_all add: data_ok_def in_limit_def same_bytes_iff)
  ultimately obtain m' where m': "same_bytes m m'" "run_state (fetch_data_byte_abs h R_DS_INDEX (ucast (R_SI s))) (?u\<lparr>disasm_buf := ?d\<rparr>) =
      (data_byte s (R_SI s), ?u\<lparr>disasm_buf := ?d, mem := m'\<rparr>)"
    using run_fetch_byte_abs[of "?u\<lparr>disasm_buf := ?d\<rparr>" R_DS_INDEX "ucast (R_SI s)" h] m
    by (auto simp: data_byte_def same_bytes_iff mem_byte_def)
  note f = fetched_16[OF assms(3), of m "0xac"]
  have seg: "get_data_segment (?u\<lparr>disasm_buf := ?d\<rparr>) = R_DS_INDEX" using f(7) by (simp add: get_data_segment_def)
  let ?t = "?u\<lparr>disasm_buf := ?d, R_EAX := set_lo8 (data_byte s (R_SI s)) (R_EAX s), R_ESI := set_lo16 (R_SI s + 1) (R_ESI s), mem := m'\<rparr>"
  have "run_state (x86emuOp_lods_byte h 0xac) ?u = ((), ?t)"
    using f assms(5) m'(2) seg
    by (simp add: x86emuOp_lods_byte_def emu_run run_OP_DECODE MODE_CODE32_def MODE_ADDR32_def MODE_REP_def fetch_data_byte_def)
  moreover have "\<not> MODE_HALTED ?t" using f(6) by (simp add: MODE_HALTED_def)
  ultimately show "\<exists>t. run_state ((x86emu_optab ! unat (0xac :: u8)) h 0xac) ?u = ((), t) \<and> frame t = frame s \<and> R_TSC t = R_TSC s \<and>
      same_bytes m (mem t) \<and> \<not> MODE_HALTED t \<and>
      R_EIP (counted h ofs t) = ucast (p + 1) \<and> R_EAX (counted h ofs t) = set_lo8 (data_byte s (R_SI s)) (R_EAX s) \<and>
      R_ESI (counted h ofs t) = set_lo16 (R_SI s + 1) (R_ESI s) \<and> R_ECX (counted h ofs t) = R_ECX s \<and> R_FLG (counted h ofs t) = R_FLG s"
    using m'(1) f(1) by (intro exI[of _ ?t]) (simp add: optab_program frame_def)
qed (simp_all add: prefix_op_def)

lemma sub_byte_DF: "ACCESS_FLAG F_DF (snd (sub_byte f a b)) = ACCESS_FLAG F_DF f"
proof -
  have "g AND 0x400 = other_flags g AND 0x400" for g unfolding other_flags_def by (simp add: and.assoc)
  moreover have "other_flags (snd (sub_byte f a b)) = other_flags f" using sub_byte_correct[of f a b] by (simp add: alu_result_def)
  ultimately show ?thesis unfolding ACCESS_FLAG_def by metis
qed

text \<open>The byte after the opcode.\<close>

lemma second_byte:
  assumes "at16 s p" "plain (fetched m op1 (begun s))" "same_bytes (mem s) m" "code_at s (sel_base (seg s R_CS_INDEX) + ucast (p + 1)) b"
  shows "code_at (fetched m op1 (begun s)) (code_ptr (fetched m op1 (begun s))) b"
    "R_EIP (fetched m' b (fetched m op1 (begun s))) = ucast (p + 2)"
proof -
  note f = fetched_16[OF assms(1), of m op1]
  have "code_at (fetched m op1 (begun s)) a b = code_at s a b" for a by (rule code_at_same) (simp add: assms(3))
  then show "code_at (fetched m op1 (begun s)) (code_ptr (fetched m op1 (begun s))) b" 
    using assms(4) unfolding f(1) by simp
  have "p + 1 + 1 = p + 2" by simp
  then show "R_EIP (fetched m' b (fetched m op1 (begun s))) = ucast (p + 2)"
    using f(2) unfolding fetched_fields(19)[of m' b] by (simp only: f(1) word_ip if_False)
qed

lemma sub_step:
  assumes "quiet s" "in_time s" "at16 s p" "code_at s (code_ptr s) 0x28" "code_at s (sel_base (seg s R_CS_INDEX) + ucast (p + 1)) 0xc4"
  shows "\<exists>v. rounds h flags t0 ofs (0, s) (0, v) \<and> follows 1 s v \<and> R_EIP v = ucast (p + 2) \<and> hi8 (R_EAX v) = hi8 (R_EAX s) - lo8 (R_EAX s) \<and>
    R_ESI v = R_ESI s \<and> R_ECX v = R_ECX s \<and> ACCESS_FLAG F_DF (R_FLG v) = ACCESS_FLAG F_DF (R_FLG s)"
proof (rule quiet_instr[OF assms(1,2,4)])
  fix m
  let ?u = "fetched m 0x28 (begun s)"
  assume u: "plain ?u" and m: "same_bytes (mem s) m"
  note b = second_byte[OF assms(3) u m assms(5)]
  let ?r = "sub_byte (R_FLG s) (hi8 (R_EAX s)) (lo8 (R_EAX s))"
  have regs: "op_A_byte ! 5 = sub_byte" "get8 4 (begun s) = hi8 (R_EAX s)" "get8 0 (begun s) = lo8 (R_EAX s)"
    by (simp_all add: op_A_byte_def get8_def get32_def)
  obtain m' d where t: "run_state (x86emuOp_op_A_byte_RM_R h 0x28) ?u = ((), set8 4 (fst ?r) ((fetched m' 0xc4 ?u)\<lparr>disasm_buf := d, R_FLG := snd ?r\<rparr>))"
    "same_bytes m m'"
    using run_alu_reg_reg[OF u b(1), of "0x28" h] unfolding get32_fetched by (auto simp: regs)
  let ?t = "set8 4 (fst ?r) ((fetched m' 0xc4 ?u)\<lparr>disasm_buf := d, R_FLG := snd ?r\<rparr>)"
  have set8: "set8 4 v w = w\<lparr>R_EAX := set_hi8 v (R_EAX w)\<rparr>" for v w by (simp add: set8_def set32_def get32_def)
  have "\<not> MODE_HALTED ?t" using fetched_16(6)[OF assms(3), of m "0x28"] by (simp add: MODE_HALTED_def set8)
  moreover have "fst ?r = hi8 (R_EAX s) - lo8 (R_EAX s)" using sub_byte_correct by (simp add: alu_result_def)
  ultimately show "\<exists>t. run_state ((x86emu_optab ! unat (0x28 :: u8)) h 0x28) ?u = ((), t) \<and> frame t = frame s \<and> R_TSC t = R_TSC s \<and>
      same_bytes m (mem t) \<and> \<not> MODE_HALTED t \<and> R_EIP (counted h ofs t) = ucast (p + 2) \<and>
      hi8 (R_EAX (counted h ofs t)) = hi8 (R_EAX s) - lo8 (R_EAX s) \<and> R_ESI (counted h ofs t) = R_ESI s \<and>
      R_ECX (counted h ofs t) = R_ECX s \<and> ACCESS_FLAG F_DF (R_FLG (counted h ofs t)) = ACCESS_FLAG F_DF (R_FLG s)"
    using t b(2)[of m'] by (intro exI[of _ ?t]) (simp add: optab_program set8 sub_byte_DF del: fetched_fields(19))
qed (simp_all add: prefix_op_def)

lemma jump_back: "(ucast p + scast b :: u32) AND 0xffff = ucast (p + scast b :: u16)" for p :: u16 and b :: u8
proof -
  have add: "(ucast (x + y) :: u16) = ucast x + ucast y" for x y :: u32 by (rule ucast_down_add) simp
  have "(ucast (ucast p :: u32) :: u16) = p" "(ucast (scast b :: u32) :: u16) = scast b"
    by (rule bit_word_eqI, auto simp: bit_simps)+
  then have "(ucast (ucast p + scast b :: u32) :: u16) = p + scast b" by (simp add: add)
  moreover have "r AND 0xffff = ucast (ucast r :: u16)" for r :: u32
    by (rule bit_word_eqI) (auto simp: bit_simps bit_numeral_rec less_Suc_eq numeral_eq_Suc)
  ultimately show ?thesis by simp
qed

lemma loop_step:
  assumes "quiet s" "in_time s" "at16 s p" "code_at s (code_ptr s) 0xe2" "code_at s (sel_base (seg s R_CS_INDEX) + ucast (p + 1)) b"
  shows "\<exists>v. rounds h flags t0 ofs (0, s) (0, v) \<and> follows 1 s v \<and>
    R_EIP v = (if R_CX s = 1 then ucast (p + 2) else ucast (p + 2 + scast b)) \<and> R_EAX v = R_EAX s \<and>
    R_ESI v = R_ESI s \<and> R_CX v = R_CX s - 1 \<and> R_FLG v = R_FLG s"
proof (rule quiet_instr[OF assms(1,2,4)])
  fix m
  let ?u = "fetched m 0xe2 (begun s)"
  assume u: "plain ?u" and m: "same_bytes (mem s) m"
  let ?d = "disasm_buf ?u @ ''loop ''"
  have u': "plain (?u\<lparr>disasm_buf := ?d\<rparr>)" using u by (simp add: plain_def)
  have "code_at (?u\<lparr>disasm_buf := ?d\<rparr>) (code_ptr (?u\<lparr>disasm_buf := ?d\<rparr>)) b" using second_byte(1)[OF assms(3) u m assms(5)] by (simp add: code_at_def)
  then obtain m' where f: "run_state (fetch_byte h) (?u\<lparr>disasm_buf := ?d\<rparr>) = (b, fetched m' b (?u\<lparr>disasm_buf := ?d\<rparr>))" "same_bytes m m'"
    using fetch_byte_same[OF u'] by fastforce
  show "\<exists>t. run_state ((x86emu_optab ! unat (0xe2 :: u8)) h 0xe2) ?u = ((), t) \<and> frame t = frame s \<and> R_TSC t = R_TSC s \<and>
      same_bytes m (mem t) \<and> \<not> MODE_HALTED t \<and> R_EIP (counted h ofs t) = (if R_CX s = 1 then ucast (p + 2) else ucast (p + 2 + scast b)) \<and>
      R_EAX (counted h ofs t) = R_EAX s \<and> R_ESI (counted h ofs t) = R_ESI s \<and>
      R_CX (counted h ofs t) = R_CX s - 1 \<and> R_FLG (counted h ofs t) = R_FLG s"
  proof -
    define v where "v = fetched m' b (?u\<lparr>disasm_buf := ?d\<rparr>)"
    have u16: "MODE_CODE32 (?u\<lparr>disasm_buf := ?d\<rparr>) = False" "R_EIP (?u\<lparr>disasm_buf := ?d\<rparr>) = ucast (p + 1)" "p + 1 + 1 = p + 2"
      using fetched_16(1,2)[OF assms(3), of m "0xe2"] by (simp_all add: MODE_CODE32_def del: fetched_fields(19))
    have ip: "R_EIP v = ucast (p + 2)" unfolding v_def fetched_fields(19)[of m'] u16(1,2) if_False word_ip u16(3) by (rule refl)
    have v: "frame v = frame s" "R_TSC v = R_TSC s" "mem v = m'" "R_EAX v = R_EAX s" "R_ECX v = R_ECX s" "R_ESI v = R_ESI s" "R_FLG v = R_FLG s"
      by (simp_all add: v_def)
    have mode: "\<not> MODE_DATA32 v" "\<not> MODE_HALTED v"
      using fetched_16(3,6)[OF assms(3), of m "0xe2"] by (simp_all add: v_def MODE_DATA32_def MODE_HALTED_def)
    let ?w = "v\<lparr>disasm_buf := disasm_buf v @ decode_hex_addr v (ucast (p + 2) + scast b), R_ECX := set_lo16 (R_CX s - 1) (R_ECX s)\<rparr>"
    let ?t = "if R_CX s = 1 then ?w else ?w\<lparr>R_EIP := ucast (p + 2 + scast b)\<rparr>"
    have "run_state (x86emuOp_loop h 0xe2) ?u = ((), ?t)"
      using mode(1) f(1)[folded v_def] jump_back[of "p + 2" b]
      by (simp add: x86emuOp_loop_def emu_run run_OP_DECODE DECODE_HEX_ADDR_def MODE_DATA32_def ip v)
    moreover have "\<not> MODE_HALTED ?t" using mode(2) by (simp add: MODE_HALTED_def)
    ultimately show ?thesis using f(2) v ip
      by (intro exI[of _ ?t]) (simp add: optab_program)
  qed
qed (simp_all add: prefix_op_def)

section \<open>The program\<close>

text \<open>\<^verbatim>\<open>lodsb; sub ah,al; loop\<close> back to the start, \<^verbatim>\<open>hlt\<close>.\<close>

definition checksum_code :: "u8 list" where
  "checksum_code = [0xac, 0x28, 0xc4, 0xe2, 0xfb, 0xf4]"

definition loaded :: "x86emu \<Rightarrow> u16 \<Rightarrow> bool" where
  "loaded s p \<longleftrightarrow> (\<forall>i<6. code_at s (sel_base (seg s R_CS_INDEX) + ucast (p + of_nat i)) (checksum_code ! i))"

lemma loaded_bytes:
  assumes "loaded s p" "seg v = seg s" "same_bytes (mem s) (mem v)"
  shows "code_at v (sel_base (seg v R_CS_INDEX) + ucast p) 0xac" "code_at v (sel_base (seg v R_CS_INDEX) + ucast (p + 1)) 0x28"
    "code_at v (sel_base (seg v R_CS_INDEX) + ucast (p + 2)) 0xc4" "code_at v (sel_base (seg v R_CS_INDEX) + ucast (p + 3)) 0xe2"
    "code_at v (sel_base (seg v R_CS_INDEX) + ucast (p + 4)) 0xfb" "code_at v (sel_base (seg v R_CS_INDEX) + ucast (p + 5)) 0xf4"
proof -
  have c: "code_at v (sel_base (seg v R_CS_INDEX) + ucast (p + of_nat i)) (checksum_code ! i)" if "i < 6" for i
    using assms that by (simp add: loaded_def code_at_same)
  from c[of 0] c[of 1] c[of 2] c[of 3] c[of 4] c[of 5] show
    "code_at v (sel_base (seg v R_CS_INDEX) + ucast p) 0xac" "code_at v (sel_base (seg v R_CS_INDEX) + ucast (p + 1)) 0x28"
    "code_at v (sel_base (seg v R_CS_INDEX) + ucast (p + 2)) 0xc4" "code_at v (sel_base (seg v R_CS_INDEX) + ucast (p + 3)) 0xe2"
    "code_at v (sel_base (seg v R_CS_INDEX) + ucast (p + 4)) 0xfb" "code_at v (sel_base (seg v R_CS_INDEX) + ucast (p + 5)) 0xf4"
    by (simp_all add: checksum_code_def)
qed

lemma follows_loaded: "follows n s v \<Longrightarrow> loaded v p = loaded s p"
  using code_at_same[of s v] by (simp add: follows_def frame_def loaded_def)

lemma rounds_then: "rounds h flags t0 ofs c (0, u) \<Longrightarrow> rounds h flags t0 ofs (0, u) (0, v) \<Longrightarrow> rounds h flags t0 ofs c (0, v)"
  by (rule rounds_trans)

text \<open>Once around the loop.\<close>

lemma checksum_round:
  assumes "quiet s" "room s 3" "at16 s p" "loaded s p" "\<not> ACCESS_FLAG F_DF (R_FLG s)" "data_ok s (R_SI s)"
  shows "\<exists>v. rounds h flags t0 ofs (0, s) (0, v) \<and> follows 3 s v \<and> R_EIP v = ucast (if R_CX s = 1 then p + 5 else p) \<and>
    hi8 (R_EAX v) = hi8 (R_EAX s) - data_byte s (R_SI s) \<and> R_SI v = R_SI s + 1 \<and> R_CX v = R_CX s - 1 \<and> \<not> ACCESS_FLAG F_DF (R_FLG v)"
proof -
  have code: "code_at v (sel_base (seg v R_CS_INDEX) + ucast (p + 1)) 0x28" "code_at v (sel_base (seg v R_CS_INDEX) + ucast (p + 1 + 1)) 0xc4"
    "code_at v (sel_base (seg v R_CS_INDEX) + ucast (p + 3)) 0xe2" "code_at v (sel_base (seg v R_CS_INDEX) + ucast (p + 3 + 1)) 0xfb" if "follows n s v" for n v
  proof -
    have eq: "p + 1 + 1 = p + 2" "p + 3 + 1 = p + 4" by simp_all
    have "seg v = seg s" "same_bytes (mem s) (mem v)" using that by (simp_all add: follows_def frame_def)
    note c = loaded_bytes[OF assms(4) this]
    show "code_at v (sel_base (seg v R_CS_INDEX) + ucast (p + 1)) 0x28" "code_at v (sel_base (seg v R_CS_INDEX) + ucast (p + 1 + 1)) 0xc4"
      "code_at v (sel_base (seg v R_CS_INDEX) + ucast (p + 3)) 0xe2" "code_at v (sel_base (seg v R_CS_INDEX) + ucast (p + 3 + 1)) 0xfb"
      unfolding eq by (rule c)+
  qed
  have "code_at s (code_ptr s) 0xac" using loaded_bytes(1)[OF assms(4), of s] assms(1,3) by (simp add: at16_def quiet_def plain_def)
  moreover have rooms: "room s (1 + 2)" "room s (2 + 1)" using assms(2) by (simp_all add: numeral_3_eq_3)
  ultimately obtain u where u: "rounds h flags t0 ofs (0, s) (0, u)" "follows 1 s u" "R_EIP u = ucast (p + 1)"
    "R_EAX u = set_lo8 (data_byte s (R_SI s)) (R_EAX s)" "R_ESI u = set_lo16 (R_SI s + 1) (R_ESI s)" "R_ECX u = R_ECX s" "R_FLG u = R_FLG s"
    using lods_step[OF assms(1) room_in_time[OF assms(2)] assms(3) _ assms(5,6), of h flags t0 ofs] by blast
  have u': "quiet u" "in_time u" "at16 u (p + 1)" "code_at u (code_ptr u) 0x28"
    using follows_quiet[OF u(2) assms(1)] room_in_time[OF follows_room[OF u(2) rooms(1)]] assms(3) follows_seg[OF u(2)] code(1)[OF u(2)]
    by (simp_all add: at16_def u(3))
  obtain w where w: "rounds h flags t0 ofs (0, u) (0, w)" "follows 1 u w" "R_EIP w = ucast (p + 1 + 2)" "hi8 (R_EAX w) = hi8 (R_EAX u) - lo8 (R_EAX u)"
    "R_ESI w = R_ESI u" "R_ECX w = R_ECX u" "ACCESS_FLAG F_DF (R_FLG w) = ACCESS_FLAG F_DF (R_FLG u)"
    using sub_step[OF u' code(2)[OF u(2)], of h flags t0 ofs] by blast
  have f2: "follows 2 s w" using then_follows[OF u(2) w(2)] by (simp add: numeral_2_eq_2)
  have p3: "p + 1 + 2 = p + 3" by simp
  have w': "quiet w" "in_time w" "at16 w (p + 3)" "code_at w (code_ptr w) 0xe2"
    using follows_quiet[OF f2 assms(1)] room_in_time[OF follows_room[OF f2 rooms(2)]] assms(3) follows_seg[OF f2] code(3)[OF f2]
    by (simp_all add: at16_def w(3)[unfolded p3])
  obtain v where v: "rounds h flags t0 ofs (0, w) (0, v)" "follows 1 w v" "R_EIP v = (if R_CX w = 1 then ucast (p + 3 + 2) else ucast (p + 3 + 2 + scast (0xfb :: u8)))"
    "R_EAX v = R_EAX w" "R_ESI v = R_ESI w" "R_CX v = R_CX w - 1" "R_FLG v = R_FLG w"
    using loop_step[OF w' code(4)[OF f2], of h flags t0 ofs] by blast
  have minus5: "(scast (0xfb :: u8) :: u16) = - 5" by simp
  have "follows 3 s v" using then_follows[OF f2 v(2)] by (simp add: numeral_3_eq_3)
  moreover have "rounds h flags t0 ofs (0, s) (0, v)" by (rule rounds_then[OF u(1) rounds_then[OF w(1) v(1)]])
  ultimately show ?thesis using u(4-7) v(3-7) w(4-7) assms(5) by (intro exI[of _ v]) (simp add: minus5 add.commute)
qed

text \<open>The whole loop.\<close>

lemma checksum_rounds:
  assumes "quiet s" "room s (3 * n)" "at16 s p" "loaded s p" "\<not> ACCESS_FLAG F_DF (R_FLG s)" "R_CX s = of_nat n" "0 < n" "n \<le> 65536"
    and "\<And>i. i < n \<Longrightarrow> data_ok s (R_SI s + of_nat i)"
  shows "\<exists>v. rounds h flags t0 ofs (0, s) (0, v) \<and> follows (3 * n) s v \<and> R_EIP v = ucast (p + 5) \<and>
    hi8 (R_EAX v) = hi8 (R_EAX s) - (\<Sum>i<n. data_byte s (R_SI s + of_nat i)) \<and> R_SI v = R_SI s + of_nat n \<and> R_CX v = 0"
  using assms
proof (induction n arbitrary: s)
  case (Suc n)
  have "room s 3" using Suc.prems(2) by (auto simp: room_def)
  moreover have "data_ok s (R_SI s)" using Suc.prems(9)[of 0] by simp
  ultimately obtain u where u: "rounds h flags t0 ofs (0, s) (0, u)" "follows 3 s u" "R_EIP u = ucast (if R_CX s = 1 then p + 5 else p)"
    "hi8 (R_EAX u) = hi8 (R_EAX s) - data_byte s (R_SI s)" "R_SI u = R_SI s + 1" "R_CX u = R_CX s - 1" "\<not> ACCESS_FLAG F_DF (R_FLG u)"
    using checksum_round[OF Suc.prems(1) _ Suc.prems(3-5), of h flags t0 ofs] by blast
  show ?case
  proof (cases "n = 0")
    case True
    then show ?thesis using u Suc.prems(6) by (intro exI[of _ u]) simp
  next
    case False
    have cx: "R_CX u = of_nat n" "R_CX s \<noteq> 1"
    proof -
      show "R_CX u = of_nat n" using u(6) Suc.prems(6) by simp
      have "(of_nat n :: u16) \<noteq> 0" using False Suc.prems(8) by (simp add: of_nat_eq_0_iff word_of_nat_eq_0_iff) (auto dest: dvd_imp_le)
      then show "R_CX s \<noteq> 1" using Suc.prems(6) by simp
    qed
    have "room u (3 * n)" using follows_room[OF u(2), of "3 * n"] Suc.prems(2) by simp
    moreover have "at16 u p" using Suc.prems(3) u(3) cx(2) follows_seg[OF u(2)] by (simp add: at16_def)
    moreover have "data_ok u (R_SI u + of_nat i)" if "i < n" for i
      using Suc.prems(9)[of "Suc i"] that u(5) by (simp add: follows_data[OF u(2)] add.assoc)
    ultimately obtain v where v: "rounds h flags t0 ofs (0, u) (0, v)" "follows (3 * n) u v" "R_EIP v = ucast (p + 5)"
      "hi8 (R_EAX v) = hi8 (R_EAX u) - (\<Sum>i<n. data_byte u (R_SI u + of_nat i))" "R_SI v = R_SI u + of_nat n" "R_CX v = 0"
      using Suc.IH[OF follows_quiet[OF u(2) Suc.prems(1)] _ _ _ u(7) cx(1)] False Suc.prems(4,8) follows_loaded[OF u(2)] by auto
    have sum: "(\<Sum>i<Suc n. data_byte s (R_SI s + of_nat i)) = data_byte s (R_SI s) + (\<Sum>i<n. data_byte u (R_SI u + of_nat i))"
      by (subst sum.lessThan_Suc_shift) (simp add: follows_data[OF u(2)] u(5) add.assoc)
    have "hi8 (R_EAX v) = hi8 (R_EAX s) - (\<Sum>i<Suc n. data_byte s (R_SI s + of_nat i))" unfolding sum using u(4) v(4) by simp
    moreover have "follows (3 * Suc n) s v" using then_follows[OF u(2) v(2)] by simp
    moreover have "R_SI v = R_SI s + of_nat (Suc n)" using u(5) v(5) by simp
    ultimately show ?thesis using rounds_then[OF u(1) v(1)] v(3,6) by blast
  qed
qed simp

text \<open>
  C6. The check sum program, run in a 16 bit code segment with the direction flag clear,
  readable data and limits that leave room for it, ends at its halt instruction: AH has
  been reduced by the sum of the CX bytes from DS:SI on, which wraps at 64K, and 65536
  of them when CX is zero; CX is zero, SI is behind the block, three instructions for
  every byte and one for the halt have been counted, and the contents of memory and
  the ports are untouched.
\<close>

theorem checksum_program:
  assumes "quiet s" "at16 s p" "loaded s p" "\<not> ACCESS_FLAG F_DF (R_FLG s)"
  defines "n \<equiv> if R_CX s = 0 then 65536 else unat (R_CX s)"
  assumes "room s (3 * n)" "\<forall>i<n. data_ok s (R_SI s + of_nat i)"
  shows "\<exists>t. x86emu_run h flags s = Some (0, t) \<and> MODE_HALTED t \<and> R_EIP t = ucast (p + 6) \<and>
    hi8 (R_EAX t) = hi8 (R_EAX s) - (\<Sum>i<n. data_byte s (R_SI s + of_nat i)) \<and> R_CX t = 0 \<and> R_SI t = R_SI s + of_nat n \<and>
    R_TSC t = R_TSC s + of_nat (3 * n + 1) \<and> (\<forall>a. mem_byte (mem t) a = mem_byte (mem s) a) \<and> io_trace t = io_trace s"
proof -
  have cx: "R_CX s = of_nat n" "0 < n" "n \<le> 65536"
    using unsigned_less[of "R_CX s", where ?'a = nat] by (auto simp: n_def unat_gt_0)
  obtain t0 ofs s1 where st: "run_state (start_run h) s = ((t0, ofs), s1)" by (metis prod.exhaust)
  note s1 = start_run_frame[OF st]
  have same: "follows 0 s s1" using assms(1) by (simp add: follows_def frame_def s1 quiet_def plain_def)
  have regs: "R_EAX s1 = R_EAX s" "R_ECX s1 = R_ECX s" "R_ESI s1 = R_ESI s" "R_FLG s1 = R_FLG s" "R_EIP s1 = R_EIP s" by (simp_all add: s1)
  have room: "room s1 (3 * n)" using follows_room[OF same, of "3 * n"] assms(6) by simp
  obtain v where v: "rounds h flags t0 ofs (0, s1) (0, v)" "follows (3 * n) s1 v" "R_EIP v = ucast (p + 5)"
    "hi8 (R_EAX v) = hi8 (R_EAX s1) - (\<Sum>i<n. data_byte s1 (R_SI s1 + of_nat i))" "R_SI v = R_SI s1 + of_nat n" "R_CX v = 0"
    using checksum_rounds[OF follows_quiet[OF same assms(1)] room, of p h flags t0 ofs] assms(2-4,7) cx follows_loaded[OF same]
    by (auto simp: at16_def regs follows_data[OF same] follows_seg[OF same])
  have sv: "follows (0 + 3 * n) s v" by (rule then_follows[OF same v(2)])
  have code: "code_at v (code_ptr v) 0xf4"
    using loaded_bytes(6)[OF assms(3), of v] sv by (simp add: v(3) follows_def frame_def)
  have "in_time v" using room_in_time[OF follows_room[OF v(2), of 0]] room by simp
  then have ready: "ready_for v 0xf4" using follows_quiet[OF sv assms(1)] code by (simp add: ready_for_def quiet_def)
  obtain w where w: "run_instr h flags t0 ofs 0 v = Some (True, 0, w)" "MODE_HALTED w" "log_text w = None" "R_TSC w = R_TSC v + 1"
    "R_EIP w = (if ACC_D (R_CS_ACC v) then R_EIP v + 1 else set_lo16 (R_IP v + 1) (R_EIP v))" "R_EAX w = R_EAX v" "R_ECX w = R_ECX v"
    "R_ESI w = R_ESI v" "same_bytes (mem v) (mem w)" "io_trace w = io_trace v"
    using hlt_instr[OF ready, of h flags t0 ofs] by blast
  have "p + 5 + 1 = p + 6" by simp
  then have ip: "R_EIP w = ucast (p + 6)" using w(5) assms(2) follows_seg[OF sv] unfolding v(3) word_ip by (simp add: at16_def add.commute)
  have mem: "mem_byte (mem w) a = mem_byte (mem s) a" for a
    using sv w(9) by (simp add: follows_def same_bytes_iff mem_byte_def)
  have sv': "R_TSC v = R_TSC s + of_nat (3 * n)" "io_trace v = io_trace s" using sv by (simp_all add: follows_def frame_def)
  have sum: "(\<Sum>i<n. data_byte s1 (R_SI s1 + of_nat i)) = (\<Sum>i<n. data_byte s (R_SI s + of_nat i))" by (simp add: follows_data[OF same] regs)
  show ?thesis using run_of_rounds[OF st v(1) w(1)] end_run_plain[OF w(3)] w v(4-6) ip mem sv'
    unfolding sum by (simp add: MODE_HALTED_def regs)
qed

text \<open>A memory in which everything is allowed and initialised, and a byte written to it.\<close>

definition open_mem :: "x86emu_mem \<Rightarrow> bool" where
  "open_mem m \<longleftrightarrow> mem_ok m \<and> cell m = Own_cell \<and> (\<forall>a. attr m a AND 0x0f = 0x0f)"

lemma open_mem_write:
  assumes "open_mem m"
  shows "open_mem (vm_w_byte m a v)" "mem_byte (vm_w_byte m a v) = (mem_byte m)(a := ucast v)"
proof -
  have w: "attr m a AND 2 \<noteq> 0" using assms low_bits[of "attr m a" "0x0f" 2] by (simp add: open_mem_def)
  have m: "mem_ok (vm_w_byte m a v)" "abs_mem (vm_w_byte m a v) = flat_w_byte (abs_mem m) a v"
    using vm_store_byte[of m a v] assms by (simp_all add: open_mem_def)
  have "(x OR 0x28) AND 0x0f = (x AND 0x0f) OR 8" for x :: u8 by (simp add: bit.conj_disj_distrib2)
  then show "open_mem (vm_w_byte m a v)" "mem_byte (vm_w_byte m a v) = (mem_byte m)(a := ucast v)"
    using assms m w by (simp_all add: open_mem_def flat_w_byte_def mem_byte_def fun_eq_iff)
qed

lemma open_mem_new: "open_mem (emu_mem_new 0x0f (\<lambda>_. 0))" "mem_byte (emu_mem_new 0x0f (\<lambda>_. 0)) = (\<lambda>_. 0)"
  by (simp_all add: open_mem_def abs_emu_mem_new mem_byte_def fun_eq_iff)

text \<open>A new emulator with the program where the processor starts and the bytes 5, 0 and 7 at 0x100.\<close>

definition sum_mem :: x86emu_mem where
  "sum_mem = vm_w_byte (vm_w_byte (vm_w_byte (vm_w_byte (vm_w_byte (vm_w_byte (vm_w_byte (vm_w_byte (emu_mem_new 0x0f (\<lambda>_. 0))
     0x100 5) 0x102 7) 0xffff0 0xac) 0xffff1 0x28) 0xffff2 0xc4) 0xffff3 0xe2) 0xffff4 0xfb) 0xffff5 0xf4"

definition sum_emu :: x86emu where
  "sum_emu = (x86emu_new idle_host (\<lambda>_. 0) 0x0f 0)\<lparr>mem := sum_mem, R_ECX := 3, R_ESI := 0x100, R_EAX := 0x0c00, R_FLG := 2,
     R_EIP := 0xfff0, max_instr := 100, timeout := 0, msr := (\<lambda>_. 0)\<rparr>"

lemma sum_mem_open: "open_mem sum_mem" "mem_byte sum_mem = ((\<lambda>_. 0)(0x100 := 5, 0x102 := 7, 0xffff0 := 0xac, 0xffff1 := 0x28, 0xffff2 := 0xc4,
    0xffff3 := 0xe2, 0xffff4 := 0xfb, 0xffff5 := 0xf4))"
  by (simp_all add: sum_mem_def open_mem_write open_mem_new)

lemma sum_emu_fields:
  "memio sum_emu = Vm_memio" "log_text sum_emu = None" "code_check sum_emu = None" "intr_type sum_emu = 0" "debug_len sum_emu = 0"
  "seg sum_emu = reset_seg" "R_EIP sum_emu = 0xfff0" "R_ECX sum_emu = 3" "R_ESI sum_emu = 0x100" "R_EAX sum_emu = 0x0c00" "R_FLG sum_emu = 2"
  "max_instr sum_emu = 100" "timeout sum_emu = 0" "R_TSC sum_emu = 0" "mem sum_emu = sum_mem"
  using x86emu_new_simps(1)[of idle_host "\<lambda>_. 0" "0x0f" 0] by (simp_all add: sum_emu_def sandboxed_def)

lemma open_mem_readable: "open_mem m \<Longrightarrow> readable m a" "open_mem m \<Longrightarrow> attr m a AND 4 \<noteq> 0" "open_mem m \<Longrightarrow> attr m a AND 8 \<noteq> 0"
  using low_bits[of "attr m a" "0x0f" 1] low_bits[of "attr m a" "0x0f" 4] low_bits[of "attr m a" "0x0f" 8]
  by (simp_all add: open_mem_def readable_def)

theorem checksum_program_witness:
  "\<exists>t. x86emu_run idle_host 0x1f sum_emu = Some (0, t) \<and> R_AH t = 0 \<and> R_CX t = 0 \<and> R_SI t = 0x103 \<and> R_TSC t = 10"
proof -
  have at: "at16 sum_emu 0xfff0" by (simp add: at16_def sum_emu_fields reset_seg_def ACC_D_def bit_numeral_rec)
  have "code_at sum_emu (sel_base (seg sum_emu R_CS_INDEX) + ucast (0xfff0 + of_nat i :: u16)) (checksum_code ! i)" if "i < 6" for i
  proof -
    have "i = 0 \<or> i = 1 \<or> i = 2 \<or> i = 3 \<or> i = 4 \<or> i = 5" using that by linarith
    then have "mem_byte sum_mem (0xf0000 + ucast (0xfff0 + of_nat i :: u16)) = checksum_code ! i"
      by (auto simp: sum_mem_open(2) checksum_code_def)
    then show ?thesis using open_mem_readable[OF sum_mem_open(1)] by (simp add: code_at_def sum_emu_fields mem_byte_def reset_seg_def)
  qed
  then have "loaded sum_emu 0xfff0" by (simp add: loaded_def)
  moreover have "quiet sum_emu" using sum_mem_open(1) by (simp add: quiet_def plain_def sum_emu_fields open_mem_def)
  moreover have "\<forall>i<3. data_ok sum_emu (R_SI sum_emu + of_nat i)"
  proof (intro allI impI)
    have "unat (ucast x :: u32) \<le> 65535" for x :: u16 using unsigned_less[of x, where ?'a = nat] by (simp add: unsigned_ucast_eq take_bit_nat_eq_self)
    then show "data_ok sum_emu (R_SI sum_emu + of_nat i)" if "i < 3" for i
      using open_mem_readable(1)[OF sum_mem_open(1)] by (simp add: data_ok_def in_limit_def sum_emu_fields reset_seg_def word_le_nat_alt)
  qed
  moreover have n: "(if R_CX sum_emu = 0 then 65536 else unat (R_CX sum_emu)) = 3" by (simp add: sum_emu_fields lo16_def)
  moreover have "\<not> ACCESS_FLAG F_DF (R_FLG sum_emu)" "room sum_emu (3 * 3)" by (simp_all add: sum_emu_fields ACCESS_FLAG_def room_def)
  ultimately obtain t where t: "x86emu_run idle_host 0x1f sum_emu = Some (0, t)"
    "R_AH t = R_AH sum_emu - (\<Sum>i<3. data_byte sum_emu (R_SI sum_emu + of_nat i))" "R_CX t = 0"
    "R_SI t = R_SI sum_emu + of_nat 3" "R_TSC t = R_TSC sum_emu + of_nat (3 * 3 + 1)"
    using checksum_program[of sum_emu "0xfff0" idle_host "0x1f", unfolded n] at by blast
  have "{..<3} = {0, 1, 2 :: nat}" by auto
  then have "(\<Sum>i<3. data_byte sum_emu (R_SI sum_emu + of_nat i)) = 12"
    by (simp add: data_byte_def sum_emu_fields sum_mem_open(2) reset_seg_def lo16_def)
  then have "R_AH t = 0" using t(2) by (simp add: sum_emu_fields hi8_def drop_bit_eq_div)
  then show ?thesis using t by (simp add: sum_emu_fields lo16_def)
qed

end
