(* ===== verification/Conditions.thy ===== *)
theory Conditions
  imports Stack_Io Alu_Arith
begin

text \<open>
  The sixteen conditions of the conditional jumps and sets after a comparison
  (\<^verbatim>\<open>eval_condition\<close> of \<^verbatim>\<open>prim_ops.c\<close>): they are the comparisons of the operands, unsigned
  and signed, and the parity of their difference. The conditional moves have a table of
  their own, which is the subject of \<^verbatim>\<open>Instr\<close>.
\<close>

section \<open>The flags of a subtraction\<close>

lemma sint_range: "- (2 ^ (LENGTH('a) - 1)) \<le> sint w" "sint w < 2 ^ (LENGTH('a) - 1)" for w :: "'a::len word"
  by (rule sint_ge, rule sint_lt)

text \<open>A subtraction is out of range exactly if the sign of its result is the wrong one.\<close>

lemma sign_or_overflow:
  "((sint (a - b) < 0) \<noteq> (sint a - sint b \<noteq> sint (a - b))) = (sint a < sint b)" for a b :: "'a::len word"
proof -
  let ?h = "2 ^ (LENGTH('a) - 1) :: int"
  have two: "2 ^ LENGTH('a) = 2 * ?h" using len_gt_0[where 'a = 'a] by (cases "LENGTH('a)") simp_all
  have "(word_of_int (sint (a - b)) :: 'a word) = word_of_int (sint a - sint b)" by simp
  then have "sint (a - b) mod 2 ^ LENGTH('a) = (sint a - sint b) mod 2 ^ LENGTH('a)"
    unfolding word_of_int_eq_iff take_bit_eq_mod .
  then obtain k where k: "sint a - sint b = sint (a - b) + 2 * ?h * k"
    using two mod_eq_dvd_iff[of "sint a - sint b" "2 ^ LENGTH('a)" "sint (a - b)"] by (auto simp: dvd_def algebra_simps)
  note r = sint_range[of a] sint_range[of b] sint_range[of "a - b"]
  have pos: "0 < ?h" by simp
  have "2 * ?h * k < 2 * ?h * 2" "2 * ?h * (- 2) < 2 * ?h * k" using k r by linarith+
  then have "k < 2" "- 2 < k" using pos by (simp_all only: mult_less_cancel_left_pos mult_pos_pos zero_less_numeral)
  then consider "k = 0" | "k = 1" | "k = - 1" by linarith
  then show ?thesis
  proof cases
    case 1 then show ?thesis using k by auto
  next
    case 2 then show ?thesis using k r by auto
  next
    case 3 then show ?thesis using k r by auto
  qed
qed

lemma bit_count_card: "bit_count k w = card {i. i < k \<and> bit w i}" for w :: "'a::len word"
proof (induction k)
  case (Suc k)
  have "{i. i < Suc k \<and> bit w i} = (if bit w k then insert k {i. i < k \<and> bit w i} else {i. i < k \<and> bit w i})"
    by (auto simp: less_Suc_eq)
  then show ?case using Suc by simp
qed simp

lemma even_parity_card: "even_parity w = even (card {i. i < 8 \<and> bit w i})" for w :: "'a::len word"
  by (simp add: even_parity_def bit_count_card)

definition compared :: "u32 \<Rightarrow> 'a::len word \<Rightarrow> 'a word \<Rightarrow> bool" where
  "compared f a b \<longleftrightarrow> aflags_of f = sub_flags a b False"

lemma compared_cmp:
  "compared (snd (cmp_byte f b1 b2)) b1 b2" "compared (snd (cmp_word f w1 w2)) w1 w2" "compared (snd (cmp_long f l1 l2)) l1 l2"
  using cmp_byte_correct[of f b1 b2] cmp_word_correct[of f w1 w2] cmp_long_correct[of f l1 l2]
  by (simp_all add: compared_def alu_result_def)

lemma compared_flags:
  assumes "compared f a b"
  shows "ACCESS_FLAG F_CF f = (a < b)" "ACCESS_FLAG F_ZF f = (a = b)" "ACCESS_FLAG F_SF f = (sint (a - b) < 0)"
    "ACCESS_FLAG F_OF f = (sint a - sint b \<noteq> sint (a - b))" "ACCESS_FLAG F_PF f = even_parity (a - b)"
  using assms by (simp_all add: compared_def aflags_of_def sub_flags_def result_flags_def word_less_nat_alt)

text \<open>
  What each of the sixteen conditions says about the operands of the comparison before;
  the parity is that of the low byte of the difference.
\<close>

definition conditions_hold :: "x86emu \<Rightarrow> 'a::len word \<Rightarrow> 'a word \<Rightarrow> bool" where
  "conditions_hold s a b \<longleftrightarrow>
     eval_condition 0 s = (sint a - sint b \<noteq> sint (a - b)) \<and> eval_condition 1 s = (sint a - sint b = sint (a - b)) \<and>
     eval_condition 2 s = (a < b) \<and> eval_condition 3 s = (b \<le> a) \<and>
     eval_condition 4 s = (a = b) \<and> eval_condition 5 s = (a \<noteq> b) \<and>
     eval_condition 6 s = (a \<le> b) \<and> eval_condition 7 s = (b < a) \<and>
     eval_condition 8 s = (sint (a - b) < 0) \<and> eval_condition 9 s = (0 \<le> sint (a - b)) \<and>
     eval_condition 10 s = even (card {i. i < 8 \<and> bit (a - b) i}) \<and> eval_condition 11 s = odd (card {i. i < 8 \<and> bit (a - b) i}) \<and>
     eval_condition 12 s = (a <s b) \<and> eval_condition 13 s = (b \<le>s a) \<and>
     eval_condition 14 s = (a \<le>s b) \<and> eval_condition 15 s = (b <s a)"

lemma compared_conditions:
  assumes "compared (R_FLG s) a b"
  shows "conditions_hold s a b"
proof -
  note f = compared_flags[OF assms]
  have lt: "(ACCESS_FLAG F_SF (R_FLG s) \<noteq> ACCESS_FLAG F_OF (R_FLG s)) = (a <s b)"
    unfolding f sign_or_overflow by (simp add: word_sless_alt)
  have le: "(ACCESS_FLAG F_ZF (R_FLG s) \<or> ACCESS_FLAG F_SF (R_FLG s) \<noteq> ACCESS_FLAG F_OF (R_FLG s)) = (a \<le>s b)"
    unfolding lt f(2) by (auto simp: word_sless_alt word_sle_eq signed_word_eqI order_le_less)
  have not: "(b \<le>s a) = (\<not> a <s b)" "(b <s a) = (\<not> a \<le>s b)" by (auto simp: word_sless_alt word_sle_eq)
  have ule: "(ACCESS_FLAG F_CF (R_FLG s) \<or> ACCESS_FLAG F_ZF (R_FLG s)) = (a \<le> b)" unfolding f by (auto simp: order_le_less)
  have c: "eval_condition 0 s = ACCESS_FLAG F_OF (R_FLG s)" "eval_condition 2 s = ACCESS_FLAG F_CF (R_FLG s)"
    "eval_condition 4 s = ACCESS_FLAG F_ZF (R_FLG s)" "eval_condition 10 s = ACCESS_FLAG F_PF (R_FLG s)" "eval_condition 11 s = (\<not> eval_condition 10 s)"
    "eval_condition 8 s = ACCESS_FLAG F_SF (R_FLG s)"
    "eval_condition 6 s = (ACCESS_FLAG F_CF (R_FLG s) \<or> ACCESS_FLAG F_ZF (R_FLG s))"
    "eval_condition 12 s = (ACCESS_FLAG F_SF (R_FLG s) \<noteq> ACCESS_FLAG F_OF (R_FLG s))"
    "eval_condition 14 s = (ACCESS_FLAG F_ZF (R_FLG s) \<or> ACCESS_FLAG F_SF (R_FLG s) \<noteq> ACCESS_FLAG F_OF (R_FLG s))"
    "eval_condition 1 s = (\<not> eval_condition 0 s)" "eval_condition 3 s = (\<not> eval_condition 2 s)"
    "eval_condition 5 s = (\<not> eval_condition 4 s)" "eval_condition 7 s = (\<not> eval_condition 6 s)"
    "eval_condition 9 s = (\<not> eval_condition 8 s)" "eval_condition 13 s = (\<not> eval_condition 12 s)"
    "eval_condition 15 s = (\<not> eval_condition 14 s)"
    by (simp_all add: eval_condition_def Let_def)
  show ?thesis
    unfolding conditions_hold_def c unfolding le unfolding lt ule not unfolding f even_parity_card by (simp add: not_less not_le)
qed

text \<open>
  C29. After a comparison of two bytes, words or longs the condition of every conditional
  jump and of every conditional set (\<^verbatim>\<open>eval_condition\<close>) is the comparison it is named
  after: below, above and equal by the unsigned values, less and greater by the signed
  ones, also where the subtraction overflows, overflow and sign by the exact difference,
  parity by the number of bits set in the low byte of the difference. The conditional
  moves do not use these conditions.
\<close>

theorem conditions_after_cmp:
  "conditions_hold (s\<lparr>R_FLG := snd (cmp_byte f b1 b2)\<rparr>) b1 b2 \<and>
   conditions_hold (s\<lparr>R_FLG := snd (cmp_word f w1 w2)\<rparr>) w1 w2 \<and>
   conditions_hold (s\<lparr>R_FLG := snd (cmp_long f l1 l2)\<rparr>) l1 l2"
  by (intro conjI compared_conditions) (simp_all add: compared_cmp)

end
