(* ===== verification/Interrupt.thy ===== *)
theory Interrupt
  imports Bytes Segments Ops_Control Api
begin

text \<open>
  Interrupts in real mode: what the delivery pushes, where it goes, and that the return
  from the interrupt undoes it.
\<close>

section \<open>Words on a 16 bit stack\<close>






section \<open>The interrupt's frame\<close>









section \<open>Delivery and return\<close>












end
