(* ===== verification/New_Emulator.thy ===== *)
theory New_Emulator
  imports Bytes Ops2_System
begin

text \<open>
  What a client gets from \<^verbatim>\<open>x86emu_new\<close>: the state of a new emulator and what its
  handlers do, which are installed one by one (\<^verbatim>\<open>api.c\<close>).
\<close>

section \<open>The fields\<close>

lemma set_io_perm_map:
  "io_map (x86emu_set_io_perm h s 0 0xffff q) n = (if n < X86EMU_IO_PORTS then ucast q else io_map s n)"
  by (auto simp: x86emu_set_io_perm_def Let_def io_map_fill_at)

lemma x86emu_new_fields:
  "memio (x86emu_new h hm p q) = Vm_memio" "rdmsr (x86emu_new h hm p q) = Default_msr" "wrmsr (x86emu_new h hm p q) = Default_msr"
  "host_trap (x86emu_new h hm p q) = False" "io_trace (x86emu_new h hm p q) = []" "R_FLG (x86emu_new h hm p q) = 2"
  "crx (x86emu_new h hm p q) = (\<lambda>_. 0)"
  "io_map (x86emu_new h hm p q) n = (if n < X86EMU_IO_PORTS then ucast q else 0)"
proof -
  let ?c = "calloc_emu hm p"
  define s where "s = (if q \<noteq> 0 then x86emu_set_io_perm h ?c 0 0xffff q else ?c)\<lparr>memio := Vm_memio, rdmsr := Default_msr, wrmsr := Default_msr\<rparr>"
  have new: "x86emu_new h hm p q = x86emu_reset s"
    by (simp add: x86emu_new_def s_def Let_def x86emu_set_memio_handler_def x86emu_set_rdmsr_handler_def x86emu_set_wrmsr_handler_def)
  have reset: "host_trap (x86emu_reset s) = host_trap s" for s by (cases s) (simp add: x86emu_reset_def zero_regs_def x86emu_regs.defs)
  have c: "host_trap ?c = False" "io_map ?c = (\<lambda>_. 0)" by (simp_all add: calloc_emu_def zero_regs_def x86emu_regs.defs x86emu.defs)
  have "memio s = Vm_memio" "rdmsr s = Default_msr" "wrmsr s = Default_msr" "host_trap s = False" "io_trace s = []"
    "io_map s n = (if n < X86EMU_IO_PORTS then ucast q else 0)"
    by (auto simp: s_def c set_io_perm_map) (simp_all add: x86emu_set_io_perm_def Let_def c)
  then show "memio (x86emu_new h hm p q) = Vm_memio" "rdmsr (x86emu_new h hm p q) = Default_msr" "wrmsr (x86emu_new h hm p q) = Default_msr"
    "host_trap (x86emu_new h hm p q) = False" "io_trace (x86emu_new h hm p q) = []" "R_FLG (x86emu_new h hm p q) = 2"
    "crx (x86emu_new h hm p q) = (\<lambda>_. 0)" "io_map (x86emu_new h hm p q) n = (if n < X86EMU_IO_PORTS then ucast q else 0)"
    using x86emu_reset_keeps(1)[of s] by (simp_all only: new reset x86emu_reset_keeps x86emu_reset_regs handlers_def prod.inject)
qed

section \<open>What the handlers do\<close>

text \<open>The client's own accesses go through the memory handler.\<close>

lemma client_byte_back:
  assumes "memio s = Vm_memio" "mem_ok (mem s)" "attr (mem s) a AND 3 = 3"
  shows "\<exists>t. x86emu_read_byte h (x86emu_write_byte h s a v) a = (v AND 0xff, t) \<and> host_trap t = host_trap s"
proof -
  let ?m = "vm_w_byte ((mem s)\<lparr>mem_invalid := False\<rparr>) a v"
  have "attr (mem s) a AND 1 = (attr (mem s) a AND 3) AND 1" "attr (mem s) a AND 2 = (attr (mem s) a AND 3) AND 2" by (simp_all add: and.assoc)
  then have "writable (mem s) a" "attr (mem s) a AND 1 \<noteq> 0" using assms(3) by (simp_all add: writable_def)
  then have w: "mem_ok ?m" "readable ?m a" "mem_byte ?m a = ucast v"
    using write_byte_written[OF assms(2), of a v] by (auto simp: written_def mem_byte_def)
  obtain m' where "vm_r_byte (?m\<lparr>mem_invalid := False\<rparr>) a = (ucast (mem_byte ?m a), m')" using read_byte_same[OF w(1,2)] by blast
  moreover have "ucast (ucast v :: u8) = v AND 0xff"
  proof -
    have m: "(0xff :: u32) = mask 8" by (simp add: mask_eq_exp_minus_1)
    show ?thesis unfolding m by (rule bit_word_eqI) (auto simp: bit_simps)
  qed
  ultimately show ?thesis using assms(1) w(3)
    by (simp add: x86emu_read_byte_def x86emu_write_byte_def call_memio_def vm_memio_write vm_memio_read Let_def)
qed

lemma client_byte_refused:
  assumes "memio s = Vm_memio" "mem_ok (mem s)" "attr (mem s) a AND 1 = 0"
  shows "\<exists>t. x86emu_read_byte h s a = (0xff, t) \<and> mem_invalid (mem t)"
proof -
  let ?m = "(mem s)\<lparr>mem_invalid := False\<rparr>"
  obtain v m' where r: "vm_r_byte ?m a = (v, m')" by force
  have "refines (v, m') (flat_r_byte ((abs_mem (mem s))\<lparr>f_invalid := False\<rparr>) a)"
    using vm_load_byte(1)[of ?m a] assms(2) r by simp
  then have m: "v = 0xff" "abs_mem m' = (abs_mem (mem s))\<lparr>f_invalid := True\<rparr>" using assms(3) by (auto simp: refines_def flat_load_def)
  have "mem_invalid m' = True" using arg_cong[OF m(2), of f_invalid] by (simp add: abs_mem_def)
  then show ?thesis using assms(1) r m(1) by (simp add: x86emu_read_byte_def call_memio_def vm_memio_read Let_def)
qed

text \<open>The ports of the host are reached exactly with the permission.\<close>

lemma port_in_out:
  "io_trace (snd (vm_i_byte h (s\<lparr>iopl_ok := True\<rparr>) a)) =
    (if io_map s (unat (a AND 0xffff)) AND X86EMU_PERM_R \<noteq> 0 then Inb (ucast (a AND 0xffff)) # io_trace s else io_trace s)"
  "io_trace (vm_o_byte (s\<lparr>iopl_ok := True\<rparr>) a v) =
    (if io_map s (unat (a AND 0xffff)) AND X86EMU_PERM_W \<noteq> 0 then Outb (ucast (a AND 0xffff)) (ucast v) # io_trace s else io_trace s)"
  by (simp_all add: vm_i_byte_def vm_o_byte_def Let_def port_step_defs)

text \<open>A model specific register keeps what WRMSR has put into it, and RDMSR brings it back.\<close>

lemma msr_back:
  assumes "rdmsr s = Default_msr" "wrmsr s = Default_msr" "unat i < X86EMU_MSRS"
  shows "\<exists>t u. run_state (x86emuOp2_wrmsr h 0x30) (s\<lparr>R_ECX := i, R_EAX := a, R_EDX := d\<rparr>) = ((), t) \<and>
    run_state (x86emuOp2_rdmsr h 0x32) (t\<lparr>R_EAX := a', R_EDX := d'\<rparr>) = ((), u) \<and>
    R_EAX u = a \<and> R_EDX u = d \<and> intr_type u = intr_type s"
proof -
  have "ucast (drop_bit 32 (push_bit 32 (ucast d) + ucast a :: u64)) = d" "ucast (push_bit 32 (ucast d) + ucast a :: u64) = a"
  proof -
    have or: "push_bit 32 (ucast d) + ucast a = (push_bit 32 (ucast d) OR ucast a :: u64)"
      by (rule disjunctive_add_eq_or, rule bit_word_eqI) (auto simp: bit_simps dest: bit_imp_le_length)
    show "ucast (drop_bit 32 (push_bit 32 (ucast d) + ucast a :: u64)) = d" "ucast (push_bit 32 (ucast d) + ucast a :: u64) = a"
      unfolding or by (rule bit_word_eqI, auto simp: bit_simps dest: bit_imp_le_length)+
  qed
  then show ?thesis using assms
    by (simp add: x86emuOp2_wrmsr_def x86emuOp2_rdmsr_def OP_DECODE_def emu_run call_wrmsr_def call_rdmsr_def x86emu_wrmsr_def x86emu_rdmsr_def Let_def)
qed

text \<open>
  C38. A new emulator has none of the client's handlers, no log, no access to the host so
  far and a well-formed memory in which every address has the permissions given; the
  processor is where a reset leaves it, about to fetch from address 0xffff0 in real mode.
  Its own handlers are in place: what the client writes to memory it reads back where
  reading and writing are allowed, where reading is not allowed it gets 0xff and the
  access is noted as invalid, and neither goes through a null pointer; with the i/o
  privilege a byte goes to or comes from exactly the ports allowed, which are all of them
  or none as \<^verbatim>\<open>def_io_perm\<close> says; and what WRMSR puts into a model specific register RDMSR
  brings back.
\<close>

theorem x86emu_new_correct:
  "let s = x86emu_new h hm p q
   in sandboxed s \<and> log_text s = None \<and> io_trace s = [] \<and> \<not> host_trap s \<and> mem_ok (mem s) \<and>
      (\<forall>a. f_attr (abs_mem (mem s)) a = ucast p \<and> f_cell (abs_mem (mem s)) a = Own_cell a \<and> f_store (abs_mem (mem s)) (Own_cell a) = 0) \<and>
      sel_base (seg s R_CS_INDEX) + R_EIP s = 0xffff0 \<and> MODE_REAL s \<and> \<not> ACC_D (R_CS_ACC s) \<and> R_FLG s = 2 \<and>
      (\<forall>a v. ucast p AND (3 :: u8) = 3 \<longrightarrow>
        (\<exists>t. x86emu_read_byte h (x86emu_write_byte h s a v) a = (v AND 0xff, t) \<and> \<not> host_trap t)) \<and>
      (\<forall>a. ucast p AND X86EMU_PERM_R = (0 :: u8) \<longrightarrow> (\<exists>t. x86emu_read_byte h s a = (0xff, t) \<and> mem_invalid (mem t))) \<and>
      (\<forall>n. io_map s n = (if n < X86EMU_IO_PORTS then ucast q else 0)) \<and>
      (\<forall>a. io_trace (snd (vm_i_byte h (s\<lparr>iopl_ok := True\<rparr>) a)) =
        (if ucast q AND X86EMU_PERM_R \<noteq> (0 :: u8) then [Inb (ucast (a AND 0xffff))] else [])) \<and>
      (\<forall>a v. io_trace (vm_o_byte (s\<lparr>iopl_ok := True\<rparr>) a v) =
        (if ucast q AND X86EMU_PERM_W \<noteq> (0 :: u8) then [Outb (ucast (a AND 0xffff)) (ucast v)] else [])) \<and>
      (\<forall>i a d. unat i < X86EMU_MSRS \<longrightarrow>
        (\<exists>t u. run_state (x86emuOp2_wrmsr h 0x30) (s\<lparr>R_ECX := i, R_EAX := a, R_EDX := d\<rparr>) = ((), t) \<and>
          run_state (x86emuOp2_rdmsr h 0x32) (t\<lparr>R_EAX := 0, R_EDX := 0\<rparr>) = ((), u) \<and>
          R_EAX u = a \<and> R_EDX u = d \<and> intr_type u = 0))"
proof -
  let ?s = "x86emu_new h hm p q"
  note f = x86emu_new_fields[of h hm p q]
  have ok: "mem_ok (mem ?s)" by (simp add: abs_emu_mem_new)
  have a: "attr (mem ?s) a = ucast p" for a by (simp add: abs_emu_mem_new)
  have port: "unat (a AND 0xffff) < X86EMU_IO_PORTS" for a :: u32 using word_and_le1[of a "0xffff"] by (simp add: word_le_nat_alt)
  have "\<exists>t. x86emu_read_byte h (x86emu_write_byte h ?s a v) a = (v AND 0xff, t) \<and> \<not> host_trap t" if "ucast p AND (3 :: u8) = 3" for a v
  proof -
    have "attr (mem ?s) a AND 3 = 3" unfolding a by (rule that)
    then show ?thesis using client_byte_back[OF f(1) ok, of a h v] f(4) by blast
  qed
  moreover have "\<exists>t. x86emu_read_byte h ?s a = (0xff, t) \<and> mem_invalid (mem t)" if "ucast p AND X86EMU_PERM_R = (0 :: u8)" for a
  proof -
    have "attr (mem ?s) a AND 1 = 0" unfolding a by (rule that)
    then show ?thesis using client_byte_refused[OF f(1) ok] by blast
  qed
  moreover have "\<exists>t u. run_state (x86emuOp2_wrmsr h 0x30) (?s\<lparr>R_ECX := i, R_EAX := a, R_EDX := d\<rparr>) = ((), t) \<and>
          run_state (x86emuOp2_rdmsr h 0x32) (t\<lparr>R_EAX := 0, R_EDX := 0\<rparr>) = ((), u) \<and> R_EAX u = a \<and> R_EDX u = d \<and> intr_type u = 0"
    if "unat i < X86EMU_MSRS" for i a d
    using msr_back[OF f(2,3) that, where h = h and a = a and d = d and a' = 0 and d' = 0] by simp
  ultimately show ?thesis
    by (simp add: Let_def f port_in_out port abs_emu_mem_new reset_seg_def MODE_PROTECTED_def ACC_D_def)
qed

lemma x86emu_new_correct_witness:
  "fst (x86emu_read_byte idle_host (x86emu_write_byte idle_host (x86emu_new idle_host (\<lambda>_. 0) 3 1) 0x12345 0x142) 0x12345) = 0x42 \<and>
   fst (x86emu_read_byte idle_host (x86emu_new idle_host (\<lambda>_. 0) 2 1) 0x12345) = 0xff \<and>
   (\<exists>t u. run_state (x86emuOp2_wrmsr idle_host 0x30) ((x86emu_new idle_host (\<lambda>_. 0) 3 1)\<lparr>R_ECX := 0x1b, R_EAX := 5, R_EDX := 6\<rparr>) = ((), t) \<and>
      run_state (x86emuOp2_rdmsr idle_host 0x32) (t\<lparr>R_EAX := 0, R_EDX := 0\<rparr>) = ((), u) \<and> R_EAX u = 5 \<and> R_EDX u = 6)"
proof -
  note new = x86emu_new_correct[of idle_host "\<lambda>_. 0", unfolded Let_def]
  have pre: "ucast (3 :: u32) AND (3 :: u8) = 3" "ucast (2 :: u32) AND (1 :: u8) = 0" "unat (0x1b :: u32) < 0x800" by simp_all
  have "\<exists>t. x86emu_read_byte idle_host (x86emu_write_byte idle_host (x86emu_new idle_host (\<lambda>_. 0) 3 1) 0x12345 0x142) 0x12345 = (0x142 AND 0xff, t)"
    using new[of 3 1] pre by blast
  moreover have "\<exists>t. x86emu_read_byte idle_host (x86emu_new idle_host (\<lambda>_. 0) 2 1) 0x12345 = (0xff, t)"
    using new[of 2 1] pre by blast
  moreover have "\<exists>t u. run_state (x86emuOp2_wrmsr idle_host 0x30) ((x86emu_new idle_host (\<lambda>_. 0) 3 1)\<lparr>R_ECX := 0x1b, R_EAX := 5, R_EDX := 6\<rparr>) = ((), t) \<and>
      run_state (x86emuOp2_rdmsr idle_host 0x32) (t\<lparr>R_EAX := 0, R_EDX := 0\<rparr>) = ((), u) \<and> R_EAX u = 5 \<and> R_EDX u = 6"
    using new[of 3 1] pre by blast
  ultimately show ?thesis by auto
qed

end
