(* ===== verification/Storage.thy ===== *)
theory Storage
  imports Api
begin

text \<open>
  What \<^verbatim>\<open>malloc\<close> and \<^verbatim>\<open>free\<close> see of an emulator: its blocks of storage and the pointers between
  them, the copies \<^verbatim>\<open>emu_mem_clone\<close> and \<^verbatim>\<open>x86emu_clone\<close> make and the blocks \<^verbatim>\<open>emu_mem_free\<close> and
  \<^verbatim>\<open>x86emu_done\<close> release. The other theories have memory and emulator as values; \<open>mem_val\<close>
  and \<open>emu_val\<close> read these values off the storage. Allocation is assumed to succeed.
\<close>

section \<open>Blocks of storage\<close>

text \<open>
  A block is known by the pointer to its start, with 0 for the null pointer. The data of
  a page is the second half of the page's own block, or a buffer of the client at some
  address of the host.
\<close>

datatype c_data = No_data | Half_of nat | Client nat

text \<open>The log pointer: null, or a place in a block, counted from its start.\<close>

datatype c_ptr = Null_ptr | Into nat nat

record c_page =
  c_attr :: nat
  c_data :: c_data
  c_def_attr :: u8

record c_mem =
  c_pdir :: nat
  c_invalid :: bool
  c_mem_def :: u8

text \<open>
  The structure of the emulator: \<open>c_log\<close> is \<^verbatim>\<open>log.buf\<close>, \<open>c_log_ptr\<close> is \<^verbatim>\<open>log.ptr\<close>, and
  \<open>c_rest\<close> is all that is not a pointer to a block. Two pointers among it lead into the
  structure itself, \<^verbatim>\<open>default_seg\<close> and \<^verbatim>\<open>disasm_ptr\<close>; those of a clone still lead into the
  original, until \<^verbatim>\<open>x86emu_run\<close> sets both before it decodes an instruction.
\<close>

record c_emu =
  c_rest :: x86emu
  c_emu_mem :: nat
  c_map :: nat
  c_stats_i :: nat
  c_stats_o :: nat
  c_msr :: nat
  c_msr_perm :: nat
  c_log :: nat
  c_log_ptr :: c_ptr

text \<open>Of a log buffer the block has its size and the characters written to it so far.\<close>

datatype block =
    Bytes_block "nat \<Rightarrow> u8"
  | Ptable_block "nat \<Rightarrow> c_page"
  | Pdir_block "nat \<Rightarrow> nat"
  | Mem_block c_mem
  | Stats_block "nat \<Rightarrow> u32"
  | Msr_block "nat \<Rightarrow> u64"
  | Log_block nat string
  | Emu_block c_emu

record store =
  blocks :: "nat \<Rightarrow> block option"
  next_ptr :: nat

text \<open>Everything from the next pointer on is free, and nothing is at the null pointer.\<close>

definition store_ok :: "store \<Rightarrow> bool" where
  "store_ok st \<longleftrightarrow> 0 < next_ptr st \<and> blocks st 0 = None \<and> (\<forall>p\<ge>next_ptr st. blocks st p = None)"

definition malloc :: "block \<Rightarrow> store \<Rightarrow> nat \<times> store" where
  "malloc b st = (next_ptr st, st\<lparr>blocks := (blocks st)(next_ptr st := Some b), next_ptr := Suc (next_ptr st)\<rparr>)"

definition mem_dup :: "nat \<Rightarrow> store \<Rightarrow> nat \<times> store" where
  "mem_dup src st = (case blocks st src of None \<Rightarrow> (0, st) | Some b \<Rightarrow> malloc b st)"

text \<open>Freeing the null pointer does nothing, freeing what is not allocated is an error.\<close>

definition free :: "nat \<Rightarrow> store \<Rightarrow> store option" where
  "free p st = (if p = 0 then Some st else if blocks st p = None then None
     else Some (st\<lparr>blocks := (blocks st)(p := None)\<rparr>))"

definition put_block :: "nat \<Rightarrow> block \<Rightarrow> store \<Rightarrow> store" where
  "put_block p b st = st\<lparr>blocks := (blocks st)(p := Some b)\<rparr>"

text \<open>What a pointer of a certain type points to.\<close>

definition the_bytes :: "store \<Rightarrow> nat \<Rightarrow> nat \<Rightarrow> u8" where
  "the_bytes st p = (case blocks st p of Some (Bytes_block f) \<Rightarrow> f | _ \<Rightarrow> (\<lambda>_. 0))"

definition the_ptable :: "store \<Rightarrow> nat \<Rightarrow> nat \<Rightarrow> c_page" where
  "the_ptable st p = (case blocks st p of Some (Ptable_block t) \<Rightarrow> t | _ \<Rightarrow> (\<lambda>_. \<lparr>c_attr = 0, c_data = No_data, c_def_attr = 0\<rparr>))"

definition the_pdir :: "store \<Rightarrow> nat \<Rightarrow> nat \<Rightarrow> nat" where
  "the_pdir st p = (case blocks st p of Some (Pdir_block d) \<Rightarrow> d | _ \<Rightarrow> (\<lambda>_. 0))"

definition the_mem :: "store \<Rightarrow> nat \<Rightarrow> c_mem" where
  "the_mem st p = (case blocks st p of Some (Mem_block m) \<Rightarrow> m | _ \<Rightarrow> \<lparr>c_pdir = 0, c_invalid = False, c_mem_def = 0\<rparr>)"

section \<open>Copying and releasing the memory\<close>

text \<open>The ranges of the tables' indices stay folded.\<close>

declare upt_rec_numeral [simp del]

text \<open>\<^verbatim>\<open>(*new_ptable)[u1]\<close>: the page's own block is copied, and the data pointer follows it.\<close>

definition clone_page :: "nat \<Rightarrow> nat \<Rightarrow> nat \<Rightarrow> store \<Rightarrow> store" where
  "clone_page ptable new_ptable u1 st =
     (let page = the_ptable st ptable u1
      in if c_attr page \<noteq> 0 then
           let (attr, st) = mem_dup (c_attr page) st;
               t = the_ptable st new_ptable;
               st = put_block new_ptable (Ptable_block (t(u1 := (t u1)\<lparr>c_attr := attr\<rparr>))) st;
               t = the_ptable st new_ptable
           in if c_data page = Half_of (c_attr page) then
                put_block new_ptable (Ptable_block (t(u1 := (t u1)\<lparr>c_data := Half_of (c_attr (t u1))\<rparr>))) st
              else st
         else st)"

definition clone_table :: "nat \<Rightarrow> nat \<Rightarrow> nat \<Rightarrow> store \<Rightarrow> store" where
  "clone_table pdir new_pdir i st =
     (let ptable = the_pdir st pdir i
      in if ptable = 0 then st
         else
           let (new_ptable, st) = mem_dup ptable st;
               st = put_block new_pdir (Pdir_block ((the_pdir st new_pdir)(i := new_ptable))) st
           in fold (clone_page ptable new_ptable) [0..<1024] st)"

definition emu_mem_clone :: "nat \<Rightarrow> store \<Rightarrow> nat \<times> store" where
  "emu_mem_clone m st =
     (if m = 0 then (0, st)
      else
        let (new_mem, st) = mem_dup m st;
            pdir = c_pdir (the_mem st m)
        in if pdir = 0 then (new_mem, st)
           else
             let (new_pdir, st) = mem_dup pdir st;
                 st = put_block new_mem (Mem_block ((the_mem st new_mem)\<lparr>c_pdir := new_pdir\<rparr>)) st
             in (new_mem, fold (clone_table pdir new_pdir) [0..<1024] st))"

text \<open>A loop of steps that may fail.\<close>

fun fold_opt :: "('a \<Rightarrow> 's \<Rightarrow> 's option) \<Rightarrow> 'a list \<Rightarrow> 's \<Rightarrow> 's option" where
  "fold_opt f [] s = Some s"
| "fold_opt f (x # xs) s = (case f x s of None \<Rightarrow> None | Some s \<Rightarrow> fold_opt f xs s)"

definition free_table :: "nat \<Rightarrow> nat \<Rightarrow> store \<Rightarrow> store option" where
  "free_table pdir i st =
     (let ptable = the_pdir st pdir i
      in if ptable = 0 then Some st
         else
           case fold_opt (\<lambda>u1 st. free (c_attr (the_ptable st ptable u1)) st) [0..<1024] st of
             None \<Rightarrow> None
           | Some st \<Rightarrow> free ptable st)"

definition emu_mem_free :: "nat \<Rightarrow> store \<Rightarrow> store option" where
  "emu_mem_free m st =
     (if m = 0 then Some st
      else
        let pdir = c_pdir (the_mem st m)
        in case (if pdir = 0 then Some st
                 else case fold_opt (free_table pdir) [0..<1024] st of None \<Rightarrow> None | Some st \<Rightarrow> free pdir st) of
             None \<Rightarrow> None
           | Some st \<Rightarrow> free m st)"

section \<open>The emulator\<close>

definition the_emu :: "store \<Rightarrow> nat \<Rightarrow> c_emu option" where
  "the_emu st p = (case blocks st p of Some (Emu_block e) \<Rightarrow> Some e | _ \<Rightarrow> None)"

definition the_log :: "store \<Rightarrow> nat \<Rightarrow> string" where
  "the_log st p = (case blocks st p of Some (Log_block n t) \<Rightarrow> t | _ \<Rightarrow> [])"

text \<open>
  The log of the copy: a buffer of its own, and if the log pointer is not behind the end
  of the buffer, the pointer at the same place in it and the text up to there. A pointer
  behind the end stays as it was copied with the structure, and so does one into another
  block, which C does not compare with the end of this one.
\<close>

definition clone_log :: "nat \<Rightarrow> c_ptr \<Rightarrow> nat \<Rightarrow> store \<Rightarrow> nat \<times> c_ptr \<times> store" where
  "clone_log buf ptr n st =
     (case ptr of Null_ptr \<Rightarrow> (buf, ptr, st)
      | Into b ofs \<Rightarrow>
          if buf = 0 then (buf, ptr, st)
          else
            let (new_buf, st) = malloc (Log_block n []) st
            in if b = buf \<and> ofs \<le> n then
                 (new_buf, Into new_buf ofs, put_block new_buf (Log_block n (take ofs (the_log st buf))) st)
               else (new_buf, ptr, st))"

definition x86emu_clone :: "nat \<Rightarrow> store \<Rightarrow> nat \<times> store" where
  "x86emu_clone emu st =
     (case the_emu st emu of None \<Rightarrow> (0, st)
      | Some e \<Rightarrow>
          let (new_emu, st) = mem_dup emu st;
              (m, st) = emu_mem_clone (c_emu_mem e) st;
              (l, lp, st) = clone_log (c_log e) (c_log_ptr e) (unat (log_size (c_rest e))) st;
              (io, st) = mem_dup (c_map e) st;
              (si, st) = mem_dup (c_stats_i e) st;
              (so, st) = mem_dup (c_stats_o e) st;
              (r, st) = mem_dup (c_msr e) st;
              (rp, st) = mem_dup (c_msr_perm e) st
          in (new_emu, put_block new_emu (Emu_block (e\<lparr>c_emu_mem := m, c_map := io, c_stats_i := si, c_stats_o := so,
                c_msr := r, c_msr_perm := rp, c_log := l, c_log_ptr := lp\<rparr>)) st))"

definition x86emu_done :: "nat \<Rightarrow> store \<Rightarrow> store option" where
  "x86emu_done emu st =
     (case the_emu st emu of None \<Rightarrow> Some st
      | Some e \<Rightarrow>
          (case emu_mem_free (c_emu_mem e) st of None \<Rightarrow> None
           | Some st \<Rightarrow> fold_opt free [c_log e, c_map e, c_stats_i e, c_stats_o e, c_msr e, c_msr_perm e, emu] st))"

section \<open>What the storage stands for\<close>

definition page_val :: "store \<Rightarrow> c_page \<Rightarrow> mem2_page" where
  "page_val st pg = \<lparr>pg_attr = (if c_attr pg = 0 then None else Some (\<lambda>k. if k < X86EMU_PAGE_SIZE then the_bytes st (c_attr pg) k else 0)),
     pg_own = (\<lambda>k. the_bytes st (c_attr pg) (k + X86EMU_PAGE_SIZE)),
     pg_data = (case c_data pg of No_data \<Rightarrow> Null | Half_of b \<Rightarrow> Own_buf | Client a \<Rightarrow> Ext a), pg_def_attr = c_def_attr pg\<rparr>"

definition table_val :: "store \<Rightarrow> nat \<Rightarrow> mem2_ptable" where
  "table_val st t = (\<lambda>u. page_val st (the_ptable st t u))"

definition mem_val :: "store \<Rightarrow> (nat \<Rightarrow> u8) \<Rightarrow> nat \<Rightarrow> x86emu_mem" where
  "mem_val st hm p = (let m = the_mem st p; pd = c_pdir m in
     \<lparr>mem_pdir = (if pd = 0 then None else
        Some (\<lambda>i. if the_pdir st pd i = 0 then None else Some (table_val st (the_pdir st pd i)))),
      mem_invalid = c_invalid m, mem_def_attr = c_mem_def m, host_mem = hm\<rparr>)"

text \<open>The blocks that belong to a page, a table, a memory, in the order in which they are freed.\<close>

definition page_ptrs :: "c_page \<Rightarrow> nat list" where
  "page_ptrs pg = (if c_attr pg = 0 then [] else [c_attr pg])"

definition table_ptrs :: "store \<Rightarrow> nat \<Rightarrow> nat list" where
  "table_ptrs st t = (if t = 0 then [] else concat (map (\<lambda>u. page_ptrs (the_ptable st t u)) [0..<1024]) @ [t])"

definition pdir_ptrs :: "store \<Rightarrow> nat \<Rightarrow> nat list" where
  "pdir_ptrs st d = (if d = 0 then [] else concat (map (\<lambda>i. table_ptrs st (the_pdir st d i)) [0..<1024]) @ [d])"

definition mem_ptrs :: "store \<Rightarrow> nat \<Rightarrow> nat list" where
  "mem_ptrs st p = pdir_ptrs st (c_pdir (the_mem st p)) @ [p]"

text \<open>Pointers lead to blocks of the right kind; entries past the end of an array are empty.\<close>

definition page_ok :: "store \<Rightarrow> c_page \<Rightarrow> bool" where
  "page_ok st pg \<longleftrightarrow> (c_attr pg \<noteq> 0 \<longrightarrow> (\<exists>f. blocks st (c_attr pg) = Some (Bytes_block f))) \<and>
     (\<forall>b. c_data pg = Half_of b \<longrightarrow> b = c_attr pg)"

definition table_ok :: "store \<Rightarrow> nat \<Rightarrow> bool" where
  "table_ok st t \<longleftrightarrow> (\<exists>T. blocks st t = Some (Ptable_block T) \<and> (\<forall>u. page_ok st (T u)) \<and> (\<forall>u\<ge>1024. c_attr (T u) = 0))"

definition pdir_ok :: "store \<Rightarrow> nat \<Rightarrow> bool" where
  "pdir_ok st d \<longleftrightarrow> (\<exists>D. blocks st d = Some (Pdir_block D) \<and> (\<forall>i. D i \<noteq> 0 \<longrightarrow> table_ok st (D i)) \<and> (\<forall>i\<ge>1024. D i = 0))"

text \<open>A memory in the storage: besides, no block is used twice.\<close>

definition memory_at :: "store \<Rightarrow> nat \<Rightarrow> bool" where
  "memory_at st p \<longleftrightarrow> store_ok st \<and> (\<exists>m. blocks st p = Some (Mem_block m) \<and> (c_pdir m \<noteq> 0 \<longrightarrow> pdir_ok st (c_pdir m))) \<and>
     distinct (mem_ptrs st p)"

section \<open>Nothing but new blocks\<close>

text \<open>Of the blocks there were, at most \<open>new\<close> has changed.\<close>

definition extends :: "nat \<Rightarrow> store \<Rightarrow> store \<Rightarrow> bool" where
  "extends new st st' \<longleftrightarrow> store_ok st' \<and> next_ptr st \<le> next_ptr st' \<and> (\<forall>q<next_ptr st. q \<noteq> new \<longrightarrow> blocks st' q = blocks st q)"

lemma extends_refl: "store_ok st \<Longrightarrow> extends new st st"
  by (simp add: extends_def)

lemma extends_trans: "extends new st st' \<Longrightarrow> extends new st' st'' \<Longrightarrow> extends new st st''"
  by (auto simp: extends_def)

lemma allocated: "store_ok st \<Longrightarrow> blocks st p = Some b \<Longrightarrow> p \<noteq> 0 \<and> p < next_ptr st"
  by (metis linorder_not_le option.distinct(1) store_ok_def)

lemma extends_block:
  "store_ok st \<Longrightarrow> extends new st st' \<Longrightarrow> blocks st p = Some b \<Longrightarrow> p \<noteq> new \<Longrightarrow> blocks st' p = Some b"
  using allocated by (fastforce simp: extends_def)

lemma mem_dup_some:
  assumes "store_ok st" "blocks st p = Some b"
  shows "mem_dup p st = (next_ptr st, st\<lparr>blocks := (blocks st)(next_ptr st := Some b), next_ptr := Suc (next_ptr st)\<rparr>)"
    "extends new st (st\<lparr>blocks := (blocks st)(next_ptr st := Some b), next_ptr := Suc (next_ptr st)\<rparr>)"
  using assms by (auto simp: mem_dup_def malloc_def extends_def store_ok_def)

lemma put_block_extends:
  "store_ok st \<Longrightarrow> p \<noteq> 0 \<Longrightarrow> p < next_ptr st \<Longrightarrow> extends p st (put_block p b st)"
  by (auto simp: put_block_def extends_def store_ok_def)

lemma put_block_blocks [simp]: "blocks (put_block p b st) q = (if q = p then Some b else blocks st q)" "next_ptr (put_block p b st) = next_ptr st"
  by (simp_all add: put_block_def)

lemma ptable_block [simp]: "blocks st p = Some (Ptable_block T) \<Longrightarrow> the_ptable st p = T"
  by (simp add: the_ptable_def)

lemma pdir_block [simp]: "blocks st p = Some (Pdir_block D) \<Longrightarrow> the_pdir st p = D"
  by (simp add: the_pdir_def)

lemma mem_block [simp]: "blocks st p = Some (Mem_block m) \<Longrightarrow> the_mem st p = m"
  by (simp add: the_mem_def)

lemma page_extends:
  assumes "store_ok st" "extends new st st'" "page_ok st pg" "\<And>f. blocks st new \<noteq> Some (Bytes_block f)"
  shows "page_val st' pg = page_val st pg" "page_ok st' pg"
proof -
  have "blocks st' (c_attr pg) = blocks st (c_attr pg)"
  proof (cases "c_attr pg = 0")
    case True
    then show ?thesis using assms(1,2) by (simp add: extends_def store_ok_def)
  next
    case False
    then obtain f where "blocks st (c_attr pg) = Some (Bytes_block f)" using assms(3) by (auto simp: page_ok_def)
    then show ?thesis using extends_block[OF assms(1,2)] assms(4) by metis
  qed
  then have "the_bytes st' (c_attr pg) = the_bytes st (c_attr pg)" "blocks st' (c_attr pg) = blocks st (c_attr pg)"
    by (simp_all add: the_bytes_def)
  then show "page_val st' pg = page_val st pg" "page_ok st' pg"
    using assms(3) by (simp_all add: page_val_def page_ok_def cong: if_cong)
qed

lemma table_extends:
  assumes "store_ok st" "extends new st st'" "table_ok st t"
    and "\<And>f. blocks st new \<noteq> Some (Bytes_block f)" "\<And>T. blocks st new \<noteq> Some (Ptable_block T)"
  shows "table_val st' t = table_val st t" "table_ok st' t" "table_ptrs st' t = table_ptrs st t"
proof -
  obtain T where T: "blocks st t = Some (Ptable_block T)" "\<And>u. page_ok st (T u)" "\<And>u. u \<ge> 1024 \<Longrightarrow> c_attr (T u) = 0"
    using assms(3) by (auto simp: table_ok_def)
  have T': "blocks st' t = Some (Ptable_block T)" using extends_block[OF assms(1,2) T(1)] assms(5) T(1) by metis
  show "table_val st' t = table_val st t" "table_ok st' t" "table_ptrs st' t = table_ptrs st t"
    using page_extends[OF assms(1,2) T(2) assms(4)] T(3) by (simp_all add: table_val_def table_ok_def table_ptrs_def T(1) T')
qed

section \<open>A clone is a copy\<close>

lemma concat_upt_Suc:
  assumes "\<And>u. u < n \<Longrightarrow> f u = g u"
  shows "concat (map f [0..<Suc n]) = concat (map g [0..<n]) @ f n"
proof -
  have "concat (map f [0..<n]) = concat (map g [0..<n])" by (rule arg_cong[where f = concat], rule map_cong) (auto simp: assms)
  then show ?thesis by simp
qed

text \<open>One page: its copy has a block of its own, allocated by this step.\<close>

lemma clone_page_step:
  assumes st: "store_ok st" and new: "blocks st new = Some (Ptable_block T')" and old: "blocks st old = Some (Ptable_block T)" "old \<noteq> new"
    and pg: "page_ok st (T u)" "T' u = T u"
  shows "\<exists>pg'. extends new st (clone_page old new u st) \<and> blocks (clone_page old new u st) new = Some (Ptable_block (T'(u := pg'))) \<and>
    page_val (clone_page old new u st) pg' = page_val st (T u) \<and> page_ok (clone_page old new u st) pg' \<and>
    (c_attr pg' = 0 \<longleftrightarrow> c_attr (T u) = 0) \<and> set (page_ptrs pg') = {next_ptr st..<next_ptr (clone_page old new u st)}"
proof (cases "c_attr (T u) = 0")
  case True
  then have "clone_page old new u st = st" by (simp add: clone_page_def old)
  moreover have "T'(u := T u) = T'" using pg(2) by auto
  ultimately show ?thesis using st new pg(1) True by (intro exI[of _ "T u"]) (simp add: extends_refl page_ptrs_def)
next
  case False
  then obtain f where f: "blocks st (c_attr (T u)) = Some (Bytes_block f)" using pg(1) by (auto simp: page_ok_def)
  let ?a = "next_ptr st" and ?new = "(T u)\<lparr>c_attr := next_ptr st, c_data := (case c_data (T u) of Half_of b \<Rightarrow> Half_of (next_ptr st) | d \<Rightarrow> d)\<rparr>"
  let ?st = "st\<lparr>blocks := (blocks st)(?a := Some (Bytes_block f)), next_ptr := Suc ?a\<rparr>"
  note dup = mem_dup_some(1)[OF st f] mem_dup_some(2)[OF st f, of new]
  have alloc: "new \<noteq> 0" "new < ?a" using allocated[OF st new] by simp_all
  let ?t = "T'(u := (T u)\<lparr>c_attr := ?a\<rparr>)"
  have t1: "the_ptable ?st new = T'" using new alloc(2) by (intro ptable_block) simp
  have t2: "the_ptable (put_block new (Ptable_block ?t) ?st) new = ?t" by (rule ptable_block) simp
  have half: "c_data (T u) \<noteq> Half_of (c_attr (T u)) \<Longrightarrow> ?new = (T u)\<lparr>c_attr := ?a\<rparr>"
    using pg(1) by (auto simp: page_ok_def split: c_data.split)
  have "clone_page old new u st = put_block new (Ptable_block (T'(u := ?new))) ?st"
    using False half t2
    by (cases "c_data (T u) = Half_of (c_attr (T u))")
       (simp_all add: clone_page_def ptable_block[OF old(1)] dup(1) Let_def t1 pg(2) put_block_def)
  then have res: "blocks (clone_page old new u st) = (blocks st)(?a := Some (Bytes_block f), new := Some (Ptable_block (T'(u := ?new))))"
    "next_ptr (clone_page old new u st) = Suc ?a"
    by (simp_all add: put_block_def)
  have "extends new st (clone_page old new u st)"
    using dup(2) alloc by (auto simp: extends_def res store_ok_def)
  moreover have "blocks (clone_page old new u st) ?a = Some (Bytes_block f)" using alloc(2) by (simp add: res)
  then have "page_val (clone_page old new u st) ?new = page_val st (T u)" "page_ok (clone_page old new u st) ?new"
    using False f st by (auto simp: page_val_def the_bytes_def page_ok_def store_ok_def split: c_data.splits)
  ultimately show ?thesis using False st
    by (intro exI[of _ ?new]) (simp add: res page_ptrs_def store_ok_def)
qed

text \<open>The pages of a table.\<close>

lemma clone_pages:
  assumes "store_ok st" "blocks st new = Some (Ptable_block T)" "blocks st old = Some (Ptable_block T)" "old \<noteq> new" "\<And>u. page_ok st (T u)"
  shows "\<exists>T'. extends new st (fold (clone_page old new) [0..<n] st) \<and> blocks (fold (clone_page old new) [0..<n] st) new = Some (Ptable_block T') \<and>
    (\<forall>u<n. page_val (fold (clone_page old new) [0..<n] st) (T' u) = page_val st (T u) \<and> page_ok (fold (clone_page old new) [0..<n] st) (T' u)) \<and>
    (\<forall>u\<ge>n. T' u = T u) \<and> distinct (concat (map (\<lambda>u. page_ptrs (T' u)) [0..<n])) \<and>
    set (concat (map (\<lambda>u. page_ptrs (T' u)) [0..<n])) = {next_ptr st..<next_ptr (fold (clone_page old new) [0..<n] st)}"
proof (induction n)
  case 0
  then show ?case using assms by (intro exI[of _ T]) (simp add: extends_refl)
next
  case (Suc n)
  let ?st = "fold (clone_page old new) [0..<n] st"
  obtain T' where IH: "extends new st ?st" "blocks ?st new = Some (Ptable_block T')"
    "\<And>u. u < n \<Longrightarrow> page_val ?st (T' u) = page_val st (T u) \<and> page_ok ?st (T' u)" "\<And>u. u \<ge> n \<Longrightarrow> T' u = T u"
    "distinct (concat (map (\<lambda>u. page_ptrs (T' u)) [0..<n]))"
    "set (concat (map (\<lambda>u. page_ptrs (T' u)) [0..<n])) = {next_ptr st..<next_ptr ?st}"
    using Suc.IH by blast
  have nb: "\<And>f. blocks st new \<noteq> Some (Bytes_block f)" "\<And>f. blocks ?st new \<noteq> Some (Bytes_block f)" using assms(2) IH(2) by simp_all
  have ok: "store_ok ?st" using IH(1) by (simp add: extends_def)
  have old: "blocks ?st old = Some (Ptable_block T)" by (rule extends_block[OF assms(1) IH(1) assms(3,4)])
  note pgs = page_extends[OF assms(1) IH(1) assms(5) nb(1)]
  let ?st' = "clone_page old new n ?st"
  obtain pg' where step: "extends new ?st ?st'" "blocks ?st' new = Some (Ptable_block (T'(n := pg')))"
    "page_val ?st' pg' = page_val ?st (T n)" "page_ok ?st' pg'" "set (page_ptrs pg') = {next_ptr ?st..<next_ptr ?st'}"
    using clone_page_step[OF ok IH(2) old assms(4) pgs(2) IH(4)] by blast
  have le: "next_ptr ?st \<le> next_ptr ?st'" "next_ptr st \<le> next_ptr ?st" using step(1) IH(1) by (simp_all add: extends_def)
  define T2 where "T2 = T'(n := pg')"
  have T2: "T2 n = pg'" "u \<noteq> n \<Longrightarrow> T2 u = T' u" for u by (simp_all add: T2_def)
  have all: "concat (map (\<lambda>u. page_ptrs (T2 u)) [0..<Suc n]) = concat (map (\<lambda>u. page_ptrs (T' u)) [0..<n]) @ page_ptrs pg'"
    using concat_upt_Suc[of n "\<lambda>u. page_ptrs (T2 u)" "\<lambda>u. page_ptrs (T' u)"] T2 by simp
  have vals: "page_val ?st' (T2 u) = page_val st (T u) \<and> page_ok ?st' (T2 u)" if "u < Suc n" for u
  proof (cases "u = n")
    case True
    then show ?thesis using step(3,4) pgs T2 by simp
  next
    case False
    then have "u < n" using that by simp
    then show ?thesis using page_extends[OF ok step(1) _ nb(2), of "T' u"] IH(3)[of u] T2(2) False by simp
  qed
  have "distinct (page_ptrs pg')" by (simp add: page_ptrs_def)
  moreover have "set (page_ptrs pg') \<inter> set (concat (map (\<lambda>u. page_ptrs (T' u)) [0..<n])) = {}" using IH(6) step(5) by fastforce
  ultimately have dist: "distinct (concat (map (\<lambda>u. page_ptrs (T2 u)) [0..<Suc n]))"
    unfolding all using IH(5) by (simp add: Int_commute)
  have sub: "set (concat (map (\<lambda>u. page_ptrs (T2 u)) [0..<Suc n])) = {next_ptr st..<next_ptr ?st'}"
    unfolding all using IH(6) step(5) le by fastforce
  have rest: "\<forall>u\<ge>Suc n. T2 u = T u" using T2(2) IH(4) by simp
  have next': "fold (clone_page old new) [0..<Suc n] st = ?st'" by simp
  show ?case unfolding next'
    by (rule exI[of _ T2]) (use extends_trans[OF IH(1) step(1)] step(2)[folded T2_def] vals rest dist sub in blast)
qed

text \<open>One table with its pages.\<close>

lemma clone_table_step:
  assumes st: "store_ok st" and new: "blocks st npd = Some (Pdir_block D')" and old: "blocks st pd = Some (Pdir_block D)"
    and tab: "D i \<noteq> 0 \<longrightarrow> table_ok st (D i)" "D' i = D i"
  shows "\<exists>t. extends npd st (clone_table pd npd i st) \<and> blocks (clone_table pd npd i st) npd = Some (Pdir_block (D'(i := t))) \<and>
    (t = 0 \<longleftrightarrow> D i = 0) \<and> (D i \<noteq> 0 \<longrightarrow> table_val (clone_table pd npd i st) t = table_val st (D i) \<and> table_ok (clone_table pd npd i st) t) \<and>
    distinct (table_ptrs (clone_table pd npd i st) t) \<and>
    set (table_ptrs (clone_table pd npd i st) t) = {next_ptr st..<next_ptr (clone_table pd npd i st)}"
proof (cases "D i = 0")
  case True
  have "clone_table pd npd i st = st" using True by (simp add: clone_table_def pdir_block[OF old])
  moreover have "D'(i := 0) = D'" using tab(2) True by auto
  ultimately show ?thesis using st new True by (intro exI[of _ 0]) (simp add: extends_refl table_ptrs_def)
next
  case False
  obtain T where T: "blocks st (D i) = Some (Ptable_block T)" "\<And>u. page_ok st (T u)" "\<And>u. u \<ge> 1024 \<Longrightarrow> c_attr (T u) = 0"
    using tab(1) False by (auto simp: table_ok_def)
  define nt where "nt = next_ptr st"
  define st1 where "st1 = st\<lparr>blocks := (blocks st)(nt := Some (Ptable_block T)), next_ptr := Suc nt\<rparr>"
  define st2 where "st2 = put_block npd (Pdir_block (D'(i := nt))) st1"
  define st' where "st' = fold (clone_page (D i) nt) [0..<1024] st2"
  have alloc: "npd < nt" "D i < nt" "npd \<noteq> 0" "0 < nt" using allocated[OF st new] allocated[OF st T(1)] st by (simp_all add: nt_def store_ok_def)
  have dup: "mem_dup (D i) st = (nt, st1)" using mem_dup_some(1)[OF st T(1)] by (simp add: nt_def st1_def)
  have st1: "the_pdir st1 npd = D'" using new alloc by (intro pdir_block) (simp add: st1_def)
  have run: "clone_table pd npd i st = st'"
    using False by (simp add: clone_table_def pdir_block[OF old] dup Let_def st1 st2_def st'_def)
  have ext2: "extends npd st st2" using st alloc
    by (auto simp: extends_def store_ok_def st2_def st1_def nt_def)
  have ok2: "store_ok st2" using ext2 by (simp add: extends_def)
  have tabs: "blocks st2 nt = Some (Ptable_block T)" "blocks st2 (D i) = Some (Ptable_block T)" "D i \<noteq> nt" "next_ptr st2 = Suc nt"
    "blocks st2 npd = Some (Pdir_block (D'(i := nt)))"
    using alloc new T(1) by (auto simp: st2_def st1_def)
  have nb: "\<And>f. blocks st npd \<noteq> Some (Bytes_block f)" "\<And>f. blocks st2 nt \<noteq> Some (Bytes_block f)" using new tabs(1) by simp_all
  note pgs = page_extends[OF st ext2 T(2) nb(1)]
  obtain T' where T': "extends nt st2 st'" "blocks st' nt = Some (Ptable_block T')"
    "\<And>u. u < 1024 \<Longrightarrow> page_val st' (T' u) = page_val st2 (T u) \<and> page_ok st' (T' u)" "\<And>u. u \<ge> 1024 \<Longrightarrow> T' u = T u"
    "distinct (concat (map (\<lambda>u. page_ptrs (T' u)) [0..<1024]))"
    "set (concat (map (\<lambda>u. page_ptrs (T' u)) [0..<1024])) = {next_ptr st2..<next_ptr st'}"
    using clone_pages[OF ok2 tabs(1,2,3) pgs(2), of 1024] unfolding st'_def by blast
  have vals: "page_val st' (T' u) = page_val st (T u) \<and> page_ok st' (T' u)" for u
    using T'(3,4)[of u] pgs page_extends[OF ok2 T'(1) pgs(2)[of u] nb(2)] by (cases "u < 1024") simp_all
  have ptrs: "table_ptrs st' nt = concat (map (\<lambda>u. page_ptrs (T' u)) [0..<1024]) @ [nt]"
    using alloc by (simp add: table_ptrs_def ptable_block[OF T'(2)])
  have next': "Suc nt \<le> next_ptr st'" using T'(1) tabs(4) by (simp add: extends_def)
  have "blocks st' npd = Some (Pdir_block (D'(i := nt)))" using extends_block[OF ok2 T'(1) tabs(5)] alloc by simp
  moreover have "extends npd st st'" using ext2 T'(1) alloc by (auto simp: extends_def nt_def)
  moreover have "table_val st' nt = table_val st (D i)" using vals by (simp add: table_val_def ptable_block[OF T'(2)] ptable_block[OF T(1)])
  moreover have "table_ok st' nt" using vals T'(2,4) T(3) by (simp add: table_ok_def)
  moreover have "distinct (table_ptrs st' nt)" unfolding ptrs using T'(5,6) tabs(4) by auto
  moreover have "set (table_ptrs st' nt) = {next_ptr st..<next_ptr st'}" unfolding ptrs using T'(6) tabs(4) next' nt_def by fastforce
  ultimately show ?thesis unfolding run using False alloc(4) by (intro exI[of _ nt]) simp
qed

text \<open>All tables of a directory.\<close>

lemma clone_tables:
  assumes "store_ok st" "blocks st npd = Some (Pdir_block D)" "blocks st pd = Some (Pdir_block D)" "pd \<noteq> npd"
    and "\<And>i. D i \<noteq> 0 \<Longrightarrow> table_ok st (D i)"
  shows "\<exists>D'. extends npd st (fold (clone_table pd npd) [0..<n] st) \<and> blocks (fold (clone_table pd npd) [0..<n] st) npd = Some (Pdir_block D') \<and>
    (\<forall>i<n. (D' i = 0 \<longleftrightarrow> D i = 0) \<and> (D i \<noteq> 0 \<longrightarrow> table_val (fold (clone_table pd npd) [0..<n] st) (D' i) = table_val st (D i) \<and>
      table_ok (fold (clone_table pd npd) [0..<n] st) (D' i))) \<and> (\<forall>i\<ge>n. D' i = D i) \<and>
    distinct (concat (map (\<lambda>i. table_ptrs (fold (clone_table pd npd) [0..<n] st) (D' i)) [0..<n])) \<and>
    set (concat (map (\<lambda>i. table_ptrs (fold (clone_table pd npd) [0..<n] st) (D' i)) [0..<n])) =
      {next_ptr st..<next_ptr (fold (clone_table pd npd) [0..<n] st)}"
proof (induction n)
  case 0
  then show ?case using assms by (intro exI[of _ D]) (simp add: extends_refl)
next
  case (Suc n)
  define sn where "sn = fold (clone_table pd npd) [0..<n] st"
  obtain D' where IH: "extends npd st sn" "blocks sn npd = Some (Pdir_block D')"
    "\<And>i. i < n \<Longrightarrow> (D' i = 0 \<longleftrightarrow> D i = 0) \<and> (D i \<noteq> 0 \<longrightarrow> table_val sn (D' i) = table_val st (D i) \<and> table_ok sn (D' i))"
    "\<And>i. i \<ge> n \<Longrightarrow> D' i = D i" "distinct (concat (map (\<lambda>i. table_ptrs sn (D' i)) [0..<n]))"
    "set (concat (map (\<lambda>i. table_ptrs sn (D' i)) [0..<n])) = {next_ptr st..<next_ptr sn}"
    using Suc.IH unfolding sn_def by blast
  have ok: "store_ok sn" using IH(1) by (simp add: extends_def)
  have old: "blocks sn pd = Some (Pdir_block D)" by (rule extends_block[OF assms(1) IH(1) assms(3,4)])
  have nb: "\<And>f. blocks st npd \<noteq> Some (Bytes_block f)" "\<And>T. blocks st npd \<noteq> Some (Ptable_block T)"
    "\<And>f. blocks sn npd \<noteq> Some (Bytes_block f)" "\<And>T. blocks sn npd \<noteq> Some (Ptable_block T)"
    using assms(2) IH(2) by simp_all
  note tabs = table_extends[OF assms(1) IH(1) assms(5) nb(1,2)]
  define s' where "s' = clone_table pd npd n sn"
  obtain t where step: "extends npd sn s'" "blocks s' npd = Some (Pdir_block (D'(n := t)))" "t = 0 \<longleftrightarrow> D n = 0"
    "D n \<noteq> 0 \<longrightarrow> table_val s' t = table_val sn (D n) \<and> table_ok s' t" "distinct (table_ptrs s' t)"
    "set (table_ptrs s' t) = {next_ptr sn..<next_ptr s'}"
    using clone_table_step[OF ok IH(2) old _ IH(4)] tabs(2) unfolding s'_def by blast
  have le: "next_ptr sn \<le> next_ptr s'" "next_ptr st \<le> next_ptr sn" using step(1) IH(1) by (simp_all add: extends_def)
  define D2 where "D2 = D'(n := t)"
  have D2: "D2 n = t" "i \<noteq> n \<Longrightarrow> D2 i = D' i" for i by (simp_all add: D2_def)
  have kept: "table_ptrs s' (D2 i) = table_ptrs sn (D' i)" "D i \<noteq> 0 \<Longrightarrow> table_val s' (D2 i) = table_val sn (D' i) \<and> table_ok s' (D2 i)" if "i < n" for i
  proof -
    show "table_ptrs s' (D2 i) = table_ptrs sn (D' i)"
      using that D2(2)[of i] IH(3)[OF that] table_extends(3)[OF ok step(1) _ nb(3,4), of "D' i"] by (cases "D i = 0") (simp_all add: table_ptrs_def)
    show "D i \<noteq> 0 \<Longrightarrow> table_val s' (D2 i) = table_val sn (D' i) \<and> table_ok s' (D2 i)"
      using that D2(2)[of i] IH(3)[OF that] table_extends(1,2)[OF ok step(1) _ nb(3,4), of "D' i"] by simp
  qed
  have all: "concat (map (\<lambda>i. table_ptrs s' (D2 i)) [0..<Suc n]) = concat (map (\<lambda>i. table_ptrs sn (D' i)) [0..<n]) @ table_ptrs s' t"
    using concat_upt_Suc[of n "\<lambda>i. table_ptrs s' (D2 i)" "\<lambda>i. table_ptrs sn (D' i)"] kept(1) D2(1) by simp
  have vals: "(D2 i = 0 \<longleftrightarrow> D i = 0) \<and> (D i \<noteq> 0 \<longrightarrow> table_val s' (D2 i) = table_val st (D i) \<and> table_ok s' (D2 i))" if "i < Suc n" for i
  proof (cases "i = n")
    case True
    then show ?thesis using step(3,4) tabs(1) D2(1) by simp
  next
    case False
    then have "i < n" using that by simp
    then show ?thesis using IH(3)[of i] kept(2)[of i] D2(2)[OF False] by (cases "D i = 0") simp_all
  qed
  have "set (concat (map (\<lambda>i. table_ptrs sn (D' i)) [0..<n])) \<inter> set (table_ptrs s' t) = {}" using IH(6) step(6) by fastforce
  then have dist: "distinct (concat (map (\<lambda>i. table_ptrs s' (D2 i)) [0..<Suc n]))" unfolding all using IH(5) step(5) by simp
  have sub: "set (concat (map (\<lambda>i. table_ptrs s' (D2 i)) [0..<Suc n])) = {next_ptr st..<next_ptr s'}"
    unfolding all using IH(6) step(6) le by fastforce
  have rest: "\<forall>i\<ge>Suc n. D2 i = D i" using D2(2) IH(4) by simp
  have next': "fold (clone_table pd npd) [0..<Suc n] st = s'" by (simp add: s'_def sn_def)
  show ?case unfolding next'
    by (rule exI[of _ D2]) (use extends_trans[OF IH(1) step(1)] step(2)[folded D2_def] vals rest dist sub in blast)
qed

text \<open>What a memory is stays what it is when blocks of other kinds come or change.\<close>

lemma memory_extends:
  assumes "memory_at st p" "extends new st st'"
    and "\<And>f. blocks st new \<noteq> Some (Bytes_block f)" "\<And>T. blocks st new \<noteq> Some (Ptable_block T)"
      "\<And>D. blocks st new \<noteq> Some (Pdir_block D)" "\<And>m. blocks st new \<noteq> Some (Mem_block m)"
  shows "memory_at st' p" "mem_val st' hm p = mem_val st hm p" "mem_ptrs st' p = mem_ptrs st p"
proof -
  obtain m where m: "store_ok st" "blocks st p = Some (Mem_block m)" "c_pdir m \<noteq> 0 \<Longrightarrow> pdir_ok st (c_pdir m)" "distinct (mem_ptrs st p)"
    using assms(1) by (auto simp: memory_at_def)
  have m': "blocks st' p = Some (Mem_block m)" using extends_block[OF m(1) assms(2) m(2)] assms(6) m(2) by metis
  have ok: "store_ok st'" using assms(2) by (simp add: extends_def)
  have all: "mem_val st' hm p = mem_val st hm p \<and> mem_ptrs st' p = mem_ptrs st p \<and> (c_pdir m \<noteq> 0 \<longrightarrow> pdir_ok st' (c_pdir m))"
  proof (cases "c_pdir m = 0")
    case True
    then show ?thesis by (simp add: mem_val_def mem_ptrs_def pdir_ptrs_def mem_block[OF m'] mem_block[OF m(2)])
  next
    case False
    then obtain D where D: "blocks st (c_pdir m) = Some (Pdir_block D)" "\<And>i. D i \<noteq> 0 \<Longrightarrow> table_ok st (D i)" "\<And>i. i \<ge> 1024 \<Longrightarrow> D i = 0"
      using m(3) by (auto simp: pdir_ok_def)
    have D': "blocks st' (c_pdir m) = Some (Pdir_block D)" using extends_block[OF m(1) assms(2) D(1)] assms(5) D(1) by metis
    note t = table_extends[OF m(1) assms(2) D(2) assms(3,4)]
    have "table_ptrs st' (D i) = table_ptrs st (D i)" for i using t(3)[of i] by (cases "D i = 0") (simp_all add: table_ptrs_def)
    then have "pdir_ptrs st' (c_pdir m) = pdir_ptrs st (c_pdir m)"
      by (simp add: pdir_ptrs_def pdir_block[OF D'] pdir_block[OF D(1)])
    moreover have "(if D i = 0 then None else Some (table_val st' (D i))) = (if D i = 0 then None else Some (table_val st (D i)))" for i
      using t(1)[of i] by simp
    moreover have "pdir_ok st' (c_pdir m)" using D' D(3) t(2) by (auto simp: pdir_ok_def)
    ultimately show ?thesis
      by (simp add: mem_val_def mem_ptrs_def mem_block[OF m'] mem_block[OF m(2)] pdir_block[OF D'] pdir_block[OF D(1)] Let_def cong: if_cong)
  qed
  then show "mem_val st' hm p = mem_val st hm p" "mem_ptrs st' p = mem_ptrs st p" by simp_all
  then show "memory_at st' p" using all ok m' m(4) by (simp add: memory_at_def)
qed

lemma mem_clone_copies:
  assumes "memory_at st p"
  shows "\<exists>q st'. emu_mem_clone p st = (q, st') \<and> extends 0 st st' \<and> memory_at st' q \<and> mem_val st' hm q = mem_val st hm p \<and>
    set (mem_ptrs st' q) = {next_ptr st..<next_ptr st'}"
proof -
  obtain m where m: "store_ok st" "blocks st p = Some (Mem_block m)" "c_pdir m \<noteq> 0 \<Longrightarrow> pdir_ok st (c_pdir m)"
    using assms by (auto simp: memory_at_def)
  define q where "q = next_ptr st"
  define st1 where "st1 = st\<lparr>blocks := (blocks st)(q := Some (Mem_block m)), next_ptr := Suc q\<rparr>"
  have p: "p \<noteq> 0" "p < q" "0 < q" using allocated[OF m(1,2)] m(1) by (simp_all add: q_def store_ok_def)
  have dup: "mem_dup p st = (q, st1)" "extends 0 st st1"
    using mem_dup_some(1)[OF m(1,2)] mem_dup_some(2)[OF m(1,2), of 0] by (simp_all add: q_def st1_def)
  have st1: "store_ok st1" "blocks st1 q = Some (Mem_block m)" "blocks st1 p = Some (Mem_block m)" "next_ptr st1 = Suc q"
    using dup(2) m(2) p by (simp_all add: extends_def st1_def)
  show ?thesis
  proof (cases "c_pdir m = 0")
    case True
    have "emu_mem_clone p st = (q, st1)" using True p by (simp add: emu_mem_clone_def dup(1) mem_block[OF st1(3)])
    moreover have "memory_at st1 q" using True st1 by (simp add: memory_at_def mem_ptrs_def pdir_ptrs_def mem_block[OF st1(2)])
    moreover have "mem_val st1 hm q = mem_val st hm p" by (simp add: mem_val_def mem_block[OF st1(2)] mem_block[OF m(2)] True Let_def)
    moreover have "mem_ptrs st1 q = [q]" using True by (simp add: mem_ptrs_def pdir_ptrs_def mem_block[OF st1(2)])
    then have "set (mem_ptrs st1 q) = {next_ptr st..<next_ptr st1}" by (simp add: st1(4)) (simp add: q_def)
    ultimately show ?thesis using dup(2) by blast
  next
    case False
    obtain D where D: "blocks st (c_pdir m) = Some (Pdir_block D)" "\<And>i. D i \<noteq> 0 \<Longrightarrow> table_ok st (D i)" "\<And>i. i \<ge> 1024 \<Longrightarrow> D i = 0"
      using m(3)[OF False] by (auto simp: pdir_ok_def)
    define pd where "pd = c_pdir m"
    define npd where "npd = Suc q"
    define st2 where "st2 = st1\<lparr>blocks := (blocks st1)(npd := Some (Pdir_block D)), next_ptr := Suc npd\<rparr>"
    define st3 where "st3 = put_block q (Mem_block (m\<lparr>c_pdir := npd\<rparr>)) st2"
    define st' where "st' = fold (clone_table pd npd) [0..<1024] st3"
    have pd: "pd < q" using allocated[OF m(1) D(1)] by (simp add: pd_def q_def)
    have "blocks st1 pd = Some (Pdir_block D)" using D(1) pd by (simp add: st1_def pd_def)
    note dup2 = mem_dup_some(1)[OF st1(1) this] mem_dup_some(2)[OF st1(1) this, of 0]
    have dup2: "mem_dup pd st1 = (npd, st2)" "extends 0 st1 st2" using dup2 by (simp_all add: npd_def st2_def st1(4))
    have "blocks st2 q = Some (Mem_block m)" using st1(2) by (simp add: st2_def npd_def)
    then have run: "emu_mem_clone p st = (q, st')"
      using False p by (simp add: emu_mem_clone_def dup(1) mem_block[OF st1(3)] dup2(1)[unfolded pd_def] st3_def st'_def pd_def)
    have ext3: "extends 0 st st3" using m(1) extends_trans[OF dup(2) dup2(2)] p
      by (auto simp: extends_def store_ok_def st3_def st2_def st1_def q_def npd_def)
    have ok3: "store_ok st3" using ext3 by (simp add: extends_def)
    have s3: "blocks st3 npd = Some (Pdir_block D)" "blocks st3 pd = Some (Pdir_block D)" "pd \<noteq> npd"
      "blocks st3 q = Some (Mem_block (m\<lparr>c_pdir := npd\<rparr>))" "next_ptr st3 = Suc npd"
      using D(1) pd by (simp_all add: st3_def st2_def st1_def npd_def pd_def)
    have z: "blocks st 0 = None" using m(1) by (simp add: store_ok_def)
    have tab: "table_val st3 (D i) = table_val st (D i)" "table_ok st3 (D i)" if "D i \<noteq> 0" for i
      using table_extends(1,2)[OF m(1) ext3 D(2)[OF that]] z by simp_all
    obtain D' where D': "extends npd st3 st'" "blocks st' npd = Some (Pdir_block D')"
      "\<And>i. i < 1024 \<Longrightarrow> (D' i = 0 \<longleftrightarrow> D i = 0) \<and> (D i \<noteq> 0 \<longrightarrow> table_val st' (D' i) = table_val st3 (D i) \<and> table_ok st' (D' i))"
      "\<And>i. i \<ge> 1024 \<Longrightarrow> D' i = D i" "distinct (concat (map (\<lambda>i. table_ptrs st' (D' i)) [0..<1024]))"
      "set (concat (map (\<lambda>i. table_ptrs st' (D' i)) [0..<1024])) = {next_ptr st3..<next_ptr st'}"
      using clone_tables[OF ok3 s3(1,2,3) tab(2), of 1024] unfolding st'_def by blast
    have q': "blocks st' q = Some (Mem_block (m\<lparr>c_pdir := npd\<rparr>))" using extends_block[OF ok3 D'(1) s3(4)] by (simp add: npd_def)
    have ext: "extends 0 st st'" using ext3 D'(1) by (auto simp: extends_def npd_def q_def)
    have vals: "(D' i = 0 \<longleftrightarrow> D i = 0) \<and> (D i \<noteq> 0 \<longrightarrow> table_val st' (D' i) = table_val st (D i) \<and> table_ok st' (D' i))" for i
      using D'(3,4)[of i] D(3)[of i] tab(1)[of i] by (cases "i < 1024") simp_all
    have "(if D' i = 0 then None else Some (table_val st' (D' i))) = (if D i = 0 then None else Some (table_val st (D i)))" for i
      using vals[of i] by simp
    then have val: "mem_val st' hm q = mem_val st hm p"
      using False by (simp add: mem_val_def mem_block[OF q'] mem_block[OF m(2)] pdir_block[OF D'(2)] pdir_block[OF D(1)] Let_def cong: if_cong)
         (simp add: npd_def)
    have ptrs: "mem_ptrs st' q = concat (map (\<lambda>i. table_ptrs st' (D' i)) [0..<1024]) @ [npd, q]"
      by (simp add: mem_ptrs_def pdir_ptrs_def mem_block[OF q'] pdir_block[OF D'(2)]) (simp add: npd_def)
    have "Suc npd \<le> next_ptr st'" using D'(1) s3(5) by (simp add: extends_def)
    then have sub: "set (mem_ptrs st' q) = {next_ptr st..<next_ptr st'}" unfolding ptrs using D'(6) s3(5) by (fastforce simp: npd_def q_def)
    have "distinct (mem_ptrs st' q)" unfolding ptrs using D'(5,6) s3(5) by (auto simp: npd_def)
    moreover have "D' i \<noteq> 0 \<Longrightarrow> table_ok st' (D' i)" for i using vals[of i] by simp
    then have "pdir_ok st' npd" using D'(2,4) D(3) by (simp add: pdir_ok_def)
    moreover have "store_ok st'" using D'(1) by (simp add: extends_def)
    ultimately have "memory_at st' q" using q' by (simp add: memory_at_def)
    then show ?thesis using run ext val sub by blast
  qed
qed

section \<open>Releasing a memory\<close>

definition without :: "nat list \<Rightarrow> store \<Rightarrow> store" where
  "without ps st = st\<lparr>blocks := (\<lambda>q. if q \<in> set ps then None else blocks st q)\<rparr>"

definition live_ptrs :: "nat list \<Rightarrow> store \<Rightarrow> bool" where
  "live_ptrs ps st \<longleftrightarrow> distinct ps \<and> (\<forall>q\<in>set ps. blocks st q \<noteq> None) \<and> 0 \<notin> set ps"

lemma without_blocks [simp]: "blocks (without ps st) q = (if q \<in> set ps then None else blocks st q)"
  by (simp add: without_def)

lemma without_append [simp]: "without qs (without ps st) = without (ps @ qs) st" "without [] st = st"
  by (auto simp: without_def fun_eq_iff)

lemma live_append: "live_ptrs (ps @ qs) st \<Longrightarrow> live_ptrs ps st \<and> live_ptrs qs (without ps st)"
  by (auto simp: live_ptrs_def)

lemma free_live: "live_ptrs [p] st \<Longrightarrow> free p st = Some (without [p] st)"
  by (auto simp: live_ptrs_def free_def without_def fun_eq_iff)

lemma fold_opt_append: "fold_opt f (xs @ ys) st = (case fold_opt f xs st of None \<Rightarrow> None | Some st \<Rightarrow> fold_opt f ys st)"
  by (induction xs arbitrary: st) (auto split: option.split)

lemma free_pages:
  assumes "blocks st t = Some (Ptable_block T)" "live_ptrs (concat (map (\<lambda>u. page_ptrs (T u)) us)) st"
    "t \<notin> set (concat (map (\<lambda>u. page_ptrs (T u)) us))"
  shows "fold_opt (\<lambda>u st. free (c_attr (the_ptable st t u)) st) us st = Some (without (concat (map (\<lambda>u. page_ptrs (T u)) us)) st)"
  using assms
proof (induction us arbitrary: st)
  case (Cons u us)
  let ?ps = "page_ptrs (T u)"
  have live: "live_ptrs ?ps st" "live_ptrs (concat (map (\<lambda>u. page_ptrs (T u)) us)) (without ?ps st)"
    using live_append Cons.prems(2) by fastforce+
  have "free (c_attr (the_ptable st t u)) st = Some (without ?ps st)"
    using live(1) free_live[of "c_attr (T u)" st]
    by (cases "c_attr (T u) = 0") (simp_all add: ptable_block[OF Cons.prems(1)] page_ptrs_def, simp add: free_def)
  moreover have "blocks (without ?ps st) t = Some (Ptable_block T)" using Cons.prems(1,3) by simp
  ultimately show ?case using Cons.IH[OF _ live(2)] Cons.prems(3) by simp
qed simp

lemma table_ptrs_without: "table_ok st t \<Longrightarrow> t \<notin> set ps \<Longrightarrow> table_ptrs (without ps st) t = table_ptrs st t"
  by (auto simp: table_ptrs_def the_ptable_def)

lemma free_one_table:
  assumes "blocks st pd = Some (Pdir_block D)" "D i \<noteq> 0 \<Longrightarrow> \<exists>T. blocks st (D i) = Some (Ptable_block T)" "live_ptrs (table_ptrs st (D i)) st"
  shows "free_table pd i st = Some (without (table_ptrs st (D i)) st)"
proof (cases "D i = 0")
  case True
  then show ?thesis by (simp add: free_table_def pdir_block[OF assms(1)] table_ptrs_def)
next
  case False
  then obtain T where T: "blocks st (D i) = Some (Ptable_block T)" using assms(2) by blast
  let ?ps = "concat (map (\<lambda>u. page_ptrs (T u)) [0..<1024])"
  have ps: "table_ptrs st (D i) = ?ps @ [D i]" using False by (simp add: table_ptrs_def ptable_block[OF T])
  have live: "live_ptrs ?ps st" "live_ptrs [D i] (without ?ps st)" using live_append assms(3) unfolding ps by blast+
  have "D i \<notin> set ?ps" using assms(3) unfolding ps live_ptrs_def by simp
  then show ?thesis using False free_pages[OF T live(1)] free_live[OF live(2)]
    by (simp add: free_table_def pdir_block[OF assms(1)] ps)
qed

lemma free_tables:
  assumes "blocks st pd = Some (Pdir_block D)" "\<And>i. D i \<noteq> 0 \<Longrightarrow> table_ok st (D i)"
    and "live_ptrs (concat (map (\<lambda>i. table_ptrs st (D i)) js)) st" "pd \<notin> set (concat (map (\<lambda>i. table_ptrs st (D i)) js))"
  shows "fold_opt (free_table pd) js st = Some (without (concat (map (\<lambda>i. table_ptrs st (D i)) js)) st)"
  using assms(3,4)
proof (induction js rule: rev_induct)
  case (snoc j js)
  let ?ps = "concat (map (\<lambda>i. table_ptrs st (D i)) js)"
  let ?st = "without ?ps st"
  have live: "live_ptrs ?ps st" "live_ptrs (table_ptrs st (D j)) ?st" using live_append[of ?ps "table_ptrs st (D j)" st] snoc.prems(1) by simp_all
  have pd: "blocks ?st pd = Some (Pdir_block D)" using assms(1) snoc.prems(2) by simp
  have same: "table_ptrs ?st (D j) = table_ptrs st (D j)" and tab: "D j \<noteq> 0 \<Longrightarrow> \<exists>T. blocks ?st (D j) = Some (Ptable_block T)"
  proof -
    have "D j \<in> set (table_ptrs st (D j))" if "D j \<noteq> 0" using that by (simp add: table_ptrs_def)
    then have "D j \<noteq> 0 \<Longrightarrow> blocks ?st (D j) \<noteq> None" using live(2) unfolding live_ptrs_def by blast
    then have out: "D j \<noteq> 0 \<Longrightarrow> D j \<notin> set ?ps" by (auto split: if_splits)
    show "table_ptrs ?st (D j) = table_ptrs st (D j)"
      using table_ptrs_without[OF assms(2) out] by (cases "D j = 0") (simp_all add: table_ptrs_def)
    show "D j \<noteq> 0 \<Longrightarrow> \<exists>T. blocks ?st (D j) = Some (Ptable_block T)" using assms(2)[of j] out by (auto simp: table_ok_def)
  qed
  have "free_table pd j ?st = Some (without (table_ptrs st (D j)) ?st)"
    using free_one_table[OF pd tab] live(2) by (simp add: same)
  then show ?case using snoc.IH live(1) snoc.prems(2) by (simp add: fold_opt_append)
qed simp

lemma mem_ptrs_live:
  assumes "memory_at st p"
  shows "live_ptrs (mem_ptrs st p) st"
proof -
  obtain m where m: "store_ok st" "blocks st p = Some (Mem_block m)" "c_pdir m \<noteq> 0 \<Longrightarrow> pdir_ok st (c_pdir m)" "distinct (mem_ptrs st p)"
    using assms by (auto simp: memory_at_def)
  have page: "blocks st q \<noteq> None" if "page_ok st pg" "q \<in> set (page_ptrs pg)" for q pg
    using that by (auto simp: page_ok_def page_ptrs_def split: if_splits)
  have tab: "blocks st q \<noteq> None" if t: "table_ok st t" "q \<in> set (table_ptrs st t)" for q t
  proof -
    obtain T where "blocks st t = Some (Ptable_block T)" "\<And>u. page_ok st (T u)" using t(1) by (auto simp: table_ok_def)
    then show ?thesis using t(2) page by (auto simp: table_ptrs_def split: if_splits)
  qed
  have "blocks st q \<noteq> None" if "q \<in> set (pdir_ptrs st (c_pdir m))" for q
  proof -
    have nz: "c_pdir m \<noteq> 0" using that by (cases "c_pdir m = 0") (simp_all add: pdir_ptrs_def)
    then obtain D where D: "blocks st (c_pdir m) = Some (Pdir_block D)" "\<And>i. D i \<noteq> 0 \<Longrightarrow> table_ok st (D i)"
      using m(3) by (auto simp: pdir_ok_def)
    have "q = c_pdir m \<or> (\<exists>i. q \<in> set (table_ptrs st (D i)))" using that nz by (auto simp: pdir_ptrs_def pdir_block[OF D(1)])
    then show ?thesis
    proof
      assume "\<exists>i. q \<in> set (table_ptrs st (D i))"
      then obtain i where i: "q \<in> set (table_ptrs st (D i))" by blast
      then have "D i \<noteq> 0" by (cases "D i = 0") (simp_all add: table_ptrs_def)
      then show ?thesis using tab[OF D(2) i] by blast
    qed (simp add: D(1))
  qed
  then have all: "\<forall>q\<in>set (mem_ptrs st p). blocks st q \<noteq> None" using m(2) by (auto simp: mem_ptrs_def mem_block[OF m(2)])
  then have "0 \<notin> set (mem_ptrs st p)" using m(1) by (auto simp: store_ok_def)
  then show ?thesis using m(4) all by (simp add: live_ptrs_def)
qed

lemma mem_free_releases:
  assumes "memory_at st p"
  shows "emu_mem_free p st = Some (without (mem_ptrs st p) st)"
proof -
  obtain m where m: "store_ok st" "blocks st p = Some (Mem_block m)" "c_pdir m \<noteq> 0 \<Longrightarrow> pdir_ok st (c_pdir m)"
    using assms by (auto simp: memory_at_def)
  have p: "p \<noteq> 0" using allocated[OF m(1,2)] by simp
  have ptrs: "mem_ptrs st p = pdir_ptrs st (c_pdir m) @ [p]" by (simp add: mem_ptrs_def mem_block[OF m(2)])
  have live: "live_ptrs (pdir_ptrs st (c_pdir m)) st" "live_ptrs [p] (without (pdir_ptrs st (c_pdir m)) st)"
    using mem_ptrs_live[OF assms] live_append unfolding ptrs by blast+
  show ?thesis
  proof (cases "c_pdir m = 0")
    case True
    then show ?thesis using p free_live[OF live(2)] by (simp add: emu_mem_free_def mem_block[OF m(2)] ptrs pdir_ptrs_def)
  next
    case False
    then obtain D where D: "blocks st (c_pdir m) = Some (Pdir_block D)" "\<And>i. D i \<noteq> 0 \<Longrightarrow> table_ok st (D i)"
      using m(3) by (auto simp: pdir_ok_def)
    let ?ps = "concat (map (\<lambda>i. table_ptrs st (D i)) [0..<1024])"
    have pp: "pdir_ptrs st (c_pdir m) = ?ps @ [c_pdir m]" using False by (simp add: pdir_ptrs_def pdir_block[OF D(1)])
    have l2: "live_ptrs ?ps st" "live_ptrs [c_pdir m] (without ?ps st)" using live(1) live_append unfolding pp by blast+
    have "c_pdir m \<notin> set ?ps" using live(1) unfolding pp live_ptrs_def by simp
    then have "fold_opt (free_table (c_pdir m)) [0..<1024] st = Some (without ?ps st)" using free_tables[OF D(1) D(2) l2(1)] by blast
    then show ?thesis using False p free_live[OF l2(2)] free_live[OF live(2)]
      by (simp add: emu_mem_free_def mem_block[OF m(2)] ptrs pp)
  qed
qed

section \<open>Emulators\<close>

definition the_stats :: "store \<Rightarrow> nat \<Rightarrow> nat \<Rightarrow> u32" where
  "the_stats st p = (case blocks st p of Some (Stats_block f) \<Rightarrow> f | _ \<Rightarrow> (\<lambda>_. 0))"

definition the_msrs :: "store \<Rightarrow> nat \<Rightarrow> nat \<Rightarrow> u64" where
  "the_msrs st p = (case blocks st p of Some (Msr_block f) \<Rightarrow> f | _ \<Rightarrow> (\<lambda>_. 0))"

text \<open>The text of the log is what lies before the log pointer in the buffer.\<close>

definition the_text :: "store \<Rightarrow> c_ptr \<Rightarrow> string option" where
  "the_text st ptr = (case ptr of Null_ptr \<Rightarrow> None | Into b ofs \<Rightarrow> Some (take ofs (the_log st b)))"

definition c_emu_val :: "store \<Rightarrow> (nat \<Rightarrow> u8) \<Rightarrow> c_emu \<Rightarrow> x86emu" where
  "c_emu_val st hm e = (c_rest e)\<lparr>msr := the_msrs st (c_msr e), msr_perm := the_bytes st (c_msr_perm e), mem := mem_val st hm (c_emu_mem e),
     io_map := the_bytes st (c_map e), io_stats_i := the_stats st (c_stats_i e), io_stats_o := the_stats st (c_stats_o e),
     log_text := the_text st (c_log_ptr e)\<rparr>"

definition emu_val :: "store \<Rightarrow> (nat \<Rightarrow> u8) \<Rightarrow> nat \<Rightarrow> x86emu option" where
  "emu_val st hm p = map_option (c_emu_val st hm) (the_emu st p)"

definition emu_ptrs :: "store \<Rightarrow> nat \<Rightarrow> nat list" where
  "emu_ptrs st p = (case the_emu st p of None \<Rightarrow> []
     | Some e \<Rightarrow> mem_ptrs st (c_emu_mem e) @ (if c_log e = 0 then [] else [c_log e]) @
         [c_map e, c_stats_i e, c_stats_o e, c_msr e, c_msr_perm e, p])"

text \<open>
  An emulator in the storage: every pointer leads to its kind of block, and no block has two
  uses. Of the log pointer it says no more than that it is not null if there is a buffer;
  \<open>log_inside\<close> says that it is inside its own buffer, behind text that has been written.
\<close>

definition c_emu_ok :: "store \<Rightarrow> c_emu \<Rightarrow> bool" where
  "c_emu_ok st e \<longleftrightarrow> memory_at st (c_emu_mem e) \<and> (c_log e \<noteq> 0 \<longrightarrow> (\<exists>n t. blocks st (c_log e) = Some (Log_block n t)) \<and> c_log_ptr e \<noteq> Null_ptr) \<and>
     (\<exists>f. blocks st (c_map e) = Some (Bytes_block f)) \<and> (\<exists>f. blocks st (c_stats_i e) = Some (Stats_block f)) \<and>
     (\<exists>f. blocks st (c_stats_o e) = Some (Stats_block f)) \<and> (\<exists>f. blocks st (c_msr e) = Some (Msr_block f)) \<and>
     (\<exists>f. blocks st (c_msr_perm e) = Some (Bytes_block f))"

definition emulator_at :: "store \<Rightarrow> nat \<Rightarrow> bool" where
  "emulator_at st p \<longleftrightarrow> (\<exists>e. blocks st p = Some (Emu_block e) \<and> c_emu_ok st e) \<and> distinct (emu_ptrs st p)"

definition log_in_buffer :: "store \<Rightarrow> nat \<Rightarrow> nat \<Rightarrow> c_ptr \<Rightarrow> bool" where
  "log_in_buffer st n buf ptr \<longleftrightarrow> buf = 0 \<and> ptr = Null_ptr \<or>
     (\<exists>t ofs. blocks st buf = Some (Log_block n t) \<and> ptr = Into buf ofs \<and> ofs \<le> length t \<and> length t \<le> n)"

definition log_inside :: "store \<Rightarrow> nat \<Rightarrow> bool" where
  "log_inside st p \<longleftrightarrow> (\<exists>e. the_emu st p = Some e \<and> log_in_buffer st (unat (log_size (c_rest e))) (c_log e) (c_log_ptr e))"

lemma log_in_buffer_keep:
  assumes "log_in_buffer st n buf ptr" "\<And>b. blocks st buf = Some b \<Longrightarrow> (\<And>e. b \<noteq> Emu_block e) \<Longrightarrow> blocks st' buf = Some b"
  shows "log_in_buffer st' n buf ptr" "the_text st' ptr = the_text st ptr"
  using assms by (auto simp: log_in_buffer_def the_text_def the_log_def)

lemma emu_block [simp]: "blocks st p = Some (Emu_block e) \<Longrightarrow> the_emu st p = Some e"
  by (simp add: the_emu_def)

lemma dup_array:
  assumes "store_ok st" "blocks st a = Some b"
  shows "\<exists>st'. mem_dup a st = (next_ptr st, st') \<and> extends 0 st st' \<and> blocks st' (next_ptr st) = Some b \<and> next_ptr st' = Suc (next_ptr st)"
  using mem_dup_some(1)[OF assms] mem_dup_some(2)[OF assms, of 0] by (intro exI[of _ "st\<lparr>blocks := (blocks st)(next_ptr st := Some b), next_ptr := Suc (next_ptr st)\<rparr>"]) simp

lemma extends_0_block: "store_ok st \<Longrightarrow> extends 0 st st' \<Longrightarrow> blocks st p = Some b \<Longrightarrow> blocks st' p = Some b"
  using extends_block[of st 0 st' p b] allocated by blast


text \<open>Copying one more block.\<close>

lemma dup_more:
  assumes "extends 0 s0 st" "store_ok s0" "blocks s0 a = Some b"
  shows "\<exists>st'. mem_dup a st = (next_ptr st, st') \<and> extends 0 s0 st' \<and> extends 0 st st' \<and> blocks st' (next_ptr st) = Some b \<and>
    next_ptr st' = Suc (next_ptr st)"
proof -
  have st: "store_ok st" "blocks st a = Some b" using assms(1) extends_0_block[OF assms(2,1,3)] by (simp_all add: extends_def)
  obtain st' where "mem_dup a st = (next_ptr st, st')" "extends 0 st st'" "blocks st' (next_ptr st) = Some b" "next_ptr st' = Suc (next_ptr st)"
    using dup_array[OF st] by blast
  then show ?thesis using extends_trans[OF assms(1)] by (intro exI[of _ st']) simp
qed

lemma extends_any:
  assumes "store_ok st" "extends 0 st st'"
  shows "extends new st st'"
  using assms by (auto simp: extends_def store_ok_def)

lemma emulator_ok: "emulator_at st p \<Longrightarrow> store_ok st"
  by (auto simp: emulator_at_def c_emu_ok_def memory_at_def)

text \<open>The blocks of an emulator are live ones.\<close>

lemma emu_ptrs_live:
  assumes "emulator_at st p"
  shows "live_ptrs (emu_ptrs st p) st"
proof -
  obtain e where e: "blocks st p = Some (Emu_block e)" "c_emu_ok st e" "distinct (emu_ptrs st p)" using assms by (auto simp: emulator_at_def)
  have "live_ptrs (mem_ptrs st (c_emu_mem e)) st" using e(2) by (simp add: c_emu_ok_def mem_ptrs_live)
  then have "\<forall>q\<in>set (emu_ptrs st p). blocks st q \<noteq> None"
    using e(1,2) by (auto simp: emu_ptrs_def c_emu_ok_def live_ptrs_def)
  moreover have "blocks st 0 = None" using emulator_ok[OF assms] by (simp add: store_ok_def)
  ultimately show ?thesis using e(3) unfolding live_ptrs_def by metis
qed

lemma free_all: "live_ptrs ps st \<Longrightarrow> fold_opt free ps st = Some (without ps st)"
proof (induction ps arbitrary: st)
  case (Cons q ps)
  then have "live_ptrs [q] st" "live_ptrs ps (without [q] st)" using live_append[of "[q]" ps st] by simp_all
  then show ?case using Cons.IH free_live by simp
qed simp

text \<open>The log, which an emulator may not have.\<close>

lemma clone_log_copies:
  assumes "extends 0 s0 st" "store_ok s0" "a \<noteq> 0 \<Longrightarrow> (\<exists>m t. blocks s0 a = Some (Log_block m t)) \<and> ptr \<noteq> Null_ptr"
  shows "\<exists>l lp st'. clone_log a ptr n st = (l, lp, st') \<and> extends 0 s0 st' \<and> extends 0 st st' \<and>
    (l \<noteq> 0 \<longrightarrow> (\<exists>m t. blocks st' l = Some (Log_block m t)) \<and> lp \<noteq> Null_ptr) \<and>
    (\<forall>ofs. a \<noteq> 0 \<and> ptr = Into a ofs \<and> n < ofs \<longrightarrow> l \<noteq> 0 \<and> lp = ptr) \<and> set (if l = 0 then [] else [l]) = {next_ptr st..<next_ptr st'} \<and>
    (log_in_buffer s0 n a ptr \<longrightarrow> log_in_buffer st' n l lp \<and> the_text st' lp = the_text s0 ptr)"
proof (cases "a = 0")
  case True
  have "blocks s0 0 = None" using assms(2) by (simp add: store_ok_def)
  then have "log_in_buffer s0 n 0 ptr \<Longrightarrow> ptr = Null_ptr" by (simp add: log_in_buffer_def)
  then show ?thesis using assms(1,2) True
    by (intro exI[of _ 0] exI[of _ ptr] exI[of _ st])
       (auto simp: clone_log_def extends_def the_text_def log_in_buffer_def split: c_ptr.split)
next
  case False
  then obtain m t b ofs where t: "blocks s0 a = Some (Log_block m t)" "ptr = Into b ofs" using assms(3) by (cases ptr) auto
  let ?new = "next_ptr st"
  have st: "store_ok st" "blocks st a = Some (Log_block m t)" using assms(1) extends_0_block[OF assms(2,1) t(1)] by (simp_all add: extends_def)
  have new: "0 < ?new" "a \<noteq> ?new" using st allocated[OF st] by (simp_all add: store_ok_def)
  let ?x = "if b = a \<and> ofs \<le> n then take ofs t else []"
  define st' where "st' = st\<lparr>blocks := (blocks st)(?new := Some (Log_block n ?x)), next_ptr := Suc ?new\<rparr>"
  have run: "clone_log a ptr n st = (?new, if b = a \<and> ofs \<le> n then Into ?new ofs else ptr, st')"
    using False st(2) new by (simp add: clone_log_def t(2) malloc_def put_block_def the_log_def st'_def)
  have ext: "extends 0 st st'" using st(1) by (auto simp: extends_def store_ok_def st'_def)
  have blk: "blocks st' ?new = Some (Log_block n ?x)" "next_ptr st' = Suc ?new" by (simp_all add: st'_def)
  have "log_in_buffer st' n ?new (if b = a \<and> ofs \<le> n then Into ?new ofs else ptr) \<and>
      the_text st' (if b = a \<and> ofs \<le> n then Into ?new ofs else ptr) = the_text s0 ptr" if "log_in_buffer s0 n a ptr"
    using that False t blk(1) by (auto simp: log_in_buffer_def the_text_def the_log_def)
  then show ?thesis using run ext extends_trans[OF assms(1) ext] blk new t(2)
    by (intro exI[of _ ?new] exI[of _ "if b = a \<and> ofs \<le> n then Into ?new ofs else ptr"] exI[of _ st']) auto
qed

text \<open>The five arrays of an emulator.\<close>

lemma clone_arrays:
  assumes "extends 0 s0 st" "store_ok s0" "blocks s0 a1 = Some b1" "blocks s0 a2 = Some b2" "blocks s0 a3 = Some b3"
    "blocks s0 a4 = Some b4" "blocks s0 a5 = Some b5"
  shows "\<exists>st1 st2 st3 st4 st'. mem_dup a1 st = (next_ptr st, st1) \<and> mem_dup a2 st1 = (next_ptr st + 1, st2) \<and>
    mem_dup a3 st2 = (next_ptr st + 2, st3) \<and> mem_dup a4 st3 = (next_ptr st + 3, st4) \<and> mem_dup a5 st4 = (next_ptr st + 4, st') \<and>
    extends 0 s0 st' \<and> extends 0 st st' \<and> next_ptr st' = next_ptr st + 5 \<and>
    blocks st' (next_ptr st) = Some b1 \<and> blocks st' (next_ptr st + 1) = Some b2 \<and> blocks st' (next_ptr st + 2) = Some b3 \<and>
    blocks st' (next_ptr st + 3) = Some b4 \<and> blocks st' (next_ptr st + 4) = Some b5"
proof -
  have eq: "Suc n = n + 1" "n + 1 + 1 = n + 2" "n + 2 + 1 = n + 3" "n + 3 + 1 = n + 4" "n + 4 + 1 = n + 5" for n :: nat by simp_all
  have ok: "store_ok st" using assms(1) by (simp add: extends_def)
  obtain st1 where 1: "mem_dup a1 st = (next_ptr st, st1)" "extends 0 s0 st1" "extends 0 st st1" "blocks st1 (next_ptr st) = Some b1"
    "next_ptr st1 = next_ptr st + 1" using dup_more[OF assms(1,2,3), unfolded eq] by blast
  obtain st2 where 2: "mem_dup a2 st1 = (next_ptr st + 1, st2)" "extends 0 s0 st2" "extends 0 st1 st2" "blocks st2 (next_ptr st + 1) = Some b2"
    "next_ptr st2 = next_ptr st + 2" using dup_more[OF 1(2) assms(2,4), unfolded 1(5) eq] by blast
  obtain st3 where 3: "mem_dup a3 st2 = (next_ptr st + 2, st3)" "extends 0 s0 st3" "extends 0 st2 st3" "blocks st3 (next_ptr st + 2) = Some b3"
    "next_ptr st3 = next_ptr st + 3" using dup_more[OF 2(2) assms(2,5), unfolded 2(5) eq] by blast
  obtain st4 where 4: "mem_dup a4 st3 = (next_ptr st + 3, st4)" "extends 0 s0 st4" "extends 0 st3 st4" "blocks st4 (next_ptr st + 3) = Some b4"
    "next_ptr st4 = next_ptr st + 4" using dup_more[OF 3(2) assms(2,6), unfolded 3(5) eq] by blast
  obtain st' where 5: "mem_dup a5 st4 = (next_ptr st + 4, st')" "extends 0 s0 st'" "extends 0 st4 st'" "blocks st' (next_ptr st + 4) = Some b5"
    "next_ptr st' = next_ptr st + 5" using dup_more[OF 4(2) assms(2,7), unfolded 4(5) eq] by blast
  have oks: "store_ok st1" "store_ok st2" "store_ok st3" "store_ok st4" using 1(3) 2(3) 3(3) 4(3) by (simp_all add: extends_def)
  note e3 = extends_trans[OF 4(3) 5(3)] note e2 = extends_trans[OF 3(3) e3] note e1 = extends_trans[OF 2(3) e2]
  have "blocks st' (next_ptr st) = Some b1 \<and> blocks st' (next_ptr st + 1) = Some b2 \<and> blocks st' (next_ptr st + 2) = Some b3 \<and>
    blocks st' (next_ptr st + 3) = Some b4"
    by (intro conjI extends_0_block[OF oks(1) e1 1(4)] extends_0_block[OF oks(2) e2 2(4)] extends_0_block[OF oks(3) e3 3(4)]
        extends_0_block[OF oks(4) 5(3) 4(4)])
  then show ?thesis using 1(1) 2(1) 3(1) 4(1) 5 extends_trans[OF 1(3) e1] by blast
qed

text \<open>The pieces of a copy, up to the last step that enters them in the new emulator's own block.\<close>

lemma clone_pieces:
  assumes "emulator_at st p" "blocks st p = Some (Emu_block e)"
  shows "\<exists>mq l lp n s. x86emu_clone p st = (next_ptr st, put_block (next_ptr st) (Emu_block (e\<lparr>c_emu_mem := mq, c_map := n, c_stats_i := n + 1,
      c_stats_o := n + 2, c_msr := n + 3, c_msr_perm := n + 4, c_log := l, c_log_ptr := lp\<rparr>)) s) \<and> extends 0 st s \<and> blocks s (next_ptr st) = Some (Emu_block e) \<and>
    memory_at s mq \<and> mem_val s hm mq = mem_val st hm (c_emu_mem e) \<and>
    (log_inside st p \<longrightarrow> log_in_buffer s (unat (log_size (c_rest e))) l lp \<and> the_text s lp = the_text st (c_log_ptr e)) \<and>
    (l \<noteq> 0 \<longrightarrow> (\<exists>m t. blocks s l = Some (Log_block m t)) \<and> lp \<noteq> Null_ptr) \<and>
    (\<forall>ofs. c_log e \<noteq> 0 \<and> c_log_ptr e = Into (c_log e) ofs \<and> unat (log_size (c_rest e)) < ofs \<longrightarrow> l \<noteq> 0 \<and> lp = c_log_ptr e) \<and> blocks s n = blocks st (c_map e) \<and> blocks s (n + 1) = blocks st (c_stats_i e) \<and>
    blocks s (n + 2) = blocks st (c_stats_o e) \<and> blocks s (n + 3) = blocks st (c_msr e) \<and> blocks s (n + 4) = blocks st (c_msr_perm e) \<and>
    next_ptr s = n + 5 \<and> next_ptr st < n \<and> distinct (mem_ptrs s mq @ (if l = 0 then [] else [l])) \<and>
    set (mem_ptrs s mq @ (if l = 0 then [] else [l])) = {Suc (next_ptr st)..<n}"
proof -
  have e: "c_emu_ok st e" using assms by (auto simp: emulator_at_def)
  note ok = emulator_ok[OF assms(1)]
  obtain f1 f2 f3 f4 f5 where f: "blocks st (c_map e) = Some (Bytes_block f1)" "blocks st (c_stats_i e) = Some (Stats_block f2)"
    "blocks st (c_stats_o e) = Some (Stats_block f3)" "blocks st (c_msr e) = Some (Msr_block f4)" "blocks st (c_msr_perm e) = Some (Bytes_block f5)"
    using e by (auto simp: c_emu_ok_def)
  define q where "q = next_ptr st"
  obtain s1 where s1: "mem_dup p st = (q, s1)" "extends 0 st s1" "blocks s1 q = Some (Emu_block e)" "next_ptr s1 = Suc q"
    using dup_array[OF ok assms(2)] unfolding q_def by blast
  have m1: "memory_at s1 (c_emu_mem e)" "mem_val s1 hm (c_emu_mem e) = mem_val st hm (c_emu_mem e)"
    using memory_extends(1,2)[OF _ s1(2)] e ok by (simp_all add: c_emu_ok_def store_ok_def)
  obtain mq s2 where s2: "emu_mem_clone (c_emu_mem e) s1 = (mq, s2)" "extends 0 s1 s2" "memory_at s2 mq"
    "mem_val s2 hm mq = mem_val s1 hm (c_emu_mem e)" "set (mem_ptrs s2 mq) = {next_ptr s1..<next_ptr s2}"
    using mem_clone_copies[OF m1(1)] by blast
  let ?size = "unat (log_size (c_rest e))"
  obtain l lp s3 where s3: "clone_log (c_log e) (c_log_ptr e) ?size s2 = (l, lp, s3)" "extends 0 st s3" "extends 0 s2 s3"
    "l \<noteq> 0 \<longrightarrow> (\<exists>m t. blocks s3 l = Some (Log_block m t)) \<and> lp \<noteq> Null_ptr" "set (if l = 0 then [] else [l]) = {next_ptr s2..<next_ptr s3}"
    "\<forall>ofs. c_log e \<noteq> 0 \<and> c_log_ptr e = Into (c_log e) ofs \<and> ?size < ofs \<longrightarrow> l \<noteq> 0 \<and> lp = c_log_ptr e" "log_in_buffer st ?size (c_log e) (c_log_ptr e) \<longrightarrow> log_in_buffer s3 ?size l lp \<and> the_text s3 lp = the_text st (c_log_ptr e)"
    using clone_log_copies[OF extends_trans[OF s1(2) s2(2)] ok, of "c_log e" "c_log_ptr e" ?size] e unfolding c_emu_ok_def by blast
  define n where "n = next_ptr s3"
  obtain s4 s5 s6 s7 s where s: "mem_dup (c_map e) s3 = (n, s4)" "mem_dup (c_stats_i e) s4 = (n + 1, s5)" "mem_dup (c_stats_o e) s5 = (n + 2, s6)"
    "mem_dup (c_msr e) s6 = (n + 3, s7)" "mem_dup (c_msr_perm e) s7 = (n + 4, s)" "extends 0 st s" "extends 0 s3 s" "next_ptr s = n + 5"
    "blocks s n = Some (Bytes_block f1)" "blocks s (n + 1) = Some (Stats_block f2)" "blocks s (n + 2) = Some (Stats_block f3)"
    "blocks s (n + 3) = Some (Msr_block f4)" "blocks s (n + 4) = Some (Bytes_block f5)"
    using clone_arrays[OF s3(2) ok f] unfolding n_def by blast
  have run: "x86emu_clone p st = (q, put_block q (Emu_block (e\<lparr>c_emu_mem := mq, c_map := n, c_stats_i := n + 1,
      c_stats_o := n + 2, c_msr := n + 3, c_msr_perm := n + 4, c_log := l, c_log_ptr := lp\<rparr>)) s)"
    by (simp only: x86emu_clone_def emu_block[OF assms(2)] option.case s1(1) s2(1) s3(1) s(1-5) prod.case Let_def)
  have oks: "store_ok s1" "store_ok s2" "store_ok s3" using s1(2) s2(2) s3(2) by (simp_all add: extends_def)
  note e23 = extends_trans[OF s3(3) s(7)]
  have mem': "memory_at s mq" "mem_val s hm mq = mem_val st hm (c_emu_mem e)" "mem_ptrs s mq = mem_ptrs s2 mq"
    using memory_extends[OF s2(3) e23] oks(2) s2(4) m1(2) by (simp_all add: store_ok_def)
  note keep = extends_0_block[OF oks(3) s(7)]
  have log: "l \<noteq> 0 \<longrightarrow> (\<exists>m t. blocks s l = Some (Log_block m t)) \<and> lp \<noteq> Null_ptr" using keep s3(4) by blast
  have fits: "log_in_buffer s ?size l lp \<and> the_text s lp = the_text st (c_log_ptr e)" if "log_inside st p"
  proof -
    have "log_in_buffer s3 ?size l lp" "the_text s3 lp = the_text st (c_log_ptr e)" using that s3(7) by (simp_all add: log_inside_def emu_block[OF assms(2)])
    then show ?thesis using log_in_buffer_keep[OF _ keep] by metis
  qed
  have le: "Suc q \<le> next_ptr s2" "next_ptr s2 \<le> n" using s2(2) s3(3) s1(4) by (simp_all add: extends_def n_def)
  have all: "set (mem_ptrs s mq @ (if l = 0 then [] else [l])) = {Suc q..<n}"
    unfolding set_append mem'(3) s2(5) s3(5) s1(4) using le by (auto simp: n_def)
  have "distinct (mem_ptrs s2 mq)" using s2(3) by (simp add: memory_at_def)
  then have "distinct (mem_ptrs s mq @ (if l = 0 then [] else [l]))" unfolding mem'(3) using s2(5) s3(5) by (auto split: if_splits)
  moreover have "blocks s q = Some (Emu_block e)" by (rule extends_0_block[OF oks(2) e23 extends_0_block[OF oks(1) s2(2) s1(3)]])
  ultimately show ?thesis using run all mem'(1,2) log s3(6) fits s(6,8-13) f le unfolding q_def
    by (rule_tac x = mq in exI, rule_tac x = l in exI, rule_tac x = lp in exI, rule_tac x = n in exI, rule_tac x = s in exI) simp
qed

text \<open>The copy of an emulator has blocks of its own, all the new ones and no others, and the same value.\<close>

lemma emu_clone_copies:
  assumes "emulator_at st p"
  shows "\<exists>q st'. x86emu_clone p st = (q, st') \<and> extends 0 st st' \<and> emulator_at st' q \<and>
    (log_inside st p \<longrightarrow> log_inside st' q \<and> emu_val st' hm q = emu_val st hm p) \<and>
    q = next_ptr st \<and> set (emu_ptrs st' q) = {next_ptr st..<next_ptr st'}"
proof -
  obtain e where e: "blocks st p = Some (Emu_block e)" "c_emu_ok st e" using assms by (auto simp: emulator_at_def)
  define q where "q = next_ptr st"
  obtain mq l lp n s where s: "x86emu_clone p st = (q, put_block q (Emu_block (e\<lparr>c_emu_mem := mq, c_map := n, c_stats_i := n + 1,
      c_stats_o := n + 2, c_msr := n + 3, c_msr_perm := n + 4, c_log := l, c_log_ptr := lp\<rparr>)) s)" "extends 0 st s" "blocks s q = Some (Emu_block e)"
    "memory_at s mq" "mem_val s hm mq = mem_val st hm (c_emu_mem e)"
    "log_inside st p \<longrightarrow> log_in_buffer s (unat (log_size (c_rest e))) l lp \<and> the_text s lp = the_text st (c_log_ptr e)"
    "l \<noteq> 0 \<longrightarrow> (\<exists>m t. blocks s l = Some (Log_block m t)) \<and> lp \<noteq> Null_ptr" "blocks s n = blocks st (c_map e)" "blocks s (n + 1) = blocks st (c_stats_i e)"
    "blocks s (n + 2) = blocks st (c_stats_o e)" "blocks s (n + 3) = blocks st (c_msr e)" "blocks s (n + 4) = blocks st (c_msr_perm e)"
    "next_ptr s = n + 5" "q < n" "distinct (mem_ptrs s mq @ (if l = 0 then [] else [l]))" "set (mem_ptrs s mq @ (if l = 0 then [] else [l])) = {Suc q..<n}"
    using clone_pieces[OF assms e(1), of hm] unfolding q_def by blast
  define e' where "e' = e\<lparr>c_emu_mem := mq, c_map := n, c_stats_i := n + 1, c_stats_o := n + 2, c_msr := n + 3, c_msr_perm := n + 4, c_log := l, c_log_ptr := lp\<rparr>"
  define st' where "st' = put_block q (Emu_block e') s"
  have ok: "store_ok s" "0 < q" using s(2) emulator_ok[OF assms] by (simp_all add: extends_def q_def store_ok_def)
  have ext: "extends q s st'" unfolding st'_def using ok s(13,14) by (intro put_block_extends) simp_all
  have mem': "memory_at st' mq" "mem_val st' hm mq = mem_val st hm (c_emu_mem e)" "mem_ptrs st' mq = mem_ptrs s mq"
    using memory_extends[OF s(4) ext] s(3,5) by simp_all
  have q': "blocks st' q = Some (Emu_block e')" "next_ptr st' = n + 5" "\<And>r. r \<noteq> q \<Longrightarrow> blocks st' r = blocks s r" by (simp_all add: st'_def s(13))
  have "l \<in> {Suc q..<n}" if "l \<noteq> 0" unfolding s(16)[symmetric] using that by simp
  then have l: "l \<noteq> q" using ok(2) by fastforce
  have val: "log_inside st' q \<and> emu_val st' hm q = emu_val st hm p" if "log_inside st p"
  proof -
    have f: "log_in_buffer s (unat (log_size (c_rest e))) l lp" "the_text s lp = the_text st (c_log_ptr e)" using s(6) that by simp_all
    have "blocks st' l = Some b" if "blocks s l = Some b" for b using that q'(3)[OF l] by simp
    note t = log_in_buffer_keep[OF f(1) this]
    have "emu_val st' hm q = emu_val st hm p"
      using s(8-12,14) by (simp add: emu_val_def emu_block[OF q'(1)] emu_block[OF e(1)] c_emu_val_def e'_def mem'(2) q'(3) t(2) f(2)
          the_bytes_def the_stats_def the_msrs_def)
    then show ?thesis using t(1) by (simp add: log_inside_def emu_block[OF q'(1)] e'_def)
  qed
  have ptrs: "emu_ptrs st' q = (mem_ptrs s mq @ (if l = 0 then [] else [l])) @ [n, n + 1, n + 2, n + 3, n + 4, q]"
    by (simp add: emu_ptrs_def emu_block[OF q'(1)] mem'(3) e'_def)
  have all: "set (emu_ptrs st' q) = {next_ptr st..<next_ptr st'}" unfolding ptrs set_append[of _ "[n, _, _, _, _, _]"] s(16) using s(14) q'(2) by (auto simp: q_def)
  have "distinct (emu_ptrs st' q)" unfolding ptrs distinct_append[of _ "[n, _, _, _, _, _]"] s(16) using s(14,15) by simp
  moreover have "c_emu_ok st' e'" using e(2) mem'(1) s(7,8-12,14) l by (simp add: c_emu_ok_def e'_def q'(3))
  ultimately have "emulator_at st' q" using q'(1) by (auto simp: emulator_at_def)
  moreover have "extends 0 st st'" using s(2) ext by (auto simp: extends_def q_def)
  ultimately show ?thesis using s(1) val all unfolding q_def st'_def e'_def by blast
qed

text \<open>Releasing an emulator gives back its blocks, each once, and nothing else.\<close>

lemma emu_done_releases:
  assumes "emulator_at st p"
  shows "x86emu_done p st = Some (without (emu_ptrs st p) st)"
proof -
  obtain e where e: "blocks st p = Some (Emu_block e)" "c_emu_ok st e" using assms by (auto simp: emulator_at_def)
  let ?rest = "(if c_log e = 0 then [] else [c_log e]) @ [c_map e, c_stats_i e, c_stats_o e, c_msr e, c_msr_perm e, p]"
  have ptrs: "emu_ptrs st p = mem_ptrs st (c_emu_mem e) @ ?rest" by (simp add: emu_ptrs_def emu_block[OF e(1)])
  have mem: "emu_mem_free (c_emu_mem e) st = Some (without (mem_ptrs st (c_emu_mem e)) st)"
    using mem_free_releases e(2) by (simp add: c_emu_ok_def)
  have "live_ptrs ?rest (without (mem_ptrs st (c_emu_mem e)) st)" using emu_ptrs_live[OF assms] live_append unfolding ptrs by blast
  note rest = free_all[OF this]
  have zero: "fold_opt free (0 # ps) s = fold_opt free ps s" for ps s by (simp add: free_def)
  show ?thesis unfolding ptrs x86emu_done_def emu_block[OF e(1)] option.case mem
    using rest by (cases "c_log e = 0") (simp_all only: zero without_append append.simps if_True if_False simp_thms)
qed

section \<open>Properties\<close>

text \<open>An emulator with a log, whose memory has one page with a buffer of its own and one in a client's buffer.\<close>

definition sample_table :: "nat \<Rightarrow> c_page" where
  "sample_table = (\<lambda>_. \<lparr>c_attr = 0, c_data = No_data, c_def_attr = 0\<rparr>)(
     0 := \<lparr>c_attr = 5, c_data = Half_of 5, c_def_attr = 7\<rparr>, 3 := \<lparr>c_attr = 6, c_data = Client 4096, c_def_attr = 7\<rparr>)"

definition sample_emu :: c_emu where
  "sample_emu = \<lparr>c_rest = (calloc_emu (\<lambda>_. 0) 0)\<lparr>log_size := 16\<rparr>, c_emu_mem = 2, c_map = 7, c_stats_i = 8, c_stats_o = 9, c_msr = 10, c_msr_perm = 11, c_log = 12, c_log_ptr = Into 12 3\<rparr>"

definition sample_store :: store where
  "sample_store = \<lparr>blocks = [1 \<mapsto> Emu_block sample_emu, 2 \<mapsto> Mem_block \<lparr>c_pdir = 3, c_invalid = False, c_mem_def = 7\<rparr>,
     3 \<mapsto> Pdir_block ((\<lambda>_. 0)(1 := 4)), 4 \<mapsto> Ptable_block sample_table, 5 \<mapsto> Bytes_block (\<lambda>_. 1), 6 \<mapsto> Bytes_block (\<lambda>_. 2),
     7 \<mapsto> Bytes_block (\<lambda>_. 0), 8 \<mapsto> Stats_block (\<lambda>_. 0), 9 \<mapsto> Stats_block (\<lambda>_. 0), 10 \<mapsto> Msr_block (\<lambda>_. 0), 11 \<mapsto> Bytes_block (\<lambda>_. 0),
     12 \<mapsto> Log_block 16 ''logged''], next_ptr = 13\<rparr>"

lemma concat_ends: "concat (map f [0..<4 + n]) = f 0 @ f 1 @ f 2 @ f 3" if "\<And>i. 4 \<le> i \<Longrightarrow> f i = []" for f :: "nat \<Rightarrow> 'a list"
proof -
  have "concat (map f [4..<4 + n]) = []" using that by auto
  moreover have "[0..<4] = [0, 1, 2, 3::nat]" by (simp add: upt_conv_Cons)
  ultimately show ?thesis using upt_add_eq_append[of 0 4 n] by simp
qed

lemma sample_blocks: "emu_ptrs sample_store 1 = [5, 6, 4, 3, 2, 12, 7, 8, 9, 10, 11, 1]"
proof -
  have pages: "concat (map (\<lambda>u. page_ptrs (sample_table u)) [0..<1024]) = [5, 6]"
    using concat_ends[of "\<lambda>u. page_ptrs (sample_table u)" 1020] by (simp add: sample_table_def page_ptrs_def)
  have tab: "table_ptrs sample_store 4 = [5, 6, 4]" using pages by (simp add: table_ptrs_def the_ptable_def sample_store_def)
  have "concat (map (\<lambda>i. table_ptrs sample_store (((\<lambda>_. 0)(1 := 4)) i)) [0..<1024]) = [5, 6, 4]"
    using concat_ends[of "\<lambda>i. table_ptrs sample_store (((\<lambda>_. 0)(1 := 4)) i)" 1020] tab by (simp add: table_ptrs_def[of _ 0])
  then have "pdir_ptrs sample_store 3 = [5, 6, 4, 3]"
    using tab by (simp add: pdir_ptrs_def the_pdir_def sample_store_def)
  then have "mem_ptrs sample_store 2 = [5, 6, 4, 3, 2]" by (simp add: mem_ptrs_def the_mem_def sample_store_def)
  then show ?thesis by (simp add: emu_ptrs_def the_emu_def sample_store_def sample_emu_def)
qed

lemma sample_emulator: "emulator_at sample_store 1"
proof -
  have ok: "store_ok sample_store" by (simp add: store_ok_def sample_store_def)
  have pages: "page_ok sample_store (sample_table u)" for u by (simp add: page_ok_def sample_table_def sample_store_def)
  have "table_ok sample_store 4" using pages by (simp add: table_ok_def sample_store_def) (simp add: sample_table_def)
  then have "pdir_ok sample_store 3" by (simp add: pdir_ok_def) (simp add: sample_store_def)
  then have "memory_at sample_store 2" using ok sample_blocks by (simp add: memory_at_def emu_ptrs_def the_emu_def) (simp add: sample_store_def sample_emu_def)
  then have "c_emu_ok sample_store sample_emu" by (simp add: c_emu_ok_def sample_emu_def) (simp add: sample_store_def)
  moreover have "blocks sample_store 1 = Some (Emu_block sample_emu)" by (simp add: sample_store_def)
  ultimately show ?thesis unfolding emulator_at_def sample_blocks by auto
qed


text \<open>
  With the log pointer behind the end of the buffer, where \<^verbatim>\<open>log_regs\<close> can bring it, a
  clone gets a buffer of its own but goes on to write its log where the original's
  pointer is.
\<close>

lemma clone_log_stray:
  assumes "emulator_at st p" "the_emu st p = Some e" "c_log e \<noteq> 0" "c_log_ptr e = Into (c_log e) ofs" "unat (log_size (c_rest e)) < ofs"
  shows "\<exists>q st' e'. x86emu_clone p st = (q, st') \<and> the_emu st' q = Some e' \<and> c_log e' \<noteq> 0 \<and> c_log e' \<noteq> c_log e \<and>
    c_log_ptr e' = Into (c_log e) ofs"
proof -
  have e: "blocks st p = Some (Emu_block e)" "c_emu_ok st e" using assms(1,2) by (auto simp: emulator_at_def the_emu_def)
  obtain m t where "blocks st (c_log e) = Some (Log_block m t)" using e(2) assms(3) by (auto simp: c_emu_ok_def)
  then have old: "c_log e < next_ptr st" using allocated[OF emulator_ok[OF assms(1)]] by blast
  obtain mq l lp n s where c: "x86emu_clone p st = (next_ptr st, put_block (next_ptr st) (Emu_block (e\<lparr>c_emu_mem := mq, c_map := n, c_stats_i := n + 1,
      c_stats_o := n + 2, c_msr := n + 3, c_msr_perm := n + 4, c_log := l, c_log_ptr := lp\<rparr>)) s)" "l \<noteq> 0" "lp = c_log_ptr e"
    "set (mem_ptrs s mq @ (if l = 0 then [] else [l])) = {Suc (next_ptr st)..<n}"
    using clone_pieces[OF assms(1) e(1)] assms(3-5) by blast
  have "l \<in> {Suc (next_ptr st)..<n}" unfolding c(4)[symmetric] using c(2) by simp
  then have "l \<noteq> c_log e" using old by auto
  moreover have "the_emu (put_block r (Emu_block x) s) r = Some x" for r x by (simp add: the_emu_def)
  ultimately show ?thesis using c(1-3) assms(4) by fastforce
qed



text \<open>
  C14. Releasing an emulator frees exactly the blocks that belong to it, none of them
  twice; and releasing a clone leaves the blocks there were before it was made: neither
  \<^verbatim>\<open>x86emu_clone\<close> nor \<^verbatim>\<open>x86emu_done\<close> loses storage.
\<close>

theorem done_releases:
  assumes "emulator_at st p"
  shows "x86emu_done p st = Some (without (emu_ptrs st p) st) \<and>
    (case x86emu_clone p st of (q, st') \<Rightarrow> map_option blocks (x86emu_done q st') = Some (blocks st))"
proof -
  obtain q st' where c: "x86emu_clone p st = (q, st')" "extends 0 st st'" "emulator_at st' q"
    "set (emu_ptrs st' q) = {next_ptr st..<next_ptr st'}"
    using emu_clone_copies[OF assms] by blast
  have "blocks (without (emu_ptrs st' q) st') r = blocks st r" for r
    using c(2,4) emulator_ok[OF assms] by (cases "r = 0") (auto simp: extends_def store_ok_def)
  then show ?thesis using emu_done_releases[OF assms] emu_done_releases[OF c(3)] c(1) by (auto simp: fun_eq_iff)
qed

theorem done_releases_witness:
  "map_option (\<lambda>st. map (blocks st) [0..<13]) (x86emu_done 1 sample_store) = Some (replicate 13 None)"
proof -
  have "blocks (without (emu_ptrs sample_store 1) sample_store) i = None" if "i < 13" for i
    using that unfolding without_blocks sample_blocks by (auto simp: sample_store_def)
  then have "map (blocks (without (emu_ptrs sample_store 1) sample_store)) [0..<13] = replicate 13 None" by (intro replicate_eqI) auto
  then show ?thesis using done_releases[OF sample_emulator] by simp
qed

end
