(* ===== verification/Clib.thy ===== *)
theory Clib
  imports Bytes Api
begin

text \<open>
  What the two programs beside the library, \<^verbatim>\<open>demo/x86emu-demo.c\<close> and \<^verbatim>\<open>test/x86test.c\<close>, use of
  the C library: character classes, \<^verbatim>\<open>strtoul\<close>, \<^verbatim>\<open>fgets\<close>, \<^verbatim>\<open>strchr\<close>, \<^verbatim>\<open>strsep\<close>. A C string is the list of
  its characters without the terminating zero.
\<close>

section \<open>Characters\<close>

definition code :: "char \<Rightarrow> nat" where "code c = of_char c"

definition isspace :: "char \<Rightarrow> bool" where
  "isspace c \<longleftrightarrow> code c = 32 \<or> (9 \<le> code c \<and> code c \<le> 13)"

text \<open>The value of a letter or digit as a digit of a number, 36 for any other character.\<close>

definition digit_of :: "char \<Rightarrow> nat" where
  "digit_of c = (let n = code c in if 48 \<le> n \<and> n \<le> 57 then n - 48 else if 97 \<le> n \<and> n \<le> 122 then n - 87
     else if 65 \<le> n \<and> n \<le> 90 then n - 55 else 36)"

definition isxdigit :: "char \<Rightarrow> bool" where "isxdigit c \<longleftrightarrow> digit_of c < 16"

text \<open>\<^verbatim>\<open>s[i]\<close>, the terminating zero at the end.\<close>

definition char_at :: "string \<Rightarrow> nat \<Rightarrow> char" where
  "char_at s i = (if i < length s then s ! i else CHR 0x00)"

section \<open>Numbers\<close>

definition number :: "nat \<Rightarrow> string \<Rightarrow> nat" where
  "number base ds = foldl (\<lambda>n c. base * n + digit_of c) 0 ds"

text \<open>\<^verbatim>\<open>0x\<close> is a prefix when a digit follows.\<close>

definition hex_prefix :: "string \<Rightarrow> bool" where
  "hex_prefix s \<longleftrightarrow> char_at s 0 = CHR ''0'' \<and> (char_at s 1 = CHR ''x'' \<or> char_at s 1 = CHR ''X'') \<and> isxdigit (char_at s 2)"

text \<open>
  \<^verbatim>\<open>strtoul(s, &end, base)\<close> with base 16, or 0 for a base by prefix: the number and \<^verbatim>\<open>end\<close>; a
  number that does not fit is the greatest one.
\<close>

definition strtoul :: "string \<Rightarrow> nat \<Rightarrow> u64 \<times> string" where
  "strtoul s base =
     (let t = dropWhile isspace s;
          neg = (char_at t 0 = CHR ''-'');
          t = (if neg \<or> char_at t 0 = CHR ''+'' then tl t else t);
          pre = ((base = 0 \<or> base = 16) \<and> hex_prefix t);
          b = (if base \<noteq> 0 then base else if pre then 16 else if char_at t 0 = CHR ''0'' then 8 else 10);
          t = (if pre then drop 2 t else t);
          ds = takeWhile (\<lambda>c. digit_of c < b) t
      in if ds = [] then (0, s)
         else (if 2 ^ 64 \<le> number b ds then - 1 else if neg then - of_nat (number b ds) else of_nat (number b ds), drop (length ds) t))"

lemma strtoul_rest: "length (snd (strtoul s b)) \<le> length s"
proof -
  have d: "length (dropWhile isspace s) \<le> length s" by (rule length_dropWhile_le)
  show ?thesis unfolding strtoul_def Let_def by (auto intro!: order_trans[OF diff_le_self d])
qed

text \<open>The exit code with which a program ends early, or its options.\<close>

datatype 'a outcome = Exit nat | Options 'a

section \<open>Lines and parts of strings\<close>

text \<open>
  The lines \<^verbatim>\<open>fgets(buf, size, f)\<close> reads one after the other: up to a line feed or \<open>size - 1\<close>
  characters; as a string a line ends at its first zero.
\<close>

fun split_line :: "nat \<Rightarrow> string \<Rightarrow> string \<times> string" where
  "split_line 0 s = ([], s)"
| "split_line (Suc n) [] = ([], [])"
| "split_line (Suc n) (c # s) = (if c = CHR 0x0A then ([c], s) else (case split_line n s of (l, r) \<Rightarrow> (c # l, r)))"

lemma split_line_length: "split_line n s = (l, r) \<Longrightarrow> length r \<le> length s \<and> (n \<noteq> 0 \<longrightarrow> s \<noteq> [] \<longrightarrow> length r < length s)"
  by (induction n s arbitrary: l r rule: split_line.induct) (auto split: if_splits prod.splits)

fun fgets_lines :: "nat \<Rightarrow> string \<Rightarrow> string list" where
  "fgets_lines n [] = []"
| "fgets_lines n (c # s) = (if n = 0 then [] else case split_line n (c # s) of (l, r) \<Rightarrow> takeWhile (\<lambda>c. c \<noteq> CHR 0x00) l #
     (if length r < length (c # s) then fgets_lines n r else []))"

text \<open>\<^verbatim>\<open>strchr(s, c)\<close>: what is before the first \<open>c\<close>, and the rest from it on.\<close>

definition strchr :: "string \<Rightarrow> char \<Rightarrow> (string \<times> string) option" where
  "strchr s c = (if c \<in> set s then Some (takeWhile (\<lambda>d. d \<noteq> c) s, dropWhile (\<lambda>d. d \<noteq> c) s) else None)"

text \<open>The tokens \<^verbatim>\<open>strsep(&s, ",")\<close> returns until the string is used up.\<close>

fun strsep_tokens :: "char \<Rightarrow> string \<Rightarrow> string list" where
  "strsep_tokens d [] = [[]]"
| "strsep_tokens d (c # s) = (if c = d then [] # strsep_tokens d s
     else (case strsep_tokens d s of t # ts \<Rightarrow> (c # t) # ts | [] \<Rightarrow> [[c]]))"

section \<open>Numbers written in hexadecimal\<close>

lemma hexdigit_facts:
  "digit_of (hexdigit v) = digit_val (hexdigit v)" "isxdigit (hexdigit v)" "\<not> isspace (hexdigit v)"
  "hexdigit v \<notin> {CHR ''-'', CHR ''+'', CHR ''x'', CHR ''X'', CHR ''='', CHR '';'', CHR '':''}"
proof -
  have "v AND 0xf = take_bit 4 v" by (simp add: take_bit_eq_mask mask_eq_exp_minus_1)
  then have less: "unat (v AND 0xf) < 16" by (simp add: take_bit_eq_mod unat_mod)
  have "\<forall>k\<in>set [0..<16]. let c = ''0123456789abcdef'' ! k in digit_of c = digit_val c \<and> isxdigit c \<and> \<not> isspace c \<and>
      c \<notin> {CHR ''-'', CHR ''+'', CHR ''x'', CHR ''X'', CHR ''='', CHR '';'', CHR '':''}" by code_simp
  then have "let c = hexdigit v in digit_of c = digit_val c \<and> isxdigit c \<and> \<not> isspace c \<and>
      c \<notin> {CHR ''-'', CHR ''+'', CHR ''x'', CHR ''X'', CHR ''='', CHR '';'', CHR '':''}"
    unfolding hexdigit_def using less by simp
  then show "digit_of (hexdigit v) = digit_val (hexdigit v)" "isxdigit (hexdigit v)" "\<not> isspace (hexdigit v)"
    "hexdigit v \<notin> {CHR ''-'', CHR ''+'', CHR ''x'', CHR ''X'', CHR ''='', CHR '';'', CHR '':''}"
    by (simp_all add: Let_def)
qed

text \<open>Strings of hexadecimal digits as the library writes them.\<close>

definition hex_string :: "string \<Rightarrow> bool" where
  "hex_string ds \<longleftrightarrow> (\<forall>c\<in>set ds. \<exists>v. c = hexdigit v)"

lemma hex_string_formats: "hex_string (decode_hex2 v)" "hex_string (decode_hex4 v)" "hex_string (decode_hex8 v)" "hex_string []"
  "hex_string (a @ b) \<longleftrightarrow> hex_string a \<and> hex_string b"
  by (auto simp: hex_string_def decode_hex2_def decode_hex4_def decode_hex8_def)

lemma number_hex: "hex_string ds \<Longrightarrow> number 16 ds = hex_val ds"
proof -
  have "hex_string ds \<Longrightarrow> foldl (\<lambda>n c. 16 * n + digit_of c) m ds = foldl (\<lambda>n c. 16 * n + digit_val c) m ds" for m
    by (induction ds arbitrary: m) (auto simp: hex_string_def hexdigit_facts)
  then show "hex_string ds \<Longrightarrow> number 16 ds = hex_val ds" by (simp add: number_def hex_val_def)
qed

text \<open>\<^verbatim>\<open>strtoul\<close> reads such a number after any white space, up to a character that is no digit.\<close>

lemma strtoul_hex:
  assumes "hex_string ds" "ds \<noteq> []" "\<forall>c\<in>set sp. isspace c" "t = [] \<or> \<not> isxdigit (hd t) \<and> hd t \<notin> {CHR ''x'', CHR ''X''}" "length ds \<le> 16"
  shows "strtoul (sp @ ds @ t) 16 = (of_nat (hex_val ds), t)"
proof -
  obtain d es where ds: "ds = d # es" using assms(2) by (cases ds) auto
  obtain v where v: "d = hexdigit v" using assms(1) by (auto simp: hex_string_def ds)
  have x: "c \<in> set ds \<Longrightarrow> digit_of c < 16" for c using assms(1) hexdigit_facts(2) by (auto simp: hex_string_def isxdigit_def)
  have skip: "dropWhile isspace (sp @ ds @ t) = ds @ t" using assms(3) by (simp add: dropWhile_append ds v hexdigit_facts)
  have sign: "char_at (ds @ t) 0 \<noteq> CHR ''-''" "char_at (ds @ t) 0 \<noteq> CHR ''+''" using hexdigit_facts(4)[of v] by (simp_all add: char_at_def ds v)
  have pre: "\<not> hex_prefix (ds @ t)"
  proof
    assume p: "hex_prefix (ds @ t)"
    show False
    proof (cases es)
      case Nil
      then show False using p assms(4) by (cases t) (auto simp: hex_prefix_def char_at_def ds isxdigit_def digit_of_def code_def)
    next
      case (Cons e fs)
      then obtain w where "e = hexdigit w" using assms(1) by (auto simp: hex_string_def ds)
      then show False using p hexdigit_facts(4)[of w] by (auto simp: hex_prefix_def char_at_def ds Cons)
    qed
  qed
  have take: "takeWhile (\<lambda>c. digit_of c < 16) (ds @ t) = ds" using x assms(4) by (cases t) (auto simp: isxdigit_def)
  have val: "hex_val ds < 2 ^ 64"
  proof -
    have "digit_val c < 16" if "c \<in> set ds" for c
      using that assms(1) x hexdigit_facts(1) by (fastforce simp: hex_string_def)
    then have "hex_val es' < 16 ^ length es'" if "set es' \<subseteq> set ds" for es'
      using that
    proof (induction es')
      case (Cons c cs)
      have "digit_val c < 16" using Cons.prems \<open>\<And>c. c \<in> set ds \<Longrightarrow> digit_val c < 16\<close> by simp
      then have "Suc (digit_val c) * 16 ^ length cs \<le> 16 * 16 ^ length cs" by (intro mult_le_mono1) simp
      moreover have "hex_val cs < 16 ^ length cs" using Cons by simp
      ultimately show ?case unfolding hex_val_Cons length_Cons power_Suc mult_Suc by linarith
    qed simp
    then have "hex_val ds < 16 ^ length ds" by simp
    also have "(16 :: nat) ^ length ds \<le> 16 ^ 16" using assms(5) by (intro power_increasing) simp_all
    finally show ?thesis by simp
  qed
  show ?thesis unfolding strtoul_def Let_def skip
    using assms(2) sign pre take val number_hex[OF assms(1)] by simp
qed

section \<open>An emulator with memory of its own\<close>

text \<open>The clients' emulators: everything is allowed, and the addresses written are the initialised ones.\<close>

definition own_mem :: "x86emu_mem \<Rightarrow> bool" where
  "own_mem m \<longleftrightarrow> mem_ok m \<and> cell m = Own_cell \<and> (\<forall>a. attr m a AND 7 = 7)"

definition filled :: "x86emu_mem \<Rightarrow> u32 set" where
  "filled m = {a. attr m a AND X86EMU_PERM_VALID \<noteq> 0}"

definition client :: "x86emu \<Rightarrow> bool" where
  "client s \<longleftrightarrow> memio s = Vm_memio \<and> own_mem (mem s)"

lemma own_mem_new: "own_mem (emu_mem_new 7 hm)" "filled (emu_mem_new 7 hm) = {}" "mem_byte (emu_mem_new 7 hm) = (\<lambda>_. 0)"
  by (simp_all add: own_mem_def filled_def mem_byte_def abs_emu_mem_new fun_eq_iff)

text \<open>From \<open>s\<close> to \<open>t\<close> the bytes \<open>f\<close> are put to the addresses \<open>A\<close>, nothing else happens.\<close>

definition puts :: "(u32 \<Rightarrow> u8) \<Rightarrow> u32 set \<Rightarrow> x86emu \<Rightarrow> x86emu \<Rightarrow> bool" where
  "puts f A s t \<longleftrightarrow> (\<exists>m. t = s\<lparr>mem := m\<rparr> \<and> own_mem m \<and> mem_byte m = override_on (mem_byte (mem s)) f A \<and>
     filled m = filled (mem s) \<union> A)"

lemma puts_client: "puts f A s t \<Longrightarrow> client s \<Longrightarrow> client t"
  by (auto simp: puts_def client_def)

lemma puts_refl: "client s \<Longrightarrow> puts f {} s s"
  unfolding puts_def client_def by (intro exI[of _ "mem s"]) simp

lemma puts_trans: "puts f A s t \<Longrightarrow> puts f B t u \<Longrightarrow> puts f (A \<union> B) s u"
  by (auto simp: puts_def override_on_def fun_eq_iff)

lemma puts_write:
  assumes "client s" "f a = ucast v"
  shows "puts f {a} s (x86emu_write_byte h s a v)"
proof -
  let ?m = "vm_w_byte ((mem s)\<lparr>mem_invalid := False\<rparr>) a v"
  have own: "mem_ok (mem s)" "cell (mem s) = Own_cell" "\<And>b. attr (mem s) b AND 7 = 7" using assms(1) by (simp_all add: client_def own_mem_def)
  have low: "(k AND 7) AND attr (mem s) b = k AND 7" for k b by (subst and.assoc, subst and.commute[of 7], subst own(3)) (rule refl)
  have w: "attr (mem s) a AND 2 \<noteq> 0" using low[of 2 a] by (simp add: and.commute)
  have m: "mem_ok ?m" "abs_mem ?m = (abs_mem (mem s))\<lparr>f_invalid := False, f_attr := (f_attr (abs_mem (mem s)))(a := attr (mem s) a OR 0x28),
      f_store := (f_store (abs_mem (mem s)))(cell (mem s) a := ucast v)\<rparr>"
    using vm_store_byte[of "(mem s)\<lparr>mem_invalid := False\<rparr>" a v] own(1) w by (simp_all add: flat_w_byte_def)
  have or: "(x OR 0x28) AND 7 = x AND 7" "(x OR 0x28) AND 8 = 8" for x :: u8 by (simp_all add: bit.conj_disj_distrib2)
  have "x86emu_write_byte h s a v = s\<lparr>mem := ?m\<rparr>"
    using assms(1) by (simp add: x86emu_write_byte_def call_memio_def client_def vm_memio_write Let_def)
  moreover have "own_mem ?m" using own m or by (simp add: own_mem_def)
  moreover have "mem_byte ?m = override_on (mem_byte (mem s)) f {a}"
    using assms(2) own(2) m(2) by (simp add: mem_byte_def override_on_def fun_eq_iff)
  moreover have "filled ?m = filled (mem s) \<union> {a}" using m(2) or(2)[of "attr (mem s) a"] by (auto simp: filled_def)
  ultimately show ?thesis unfolding puts_def by blast
qed

end
