(* ===== verification/Testdriver.thy ===== *)
theory Testdriver
  imports Clib Run Api
begin

text \<open>
  The test driver \<^verbatim>\<open>test/x86test.c\<close>, a client of the library: it reads the state of an
  emulator from a text file, runs it and dumps the state. Files are strings, or \<open>None\<close> for
  one that cannot be opened; what is printed to the driver's own log is left out. The
  central property is that the memory lines of a dump are read back.
\<close>

section \<open>Options\<close>

record test_opt =
  verbose :: u32
  inst_max :: u32
  trace_flags :: u32
  dump_flags :: u32
  print_to_stderr :: bool

abbreviation (input) X86EMU_TRACE_DEFAULT :: u32 where "X86EMU_TRACE_DEFAULT \<equiv> 0x37"

text \<open>The signs before a flag: the last one counts, and without one the flag is set.\<close>

fun flag_sign :: "bool \<Rightarrow> string \<Rightarrow> bool \<times> string" where
  "flag_sign u [] = (u, [])"
| "flag_sign u (c # t) = (if c = CHR ''+'' then flag_sign True t else if c = CHR ''-'' then flag_sign False t else (u, c # t))"

definition flag_bits :: "string \<Rightarrow> (u32 \<times> u32) option" where
  "flag_bits t =
     (if t = ''trace'' then Some (X86EMU_TRACE_DEFAULT, 0)
      else if t = ''code'' then Some (X86EMU_TRACE_CODE, 0)
      else if t = ''regs'' then Some (X86EMU_TRACE_REGS, 0)
      else if t = ''data'' then Some (X86EMU_TRACE_DATA, 0)
      else if t = ''acc'' then Some (X86EMU_TRACE_ACC, 0)
      else if t = ''io'' then Some (X86EMU_TRACE_IO, 0)
      else if t = ''ints'' then Some (X86EMU_TRACE_INTS, 0)
      else if t = ''time'' then Some (X86EMU_TRACE_TIME, 0)
      else if t = ''attr'' then Some (0, X86EMU_DUMP_ATTR)
      else if t = ''ascii'' then Some (0, X86EMU_DUMP_ASCII)
      else None)"

text \<open>The flags of one \<^verbatim>\<open>--show\<close> option; \<open>None\<close> for an invalid one.\<close>

fun show_flags :: "string list \<Rightarrow> test_opt \<Rightarrow> test_opt option" where
  "show_flags [] opt = Some opt"
| "show_flags (t # ts) opt =
     (case flag_sign True t of (u, t) \<Rightarrow>
       (case flag_bits t of
          None \<Rightarrow> None
        | Some (tbits, dbits) \<Rightarrow> show_flags ts (opt\<lparr>
            trace_flags := (if u then trace_flags opt OR tbits else trace_flags opt AND NOT tbits),
            dump_flags := (if u then dump_flags opt OR dbits else dump_flags opt AND NOT dbits)\<rparr>)))"

text \<open>
  The loop over the options, on the codes and arguments \<^verbatim>\<open>getopt_long\<close> returns: the exit
  code of an early end, or the options.
\<close>

fun test_options :: "(nat \<times> string) list \<Rightarrow> test_opt \<Rightarrow> test_opt outcome" where
  "test_options [] opt = Options opt"
| "test_options ((i, arg) # is) opt =
     (if i = code (CHR ''v'') then test_options is (opt\<lparr>verbose := verbose opt + 1\<rparr>)
      else if i = 1001 then
        (case show_flags (strsep_tokens (CHR '','') arg) opt of None \<Rightarrow> Exit 1 | Some opt \<Rightarrow> test_options is opt)
      else if i = 1003 then test_options is (opt\<lparr>inst_max := ucast (fst (strtoul arg 0))\<rparr>)
      else if i = 1004 then test_options is (opt\<lparr>print_to_stderr := True\<rparr>)
      else Exit (if i = code (CHR ''h'') then 0 else 1))"

section \<open>An emulator for a test\<close>

text \<open>The interrupt handler stops the emulator at a fault; the interrupt itself is not handled.\<close>

definition do_int :: "x86emu \<Rightarrow> u8 \<Rightarrow> u32 \<Rightarrow> bool \<times> x86emu" where
  "do_int s num type = (False, if type AND 0xff = INTR_TYPE_FAULT then snd (run_state x86emu_stop s) else s)"

text \<open>\<open>hf\<close> and \<open>hi\<close> are the numbers of the handlers \<^verbatim>\<open>flush_log\<close> and \<open>do_int\<close>.\<close>

definition vm_new :: "host \<Rightarrow> (nat \<Rightarrow> u8) \<Rightarrow> nat \<Rightarrow> nat \<Rightarrow> test_opt \<Rightarrow> x86emu" where
  "vm_new h hm hf hi opt =
     (let s = x86emu_new h hm (ucast (X86EMU_PERM_R OR X86EMU_PERM_W OR X86EMU_PERM_X)) 0;
          s = snd (run_state (x86emu_set_log 1000000 (Some hf)) s);
          s = snd (x86emu_set_intr_handler (Some hi) s)
      in s\<lparr>log_trace := trace_flags opt\<rparr>)"

section \<open>Reading the state\<close>

text \<open>The bytes of a memory line: groups of two blanks and two digits, or four blanks for a byte left alone.\<close>

definition mem_group :: "string \<Rightarrow> bool" where
  "mem_group s \<longleftrightarrow> isspace (char_at s 0) \<and> isspace (char_at s 1) \<and>
     ((isxdigit (char_at s 2) \<and> isxdigit (char_at s 3)) \<or> (isspace (char_at s 2) \<and> isspace (char_at s 3))) \<and>
     \<not> isxdigit (char_at s 4)"

lemma mem_group_length [termination_simp]: "mem_group s \<Longrightarrow> length s - 4 < length s"
  by (cases s) (auto simp: mem_group_def char_at_def isspace_def code_def)

fun mem_bytes :: "host \<Rightarrow> u32 \<Rightarrow> string \<Rightarrow> x86emu \<Rightarrow> x86emu" where
  "mem_bytes h addr s emu =
     (if mem_group s then
        mem_bytes h (addr + 1) (drop 4 s)
          (if isxdigit (char_at s 2) then x86emu_write_byte h emu addr (ucast (fst (strtoul s 16))) else emu)
      else emu)"

declare mem_bytes.simps [simp del]

text \<open>The registers by the names they have in a file, with the sign of equality.\<close>

definition set_seg :: "nat \<Rightarrow> (sel_t \<Rightarrow> sel_t) \<Rightarrow> x86emu \<Rightarrow> x86emu" where
  "set_seg i f s = s\<lparr>seg := (seg s)(i := f (seg s i))\<rparr>"

definition reg_table :: "(string \<times> (u32 \<Rightarrow> x86emu \<Rightarrow> x86emu)) list" where
  "reg_table = [
     (''eax='', \<lambda>u s. s\<lparr>R_EAX := u\<rparr>),
     (''ebx='', \<lambda>u s. s\<lparr>R_EBX := u\<rparr>),
     (''ecx='', \<lambda>u s. s\<lparr>R_ECX := u\<rparr>),
     (''edx='', \<lambda>u s. s\<lparr>R_EDX := u\<rparr>),
     (''esi='', \<lambda>u s. s\<lparr>R_ESI := u\<rparr>),
     (''edi='', \<lambda>u s. s\<lparr>R_EDI := u\<rparr>),
     (''ebp='', \<lambda>u s. s\<lparr>R_EBP := u\<rparr>),
     (''esp='', \<lambda>u s. s\<lparr>R_ESP := u\<rparr>),
     (''eip='', \<lambda>u s. s\<lparr>R_EIP := u\<rparr>),
     (''eflags='', \<lambda>u s. s\<lparr>R_FLG := u\<rparr>),
     (''cs='', \<lambda>u. set_seg R_CS_INDEX (\<lambda>e. e\<lparr>sel_sel := ucast u, sel_base := push_bit 4 (ucast (ucast u :: u16))\<rparr>)),
     (''ds='', \<lambda>u. set_seg R_DS_INDEX (\<lambda>e. e\<lparr>sel_sel := ucast u, sel_base := push_bit 4 (ucast (ucast u :: u16))\<rparr>)),
     (''es='', \<lambda>u. set_seg R_ES_INDEX (\<lambda>e. e\<lparr>sel_sel := ucast u, sel_base := push_bit 4 (ucast (ucast u :: u16))\<rparr>)),
     (''fs='', \<lambda>u. set_seg R_FS_INDEX (\<lambda>e. e\<lparr>sel_sel := ucast u, sel_base := push_bit 4 (ucast (ucast u :: u16))\<rparr>)),
     (''gs='', \<lambda>u. set_seg R_GS_INDEX (\<lambda>e. e\<lparr>sel_sel := ucast u, sel_base := push_bit 4 (ucast (ucast u :: u16))\<rparr>)),
     (''ss='', \<lambda>u. set_seg R_SS_INDEX (\<lambda>e. e\<lparr>sel_sel := ucast u, sel_base := push_bit 4 (ucast (ucast u :: u16))\<rparr>)),
     (''cs.base='', \<lambda>u. set_seg R_CS_INDEX (\<lambda>e. e\<lparr>sel_base := u\<rparr>)),
     (''ds.base='', \<lambda>u. set_seg R_DS_INDEX (\<lambda>e. e\<lparr>sel_base := u\<rparr>)),
     (''es.base='', \<lambda>u. set_seg R_ES_INDEX (\<lambda>e. e\<lparr>sel_base := u\<rparr>)),
     (''fs.base='', \<lambda>u. set_seg R_FS_INDEX (\<lambda>e. e\<lparr>sel_base := u\<rparr>)),
     (''gs.base='', \<lambda>u. set_seg R_GS_INDEX (\<lambda>e. e\<lparr>sel_base := u\<rparr>)),
     (''ss.base='', \<lambda>u. set_seg R_SS_INDEX (\<lambda>e. e\<lparr>sel_base := u\<rparr>)),
     (''cs.limit='', \<lambda>u. set_seg R_CS_INDEX (\<lambda>e. e\<lparr>sel_limit := u\<rparr>)),
     (''ds.limit='', \<lambda>u. set_seg R_DS_INDEX (\<lambda>e. e\<lparr>sel_limit := u\<rparr>)),
     (''es.limit='', \<lambda>u. set_seg R_ES_INDEX (\<lambda>e. e\<lparr>sel_limit := u\<rparr>)),
     (''fs.limit='', \<lambda>u. set_seg R_FS_INDEX (\<lambda>e. e\<lparr>sel_limit := u\<rparr>)),
     (''gs.limit='', \<lambda>u. set_seg R_GS_INDEX (\<lambda>e. e\<lparr>sel_limit := u\<rparr>)),
     (''ss.limit='', \<lambda>u. set_seg R_SS_INDEX (\<lambda>e. e\<lparr>sel_limit := u\<rparr>)),
     (''cs.acc='', \<lambda>u. set_seg R_CS_INDEX (\<lambda>e. e\<lparr>sel_acc := ucast u\<rparr>)),
     (''ds.acc='', \<lambda>u. set_seg R_DS_INDEX (\<lambda>e. e\<lparr>sel_acc := ucast u\<rparr>)),
     (''es.acc='', \<lambda>u. set_seg R_ES_INDEX (\<lambda>e. e\<lparr>sel_acc := ucast u\<rparr>)),
     (''fs.acc='', \<lambda>u. set_seg R_FS_INDEX (\<lambda>e. e\<lparr>sel_acc := ucast u\<rparr>)),
     (''gs.acc='', \<lambda>u. set_seg R_GS_INDEX (\<lambda>e. e\<lparr>sel_acc := ucast u\<rparr>)),
     (''ss.acc='', \<lambda>u. set_seg R_SS_INDEX (\<lambda>e. e\<lparr>sel_acc := ucast u\<rparr>)),
     (''tr='', \<lambda>u s. s\<lparr>tr := (tr s)\<lparr>sel_sel := ucast u\<rparr>\<rparr>),
     (''tr.base='', \<lambda>u s. s\<lparr>tr := (tr s)\<lparr>sel_base := u\<rparr>\<rparr>),
     (''tr.limit='', \<lambda>u s. s\<lparr>tr := (tr s)\<lparr>sel_limit := u\<rparr>\<rparr>),
     (''tr.acc='', \<lambda>u s. s\<lparr>tr := (tr s)\<lparr>sel_acc := ucast u\<rparr>\<rparr>),
     (''ldt='', \<lambda>u s. s\<lparr>ldt := (ldt s)\<lparr>sel_sel := ucast u\<rparr>\<rparr>),
     (''ldt.base='', \<lambda>u s. s\<lparr>ldt := (ldt s)\<lparr>sel_base := u\<rparr>\<rparr>),
     (''ldt.limit='', \<lambda>u s. s\<lparr>ldt := (ldt s)\<lparr>sel_limit := u\<rparr>\<rparr>),
     (''ldt.acc='', \<lambda>u s. s\<lparr>ldt := (ldt s)\<lparr>sel_acc := ucast u\<rparr>\<rparr>),
     (''gdt.base='', \<lambda>u s. s\<lparr>R_GDT_BASE := u\<rparr>),
     (''gdt.limit='', \<lambda>u s. s\<lparr>R_GDT_LIMIT := u\<rparr>),
     (''idt.base='', \<lambda>u s. s\<lparr>R_IDT_BASE := u\<rparr>),
     (''idt.limit='', \<lambda>u s. s\<lparr>R_IDT_LIMIT := u\<rparr>),
     (''cr0='', \<lambda>u s. s\<lparr>crx := (crx s)(0 := u)\<rparr>),
     (''cr1='', \<lambda>u s. s\<lparr>crx := (crx s)(1 := u)\<rparr>),
     (''cr2='', \<lambda>u s. s\<lparr>crx := (crx s)(2 := u)\<rparr>),
     (''cr3='', \<lambda>u s. s\<lparr>crx := (crx s)(3 := u)\<rparr>),
     (''cr4='', \<lambda>u s. s\<lparr>crx := (crx s)(4 := u)\<rparr>),
     (''dr0='', \<lambda>u s. s\<lparr>drx := (drx s)(0 := u)\<rparr>),
     (''dr1='', \<lambda>u s. s\<lparr>drx := (drx s)(1 := u)\<rparr>),
     (''dr2='', \<lambda>u s. s\<lparr>drx := (drx s)(2 := u)\<rparr>),
     (''dr3='', \<lambda>u s. s\<lparr>drx := (drx s)(3 := u)\<rparr>),
     (''dr6='', \<lambda>u s. s\<lparr>drx := (drx s)(6 := u)\<rparr>),
     (''dr7='', \<lambda>u s. s\<lparr>drx := (drx s)(7 := u)\<rparr>)]"

lemma reg_assigns_shorter:
  assumes "strchr s c = Some (name, s1)" "(u, s2) = strtoul (tl s1) 16"
  shows "length (dropWhile isspace s2) < length s"
proof -
  have "dropWhile (\<lambda>d. d \<noteq> c) s \<noteq> []" if "c \<in> set s" using that by auto
  then have "s1 \<noteq> []" "length s1 \<le> length s" using assms(1) by (auto simp: strchr_def length_dropWhile_le split: if_splits)
  moreover have "length s2 \<le> length (tl s1)" using strtoul_rest[of "tl s1" 16] assms(2)[symmetric] by simp
  moreover have "length (dropWhile isspace s2) \<le> length s2" by (rule length_dropWhile_le)
  ultimately show ?thesis by (cases s1) auto
qed

text \<open>
  The assignments of a register line, and what is left of it at a name that is none; \<open>None\<close>
  for a value that does not end at white space.
\<close>

function reg_assigns :: "string \<Rightarrow> x86emu \<Rightarrow> string option \<times> x86emu" where
  "reg_assigns s emu =
     (case strchr s (CHR ''='') of
        None \<Rightarrow> (Some s, emu)
      | Some (name, s1) \<Rightarrow>
          (case strtoul (tl s1) 16 of (u, s2) \<Rightarrow>
            if s2 \<noteq> [] \<and> \<not> isspace (hd s2) then (None, emu)
            else (case map_of reg_table (name @ ''='') of
                    None \<Rightarrow> (Some s, emu)
                  | Some f \<Rightarrow> reg_assigns (dropWhile isspace s2) (f (ucast u) emu))))"
  by pat_completeness auto

termination
  by (relation "measure (\<lambda>(s, emu). length s)") (auto dest: reg_assigns_shorter)

declare reg_assigns.simps [simp del]

text \<open>
  A line of the file: a comment ends it; eight characters of an address and a colon begin
  a memory line, anything else that is not blank has to be a register line.
\<close>

definition init_line :: "host \<Rightarrow> string \<Rightarrow> x86emu \<Rightarrow> bool \<times> x86emu" where
  "init_line h buf emu =
     (let buf = takeWhile (\<lambda>c. c \<noteq> CHR '';'') buf;
          s = dropWhile isspace buf
      in if s = [] then (True, emu)
         else case strtoul s 16 of (addr, s1) \<Rightarrow>
           if length s - length s1 = 8 \<and> char_at s1 0 = CHR '':'' then (True, mem_bytes h (ucast addr) (tl s1) emu)
           else (case reg_assigns s emu of
                   (None, emu) \<Rightarrow> (False, emu)
                 | (Some s, emu) \<Rightarrow> (dropWhile isspace s = [], emu)))"

fun init_lines :: "host \<Rightarrow> string list \<Rightarrow> x86emu \<Rightarrow> bool \<times> x86emu" where
  "init_lines h [] emu = (True, emu)"
| "init_lines h (l # ls) emu = (case init_line h l emu of (ok, emu) \<Rightarrow> if ok then init_lines h ls emu else (False, emu))"

definition vm_init :: "host \<Rightarrow> string option \<Rightarrow> x86emu \<Rightarrow> bool \<times> x86emu" where
  "vm_init h file emu = (case file of None \<Rightarrow> (False, emu) | Some t \<Rightarrow> init_lines h (fgets_lines 1023 t) emu)"

section \<open>Running a test\<close>

definition vm_run :: "host \<Rightarrow> test_opt \<Rightarrow> x86emu \<Rightarrow> x86emu option" where
  "vm_run h opt s =
     (let flags = X86EMU_RUN_LOOP OR X86EMU_RUN_NO_CODE;
          (s, flags) = (if inst_max opt \<noteq> 0 then (s\<lparr>max_instr := ucast (inst_max opt)\<rparr>, flags OR X86EMU_RUN_MAX_INSTR) else (s, flags))
      in case x86emu_run h flags s of
           None \<Rightarrow> None
         | Some (_, s) \<Rightarrow> Some (snd (run_state (x86emu_clear_log h True) s)))"

text \<open>
  The dump to a file of its own, or to the driver's log. \<open>there\<close> says whether that file is open;
  a file of its own that could not be opened is closed all the same, which has no result.
\<close>

definition vm_dump :: "host \<Rightarrow> test_opt \<Rightarrow> bool \<Rightarrow> bool \<Rightarrow> x86emu \<Rightarrow> x86emu option" where
  "vm_dump h opt file there s =
     (let s = (if there then snd (run_state (do {
            x86emu_dump h (X86EMU_DUMP_MEM OR X86EMU_DUMP_REGS OR (if \<not> file \<and> dump_flags opt \<noteq> 0 then dump_flags opt else 0));
            x86emu_clear_log h True
          }) s) else s)
      in if file \<and> \<not> there then None else Some s)"

definition build_file_name :: "string \<Rightarrow> string \<Rightarrow> string" where
  "build_file_name file suffix =
     (let i = length file
      in if i \<ge> 5 \<and> drop (i - 5) file = ''.init'' then take (i - 5) file @ suffix else file @ suffix)"

text \<open>0 for equal files that are not empty, 1 for different ones, 2 when there is nothing to compare with.\<close>

definition result_cmp :: "string option \<Rightarrow> string option \<Rightarrow> nat" where
  "result_cmp f0 f1 =
     (let err = (if f1 = None then 2 else 1)
      in case (f0, f1) of
           (Some b0, Some b1) \<Rightarrow> if b0 \<noteq> [] \<and> length b0 = length b1 \<and> b0 = b1 then 0 else err
         | _ \<Rightarrow> err)"

text \<open>
  One test: \<open>files\<close> are the files before it, \<open>after\<close> those there are when the emulator has
  been dumped, \<open>opens\<close> the names that can be opened to write. \<open>None\<close> stands for a run that does
  not end and for closing a file that could not be opened.
\<close>

definition run_test :: "host \<Rightarrow> (nat \<Rightarrow> u8) \<Rightarrow> nat \<Rightarrow> nat \<Rightarrow> test_opt \<Rightarrow> (string \<Rightarrow> string option) \<Rightarrow> (string \<Rightarrow> bool) \<Rightarrow>
    (x86emu \<Rightarrow> string \<Rightarrow> string option) \<Rightarrow> string \<Rightarrow> nat option" where
  "run_test h hm hf hi opt files opens after file =
     (let log = (print_to_stderr opt \<or> opens (build_file_name file ''.log'')) in
      case vm_init h (files file) (vm_new h hm hf hi opt) of (ok, s) \<Rightarrow>
        if ok then
          (case vm_run h opt s of
             None \<Rightarrow> None
           | Some s \<Rightarrow>
               (case vm_dump h opt False log s of
                  None \<Rightarrow> None
                | Some s \<Rightarrow>
                    (case vm_dump h opt True (opens (build_file_name file ''.result'')) s of
                       None \<Rightarrow> None
                     | Some s \<Rightarrow>
                         let result = result_cmp (after s (build_file_name file ''.result'')) (after s (build_file_name file ''.done''))
                         in if log then Some (if result = 1 then 1 else 0) else None)))
        else if log then Some 1 else None)"

text \<open>All tests named; \<open>run\<close> is \<open>run_test\<close> on the files there are when a test begins. The exit code tells whether one failed.\<close>

fun run_tests :: "(string \<Rightarrow> nat option) \<Rightarrow> string list \<Rightarrow> nat \<Rightarrow> nat option" where
  "run_tests run [] err = Some err"
| "run_tests run (file # fs) err = (case run file of None \<Rightarrow> None | Some r \<Rightarrow> run_tests run fs (err OR r))"

definition test_main :: "(test_opt \<Rightarrow> string \<Rightarrow> nat option) \<Rightarrow> (nat \<times> string) list \<Rightarrow> string list \<Rightarrow> nat option" where
  "test_main run is args =
     (case test_options is \<lparr>verbose = 0, inst_max = 0, trace_flags = 0, dump_flags = 0, print_to_stderr = False\<rparr> of
        Exit n \<Rightarrow> Some n
      | Options opt \<Rightarrow> if args = [] then Some 1 else run_tests (run opt) args 0)"

end
