(* ===== verification/Read_Back.thy ===== *)
theory Read_Back
  imports Testdriver
begin

text \<open>
  What \<^verbatim>\<open>x86emu_dump\<close> writes of the memory is what \<^verbatim>\<open>vm_init\<close> of the test driver reads: the
  lines of a dump, read into a new emulator, give it the bytes of the dumped one.
\<close>

section \<open>A dump is read back\<close>

text \<open>The groups of four characters a memory line consists of.\<close>

definition mem_item :: "(nat \<Rightarrow> u8) \<Rightarrow> (nat \<Rightarrow> bool) \<Rightarrow> nat \<Rightarrow> string" where
  "mem_item d sh u = ''  '' @ (if sh u then decode_hex2 (ucast (d u)) else ''  '')"

definition write_shown :: "host \<Rightarrow> u32 \<Rightarrow> (nat \<Rightarrow> u8) \<Rightarrow> (nat \<Rightarrow> bool) \<Rightarrow> nat \<Rightarrow> x86emu \<Rightarrow> x86emu" where
  "write_shown h addr d sh u emu = (if sh u then x86emu_write_byte h emu (addr + of_nat u) (ucast (d u)) else emu)"

lemma mem_item_length [simp]: "length (mem_item d sh u) = 4"
  by (simp add: mem_item_def)

lemma space_facts: "isspace (CHR '' '')" "isspace (CHR 0x0A)" "\<not> isspace (CHR 0x00)" "\<not> isxdigit (CHR '' '')" "\<not> isxdigit (CHR 0x0A)" "\<not> isxdigit (CHR '':'')"
  by code_simp+

text \<open>The first group of a line, and what \<^verbatim>\<open>strtoul\<close> makes of it.\<close>

lemma mem_item_group:
  assumes "t = CHR 0x0A # r \<or> t = CHR '' '' # r"
  shows "mem_group (mem_item d sh u @ t)" "isxdigit (char_at (mem_item d sh u @ t) 2) = sh u"
    "sh u \<Longrightarrow> fst (strtoul (mem_item d sh u @ t) 16) = ucast (d u)"
proof -
  have x: "\<not> isxdigit (char_at (mem_item d sh u @ t) 4)"
    using assms space_facts by (auto simp: char_at_def nth_append)
  have at: "char_at (mem_item d sh u @ t) 0 = CHR '' ''" "char_at (mem_item d sh u @ t) (Suc 0) = CHR '' ''"
    "char_at (mem_item d sh u @ t) 2 = (if sh u then hexdigit (drop_bit 4 (ucast (d u))) else CHR '' '')"
    "char_at (mem_item d sh u @ t) 3 = (if sh u then hexdigit (ucast (d u)) else CHR '' '')"
    by (simp_all add: char_at_def mem_item_def decode_hex2_def eval_nat_numeral)
  show "mem_group (mem_item d sh u @ t)" "isxdigit (char_at (mem_item d sh u @ t) 2) = sh u"
    using x space_facts hexdigit_facts by (simp_all add: mem_group_def at)
  assume sh: "sh u"
  have "hex_val (decode_hex2 (ucast (d u))) = unat (d u)"
    using decode_hex_roundtrip[of "ucast (d u)"] unsigned_less[of "d u", where ?'a = nat] by (simp add: unsigned_ucast_eq take_bit_nat_eq_self)
  moreover have "strtoul (''  '' @ decode_hex2 (ucast (d u)) @ t) 16 = (of_nat (hex_val (decode_hex2 (ucast (d u)))), t)"
  proof (rule strtoul_hex)
    show "hex_string (decode_hex2 (ucast (d u)))" by (rule hex_string_formats)
    show "decode_hex2 (ucast (d u)) \<noteq> []" "length (decode_hex2 (ucast (d u))) \<le> 16" by (simp_all add: decode_hex2_def)
    show "\<forall>c\<in>set ''  ''. isspace c" "t = [] \<or> \<not> isxdigit (hd t) \<and> hd t \<notin> {CHR ''x'', CHR ''X''}"
      using assms space_facts by auto
  qed
  ultimately show "fst (strtoul (mem_item d sh u @ t) 16) = ucast (d u)" using sh by (simp add: mem_item_def)
qed

lemma ucast_up: "(ucast (ucast v :: u64) :: u32) = ucast v" for v :: u8
  by (simp add: bit_eq_iff bit_simps)

lemma mem_bytes_items:
  "mem_bytes h (addr + of_nat k) (concat (map (mem_item d sh) [k..<n]) @ [CHR 0x0A]) emu = fold (write_shown h addr d sh) [k..<n] emu"
proof (induction "n - k" arbitrary: k emu)
  case 0
  then have "[k..<n] = []" by simp
  moreover have "\<not> mem_group [CHR 0x0A]" using space_facts by (simp add: mem_group_def char_at_def)
  ultimately show ?case by (subst mem_bytes.simps) (simp only: list.map concat.simps append_Nil fold_simps if_False)
next
  case (Suc m)
  then have k: "[k..<n] = k # [Suc k..<n]" by (simp add: upt_conv_Cons)
  let ?t = "concat (map (mem_item d sh) [Suc k..<n]) @ [CHR 0x0A]"
  have "\<exists>r. ?t = CHR 0x0A # r \<or> ?t = CHR '' '' # r" by (cases "[Suc k..<n]") (auto simp: mem_item_def)
  then obtain r where t: "?t = CHR 0x0A # r \<or> ?t = CHR '' '' # r" by blast
  have "mem_bytes h (addr + of_nat k) (mem_item d sh k @ ?t) emu = mem_bytes h (addr + of_nat (Suc k)) ?t (write_shown h addr d sh k emu)"
    using mem_item_group[OF t, where d = d and sh = sh and u = k] ucast_up[of "d k"] by (subst mem_bytes.simps) (simp add: write_shown_def ac_simps)
  also have "\<dots> = fold (write_shown h addr d sh) [Suc k..<n] (write_shown h addr d sh k emu)"
    by (rule Suc.hyps(1)) (use Suc.hyps(2) in simp)
  finally show ?case by (simp add: k)
qed

lemma fold_write_shown:
  assumes "client s" "\<And>u. u \<in> set us \<Longrightarrow> sh u \<Longrightarrow> f (addr + of_nat u) = d u"
  shows "puts f {addr + of_nat u | u. u \<in> set us \<and> sh u} s (fold (write_shown h addr d sh) us s)"
  using assms
proof (induction us arbitrary: s)
  case Nil
  then show ?case by (simp add: puts_refl)
next
  case (Cons u us)
  let ?t = "write_shown h addr d sh u s"
  have one: "puts f (if sh u then {addr + of_nat u} else {}) s ?t"
    using Cons.prems by (auto simp: write_shown_def puts_refl intro!: puts_write)
  have "puts f {addr + of_nat v | v. v \<in> set us \<and> sh v} ?t (fold (write_shown h addr d sh) us ?t)"
    using Cons.prems(2) by (intro Cons.IH puts_client[OF one Cons.prems(1)]) simp
  moreover have "{addr + of_nat v | v. v \<in> set (u # us) \<and> sh v} =
      (if sh u then {addr + of_nat u} else {}) \<union> {addr + of_nat v | v. v \<in> set us \<and> sh v}" by auto
  ultimately show ?case using puts_trans[OF one] by simp
qed

text \<open>The data of a line of the dump are such groups up to the last byte shown, less the first blank.\<close>

lemma shift_blanks: "a # concat (map (\<lambda>u. a # g u @ [a]) us) = concat (map (\<lambda>u. a # a # g u) us) @ [a]"
  by (induction us) simp_all

lemma strip_blanks_replicate: "strip_blanks (t @ replicate n (CHR '' '')) = strip_blanks t"
  proof -
  have "dropWhile (\<lambda>c. c = CHR '' '') (replicate n (CHR '' '') @ y) = dropWhile (\<lambda>c. c = CHR '' '') y" for y by (induction n) simp_all
  then show ?thesis by (simp add: strip_blanks_def)
qed

lemma strip_blanks_last: "c \<noteq> CHR '' '' \<Longrightarrow> strip_blanks (t @ [c]) = t @ [c]"
  by (simp add: strip_blanks_def)

lemma no_item: "\<not> sh u \<Longrightarrow> mem_item d sh u = replicate 4 (CHR '' '')"
  by (simp add: mem_item_def eval_nat_numeral)

lemma no_items: "(\<And>u. u \<in> set us \<Longrightarrow> \<not> sh u) \<Longrightarrow> concat (map (mem_item d sh) us) = replicate (4 * length us) (CHR '' '')"
  by (induction us) (simp_all add: no_item replicate_add[symmetric])

lemma dump_data_items:
  fixes d :: "nat \<Rightarrow> u8" and a :: "nat \<Rightarrow> u8"
  defines "sh \<equiv> \<lambda>u. a u AND X86EMU_PERM_VALID \<noteq> 0"
  assumes inv: "\<And>u. u < 16 \<Longrightarrow> a u AND X86EMU_ACC_INVALID = 0" and l: "l < 16" "sh l" "\<And>u. l < u \<Longrightarrow> u < 16 \<Longrightarrow> \<not> sh u"
  shows "\<exists>t. fst (dump_data d a 0) = t \<and> t \<noteq> [] \<and> CHR '' '' # t = concat (map (mem_item d sh) [0..<Suc l])"
proof -
  let ?g = "\<lambda>u. if sh u then decode_hex2 (ucast (d u)) else ''  ''"
  let ?t = "concat (map (\<lambda>u. (if a u AND X86EMU_ACC_INVALID \<noteq> 0 then CHR ''*'' else CHR '' '') # ?g u @ '' '') [0..<16])"
  have upt: "[0..<16] = [0..<Suc l] @ [Suc l..<16]" using l(1) upt_add_eq_append[of 0 "Suc l" "16 - Suc l"] by simp
  have item: "mem_item d sh = (\<lambda>u. CHR '' '' # CHR '' '' # ?g u)" by (simp add: mem_item_def fun_eq_iff)
  have "?t = concat (map (\<lambda>u. CHR '' '' # ?g u @ '' '') [0..<16])" using inv by (intro arg_cong[of _ _ concat] map_cong) simp_all
  then have "CHR '' '' # ?t = concat (map (mem_item d sh) [0..<16]) @ '' ''"
    using shift_blanks[of "CHR '' ''" ?g "[0..<16]"] item by simp
  also have "concat (map (mem_item d sh) [0..<16]) @ '' '' =
      concat (map (mem_item d sh) [0..<Suc l]) @ replicate (Suc (4 * length [Suc l..<16])) (CHR '' '')"
    unfolding upt using no_items[of "[Suc l..<16]" sh d] l(3) by (simp add: replicate_append_same)
  finally have t: "CHR '' '' # ?t = concat (map (mem_item d sh) [0..<Suc l]) @ replicate (Suc (4 * length [Suc l..<16])) (CHR '' '')" .
  obtain x where x: "concat (map (mem_item d sh) [0..<Suc l]) = CHR '' '' # x @ [hexdigit (ucast (d l))]"
  proof -
    have "\<exists>y. concat (map (mem_item d sh) [0..<l]) @ ''  '' = CHR '' '' # y" by (cases "[0..<l]") (simp_all add: item)
    then obtain y where y: "concat (map (mem_item d sh) [0..<l]) @ ''  '' = CHR '' '' # y" ..
    have "concat (map (mem_item d sh) [0..<Suc l]) = (concat (map (mem_item d sh) [0..<l]) @ ''  '') @ decode_hex2 (ucast (d l))"
      using l(2) by (simp add: mem_item_def)
    then show thesis using that[of "y @ [hexdigit (drop_bit 4 (ucast (d l)))]"] unfolding y by (simp add: decode_hex2_def)
  qed
  have last: "hexdigit (ucast (d l)) \<noteq> CHR '' ''" using hexdigit_facts(3)[of "ucast (d l)"] space_facts(1) by metis
  have eq: "?t = (x @ [hexdigit (ucast (d l))]) @ replicate (Suc (4 * length [Suc l..<16])) (CHR '' '')" using t unfolding x by simp
  have s: "strip_blanks ?t = x @ [hexdigit (ucast (d l))]" unfolding eq strip_blanks_replicate by (rule strip_blanks_last[OF last])
  have "\<exists>u\<in>set [0..<16]. dump_shown 0 (a u)" using l by (auto simp: dump_shown_def sh_def)
  then have "fst (dump_data d a 0) = strip_blanks ?t" by (simp add: dump_data_def dump_shown_def sh_def Let_def del: upt_conv_Cons)
  then show ?thesis using s x by simp
qed

section \<open>Lines\<close>

definition whole_line :: "string \<Rightarrow> bool" where
  "whole_line l \<longleftrightarrow> (\<exists>x. l = x @ [CHR 0x0A] \<and> CHR 0x0A \<notin> set x \<and> CHR 0x00 \<notin> set x \<and> length x < 1023)"

lemma split_line_whole: "CHR 0x0A \<notin> set x \<Longrightarrow> length x < n \<Longrightarrow> split_line n (x @ CHR 0x0A # t) = (x @ [CHR 0x0A], t)"
proof (induction x arbitrary: n)
  case Nil
  then show ?case by (cases n) simp_all
next
  case (Cons a x)
  then show ?case by (cases n) auto
qed

lemma fgets_whole:
  assumes "whole_line l"
  shows "fgets_lines 1023 (l @ t) = l # fgets_lines 1023 t"
proof -
  obtain x where x: "l = x @ [CHR 0x0A]" "CHR 0x0A \<notin> set x" "CHR 0x00 \<notin> set x" "length x < 1023"
    using assms unfolding whole_line_def by blast
  obtain c r where c: "l @ t = c # r" using x(1) by (cases "l @ t") auto
  have "takeWhile (\<lambda>c. c \<noteq> CHR 0x00) l = l" using x(3) by (auto simp: x(1) takeWhile_eq_all_conv)
  moreover have "split_line 1023 (c # r) = (l, t)" using split_line_whole[OF x(2,4), of t] c x(1) by simp
  moreover have "length t < length (c # r)" unfolding c[symmetric] x(1) by simp
  ultimately show ?thesis unfolding c fgets_lines.simps by simp
qed

lemma fgets_wholes: "\<forall>l\<in>set ls. whole_line l \<Longrightarrow> fgets_lines 1023 (concat ls) = ls"
  by (induction ls) (simp_all add: fgets_whole)

text \<open>A text of whole lines that, read into an emulator, puts the bytes \<open>f\<close> to the addresses \<open>A\<close>.\<close>

definition reads :: "host \<Rightarrow> (u32 \<Rightarrow> u8) \<Rightarrow> string \<Rightarrow> u32 set \<Rightarrow> bool" where
  "reads h f t A \<longleftrightarrow> (\<exists>ls. t = concat ls \<and> (\<forall>l\<in>set ls. whole_line l) \<and>
     (\<forall>s. client s \<longrightarrow> (\<exists>u. init_lines h ls s = (True, u) \<and> puts f A s u)))"

lemma reads_nil: "reads h f [] {}"
  unfolding reads_def by (intro exI[of _ "[]"]) (auto intro: puts_refl)

lemma init_lines_append: "init_lines h ls s = (True, t) \<Longrightarrow> init_lines h (ls @ ls') s = init_lines h ls' t"
  by (induction ls arbitrary: s) (auto split: prod.splits if_splits)

lemma reads_append:
  assumes "reads h f t A" "reads h f t' B"
  shows "reads h f (t @ t') (A \<union> B)"
proof -
  obtain ls where ls: "t = concat ls" "\<forall>l\<in>set ls. whole_line l" "\<And>s. client s \<Longrightarrow> \<exists>u. init_lines h ls s = (True, u) \<and> puts f A s u"
    using assms(1) unfolding reads_def by blast
  obtain ls' where ls': "t' = concat ls'" "\<forall>l\<in>set ls'. whole_line l" "\<And>s. client s \<Longrightarrow> \<exists>u. init_lines h ls' s = (True, u) \<and> puts f B s u"
    using assms(2) unfolding reads_def by blast
  have "\<exists>u. init_lines h (ls @ ls') s = (True, u) \<and> puts f (A \<union> B) s u" if s: "client s" for s
  proof -
    obtain u where u: "init_lines h ls s = (True, u)" "puts f A s u" using ls(3)[OF s] by blast
    obtain v where v: "init_lines h ls' u = (True, v)" "puts f B u v" using ls'(3)[OF puts_client[OF u(2) s]] by blast
    show ?thesis using init_lines_append[OF u(1)] v(1) puts_trans[OF u(2) v(2)] by auto
  qed
  then show ?thesis unfolding reads_def using ls(1,2) ls'(1,2) by (intro exI[of _ "ls @ ls'"]) auto
qed

lemma reads_line:
  assumes "whole_line l" "\<And>s. client s \<Longrightarrow> \<exists>u. init_line h l s = (True, u) \<and> puts f A s u"
  shows "reads h f l A"
  unfolding reads_def using assms by (intro exI[of _ "[l]"]) (fastforce split: prod.splits)

text \<open>Lines of blanks and comments are skipped.\<close>

lemma reads_comment:
  assumes "whole_line l" "dropWhile isspace (takeWhile (\<lambda>c. c \<noteq> CHR '';'') l) = []"
  shows "reads h f l {}"
  using assms by (intro reads_line) (auto simp: init_line_def intro: puts_refl)

section \<open>A line of memory\<close>

lemma item_chars: "c \<in> set (concat (map (mem_item d sh) us)) \<Longrightarrow> c = CHR '' '' \<or> (\<exists>v. c = hexdigit v)"
  by (auto simp: mem_item_def decode_hex2_def split: if_splits)

lemma plain_chars:
  assumes "c = CHR '' '' \<or> c = CHR '':'' \<or> (\<exists>v. c = hexdigit v)"
  shows "c \<noteq> CHR 0x0A" "c \<noteq> CHR 0x00" "c \<noteq> CHR '';''"
proof -
  have "isxdigit (hexdigit v)" "hexdigit v \<noteq> CHR '';''" "CHR '';'' \<noteq> hexdigit v" for v using hexdigit_facts[of v] by auto
  moreover have "\<not> isxdigit (CHR 0x00)" by code_simp
  ultimately show "c \<noteq> CHR 0x0A" "c \<noteq> CHR 0x00" "c \<noteq> CHR '';''" using assms space_facts by auto
qed

lemma address_hex: "hex_string (decode_hex8 addr)" "length (decode_hex8 addr) = 8" "ucast (of_nat (hex_val (decode_hex8 addr)) :: u64) = addr"
proof -
  show "hex_string (decode_hex8 addr)" by (rule hex_string_formats)
  show "length (decode_hex8 addr) = 8" by (simp add: decode_hex8_def decode_hex4_def)
  have "hex_val (decode_hex8 addr) = unat addr" by (simp add: decode_hex_roundtrip)
  then show "ucast (of_nat (hex_val (decode_hex8 addr)) :: u64) = addr" by (simp add: bit_eq_iff bit_simps unsigned_of_nat take_bit_nat_eq_self)
qed

lemma reads_memory_line:
  fixes d :: "nat \<Rightarrow> u8" and a :: "nat \<Rightarrow> u8"
  defines "sh \<equiv> \<lambda>u. a u AND X86EMU_PERM_VALID \<noteq> 0"
  assumes inv: "\<And>u. u < 16 \<Longrightarrow> a u AND X86EMU_ACC_INVALID = 0" and ex: "\<exists>u < 16. sh u"
    and f: "\<And>u. u < 16 \<Longrightarrow> sh u \<Longrightarrow> f (addr + of_nat u) = d u"
  shows "fst (dump_data d a 0) \<noteq> []"
    "reads h f (decode_hex8 addr @ '': '' @ fst (dump_data d a 0) @ [CHR 0x0A]) {addr + of_nat u | u. u < 16 \<and> sh u}"
proof -
  have fin: "finite {u. u < 16 \<and> sh u}" by simp
  define l where "l = Max {u. u < 16 \<and> sh u}"
  have l: "l < 16" "sh l" using Max_in[OF fin] ex by (auto simp: l_def)
  have above: "\<not> sh u" if "l < u" "u < 16" for u using Max_ge[OF fin, of u] that unfolding l_def by (metis (mono_tags, lifting) mem_Collect_eq not_le)
  obtain t where t: "fst (dump_data d a 0) = t" "t \<noteq> []" "CHR '' '' # t = concat (map (mem_item d sh) [0..<Suc l])"
    using dump_data_items[of a l d] inv l above unfolding sh_def by blast
  show "fst (dump_data d a 0) \<noteq> []" using t(1,2) by simp
  let ?x = "decode_hex8 addr @ '': '' @ t"
  have "c \<in> set t \<Longrightarrow> c = CHR '' '' \<or> (\<exists>v. c = hexdigit v)" for c using item_chars[of c d sh "[0..<Suc l]"] unfolding t(3)[symmetric] by simp
  then have chars: "c \<in> set ?x \<Longrightarrow> c = CHR '' '' \<or> c = CHR '':'' \<or> (\<exists>v. c = hexdigit v)" for c
    using address_hex(1)[of addr] by (auto simp: hex_string_def)
  have clean: "CHR 0x0A \<notin> set ?x" "CHR 0x00 \<notin> set ?x" "c \<in> set ?x \<Longrightarrow> c \<noteq> CHR '';''" for c using plain_chars[OF chars] by blast+
  have "Suc (length t) = 4 * Suc l" using arg_cong[OF t(3), of length] by (simp add: length_concat comp_def sum_list_triv)
  then have "length ?x < 1023" using l(1) address_hex(2)[of addr] by simp
  then have whole: "whole_line (?x @ [CHR 0x0A])" unfolding whole_line_def using clean by (intro exI[of _ ?x] conjI notI) auto
  have uncommented: "takeWhile (\<lambda>c. c \<noteq> CHR '';'') (?x @ [CHR 0x0A]) = ?x @ [CHR 0x0A]"
    unfolding takeWhile_eq_all_conv using clean(3)[of "CHR '';''"] by auto
  obtain v r where v: "decode_hex8 addr = hexdigit v # r" by (simp add: decode_hex8_def decode_hex4_def)
  have address: "dropWhile isspace (?x @ [CHR 0x0A]) = decode_hex8 addr @ '': '' @ t @ [CHR 0x0A]" using hexdigit_facts(3)[of v] by (simp add: v)
  have number: "strtoul (decode_hex8 addr @ '': '' @ t @ [CHR 0x0A]) 16 = (of_nat (hex_val (decode_hex8 addr)), '': '' @ t @ [CHR 0x0A])"
    using strtoul_hex[of "decode_hex8 addr" "[]" "'': '' @ t @ [CHR 0x0A]"] address_hex[of addr] space_facts(6) by (simp add: v)
  have "init_line h (?x @ [CHR 0x0A]) s = (True, fold (write_shown h addr d sh) [0..<Suc l] s)" for s
  proof -
    have "init_line h (?x @ [CHR 0x0A]) s = (True, mem_bytes h addr ((CHR '' '' # t) @ [CHR 0x0A]) s)"
      unfolding init_line_def uncommented Let_def address number prod.case address_hex(3)
      using address_hex(2)[of addr] by (auto simp: char_at_def)
    then show ?thesis unfolding t(3) using mem_bytes_items[of h addr 0 d sh "Suc l" s] by simp
  qed
  moreover have "puts f {addr + of_nat u | u. u < 16 \<and> sh u} s (fold (write_shown h addr d sh) [0..<Suc l] s)" if "client s" for s
  proof -
    have "{addr + of_nat u | u. u < 16 \<and> sh u} = {addr + of_nat u | u. u \<in> set [0..<Suc l] \<and> sh u}"
    proof -
      have "u < 16 \<and> sh u \<longleftrightarrow> u \<in> set [0..<Suc l] \<and> sh u" for u using above[of u] l(1) by (cases "l < u") auto
      then show ?thesis by (simp only:)
    qed
    moreover have "f (addr + of_nat u) = d u" if "u \<in> set [0..<Suc l]" "sh u" for u using f[of u] that l(1) by (metis atLeastLessThan_upt atLeastLessThan_iff less_Suc_eq_le order_le_less_trans)
    ultimately show ?thesis using fold_write_shown[OF that, of "[0..<Suc l]" sh f addr d h] by (simp only:)
  qed
  ultimately have "reads h f (?x @ [CHR 0x0A]) {addr + of_nat u | u. u < 16 \<and> sh u}" using whole by (intro reads_line) auto
  then show "reads h f (decode_hex8 addr @ '': '' @ fst (dump_data d a 0) @ [CHR 0x0A]) {addr + of_nat u | u. u < 16 \<and> sh u}"
    by (simp add: t(1))
qed

section \<open>The whole dump\<close>

text \<open>The client's handler leaves the emulator alone when it gets the log, as \<^verbatim>\<open>flush_log\<close> does.\<close>

definition steady :: "host \<Rightarrow> bool" where
  "steady h \<longleftrightarrow> (\<forall>n s t. user_flush h n s t = s)"

lemma log_text_same: "s\<lparr>log_text := log_text s\<rparr> = s"
  by simp

lemma log_only:
  assumes "steady h"
  shows "\<exists>l. run_state (x86emu_log h t) s = ((), s\<lparr>log_text := l\<rparr>)"
proof (cases "log_on s")
  case True
  have "flush_log h s = s" using assms by (simp add: flush_log_def steady_def split: option.split)
  then have "run_state (x86emu_clear_log h True) s = (log_size (s\<lparr>log_text := Some []\<rparr>), s\<lparr>log_text := Some []\<rparr>)"
    using True by (auto simp: x86emu_clear_log_def run_state_bind log_on_def LOG_FREE_def)
  then obtain v where clear: "run_state (x86emu_clear_log h True) s = (v, s\<lparr>log_text := Some []\<rparr>)" by blast
  have put: "\<exists>l. run_state (if_then b (LOG_STR t)) (s\<lparr>log_text := l'\<rparr>) = ((), s\<lparr>log_text := l\<rparr>)" for b l'
    by (cases b) (auto simp: LOG_STR_def)
  define n m where "n = int (length t)" and "m = sint (LOG_FREE s)"
  have log: "run_state (x86emu_log h t) s = (case run_state (if n \<ge> m then x86emu_clear_log h True else return (LOG_FREE s)) s of
      (lf, s') \<Rightarrow> run_state (if_then (n < sint lf) (LOG_STR t)) s')"
    using True by (simp only: x86emu_log_def run_state_bind Let_def run_gets run_if_then if_True prod.case n_def m_def)
  show ?thesis
  proof (cases "n \<ge> m")
    case True
    then show ?thesis unfolding log using put[of "n < sint v" "Some []"] by (simp only: if_True clear prod.case)
  next
    case False
    then show ?thesis unfolding log using put[of "n < sint (LOG_FREE s)" "log_text s"]
      by (simp only: if_False run_state_return prod.case log_text_same)
  qed
next
  case False
  then have "run_state (x86emu_log h t) s = ((), s\<lparr>log_text := log_text s\<rparr>)" by (simp add: x86emu_log_def run_state_bind)
  then show ?thesis by blast
qed

lemma logs_only: "steady h \<Longrightarrow> \<exists>l. run_state (for_each ts (x86emu_log h)) s = ((), s\<lparr>log_text := l\<rparr>)"
proof (induction ts arbitrary: s)
  case Nil
  then show ?case using log_text_same[of s] by (intro exI[of _ "log_text s"]) simp
next
  case (Cons t ts)
  obtain l where "run_state (x86emu_log h t) s = ((), s\<lparr>log_text := l\<rparr>)" using log_only[OF Cons.prems] by blast
  then show ?case using Cons.IH[OF Cons.prems, of "s\<lparr>log_text := l\<rparr>"] by (simp add: run_state_bind)
qed

text \<open>In the state \<open>s\<close>, whatever is in the log, the program \<open>p\<close> writes the texts \<open>ts\<close> to the log.\<close>

definition logs :: "host \<Rightarrow> x86emu \<Rightarrow> string list \<Rightarrow> unit emu \<Rightarrow> bool" where
  "logs h s ts p \<longleftrightarrow> (\<forall>l. run_state p (s\<lparr>log_text := l\<rparr>) = run_state (for_each ts (x86emu_log h)) (s\<lparr>log_text := l\<rparr>))"

lemma run_for_each_append:
  "run_state (for_each (xs @ ys) g) s = run_state (for_each ys g) (snd (run_state (for_each xs g) s))"
  by (induction xs arbitrary: s) (simp_all add: run_state_bind case_prod_beta)

lemma logs_nil: "logs h s [] skip"
  by (simp add: logs_def)

lemma logs_log: "logs h s [t] (x86emu_log h t)"
  by (simp add: logs_def run_state_bind case_prod_beta prod_eq_iff)

lemma logs_bind:
  assumes "steady h" "logs h s ts p" "logs h s ts' q"
  shows "logs h s (ts @ ts') (do { p; q })"
proof -
  have "run_state (do { p; q }) (s\<lparr>log_text := l\<rparr>) = run_state (for_each (ts @ ts') (x86emu_log h)) (s\<lparr>log_text := l\<rparr>)" for l
  proof -
    obtain l' where "run_state (for_each ts (x86emu_log h)) (s\<lparr>log_text := l\<rparr>) = ((), s\<lparr>log_text := l'\<rparr>)"
      using logs_only[OF assms(1), of ts "s\<lparr>log_text := l\<rparr>"] by auto
    then show ?thesis using assms(2,3) by (simp add: logs_def run_state_bind run_for_each_append)
  qed
  then show ?thesis by (simp add: logs_def)
qed

lemma logs_each: "steady h \<Longrightarrow> (\<And>x. x \<in> set xs \<Longrightarrow> logs h s (ts x) (g x)) \<Longrightarrow> logs h s (concat (map ts xs)) (for_each xs g)"
  by (induction xs) (simp_all add: logs_nil logs_bind)

lemma logs_gets: "logs h s ts (p (f (mem s))) \<Longrightarrow> logs h s ts (do { x \<leftarrow> gets (\<lambda>s. f (mem s)); p x })"
  by (simp add: logs_def run_state_bind)

text \<open>What it writes is read back, to the addresses \<open>A\<close>.\<close>

definition dumps :: "host \<Rightarrow> host \<Rightarrow> x86emu \<Rightarrow> unit emu \<Rightarrow> u32 set \<Rightarrow> bool" where
  "dumps h h' s p A \<longleftrightarrow> (\<exists>ts. logs h s ts p \<and> reads h' (mem_byte (mem s)) (concat ts) A)"

lemma dumpsI: "logs h s ts p \<Longrightarrow> reads h' (mem_byte (mem s)) (concat ts) A \<Longrightarrow> dumps h h' s p A"
  by (auto simp: dumps_def)

lemma dumps_nil: "dumps h h' s skip {}"
  by (rule dumpsI[OF logs_nil]) (simp add: reads_nil)

lemma dumps_if: "(b \<Longrightarrow> dumps h h' s p A) \<Longrightarrow> dumps h h' s (if_then b p) (if b then A else {})"
  by (simp add: if_then_def dumps_nil)

lemma dumps_gets: "dumps h h' s (p (f (mem s))) A \<Longrightarrow> dumps h h' s (do { x \<leftarrow> gets (\<lambda>s. f (mem s)); p x }) A"
  unfolding dumps_def using logs_gets by blast

lemma dumps_bind:
  assumes "steady h" "dumps h h' s p A" "dumps h h' s q B"
  shows "dumps h h' s (do { p; q }) (A \<union> B)"
proof -
  obtain ts ts' where "logs h s ts p" "reads h' (mem_byte (mem s)) (concat ts) A" "logs h s ts' q" "reads h' (mem_byte (mem s)) (concat ts') B"
    using assms(2,3) unfolding dumps_def by blast
  then show ?thesis using assms(1) by (intro dumpsI[OF logs_bind]) (auto intro: reads_append)
qed

lemma dumps_each:
  assumes "steady h" "\<And>x. x \<in> set xs \<Longrightarrow> dumps h h' s (g x) (A x)"
  shows "dumps h h' s (for_each xs g) (\<Union>x\<in>set xs. A x)"
  using assms(2) by (induction xs) (auto intro: dumps_nil dumps_bind[OF assms(1)])

text \<open>The addresses of a page, and of the page tables.\<close>

lemma address_of:
  assumes "i < 1024" "j < 1024" "k < 4096"
  shows "ptr_of (of_nat ((i * 1024 + j) * 4096 + k)) = (i, j)" "page_idx (of_nat ((i * 1024 + j) * 4096 + k)) = k"
proof -
  let ?n = "(i * 1024 + j) * 4096 + k"
  have "?n < 2 ^ 32" using assms by simp
  then have n: "unat (of_nat ?n :: u32) = ?n" unfolding unsigned_of_nat of_nat_id by (intro take_bit_nat_eq_self) simp
  have "drop_bit 12 a AND 0x3ff = take_bit 10 (drop_bit 12 a)" for a :: u32 by (simp add: take_bit_eq_mask mask_eq_exp_minus_1)
  then have t: "ptable_idx a = (unat a div 2 ^ 12) mod 2 ^ 10" for a
    by (simp only: ptable_idx_def unsigned_take_bit_eq unat_drop_bit_eq) (simp only: drop_bit_eq_div take_bit_eq_mod)
  have d: "pdir_idx a = unat a div 2 ^ 22" for a unfolding pdir_idx_def unat_drop_bit_eq by (rule drop_bit_eq_div)
  have div: "(x * 4096 + k) div 4096 = x" "(x * 1024 + j) div 1024 = x" "(x * 1024 + j) mod 1024 = j" "(x * 4096 + k) mod 4096 = k" for x using assms by simp_all
  have pow: "(2 :: nat) ^ 10 = 1024" "(2 :: nat) ^ 12 = 4096" "(2 :: nat) ^ 22 = 4096 * 1024" by simp_all
  show "ptr_of (of_nat ?n) = (i, j)" unfolding ptr_of_def t d n pow div_mult2_eq div by (rule refl)
  show "page_idx (of_nat ?n) = k" unfolding page_idx_nat n div by (rule refl)
qed

lemma idx_less: "pdir_idx a < 1024" "ptable_idx a < 1024"
proof -
  have "pdir_idx a = unat a div 2 ^ 22" unfolding pdir_idx_def unat_drop_bit_eq by (rule drop_bit_eq_div)
  then show "pdir_idx a < 1024" using unsigned_less[of a, where ?'a = nat] by simp
  have "drop_bit 12 a AND 0x3ff \<le> 0x3ff" by (rule word_and_le1)
  then show "ptable_idx a < 1024" by (simp add: ptable_idx_def word_le_nat_alt)
qed

text \<open>What a dump shows of the memory.\<close>

definition dumped :: "x86emu_mem \<Rightarrow> u32 set" where
  "dumped m = {a. attr m a AND X86EMU_PERM_VALID \<noteq> 0 \<and> pg_data (get_page m (ptr_of a)) \<noteq> Null}"

lemma run_dump_line:
  assumes "pg_attr (get_page (mem s) (i, j)) \<noteq> None" "flags AND X86EMU_DUMP_ATTR = 0"
  shows "run_state (dump_line h flags 0 i j u2) s =
     (let t = fst (dump_data (\<lambda>u. get_data (mem s) (i, j) (u2 + u)) (\<lambda>u. get_attr (mem s) (i, j) (u2 + u)) 0)
      in if t = [] then ((), s) else run_state (x86emu_log h (decode_hex8 (of_nat ((i * 1024 + j) * 4096 + u2)) @ '': '' @ t @ [CHR 0x0A])) s)"
proof -
  obtain t v where d: "dump_data (\<lambda>u. get_data (mem s) (i, j) (u2 + u)) (\<lambda>u. get_attr (mem s) (i, j) (u2 + u)) 0 = (t, v)" by force
  show ?thesis using assms unfolding dump_line_def by (simp only: run_state_bind run_gets Let_def prod.case if_False d fst_conv)
     (simp add: run_state_bind split: prod.split)
qed

lemma dump_line_dumps:
  assumes flags: "flags AND X86EMU_DUMP_ATTR = 0" and "i < 1024" "j < 1024" "k < 256" "mem_ok m" "pg_data (get_page m (i, j)) \<noteq> Null"
    and inv: "\<And>a. attr m a AND X86EMU_ACC_INVALID = 0" and m: "mem s = m"
  shows "dumps h h' s (dump_line h flags 0 i j (16 * k)) {a \<in> dumped m. ptr_of a = (i, j) \<and> page_idx a div 16 = k}"
proof -
  have some: "pg_attr (get_page m (i, j)) \<noteq> None" using mem_okD[OF assms(5)] assms(6) by simp
  then have live: "live m (i, j)" by (auto simp: live_def present_def get_page_def null_page_def split: option.splits)
  define addr :: u32 where "addr = of_nat ((i * 1024 + j) * 4096 + 16 * k)"
  define d where "d = (\<lambda>u. get_data m (i, j) (16 * k + u))"
  define a where "a = (\<lambda>u. get_attr m (i, j) (16 * k + u))"
  have at: "ptr_of (addr + of_nat u) = (i, j)" "page_idx (addr + of_nat u) = 16 * k + u" if "u < 16" for u
    using address_of[OF assms(2,3), of "16 * k + u"] that assms(4) by (simp_all add: addr_def add.assoc)
  have da: "attr m (addr + of_nat u) = a u" "mem_byte m (addr + of_nat u) = d u" if "u < 16" for u
    using get_attr_abs[of m "addr + of_nat u"] get_data_abs[of m "addr + of_nat u"] live assms(5) at[OF that]
    by (simp_all add: a_def d_def mem_byte_def)
  have inv: "a u AND X86EMU_ACC_INVALID = 0" if "u < 16" for u using inv[of "addr + of_nat u"] da(1)[OF that] by simp
  have set: "{x \<in> dumped m. ptr_of x = (i, j) \<and> page_idx x div 16 = k} = {addr + of_nat u | u. u < 16 \<and> a u AND X86EMU_PERM_VALID \<noteq> 0}" (is "?L = ?R")
  proof (intro equalityI subsetI)
    fix x assume x: "x \<in> ?L"
    let ?u = "page_idx x - 16 * k"
    have u: "?u < 16" "16 * k + ?u = page_idx x" using x by auto
    then have "x = addr + of_nat ?u" using x at[OF u(1)] by (intro addr_eqI) simp_all
    then show "x \<in> ?R" using x u(1) da(1)[OF u(1)] by (auto simp: dumped_def intro!: exI[of _ ?u])
  next
    fix x assume "x \<in> ?R"
    then show "x \<in> ?L" using at da(1) assms(6) by (auto simp: dumped_def)
  qed
  show ?thesis
  proof (cases "\<exists>u<16. a u AND X86EMU_PERM_VALID \<noteq> 0")
    case True
    have line: "fst (dump_data d a 0) \<noteq> []"
      using inv True da(2) by (intro reads_memory_line(1)[of a "mem_byte m" addr d]) blast+
    have read: "reads h' (mem_byte (mem s)) (decode_hex8 addr @ '': '' @ fst (dump_data d a 0) @ [CHR 0x0A])
        {addr + of_nat u | u. u < 16 \<and> a u AND X86EMU_PERM_VALID \<noteq> 0}"
      unfolding m using inv True da(2) by (intro reads_memory_line(2)) blast+
    have "logs h s [decode_hex8 addr @ '': '' @ fst (dump_data d a 0) @ [CHR 0x0A]] (dump_line h flags 0 i j (16 * k))"
      using line by (auto simp: m logs_def run_dump_line some flags Let_def run_state_bind case_prod_beta prod_eq_iff addr_def a_def d_def)
    then show ?thesis unfolding set by (rule dumpsI) (use read m in simp)
  next
    case False
    then have no: "\<not> (\<exists>u\<in>set [0..<16]. dump_shown 0 (a u))" by (auto simp: dump_shown_def)
    then have "fst (dump_data d a 0) = []" by (simp add: dump_data_def Let_def)
    then have log: "logs h s [] (dump_line h flags 0 i j (16 * k))"
      by (auto simp: m logs_def run_dump_line some flags Let_def a_def d_def)
    have "{addr + of_nat u | u. u < 16 \<and> a u AND X86EMU_PERM_VALID \<noteq> 0} = {}" using False by blast
    then show ?thesis unfolding set by (intro dumpsI[OF log]) (simp only: concat.simps reads_nil)
  qed
qed

lemma dump_page_dumps:
  assumes "steady h" "flags AND X86EMU_DUMP_ATTR = 0" "i < 1024" "j < 1024" "mem_ok m" "\<And>a. attr m a AND X86EMU_ACC_INVALID = 0" and m: "mem s = m"
  shows "dumps h h' s (if_then (pg_data (get_page m (i, j)) \<noteq> Null) (for_each [0..<256] (\<lambda>k. dump_line h flags 0 i j (16 * k))))
    {a \<in> dumped m. ptr_of a = (i, j)}"
proof -
  have idx: "page_idx a div 16 < 256" for a using page_idx_less[of a] by (simp only: less_mult_imp_div_less)
  have "{a \<in> dumped m. ptr_of a = (i, j)} = (if pg_data (get_page m (i, j)) \<noteq> Null
      then (\<Union>k\<in>set [0..<256]. {a \<in> dumped m. ptr_of a = (i, j) \<and> page_idx a div 16 = k}) else {})"
    using idx unfolding dumped_def set_upt by (auto simp del: atLeastLessThan_upt)
  then show ?thesis using assms by (simp only:) (intro dumps_if dumps_each dump_line_dumps; simp)
qed

lemma dump_pages_dumps:
  assumes "steady h" "flags AND X86EMU_DUMP_ATTR = 0" "mem_ok m" "\<And>a. attr m a AND X86EMU_ACC_INVALID = 0" and m: "mem s = m"
  shows "dumps h h' s (for_each [0..<1024] (\<lambda>i. do {
       present \<leftarrow> gets (\<lambda>s. case mem_pdir (mem s) of None \<Rightarrow> False | Some pd \<Rightarrow> pd i \<noteq> None);
       if_then present (for_each [0..<1024] (\<lambda>j. do {
         m \<leftarrow> gets mem;
         if_then (pg_data (get_page m (i, j)) \<noteq> Null) (for_each [0..<256] (\<lambda>k. dump_line h flags 0 i j (16 * k)))
       }))
     })) (dumped m)"
proof -
  let ?p = "\<lambda>i. case mem_pdir m of None \<Rightarrow> False | Some pd \<Rightarrow> pd i \<noteq> None"
  have pres: "?p (fst (ptr_of a))" if "a \<in> dumped m" for a
    using that by (auto simp: dumped_def get_page_def null_page_def split: option.splits)
  have "dumped m = (\<Union>i\<in>set [0..<1024]. if ?p i then (\<Union>j\<in>set [0..<1024]. {a \<in> dumped m. ptr_of a = (i, j)}) else {})" (is "_ = ?R")
  proof (intro equalityI subsetI)
    fix a assume a: "a \<in> dumped m"
    have "pdir_idx a \<in> set [0..<1024]" "ptable_idx a \<in> set [0..<1024]" unfolding set_upt using idx_less[of a] by (simp_all only: atLeastLessThan_iff) simp_all
    then show "a \<in> ?R" using a pres[OF a] unfolding ptr_of_def fst_conv by (intro UN_I[of "pdir_idx a"]) (auto simp: ptr_of_def simp del: set_upt)
  qed (auto split: if_splits simp del: set_upt)
  moreover have gets_pd: "dumps h h' s (p (?p i)) A \<Longrightarrow> dumps h h' s (do { x \<leftarrow> gets (\<lambda>s. case mem_pdir (mem s) of None \<Rightarrow> False | Some pd \<Rightarrow> pd i \<noteq> None); p x }) A" for p A i
    using dumps_gets[where f = "\<lambda>m. case mem_pdir m of None \<Rightarrow> False | Some pd \<Rightarrow> pd i \<noteq> None"] by (simp add: m)
  moreover have gets_m: "dumps h h' s (p m) A \<Longrightarrow> dumps h h' s (do { m \<leftarrow> gets mem; p m }) A" for p A
    using dumps_gets[where f = "\<lambda>m. m"] by (simp add: m)
  ultimately show ?thesis
    by (elim ssubst) (intro dumps_each[OF assms(1)] gets_pd
      dumps_if gets_m dump_page_dumps assms; simp add: m)
qed

lemma hex_string_decode: "hex_string (decode_hex v)"
proof -
  have "hex_string (hex_digits u w)" for u w by (induction u arbitrary: w) (auto simp: hex_string_def)
  moreover have "CHR ''0'' = hexdigit 0" by (simp add: hexdigit_def)
  ultimately show ?thesis by (auto simp: decode_hex_def hex_string_def Let_def case_prod_beta)
qed

lemma heading_reads: "reads h f ('';        '' @ concat (map (\<lambda>u. fmt_4x (of_nat u)) us) @ [CHR 0x0A]) {}" if "length us = 16"
proof -
  let ?x = "concat (map (\<lambda>u. fmt_4x (of_nat u)) us)"
  have "c \<in> set ?x \<Longrightarrow> c = CHR '' '' \<or> c = CHR '':'' \<or> (\<exists>v. c = hexdigit v)" for c
    using hex_string_decode by (auto simp: fmt_4x_def Let_def hex_string_def)
  from plain_chars[OF this] have "CHR 0x0A \<notin> set ?x" "CHR 0x00 \<notin> set ?x" by blast+
  moreover have "length (fmt_4x v) \<le> 8" for v using decode_hex_roundtrip[of v] by (auto simp: fmt_4x_def Let_def)
  then have "length ?x \<le> length us * 8" by (induction us) (simp_all add: add_mono)
  ultimately show ?thesis using that by (intro reads_comment) (auto simp: whole_line_def intro!: exI[of _ "'';        '' @ ?x"])
qed

lemma dump_memory_dumps:
  assumes "steady h" "flags AND X86EMU_DUMP_MEM \<noteq> 0" "flags AND X86EMU_DUMP_ATTR = 0" "flags AND X86EMU_DUMP_ASCII = 0" "mem_ok m"
    "\<And>a. attr m a AND X86EMU_ACC_INVALID = 0" and m: "mem s = m"
  shows "dumps h h' s (dump_memory h flags) (dumped m)"
proof -
  have title: "reads h' f (''; - - memory'' @ [CHR 0x0A]) {}" for f
    by (rule reads_comment) (auto simp: whole_line_def intro!: exI[of _ "''; - - memory''"])
  have blank: "reads h' f [CHR 0x0A] {}" for f
    using space_facts by (intro reads_comment) (auto simp: whole_line_def)
  have rest: "dumps h h' s (do { p; x86emu_log h [CHR 0x0A] }) A" if "dumps h h' s p A" for p A
    using dumps_bind[OF assms(1) that dumpsI[OF logs_log]] blank by (metis Un_empty_right concat.simps append_Nil2)
  let ?q = "do { for_each [0..<1024] (\<lambda>i. do {
       present \<leftarrow> gets (\<lambda>s. case mem_pdir (mem s) of None \<Rightarrow> False | Some pd \<Rightarrow> pd i \<noteq> None);
       if_then present (for_each [0..<1024] (\<lambda>j. do {
         m \<leftarrow> gets mem;
         if_then (pg_data (get_page m (i, j)) \<noteq> Null) (for_each [0..<256] (\<lambda>k. dump_line h flags 0 i j (16 * k)))
       }))
     }); x86emu_log h [CHR 0x0A] }"
  obtain ts where ts: "logs h s ts ?q" "reads h' (mem_byte (mem s)) (concat ts) (dumped m)"
    using rest[OF dump_pages_dumps[OF assms(1,3,5,6) m]] unfolding dumps_def by blast
  have "dump_memory h flags = do { x86emu_log h (''; - - memory'' @ [CHR 0x0A]); x86emu_log h '';        '';
      for_each [0..<16] (\<lambda>u. x86emu_log h (fmt_4x (of_nat u))); x86emu_log h [CHR 0x0A]; ?q }"
    using assms(2,4) by (simp only: dump_memory_def Let_def if_True if_False not_True_eq_False not_False_eq_True simp_thms)
  then have log: "logs h s ([''; - - memory'' @ [CHR 0x0A]] @ ['';        ''] @ concat (map (\<lambda>u. [fmt_4x (of_nat u)]) [0..<16]) @ [[CHR 0x0A]] @ ts)
      (dump_memory h flags)"
    by (rule ssubst) (intro logs_bind[OF assms(1)] logs_log logs_each[OF assms(1)] ts(1))
  have cc: "concat (concat (map (\<lambda>u. [fmt_4x (of_nat u)]) us)) = concat (map (\<lambda>u. fmt_4x (of_nat u)) us)" for us by (induction us) simp_all
  have "reads h' (mem_byte (mem s)) ((''; - - memory'' @ [CHR 0x0A]) @ ('';        '' @ concat (map (\<lambda>u. fmt_4x (of_nat u)) [0..<16]) @ [CHR 0x0A]) @ concat ts)
      ({} \<union> ({} \<union> dumped m))"
    by (intro reads_append title heading_reads ts(2)) simp
  then show ?thesis
    by (intro dumpsI[OF log]) (simp only: cc concat.simps concat_append append_assoc append_Nil append_Nil2 Un_empty_left append_Cons)
qed

end
