(* ===== verification/Read_Regs.thy ===== *)
theory Read_Regs
  imports Read_Back Hang
begin

text \<open>
  The lines of registers of a dump are read back as well: the text of \<^verbatim>\<open>x86emu_dump\<close>, given to
  \<^verbatim>\<open>vm_init\<close>, makes a new emulator with the same memory and the same registers.
\<close>

section \<open>A line of registers\<close>

text \<open>What a line is made of: the names, and the values in hexadecimal.\<close>

fun entries_text :: "(string \<times> string) list \<Rightarrow> string" where
  "entries_text [] = []"
| "entries_text [(n, d)] = n @ ''='' @ d"
| "entries_text ((n, d) # es) = n @ ''='' @ d @ '' '' @ entries_text es"

definition assign :: "string \<Rightarrow> string \<Rightarrow> x86emu \<Rightarrow> x86emu" where
  "assign n d = the (map_of reg_table (n @ ''='')) (of_nat (hex_val d))"

definition assigned :: "(string \<times> string) list \<Rightarrow> x86emu \<Rightarrow> x86emu" where
  "assigned es = fold (\<lambda>(n, d). assign n d) es"

definition entry :: "string \<Rightarrow> string \<Rightarrow> bool" where
  "entry n d \<longleftrightarrow> n @ ''='' \<in> set (map fst reg_table) \<and> hex_string d \<and> d \<noteq> [] \<and> length d \<le> 8"

lemma reg_names: "x \<in> set (map fst reg_table) \<Longrightarrow> butlast x \<noteq> [] \<and> length x \<le> 10 \<and>
    (\<forall>c\<in>set (butlast x). \<not> isspace c \<and> c \<notin> {CHR ''='', CHR '';'', CHR '':'', CHR 0x0A, CHR 0x00})"
proof -
  have "list_all (\<lambda>x. butlast x \<noteq> [] \<and> length x \<le> 10 \<and> list_all (\<lambda>c. \<not> isspace c \<and> c \<noteq> CHR ''='' \<and> c \<noteq> CHR '';'' \<and> c \<noteq> CHR '':'' \<and>
      c \<noteq> CHR 0x0A \<and> c \<noteq> CHR 0x00) (butlast x)) (map fst reg_table)"
    unfolding reg_table_def list.map fst_conv by code_simp
  then show "x \<in> set (map fst reg_table) \<Longrightarrow> butlast x \<noteq> [] \<and> length x \<le> 10 \<and>
      (\<forall>c\<in>set (butlast x). \<not> isspace c \<and> c \<notin> {CHR ''='', CHR '';'', CHR '':'', CHR 0x0A, CHR 0x00})"
    by (auto simp: list_all_iff)
qed

lemma entry_name: "entry n d \<Longrightarrow> n \<noteq> [] \<and> length n < 10 \<and> (\<forall>c\<in>set n. \<not> isspace c \<and> c \<notin> {CHR ''='', CHR '';'', CHR '':'', CHR 0x0A, CHR 0x00})"
  using reg_names[of "n @ ''=''"] by (simp add: entry_def)

lemma reg_assigns_entry:
  assumes "entry n d" "t = [] \<or> isspace (hd t)"
  shows "reg_assigns (n @ ''='' @ d @ t) s = reg_assigns (dropWhile isspace t) (assign n d s)"
proof -
  have n: "CHR ''='' \<notin> set n" using entry_name[OF assms(1)] by auto
  have "takeWhile (\<lambda>c. c \<noteq> CHR ''='') (n @ CHR ''='' # d @ t) = n" "dropWhile (\<lambda>c. c \<noteq> CHR ''='') (n @ CHR ''='' # d @ t) = CHR ''='' # d @ t"
    using n by (auto simp: takeWhile_append dropWhile_append)
  then have name: "strchr (n @ ''='' @ d @ t) (CHR ''='') = Some (n, CHR ''='' # d @ t)" by (simp add: strchr_def)
  have sp: "isspace c \<Longrightarrow> \<not> isxdigit c \<and> c \<notin> {CHR ''x'', CHR ''X''}" for c
    by (auto simp: isspace_def isxdigit_def digit_of_def code_def)
  have "t = [] \<or> \<not> isxdigit (hd t) \<and> hd t \<notin> {CHR ''x'', CHR ''X''}" using assms(2) sp by blast
  then have num: "strtoul (d @ t) 16 = (of_nat (hex_val d), t)"
    using strtoul_hex[of d "[]" t] assms(1) by (simp add: entry_def)
  have "n @ ''='' \<in> fst ` set reg_table" using assms(1) by (simp add: entry_def)
  then obtain f where f: "map_of reg_table (n @ ''='') = Some f" by (metis not_Some_eq map_of_eq_None_iff)
  have u: "ucast (of_nat k :: u64) = (of_nat k :: u32)" for k by (simp add: bit_eq_iff bit_simps)
  show ?thesis
    by (subst reg_assigns.simps) (use name num f u assms(2) in \<open>cases t; simp add: assign_def\<close>)
qed

lemma reg_assigns_nil: "reg_assigns [] s = (Some [], s)"
  by (subst reg_assigns.simps) (simp add: strchr_def)

lemma reg_assigns_entries:
  assumes "\<forall>(n, d)\<in>set es. entry n d" "es \<noteq> []" "t = [] \<or> isspace (hd t)"
  shows "reg_assigns (entries_text es @ t) s = reg_assigns (dropWhile isspace t) (assigned es s)"
  using assms
proof (induction es arbitrary: s rule: entries_text.induct)
  case (2 n d)
  then show ?case using reg_assigns_entry[of n d t s] by (simp add: assigned_def)
next
  case (3 n d e es)
  obtain m c where e: "e = (m, c)" by force
  obtain a r where m: "m = a # r" "\<not> isspace a" using entry_name[of m c] 3(2) e by (cases m) auto
  obtain y where y: "entries_text (e # es) = a # y" unfolding e by (cases es) (auto simp: m)
  have "reg_assigns (entries_text ((n, d) # e # es) @ t) s = reg_assigns (dropWhile isspace ('' '' @ entries_text (e # es) @ t)) (assign n d s)"
    using reg_assigns_entry[of n d "'' '' @ entries_text (e # es) @ t" s] 3(2) space_facts(1) by simp
  also have "dropWhile isspace ('' '' @ entries_text (e # es) @ t) = entries_text (e # es) @ t" using m(2) space_facts(1) by (simp add: y)
  also have "reg_assigns (entries_text (e # es) @ t) (assign n d s) = reg_assigns (dropWhile isspace t) (assigned (e # es) (assign n d s))"
    using 3 by simp
  finally show ?case by (simp add: assigned_def)
qed simp

text \<open>All of it has characters that are printed and are no comment.\<close>

lemma entries_chars:
  assumes "\<forall>(n, d)\<in>set es. entry n d" "c \<in> set (entries_text es)"
  shows "c \<noteq> CHR '';''" "c \<noteq> CHR '':''" "c \<noteq> CHR 0x0A" "c \<noteq> CHR 0x00"
proof -
  have d: "c \<in> set d \<Longrightarrow> c \<noteq> CHR '';'' \<and> c \<noteq> CHR '':'' \<and> c \<noteq> CHR 0x0A \<and> c \<noteq> CHR 0x00" if "entry n d" for n d
  proof -
    assume "c \<in> set d"
    moreover have "\<forall>c\<in>set d. \<exists>v. c = hexdigit v" using that by (simp add: entry_def hex_string_def)
    ultimately obtain v where "c = hexdigit v" by blast
    then show ?thesis using plain_chars[of c] hexdigit_facts(4)[of v] by auto
  qed
  have "c \<noteq> CHR '';'' \<and> c \<noteq> CHR '':'' \<and> c \<noteq> CHR 0x0A \<and> c \<noteq> CHR 0x00"
    using assms
  proof (induction es rule: entries_text.induct)
    case (2 n e)
    then show ?case using d[of n e] entry_name[of n e] by auto
  next
    case (3 n e f fs)
    then show ?case using d[of n e] entry_name[of n e] by auto
  qed simp
  then show "c \<noteq> CHR '';''" "c \<noteq> CHR '':''" "c \<noteq> CHR 0x0A" "c \<noteq> CHR 0x00" by simp_all
qed

lemma strtoul_set: "set (snd (strtoul s b)) \<subseteq> set s"
proof -
  have pick: "set r \<subseteq> set s \<Longrightarrow> set (snd (if x then (w, s) else (v, r))) \<subseteq> set s" for x r and w v :: u64 by simp
  have "set (tl t) \<subseteq> set t" for t :: string by (cases t) auto
  moreover have "set (dropWhile isspace s) \<subseteq> set s" by (auto dest: set_dropWhileD)
  ultimately have a: "set (if p then tl (dropWhile isspace s) else dropWhile isspace s) \<subseteq> set s" for p by (cases p) (simp_all, blast)
  have b: "set (drop n (if q then drop 2 u else u)) \<subseteq> set u" for q n and u :: string
    by (cases q) (simp_all only: if_True if_False drop_drop set_drop_subset)
  show ?thesis unfolding strtoul_def Let_def by (rule pick, rule order_trans[OF b a])
qed

lemma init_line_entries:
  assumes "\<forall>(n, d)\<in>set es. entry n d" "es \<noteq> []" "\<forall>c\<in>set t. isspace c" "v = [] \<or> hd v = CHR '';''"
  shows "init_line h (entries_text es @ t @ v) s = (True, assigned es s)"
proof -
  let ?x = "entries_text es @ t"
  have t: "CHR '';'' \<notin> set t" "CHR '':'' \<notin> set t" using assms(3) by (auto simp: isspace_def code_def)
  have "CHR '';'' \<notin> set ?x" "CHR '':'' \<notin> set ?x" using entries_chars[OF assms(1)] t by auto
  moreover have cut: "takeWhile (\<lambda>c. c \<noteq> CHR '';'') (?x @ v) = ?x"
  proof -
    have "takeWhile (\<lambda>c. c \<noteq> CHR '';'') (?x @ v) = ?x @ takeWhile (\<lambda>c. c \<noteq> CHR '';'') v"
      using \<open>CHR '';'' \<notin> set ?x\<close> by (intro takeWhile_append2) auto
    then show ?thesis using assms(4) by (cases v) auto
  qed
  obtain n d es' where es: "es = (n, d) # es'" using assms(2) by (cases es) auto
  obtain a r where n: "n = a # r" "\<not> isspace a" using entry_name[of n d] assms(1) es by (cases n) auto
  have x: "\<exists>y. ?x = a # y" unfolding es by (cases es') (auto simp: n)
  then have skip: "dropWhile isspace ?x = ?x" using n(2) by auto
  have no: "char_at (snd (strtoul ?x 16)) 0 \<noteq> CHR '':''"
    using strtoul_set[of ?x 16] \<open>CHR '':'' \<notin> set ?x\<close> by (cases "snd (strtoul ?x 16)") (auto simp: char_at_def)
  have blank: "dropWhile isspace t = []" using assms(3) by (simp add: dropWhile_eq_Nil_conv)
  have "t = [] \<or> isspace (hd t)" using assms(3) by (cases t) auto
  from reg_assigns_entries[OF assms(1,2) this, of s]
  have "reg_assigns ?x s = (Some [], assigned es s)" unfolding blank reg_assigns_nil .
  then have "init_line h (?x @ v) s = (True, assigned es s)"
    unfolding init_line_def cut Let_def skip using no x by (auto simp: case_prod_beta)
  then show ?thesis by simp
qed

section \<open>Texts of registers\<close>

text \<open>A text of whole lines that, read into any emulator, changes it as \<open>g\<close> does.\<close>

definition loads :: "host \<Rightarrow> string \<Rightarrow> (x86emu \<Rightarrow> x86emu) \<Rightarrow> bool" where
  "loads h t g \<longleftrightarrow> (\<exists>ls. t = concat ls \<and> (\<forall>l\<in>set ls. whole_line l) \<and> (\<forall>s. init_lines h ls s = (True, g s)))"

lemma loads_append:
  assumes "loads h t g" "loads h t' g'"
  shows "loads h (t @ t') (\<lambda>s. g' (g s))"
proof -
  obtain ls ls' where ls: "t = concat ls" "\<forall>l\<in>set ls. whole_line l" "\<And>s. init_lines h ls s = (True, g s)"
    "t' = concat ls'" "\<forall>l\<in>set ls'. whole_line l" "\<And>s. init_lines h ls' s = (True, g' s)"
    using assms unfolding loads_def by blast
  have "init_lines h (ls @ ls') s = (True, g' (g s))" for s using init_lines_append[OF ls(3), of ls' s] ls(6) by simp
  then show ?thesis unfolding loads_def using ls by (intro exI[of _ "ls @ ls'"]) auto
qed

lemma loads_line: "whole_line l \<Longrightarrow> (\<And>s. init_line h l s = (True, g s)) \<Longrightarrow> loads h l g"
  unfolding loads_def by (intro exI[of _ "[l]"]) simp

lemma loads_blank: "loads h [CHR 0x0A] (\<lambda>s. s)"
  using space_facts by (intro loads_line) (auto simp: whole_line_def init_line_def)

lemma loads_comment: "whole_line (CHR '';'' # t) \<Longrightarrow> loads h (CHR '';'' # t) (\<lambda>s. s)"
  by (intro loads_line) (auto simp: init_line_def)

lemma entries_length: "\<forall>(n, d)\<in>set es. entry n d \<Longrightarrow> length (entries_text es) \<le> 20 * length es"
proof (induction es rule: entries_text.induct)
  case (2 n d)
  then show ?case using entry_name[of n d] by (simp add: entry_def)
next
  case (3 n d e es)
  then show ?case using entry_name[of n d] by (simp add: entry_def)
qed simp

lemma loads_entries:
  assumes "\<forall>(n, d)\<in>set es. entry n d" "es \<noteq> []" "length es < 40"
  shows "loads h (entries_text es @ [CHR 0x0A]) (assigned es)"
proof (rule loads_line)
  have "length (entries_text es) < 1023" using entries_length[OF assms(1)] assms(3) by simp
  then show "whole_line (entries_text es @ [CHR 0x0A])"
    unfolding whole_line_def using entries_chars[OF assms(1)] by (intro exI[of _ "entries_text es"] conjI notI) auto
  show "init_line h (entries_text es @ [CHR 0x0A]) s = (True, assigned es s)" for s
    using init_line_entries[OF assms(1,2), of "[CHR 0x0A]" "[]" h s] space_facts by simp
qed

lemma loads_entries_comment:
  assumes "\<forall>(n, d)\<in>set es. entry n d" "es \<noteq> []" "length es < 40" "CHR 0x0A \<notin> set v" "CHR 0x00 \<notin> set v" "length v < 100"
  shows "loads h (entries_text es @ '' ;'' @ v @ [CHR 0x0A]) (assigned es)"
proof (rule loads_line)
  have "length (entries_text es @ '' ;'' @ v) < 1023" using entries_length[OF assms(1)] assms(3,6) by simp
  moreover have "CHR 0x0A \<notin> set (entries_text es @ '' ;'' @ v)" "CHR 0x00 \<notin> set (entries_text es @ '' ;'' @ v)"
    using entries_chars[OF assms(1)] assms(4,5) by auto
  ultimately show "whole_line (entries_text es @ '' ;'' @ v @ [CHR 0x0A])"
    unfolding whole_line_def by (intro exI[of _ "entries_text es @ '' ;'' @ v"]) (simp del: set_append)
  show "init_line h (entries_text es @ '' ;'' @ v @ [CHR 0x0A]) s = (True, assigned es s)" for s
    using init_line_entries[OF assms(1,2), of "'' ''" "'';'' @ v @ [CHR 0x0A]" h s] space_facts by simp
qed

text \<open>A line without a sign of equality that is no line of memory is not accepted; the lines of MSRs are such.\<close>

lemma line_rejected:
  assumes "CHR ''='' \<notin> set l" "CHR '';'' \<notin> set l" "CHR '':'' \<notin> set l" "dropWhile isspace l \<noteq> []"
  shows "init_line h l s = (False, s)"
proof -
  let ?t = "dropWhile isspace l"
  have sub: "set ?t \<subseteq> set l" by (auto dest: set_dropWhileD)
  have cut: "takeWhile (\<lambda>c. c \<noteq> CHR '';'') l = l" using assms(2) by (auto simp: takeWhile_eq_all_conv)
  have "char_at (snd (strtoul ?t 16)) 0 \<noteq> CHR '':''"
    using strtoul_set[of ?t 16] sub assms(3) by (cases "snd (strtoul ?t 16)") (auto simp: char_at_def)
  moreover have "reg_assigns ?t s = (Some ?t, s)" using sub assms(1) by (subst reg_assigns.simps) (auto simp: strchr_def)
  moreover have "dropWhile isspace ?t = ?t" by simp
  ultimately show ?thesis unfolding init_line_def cut Let_def using assms(4) by (simp add: case_prod_beta)
qed

section \<open>The registers\<close>

definition registers where
  "registers s = ((R_EAX s, R_EBX s, R_ECX s, R_EDX s, R_ESI s, R_EDI s, R_EBP s, R_ESP s), (R_EIP s, R_FLG s),
     (seg s 0, seg s 1, seg s 2, seg s 3, seg s 4, seg s 5, tr s, ldt s), (R_GDT_BASE s, R_GDT_LIMIT s, R_IDT_BASE s, R_IDT_LIMIT s),
     (crx s 0, crx s 1, crx s 2, crx s 3, crx s 4), (drx s 0, drx s 1, drx s 2, drx s 3, drx s 6, drx s 7))"

definition seg_entries :: "string \<Rightarrow> sel_t \<Rightarrow> (string \<times> string) list" where
  "seg_entries n sg = [(n, decode_hex4 (ucast (sel_sel sg))), (n @ ''.base'', decode_hex8 (sel_base sg)),
     (n @ ''.limit'', decode_hex8 (sel_limit sg)), (n @ ''.acc'', decode_hex4 (ucast (sel_acc sg)))]"

lemma seg_line_entries: "seg_line n sg = entries_text (seg_entries n sg) @ [CHR 0x0A]"
  by (simp add: seg_line_def seg_entries_def)

definition first_entries :: "x86emu \<Rightarrow> (string \<times> string) list list" where
  "first_entries s = [
     [(''cr0'', decode_hex8 (crx s 0)), (''cr1'', decode_hex8 (crx s 1)), (''cr2'', decode_hex8 (crx s 2)),
      (''cr3'', decode_hex8 (crx s 3)), (''cr4'', decode_hex8 (crx s 4))],
     [(''dr0'', decode_hex8 (drx s 0)), (''dr1'', decode_hex8 (drx s 1)), (''dr2'', decode_hex8 (drx s 2)),
      (''dr3'', decode_hex8 (drx s 3)), (''dr6'', decode_hex8 (drx s 6)), (''dr7'', decode_hex8 (drx s 7))],
     [(''gdt.base'', decode_hex8 (R_GDT_BASE s)), (''gdt.limit'', fmt_04x (R_GDT_LIMIT s))],
     [(''idt.base'', decode_hex8 (R_IDT_BASE s)), (''idt.limit'', fmt_04x (R_IDT_LIMIT s))]]"

definition last_entries :: "x86emu \<Rightarrow> (string \<times> string) list list" where
  "last_entries s = [
     [(''eax'', decode_hex8 (R_EAX s)), (''ebx'', decode_hex8 (R_EBX s)), (''ecx'', decode_hex8 (R_ECX s)), (''edx'', decode_hex8 (R_EDX s))],
     [(''esi'', decode_hex8 (R_ESI s)), (''edi'', decode_hex8 (R_EDI s)), (''ebp'', decode_hex8 (R_EBP s)), (''esp'', decode_hex8 (R_ESP s))],
     [(''eip'', decode_hex8 (R_EIP s)), (''eflags'', decode_hex8 (R_FLG s))]]"

lemma fixed_value: "of_nat (hex_val (decode_hex8 v)) = v" "of_nat (hex_val (fmt_04x v)) = v"
    "ucast (of_nat (hex_val (decode_hex4 (ucast w))) :: u32) = (w :: u16)" for v :: u32
proof -
  show "of_nat (hex_val (decode_hex8 v)) = v" by (simp add: hex_val_hex8)
  have "hex_val (replicate n (CHR ''0'')) = 0" for n by (induction n) (simp_all add: hex_val_Cons digit_val_def)
  then have "hex_val (fmt_04x v) = hex_val (decode_hex v)" by (simp add: fmt_04x_def Let_def hex_val_append)
  then show "of_nat (hex_val (fmt_04x v)) = v" using decode_hex_roundtrip[of v] by simp
  have "hex_val (decode_hex4 (ucast w)) = unat w" using unsigned_less[of w, where ?'a = nat] by (simp add: hex_val_fixed)
  then show "ucast (of_nat (hex_val (decode_hex4 (ucast w))) :: u32) = w" by (simp add: bit_eq_iff bit_simps)
qed

text \<open>What the table holds.\<close>

lemma table_distinct: "distinct (map fst reg_table)"
  unfolding reg_table_def list.map fst_conv by code_simp

lemma looked_up:
  "map_of reg_table ''eax='' = Some (\<lambda>u s. s\<lparr>R_EAX := u\<rparr>)"
  "map_of reg_table ''ebx='' = Some (\<lambda>u s. s\<lparr>R_EBX := u\<rparr>)"
  "map_of reg_table ''ecx='' = Some (\<lambda>u s. s\<lparr>R_ECX := u\<rparr>)"
  "map_of reg_table ''edx='' = Some (\<lambda>u s. s\<lparr>R_EDX := u\<rparr>)"
  "map_of reg_table ''esi='' = Some (\<lambda>u s. s\<lparr>R_ESI := u\<rparr>)"
  "map_of reg_table ''edi='' = Some (\<lambda>u s. s\<lparr>R_EDI := u\<rparr>)"
  "map_of reg_table ''ebp='' = Some (\<lambda>u s. s\<lparr>R_EBP := u\<rparr>)"
  "map_of reg_table ''esp='' = Some (\<lambda>u s. s\<lparr>R_ESP := u\<rparr>)"
  "map_of reg_table ''eip='' = Some (\<lambda>u s. s\<lparr>R_EIP := u\<rparr>)"
  "map_of reg_table ''eflags='' = Some (\<lambda>u s. s\<lparr>R_FLG := u\<rparr>)"
  "map_of reg_table ''cs='' = Some (\<lambda>u. set_seg R_CS_INDEX (\<lambda>e. e\<lparr>sel_sel := ucast u, sel_base := push_bit 4 (ucast (ucast u :: u16))\<rparr>))"
  "map_of reg_table ''ds='' = Some (\<lambda>u. set_seg R_DS_INDEX (\<lambda>e. e\<lparr>sel_sel := ucast u, sel_base := push_bit 4 (ucast (ucast u :: u16))\<rparr>))"
  "map_of reg_table ''es='' = Some (\<lambda>u. set_seg R_ES_INDEX (\<lambda>e. e\<lparr>sel_sel := ucast u, sel_base := push_bit 4 (ucast (ucast u :: u16))\<rparr>))"
  "map_of reg_table ''fs='' = Some (\<lambda>u. set_seg R_FS_INDEX (\<lambda>e. e\<lparr>sel_sel := ucast u, sel_base := push_bit 4 (ucast (ucast u :: u16))\<rparr>))"
  "map_of reg_table ''gs='' = Some (\<lambda>u. set_seg R_GS_INDEX (\<lambda>e. e\<lparr>sel_sel := ucast u, sel_base := push_bit 4 (ucast (ucast u :: u16))\<rparr>))"
  "map_of reg_table ''ss='' = Some (\<lambda>u. set_seg R_SS_INDEX (\<lambda>e. e\<lparr>sel_sel := ucast u, sel_base := push_bit 4 (ucast (ucast u :: u16))\<rparr>))"
  "map_of reg_table ''cs.base='' = Some (\<lambda>u. set_seg R_CS_INDEX (\<lambda>e. e\<lparr>sel_base := u\<rparr>))"
  "map_of reg_table ''ds.base='' = Some (\<lambda>u. set_seg R_DS_INDEX (\<lambda>e. e\<lparr>sel_base := u\<rparr>))"
  "map_of reg_table ''es.base='' = Some (\<lambda>u. set_seg R_ES_INDEX (\<lambda>e. e\<lparr>sel_base := u\<rparr>))"
  "map_of reg_table ''fs.base='' = Some (\<lambda>u. set_seg R_FS_INDEX (\<lambda>e. e\<lparr>sel_base := u\<rparr>))"
  "map_of reg_table ''gs.base='' = Some (\<lambda>u. set_seg R_GS_INDEX (\<lambda>e. e\<lparr>sel_base := u\<rparr>))"
  "map_of reg_table ''ss.base='' = Some (\<lambda>u. set_seg R_SS_INDEX (\<lambda>e. e\<lparr>sel_base := u\<rparr>))"
  "map_of reg_table ''cs.limit='' = Some (\<lambda>u. set_seg R_CS_INDEX (\<lambda>e. e\<lparr>sel_limit := u\<rparr>))"
  "map_of reg_table ''ds.limit='' = Some (\<lambda>u. set_seg R_DS_INDEX (\<lambda>e. e\<lparr>sel_limit := u\<rparr>))"
  "map_of reg_table ''es.limit='' = Some (\<lambda>u. set_seg R_ES_INDEX (\<lambda>e. e\<lparr>sel_limit := u\<rparr>))"
  "map_of reg_table ''fs.limit='' = Some (\<lambda>u. set_seg R_FS_INDEX (\<lambda>e. e\<lparr>sel_limit := u\<rparr>))"
  "map_of reg_table ''gs.limit='' = Some (\<lambda>u. set_seg R_GS_INDEX (\<lambda>e. e\<lparr>sel_limit := u\<rparr>))"
  "map_of reg_table ''ss.limit='' = Some (\<lambda>u. set_seg R_SS_INDEX (\<lambda>e. e\<lparr>sel_limit := u\<rparr>))"
  "map_of reg_table ''cs.acc='' = Some (\<lambda>u. set_seg R_CS_INDEX (\<lambda>e. e\<lparr>sel_acc := ucast u\<rparr>))"
  "map_of reg_table ''ds.acc='' = Some (\<lambda>u. set_seg R_DS_INDEX (\<lambda>e. e\<lparr>sel_acc := ucast u\<rparr>))"
  "map_of reg_table ''es.acc='' = Some (\<lambda>u. set_seg R_ES_INDEX (\<lambda>e. e\<lparr>sel_acc := ucast u\<rparr>))"
  "map_of reg_table ''fs.acc='' = Some (\<lambda>u. set_seg R_FS_INDEX (\<lambda>e. e\<lparr>sel_acc := ucast u\<rparr>))"
  "map_of reg_table ''gs.acc='' = Some (\<lambda>u. set_seg R_GS_INDEX (\<lambda>e. e\<lparr>sel_acc := ucast u\<rparr>))"
  "map_of reg_table ''ss.acc='' = Some (\<lambda>u. set_seg R_SS_INDEX (\<lambda>e. e\<lparr>sel_acc := ucast u\<rparr>))"
  "map_of reg_table ''tr='' = Some (\<lambda>u s. s\<lparr>tr := (tr s)\<lparr>sel_sel := ucast u\<rparr>\<rparr>)"
  "map_of reg_table ''tr.base='' = Some (\<lambda>u s. s\<lparr>tr := (tr s)\<lparr>sel_base := u\<rparr>\<rparr>)"
  "map_of reg_table ''tr.limit='' = Some (\<lambda>u s. s\<lparr>tr := (tr s)\<lparr>sel_limit := u\<rparr>\<rparr>)"
  "map_of reg_table ''tr.acc='' = Some (\<lambda>u s. s\<lparr>tr := (tr s)\<lparr>sel_acc := ucast u\<rparr>\<rparr>)"
  "map_of reg_table ''ldt='' = Some (\<lambda>u s. s\<lparr>ldt := (ldt s)\<lparr>sel_sel := ucast u\<rparr>\<rparr>)"
  "map_of reg_table ''ldt.base='' = Some (\<lambda>u s. s\<lparr>ldt := (ldt s)\<lparr>sel_base := u\<rparr>\<rparr>)"
  "map_of reg_table ''ldt.limit='' = Some (\<lambda>u s. s\<lparr>ldt := (ldt s)\<lparr>sel_limit := u\<rparr>\<rparr>)"
  "map_of reg_table ''ldt.acc='' = Some (\<lambda>u s. s\<lparr>ldt := (ldt s)\<lparr>sel_acc := ucast u\<rparr>\<rparr>)"
  "map_of reg_table ''gdt.base='' = Some (\<lambda>u s. s\<lparr>R_GDT_BASE := u\<rparr>)"
  "map_of reg_table ''gdt.limit='' = Some (\<lambda>u s. s\<lparr>R_GDT_LIMIT := u\<rparr>)"
  "map_of reg_table ''idt.base='' = Some (\<lambda>u s. s\<lparr>R_IDT_BASE := u\<rparr>)"
  "map_of reg_table ''idt.limit='' = Some (\<lambda>u s. s\<lparr>R_IDT_LIMIT := u\<rparr>)"
  "map_of reg_table ''cr0='' = Some (\<lambda>u s. s\<lparr>crx := (crx s)(0 := u)\<rparr>)"
  "map_of reg_table ''cr1='' = Some (\<lambda>u s. s\<lparr>crx := (crx s)(1 := u)\<rparr>)"
  "map_of reg_table ''cr2='' = Some (\<lambda>u s. s\<lparr>crx := (crx s)(2 := u)\<rparr>)"
  "map_of reg_table ''cr3='' = Some (\<lambda>u s. s\<lparr>crx := (crx s)(3 := u)\<rparr>)"
  "map_of reg_table ''cr4='' = Some (\<lambda>u s. s\<lparr>crx := (crx s)(4 := u)\<rparr>)"
  "map_of reg_table ''dr0='' = Some (\<lambda>u s. s\<lparr>drx := (drx s)(0 := u)\<rparr>)"
  "map_of reg_table ''dr1='' = Some (\<lambda>u s. s\<lparr>drx := (drx s)(1 := u)\<rparr>)"
  "map_of reg_table ''dr2='' = Some (\<lambda>u s. s\<lparr>drx := (drx s)(2 := u)\<rparr>)"
  "map_of reg_table ''dr3='' = Some (\<lambda>u s. s\<lparr>drx := (drx s)(3 := u)\<rparr>)"
  "map_of reg_table ''dr6='' = Some (\<lambda>u s. s\<lparr>drx := (drx s)(6 := u)\<rparr>)"
  "map_of reg_table ''dr7='' = Some (\<lambda>u s. s\<lparr>drx := (drx s)(7 := u)\<rparr>)"
  unfolding reg_table_def
  by (rule map_of_is_SomeI[OF table_distinct[unfolded reg_table_def]], (rule list.set_intros(1) | rule list.set_intros(2))+)+

lemma entry_iff: "entry n d \<longleftrightarrow> map_of reg_table (n @ ''='') \<noteq> None \<and> hex_string d \<and> d \<noteq> [] \<and> length d \<le> 8"
  unfolding entry_def map_of_eq_None_iff by simp

lemma values_ok: "hex_string (decode_hex8 v) \<and> decode_hex8 v \<noteq> [] \<and> length (decode_hex8 v) \<le> 8"
  "hex_string (decode_hex4 v) \<and> decode_hex4 v \<noteq> [] \<and> length (decode_hex4 v) \<le> 8"
  "hex_string (fmt_04x v) \<and> fmt_04x v \<noteq> [] \<and> length (fmt_04x v) \<le> 8"
proof -
  show "hex_string (decode_hex8 v) \<and> decode_hex8 v \<noteq> [] \<and> length (decode_hex8 v) \<le> 8"
    "hex_string (decode_hex4 v) \<and> decode_hex4 v \<noteq> [] \<and> length (decode_hex4 v) \<le> 8"
    using hex_string_formats by (simp_all add: decode_hex8_def decode_hex4_def)
  have "CHR ''0'' = hexdigit 0" by (simp add: hexdigit_def)
  then have "hex_string (replicate n (CHR ''0''))" for n by (auto simp: hex_string_def)
  moreover have "decode_hex v \<noteq> []" "length (decode_hex v) \<le> 8"
    using decode_hex_roundtrip[of v] by (auto simp: unsigned_eq_0_iff split: if_splits)
  ultimately show "hex_string (fmt_04x v) \<and> fmt_04x v \<noteq> [] \<and> length (fmt_04x v) \<le> 8"
    using hex_string_decode[of v] by (auto simp: fmt_04x_def Let_def hex_string_formats(5))
qed

lemma first_entries_ok: "\<forall>es\<in>set (first_entries s). (\<forall>(n, d)\<in>set es. entry n d) \<and> es \<noteq> [] \<and> length es < 40"
  by (simp add: first_entries_def entry_iff looked_up values_ok)

lemma last_entries_ok: "\<forall>es\<in>set (last_entries s). (\<forall>(n, d)\<in>set es. entry n d) \<and> es \<noteq> [] \<and> length es < 40"
  by (simp add: last_entries_def entry_iff looked_up values_ok)

lemma seg_entries_ok:
  assumes "n \<in> {''tr'', ''ldt'', ''cs'', ''ss'', ''ds'', ''es'', ''fs'', ''gs''}"
  shows "(\<forall>(n, d)\<in>set (seg_entries n sg). entry n d) \<and> seg_entries n sg \<noteq> [] \<and> length (seg_entries n sg) < 40"
  using assms by (elim insertE emptyE) (simp_all add: seg_entries_def entry_iff looked_up values_ok)

text \<open>What the lines of the registers \<open>r\<close> do to the state.\<close>

lemma assigned_first:
  "map assigned (first_entries r) = [
     \<lambda>s. s\<lparr>crx := (crx s)(0 := crx r 0, 1 := crx r 1, 2 := crx r 2, 3 := crx r 3, 4 := crx r 4)\<rparr>,
     \<lambda>s. s\<lparr>drx := (drx s)(0 := drx r 0, 1 := drx r 1, 2 := drx r 2, 3 := drx r 3, 6 := drx r 6, 7 := drx r 7)\<rparr>,
     \<lambda>s. s\<lparr>R_GDT_BASE := R_GDT_BASE r, R_GDT_LIMIT := R_GDT_LIMIT r\<rparr>,
     \<lambda>s. s\<lparr>R_IDT_BASE := R_IDT_BASE r, R_IDT_LIMIT := R_IDT_LIMIT r\<rparr>]"
  unfolding first_entries_def by (simp add: assigned_def assign_def looked_up fixed_value fun_eq_iff)

lemma assigned_last:
  "map assigned (last_entries r) = [
     \<lambda>s. s\<lparr>R_EAX := R_EAX r, R_EBX := R_EBX r, R_ECX := R_ECX r, R_EDX := R_EDX r\<rparr>,
     \<lambda>s. s\<lparr>R_ESI := R_ESI r, R_EDI := R_EDI r, R_EBP := R_EBP r, R_ESP := R_ESP r\<rparr>,
     \<lambda>s. s\<lparr>R_EIP := R_EIP r, R_FLG := R_FLG r\<rparr>]"
  unfolding last_entries_def by (simp add: assigned_def assign_def looked_up fixed_value fun_eq_iff)

lemma assigned_segs:
  "assigned (seg_entries ''cs'' sg) = (\<lambda>s. s\<lparr>seg := (seg s)(R_CS_INDEX := sg)\<rparr>)"
  "assigned (seg_entries ''ss'' sg) = (\<lambda>s. s\<lparr>seg := (seg s)(R_SS_INDEX := sg)\<rparr>)"
  "assigned (seg_entries ''ds'' sg) = (\<lambda>s. s\<lparr>seg := (seg s)(R_DS_INDEX := sg)\<rparr>)"
  "assigned (seg_entries ''es'' sg) = (\<lambda>s. s\<lparr>seg := (seg s)(R_ES_INDEX := sg)\<rparr>)"
  "assigned (seg_entries ''fs'' sg) = (\<lambda>s. s\<lparr>seg := (seg s)(R_FS_INDEX := sg)\<rparr>)"
  "assigned (seg_entries ''gs'' sg) = (\<lambda>s. s\<lparr>seg := (seg s)(R_GS_INDEX := sg)\<rparr>)"
  "assigned (seg_entries ''tr'' sg) = (\<lambda>s. s\<lparr>tr := sg\<rparr>)"
  "assigned (seg_entries ''ldt'' sg) = (\<lambda>s. s\<lparr>ldt := sg\<rparr>)"
  by (simp_all add: assigned_def seg_entries_def assign_def looked_up fixed_value set_seg_def fun_eq_iff)

section \<open>The whole dump is read back\<close>

lemma logs_get:
  assumes "\<And>l. p (s\<lparr>log_text := l\<rparr>) = p s" "logs h s ts (p s)"
  shows "logs h s ts (do { s \<leftarrow> gets id; p s })"
  using assms by (simp add: logs_def run_state_bind)

lemma logs_get_log:
  assumes "\<And>l. text (s\<lparr>log_text := l\<rparr>) = text s" "t = text s" "steady h" "logs h s ts q"
  shows "logs h s ([t] @ ts) (do { s \<leftarrow> gets id; x86emu_log h (text s); q })"
  by (rule logs_get[OF _ logs_bind[OF assms(3) _ assms(4)]]) (simp_all add: assms(1,2) logs_log)

lemma logs_if: "logs h s (if b then [t] else []) (if_then b (x86emu_log h t))"
  using logs_nil logs_log by (simp add: if_then_def)

text \<open>The program returns \<open>v\<close> and writes \<open>ts\<close>.\<close>

definition gives :: "host \<Rightarrow> x86emu \<Rightarrow> string list \<Rightarrow> 'a \<Rightarrow> 'a emu \<Rightarrow> bool" where
  "gives h s ts v p \<longleftrightarrow> (\<forall>l. run_state p (s\<lparr>log_text := l\<rparr>) = (v, snd (run_state (for_each ts (x86emu_log h)) (s\<lparr>log_text := l\<rparr>))))"

lemma gives_return: "gives h s [] v (return v)"
  by (simp add: gives_def)

lemma gives_logs: "logs h s ts p \<Longrightarrow> gives h s ts () p"
  by (simp add: logs_def gives_def prod_eq_iff)

lemma logs_gives: "gives h s ts () p \<Longrightarrow> logs h s ts p"
  by (simp add: logs_def gives_def prod_eq_iff)

lemma gives_bind:
  assumes "steady h" "gives h s ts v p" "gives h s ts' w (q v)"
  shows "gives h s (ts @ ts') w (do { x \<leftarrow> p; q x })"
proof -
  have "run_state (do { x \<leftarrow> p; q x }) (s\<lparr>log_text := l\<rparr>) = (w, snd (run_state (for_each (ts @ ts') (x86emu_log h)) (s\<lparr>log_text := l\<rparr>)))" for l
  proof -
    obtain l' where "run_state (for_each ts (x86emu_log h)) (s\<lparr>log_text := l\<rparr>) = ((), s\<lparr>log_text := l'\<rparr>)"
      using logs_only[OF assms(1), of ts "s\<lparr>log_text := l\<rparr>"] by auto
    then show ?thesis using assms(2,3) by (simp add: gives_def run_state_bind run_for_each_append)
  qed
  then show ?thesis by (simp add: gives_def)
qed

lemma gives_get:
  assumes "\<And>l. p (s\<lparr>log_text := l\<rparr>) = p s" "gives h s ts v (p s)"
  shows "gives h s ts v (do { s \<leftarrow> gets id; p s })"
  using assms by (simp add: gives_def run_state_bind)

lemma dump_msr_gives:
  assumes "steady h"
  shows "\<exists>ts v. gives h s ts v (dump_msr h flags u)"
proof -
  let ?real = "do { x86emu_log h '' ; real tsc''; s \<leftarrow> gets id;
      if_then (R_TSC s \<noteq> 0) (x86emu_log h ('', ratio='' @ host_ratio h (R_REAL_TSC s) (R_TSC s))) }"
  let ?tail = "if u = 0x10 then x86emu_log h '' ; tsc'' else if u = 0x11 then x86emu_log h '' ; real tsc (previous)''
      else if u = 0x12 then ?real else skip"
  have real: "\<exists>ts. logs h s ts ?real" by (rule exI, rule logs_bind[OF assms logs_log logs_get[OF _ logs_if]]) simp
  have pick: "\<exists>ts. logs h s ts (if b then p else q)" if "\<exists>ts. logs h s ts p" "\<exists>ts. logs h s ts q" for b and p q using that by simp
  have one: "\<exists>ts. logs h s ts (x86emu_log h t)" for t using logs_log by blast
  have none: "\<exists>ts. logs h s ts skip" using logs_nil by blast
  have "\<exists>ts. logs h s ts ?tail" by (intro pick real one none)
  then obtain tt where "logs h s tt ?tail" by blast
  note tail = gives_logs[OF this]
  have body: "gives h s (if b then [t] @ tt @ [[CHR 0x0A]] @ [] else []) b
      (if b then do { x86emu_log h t; ?tail; x86emu_log h [CHR 0x0A]; return True } else return False)" for b t
  proof (cases b)
    case True
    show ?thesis unfolding eqTrueI[OF True] if_True 
      by (rule gives_bind[OF assms gives_logs[OF logs_log]], rule gives_bind[OF assms tail],
        rule gives_bind[OF assms gives_logs[OF logs_log]], rule gives_return)
  qed (simp add: gives_return)
  show ?thesis unfolding dump_msr_def by (intro exI, rule gives_get[OF _ body]) simp
qed

lemma msrs_give: "steady h \<Longrightarrow> \<exists>ts v. gives h s ts v (for_any us (dump_msr h flags))"
proof (induction us)
  case Nil
  show ?case unfolding for_any.simps by (intro exI, rule gives_return)
next
  case (Cons u us)
  then obtain ts v ts' v' where one: "gives h s ts v (dump_msr h flags u)" and rest: "gives h s ts' v' (for_any us (dump_msr h flags))"
    using dump_msr_gives by blast
  have "gives h s (ts @ ts' @ []) (v \<or> v') (for_any (u # us) (dump_msr h flags))"
    unfolding for_any.simps by (intro gives_bind[OF Cons.prems one] gives_bind[OF Cons.prems rest] gives_return)
  then show ?case by blast
qed

abbreviation segs_shown :: "(string \<times> nat) list" where
  "segs_shown \<equiv> [(''cs'', R_CS_INDEX), (''ss'', R_SS_INDEX), (''ds'', R_DS_INDEX), (''es'', R_ES_INDEX), (''fs'', R_FS_INDEX)]"

lemma dump_regs_logs:
  assumes "steady h" "gives h s ms v (for_any [0..<0x800] (dump_msr h flags))" "first_entries s = [e0, e1, e2, e3]" "last_entries s = [e4, e5, e6]"
  shows "logs h s ([''; - - registers'' @ [CHR 0x0A]] @ ms @ (if v then [[CHR 0x0A]] else []) @ [entries_text e0 @ [CHR 0x0A]] @ [entries_text e1 @ [CHR 0x0A, CHR 0x0A]] @
      [entries_text e2 @ [CHR 0x0A]] @ [entries_text e3 @ [CHR 0x0A]] @ [seg_line ''tr'' (tr s)] @ [seg_line ''ldt'' (ldt s) @ [CHR 0x0A]] @
      concat (map (\<lambda>(n, i). [seg_line n (seg s i)]) segs_shown) @ [seg_line ''gs'' (seg s R_GS_INDEX) @ [CHR 0x0A]] @
      [entries_text e4 @ [CHR 0x0A]] @ [entries_text e5 @ [CHR 0x0A]] @ [entries_text e6] @
      (if flags_text (R_FLG s) \<noteq> [] then ['' ;'' @ flags_text (R_FLG s)] else []) @ [[CHR 0x0A, CHR 0x0A]])
    (dump_regs h flags)"
proof -
  have e: "e0 = first_entries s ! 0" "e1 = first_entries s ! 1" "e2 = first_entries s ! 2" "e3 = first_entries s ! 3"
    "e4 = last_entries s ! 0" "e5 = last_entries s ! 1" "e6 = last_entries s ! 2" by (simp_all add: assms(3,4))
  have seg: "logs h s ((\<lambda>(n, i). [seg_line n (seg s i)]) x) ((\<lambda>(n, i). do { s \<leftarrow> gets id; x86emu_log h (seg_line n (seg s i)) }) x)" for x
    by (cases x) (simp add: logs_get logs_log)
  have flags: "logs h s ((if flags_text (R_FLG s) \<noteq> [] then ['' ;'' @ flags_text (R_FLG s)] else []) @ [[CHR 0x0A, CHR 0x0A]])
      (do { s \<leftarrow> gets id; if_then (flags_text (R_FLG s) \<noteq> []) (x86emu_log h ('' ;'' @ flags_text (R_FLG s))); x86emu_log h [CHR 0x0A, CHR 0x0A] })"
    by (rule logs_get[OF _ logs_bind[OF assms(1) logs_if logs_log]]) simp
  show ?thesis unfolding dump_regs_def Let_def
    by (rule logs_bind[OF assms(1)], rule logs_log, rule logs_gives, rule gives_bind[OF assms(1,2)], rule gives_logs, rule logs_bind[OF assms(1)],
      rule logs_if)
      (intro logs_get_log logs_bind[OF assms(1)] logs_each[OF assms(1)] seg flags assms(1);
        simp add: e first_entries_def last_entries_def)
qed

lemma loads_seg:
  assumes "n \<in> {''tr'', ''ldt'', ''cs'', ''ss'', ''ds'', ''es'', ''fs'', ''gs''}"
  shows "loads h (seg_line n sg) (assigned (seg_entries n sg))"
  unfolding seg_line_entries using seg_entries_ok[OF assms, of sg] by (intro loads_entries) simp_all

lemma loads_flags:
  assumes "es \<in> set (last_entries s)"
  shows "loads h (entries_text es @ (if flags_text f \<noteq> [] then '' ;'' @ flags_text f else []) @ [CHR 0x0A]) (assigned es)"
proof -
  have es: "\<forall>(n, d)\<in>set es. entry n d" "es \<noteq> []" "length es < 40" using last_entries_ok[of s] assms by simp_all
  have "CHR 0x0A \<notin> set (flags_text f)" "CHR 0x00 \<notin> set (flags_text f)" by (simp_all add: flags_text_def)
  moreover have "length (flags_text f) < 100" using flag_count_le[of f] by (simp add: length_flags_text)
  ultimately show ?thesis using loads_entries_comment[OF es, of "flags_text f" h] loads_entries[OF es, of h] by simp
qed

lemma regs_loaded:
  assumes "steady h" "gives h s ms v (for_any [0..<0x800] (dump_msr h flags))"
  shows "\<exists>ts g. logs h s ([''; - - registers'' @ [CHR 0x0A]] @ ms @ ts) (dump_regs h flags) \<and> loads h' (concat ts) g \<and> (\<forall>t. registers (g t) = registers s \<and> mem (g t) = mem t)"
proof -
  obtain e0 e1 e2 e3 where e: "first_entries s = [e0, e1, e2, e3]" by (simp add: first_entries_def)
  obtain e4 e5 e6 where e': "last_entries s = [e4, e5, e6]" by (simp add: last_entries_def)
  have first: "loads h' (entries_text es @ [CHR 0x0A]) (assigned es)" if "es \<in> set (first_entries s)" for es
    using first_entries_ok[of s] that by (intro loads_entries) simp_all
  have last: "loads h' (entries_text es @ [CHR 0x0A]) (assigned es)" if "es \<in> set (last_entries s)" for es
    using last_entries_ok[of s] that by (intro loads_entries) simp_all
  let ?text = "(if v then [CHR 0x0A] else []) @ (entries_text e0 @ [CHR 0x0A]) @ (entries_text e1 @ [CHR 0x0A]) @ [CHR 0x0A] @
      (entries_text e2 @ [CHR 0x0A]) @ (entries_text e3 @ [CHR 0x0A]) @ seg_line ''tr'' (tr s) @ seg_line ''ldt'' (ldt s) @ [CHR 0x0A] @
      seg_line ''cs'' (seg s R_CS_INDEX) @ seg_line ''ss'' (seg s R_SS_INDEX) @ seg_line ''ds'' (seg s R_DS_INDEX) @
      seg_line ''es'' (seg s R_ES_INDEX) @ seg_line ''fs'' (seg s R_FS_INDEX) @ seg_line ''gs'' (seg s R_GS_INDEX) @ [CHR 0x0A] @
      (entries_text e4 @ [CHR 0x0A]) @ (entries_text e5 @ [CHR 0x0A]) @
      (entries_text e6 @ (if flags_text (R_FLG s) \<noteq> [] then '' ;'' @ flags_text (R_FLG s) else []) @ [CHR 0x0A]) @ [CHR 0x0A]"
  have blank: "loads h' (if v then [CHR 0x0A] else []) (\<lambda>s. s)" using loads_blank[of h'] by (cases v) (simp_all add: loads_def exI[of _ "[]"])
  note step = loads_append[OF first] loads_append[OF last] loads_append[OF loads_seg] loads_append[OF loads_blank] 
    loads_append[OF blank] loads_append[OF loads_flags[of _ s]]
  obtain g where g: "loads h' ?text g" "g = (\<lambda>t. assigned e6 (assigned e5 (assigned e4 (assigned (seg_entries ''gs'' (seg s R_GS_INDEX))
      (assigned (seg_entries ''fs'' (seg s R_FS_INDEX)) (assigned (seg_entries ''es'' (seg s R_ES_INDEX))
      (assigned (seg_entries ''ds'' (seg s R_DS_INDEX)) (assigned (seg_entries ''ss'' (seg s R_SS_INDEX))
      (assigned (seg_entries ''cs'' (seg s R_CS_INDEX)) (assigned (seg_entries ''ldt'' (ldt s)) (assigned (seg_entries ''tr'' (tr s))
      (assigned e3 (assigned e2 (assigned e1 (assigned e0 t)))))))))))))))"
    by (rule that[OF _ refl]) (intro step[THEN iffD1[OF refl]] loads_blank; simp add: e e')
  have f: "[assigned e0, assigned e1, assigned e2, assigned e3] = map assigned (first_entries s)"
    "[assigned e4, assigned e5, assigned e6] = map assigned (last_entries s)" by (simp_all add: e e')
  obtain ts where ts: "logs h s ([''; - - registers'' @ [CHR 0x0A]] @ ms @ ts) (dump_regs h flags)" "concat ts = ?text"
    by (rule that[OF dump_regs_logs[OF assms e e']]) simp
  have "registers (g t) = registers s \<and> mem (g t) = mem t" for t
    using f unfolding assigned_first assigned_last g(2) assigned_segs by (simp add: registers_def)
  with ts(1) g(1)[folded ts(2)] show ?thesis by blast
qed

lemma vm_new_state: "client (vm_new h hm hf hi opt)" "mem (vm_new h hm hf hi opt) = emu_mem_new 7 hm"
proof -
  have "sandboxed (x86emu_new h hm 7 0)" "mem (x86emu_new h hm 7 0) = emu_mem_new 7 hm" by simp_all
  then show "client (vm_new h hm hf hi opt)" "mem (vm_new h hm hf hi opt) = emu_mem_new 7 hm"
    using own_mem_new(1)[of hm] by (simp_all add: vm_new_def Let_def client_def x86emu_set_log_def x86emu_set_intr_handler_def sandboxed_def)
qed

lemma vm_init_lines: "\<forall>l\<in>set ls. whole_line l \<Longrightarrow> vm_init h (Some (concat ls)) s = init_lines h ls s"
  by (simp add: vm_init_def fgets_wholes)

lemma memory_logged:
  assumes "steady h" "mem_ok (mem s)" "\<And>a. attr (mem s) a AND X86EMU_ACC_INVALID = 0"
    and "flags AND X86EMU_DUMP_MEM \<noteq> 0" "flags AND X86EMU_DUMP_ATTR = 0" "flags AND X86EMU_DUMP_ASCII = 0"
  shows "dumps h h' s (if_then (mem_pdir (mem s) \<noteq> None) (dump_memory h flags)) (dumped (mem s))"
proof -
  have "dumped (mem s) = (if mem_pdir (mem s) \<noteq> None then dumped (mem s) else {})" by (auto simp: dumped_def get_page_def null_page_def)
  moreover have "dumps h h' s (if_then (mem_pdir (mem s) \<noteq> None) (dump_memory h flags)) (if mem_pdir (mem s) \<noteq> None then dumped (mem s) else {})"
    by (rule dumps_if) (rule dump_memory_dumps[OF assms(1,4-6,2,3) refl])
  ultimately show ?thesis by simp
qed

text \<open>
  C10. A dump of the memory and the registers, as \<^verbatim>\<open>vm_dump\<close> of the test driver makes it, is a file that
  \<^verbatim>\<open>vm_init\<close> reads, but for the lines \<open>ms\<close> of the model specific registers, which it does not know: the new
  emulator has every register of the dumped one, the addresses shown are the initialised ones
  and hold the same bytes. No invalid access was made in the dumped memory (the dump marks one with
  an asterisk).
\<close>

theorem dump_read_back:
  assumes "steady h" "mem_ok (mem s)" "\<forall>a. attr (mem s) a AND X86EMU_ACC_INVALID = 0"
  shows "\<exists>ts ms rs t. (\<exists>v. gives h s ms v (for_any [0..<0x800] (dump_msr h (X86EMU_DUMP_MEM OR X86EMU_DUMP_REGS)))) \<and>
    run_state (x86emu_dump h (X86EMU_DUMP_MEM OR X86EMU_DUMP_REGS)) s = run_state (for_each (ts @ ms @ rs) (x86emu_log h)) s \<and>
    vm_init h' (Some (concat (ts @ rs))) (vm_new h' hm hf hi opt) = (True, t) \<and> registers t = registers s \<and>
    filled (mem t) = dumped (mem s) \<and> (\<forall>a\<in>dumped (mem s). mem_byte (mem t) a = mem_byte (mem s) a)"
proof -
  let ?f = "X86EMU_DUMP_MEM OR X86EMU_DUMP_REGS" and ?n = "vm_new h' hm hf hi opt"
  have inv: "attr (mem s) a AND X86EMU_ACC_INVALID = 0" for a using assms(3) by blast
  have flags: "?f AND X86EMU_DUMP_MEM \<noteq> 0" "?f AND X86EMU_DUMP_ATTR = 0" "?f AND X86EMU_DUMP_ASCII = 0" by simp_all
  obtain ms v where ms: "gives h s ms v (for_any [0..<0x800] (dump_msr h ?f))" using msrs_give[OF assms(1)] by blast
  obtain ts ls where ts: "logs h s ts (if_then (mem_pdir (mem s) \<noteq> None) (dump_memory h ?f))" "concat ts = concat ls" "\<forall>l\<in>set ls. whole_line l"
    "\<exists>u. init_lines h' ls ?n = (True, u) \<and> puts (mem_byte (mem s)) (dumped (mem s)) ?n u"
    using memory_logged[OF assms(1,2) inv flags, of h'] vm_new_state(1) unfolding dumps_def reads_def by metis
  let ?title = "''; - - registers'' @ [CHR 0x0A]"
  obtain rs ls' g where rs: "logs h s ([?title] @ ms @ rs) (dump_regs h ?f)" "concat rs = concat ls'" "\<forall>l\<in>set ls'. whole_line l"
    "\<And>t. init_lines h' ls' t = (True, g t)" "\<And>t. registers (g t) = registers s \<and> mem (g t) = mem t"
    using regs_loaded[OF assms(1) ms, of h'] unfolding loads_def by metis
  have title: "whole_line ?title" "\<And>t. init_line h' ?title t = (True, t)" by (auto simp: whole_line_def init_line_def intro!: exI[of _ "''; - - registers''"])
  obtain u where u: "init_lines h' ls ?n = (True, u)" "puts (mem_byte (mem s)) (dumped (mem s)) ?n u" using ts(4) by blast
  have "logs h s (ts @ [?title] @ ms @ rs) (x86emu_dump h ?f)"
    using logs_bind[OF assms(1) ts(1) rs(1)] by (simp add: x86emu_dump_def logs_def run_state_bind if_then_def)
  then have "run_state (x86emu_dump h ?f) s = run_state (for_each ((ts @ [?title]) @ ms @ rs) (x86emu_log h)) s"
    unfolding logs_def using log_text_same[of s] by (metis append.assoc)
  moreover have "vm_init h' (Some (concat ((ts @ [?title]) @ rs))) ?n = (True, g u)"
    using vm_init_lines[of "ls @ [?title] @ ls'" h' ?n] ts(2,3) rs(2-4) title init_lines_append[OF u(1), of "[?title] @ ls'"] by auto
  moreover have "filled (mem (g u)) = dumped (mem s)" "\<forall>a\<in>dumped (mem s). mem_byte (mem (g u)) a = mem_byte (mem s) a"
    using u(2) rs(5) own_mem_new(2)[of hm] by (auto simp: puts_def vm_new_state(2) override_on_def)
  ultimately show ?thesis using rs(5) ms by blast
qed

lemma hlt_dumped: "0xffff0 \<in> dumped (mem hlt_emu)" "mem_byte (mem hlt_emu) 0xffff0 = 0xf4" "mem_ok (mem hlt_emu)"
  "attr (mem hlt_emu) a AND X86EMU_ACC_INVALID = 0"
proof -
  let ?n = "emu_mem_new 7 (\<lambda>_. 0)"
  have m: "mem hlt_emu = vm_w_byte ?n 0xffff0 0xf4" by (simp add: hlt_emu_def)
  have ok: "mem_ok (mem hlt_emu)" and abs: "abs_mem (mem hlt_emu) = flat_w_byte (abs_mem ?n) 0xffff0 0xf4"
    using vm_store_byte[of ?n "0xffff0" "0xf4"] abs_emu_mem_new(1) unfolding m by simp_all
  then show "mem_ok (mem hlt_emu)" "mem_byte (mem hlt_emu) 0xffff0 = 0xf4" "attr (mem hlt_emu) a AND X86EMU_ACC_INVALID = 0"
    by (simp_all add: mem_byte_def flat_w_byte_def abs_emu_mem_new)
  have "live (mem hlt_emu) (ptr_of 0xffff0)"
    unfolding m vm_w_byte_def using live_vm_get_page[of ?n "0xffff0"] abs_emu_mem_new(1) by (simp add: case_prod_beta Let_def vm_get_page_simps)
  then have "pg_data (get_page (mem hlt_emu) (ptr_of 0xffff0)) \<noteq> Null" using mem_okD[OF ok, of "ptr_of 0xffff0"] by (simp add: live_def)
  then show "0xffff0 \<in> dumped (mem hlt_emu)" using abs by (simp add: dumped_def flat_w_byte_def abs_emu_mem_new)
qed

lemma dump_read_back_witness:
  "\<exists>ts t. vm_init idle_host (Some (concat ts)) (vm_new idle_host (\<lambda>_. 0) 1 2 \<lparr>verbose = 0, inst_max = 0, trace_flags = 0, dump_flags = 0, print_to_stderr = False\<rparr>) = (True, t) \<and>
    R_EIP t = 0xfff0 \<and> mem_byte (mem t) 0xffff0 = 0xf4"
proof -
  have "steady idle_host" by (simp add: steady_def idle_host_def)
  moreover have "R_EIP t = R_EIP hlt_emu" if "registers t = registers hlt_emu" for t using that by (simp add: registers_def)
  ultimately show ?thesis
    using dump_read_back[of idle_host hlt_emu idle_host "\<lambda>_. 0" 1 2 "\<lparr>verbose = 0, inst_max = 0, trace_flags = 0, dump_flags = 0, print_to_stderr = False\<rparr>"]
      hlt_dumped hlt_emu_fields(4) by metis
qed

end
