(* ===== verification/Demo.thy ===== *)
theory Demo
  imports Clib Run
begin

text \<open>
  The demonstration program \<^verbatim>\<open>demo/x86emu-demo.c\<close>, a client of the library: it loads a file into
  the memory of an emulator, dumps it, runs it and dumps what has changed. A file is the list of
  its bytes, or \<open>None\<close> when it cannot be opened.
\<close>

section \<open>Options\<close>

record demo_opt =
  start_segment :: u32
  start_offset :: u32
  load_at :: u32
  max_instructions :: u32
  bits_32 :: bool

definition demo_defaults :: demo_opt where
  "demo_defaults = \<lparr>start_segment = 0, start_offset = 0x7c00, load_at = 0x7c00, max_instructions = 10000000, bits_32 = False\<rparr>"

text \<open>The argument of \<^verbatim>\<open>--start\<close>: an offset, or a segment, a colon and an offset.\<close>

definition start_option :: "string \<Rightarrow> demo_opt \<Rightarrow> demo_opt" where
  "start_option arg opt =
     (case strtoul arg 0 of (u, str) \<Rightarrow>
       let opt = opt\<lparr>start_offset := ucast u\<rparr>
       in if char_at str 0 = CHR '':'' then
            opt\<lparr>start_segment := start_offset opt, start_offset := ucast (fst (strtoul (tl str) 0))\<rparr>
          else opt)"

text \<open>
  The loop over the options, on the codes and arguments \<^verbatim>\<open>getopt_long\<close> returns: the exit
  code of an early end, or the options.
\<close>

fun demo_options :: "(nat \<times> string) list \<Rightarrow> demo_opt \<Rightarrow> demo_opt outcome" where
  "demo_options [] opt = Options opt"
| "demo_options ((i, arg) # is) opt =
     (if i = code (CHR ''m'') then demo_options is (opt\<lparr>max_instructions := ucast (fst (strtoul arg 0))\<rparr>)
      else if i = code (CHR ''l'') then demo_options is (opt\<lparr>load_at := ucast (fst (strtoul arg 0))\<rparr>)
      else if i = code (CHR ''s'') then demo_options is (start_option arg opt)
      else if i = 1001 then demo_options is (opt\<lparr>bits_32 := True\<rparr>)
      else Exit (if i = code (CHR ''h'') then 0 else 1))"

section \<open>The emulator\<close>

text \<open>\<open>hf\<close> is the number of the handler \<^verbatim>\<open>flush_log\<close>.\<close>

definition emu_new :: "host \<Rightarrow> (nat \<Rightarrow> u8) \<Rightarrow> nat \<Rightarrow> x86emu" where
  "emu_new h hm hf =
     (let emu = x86emu_new h hm (ucast (X86EMU_PERM_R OR X86EMU_PERM_W OR X86EMU_PERM_X)) 0;
          emu = snd (run_state (x86emu_set_log 1000000 (Some hf)) emu)
      in emu\<lparr>log_trace := 0x37\<rparr>)"

text \<open>The loop that writes the bytes of the file.\<close>

fun load_bytes :: "host \<Rightarrow> u32 \<Rightarrow> u8 list \<Rightarrow> x86emu \<Rightarrow> x86emu" where
  "load_bytes h addr [] emu = emu"
| "load_bytes h addr (b # bs) emu = load_bytes h (addr + 1) bs (x86emu_write_byte h emu addr (ucast b))"

definition all_limits :: "u32 \<Rightarrow> x86emu \<Rightarrow> x86emu" where
  "all_limits v s = s\<lparr>seg := (\<lambda>n. if n \<in> {R_CS_INDEX, R_DS_INDEX, R_ES_INDEX, R_FS_INDEX, R_GS_INDEX, R_SS_INDEX}
     then (seg s n)\<lparr>sel_limit := v\<rparr> else seg s n)\<rparr>"

definition emu_init :: "host \<Rightarrow> demo_opt \<Rightarrow> u8 list option \<Rightarrow> x86emu \<Rightarrow> bool \<times> x86emu" where
  "emu_init h opt file emu =
     (let emu = snd (run_state (x86emu_set_seg_register h (Seg R_CS_INDEX) (ucast (start_segment opt))) emu);
          emu = emu\<lparr>R_EIP := start_offset opt\<rparr>;
          emu = (if bits_32 opt then
              all_limits (NOT 0) (emu\<lparr>seg := (seg emu)(R_CS_INDEX := (seg emu R_CS_INDEX)\<lparr>sel_acc := sel_acc (seg emu R_CS_INDEX) OR 0x400\<rparr>)\<rparr>)
            else emu)
      in case file of None \<Rightarrow> (False, emu) | Some bytes \<Rightarrow> (True, load_bytes h (load_at opt) bytes emu))"

abbreviation (input) X86EMU_DUMP_DEFAULT :: u32 where "X86EMU_DUMP_DEFAULT \<equiv> 0x1f9"

text \<open>The run, up to \<^verbatim>\<open>x86emu_done\<close>; \<open>None\<close> for one that does not end.\<close>

definition emu_run :: "host \<Rightarrow> (nat \<Rightarrow> u8) \<Rightarrow> nat \<Rightarrow> demo_opt \<Rightarrow> u8 list option \<Rightarrow> x86emu option" where
  "emu_run h hm hf opt file =
     (case emu_init h opt file (emu_new h hm hf) of (ok, emu) \<Rightarrow>
       if ok then
         (let emu = snd (run_state (x86emu_dump h (X86EMU_DUMP_MEM OR X86EMU_DUMP_ASCII)) emu);
              emu = emu\<lparr>mem := x86emu_reset_access_stats (mem emu), max_instr := ucast (max_instructions opt)\<rparr>
          in case x86emu_run h (X86EMU_RUN_MAX_INSTR OR X86EMU_RUN_NO_EXEC OR X86EMU_RUN_NO_CODE OR X86EMU_RUN_LOOP) emu of
               None \<Rightarrow> None
             | Some (_, emu) \<Rightarrow> Some (snd (run_state (do {
                 x86emu_dump h (X86EMU_DUMP_DEFAULT OR X86EMU_DUMP_ACC_MEM);
                 x86emu_clear_log h True
               }) emu)))
       else Some emu)"

text \<open>The program, on its options, its other arguments and the files: the exit code and the emulator at its end.\<close>

definition demo_main :: "host \<Rightarrow> (nat \<Rightarrow> u8) \<Rightarrow> nat \<Rightarrow> (nat \<times> string) list \<Rightarrow> string list \<Rightarrow> (string \<Rightarrow> u8 list option) \<Rightarrow>
    (nat \<times> x86emu option) option" where
  "demo_main h hm hf is args files =
     (case demo_options is demo_defaults of
        Exit n \<Rightarrow> Some (n, None)
      | Options opt \<Rightarrow>
          (case args of
             [file] \<Rightarrow> map_option (\<lambda>emu. (0, Some emu)) (emu_run h hm hf opt (files file))
           | _ \<Rightarrow> Some (1, None)))"

section \<open>What is loaded\<close>

definition load_addrs :: "u32 \<Rightarrow> nat \<Rightarrow> u32 set" where
  "load_addrs addr n = {addr + of_nat i | i. i < n}"

lemma load_addrs_Suc: "load_addrs addr (Suc n) = insert addr (load_addrs (addr + 1) n)"
proof -
  have "load_addrs a n = (\<lambda>i. a + of_nat i) ` {..<n}" for a n by (auto simp: load_addrs_def)
  then show ?thesis by (simp add: lessThan_Suc_eq_insert_0 image_image add.assoc)
qed

lemma load_bytes_puts:
  assumes "client s" "\<And>i. i < length bs \<Longrightarrow> f (addr + of_nat i) = bs ! i"
  shows "puts f (load_addrs addr (length bs)) s (load_bytes h addr bs s)"
  using assms
proof (induction bs arbitrary: addr s)
  case Nil
  then show ?case by (simp add: load_addrs_def puts_refl)
next
  case (Cons b bs)
  let ?t = "x86emu_write_byte h s addr (ucast b)"
  have one: "puts f {addr} s ?t" using Cons.prems(2)[of 0] by (intro puts_write[OF Cons.prems(1)]) simp
  have "f (addr + 1 + of_nat i) = bs ! i" if "i < length bs" for i using Cons.prems(2)[of "Suc i"] that by (simp add: add.assoc)
  then have "puts f (load_addrs (addr + 1) (length bs)) ?t (load_bytes h (addr + 1) bs ?t)"
    by (rule Cons.IH[OF puts_client[OF one Cons.prems(1)]])
  then show ?case using puts_trans[OF one] by (simp add: load_addrs_Suc)
qed

lemma emu_new_state: "client (emu_new h hm hf)" "mem (emu_new h hm hf) = emu_mem_new 7 hm" "seg (emu_new h hm hf) = reset_seg" "MODE_REAL (emu_new h hm hf)"
proof -
  have "sandboxed (x86emu_new h hm 7 0)" "mem (x86emu_new h hm 7 0) = emu_mem_new 7 hm" by simp_all
  then show "client (emu_new h hm hf)" "mem (emu_new h hm hf) = emu_mem_new 7 hm" "seg (emu_new h hm hf) = reset_seg"
    using own_mem_new(1)[of hm] by (simp_all add: emu_new_def Let_def client_def x86emu_set_log_def sandboxed_def)
  have "MODE_REAL (x86emu_new h hm 7 0)" using x86emu_new_state[of h hm 7 0] x86emu_reset_regs by (auto simp: MODE_PROTECTED_def)
  then show "MODE_REAL (emu_new h hm hf)" by (simp add: emu_new_def Let_def x86emu_set_log_def MODE_PROTECTED_def)
qed

text \<open>
  C15. The demonstration program sets its emulator up as the options say: the file, of at most 4 GB, is in
  the memory from the load address on, byte by byte and around the end of the address space, no other
  address is initialised, and the processor is in real mode at the start address, with 32-bit code on demand.
\<close>

theorem demo_loads:
  assumes "length bs \<le> 2 ^ 32"
  shows "\<exists>s. emu_init h opt (Some bs) (emu_new h hm hf) = (True, s) \<and>
    filled (mem s) = {load_at opt + of_nat i | i. i < length bs} \<and> (\<forall>i<length bs. mem_byte (mem s) (load_at opt + of_nat i) = bs ! i) \<and>
    MODE_REAL s \<and> R_CS s = ucast (start_segment opt) \<and> sel_base (seg s R_CS_INDEX) = push_bit 4 (ucast (R_CS s)) \<and>
    R_EIP s = start_offset opt \<and> ACC_D (R_CS_ACC s) = bits_32 opt \<and> (bits_32 opt \<longrightarrow> (\<forall>n<6. sel_limit (seg s n) = 0xffffffff))"
proof -
  let ?n = "emu_new h hm hf"
  define u where "u = snd (emu_init h opt None ?n)"
  have set: "run_state (x86emu_set_seg_register h (Seg n) v) ?n = ((), ?n\<lparr>seg := (seg ?n)(n := (seg ?n n)\<lparr>sel_sel := v, sel_base := push_bit 4 (ucast v)\<rparr>)\<rparr>)" for n v
    using emu_new_state(4) by (simp add: x86emu_set_seg_register_def emu_run put_sel_def)
  have six: "n \<in> {R_CS_INDEX, R_DS_INDEX, R_ES_INDEX, R_FS_INDEX, R_GS_INDEX, R_SS_INDEX}" if "n < 6" for n :: nat using that by auto
  have bit: "bit (x OR 0x400) 10" "\<not> bit (0x9b :: u16) 10" for x :: u16 by (simp_all add: bit_simps)
  have u: "MODE_REAL u" "R_CS u = ucast (start_segment opt)" "sel_base (seg u R_CS_INDEX) = push_bit 4 (ucast (R_CS u))"
    "R_EIP u = start_offset opt" "ACC_D (R_CS_ACC u) = bits_32 opt" "bits_32 opt \<longrightarrow> (\<forall>n<6. sel_limit (seg u n) = 0xffffffff)"
    "client u" "mem u = emu_mem_new 7 hm"
    using emu_new_state six bit by (auto simp: u_def emu_init_def Let_def set all_limits_def MODE_PROTECTED_def ACC_D_def reset_seg_def client_def)
  define f where "f a = (if unat (a - load_at opt) < length bs then bs ! unat (a - load_at opt) else 0)" for a
  have f: "f (load_at opt + of_nat i) = bs ! i" if "i < length bs" for i
  proof -
    have "unat (of_nat i :: u32) = i" unfolding unsigned_of_nat of_nat_id using that assms by (intro take_bit_nat_eq_self) simp
    then show ?thesis using that by (simp add: f_def)
  qed
  obtain m where m: "load_bytes h (load_at opt) bs u = u\<lparr>mem := m\<rparr>" "mem_byte m = override_on (mem_byte (mem u)) f (load_addrs (load_at opt) (length bs))"
    "filled m = filled (mem u) \<union> load_addrs (load_at opt) (length bs)"
    using load_bytes_puts[OF u(7) f, of h] unfolding puts_def by blast
  have "emu_init h opt (Some bs) ?n = (True, u\<lparr>mem := m\<rparr>)" using m(1) by (simp add: emu_init_def u_def Let_def)
  moreover have "mem_byte m (load_at opt + of_nat i) = bs ! i" if "i < length bs" for i
    using f[OF that] that unfolding m(2) by (auto simp: override_on_def load_addrs_def)
  moreover have "filled m = {load_at opt + of_nat i | i. i < length bs}" unfolding m(3) u(8) own_mem_new(2) by (simp add: load_addrs_def)
  ultimately show ?thesis using u(1-6) by (intro exI[of _ "u\<lparr>mem := m\<rparr>"]) (simp add: MODE_PROTECTED_def)
qed

lemma demo_loads_witness:
  "\<exists>s. emu_init idle_host (start_option ''0xf000:0xfff0'' demo_defaults\<lparr>load_at := 0xffff0\<rparr>) (Some [0xf4]) (emu_new idle_host (\<lambda>_. 0) 1) = (True, s) \<and>
    mem_byte (mem s) 0xffff0 = 0xf4 \<and> R_CS s = 0xf000 \<and> R_EIP s = 0xfff0"
proof -
  have num: "strtoul ''0xf000:0xfff0'' 0 = (0xf000, '':0xfff0'')" "strtoul ''0xfff0'' 0 = (0xfff0, [])"
    by (simp_all add: strtoul_def Let_def isspace_def code_def digit_of_def char_at_def hex_prefix_def isxdigit_def number_def)
  define opt where "opt = start_option ''0xf000:0xfff0'' demo_defaults\<lparr>load_at := 0xffff0\<rparr>"
  have "start_segment opt = 0xf000" "start_offset opt = 0xfff0" "load_at opt = 0xffff0"
    by (simp_all add: opt_def start_option_def num char_at_def demo_defaults_def)
  then show ?thesis using demo_loads[of "[0xf4]" idle_host opt "\<lambda>_. 0" 1] unfolding opt_def[symmetric] by auto
qed

end
